(* ===== verification/CRM_Prelude.thy ===== *)
theory CRM_Prelude
  imports Complex_Main "HOL-Library.Log_Nat"
begin

text \<open>
  The shared layer of the development: the collections of simplification and frame facts, the
  failures a request can end in, the fragment of the JavaScript string and number library the
  source uses, and the operations Prisma offers on one table.

  Strings are the Latin-1 fragment of JavaScript strings: a \<open>char\<close> is one UTF-16 code unit
  below 256, so \<open>length\<close> is JavaScript's \<open>length\<close>.  A table is the list of its rows in the
  order of insertion, which is the order of \<open>createdAt\<close>.
\<close>

named_theorems table_simps \<open>facts about the operations of one table\<close>
named_theorems frame \<open>which tables an operation leaves alone\<close>

section \<open>Failures\<close>

text \<open>
  A NestJS exception is its HTTP status and the \<open>code\<close> of its body.  The two other
  constructors are what Prisma throws: a unique index violated (\<open>P2002\<close>), and an exception
  raised by a CHECK constraint or a trigger, named by the constraint.
\<close>

datatype http_status =
    BadRequest
  | Unauthorized
  | Forbidden
  | NotFound
  | Conflict
  | PayloadTooLarge
  | UnprocessableEntity
  | PreconditionRequired
  | InternalServerError
  | ServiceUnavailable

datatype failure =
    Http http_status string
  | UniqueConstraint
  | DatabaseError string
  | ExternalError string

type_synonym uuid = string
type_synonym time = int
type_synonym cents = int

section \<open>Sums as results\<close>

lemma sum_case_Inr_iff [table_simps]:
  "(case r of Inl e \<Rightarrow> Inl e | Inr a \<Rightarrow> f a) = Inr b \<longleftrightarrow> (\<exists>a. r = Inr a \<and> f a = Inr b)"
  by (cases r) auto

lemma sum_case_Inl_iff:
  "(case r of Inl e \<Rightarrow> Inl e | Inr a \<Rightarrow> f a) = Inl d \<longleftrightarrow>
     r = Inl d \<or> (\<exists>a. r = Inr a \<and> f a = Inl d)"
  by (cases r) auto

lemma if_Inl_Inr_iff [table_simps]:
  "(if b then Inl e else r) = Inr a \<longleftrightarrow> \<not> b \<and> r = Inr a"
  "(if b then r else Inl e) = Inr a \<longleftrightarrow> b \<and> r = Inr a"
  by auto

lemma option_case_Inr_iff [table_simps]:
  "(case x of None \<Rightarrow> Inl e | Some y \<Rightarrow> f y) = Inr a \<longleftrightarrow> (\<exists>y. x = Some y \<and> f y = Inr a)"
  by (cases x) auto

lemma prod_case_eq_iff [table_simps]:
  "(case x of (p, q) \<Rightarrow> f p q) = c \<longleftrightarrow> (\<exists>p q. x = (p, q) \<and> f p q = c)"
  by (cases x) auto

section \<open>JavaScript strings\<close>

definition js_space :: "char \<Rightarrow> bool" where
  "js_space c \<longleftrightarrow> of_char c \<in> {9, 10, 11, 12, 13, 32, 160 :: nat}"

definition js_trim :: "string \<Rightarrow> string" where
  "js_trim s = rev (dropWhile js_space (rev (dropWhile js_space s)))"

definition is_upper :: "char \<Rightarrow> bool" where
  "is_upper c \<longleftrightarrow> (65 :: nat) \<le> of_char c \<and> of_char c \<le> (90 :: nat)"

definition is_lower :: "char \<Rightarrow> bool" where
  "is_lower c \<longleftrightarrow> (97 :: nat) \<le> of_char c \<and> of_char c \<le> (122 :: nat)"

definition is_digit :: "char \<Rightarrow> bool" where
  "is_digit c \<longleftrightarrow> (48 :: nat) \<le> of_char c \<and> of_char c \<le> (57 :: nat)"

definition to_lower :: "char \<Rightarrow> char" where
  "to_lower c = (if is_upper c then char_of (of_char c + 32 :: nat) else c)"

text \<open>
  \<open>toLowerCase\<close> and \<open>toUpperCase\<close> on the code units below 256.  The upper case of the micro sign and
  of y with diaeresis lies outside the fragment; they stay as they are.
\<close>

definition js_lower_char :: "char \<Rightarrow> char" where
  "js_lower_char c =
     (let n = of_char c :: nat in
      if is_upper c \<or> 192 \<le> n \<and> n \<le> 222 \<and> n \<noteq> 215 then char_of (n + 32) else c)"

definition js_lower :: "string \<Rightarrow> string" where
  "js_lower = map js_lower_char"

definition js_upper_char :: "char \<Rightarrow> string" where
  "js_upper_char c =
     (let n = of_char c :: nat in
      if n = 223 then ''SS''
      else if is_lower c \<or> 224 \<le> n \<and> n \<le> 254 \<and> n \<noteq> 247 then [char_of (n - 32)] else [c])"

definition js_upper :: "string \<Rightarrow> string" where
  "js_upper s = concat (map js_upper_char s)"

text \<open>An optional string is falsy when it is null, undefined or empty.\<close>

definition truthy :: "string option \<Rightarrow> bool" where
  "truthy s \<longleftrightarrow> (case s of None \<Rightarrow> False | Some t \<Rightarrow> t \<noteq> [])"

lemma truthy_simps [simp]: "\<not> truthy None" "truthy (Some t) \<longleftrightarrow> t \<noteq> []"
  by (simp_all add: truthy_def)

lemma truthyE: assumes "truthy s" obtains t where "s = Some t" "t \<noteq> []"
  using assms by (cases s) auto

definition is_prefix :: "string \<Rightarrow> string \<Rightarrow> bool" where
  "is_prefix p s \<longleftrightarrow> take (length p) s = p"

definition ends_with :: "string \<Rightarrow> string \<Rightarrow> bool" where
  "ends_with s p \<longleftrightarrow> is_prefix (rev p) (rev s)"

fun contains :: "string \<Rightarrow> string \<Rightarrow> bool" where
  "contains [] p \<longleftrightarrow> p = []"
| "contains (c # s) p \<longleftrightarrow> is_prefix p (c # s) \<or> contains s p"

text \<open>\<open>split\<close> with a one-character separator: never the empty list.\<close>

fun split_on :: "char \<Rightarrow> string \<Rightarrow> string list" where
  "split_on sep [] = [[]]"
| "split_on sep (c # s) =
     (if c = sep then [] # split_on sep s
      else case split_on sep s of [] \<Rightarrow> [[c]] | w # ws \<Rightarrow> (c # w) # ws)"

lemma split_on_nonempty [simp]: "split_on sep s \<noteq> []"
  by (induction s) (auto split: list.splits)

lemma split_on_single: "sep \<notin> set s \<Longrightarrow> split_on sep s = [s]"
  by (induction s) auto

lemma split_on_append:
  "sep \<notin> set a \<Longrightarrow> split_on sep (a @ sep # b) = a # split_on sep b"
  by (induction a) auto

lemma js_trim_Nil [simp]: "js_trim [] = []"
  by (simp add: js_trim_def)

lemma js_trim_no_space:
  assumes "\<not> js_space c" "\<not> js_space (last (c # s))"
  shows "js_trim (c # s) = c # s"
proof -
  have "dropWhile js_space (rev (c # s)) = rev (c # s)"
    using assms(2) by (cases s rule: rev_cases) auto
  with assms(1) show ?thesis by (simp add: js_trim_def)
qed

lemma js_trim_length: "length (js_trim s) \<le> length s"
  using length_dropWhile_le [of js_space "rev (dropWhile js_space s)"]
    length_dropWhile_le [of js_space s] by (simp add: js_trim_def)

text \<open>Decimal digits of a natural number.\<close>

definition digit_char :: "nat \<Rightarrow> char" where
  "digit_char d = char_of (48 + d)"

fun show_nat :: "nat \<Rightarrow> string" where
  "show_nat n = (if n < 10 then [digit_char n] else show_nat (n div 10) @ [digit_char (n mod 10)])"

declare show_nat.simps [simp del]

definition show_int :: "int \<Rightarrow> string" where
  "show_int i = (if i < 0 then CHR ''-'' # show_nat (nat (- i)) else show_nat (nat i))"

definition digit_val :: "char \<Rightarrow> nat" where
  "digit_val c = of_char c - 48"

definition read_nat :: "string \<Rightarrow> nat" where
  "read_nat s = foldl (\<lambda>n c. 10 * n + digit_val c) 0 s"

lemma of_char_digit [simp]: "d < 10 \<Longrightarrow> of_char (digit_char d) = (48 + d :: nat)"
  by (simp add: digit_char_def)

lemma is_digit_digit_char [simp]: "d < 10 \<Longrightarrow> is_digit (digit_char d)"
  by (simp add: is_digit_def)

lemma digit_val_digit_char [simp]: "d < 10 \<Longrightarrow> digit_val (digit_char d) = d"
  by (simp add: digit_val_def)

lemma show_nat_nonempty [simp]: "show_nat n \<noteq> []"
  by (subst show_nat.simps) simp

lemma show_nat_digits: "\<forall>c \<in> set (show_nat n). is_digit c"
proof (induction n rule: show_nat.induct)
  case (1 n)
  then show ?case by (subst show_nat.simps) auto
qed

lemma show_nat_list_all [simp]: "list_all is_digit (show_nat n)"
  using show_nat_digits by (simp add: list_all_iff)

lemma read_nat_show_nat [simp]: "read_nat (show_nat n) = n"
proof (induction n rule: show_nat.induct)
  case (1 n)
  show ?case
  proof (cases "n < 10")
    case True
    then show ?thesis by (subst show_nat.simps) (simp add: read_nat_def)
  next
    case False
    with 1 have "read_nat (show_nat (n div 10)) = n div 10" by simp
    with False show ?thesis
      by (subst show_nat.simps) (simp add: read_nat_def)
  qed
qed

lemma show_nat_inject [simp]: "show_nat m = show_nat n \<longleftrightarrow> m = n"
  by (metis read_nat_show_nat)

section \<open>Request bodies\<close>

text \<open>
  A property of a request body is absent, null, or has a value; \<open>@IsOptional()\<close> lets the first
  two pass.  Spread into an update, an absent one keeps the column and null clears a nullable one.
\<close>

datatype 'a field = Undefined | Null | Value 'a

definition set_optional :: "'a field \<Rightarrow> 'a option \<Rightarrow> 'a option" where
  "set_optional f old = (case f of Undefined \<Rightarrow> old | Null \<Rightarrow> None | Value x \<Rightarrow> Some x)"

definition set_required :: "'a field \<Rightarrow> 'a \<Rightarrow> 'a" where
  "set_required f old = (case f of Value x \<Rightarrow> x | _ \<Rightarrow> old)"

definition defined :: "'a field \<Rightarrow> 'a option" where
  "defined f = (case f of Value x \<Rightarrow> Some x | _ \<Rightarrow> None)"

text \<open>\<open>[...new Set(xs)]\<close>: the first occurrence of each element, in order.\<close>

definition new_Set :: "'a list \<Rightarrow> 'a list" where
  "new_Set xs = rev (remdups (rev xs))"

lemma set_new_Set [simp]: "set (new_Set xs) = set xs"
  by (simp add: new_Set_def)

lemma distinct_new_Set [simp]: "distinct (new_Set xs)"
  by (simp add: new_Set_def)

lemma new_Set_Nil [simp]: "new_Set xs = [] \<longleftrightarrow> xs = []"
  by (simp add: new_Set_def)

section \<open>Dates\<close>

text \<open>
  \<open>Date.prototype.toISOString\<close> for the years 0 to 9999: the proleptic Gregorian date of the day
  number, counted in eras of 400 years from the first of March of the year 0.
\<close>

definition civil_from_days :: "int \<Rightarrow> int \<times> int \<times> int" where
  "civil_from_days day =
     (let z = day + 719468; era = z div 146097; doe = z mod 146097;
          yoe = (doe - doe div 1460 + doe div 36524 - doe div 146096) div 365;
          doy = doe - (365 * yoe + yoe div 4 - yoe div 100);
          mp = (5 * doy + 2) div 153;
          m = (if mp < 10 then mp + 3 else mp - 9)
      in (yoe + era * 400 + (if m \<le> 2 then 1 else 0), m, doy - (153 * mp + 2) div 5 + 1))"

fun pad_left :: "nat \<Rightarrow> string \<Rightarrow> string" where
  "pad_left n s = replicate (n - length s) (CHR ''0'') @ s"

definition iso_date :: "time \<Rightarrow> string" where
  "iso_date ms =
     (let (y, m, d) = civil_from_days (ms div 86400000)
      in pad_left 4 (show_int y) @ ''-'' @ pad_left 2 (show_int m) @ ''-'' @ pad_left 2 (show_int d))"

definition toISOString :: "time \<Rightarrow> string" where
  "toISOString ms =
     (let r = ms mod 86400000 in
      iso_date ms @ ''T'' @ pad_left 2 (show_int (r div 3600000)) @ '':''
        @ pad_left 2 (show_int (r div 60000 mod 60)) @ '':''
        @ pad_left 2 (show_int (r div 1000 mod 60)) @ ''.''
        @ pad_left 3 (show_int (r mod 1000)) @ ''Z'')"

text \<open>A \<open>DATE\<close> column keeps the day, at midnight.\<close>

definition to_date :: "time \<Rightarrow> time" where
  "to_date t = t div 86400000 * 86400000"

section \<open>Tables\<close>

text \<open>
  Prisma's operations on one table.  \<open>findFirst\<close> is \<open>List.find\<close>; with an \<open>orderBy\<close> on a
  version column, descending, it is \<open>find_max\<close>; \<open>updateMany\<close> is \<open>update_rows\<close> and the
  \<open>count\<close> it returns is \<open>count_rows\<close>; \<open>create\<close> appends, unless the key of a unique index
  is taken.
\<close>

definition update_rows :: "('r \<Rightarrow> bool) \<Rightarrow> ('r \<Rightarrow> 'r) \<Rightarrow> 'r list \<Rightarrow> 'r list" where
  "update_rows P f t = map (\<lambda>r. if P r then f r else r) t"

definition count_rows :: "('r \<Rightarrow> bool) \<Rightarrow> 'r list \<Rightarrow> nat" where
  "count_rows P t = length (filter P t)"

fun find_max :: "('r \<Rightarrow> nat) \<Rightarrow> ('r \<Rightarrow> bool) \<Rightarrow> 'r list \<Rightarrow> 'r option" where
  "find_max k P [] = None"
| "find_max k P (r # t) =
     (if P r then
        (case find_max k P t of None \<Rightarrow> Some r | Some m \<Rightarrow> if k r < k m then Some m else Some r)
      else find_max k P t)"

definition find_latest :: "('r \<Rightarrow> bool) \<Rightarrow> 'r list \<Rightarrow> 'r option" where
  "find_latest P t = find P (rev t)"

definition create_unique :: "('r \<Rightarrow> 'k) list \<Rightarrow> 'r \<Rightarrow> 'r list \<Rightarrow> failure + 'r list" where
  "create_unique ks r t =
     (if \<exists>k \<in> set ks. \<exists>r' \<in> set t. k r' = k r then Inl UniqueConstraint else Inr (t @ [r]))"

lemma update_rows_simps [simp]:
  "update_rows P f [] = []"
  "update_rows P f (r # t) = (if P r then f r else r) # update_rows P f t"
  "length (update_rows P f t) = length t"
  by (simp_all add: update_rows_def)

lemma set_update_rows [table_simps]:
  "set (update_rows P f t) = (\<lambda>r. if P r then f r else r) ` set t"
  by (simp add: update_rows_def)

lemma update_rows_id [simp]: "\<forall>r \<in> set t. \<not> P r \<Longrightarrow> update_rows P f t = t"
  by (simp add: update_rows_def map_idI)

lemma update_rows_mem: "r \<in> set t \<Longrightarrow> P r \<Longrightarrow> f r \<in> set (update_rows P f t)"
  by (force simp: update_rows_def)

lemma update_rowsE:
  assumes "r \<in> set (update_rows P f t)"
  obtains (changed) q where "q \<in> set t" "P q" "r = f q" | (kept) "r \<in> set t" "\<not> P r"
  using assms by (auto simp: update_rows_def split: if_splits)

lemma update_rows_same [simp]: "update_rows P (\<lambda>r. r) t = t"
  by (simp add: update_rows_def)

lemma update_rows_none [simp]: "update_rows (\<lambda>r. False) f t = t"
  by (simp add: update_rows_def)

lemma find_update_rows:
  "\<forall>r. Q (f r) = Q r \<Longrightarrow> find Q (update_rows P f t) = map_option (\<lambda>r. if P r then f r else r) (find Q t)"
  by (induction t) auto

lemma map_update_rows [table_simps]:
  "(\<And>r. k (f r) = k r) \<Longrightarrow> map k (update_rows P f t) = map k t"
  by (simp add: update_rows_def)

lemma filter_update_rows:
  "(\<And>r. Q r \<Longrightarrow> \<not> P r) \<Longrightarrow> (\<And>r. P r \<Longrightarrow> \<not> Q (f r)) \<Longrightarrow>
     filter Q (update_rows P f t) = filter Q t"
  by (induction t) auto

lemma count_rows_simps [simp]:
  "count_rows P [] = 0"
  "count_rows P (r # t) = (if P r then Suc (count_rows P t) else count_rows P t)"
  "count_rows P (s @ t) = count_rows P s + count_rows P t"
  by (simp_all add: count_rows_def)

lemma count_rows_pos: "0 < count_rows P t \<longleftrightarrow> (\<exists>r \<in> set t. P r)"
  by (induction t) auto

lemma count_rows_distinct:
  assumes "distinct (map k t)" and "\<And>r r'. P r \<Longrightarrow> P r' \<Longrightarrow> k r = k r'"
  shows "count_rows P t \<le> 1"
  using assms(1)
proof (induction t)
  case Nil
  then show ?case by simp
next
  case (Cons r t)
  show ?case
  proof (cases "P r")
    case True
    have "\<not> P r'" if "r' \<in> set t" for r'
      using that Cons.prems assms(2) [OF True, of r'] by auto
    then have "count_rows P t = 0" by (simp add: count_rows_def)
    with True show ?thesis by simp
  next
    case False
    with Cons show ?thesis by simp
  qed
qed

lemma find_SomeD: "find P t = Some r \<Longrightarrow> r \<in> set t" "find P t = Some r \<Longrightarrow> P r"
  by (induction t) (auto split: if_splits)

lemma find_NoneD: "find P t = None \<Longrightarrow> r \<in> set t \<Longrightarrow> \<not> P r"
  by (simp add: find_None_iff)

lemma find_append: "find P (s @ t) = (case find P s of None \<Rightarrow> find P t | Some r \<Rightarrow> Some r)"
  by (induction s) auto

lemma distinct_map_unique:
  "distinct (map k t) \<Longrightarrow> r \<in> set t \<Longrightarrow> r' \<in> set t \<Longrightarrow> k r = k r' \<Longrightarrow> r = r'"
  by (simp add: distinct_map inj_on_def)

lemma find_unique:
  assumes "distinct (map k t)" and "r \<in> set t" and "P r"
    and "\<And>r'. r' \<in> set t \<Longrightarrow> P r' \<Longrightarrow> k r' = k r"
  shows "find P t = Some r"
proof (cases "find P t")
  case None
  with assms(2,3) show ?thesis by (simp add: find_None_iff)
next
  case (Some x)
  then have "x \<in> set t" "P x" by (simp_all add: find_SomeD)
  then have "x = r" using assms(4) by (intro distinct_map_unique [OF assms(1) _ assms(2)]) simp_all
  with Some show ?thesis by simp
qed

lemma find_max_None: "find_max k P t = None \<longleftrightarrow> (\<forall>r \<in> set t. \<not> P r)"
  by (induction t) (auto split: option.splits if_splits)

lemma find_max_SomeD:
  "find_max k P t = Some m \<Longrightarrow> m \<in> set t \<and> P m \<and> (\<forall>r \<in> set t. P r \<longrightarrow> k r \<le> k m)"
proof (induction t arbitrary: m)
  case Nil
  then show ?case by simp
next
  case (Cons r t)
  show ?case
  proof (cases "find_max k P t")
    case None
    moreover from None have "\<forall>x \<in> set t. \<not> P x" by (simp add: find_max_None)
    ultimately show ?thesis using Cons.prems by (auto split: if_splits)
  next
    case (Some x)
    with Cons.IH [OF Some] Cons.prems show ?thesis by (fastforce split: if_splits)
  qed
qed

lemma create_unique_Inr [table_simps]:
  "create_unique ks r t = Inr t' \<longleftrightarrow>
     t' = t @ [r] \<and> (\<forall>k \<in> set ks. \<forall>r' \<in> set t. k r' \<noteq> k r)"
  by (auto simp: create_unique_def)

lemma create_unique_fresh:
  "\<forall>k \<in> set ks. \<forall>r' \<in> set t. k r' \<noteq> k r \<Longrightarrow> create_unique ks r t = Inr (t @ [r])"
  by (auto simp: create_unique_def)

lemma create_unique_distinct:
  "create_unique ks r t = Inr t' \<Longrightarrow> k \<in> set ks \<Longrightarrow> distinct (map k t) \<Longrightarrow> distinct (map k t')"
  by (fastforce simp: create_unique_Inr)

text \<open>
  An update of a table with unique indexes fails when two rows would share a key; an update whose
  \<open>where\<close> does not hold the promised version has the count 0.
\<close>

definition update_unique ::
  "('r \<Rightarrow> 'k) list \<Rightarrow> ('r \<Rightarrow> bool) \<Rightarrow> ('r \<Rightarrow> 'r) \<Rightarrow> 'r list \<Rightarrow> failure + 'r list" where
  "update_unique ks P f t =
     (if \<forall>k \<in> set ks. distinct (map k (update_rows P f t)) then Inr (update_rows P f t)
      else Inl UniqueConstraint)"

lemma update_unique_Inr [table_simps]:
  "update_unique ks P f t = Inr t' \<longleftrightarrow>
     t' = update_rows P f t \<and> (\<forall>k \<in> set ks. distinct (map k (update_rows P f t)))"
  by (auto simp: update_unique_def)

lemma update_rows_one:
  assumes "distinct (map k t)" and "r \<in> set t" and "P r"
    and "\<And>q. q \<in> set t \<Longrightarrow> P q \<Longrightarrow> k q = k r"
  shows "update_rows P f t = map (\<lambda>q. if k q = k r then f r else q) t" and "count_rows P t = 1"
proof -
  have iff: "P q \<longleftrightarrow> k q = k r" "k q = k r \<Longrightarrow> q = r" if "q \<in> set t" for q
    using that assms distinct_map_unique [OF assms(1)] by metis+
  then show "update_rows P f t = map (\<lambda>q. if k q = k r then f r else q) t"
    by (auto simp: update_rows_def)
  have "filter P t = filter (\<lambda>q. q = r) t" using iff by (intro filter_cong) auto
  moreover have "distinct t" using assms(1) by (simp add: distinct_map)
  moreover have "length (filter (\<lambda>q. q = r) u) = (if r \<in> set u then 1 else 0)" if "distinct u" for u
    using that by (induction u) auto
  ultimately show "count_rows P t = 1" using assms(2) by (simp add: count_rows_def)
qed

end
