(* ===== verification/Schema_Identity.thy ===== *)
theory Schema_Identity
  imports CRM_Prelude
begin

text \<open>
  The identity tables of \<open>prisma/schema.prisma\<close>: organizations, users, memberships, sessions with their
  one-time refresh tokens, passkey challenges and credentials.  A row keeps the columns the
  services read or write; \<open>createdAt\<close> and \<open>updatedAt\<close> are not kept, except the session's
  \<open>createdAt\<close>, which is read as the time of authentication: the order of a table is the order
  of creation.
\<close>

section \<open>Enumerations\<close>

datatype user_status = USER_ACTIVE | USER_DISABLED

datatype membership_role =
  OWNER | ADMINISTRATOR | ACCOUNTANT | RESIDENT | CONTRACTOR | AUDITOR

datatype membership_status = MEMBER_ACTIVE | MEMBER_SUSPENDED | MEMBER_ENDED

datatype challenge_purpose = REGISTRATION | STEP_UP

section \<open>Identity rows\<close>

record organization =
  org_id :: uuid
  org_slug :: string
  org_name :: string

record user =
  user_id :: uuid
  user_email :: string
  user_displayName :: string
  user_passwordHash :: "string option"
  user_status :: user_status

record membership =
  mem_id :: uuid
  mem_org :: uuid
  mem_userId :: uuid
  mem_role :: membership_role
  mem_status :: membership_status
  mem_validUntil :: "time option"

record session =
  ses_id :: uuid
  ses_userId :: uuid
  ses_org :: uuid
  ses_family :: uuid
  ses_refreshHash :: string
  ses_csrfHash :: string
  ses_userAgent :: "string option"
  ses_ipAddress :: "string option"
  ses_rotation :: nat
  ses_stepUp :: "time option"
  ses_lastUsedAt :: time
  ses_expiresAt :: time
  ses_revokedAt :: "time option"
  ses_createdAt :: time

record refresh_token =
  tok_id :: uuid
  tok_sessionId :: uuid
  tok_hash :: string
  tok_expiresAt :: time
  tok_usedAt :: "time option"
  tok_revokedAt :: "time option"

record challenge =
  ch_id :: uuid
  ch_userId :: uuid
  ch_sessionId :: uuid
  ch_purpose :: challenge_purpose
  ch_challenge :: string
  ch_expiresAt :: time
  ch_usedAt :: "time option"

record credential =
  cred_id :: uuid
  cred_userId :: uuid
  cred_credentialId :: string
  cred_publicKey :: string
  cred_counter :: int
  cred_transports :: "string list"
  cred_deviceName :: "string option"
  cred_backedUp :: bool
  cred_lastUsedAt :: "time option"

end
