(* ===== verification/Schema_Crm.thy ===== *)
theory Schema_Crm
  imports CRM_Prelude
begin

text \<open>
  The CRM tables of \<open>prisma/schema.prisma\<close>: buildings, apartments, access grants and
  occupancies, vendors with contacts, building links and append-only bank-account versions, and
  contracts.  Money columns are \<open>Decimal(19, 2)\<close>, kept in hundredths as \<^typ>\<open>cents\<close>.
\<close>

section \<open>Enumerations\<close>

datatype vendor_status = VENDOR_DRAFT | VENDOR_ACTIVE | VENDOR_SUSPENDED | VENDOR_ARCHIVED

datatype bank_status = BANK_PENDING | BANK_VERIFIED | BANK_REJECTED

datatype contract_status =
  CONTRACT_DRAFT | CONTRACT_ACTIVE | CONTRACT_EXPIRED | CONTRACT_TERMINATED

section \<open>CRM rows\<close>

record building =
  bld_id :: uuid
  bld_org :: uuid
  bld_name :: string
  bld_addressLine1 :: string
  bld_addressLine2 :: "string option"
  bld_city :: string
  bld_postalCode :: string
  bld_countryCode :: string
  bld_version :: nat

record apartment =
  apt_id :: uuid
  apt_org :: uuid
  apt_buildingId :: uuid
  apt_unitNumber :: string
  apt_floor :: "string option"

record grant =
  gr_id :: uuid
  gr_org :: uuid
  gr_membershipId :: uuid
  gr_buildingId :: uuid
  gr_validFrom :: time
  gr_validUntil :: "time option"

record occupancy =
  occ_id :: uuid
  occ_org :: uuid
  occ_apartmentId :: uuid
  occ_membershipId :: uuid
  occ_startsOn :: time
  occ_endsOn :: "time option"

record vendor =
  ven_id :: uuid
  ven_org :: uuid
  ven_legalName :: string
  ven_tradingName :: "string option"
  ven_registrationNumber :: "string option"
  ven_taxId :: "string option"
  ven_email :: "string option"
  ven_phone :: "string option"
  ven_status :: vendor_status
  ven_tags :: "string list"
  ven_internalNotes :: "string option"
  ven_version :: nat

record vendor_contact =
  con_id :: uuid
  con_org :: uuid
  con_vendorId :: uuid
  con_name :: string
  con_role :: "string option"
  con_email :: "string option"
  con_phone :: "string option"
  con_isVerified :: bool
  con_verifiedAt :: "time option"

record vendor_building =
  vb_org :: uuid
  vb_vendorId :: uuid
  vb_buildingId :: uuid

record bank_version =
  bank_id :: uuid
  bank_org :: uuid
  bank_vendorId :: uuid
  bank_number :: nat
  bank_countryCode :: string
  bank_account :: string
  bank_iv :: string
  bank_tag :: string
  bank_keyId :: string
  bank_fingerprint :: string
  bank_masked :: string
  bank_maskedHolder :: string
  bank_createdBy :: uuid

record bank_verification =
  bver_id :: uuid
  bver_org :: uuid
  bver_bankVersionId :: uuid
  bver_status :: bank_status
  bver_evidence :: "string option"
  bver_reason :: "string option"
  bver_verifiedBy :: uuid

record contract =
  ctr_id :: uuid
  ctr_org :: uuid
  ctr_vendorId :: uuid
  ctr_reference :: string
  ctr_title :: string
  ctr_serviceCategory :: string
  ctr_valueLimit :: "cents option"
  ctr_currency :: "string option"
  ctr_startsOn :: time
  ctr_endsOn :: "time option"
  ctr_status :: contract_status
  ctr_documentReference :: "string option"
  ctr_version :: nat

record contract_building =
  cb_org :: uuid
  cb_contractId :: uuid
  cb_buildingId :: uuid

end
