(* ===== verification/Json.thy ===== *)
theory Json
  imports CRM_Prelude "HOL-Library.Multiset" "HOL-Library.List_Lexorder" "HOL-Library.Product_Lexorder"
begin

text \<open>
  JSON values and the canonical serialization of \<open>apps/api/src/risk/risk-engine.ts\<close>
  (\<open>canonicalJson\<close>), whose SHA-256 is the evidence hash of a risk assessment and whose HMAC
  is the signature of a fake-bank webhook.  A JavaScript object is the list of its entries in
  insertion order; the numbers that reach \<open>canonicalJson\<close> are integers.
\<close>

datatype json =
    JNull
  | JBool bool
  | JInt int
  | JString string
  | JArray "json list"
  | JObject "(string \<times> json) list"

section \<open>\<open>JSON.stringify\<close> on scalars\<close>

definition hex_digit :: "nat \<Rightarrow> char" where
  "hex_digit d = (if d < 10 then char_of (48 + d) else char_of (87 + d))"

definition escape_char :: "char \<Rightarrow> string" where
  "escape_char c =
     (if c = char_of (34 :: nat) then [char_of (92 :: nat), char_of (34 :: nat)]
      else if c = char_of (92 :: nat) then [char_of (92 :: nat), char_of (92 :: nat)]
      else if c = char_of (8 :: nat) then [char_of (92 :: nat), CHR ''b'']
      else if c = char_of (9 :: nat) then [char_of (92 :: nat), CHR ''t'']
      else if c = char_of (10 :: nat) then [char_of (92 :: nat), CHR ''n'']
      else if c = char_of (12 :: nat) then [char_of (92 :: nat), CHR ''f'']
      else if c = char_of (13 :: nat) then [char_of (92 :: nat), CHR ''r'']
      else if of_char c < (32 :: nat) then
        [char_of (92 :: nat), CHR ''u'', CHR ''0'', CHR ''0'',
         hex_digit (of_char c div 16), hex_digit (of_char c mod 16)]
      else [c])"

definition quote :: char where
  "quote = char_of (34 :: nat)"

definition stringify_string :: "string \<Rightarrow> string" where
  "stringify_string s = quote # concat (map escape_char s) @ [quote]"

section \<open>The key order\<close>

text \<open>
  \<open>left.localeCompare(right)\<close> on ASCII keys: the letters compare without case first, and case
  decides only between keys that are otherwise equal, lower case before upper case.  The pair of
  the two weight lists, compared lexicographically, is that order.
\<close>

definition collation_key :: "string \<Rightarrow> nat list \<times> nat list" where
  "collation_key s =
     (map (\<lambda>c. of_char (to_lower c)) s, map (\<lambda>c. if is_upper c then 1 else 0) s)"

definition sort_entries :: "(string \<times> 'v) list \<Rightarrow> (string \<times> 'v) list" where
  "sort_entries es = sort_key (\<lambda>e. collation_key (fst e)) es"

section \<open>\<open>canonicalJson\<close>\<close>

fun join :: "string \<Rightarrow> string list \<Rightarrow> string" where
  "join sep [] = []"
| "join sep [x] = x"
| "join sep (x # y # xs) = x @ sep @ join sep (y # xs)"

text \<open>
  The code sorts the entries of an object and then serializes each value; serializing each value
  first and sorting the entries by key afterwards gives the same string, because the order looks
  at the keys only, and makes the recursion structural.
\<close>

fun canonicalJson :: "json \<Rightarrow> string" where
  "canonicalJson JNull = ''null''"
| "canonicalJson (JBool b) = (if b then ''true'' else ''false'')"
| "canonicalJson (JInt i) = show_int i"
| "canonicalJson (JString s) = stringify_string s"
| "canonicalJson (JArray vs) = ''['' @ join '','' (map canonicalJson vs) @ '']''"
| "canonicalJson (JObject es) =
     ''{'' @ join '','' (map (\<lambda>(k, v). stringify_string k @ '':'' @ v)
       (sort_entries (map (\<lambda>(k, v). (k, canonicalJson v)) es))) @ ''}''"

section \<open>The order of the keys does not matter\<close>

lemma to_lower_upper_cases:
  "to_lower c = to_lower d \<Longrightarrow> is_upper c = is_upper d \<Longrightarrow> c = d"
proof -
  assume eq: "to_lower c = to_lower d" and up: "is_upper c = is_upper d"
  show "c = d"
  proof (cases "is_upper c")
    case True
    with up eq have e: "char_of (of_char c + 32 :: nat) = (char_of (of_char d + 32 :: nat) :: char)"
      by (simp add: to_lower_def)
    have "of_char (char_of (of_char c + 32 :: nat) :: char) = (of_char c + 32 :: nat)"
      "of_char (char_of (of_char d + 32 :: nat) :: char) = (of_char d + 32 :: nat)"
      using True up by (auto simp: is_upper_def)
    with e have "of_char c = (of_char d :: nat)" by simp
    then show ?thesis by simp
  next
    case False
    with up eq show ?thesis by (simp add: to_lower_def)
  qed
qed

lemma collation_key_inject: "collation_key s = collation_key t \<Longrightarrow> s = t"
proof (induction s arbitrary: t)
  case Nil
  then show ?case by (simp add: collation_key_def)
next
  case (Cons c s)
  then obtain d t' where t: "t = d # t'" by (cases t) (auto simp: collation_key_def)
  from Cons.prems t have "to_lower c = to_lower d" "is_upper c = is_upper d"
    by (auto simp: collation_key_def split: if_splits)
  then have "c = d" by (rule to_lower_upper_cases)
  moreover from Cons.prems t have "collation_key s = collation_key t'"
    by (simp add: collation_key_def)
  ultimately show ?case using Cons.IH t by simp
qed

lemma inj_collation_key: "inj collation_key"
  by (rule injI) (rule collation_key_inject)

lemma sort_entries_perm:
  assumes "distinct (map fst es)" and "mset es' = mset es"
  shows "sort_entries es' = sort_entries es"
  unfolding sort_entries_def
proof (rule sort_key_inj_key_eq)
  show "mset es' = mset (sort_key (\<lambda>e. collation_key (fst e)) es)"
    using assms(2) by simp
  have "set es' = set es" using assms(2) by (rule mset_eq_setD)
  then show "inj_on (\<lambda>e. collation_key (fst e)) (set es')"
    using assms(1) by (auto simp: distinct_map inj_on_def dest: collation_key_inject)
  show "sorted (map (\<lambda>e. collation_key (fst e)) (sort_key (\<lambda>e. collation_key (fst e)) es))"
    by simp
qed

end
