(* ===== verification/Schema_Invoice.thy ===== *)
theory Schema_Invoice
  imports Schema_Crm Json
begin

text \<open>
  The invoice, document, risk, approval, webhook and audit tables of \<open>prisma/schema.prisma\<close>.
  Money columns are \<open>Decimal(19, 2)\<close>, kept in hundredths as \<^typ>\<open>cents\<close>.
\<close>

section \<open>Enumerations\<close>

datatype invoice_status =
  PROCESSING | NEEDS_REVIEW | MANUAL_REVIEW | BLOCKED | AWAITING_APPROVAL | APPROVED | REJECTED

datatype risk_level = LOW | MEDIUM | HIGH

datatype request_status =
  REQUEST_PENDING | REQUEST_APPROVED | REQUEST_REJECTED | REQUEST_INVALIDATED

datatype decision_outcome = APPROVE | REJECT

datatype storage_state = STORED_QUARANTINED | STORED_APPROVED | STORED_BLOCKED

datatype processing_state =
    PROC_QUARANTINED
  | PROC_SCANNING
  | PROC_PARSED
  | PROC_NEEDS_REVIEW
  | PROC_MANUAL_REVIEW
  | PROC_BLOCKED

datatype scan_result = SCAN_PENDING | SCAN_CLEAN | SCAN_INFECTED | SCAN_ERROR

section \<open>Rows\<close>

record invoice =
  inv_id :: uuid
  inv_org :: uuid
  inv_vendorId :: "uuid option"
  inv_contractId :: "uuid option"
  inv_bankVersionId :: "uuid option"
  inv_number :: "string option"
  inv_issueDate :: "time option"
  inv_dueDate :: "time option"
  inv_currency :: "string option"
  inv_subtotal :: "cents option"
  inv_taxAmount :: "cents option"
  inv_totalAmount :: "cents option"
  inv_notes :: "string option"
  inv_status :: invoice_status
  inv_version :: nat
  inv_createdBy :: uuid

text \<open>The line's numbers are in ten-thousandths (\<open>Decimal(19, 4)\<close>), its amount in hundredths.\<close>

record invoice_line =
  line_org :: uuid
  line_invoiceId :: uuid
  line_description :: string
  line_quantity :: int
  line_unitPrice :: int
  line_taxRate :: "int option"
  line_amount :: cents
  line_position :: nat

record document =
  doc_id :: uuid
  doc_org :: uuid
  doc_invoiceId :: uuid
  doc_filename :: string
  doc_declaredMime :: string
  doc_detectedMime :: string
  doc_size :: nat
  doc_quarantineKey :: string
  doc_approvedKey :: "string option"
  doc_sha256 :: "string option"
  doc_duplicateOf :: "uuid option"
  doc_storageState :: storage_state
  doc_createdBy :: uuid

record processing =
  pr_org :: uuid
  pr_documentId :: uuid
  pr_state :: processing_state
  pr_progress :: nat
  pr_scanResult :: scan_result
  pr_scanDetail :: "string option"
  pr_ocrEngine :: "string option"
  pr_suggestions :: "(string \<times> string) list option"
  pr_attempts :: nat
  pr_startedAt :: "time option"
  pr_heartbeatAt :: "time option"
  pr_completedAt :: "time option"
  pr_errorCode :: "string option"
  pr_errorMessage :: "string option"

record risk_policy =
  pol_id :: uuid
  pol_org :: uuid
  pol_ruleVersion :: nat
  pol_medium :: int
  pol_high :: int
  pol_changedBank :: int
  pol_duplicateHash :: int
  pol_duplicateNumber :: int
  pol_contractLimit :: int
  pol_amountSpike :: int
  pol_separation :: bool

record assessment =
  ra_id :: uuid
  ra_org :: uuid
  ra_invoiceId :: uuid
  ra_invoiceVersion :: nat
  ra_ruleVersion :: nat
  ra_facts :: json
  ra_contributions :: json
  ra_totalScore :: int
  ra_level :: risk_level
  ra_evidenceHash :: string

record request =
  req_id :: uuid
  req_org :: uuid
  req_invoiceId :: uuid
  req_invoiceVersion :: nat
  req_assessmentId :: uuid
  req_bankVersionId :: "uuid option"
  req_version :: nat
  req_status :: request_status
  req_required :: nat
  req_initiatedBy :: uuid
  req_keyHash :: string
  req_invalidatedReason :: "string option"
  req_completedAt :: "time option"

record decision =
  dec_id :: uuid
  dec_org :: uuid
  dec_requestId :: uuid
  dec_version :: nat
  dec_decidedBy :: uuid
  dec_sessionId :: uuid
  dec_outcome :: decision_outcome
  dec_reason :: string
  dec_stepUpVerifiedAt :: time
  dec_keyHash :: string

record delivery =
  dlv_id :: uuid
  dlv_org :: uuid
  dlv_eventId :: uuid
  dlv_vendorId :: uuid
  dlv_bankVersionId :: uuid
  dlv_status :: bank_status
  dlv_payloadHash :: string
  dlv_timestamp :: time

record audit_event =
  au_id :: uuid
  au_org :: uuid
  au_actor :: "uuid option"
  au_action :: string
  au_entityType :: string
  au_entityId :: uuid
  au_before :: "json option"
  au_after :: "json option"
  au_reason :: "string option"
  au_correlationId :: uuid

end
