(* ===== verification/Database.thy ===== *)
theory Database
  imports Schema_Identity Schema_Crm Schema_Invoice
begin

text \<open>
  The database as the record of its tables, the effects a request draws on, the transaction of
  \<open>apps/api/src/database/tenant-database.service.ts\<close> with its interface \<open>transaction_runner\<close>,
  the authenticated context of a request, and the audit writer of \<open>apps/api/src/crm/audit.ts\<close>.
\<close>

record db =
  organizations :: "organization list"
  users :: "user list"
  memberships :: "membership list"
  sessions :: "session list"
  tokens :: "refresh_token list"
  challenges :: "challenge list"
  credentials :: "credential list"
  buildings :: "building list"
  apartments :: "apartment list"
  grants :: "grant list"
  occupancies :: "occupancy list"
  vendors :: "vendor list"
  contacts :: "vendor_contact list"
  vendor_buildings :: "vendor_building list"
  bank_versions :: "bank_version list"
  bank_verifications :: "bank_verification list"
  contracts :: "contract list"
  contract_buildings :: "contract_building list"
  invoices :: "invoice list"
  invoice_lines :: "invoice_line list"
  documents :: "document list"
  processings :: "processing list"
  policies :: "risk_policy list"
  assessments :: "assessment list"
  requests :: "request list"
  decisions :: "decision list"
  deliveries :: "delivery list"
  audit :: "audit_event list"

definition empty_db :: db where
  "empty_db = \<lparr>organizations = [], users = [], memberships = [], sessions = [], tokens = [], challenges = [],
     credentials = [], buildings = [], apartments = [], grants = [], occupancies = [],
     vendors = [], contacts = [], vendor_buildings = [], bank_versions = [],
     bank_verifications = [], contracts = [], contract_buildings = [], invoices = [],
     invoice_lines = [], documents = [], processings = [], policies = [], assessments = [],
     requests = [], decisions = [], deliveries = [], audit = []\<rparr>"

section \<open>The effects of a request\<close>

text \<open>
  What a call reads from outside: the readings of the clock, one per call of \<open>new Date()\<close> or
  \<open>Date.now()\<close> in program order; the random identifiers, numbered by the place that asks for
  one; random tokens; SHA-256; and the configured lifetimes in milliseconds.
\<close>

record env =
  clock :: "nat \<Rightarrow> time"
  new_uuid :: "nat \<Rightarrow> uuid"
  random_token :: "nat \<Rightarrow> string"
  sha256 :: "string \<Rightarrow> string"
  stepUpTtl :: time
  accessTtl :: time
  refreshTtl :: time

section \<open>The authenticated context\<close>

record auth_context =
  userId :: uuid
  membershipId :: uuid
  sessionId :: uuid
  organizationId :: uuid
  role :: membership_role
  authenticatedAt :: time
  stepUpVerifiedAt :: "time option"

section \<open>Transactions\<close>

text \<open>
  \<open>TenantDatabaseService.run\<close> and \<open>PrismaService.transaction\<close>: the work runs on the database
  and its writes are kept when it returns; when it throws, they are rolled back and the exception
  goes on.  The row-level security that \<open>run\<close> switches on is written into the queries: every
  query of a tenant service carries the predicate on \<open>organizationId\<close> of its table.
\<close>

type_synonym ('s, 'a) work = "'s \<Rightarrow> failure + 'a \<times> 's"

definition run :: "('s, 'a) work \<Rightarrow> 's \<Rightarrow> (failure + 'a) \<times> 's" where
  "run w s = (case w s of Inl e \<Rightarrow> (Inl e, s) | Inr (a, s') \<Rightarrow> (Inr a, s'))"

locale transaction_runner =
  fixes exec :: "('s, 'a) work \<Rightarrow> 's \<Rightarrow> (failure + 'a) \<times> 's"
  assumes rollback: "w s = Inl e \<Longrightarrow> exec w s = (Inl e, s)"
    and commit: "w s = Inr (a, s') \<Longrightarrow> exec w s = (Inr a, s')"
begin

lemma failed_unchanged: "exec w s = (Inl e, s') \<Longrightarrow> s' = s"
  by (cases "w s") (auto simp: rollback commit)

lemma failedD: "exec w s = (Inl e, s') \<Longrightarrow> w s = Inl e"
  by (cases "w s") (auto simp: rollback commit)

lemma succeededD: "exec w s = (Inr a, s') \<Longrightarrow> w s = Inr (a, s')"
  by (cases "w s") (auto simp: rollback commit)

lemma preserves:
  assumes "\<And>a s'. w s = Inr (a, s') \<Longrightarrow> P s'" and "P s"
  shows "P (snd (exec w s))"
  using assms by (cases "w s") (auto simp: rollback commit)

lemma relates:
  assumes "\<And>a s'. w s = Inr (a, s') \<Longrightarrow> R s s'" and "R s s"
  shows "R s (snd (exec w s))"
  using assms by (cases "w s") (auto simp: rollback commit)

lemma outcome_iff: "exec w s = (Inr a, s') \<longleftrightarrow> w s = Inr (a, s')"
  by (cases "w s") (auto simp: rollback commit)

end

interpretation tx: transaction_runner run
  by unfold_locales (simp_all add: run_def)

section \<open>The audit trail\<close>

definition writeAudit ::
  "env \<Rightarrow> nat \<Rightarrow> uuid \<Rightarrow> uuid option \<Rightarrow> string \<Rightarrow> string \<Rightarrow> uuid \<Rightarrow> json option \<Rightarrow> json option
     \<Rightarrow> string option \<Rightarrow> db \<Rightarrow> db" where
  "writeAudit e k org actor action entity ident bef aft reason d =
     d\<lparr>audit := audit d @
       [\<lparr>au_id = new_uuid e k, au_org = org, au_actor = actor, au_action = action,
         au_entityType = entity, au_entityId = ident, au_before = bef, au_after = aft,
         au_reason = reason, au_correlationId = new_uuid e (Suc k)\<rparr>]\<rparr>"

text \<open>The audit writer appends one event and leaves every other table alone.\<close>

lemma writeAudit_frame [frame, simp]:
  "users (writeAudit e k org ac a t i b f r d) = users d"
  "memberships (writeAudit e k org ac a t i b f r d) = memberships d"
  "sessions (writeAudit e k org ac a t i b f r d) = sessions d"
  "tokens (writeAudit e k org ac a t i b f r d) = tokens d"
  "organizations (writeAudit e k org ac a t i b f r d) = organizations d"
  "challenges (writeAudit e k org ac a t i b f r d) = challenges d"
  "credentials (writeAudit e k org ac a t i b f r d) = credentials d"
  "buildings (writeAudit e k org ac a t i b f r d) = buildings d"
  "apartments (writeAudit e k org ac a t i b f r d) = apartments d"
  "grants (writeAudit e k org ac a t i b f r d) = grants d"
  "occupancies (writeAudit e k org ac a t i b f r d) = occupancies d"
  "vendors (writeAudit e k org ac a t i b f r d) = vendors d"
  "contacts (writeAudit e k org ac a t i b f r d) = contacts d"
  "vendor_buildings (writeAudit e k org ac a t i b f r d) = vendor_buildings d"
  "bank_versions (writeAudit e k org ac a t i b f r d) = bank_versions d"
  "bank_verifications (writeAudit e k org ac a t i b f r d) = bank_verifications d"
  "contracts (writeAudit e k org ac a t i b f r d) = contracts d"
  "contract_buildings (writeAudit e k org ac a t i b f r d) = contract_buildings d"
  "invoices (writeAudit e k org ac a t i b f r d) = invoices d"
  "invoice_lines (writeAudit e k org ac a t i b f r d) = invoice_lines d"
  "documents (writeAudit e k org ac a t i b f r d) = documents d"
  "processings (writeAudit e k org ac a t i b f r d) = processings d"
  "policies (writeAudit e k org ac a t i b f r d) = policies d"
  "assessments (writeAudit e k org ac a t i b f r d) = assessments d"
  "requests (writeAudit e k org ac a t i b f r d) = requests d"
  "decisions (writeAudit e k org ac a t i b f r d) = decisions d"
  "deliveries (writeAudit e k org ac a t i b f r d) = deliveries d"
  by (simp_all add: writeAudit_def)

lemma length_writeAudit [simp]:
  "length (audit (writeAudit e k org ac a t i b f r d)) = Suc (length (audit d))"
  by (simp add: writeAudit_def)

end
