(* ===== verification/Js_Number.thy ===== *)
theory Js_Number
  imports CRM_Prelude
begin

text \<open>
  JavaScript numbers where the source computes with money: IEEE doubles as the rationals they
  are, with rounding to nearest, ties to even (\<open>fl\<close>); \<open>Number\<close> on decimal literals;
  \<open>toFixed(2)\<close>; and the \<open>toString\<close> of a \<open>Decimal(19, 2)\<close> column.  Overflow to infinity is
  not modelled: the amounts stay below \<open>10 ^ 17\<close>.  The lemmas show that on amounts below
  \<open>2 ^ 45\<close> the comparisons of the risk engine, made on doubles, agree with the exact ones.
\<close>

section \<open>Rounding\<close>

definition round_even :: "rat \<Rightarrow> int" where
  "round_even q =
     (let f = \<lfloor>q\<rfloor>; d = q - of_int f
      in if d < 1 / 2 then f else if 1 / 2 < d then f + 1 else if even f then f else f + 1)"

definition double_exponent :: "rat \<Rightarrow> nat" where
  "double_exponent x = floorlog 2 (nat \<lfloor>x * 2 ^ 1074\<rfloor>) - 53"

definition fl_pos :: "rat \<Rightarrow> rat" where
  "fl_pos x =
     of_int (round_even (x * 2 ^ 1074 / 2 ^ double_exponent x)) * 2 ^ double_exponent x / 2 ^ 1074"

definition fl :: "rat \<Rightarrow> rat" where
  "fl x = (if x < 0 then - fl_pos (- x) else fl_pos x)"

section \<open>Decimal strings\<close>

definition decimal_value :: "string \<Rightarrow> string \<Rightarrow> rat" where
  "decimal_value a b = of_nat (read_nat a) + of_nat (read_nat b) / 10 ^ length b"

definition unsigned_decimal :: "string \<Rightarrow> rat option" where
  "unsigned_decimal u =
     (case split_on (CHR ''.'') u of
        [a] \<Rightarrow> if a \<noteq> [] \<and> list_all is_digit a then Some (decimal_value a []) else None
      | [a, b] \<Rightarrow>
          if (a \<noteq> [] \<or> b \<noteq> []) \<and> list_all is_digit a \<and> list_all is_digit b
          then Some (decimal_value a b) else None
      | _ \<Rightarrow> None)"

text \<open>
  \<open>Number(value)\<close>, with \<open>None\<close> for what is not a finite number.  The strings that reach it
  are those of a \<open>Decimal\<close> column and of \<open>toFixed\<close>; exponents and hexadecimal literals, which
  neither produces, are not read.
\<close>

definition js_number :: "string \<Rightarrow> rat option" where
  "js_number s =
     (let t = js_trim s in
      if t = [] then Some 0
      else if hd t = CHR ''-'' then map_option (\<lambda>q. - fl q) (unsigned_decimal (tl t))
      else if hd t = CHR ''+'' then map_option fl (unsigned_decimal (tl t))
      else map_option fl (unsigned_decimal t))"

definition two_digits :: "nat \<Rightarrow> string" where
  "two_digits n = [digit_char (n div 10), digit_char (n mod 10)]"

definition toFixed2 :: "rat \<Rightarrow> string" where
  "toFixed2 x =
     (let n = nat \<lfloor>\<bar>x\<bar> * 100 + 1 / 2\<rfloor>
      in (if x < 0 then ''-'' else '''') @ show_nat (n div 100) @ ''.'' @ two_digits (n mod 100))"

definition decimal_toString :: "cents \<Rightarrow> string" where
  "decimal_toString c =
     (let n = nat \<bar>c\<bar>; w = show_nat (n div 100); f = n mod 100
      in (if c < 0 then ''-'' else '''') @
         (if f = 0 then w
          else if f mod 10 = 0 then w @ ''.'' @ [digit_char (f div 10)]
          else w @ ''.'' @ two_digits f))"

section \<open>Accuracy of the rounding\<close>

lemma round_even_of_int [simp]: "round_even (of_int n) = n"
  by (simp add: round_even_def)

lemma round_even_close: "\<bar>of_int (round_even q) - q\<bar> \<le> 1 / 2"
proof -
  have "of_int \<lfloor>q\<rfloor> \<le> q" "q < of_int \<lfloor>q\<rfloor> + 1" by linarith+
  then show ?thesis by (auto simp: round_even_def Let_def abs_le_iff)
qed

lemma fl_pos_close: "\<bar>fl_pos x - x\<bar> \<le> 2 ^ double_exponent x / 2 ^ 1075"
proof -
  let ?s = "2 ^ double_exponent x / 2 ^ 1074 :: rat"
  let ?q = "x * 2 ^ 1074 / 2 ^ double_exponent x"
  have s: "0 < ?s" by simp
  have "fl_pos x - x = (of_int (round_even ?q) - ?q) * ?s"
    by (simp add: fl_pos_def field_simps)
  then have "\<bar>fl_pos x - x\<bar> = \<bar>of_int (round_even ?q) - ?q\<bar> * ?s"
    using s by (simp only: abs_mult abs_of_pos)
  also have "\<dots> \<le> 1 / 2 * ?s"
    using s round_even_close by (intro mult_right_mono) simp_all
  also have "\<dots> = 2 ^ double_exponent x / 2 ^ 1075"
    by (simp add: power_Suc [of 2 1074, simplified])
  finally show ?thesis .
qed

lemma floorlog_le: "n < 2 ^ k \<Longrightarrow> floorlog 2 n \<le> k"
  by (simp add: floorlog_leI)

lemma double_exponent_bound:
  assumes "0 \<le> x" and "x < 2 ^ k"
  shows "double_exponent x \<le> 1074 + k - 53"
proof -
  have "x * 2 ^ 1074 < (2 ^ (1074 + k) :: rat)"
    using assms(2) by (simp add: power_add)
  then have "\<lfloor>x * 2 ^ 1074\<rfloor> < (2 ^ (1074 + k) :: int)"
    by (simp add: floor_less_iff)
  then have "nat \<lfloor>x * 2 ^ 1074\<rfloor> < 2 ^ (1074 + k)"
    by (simp add: nat_less_iff)
  from floorlog_le [OF this] show ?thesis by (simp add: double_exponent_def)
qed

lemma fl_close:
  assumes "0 \<le> x" and "x < 2 ^ 45"
  shows "\<bar>fl x - x\<bar> \<le> 1 / 512"
proof -
  have "double_exponent x \<le> 1066"
    using double_exponent_bound [OF assms] by simp
  then have "(2 :: rat) ^ double_exponent x \<le> 2 ^ 1066"
    by (rule power_increasing) simp
  then have "(2 :: rat) ^ double_exponent x / 2 ^ 1075 \<le> 2 ^ 1066 / 2 ^ 1075"
    by (rule divide_right_mono) simp
  also have "\<dots> = 1 / 512"
    by simp
  finally show ?thesis
    using fl_pos_close [of x] assms(1) by (simp add: fl_def)
qed

lemma cents_apart:
  assumes "(a :: int) < b"
  shows "of_int a / 100 + 1 / 100 \<le> (of_int b / 100 :: rat)"
proof -
  have "(of_int (a + 1) :: rat) \<le> of_int b"
    using assms by (intro of_int_le_iff [THEN iffD2]) simp
  then show ?thesis by simp
qed

text \<open>Amounts that differ by a cent keep their order: comparing the doubles compares the amounts.\<close>

lemma fl_cents_less:
  assumes "0 \<le> a" "0 \<le> b" "a < 100 * 2 ^ 45" "b < 100 * 2 ^ 45"
  shows "fl (of_int a / 100) < fl (of_int b / 100) \<longleftrightarrow> a < b"
proof -
  have ca: "\<bar>fl (of_int x / 100) - of_int x / 100\<bar> \<le> 1 / 512"
    if "0 \<le> x" "x < 100 * 2 ^ 45" for x :: int
  proof (rule fl_close)
    show "0 \<le> (of_int x / 100 :: rat)" using that(1) by simp
    have "(of_int x :: rat) < of_int (100 * 2 ^ 45)"
      using that(2) by (intro of_int_less_iff [THEN iffD2])
    then show "of_int x / 100 < (2 ^ 45 :: rat)" by simp
  qed
  have less: "fl (of_int x / 100) < fl (of_int y / 100)"
    if "x < y" "0 \<le> x" "0 \<le> y" "x < 100 * 2 ^ 45" "y < 100 * 2 ^ 45" for x y :: int
  proof -
    define u v fu fv :: rat where "u = of_int x / 100" and "v = of_int y / 100"
      and "fu = fl u" and "fv = fl v"
    have "u + 1 / 100 \<le> v" "\<bar>fu - u\<bar> \<le> 1 / 512" "\<bar>fv - v\<bar> \<le> 1 / 512"
      using cents_apart [OF that(1)] ca [OF that(2,4)] ca [OF that(3,5)]
      by (simp_all only: u_def v_def fu_def fv_def)
    then have "fu < fv" by linarith
    then show ?thesis by (simp only: u_def v_def fu_def fv_def)
  qed
  show ?thesis
  proof
    assume h: "fl (of_int a / 100) < fl (of_int b / 100)"
    show "a < b"
    proof (rule ccontr)
      assume "\<not> a < b"
      then consider "a = b" | "b < a" by linarith
      then show False
        using h less [of b a] assms by cases auto
    qed
  qed (use less assms in blast)
qed

section \<open>Doubling is exact\<close>

lemma floorlog_double:
  fixes y :: rat
  assumes "1 \<le> y"
  shows "floorlog 2 (nat \<lfloor>2 * y\<rfloor>) = floorlog 2 (nat \<lfloor>y\<rfloor>) + 1"
proof -
  have "\<lfloor>2 * y\<rfloor> div 2 = \<lfloor>y\<rfloor>"
    by linarith
  moreover have "0 \<le> \<lfloor>2 * y\<rfloor>" using assms by linarith
  ultimately have "nat \<lfloor>2 * y\<rfloor> div 2 = nat \<lfloor>y\<rfloor>"
    by (simp add: nat_div_distrib [symmetric])
  moreover have "0 < nat \<lfloor>2 * y\<rfloor>" using assms by linarith
  ultimately show ?thesis
    by (simp add: compute_floorlog [of 2 "nat \<lfloor>2 * y\<rfloor>"])
qed

lemma fl_pos_double:
  assumes "1 / 100 \<le> x"
  shows "fl_pos (2 * x) = 2 * fl_pos x"
proof -
  let ?y = "x * 2 ^ 1074"
  have y: "2 ^ 60 \<le> ?y"
  proof -
    have "(2 :: rat) ^ 60 \<le> 1 / 100 * 2 ^ 1074" by simp
    also have "\<dots> \<le> ?y" using assms by (intro mult_right_mono) simp_all
    finally show ?thesis .
  qed
  then have y1: "1 \<le> ?y" by (rule order_trans [rotated]) simp
  have "(2 :: int) ^ 60 \<le> \<lfloor>?y\<rfloor>" using y by (simp add: le_floor_iff)
  then have big: "2 ^ 60 \<le> nat \<lfloor>?y\<rfloor>" by (simp add: le_nat_iff)
  have "54 \<le> floorlog 2 (nat \<lfloor>?y\<rfloor>)"
    using floorlog_geI [of 2 54 "nat \<lfloor>?y\<rfloor>"] big by simp
  moreover have "floorlog 2 (nat \<lfloor>2 * x * 2 ^ 1074\<rfloor>) = floorlog 2 (nat \<lfloor>?y\<rfloor>) + 1"
    using floorlog_double [OF y1] by (simp add: mult.assoc)
  ultimately have e: "double_exponent (2 * x) = Suc (double_exponent x)"
    by (simp only: double_exponent_def)
  show ?thesis by (simp only: fl_pos_def e) (simp add: field_simps)
qed

lemma fl_double_cents:
  assumes "0 \<le> a"
  shows "fl (2 * (of_int a / 100)) = 2 * fl (of_int a / 100)"
proof (cases "a = 0")
  case True
  then show ?thesis using round_even_of_int [of 0] by (simp add: fl_def fl_pos_def)
next
  case False
  with assms have "(1 :: rat) \<le> of_int a" by simp
  then have "1 / 100 \<le> (of_int a / 100 :: rat)" by (simp add: divide_le_cancel)
  from fl_pos_double [OF this] show ?thesis
    using assms by (simp add: fl_def)
qed

text \<open>The spike rule's comparison: at least twice the average, on doubles and on cents.\<close>

lemma fl_cents_spike:
  assumes "0 \<le> t" "0 \<le> a" "t < 100 * 2 ^ 44" "a < 100 * 2 ^ 44"
  shows "2 * fl (of_int a / 100) \<le> fl (of_int t / 100) \<longleftrightarrow> 2 * a \<le> t"
proof -
  have "2 * fl (of_int a / 100) = fl (of_int (2 * a) / 100)"
    using fl_double_cents [OF assms(2)] by simp
  moreover have "fl (of_int t / 100) < fl (of_int (2 * a) / 100) \<longleftrightarrow> t < 2 * a"
    using assms by (intro fl_cents_less) simp_all
  ultimately show ?thesis by linarith
qed

section \<open>Reading back what was printed\<close>

lemma js_trim_id:
  assumes "list_all (\<lambda>c. \<not> js_space c) s"
  shows "js_trim s = s"
proof -
  have "dropWhile js_space t = t" if "list_all (\<lambda>c. \<not> js_space c) t" for t
    using that by (cases t) auto
  moreover have "list_all (\<lambda>c. \<not> js_space c) (rev s)"
    using assms by (simp add: list_all_iff)
  ultimately show ?thesis using assms by (simp add: js_trim_def)
qed

lemma digit_not_special:
  assumes "is_digit c"
  shows "\<not> js_space c" "c \<noteq> CHR ''.''" "c \<noteq> CHR ''-''" "c \<noteq> CHR ''+''"
proof -
  have "(48 :: nat) \<le> of_char c" using assms by (simp add: is_digit_def)
  then show "\<not> js_space c" "c \<noteq> CHR ''.''" "c \<noteq> CHR ''-''" "c \<noteq> CHR ''+''"
    using assms by (auto simp: js_space_def is_digit_def)
qed

lemma digits_no_dot: "list_all is_digit a \<Longrightarrow> CHR ''.'' \<notin> set a"
  using digit_not_special(2) by (auto simp: list_all_iff)

lemma two_digits_list_all: "n < 100 \<Longrightarrow> list_all is_digit (two_digits n)"
  by (simp add: two_digits_def)

lemma read_two_digits: "n < 100 \<Longrightarrow> read_nat (two_digits n) = n"
  by (simp add: two_digits_def read_nat_def)

lemma js_number_digits:
  assumes "a \<noteq> []" "list_all is_digit a"
  shows "js_number a = Some (fl (decimal_value a []))"
proof -
  obtain c w where a: "a = c # w" using assms(1) by (cases a) auto
  have "js_trim a = a"
    using assms(2) digit_not_special(1) by (intro js_trim_id) (auto simp: list_all_iff)
  moreover have "is_digit c" using assms(2) a by simp
  ultimately show ?thesis
    using a assms digit_not_special [OF \<open>is_digit c\<close>] split_on_single [OF digits_no_dot [OF assms(2)]]
    by (simp add: js_number_def unsigned_decimal_def Let_def)
qed

lemma js_number_fraction:
  assumes "a \<noteq> []" "list_all is_digit a" "list_all is_digit b"
  shows "js_number (a @ CHR ''.'' # b) = Some (fl (decimal_value a b))"
proof -
  obtain c w where a: "a = c # w" using assms(1) by (cases a) auto
  have "\<not> js_space (CHR ''.'')" by (simp add: js_space_def)
  then have "js_trim (a @ CHR ''.'' # b) = a @ CHR ''.'' # b"
    using assms(2,3) digit_not_special(1) by (intro js_trim_id) (auto simp: list_all_iff)
  moreover have "is_digit c" using assms(2) a by simp
  moreover have "split_on (CHR ''.'') (a @ CHR ''.'' # b) = [a, b]"
    using assms(2,3) by (simp add: split_on_append split_on_single digits_no_dot)
  ultimately show ?thesis
    using a assms digit_not_special [OF \<open>is_digit c\<close>]
    by (simp add: js_number_def unsigned_decimal_def Let_def)
qed

lemma cents_split: "(of_nat (n div 100) + of_nat (n mod 100) / 100 :: rat) = of_nat n / 100"
proof -
  have "(of_nat n :: rat) = of_nat (n div 100 * 100 + n mod 100)" by simp
  also have "\<dots> = of_nat (n div 100) * 100 + of_nat (n mod 100)"
    by (simp only: of_nat_add of_nat_mult of_nat_numeral)
  finally show ?thesis by simp
qed

lemma js_number_toString:
  assumes "0 \<le> c"
  shows "js_number (decimal_toString c) = Some (fl (of_int c / 100))"
proof -
  define n where "n = nat c"
  have c: "(of_int c :: rat) = of_nat n" using assms by (simp add: n_def)
  have abs: "nat \<bar>c\<bar> = n" using assms by (simp add: n_def)
  consider "n mod 100 = 0" | "n mod 100 \<noteq> 0" "n mod 100 mod 10 = 0" | "n mod 100 mod 10 \<noteq> 0"
    by fastforce
  then show ?thesis
  proof cases
    case 1
    then have v: "decimal_value (show_nat (n div 100)) [] = of_int c / 100"
      using cents_split [of n] c by (simp add: decimal_value_def read_nat_def [of "[]"])
    have "js_number (decimal_toString c) = Some (fl (decimal_value (show_nat (n div 100)) []))"
      using 1 assms abs by (simp add: decimal_toString_def js_number_digits)
    then show ?thesis by (simp only: v)
  next
    case 2
    have lt: "n mod 100 div 10 < 10" by simp
    have d: "n mod 100 = n mod 100 div 10 * 10" 
      using div_mult_mod_eq [of "n mod 100" 10] 2(2) by linarith
    have "read_nat [digit_char (n mod 100 div 10)] = n mod 100 div 10"
      using lt by (simp add: read_nat_def)
    moreover have "(of_nat (n mod 100) :: rat) = of_nat (n mod 100 div 10) * 10"
      using arg_cong [where f = "of_nat :: nat \<Rightarrow> rat", OF d] by (simp only: of_nat_mult of_nat_numeral)
    ultimately have v: "decimal_value (show_nat (n div 100)) [digit_char (n mod 100 div 10)]
        = of_int c / 100"
      using cents_split [of n] c by (simp add: decimal_value_def del: of_nat_mult)
    have "js_number (decimal_toString c) =
        Some (fl (decimal_value (show_nat (n div 100)) [digit_char (n mod 100 div 10)]))"
      using 2 lt assms abs by (simp add: decimal_toString_def js_number_fraction)
    then show ?thesis by (simp only: v)
  next
    case 3
    have v: "decimal_value (show_nat (n div 100)) (two_digits (n mod 100)) = of_int c / 100"
      using cents_split [of n] c
      by (simp add: decimal_value_def read_two_digits) (simp add: two_digits_def)
    have "n mod 100 \<noteq> 0" using 3 by auto
    then have "js_number (decimal_toString c) =
        Some (fl (decimal_value (show_nat (n div 100)) (two_digits (n mod 100))))"
      using 3 assms abs two_digits_list_all [of "n mod 100"]
      by (simp add: decimal_toString_def js_number_fraction Let_def)
    then show ?thesis by (simp only: v)
  qed
qed

end
