(* ===== verification/Risk.thy ===== *)
theory Risk
  imports Database Js_Number
begin

text \<open>
  The deterministic risk engine, \<open>apps/api/src/risk/risk-engine.ts\<close>: the facts of an invoice,
  the weighted contributions of the five rules, the level against the organization's thresholds,
  and the evidence hash over the canonical JSON of all of it.  The policy snapshot is the policy's
  row.  SHA-256 is the argument \<open>hash\<close>.
\<close>

record invoice_facts =
  fact_bankVersion :: "nat option"
  fact_exactDuplicate :: bool
  fact_duplicateNumber :: bool
  fact_totalAmount :: "string option"
  fact_contractLimit :: "string option"
  fact_priorAverage :: "string option"

record contribution =
  ctb_rule :: string
  ctb_score :: int
  ctb_explanation :: string
  ctb_evidence :: string

record evaluation =
  ev_ruleVersion :: nat
  ev_facts :: invoice_facts
  ev_contributions :: "contribution list"
  ev_totalScore :: int
  ev_level :: risk_level
  ev_evidenceHash :: string

definition decimal :: "string option \<Rightarrow> rat option" where
  "decimal v = (case v of None \<Rightarrow> None | Some s \<Rightarrow> js_number s)"

definition evidence_url :: "uuid \<Rightarrow> string \<Rightarrow> string" where
  "evidence_url iid tail = ''/api/v1/invoices/'' @ iid @ ''/risk/evidence/'' @ tail"

text \<open>A template literal prints a null as the word.\<close>

definition show_opt :: "string option \<Rightarrow> string" where
  "show_opt v = (case v of None \<Rightarrow> ''null'' | Some s \<Rightarrow> s)"

definition bank_changed :: "invoice_facts \<Rightarrow> bool" where
  "bank_changed f \<longleftrightarrow> (case fact_bankVersion f of None \<Rightarrow> False | Some v \<Rightarrow> 1 < v)"

definition limit_exceeded :: "invoice_facts \<Rightarrow> bool" where
  "limit_exceeded f \<longleftrightarrow>
     (case (decimal (fact_totalAmount f), decimal (fact_contractLimit f)) of
        (Some t, Some l) \<Rightarrow> l < t
      | _ \<Rightarrow> False)"

definition amount_spike :: "invoice_facts \<Rightarrow> bool" where
  "amount_spike f \<longleftrightarrow>
     (case (decimal (fact_totalAmount f), decimal (fact_priorAverage f)) of
        (Some t, Some a) \<Rightarrow> 0 < a \<and> 2 * a \<le> t
      | _ \<Rightarrow> False)"

definition risk_contributions ::
  "uuid \<Rightarrow> invoice_facts \<Rightarrow> risk_policy \<Rightarrow> contribution list" where
  "risk_contributions iid f p =
     (if bank_changed f then
        [\<lparr>ctb_rule = ''VENDOR_BANK_ACCOUNT_CHANGED'', ctb_score = pol_changedBank p,
          ctb_explanation = ''Vendor bank account version ''
            @ (case fact_bankVersion f of None \<Rightarrow> ''null'' | Some v \<Rightarrow> show_nat v)
            @ '' is newer than the original account.'',
          ctb_evidence = evidence_url iid ''vendor-bank-history''\<rparr>] else []) @
     (if fact_exactDuplicate f then
        [\<lparr>ctb_rule = ''EXACT_DOCUMENT_DUPLICATE'', ctb_score = pol_duplicateHash p,
          ctb_explanation =
            ''The approved source document matches an earlier tenant-scoped SHA-256 fingerprint.'',
          ctb_evidence = evidence_url iid ''document-fingerprint''\<rparr>] else []) @
     (if fact_duplicateNumber f then
        [\<lparr>ctb_rule = ''DUPLICATE_INVOICE_NUMBER'', ctb_score = pol_duplicateNumber p,
          ctb_explanation =
            ''The vendor has another invoice with the same normalized invoice number.'',
          ctb_evidence = evidence_url iid ''invoice-number''\<rparr>] else []) @
     (if limit_exceeded f then
        [\<lparr>ctb_rule = ''CONTRACT_VALUE_LIMIT_EXCEEDED'', ctb_score = pol_contractLimit p,
          ctb_explanation = ''Invoice total '' @ show_opt (fact_totalAmount f)
            @ '' exceeds the contract limit '' @ show_opt (fact_contractLimit f) @ ''.'',
          ctb_evidence = evidence_url iid ''contract''\<rparr>] else []) @
     (if amount_spike f then
        [\<lparr>ctb_rule = ''AMOUNT_SPIKE'', ctb_score = pol_amountSpike p,
          ctb_explanation =
            ''Invoice total is at least twice the vendor'' @ [CHR 0x27] @ ''s prior invoice average of ''
            @ show_opt (fact_priorAverage f) @ ''.'',
          ctb_evidence = evidence_url iid ''vendor-amount-history''\<rparr>] else [])"

definition total_score :: "contribution list \<Rightarrow> int" where
  "total_score cs = foldl (\<lambda>s c. s + ctb_score c) 0 cs"

definition level_of :: "risk_policy \<Rightarrow> int \<Rightarrow> risk_level" where
  "level_of p s = (if pol_high p \<le> s then HIGH else if pol_medium p \<le> s then MEDIUM else LOW)"

section \<open>The evidence as JSON\<close>

definition json_opt :: "string option \<Rightarrow> json" where
  "json_opt v = (case v of None \<Rightarrow> JNull | Some s \<Rightarrow> JString s)"

definition facts_json :: "invoice_facts \<Rightarrow> json" where
  "facts_json f = JObject
     [(''bankAccountVersion'',
         case fact_bankVersion f of None \<Rightarrow> JNull | Some v \<Rightarrow> JInt (int v)),
      (''exactDocumentDuplicate'', JBool (fact_exactDuplicate f)),
      (''duplicateInvoiceNumber'', JBool (fact_duplicateNumber f)),
      (''totalAmount'', json_opt (fact_totalAmount f)),
      (''contractValueLimit'', json_opt (fact_contractLimit f)),
      (''priorInvoiceAverage'', json_opt (fact_priorAverage f))]"

definition contribution_json :: "contribution \<Rightarrow> json" where
  "contribution_json c = JObject
     [(''rule'', JString (ctb_rule c)), (''score'', JInt (ctb_score c)),
      (''explanation'', JString (ctb_explanation c)), (''evidence'', JString (ctb_evidence c))]"

definition contributions_json :: "contribution list \<Rightarrow> json" where
  "contributions_json cs = JArray (map contribution_json cs)"

definition level_name :: "risk_level \<Rightarrow> string" where
  "level_name l = (case l of LOW \<Rightarrow> ''LOW'' | MEDIUM \<Rightarrow> ''MEDIUM'' | HIGH \<Rightarrow> ''HIGH'')"

definition evidence_json ::
  "uuid \<Rightarrow> nat \<Rightarrow> invoice_facts \<Rightarrow> contribution list \<Rightarrow> int \<Rightarrow> risk_level \<Rightarrow> json" where
  "evidence_json iid rule f cs score l = JObject
     [(''invoiceId'', JString iid), (''ruleVersion'', JInt (int rule)),
      (''facts'', facts_json f), (''contributions'', contributions_json cs),
      (''totalScore'', JInt score), (''level'', JString (level_name l))]"

definition evaluateInvoiceRisk ::
  "(string \<Rightarrow> string) \<Rightarrow> uuid \<Rightarrow> invoice_facts \<Rightarrow> risk_policy \<Rightarrow> evaluation" where
  "evaluateInvoiceRisk hash iid f p =
     (let cs = risk_contributions iid f p; score = total_score cs; l = level_of p score in
      \<lparr>ev_ruleVersion = pol_ruleVersion p, ev_facts = f, ev_contributions = cs,
       ev_totalScore = score, ev_level = l,
       ev_evidenceHash =
         hash (canonicalJson (evidence_json iid (pol_ruleVersion p) f cs score l))\<rparr>)"

section \<open>Scores\<close>

lemma total_score_sum_list: "total_score cs = sum_list (map ctb_score cs)"
proof -
  have "foldl (\<lambda>s c. s + ctb_score c) a cs = a + sum_list (map ctb_score cs)" for a
    by (induction cs arbitrary: a) (simp_all add: add.assoc)
  then show ?thesis by (simp add: total_score_def)
qed

lemma score_of_rules:
  "total_score (risk_contributions iid f p) =
     (if bank_changed f then pol_changedBank p else 0) +
     (if fact_exactDuplicate f then pol_duplicateHash p else 0) +
     (if fact_duplicateNumber f then pol_duplicateNumber p else 0) +
     (if limit_exceeded f then pol_contractLimit p else 0) +
     (if amount_spike f then pol_amountSpike p else 0)"
  by (simp add: total_score_sum_list risk_contributions_def)

text \<open>The CHECK constraints of the policy table.\<close>

definition policy_ok :: "risk_policy \<Rightarrow> bool" where
  "policy_ok p \<longleftrightarrow> 0 < pol_ruleVersion p \<and> 0 < pol_medium p \<and> pol_medium p < pol_high p \<and>
     0 \<le> pol_changedBank p \<and> 0 \<le> pol_duplicateHash p \<and> 0 \<le> pol_duplicateNumber p \<and>
     0 \<le> pol_contractLimit p \<and> 0 \<le> pol_amountSpike p"

lemma evaluate_simps [simp]:
  "ev_ruleVersion (evaluateInvoiceRisk h iid f p) = pol_ruleVersion p"
  "ev_facts (evaluateInvoiceRisk h iid f p) = f"
  "ev_contributions (evaluateInvoiceRisk h iid f p) = risk_contributions iid f p"
  "ev_totalScore (evaluateInvoiceRisk h iid f p) = total_score (risk_contributions iid f p)"
  "ev_level (evaluateInvoiceRisk h iid f p) =
     level_of p (total_score (risk_contributions iid f p))"
  by (simp_all add: evaluateInvoiceRisk_def Let_def)

lemma level_of_mono: "pol_medium p < pol_high p \<Longrightarrow> s \<le> t \<Longrightarrow>
    level_of p s = HIGH \<Longrightarrow> level_of p t = HIGH"
  by (auto simp: level_of_def split: if_splits)

lemma level_of_HIGH: "level_of p s = HIGH \<longleftrightarrow> pol_high p \<le> s"
  by (simp add: level_of_def)

text \<open>With non-negative scores, every rule that fires bounds the total from below.\<close>

lemma rule_score_le:
  assumes "policy_ok p"
  shows "bank_changed f \<Longrightarrow> pol_changedBank p \<le> total_score (risk_contributions iid f p)"
    and "fact_exactDuplicate f \<Longrightarrow> pol_duplicateHash p \<le> total_score (risk_contributions iid f p)"
    and "0 \<le> total_score (risk_contributions iid f p)"
  using assms by (auto simp: score_of_rules policy_ok_def)

end
