(* ===== verification/Approvals.thy ===== *)
theory Approvals
  imports Risk
begin

text \<open>
  The approval service, \<open>apps/api/src/approvals/approvals.service.ts\<close>: submission of a reviewed
  invoice with a snapshot of its risk, the decisions of the approvers, the organization's risk
  policy, and the invalidation of requests whose evidence went stale.  Each operation is the work
  of one transaction and runs under \<^const>\<open>run\<close>.
\<close>

section \<open>Views\<close>

text \<open>\<open>requestInclude\<close>: what is loaded with a request at the moment of the query.\<close>

record request_details =
  det_request :: request
  det_invoice :: "invoice option"
  det_assessment :: "assessment option"
  det_initiator :: "(uuid \<times> string) option"
  det_decisions :: "decision list"

record approver =
  apr_id :: uuid
  apr_role :: membership_role
  apr_displayName :: string

record approval_view =
  view_details :: request_details
  view_eligible :: "approver list"

definition display_name :: "db \<Rightarrow> membership \<Rightarrow> string" where
  "display_name d m =
     (case find (\<lambda>u. user_id u = mem_userId m) (users d) of
        None \<Rightarrow> [] | Some u \<Rightarrow> user_displayName u)"

definition request_details :: "db \<Rightarrow> request \<Rightarrow> request_details" where
  "request_details d r =
     \<lparr>det_request = r,
      det_invoice = find (\<lambda>i. inv_id i = req_invoiceId r \<and> inv_org i = req_org r) (invoices d),
      det_assessment =
        find (\<lambda>a. ra_id a = req_assessmentId r \<and> ra_org a = req_org r) (assessments d),
      det_initiator =
        map_option (\<lambda>m. (mem_id m, display_name d m))
          (find (\<lambda>m. mem_id m = req_initiatedBy r \<and> mem_org m = req_org r) (memberships d)),
      det_decisions =
        filter (\<lambda>x. dec_requestId x = req_id r \<and> dec_org x = req_org r) (decisions d)\<rparr>"

definition approvalView :: "request_details \<Rightarrow> approver list \<Rightarrow> approval_view" where
  "approvalView det eligible = \<lparr>view_details = det, view_eligible = eligible\<rparr>"

section \<open>Failures\<close>

definition notFound :: failure where
  "notFound = Http NotFound ''INVOICE_NOT_FOUND''"

definition approvalNotFound :: failure where
  "approvalNotFound = Http NotFound ''APPROVAL_REQUEST_NOT_FOUND''"

definition staleInvoice :: failure where
  "staleInvoice = Http Conflict ''STALE_INVOICE_VERSION''"

definition staleApproval :: failure where
  "staleApproval = Http Conflict ''STALE_APPROVAL_VERSION''"

definition idempotencyConflict :: failure where
  "idempotencyConflict = Http Conflict ''IDEMPOTENCY_KEY_REUSED''"

definition approvalForbidden :: "string \<Rightarrow> failure" where
  "approvalForbidden code = Http Forbidden code"

section \<open>Keys, averages, policy\<close>

definition idempotencyKeyHash :: "env \<Rightarrow> string option \<Rightarrow> failure + string" where
  "idempotencyKeyHash e key =
     (let normalized = map_option js_trim key in
      if \<not> truthy normalized \<or> length (the normalized) < 16 \<or> 200 < length (the normalized)
      then Inl (Http UnprocessableEntity ''IDEMPOTENCY_KEY_REQUIRED'')
      else Inr (sha256 e (the normalized)))"

definition average :: "rat list \<Rightarrow> string option" where
  "average vs =
     (if vs = [] then None
      else Some (toFixed2 (fl (foldl (\<lambda>s v. fl (s + v)) 0 vs / of_nat (length vs)))))"

text \<open>The defaults of the policy's columns.\<close>

definition default_policy :: "uuid \<Rightarrow> uuid \<Rightarrow> risk_policy" where
  "default_policy ident org =
     \<lparr>pol_id = ident, pol_org = org, pol_ruleVersion = 1, pol_medium = 30, pol_high = 70,
      pol_changedBank = 70, pol_duplicateHash = 70, pol_duplicateNumber = 35,
      pol_contractLimit = 50, pol_amountSpike = 25, pol_separation = True\<rparr>"

definition policy :: "env \<Rightarrow> nat \<Rightarrow> uuid \<Rightarrow> db \<Rightarrow> risk_policy \<times> db" where
  "policy e k org d =
     (case find (\<lambda>p. pol_org p = org) (policies d) of
        Some p \<Rightarrow> (p, d)
      | None \<Rightarrow>
          let p = default_policy (new_uuid e k) org in (p, d\<lparr>policies := policies d @ [p]\<rparr>))"

definition APPROVER_ROLES :: "membership_role list" where
  "APPROVER_ROLES = [OWNER, ADMINISTRATOR, ACCOUNTANT]"

definition eligibleApprovers ::
  "env \<Rightarrow> nat \<Rightarrow> uuid \<Rightarrow> uuid \<Rightarrow> db \<Rightarrow> approver list \<times> db" where
  "eligibleApprovers e k org initiator d =
     (let (p, d') = policy e k org d in
      (map (\<lambda>m. \<lparr>apr_id = mem_id m, apr_role = mem_role m, apr_displayName = display_name d' m\<rparr>)
        (filter (\<lambda>m. mem_org m = org \<and> mem_status m = MEMBER_ACTIVE \<and>
             mem_role m \<in> set APPROVER_ROLES \<and>
             (pol_separation p \<longrightarrow> mem_id m \<noteq> initiator)) (memberships d')), d'))"

section \<open>Submission\<close>

definition documents_of :: "db \<Rightarrow> uuid \<Rightarrow> uuid \<Rightarrow> document list" where
  "documents_of d org iid = filter (\<lambda>x. doc_invoiceId x = iid \<and> doc_org x = org) (documents d)"

definition scan_of :: "db \<Rightarrow> document \<Rightarrow> scan_result option" where
  "scan_of d x =
     map_option pr_scanResult
       (find (\<lambda>p. pr_documentId p = doc_id x \<and> pr_org p = doc_org x) (processings d))"

definition document_cleared :: "db \<Rightarrow> document \<Rightarrow> bool" where
  "document_cleared d x \<longleftrightarrow> doc_storageState x = STORED_APPROVED \<and> scan_of d x = Some SCAN_CLEAN"

definition review_incomplete :: "db \<Rightarrow> invoice \<Rightarrow> document list \<Rightarrow> bool" where
  "review_incomplete d invc docs \<longleftrightarrow>
     \<not> truthy (inv_vendorId invc) \<or> \<not> truthy (inv_number invc) \<or> \<not> truthy (inv_currency invc) \<or>
     inv_totalAmount invc = None \<or> docs = [] \<or> list_ex (\<lambda>x. \<not> document_cleared d x) docs"

definition same_number :: "string option \<Rightarrow> string option \<Rightarrow> bool" where
  "same_number a b \<longleftrightarrow>
     (case (a, b) of (Some s, Some t) \<Rightarrow> js_lower s = js_lower t | _ \<Rightarrow> False)"

definition duplicate_number :: "db \<Rightarrow> uuid \<Rightarrow> invoice \<Rightarrow> bool" where
  "duplicate_number d org invc \<longleftrightarrow>
     0 < count_rows (\<lambda>i. inv_org i = org \<and> inv_vendorId i = inv_vendorId invc \<and>
           same_number (inv_number i) (inv_number invc) \<and> inv_id i \<noteq> inv_id invc) (invoices d)"

text \<open>The last twelve other amounts of the vendor, the latest first, as numbers.\<close>

definition previous_amounts :: "db \<Rightarrow> uuid \<Rightarrow> invoice \<Rightarrow> rat list" where
  "previous_amounts d org invc =
     List.map_filter (\<lambda>i. Option.bind (inv_totalAmount i) (\<lambda>c. js_number (decimal_toString c)))
       (take 12 (filter (\<lambda>i. inv_org i = org \<and> inv_vendorId i = inv_vendorId invc \<and>
            inv_id i \<noteq> inv_id invc \<and> inv_totalAmount i \<noteq> None) (rev (invoices d))))"

definition latest_bank :: "db \<Rightarrow> uuid \<Rightarrow> uuid \<Rightarrow> bank_version option" where
  "latest_bank d org vid =
     find_max bank_number (\<lambda>b. bank_org b = org \<and> bank_vendorId b = vid) (bank_versions d)"

definition contract_limit :: "db \<Rightarrow> uuid \<Rightarrow> invoice \<Rightarrow> cents option" where
  "contract_limit d org invc =
     Option.bind (inv_contractId invc) (\<lambda>cid.
       Option.bind (find (\<lambda>c. ctr_id c = cid \<and> ctr_org c = org) (contracts d)) ctr_valueLimit)"

definition submission_facts ::
  "db \<Rightarrow> uuid \<Rightarrow> invoice \<Rightarrow> document list \<Rightarrow> bank_version \<Rightarrow> invoice_facts" where
  "submission_facts d org invc docs bank =
     \<lparr>fact_bankVersion = Some (bank_number bank),
      fact_exactDuplicate = list_ex (\<lambda>x. doc_duplicateOf x \<noteq> None) docs,
      fact_duplicateNumber = duplicate_number d org invc,
      fact_totalAmount = map_option decimal_toString (inv_totalAmount invc),
      fact_contractLimit = map_option decimal_toString (contract_limit d org invc),
      fact_priorAverage = average (previous_amounts d org invc)\<rparr>"

definition next_request_version :: "db \<Rightarrow> uuid \<Rightarrow> uuid \<Rightarrow> nat" where
  "next_request_version d org iid =
     (case find_max req_version (\<lambda>r. req_org r = org \<and> req_invoiceId r = iid) (requests d) of
        None \<Rightarrow> 0 | Some r \<Rightarrow> req_version r) + 1"

definition submitted_assessment :: "env \<Rightarrow> uuid \<Rightarrow> uuid \<Rightarrow> nat \<Rightarrow> evaluation \<Rightarrow> assessment" where
  "submitted_assessment e org iid v ev =
     \<lparr>ra_id = new_uuid e 1, ra_org = org, ra_invoiceId = iid, ra_invoiceVersion = v,
      ra_ruleVersion = ev_ruleVersion ev, ra_facts = facts_json (ev_facts ev),
      ra_contributions = contributions_json (ev_contributions ev),
      ra_totalScore = ev_totalScore ev, ra_level = ev_level ev,
      ra_evidenceHash = ev_evidenceHash ev\<rparr>"

definition submitted_request ::
  "env \<Rightarrow> auth_context \<Rightarrow> uuid \<Rightarrow> nat \<Rightarrow> assessment \<Rightarrow> bank_version \<Rightarrow> nat \<Rightarrow> string \<Rightarrow> request" where
  "submitted_request e a iid v risk bank rv kh =
     \<lparr>req_id = new_uuid e 2, req_org = organizationId a, req_invoiceId = iid,
      req_invoiceVersion = v, req_assessmentId = ra_id risk,
      req_bankVersionId = Some (bank_id bank), req_version = rv, req_status = REQUEST_PENDING,
      req_required = (if ra_level risk = HIGH then 2 else 1),
      req_initiatedBy = membershipId a, req_keyHash = kh, req_invalidatedReason = None,
      req_completedAt = None\<rparr>"

text \<open>The unique indexes of the two evidence tables.\<close>

definition assessment_keys :: "(assessment \<Rightarrow> string list \<times> nat) list" where
  "assessment_keys = [\<lambda>r. ([ra_id r], 0), \<lambda>r. ([ra_org r, ra_invoiceId r], ra_invoiceVersion r)]"

definition request_keys :: "(request \<Rightarrow> string list \<times> nat) list" where
  "request_keys =
     [\<lambda>r. ([req_id r], 0), \<lambda>r. ([req_org r, req_invoiceId r], req_version r),
      \<lambda>r. ([req_org r, req_keyHash r], 0), \<lambda>r. ([[], [], req_assessmentId r], 0)]"

definition submit_audits ::
  "env \<Rightarrow> auth_context \<Rightarrow> uuid \<Rightarrow> nat \<Rightarrow> evaluation \<Rightarrow> request \<Rightarrow> db \<Rightarrow> db" where
  "submit_audits e a iid v ev r d =
     writeAudit e 5 (organizationId a) (Some (membershipId a)) ''APPROVAL_REQUEST_CREATED''
       ''APPROVAL_REQUEST'' (req_id r) None
       (Some (JObject [(''invoiceId'', JString iid), (''invoiceVersion'', JInt (int v)),
          (''approvalVersion'', JInt (int (req_version r))),
          (''requiredDecisions'', JInt (int (req_required r)))])) None
     (writeAudit e 3 (organizationId a) (Some (membershipId a)) ''INVOICE_RISK_ASSESSED''
       ''INVOICE'' iid None
       (Some (JObject [(''invoiceVersion'', JInt (int v)),
          (''ruleVersion'', JInt (int (ev_ruleVersion ev))),
          (''score'', JInt (ev_totalScore ev)), (''level'', JString (level_name (ev_level ev))),
          (''evidenceHash'', JString (ev_evidenceHash ev))])) None d)"

definition moves_on_submit :: "uuid \<Rightarrow> uuid \<Rightarrow> nat \<Rightarrow> invoice \<Rightarrow> bool" where
  "moves_on_submit org iid v i \<longleftrightarrow>
     inv_id i = iid \<and> inv_org i = org \<and> inv_version i = v \<and> inv_status i = NEEDS_REVIEW"

definition submit_tx ::
  "env \<Rightarrow> auth_context \<Rightarrow> uuid \<Rightarrow> nat \<Rightarrow> string \<Rightarrow> (db, approval_view) work" where
  "submit_tx e a iid v kh d =
     (let org = organizationId a in
      case find (\<lambda>r. req_org r = org \<and> req_keyHash r = kh) (requests d) of
        Some replay \<Rightarrow>
          if req_invoiceId replay \<noteq> iid then Inl idempotencyConflict
          else Inr (approvalView (request_details d replay) [], d)
      | None \<Rightarrow>
      case find (\<lambda>i. inv_id i = iid \<and> inv_org i = org) (invoices d) of
        None \<Rightarrow> Inl notFound
      | Some invc \<Rightarrow>
          let docs = documents_of d org iid in
          if inv_version invc \<noteq> v then Inl staleInvoice
          else if inv_status invc \<noteq> NEEDS_REVIEW
          then Inl (Http Conflict ''INVOICE_NOT_READY_FOR_SUBMISSION'')
          else if review_incomplete d invc docs
          then Inl (Http UnprocessableEntity ''INVOICE_REVIEW_INCOMPLETE'')
          else
            let (p, d1) = policy e 0 org d in
            case latest_bank d1 org (the (inv_vendorId invc)) of
              None \<Rightarrow> Inl (Http UnprocessableEntity ''VENDOR_BANK_ACCOUNT_REQUIRED'')
            | Some bank \<Rightarrow>
                let facts = submission_facts d1 org invc docs bank;
                    ev = evaluateInvoiceRisk (sha256 e) (inv_id invc) facts p;
                    nv = inv_version invc + 1;
                    rv = next_request_version d1 org iid;
                    risk = submitted_assessment e org iid nv ev;
                    req = submitted_request e a iid nv risk bank rv kh
                in
                case create_unique assessment_keys risk (assessments d1) of
                  Inl err \<Rightarrow> Inl err
                | Inr ras \<Rightarrow>
                case create_unique request_keys req (requests d1) of
                  Inl err \<Rightarrow> Inl err
                | Inr reqs \<Rightarrow>
                    let d2 = d1\<lparr>assessments := ras, requests := reqs\<rparr>;
                        det = request_details d2 req
                    in
                    if count_rows (moves_on_submit org iid v) (invoices d2) \<noteq> 1
                    then Inl staleInvoice
                    else
                      let d3 = d2\<lparr>invoices := update_rows (moves_on_submit org iid v)
                            (\<lambda>i. i\<lparr>inv_status := AWAITING_APPROVAL,
                                   inv_bankVersionId := Some (bank_id bank),
                                   inv_version := inv_version i + 1\<rparr>) (invoices d2)\<rparr>;
                          d4 = submit_audits e a iid nv ev req d3;
                          (eligible, d5) = eligibleApprovers e 7 org (req_initiatedBy req) d4
                      in Inr (approvalView det eligible, d5))"

definition submit ::
  "env \<Rightarrow> auth_context \<Rightarrow> uuid \<Rightarrow> nat \<Rightarrow> string option \<Rightarrow> db \<Rightarrow> (failure + approval_view) \<times> db" where
  "submit e a iid v key d =
     (case idempotencyKeyHash e key of
        Inl err \<Rightarrow> (Inl err, d)
      | Inr kh \<Rightarrow> run (submit_tx e a iid v kh) d)"

section \<open>Decisions\<close>

record approval_decision_dto =
  dto_approvalVersion :: nat
  dto_outcome :: decision_outcome
  dto_reason :: string

text \<open>What the validators of \<open>ApprovalDecisionDto\<close> accept.\<close>

definition valid_ApprovalDecisionDto :: "approval_decision_dto \<Rightarrow> bool" where
  "valid_ApprovalDecisionDto dto \<longleftrightarrow>
     1 \<le> dto_approvalVersion dto \<and> 10 \<le> length (dto_reason dto) \<and> length (dto_reason dto) \<le> 500"

datatype decide_result = Stale | Decided approval_view

definition invalidate :: "request \<Rightarrow> string \<Rightarrow> db \<Rightarrow> db" where
  "invalidate r reason d =
     d\<lparr>requests := update_rows
          (\<lambda>x. req_org x = req_org r \<and> req_id x = req_id r \<and> req_status x = REQUEST_PENDING)
          (\<lambda>x. x\<lparr>req_status := REQUEST_INVALIDATED, req_invalidatedReason := Some reason\<rparr>)
          (requests d),
       invoices := update_rows
          (\<lambda>i. inv_org i = req_org r \<and> inv_id i = req_invoiceId r \<and>
             inv_version i = req_invoiceVersion r \<and> inv_status i = AWAITING_APPROVAL)
          (\<lambda>i. i\<lparr>inv_status := NEEDS_REVIEW, inv_version := inv_version i + 1\<rparr>)
          (invoices d)\<rparr>"

text \<open>
  The request's bank account is no longer the vendor's latest one.  A missing latest account is
  \<open>undefined\<close>, which differs from every column value.
\<close>

definition bank_outdated :: "db \<Rightarrow> uuid \<Rightarrow> request \<Rightarrow> invoice \<Rightarrow> bool" where
  "bank_outdated d org r i \<longleftrightarrow>
     truthy (inv_vendorId i) \<and>
     (case latest_bank d org (the (inv_vendorId i)) of
        None \<Rightarrow> True
      | Some b \<Rightarrow> Some (bank_id b) \<noteq> req_bankVersionId r)"

definition eligible_member :: "db \<Rightarrow> auth_context \<Rightarrow> membership option" where
  "eligible_member d a =
     find (\<lambda>m. mem_id m = membershipId a \<and> mem_org m = organizationId a \<and>
            mem_userId m = userId a \<and> mem_status m = MEMBER_ACTIVE \<and>
            mem_role m \<in> set APPROVER_ROLES) (memberships d)"

definition verified_session :: "env \<Rightarrow> db \<Rightarrow> auth_context \<Rightarrow> session option" where
  "verified_session e d a =
     find (\<lambda>s. ses_id s = sessionId a \<and> ses_org s = organizationId a \<and> ses_userId s = userId a \<and>
            ses_revokedAt s = None \<and> clock e 1 < ses_expiresAt s \<and>
            (case ses_stepUp s of None \<Rightarrow> False | Some t \<Rightarrow> clock e 0 - stepUpTtl e \<le> t))
       (sessions d)"

definition decision_keys :: "(decision \<Rightarrow> string list) list" where
  "decision_keys =
     [\<lambda>x. [dec_id x], \<lambda>x. [dec_org x, dec_requestId x, dec_decidedBy x],
      \<lambda>x. [dec_org x, dec_keyHash x]]"

definition sql_trim :: "string \<Rightarrow> string" where
  "sql_trim s = rev (dropWhile ((=) (CHR 0x20)) (rev (dropWhile ((=) (CHR 0x20)) s)))"

text \<open>
  \<open>approvalDecision.create\<close>: the CHECK constraint on the reason, then the unique indexes; a
  \<open>P2002\<close> becomes the conflict, every other failure goes on.
\<close>

definition create_decision :: "decision \<Rightarrow> db \<Rightarrow> failure + db" where
  "create_decision x d =
     (if length (sql_trim (dec_reason x)) < 10
      then Inl (DatabaseError ''ApprovalDecision_values_check'')
      else case create_unique decision_keys x (decisions d) of
        Inl UniqueConstraint \<Rightarrow> Inl (Http Conflict ''DUPLICATE_APPROVAL_DECISION'')
      | Inl err \<Rightarrow> Inl err
      | Inr xs \<Rightarrow> Inr (d\<lparr>decisions := xs\<rparr>))"

definition set_request_status :: "uuid \<Rightarrow> uuid \<Rightarrow> request_status \<Rightarrow> time \<Rightarrow> db \<Rightarrow> db" where
  "set_request_status org rid st now d =
     d\<lparr>requests := update_rows (\<lambda>r. req_org r = org \<and> req_id r = rid)
          (\<lambda>r. r\<lparr>req_status := st, req_completedAt := Some now\<rparr>) (requests d)\<rparr>"

text \<open>
  The trigger \<open>Invoice_approval_guard\<close>: a row that becomes \<open>APPROVED\<close> needs an approved request
  of its version.
\<close>

definition approval_guard :: "db \<Rightarrow> invoice \<Rightarrow> bool" where
  "approval_guard d i \<longleftrightarrow>
     (\<exists>r \<in> set (requests d). req_org r = inv_org i \<and> req_invoiceId r = inv_id i \<and>
        req_invoiceVersion r = inv_version i \<and> req_status r = REQUEST_APPROVED)"

definition set_invoice_status :: "uuid \<Rightarrow> uuid \<Rightarrow> invoice_status \<Rightarrow> db \<Rightarrow> failure + db" where
  "set_invoice_status org iid st d =
     (if st = APPROVED \<and> (\<exists>i \<in> set (invoices d). inv_org i = org \<and> inv_id i = iid \<and>
           inv_status i \<noteq> APPROVED \<and> \<not> approval_guard d i)
      then Inl (DatabaseError ''invoice requires a completed approval request'')
      else Inr (d\<lparr>invoices := update_rows (\<lambda>i. inv_org i = org \<and> inv_id i = iid)
             (\<lambda>i. i\<lparr>inv_status := st\<rparr>) (invoices d)\<rparr>))"

definition approvals_of :: "db \<Rightarrow> request \<Rightarrow> nat" where
  "approvals_of d r =
     count_rows (\<lambda>x. dec_org x = req_org r \<and> dec_requestId x = req_id r \<and>
        dec_version x = req_version r \<and> dec_outcome x = APPROVE) (decisions d)"

definition complete_decision :: "env \<Rightarrow> request \<Rightarrow> decision_outcome \<Rightarrow> db \<Rightarrow> failure + db" where
  "complete_decision e r outcome d =
     (if outcome = REJECT then
        set_invoice_status (req_org r) (req_invoiceId r) REJECTED
          (set_request_status (req_org r) (req_id r) REQUEST_REJECTED (clock e 2) d)
      else if req_required r \<le> approvals_of d r then
        set_invoice_status (req_org r) (req_invoiceId r) APPROVED
          (set_request_status (req_org r) (req_id r) REQUEST_APPROVED (clock e 2) d)
      else Inr d)"

definition made_decision ::
  "env \<Rightarrow> auth_context \<Rightarrow> request \<Rightarrow> membership \<Rightarrow> session \<Rightarrow> time \<Rightarrow> approval_decision_dto \<Rightarrow> string
     \<Rightarrow> decision" where
  "made_decision e a r m s stepUp dto kh =
     \<lparr>dec_id = new_uuid e 1, dec_org = organizationId a, dec_requestId = req_id r,
      dec_version = req_version r, dec_decidedBy = mem_id m, dec_sessionId = ses_id s,
      dec_outcome = dto_outcome dto, dec_reason = js_trim (dto_reason dto),
      dec_stepUpVerifiedAt = stepUp, dec_keyHash = kh\<rparr>"

definition decision_audit ::
  "env \<Rightarrow> auth_context \<Rightarrow> request \<Rightarrow> time \<Rightarrow> approval_decision_dto \<Rightarrow> db \<Rightarrow> db" where
  "decision_audit e a r stepUp dto d =
     writeAudit e 2 (organizationId a) (Some (membershipId a))
       (if dto_outcome dto = APPROVE then ''APPROVAL_DECISION_APPROVED''
        else ''APPROVAL_DECISION_REJECTED'')
       ''APPROVAL_REQUEST'' (req_id r) None
       (Some (JObject [(''approvalVersion'', JInt (int (req_version r))),
          (''invoiceId'', JString (req_invoiceId r)), (''passkeyVerifiedAt'', JString (toISOString stepUp))]))
       (Some (dto_reason dto)) d"

text \<open>The writes of a decision that passed every check.\<close>

definition record_decision ::
  "env \<Rightarrow> auth_context \<Rightarrow> request \<Rightarrow> membership \<Rightarrow> session \<Rightarrow> time \<Rightarrow> approval_decision_dto \<Rightarrow> string
     \<Rightarrow> (db, decide_result) work" where
  "record_decision e a r m s stepUp dto kh d =
     (case create_decision (made_decision e a r m s stepUp dto kh) d of
        Inl err \<Rightarrow> Inl err
      | Inr d1 \<Rightarrow>
      case complete_decision e r (dto_outcome dto) d1 of
        Inl err \<Rightarrow> Inl err
      | Inr d2 \<Rightarrow>
          let d3 = decision_audit e a r stepUp dto d2 in
          case find (\<lambda>x. req_id x = req_id r \<and> req_org x = organizationId a) (requests d3) of
            None \<Rightarrow> Inl (DatabaseError ''P2025'')
          | Some updated \<Rightarrow>
              let (eligible, d4) =
                eligibleApprovers e 4 (organizationId a) (req_initiatedBy updated) d3
              in Inr (Decided (approvalView (request_details d3 updated) eligible), d4))"

definition decide_tx ::
  "env \<Rightarrow> auth_context \<Rightarrow> uuid \<Rightarrow> approval_decision_dto \<Rightarrow> string \<Rightarrow> (db, decide_result) work" where
  "decide_tx e a rid dto kh d =
     (let org = organizationId a in
      case find (\<lambda>x. dec_org x = org \<and> dec_keyHash x = kh) (decisions d) of
        Some replay \<Rightarrow>
          if dec_requestId replay \<noteq> rid then Inl idempotencyConflict
          else (case find (\<lambda>r. req_id r = rid \<and> req_org r = org) (requests d) of
              None \<Rightarrow> Inl (DatabaseError ''ApprovalDecision_approvalRequestId_organizationId_fkey'')
            | Some r \<Rightarrow> Inr (Decided (approvalView (request_details d r) []), d))
      | None \<Rightarrow>
      case find (\<lambda>r. req_id r = rid \<and> req_org r = org) (requests d) of
        None \<Rightarrow> Inl approvalNotFound
      | Some r \<Rightarrow>
      if req_status r \<noteq> REQUEST_PENDING
      then Inl (Http Conflict ''APPROVAL_REQUEST_NOT_PENDING'')
      else if req_version r \<noteq> dto_approvalVersion dto then Inl staleApproval
      else
      case find (\<lambda>i. inv_id i = req_invoiceId r \<and> inv_org i = org) (invoices d) of
        None \<Rightarrow> Inl (DatabaseError ''ApprovalRequest_invoiceId_organizationId_fkey'')
      | Some i \<Rightarrow>
      if inv_version i \<noteq> req_invoiceVersion r \<or> inv_status i \<noteq> AWAITING_APPROVAL
      then Inr (Stale, invalidate r ''INVOICE_VERSION_CHANGED'' d)
      else if bank_outdated d org r i
      then Inr (Stale, invalidate r ''VENDOR_BANK_ACCOUNT_CHANGED'' d)
      else
      case eligible_member d a of
        None \<Rightarrow> Inl (approvalForbidden ''APPROVER_NOT_ELIGIBLE'')
      | Some m \<Rightarrow>
          let (p, d1) = policy e 0 org d in
          if pol_separation p \<and> req_initiatedBy r = mem_id m
          then Inl (approvalForbidden ''SELF_APPROVAL_FORBIDDEN'')
          else
          case verified_session e d1 a of
            None \<Rightarrow> Inl (approvalForbidden ''PASSKEY_STEP_UP_REQUIRED'')
          | Some s \<Rightarrow>
          case ses_stepUp s of
            None \<Rightarrow> Inl (approvalForbidden ''PASSKEY_STEP_UP_REQUIRED'')
          | Some stepUp \<Rightarrow> record_decision e a r m s stepUp dto kh d1)"

text \<open>A stale request is invalidated and committed; the error follows after the transaction.\<close>

definition decide ::
  "env \<Rightarrow> auth_context \<Rightarrow> uuid \<Rightarrow> approval_decision_dto \<Rightarrow> string option \<Rightarrow> db
     \<Rightarrow> (failure + approval_view) \<times> db" where
  "decide e a rid dto key d =
     (case idempotencyKeyHash e key of
        Inl err \<Rightarrow> (Inl err, d)
      | Inr kh \<Rightarrow>
      case run (decide_tx e a rid dto kh) d of
        (Inl err, d') \<Rightarrow> (Inl err, d')
      | (Inr Stale, d') \<Rightarrow> (Inl staleApproval, d')
      | (Inr (Decided v), d') \<Rightarrow> (Inr v, d'))"

section \<open>Reading requests\<close>

fun list_views :: "env \<Rightarrow> uuid \<Rightarrow> request list \<Rightarrow> db \<Rightarrow> approval_view list \<times> db" where
  "list_views e org [] d = ([], d)"
| "list_views e org (r # rs) d =
     (let det = request_details d r;
          (eligible, d1) = eligibleApprovers e 0 org (req_initiatedBy r) d;
          (views, d2) = list_views e org rs d1
      in (approvalView det eligible # views, d2))"

definition list_requests :: "env \<Rightarrow> auth_context \<Rightarrow> db \<Rightarrow> (failure + approval_view list) \<times> db" where
  "list_requests e a =
     run (\<lambda>d. Inr (list_views e (organizationId a)
       (take 100 (filter (\<lambda>r. req_org r = organizationId a) (rev (requests d)))) d))"

definition get_request :: "env \<Rightarrow> auth_context \<Rightarrow> uuid \<Rightarrow> db \<Rightarrow> (failure + approval_view) \<times> db" where
  "get_request e a rid =
     run (\<lambda>d. case find (\<lambda>r. req_id r = rid \<and> req_org r = organizationId a) (requests d) of
          None \<Rightarrow> Inl approvalNotFound
        | Some r \<Rightarrow>
            let (eligible, d') = eligibleApprovers e 0 (organizationId a) (req_initiatedBy r) d
            in Inr (approvalView (request_details d r) eligible, d'))"

section \<open>The risk policy\<close>

record update_policy_dto =
  upd_medium :: "int option"
  upd_high :: "int option"
  upd_changedBank :: "int option"
  upd_duplicateHash :: "int option"
  upd_duplicateNumber :: "int option"
  upd_contractLimit :: "int option"
  upd_amountSpike :: "int option"

definition in_range :: "int \<Rightarrow> int \<Rightarrow> int option \<Rightarrow> bool" where
  "in_range lo hi v \<longleftrightarrow> (case v of None \<Rightarrow> True | Some x \<Rightarrow> lo \<le> x \<and> x \<le> hi)"

definition valid_UpdateRiskPolicyDto :: "update_policy_dto \<Rightarrow> bool" where
  "valid_UpdateRiskPolicyDto dto \<longleftrightarrow>
     in_range 1 10000 (upd_medium dto) \<and> in_range 2 10000 (upd_high dto) \<and>
     in_range 0 10000 (upd_changedBank dto) \<and> in_range 0 10000 (upd_duplicateHash dto) \<and>
     in_range 0 10000 (upd_duplicateNumber dto) \<and> in_range 0 10000 (upd_contractLimit dto) \<and>
     in_range 0 10000 (upd_amountSpike dto)"

definition or_keep :: "'a option \<Rightarrow> 'a \<Rightarrow> 'a" where
  "or_keep v x = (case v of None \<Rightarrow> x | Some y \<Rightarrow> y)"

definition apply_policy_dto :: "update_policy_dto \<Rightarrow> risk_policy \<Rightarrow> risk_policy" where
  "apply_policy_dto dto p =
     p\<lparr>pol_medium := or_keep (upd_medium dto) (pol_medium p),
       pol_high := or_keep (upd_high dto) (pol_high p),
       pol_changedBank := or_keep (upd_changedBank dto) (pol_changedBank p),
       pol_duplicateHash := or_keep (upd_duplicateHash dto) (pol_duplicateHash p),
       pol_duplicateNumber := or_keep (upd_duplicateNumber dto) (pol_duplicateNumber p),
       pol_contractLimit := or_keep (upd_contractLimit dto) (pol_contractLimit p),
       pol_amountSpike := or_keep (upd_amountSpike dto) (pol_amountSpike p),
       pol_ruleVersion := pol_ruleVersion p + 1\<rparr>"

definition policyAudit :: "risk_policy \<Rightarrow> json" where
  "policyAudit p = JObject
     [(''id'', JString (pol_id p)), (''organizationId'', JString (pol_org p)),
      (''ruleVersion'', JInt (int (pol_ruleVersion p))),
      (''mediumThreshold'', JInt (pol_medium p)), (''highThreshold'', JInt (pol_high p)),
      (''changedBankAccountScore'', JInt (pol_changedBank p)),
      (''duplicateHashScore'', JInt (pol_duplicateHash p)),
      (''duplicateInvoiceNumberScore'', JInt (pol_duplicateNumber p)),
      (''contractLimitScore'', JInt (pol_contractLimit p)),
      (''amountSpikeScore'', JInt (pol_amountSpike p)),
      (''requireSeparationOfDuties'', JBool (pol_separation p))]"

definition getPolicy :: "env \<Rightarrow> auth_context \<Rightarrow> db \<Rightarrow> (failure + risk_policy) \<times> db" where
  "getPolicy e a = run (\<lambda>d. Inr (policy e 0 (organizationId a) d))"

definition updatePolicy_tx ::
  "env \<Rightarrow> auth_context \<Rightarrow> update_policy_dto \<Rightarrow> (db, risk_policy) work" where
  "updatePolicy_tx e a dto d =
     (let org = organizationId a; (existing, d1) = policy e 0 org d;
          medium = or_keep (upd_medium dto) (pol_medium existing);
          high = or_keep (upd_high dto) (pol_high existing)
      in if high \<le> medium then Inl (Http UnprocessableEntity ''RISK_THRESHOLDS_INVALID'')
      else
        let updated = apply_policy_dto dto existing in
        if \<not> policy_ok updated then Inl (DatabaseError ''OrganizationRiskPolicy_thresholds_check'')
        else
          Inr (updated,
            writeAudit e 1 org (Some (membershipId a)) ''RISK_POLICY_UPDATED'' ''RISK_POLICY''
              (pol_id updated) (Some (policyAudit existing)) (Some (policyAudit updated)) None
              (d1\<lparr>policies := update_rows (\<lambda>p. pol_org p = org) (apply_policy_dto dto)
                  (policies d1)\<rparr>)))"

definition updatePolicy ::
  "env \<Rightarrow> auth_context \<Rightarrow> update_policy_dto \<Rightarrow> db \<Rightarrow> (failure + risk_policy) \<times> db" where
  "updatePolicy e a dto = run (updatePolicy_tx e a dto)"

end
