(* ===== verification/Approval_Invariant.thy ===== *)
theory Approval_Invariant
  imports Approvals
begin

text \<open>
  The invariant of the approval tables.  It says how requests, decisions, assessments, policies
  and invoices agree: the foreign keys and unique indexes, the number of decisions a request asks
  for, separation of duties, and that an approved invoice has an approved request of its own
  version.  The lemmas say which changes of one table keep it; every operation of the services is
  a sequence of such changes.
\<close>

definition keys_ok :: "db \<Rightarrow> bool" where
  "keys_ok d \<longleftrightarrow> distinct (map inv_id (invoices d)) \<and> distinct (map req_id (requests d)) \<and>
     distinct (map ra_id (assessments d)) \<and> distinct (map pol_org (policies d)) \<and>
     distinct (map (\<lambda>x. [dec_org x, dec_requestId x, dec_decidedBy x]) (decisions d))"

definition policies_ok :: "db \<Rightarrow> bool" where
  "policies_ok d \<longleftrightarrow> (\<forall>p \<in> set (policies d). pol_separation p \<and> policy_ok p)"

definition request_of :: "request \<Rightarrow> invoice \<Rightarrow> bool" where
  "request_of r i \<longleftrightarrow> req_invoiceId r = inv_id i \<and> req_org r = inv_org i"

definition decision_of :: "decision \<Rightarrow> request \<Rightarrow> bool" where
  "decision_of x r \<longleftrightarrow> dec_requestId x = req_id r \<and> dec_org x = req_org r"

definition evidence_of :: "assessment \<Rightarrow> request \<Rightarrow> bool" where
  "evidence_of a r \<longleftrightarrow> ra_id a = req_assessmentId r \<and> ra_org a = req_org r \<and>
     ra_invoiceId a = req_invoiceId r \<and> ra_invoiceVersion a = req_invoiceVersion r"

definition request_ok :: "db \<Rightarrow> request \<Rightarrow> bool" where
  "request_ok d r \<longleftrightarrow>
     (\<exists>i \<in> set (invoices d). request_of r i) \<and>
     (\<forall>i \<in> set (invoices d). request_of r i \<longrightarrow> req_invoiceVersion r \<le> inv_version i) \<and>
     (\<exists>a \<in> set (assessments d). evidence_of a r \<and> req_required r = (if ra_level a = HIGH then 2 else 1)) \<and>
     (req_status r = REQUEST_APPROVED \<longrightarrow> req_required r \<le> approvals_of d r)"

definition decision_ok :: "db \<Rightarrow> decision \<Rightarrow> bool" where
  "decision_ok d x \<longleftrightarrow>
     (\<exists>r \<in> set (requests d). decision_of x r) \<and>
     (\<forall>r \<in> set (requests d). decision_of x r \<longrightarrow>
        dec_decidedBy x \<noteq> req_initiatedBy r \<and> dec_version x = req_version r)"

definition assessment_ok :: "db \<Rightarrow> assessment \<Rightarrow> bool" where
  "assessment_ok d a \<longleftrightarrow>
     (\<exists>i \<in> set (invoices d). inv_id i = ra_invoiceId a \<and> inv_org i = ra_org a) \<and>
     (\<forall>i \<in> set (invoices d). inv_id i = ra_invoiceId a \<and> inv_org i = ra_org a \<longrightarrow>
        ra_invoiceVersion a \<le> inv_version i)"

definition invoice_ok :: "db \<Rightarrow> invoice \<Rightarrow> bool" where
  "invoice_ok d i \<longleftrightarrow> (inv_status i = APPROVED \<longrightarrow> approval_guard d i)"

definition approval_inv :: "db \<Rightarrow> bool" where
  "approval_inv d \<longleftrightarrow> keys_ok d \<and> policies_ok d \<and>
     (\<forall>r \<in> set (requests d). request_ok d r) \<and> (\<forall>x \<in> set (decisions d). decision_ok d x) \<and>
     (\<forall>a \<in> set (assessments d). assessment_ok d a) \<and> (\<forall>i \<in> set (invoices d). invoice_ok d i)"

lemmas approval_defs = approval_inv_def keys_ok_def policies_ok_def request_ok_def decision_ok_def
  assessment_ok_def invoice_ok_def approval_guard_def approvals_of_def

text \<open>The invariant reads five tables only.\<close>

lemma approval_inv_cong:
  assumes "invoices d' = invoices d" "requests d' = requests d" "decisions d' = decisions d"
    "assessments d' = assessments d" "policies d' = policies d"
  shows "approval_inv d' = approval_inv d"
  using assms by (simp add: approval_defs)

lemma approval_inv_writeAudit [simp]:
  "approval_inv (writeAudit e k org ac a t i b f r d) = approval_inv d"
  by (rule approval_inv_cong) simp_all

lemma approval_inv_empty: "approval_inv empty_db"
  by (simp add: approval_defs empty_db_def)

section \<open>Changes of one table\<close>

text \<open>
  Invoices may be rewritten when identity is kept, versions do not fall, and none becomes
  approved without an approved request of its version.
\<close>

lemma approval_inv_invoices:
  assumes "approval_inv d"
    and ident: "\<And>i. inv_id (f i) = inv_id i \<and> inv_org (f i) = inv_org i"
    and ver: "\<And>i. inv_version i \<le> inv_version (f i)"
    and appr: "\<And>i. i \<in> set (invoices d) \<Longrightarrow> P i \<Longrightarrow>
      inv_status (f i) = APPROVED \<Longrightarrow> approval_guard d (f i)"
  shows "approval_inv (d\<lparr>invoices := update_rows P f (invoices d)\<rparr>)" (is "approval_inv ?d")
proof -
  have keys: "keys_ok ?d"
    using assms(1) ident by (simp add: approval_inv_def keys_ok_def map_update_rows)
  have older: "\<exists>j \<in> set (invoices d). inv_id i = inv_id j \<and> inv_org i = inv_org j \<and>
      inv_version j \<le> inv_version i" if "i \<in> set (invoices ?d)" for i
    using that ident ver by (auto simp: set_update_rows)
  have newer: "\<exists>i \<in> set (invoices ?d). inv_id i = inv_id j \<and> inv_org i = inv_org j"
    if "j \<in> set (invoices d)" for j
    using that ident by (auto simp: set_update_rows)
  have req: "request_ok ?d r" if "request_ok d r" for r
  proof -
    have 1: "\<exists>i \<in> set (invoices ?d). request_of r i"
      using that newer unfolding request_ok_def request_of_def by metis
    have 2: "\<forall>i \<in> set (invoices ?d). request_of r i \<longrightarrow> req_invoiceVersion r \<le> inv_version i"
      using that older unfolding request_ok_def request_of_def by (metis le_trans)
    from that 1 2 show ?thesis by (simp add: request_ok_def approvals_of_def)
  qed
  have ass: "assessment_ok ?d a" if "assessment_ok d a" for a
    unfolding assessment_ok_def
  proof
    show "\<exists>i \<in> set (invoices ?d). inv_id i = ra_invoiceId a \<and> inv_org i = ra_org a"
      using that newer unfolding assessment_ok_def by metis
    show "\<forall>i \<in> set (invoices ?d). inv_id i = ra_invoiceId a \<and> inv_org i = ra_org a \<longrightarrow>
        ra_invoiceVersion a \<le> inv_version i"
      using that older unfolding assessment_ok_def by (metis le_trans)
  qed
  have invo: "invoice_ok ?d i" if "i \<in> set (invoices ?d)" for i
  proof -
    from that obtain j where j: "j \<in> set (invoices d)" "i = (if P j then f j else j)"
      by (auto simp: set_update_rows)
    with assms(1) have "invoice_ok d j" by (simp add: approval_inv_def)
    with j appr [of j] show ?thesis by (auto simp: invoice_ok_def approval_guard_def)
  qed
  show ?thesis
    using assms(1) keys req ass invo
    by (simp add: approval_inv_def policies_ok_def decision_ok_def)
qed

text \<open>
  The status of requests may change when an approved one stays as it is and one becomes approved
  only with the decisions it asks for.
\<close>

definition keeps_evidence :: "(request \<Rightarrow> request) \<Rightarrow> bool" where
  "keeps_evidence f \<longleftrightarrow> (\<forall>r. req_id (f r) = req_id r \<and> req_org (f r) = req_org r \<and>
     req_invoiceId (f r) = req_invoiceId r \<and> req_invoiceVersion (f r) = req_invoiceVersion r \<and>
     req_assessmentId (f r) = req_assessmentId r \<and> req_version (f r) = req_version r \<and>
     req_required (f r) = req_required r \<and> req_initiatedBy (f r) = req_initiatedBy r)"

lemma approval_inv_requests:
  assumes "approval_inv d" and keep: "keeps_evidence f"
    and stay: "\<And>r. r \<in> set (requests d) \<Longrightarrow> P r \<Longrightarrow> req_status r \<noteq> REQUEST_APPROVED"
    and appr: "\<And>r. r \<in> set (requests d) \<Longrightarrow> P r \<Longrightarrow> req_status (f r) = REQUEST_APPROVED \<Longrightarrow>
      req_required r \<le> approvals_of d r"
  shows "approval_inv (d\<lparr>requests := update_rows P f (requests d)\<rparr>)" (is "approval_inv ?d")
proof -
  have f: "req_id (f r) = req_id r" "req_org (f r) = req_org r"
    "req_invoiceId (f r) = req_invoiceId r" "req_invoiceVersion (f r) = req_invoiceVersion r"
    "req_assessmentId (f r) = req_assessmentId r" "req_version (f r) = req_version r"
    "req_required (f r) = req_required r" "req_initiatedBy (f r) = req_initiatedBy r" for r
    using keep by (simp_all add: keeps_evidence_def)
  have keys: "keys_ok ?d"
    using assms(1) f by (simp add: approval_inv_def keys_ok_def map_update_rows)
  have req: "request_ok ?d r" if "r \<in> set (requests ?d)" for r
  proof -
    from that obtain q where q: "q \<in> set (requests d)" "r = (if P q then f q else q)"
      by (auto simp: set_update_rows)
    with assms(1) have "request_ok d q" by (simp add: approval_inv_def)
    with q appr [of q] f show ?thesis
      by (simp add: request_ok_def request_of_def evidence_of_def approvals_of_def split: if_splits)
  qed
  have dec: "decision_ok ?d x" if "decision_ok d x" for x
    unfolding decision_ok_def
  proof
    from that obtain r where "r \<in> set (requests d)" "decision_of x r" by (auto simp: decision_ok_def)
    then show "\<exists>r \<in> set (requests ?d). decision_of x r"
      using f by (intro bexI [of _ "if P r then f r else r"]) (auto simp: set_update_rows decision_of_def)
    show "\<forall>r \<in> set (requests ?d). decision_of x r \<longrightarrow>
        dec_decidedBy x \<noteq> req_initiatedBy r \<and> dec_version x = req_version r"
      using that f by (auto simp: decision_ok_def set_update_rows decision_of_def)
  qed
  have invo: "invoice_ok ?d i" if "invoice_ok d i" for i
    unfolding invoice_ok_def
  proof
    assume "inv_status i = APPROVED"
    with that obtain r where r: "r \<in> set (requests d)" "req_org r = inv_org i"
      "req_invoiceId r = inv_id i" "req_invoiceVersion r = inv_version i"
      "req_status r = REQUEST_APPROVED"
      by (auto simp: invoice_ok_def approval_guard_def)
    with stay have "r \<in> set (requests ?d)" by (auto simp: set_update_rows)
    with r show "approval_guard ?d i" by (auto simp: approval_guard_def)
  qed
  show ?thesis
    using assms(1) keys req dec invo
    by (simp add: approval_inv_def policies_ok_def assessment_ok_def)
qed

lemma approval_inv_decision:
  assumes "approval_inv d"
    and new: "\<forall>x' \<in> set (decisions d).
      [dec_org x', dec_requestId x', dec_decidedBy x'] \<noteq> [dec_org x, dec_requestId x, dec_decidedBy x]"
    and ok: "decision_ok d x"
  shows "approval_inv (d\<lparr>decisions := decisions d @ [x]\<rparr>)" (is "approval_inv ?d")
proof -
  have "keys_ok ?d" using assms(1) new by (auto simp: approval_inv_def keys_ok_def)
  moreover have "request_ok ?d r" if "request_ok d r" for r
    using that by (auto simp: request_ok_def approvals_of_def)
  ultimately show ?thesis
    using assms(1) ok
    by (simp add: approval_inv_def policies_ok_def decision_ok_def assessment_ok_def invoice_ok_def
        approval_guard_def)
qed

lemma approval_inv_policy:
  assumes "approval_inv d" and "\<forall>p \<in> set ps. pol_separation p \<and> policy_ok p"
    and "distinct (map pol_org ps)"
  shows "approval_inv (d\<lparr>policies := ps\<rparr>)"
  using assms by (simp add: approval_inv_def keys_ok_def policies_ok_def request_ok_def decision_ok_def
      assessment_ok_def invoice_ok_def approval_guard_def approvals_of_def)

lemma default_policy_ok: "pol_separation (default_policy i org) \<and> policy_ok (default_policy i org)"
  by (simp add: default_policy_def policy_ok_def)

lemma policy_cases:
  assumes "policy e k org d = (p, d')"
  obtains (existing) "d' = d" "p \<in> set (policies d)" "pol_org p = org"
  | (created) "p = default_policy (new_uuid e k) org" "d' = d\<lparr>policies := policies d @ [p]\<rparr>"
      "\<forall>q \<in> set (policies d). pol_org q \<noteq> org"
  using assms
  by (auto simp: policy_def Let_def find_None_iff split: option.splits dest: find_SomeD)

lemma approval_inv_distinct:
  assumes "approval_inv d"
  shows "distinct (map inv_id (invoices d))" "distinct (map req_id (requests d))"
    "distinct (map ra_id (assessments d))" "distinct (map pol_org (policies d))"
  using assms by (simp_all add: approval_inv_def keys_ok_def)

lemma approval_inv_policies: "approval_inv d \<Longrightarrow> p \<in> set (policies d) \<Longrightarrow> pol_separation p \<and> policy_ok p"
  by (simp add: approval_inv_def policies_ok_def)

lemma approval_inv_policy_of:
  assumes "policy e k org d = (p, d')" and "approval_inv d"
  shows "approval_inv d'" and "pol_separation p" and "policy_ok p"
proof -
  have "approval_inv d' \<and> pol_separation p \<and> policy_ok p"
    using assms(1)
  proof (cases rule: policy_cases)
    case existing
    with assms(2) show ?thesis by (simp add: approval_inv_policies)
  next
    case created
    have "approval_inv d'"
      unfolding created(2)
    proof (rule approval_inv_policy [OF assms(2)])
      show "\<forall>q \<in> set (policies d @ [p]). pol_separation q \<and> policy_ok q"
        using approval_inv_policies [OF assms(2)] created(1) default_policy_ok by auto
      show "distinct (map pol_org (policies d @ [p]))"
        using approval_inv_distinct(4) [OF assms(2)] created(1,3) by (auto simp: default_policy_def)
    qed
    with created(1) show ?thesis by (simp add: default_policy_ok)
  qed
  then show "approval_inv d'" "pol_separation p" "policy_ok p" by simp_all
qed

lemma policy_frame [frame]:
  assumes "policy e k org d = (p, d')"
  shows "invoices d' = invoices d" "requests d' = requests d" "decisions d' = decisions d"
    "assessments d' = assessments d" "memberships d' = memberships d" "sessions d' = sessions d"
    "documents d' = documents d" "bank_versions d' = bank_versions d" "audit d' = audit d"
    "contracts d' = contracts d" "processings d' = processings d" "users d' = users d"
  using assms by (auto elim!: policy_cases)

lemma eligible_frame [frame]:
  assumes "eligibleApprovers e k org ini d = (v, d')"
  shows "invoices d' = invoices d" "requests d' = requests d" "decisions d' = decisions d"
    "assessments d' = assessments d" "memberships d' = memberships d" "sessions d' = sessions d"
    "bank_versions d' = bank_versions d" "audit d' = audit d"
  using assms by (auto simp: eligibleApprovers_def policy_frame split: prod.splits)

lemma approval_inv_eligible:
  assumes "eligibleApprovers e k org ini d = (v, d')" and "approval_inv d"
  shows "approval_inv d'"
  using assms by (auto simp: eligibleApprovers_def approval_inv_policy_of split: prod.splits)

text \<open>A new assessment with its pending request, for the present version of the invoice.\<close>

lemma approval_inv_evidence:
  assumes "approval_inv d"
    and fresh: "\<forall>x \<in> set (assessments d). ra_id x \<noteq> ra_id a"
      "\<forall>x \<in> set (requests d). req_id x \<noteq> req_id r"
    and ev: "evidence_of a r" "req_required r = (if ra_level a = HIGH then 2 else 1)"
      "req_status r \<noteq> REQUEST_APPROVED"
    and i: "i \<in> set (invoices d)" "request_of r i" "inv_version i = req_invoiceVersion r"
  shows "approval_inv (d\<lparr>assessments := assessments d @ [a], requests := requests d @ [r]\<rparr>)"
    (is "approval_inv ?d")
proof -
  have keys: "keys_ok ?d" using assms(1) fresh by (auto simp: approval_inv_def keys_ok_def)
  have only: "j = i" if "j \<in> set (invoices d)" "inv_id j = inv_id i" for j
  proof -
    have "distinct (map inv_id (invoices d))" using assms(1) by (simp add: approval_inv_def keys_ok_def)
    then show ?thesis by (rule distinct_map_unique [OF _ that(1) i(1) that(2)])
  qed
  have old: "request_ok ?d x" if "request_ok d x" for x
  proof -
    from that obtain b where b: "b \<in> set (assessments d)" "evidence_of b x"
      "req_required x = (if ra_level b = HIGH then 2 else 1)" by (auto simp: request_ok_def)
    have "approvals_of ?d x = approvals_of d x" by (simp add: approvals_of_def)
    with that b show ?thesis unfolding request_ok_def by simp
  qed
  have new: "request_ok ?d r"
  proof -
    have "\<forall>j \<in> set (invoices d). request_of r j \<longrightarrow> j = i"
      using only i(2) by (simp add: request_of_def)
    then have "\<forall>j \<in> set (invoices d). request_of r j \<longrightarrow> req_invoiceVersion r \<le> inv_version j"
      using i(3) by auto
    moreover have "\<exists>j \<in> set (invoices d). request_of r j" using i(1,2) by blast
    ultimately show ?thesis using ev by (simp add: request_ok_def)
  qed
  have dec: "decision_ok ?d x" if "decision_ok d x" for x
    using that fresh(2) by (auto simp: decision_ok_def decision_of_def)
  have ass: "assessment_ok ?d x" if "assessment_ok d x" for x
    using that by (simp add: assessment_ok_def)
  have newa: "assessment_ok ?d a"
  proof -
    have "inv_id i = ra_invoiceId a" "inv_org i = ra_org a" "ra_invoiceVersion a = inv_version i"
      using ev(1) i(2,3) by (simp_all add: request_of_def evidence_of_def)
    with i(1) only have "\<forall>j \<in> set (invoices d). inv_id j = ra_invoiceId a \<longrightarrow>
        ra_invoiceVersion a \<le> inv_version j" "\<exists>j \<in> set (invoices d). inv_id j = ra_invoiceId a \<and>
        inv_org j = ra_org a" by (metis order_refl)+
    then show ?thesis by (simp add: assessment_ok_def)
  qed
  have invo: "invoice_ok ?d x" if "invoice_ok d x" for x
    using that by (auto simp: invoice_ok_def approval_guard_def)
  show ?thesis
    using assms(1) keys old new dec ass newa invo by (simp add: approval_inv_def policies_ok_def)
qed

end
