(* ===== verification/Approval_Steps.thy ===== *)
theory Approval_Steps
  imports Approval_Invariant
begin

text \<open>
  What a call of the approval service did, read off from its result: the case rules of \<open>submit\<close>
  and \<open>decide\<close>, and the preservation of \<^const>\<open>approval_inv\<close> by every operation of the service.
\<close>

section \<open>Submission\<close>

text \<open>A submission that succeeds without a replay.\<close>

definition submits ::
  "env \<Rightarrow> auth_context \<Rightarrow> uuid \<Rightarrow> nat \<Rightarrow> string \<Rightarrow> db \<Rightarrow> invoice \<Rightarrow> risk_policy \<Rightarrow> db \<Rightarrow>
     bank_version \<Rightarrow> evaluation \<Rightarrow> assessment \<Rightarrow> request \<Rightarrow> bool" where
  "submits e a iid v kh d i p d1 bank ev risk req \<longleftrightarrow>
     find (\<lambda>r. req_org r = organizationId a \<and> req_keyHash r = kh) (requests d) = None \<and>
     find (\<lambda>i. inv_id i = iid \<and> inv_org i = organizationId a) (invoices d) = Some i \<and>
     inv_version i = v \<and> inv_status i = NEEDS_REVIEW \<and>
     \<not> review_incomplete d i (documents_of d (organizationId a) iid) \<and>
     policy e 0 (organizationId a) d = (p, d1) \<and>
     latest_bank d1 (organizationId a) (the (inv_vendorId i)) = Some bank \<and>
     ev = evaluateInvoiceRisk (sha256 e) (inv_id i)
       (submission_facts d1 (organizationId a) i (documents_of d (organizationId a) iid) bank) p \<and>
     risk = submitted_assessment e (organizationId a) iid (v + 1) ev \<and>
     req = submitted_request e a iid (v + 1) risk bank
       (next_request_version d1 (organizationId a) iid) kh"

definition after_submit ::
  "env \<Rightarrow> auth_context \<Rightarrow> uuid \<Rightarrow> nat \<Rightarrow> bank_version \<Rightarrow> assessment \<Rightarrow> request \<Rightarrow> db \<Rightarrow> db" where
  "after_submit e a iid v bank risk req d1 =
     d1\<lparr>assessments := assessments d1 @ [risk], requests := requests d1 @ [req],
        invoices := update_rows (moves_on_submit (organizationId a) iid v)
          (\<lambda>i. i\<lparr>inv_status := AWAITING_APPROVAL, inv_bankVersionId := Some (bank_id bank),
                 inv_version := inv_version i + 1\<rparr>) (invoices d1)\<rparr>"

lemma submit_txE:
  assumes "submit_tx e a iid v kh d = Inr (view, d')"
  obtains
    (replay) r where "find (\<lambda>r. req_org r = organizationId a \<and> req_keyHash r = kh) (requests d) = Some r"
      "req_invoiceId r = iid" "view = approvalView (request_details d r) []" "d' = d"
  | (fresh) i p d1 bank ev risk req eligible where
      "submits e a iid v kh d i p d1 bank ev risk req"
      "\<forall>k \<in> set assessment_keys. \<forall>x \<in> set (assessments d1). k x \<noteq> k risk"
      "\<forall>k \<in> set request_keys. \<forall>x \<in> set (requests d1). k x \<noteq> k req"
      "eligibleApprovers e 7 (organizationId a) (membershipId a)
         (submit_audits e a iid (v + 1) ev req (after_submit e a iid v bank risk req d1))
         = (eligible, d')"
      "view = approvalView (request_details (d1\<lparr>assessments := assessments d1 @ [risk],
         requests := requests d1 @ [req]\<rparr>) req) eligible"
proof (cases "find (\<lambda>r. req_org r = organizationId a \<and> req_keyHash r = kh) (requests d)")
  case (Some r)
  with assms have "req_invoiceId r = iid \<and> (approvalView (request_details d r) [], d) = (view, d')"
    by (simp only: submit_tx_def Let_def option.case table_simps) auto
  with Some show thesis by (intro replay [of r]) auto
next
  case None
  have init: "req_initiatedBy (submitted_request e a iid n risk bank rv kh) = membershipId a"
    for n risk bank rv by (simp add: submitted_request_def)
  from assms None show thesis
    apply (simp only: submit_tx_def Let_def table_simps option.case init)
    apply (elim exE conjE)
    subgoal premises prems for i p d1 bank ras reqs el d5
    proof -
      define ev where "ev = evaluateInvoiceRisk (sha256 e) (inv_id i)
         (submission_facts d1 (organizationId a) i (documents_of d (organizationId a) iid) bank) p"
      define risk where "risk = submitted_assessment e (organizationId a) iid (v + 1) ev"
      define req where "req = submitted_request e a iid (v + 1) risk bank
         (next_request_version d1 (organizationId a) iid) kh"
      note defs = ev_def risk_def req_def
      from prems show thesis
        by (intro fresh [of i p d1 bank ev risk req el])
          (simp_all add: defs submits_def after_submit_def)
    qed
    done
qed

lemma submitted_request_simps [simp]:
  "req_id (submitted_request e a iid v risk bank rv kh) = new_uuid e 2"
  "req_org (submitted_request e a iid v risk bank rv kh) = organizationId a"
  "req_invoiceId (submitted_request e a iid v risk bank rv kh) = iid"
  "req_invoiceVersion (submitted_request e a iid v risk bank rv kh) = v"
  "req_assessmentId (submitted_request e a iid v risk bank rv kh) = ra_id risk"
  "req_bankVersionId (submitted_request e a iid v risk bank rv kh) = Some (bank_id bank)"
  "req_version (submitted_request e a iid v risk bank rv kh) = rv"
  "req_status (submitted_request e a iid v risk bank rv kh) = REQUEST_PENDING"
  "req_required (submitted_request e a iid v risk bank rv kh) = (if ra_level risk = HIGH then 2 else 1)"
  "req_initiatedBy (submitted_request e a iid v risk bank rv kh) = membershipId a"
  "req_keyHash (submitted_request e a iid v risk bank rv kh) = kh"
  by (simp_all add: submitted_request_def)

lemma submitted_assessment_simps [simp]:
  "ra_id (submitted_assessment e org iid v ev) = new_uuid e 1"
  "ra_org (submitted_assessment e org iid v ev) = org"
  "ra_invoiceId (submitted_assessment e org iid v ev) = iid"
  "ra_invoiceVersion (submitted_assessment e org iid v ev) = v"
  "ra_level (submitted_assessment e org iid v ev) = ev_level ev"
  "ra_totalScore (submitted_assessment e org iid v ev) = ev_totalScore ev"
  by (simp_all add: submitted_assessment_def)

lemma submit_audits_frame [frame, simp]:
  "invoices (submit_audits e a iid v ev r d) = invoices d"
  "requests (submit_audits e a iid v ev r d) = requests d"
  "decisions (submit_audits e a iid v ev r d) = decisions d"
  "assessments (submit_audits e a iid v ev r d) = assessments d"
  "policies (submit_audits e a iid v ev r d) = policies d"
  "memberships (submit_audits e a iid v ev r d) = memberships d"
  "sessions (submit_audits e a iid v ev r d) = sessions d"
  "bank_versions (submit_audits e a iid v ev r d) = bank_versions d"
  "approval_inv (submit_audits e a iid v ev r d) = approval_inv d"
  by (simp_all add: submit_audits_def)

lemma approval_inv_after_submit:
  assumes s: "submits e a iid v kh d i p d1 bank ev risk req" and inv1: "approval_inv d1"
    and ka: "\<forall>k \<in> set assessment_keys. \<forall>x \<in> set (assessments d1). k x \<noteq> k risk"
    and kr: "\<forall>k \<in> set request_keys. \<forall>x \<in> set (requests d1). k x \<noteq> k req"
  shows "approval_inv (after_submit e a iid v bank risk req d1)"
proof -
  define f :: "invoice \<Rightarrow> invoice" where "f = (\<lambda>i. i\<lparr>inv_status := AWAITING_APPROVAL,
      inv_bankVersionId := Some (bank_id bank), inv_version := inv_version i + 1\<rparr>)"
  define d2 where "d2 = d1\<lparr>invoices := update_rows (moves_on_submit (organizationId a) iid v) f (invoices d1)\<rparr>"
  from s have risk: "risk = submitted_assessment e (organizationId a) iid (v + 1) ev"
    and req: "\<exists>rv. req = submitted_request e a iid (v + 1) risk bank rv kh"
    and i: "find (\<lambda>i. inv_id i = iid \<and> inv_org i = organizationId a) (invoices d) = Some i"
      "inv_version i = v" "inv_status i = NEEDS_REVIEW"
    and p: "policy e 0 (organizationId a) d = (p, d1)"
    by (auto simp: submits_def)
  have "approval_inv d2"
    unfolding d2_def by (rule approval_inv_invoices [OF inv1]) (simp_all add: f_def)
  moreover have "i \<in> set (invoices d1)" "inv_id i = iid" "inv_org i = organizationId a"
    using find_SomeD [OF i(1)] policy_frame(1) [OF p] by simp_all
  with i have "f i \<in> set (invoices d2)" "request_of req (f i)"
    "inv_version (f i) = req_invoiceVersion req"
    using req by (auto simp: d2_def set_update_rows moves_on_submit_def request_of_def f_def)
  moreover have "\<forall>x \<in> set (assessments d2). ra_id x \<noteq> ra_id risk"
    using ka by (auto simp: d2_def assessment_keys_def)
  moreover have "\<forall>x \<in> set (requests d2). req_id x \<noteq> req_id req"
    using kr by (auto simp: d2_def request_keys_def)
  moreover have "evidence_of risk req" "req_required req = (if ra_level risk = HIGH then 2 else 1)"
    "req_status req \<noteq> REQUEST_APPROVED"
    using req risk by (auto simp: evidence_of_def)
  moreover have "after_submit e a iid v bank risk req d1
      = d2\<lparr>assessments := assessments d2 @ [risk], requests := requests d2 @ [req]\<rparr>"
    by (cases d1) (simp add: after_submit_def d2_def f_def)
  ultimately show ?thesis
    using approval_inv_evidence [of d2 risk req "f i"] by simp
qed

lemma submit_tx_inv:
  assumes "submit_tx e a iid v kh d = Inr (view, d')" and "approval_inv d"
  shows "approval_inv d'"
  using assms(1)
proof (cases rule: submit_txE)
  case (replay r)
  with assms(2) show ?thesis by simp
next
  case (fresh i p d1 bank ev risk req eligible)
  have "approval_inv d1"
    using fresh(1) assms(2) by (auto simp: submits_def dest: approval_inv_policy_of)
  then have "approval_inv (after_submit e a iid v bank risk req d1)"
    by (rule approval_inv_after_submit [OF fresh(1) _ fresh(2,3)])
  then show ?thesis using approval_inv_eligible [OF fresh(4)] by simp
qed

lemma submit_inv:
  assumes "approval_inv d"
  shows "approval_inv (snd (submit e a iid v key d))"
proof (cases "idempotencyKeyHash e key")
  case (Inr kh)
  have "approval_inv (snd (run (submit_tx e a iid v kh) d))"
    by (rule tx.preserves [where P = approval_inv, OF submit_tx_inv [OF _ assms] assms])
  with Inr show ?thesis by (simp add: submit_def)
qed (simp add: submit_def assms)

section \<open>Decisions\<close>

text \<open>The checks a decision has passed before it is written.\<close>

definition decides ::
  "env \<Rightarrow> auth_context \<Rightarrow> uuid \<Rightarrow> approval_decision_dto \<Rightarrow> string \<Rightarrow> db \<Rightarrow> request \<Rightarrow> invoice \<Rightarrow>
     membership \<Rightarrow> session \<Rightarrow> time \<Rightarrow> risk_policy \<Rightarrow> db \<Rightarrow> bool" where
  "decides e a rid dto kh d r i m s stepUp p d1 \<longleftrightarrow>
     find (\<lambda>x. dec_org x = organizationId a \<and> dec_keyHash x = kh) (decisions d) = None \<and>
     find (\<lambda>r. req_id r = rid \<and> req_org r = organizationId a) (requests d) = Some r \<and>
     req_status r = REQUEST_PENDING \<and> req_version r = dto_approvalVersion dto \<and>
     find (\<lambda>i. inv_id i = req_invoiceId r \<and> inv_org i = organizationId a) (invoices d) = Some i \<and>
     inv_version i = req_invoiceVersion r \<and> inv_status i = AWAITING_APPROVAL \<and>
     \<not> bank_outdated d (organizationId a) r i \<and> eligible_member d a = Some m \<and>
     policy e 0 (organizationId a) d = (p, d1) \<and>
     \<not> (pol_separation p \<and> req_initiatedBy r = mem_id m) \<and>
     verified_session e d1 a = Some s \<and> ses_stepUp s = Some stepUp"

definition stale_request :: "auth_context \<Rightarrow> uuid \<Rightarrow> approval_decision_dto \<Rightarrow> string \<Rightarrow> db \<Rightarrow>
    request \<Rightarrow> invoice \<Rightarrow> string \<Rightarrow> bool" where
  "stale_request a rid dto kh d r i reason \<longleftrightarrow>
     find (\<lambda>x. dec_org x = organizationId a \<and> dec_keyHash x = kh) (decisions d) = None \<and>
     find (\<lambda>r. req_id r = rid \<and> req_org r = organizationId a) (requests d) = Some r \<and>
     req_status r = REQUEST_PENDING \<and> req_version r = dto_approvalVersion dto \<and>
     find (\<lambda>i. inv_id i = req_invoiceId r \<and> inv_org i = organizationId a) (invoices d) = Some i \<and>
     (if inv_version i \<noteq> req_invoiceVersion r \<or> inv_status i \<noteq> AWAITING_APPROVAL
      then reason = ''INVOICE_VERSION_CHANGED''
      else bank_outdated d (organizationId a) r i \<and> reason = ''VENDOR_BANK_ACCOUNT_CHANGED'')"

lemma decide_txE:
  assumes "decide_tx e a rid dto kh d = Inr (res, d')"
  obtains
    (replay) x r where
      "find (\<lambda>x. dec_org x = organizationId a \<and> dec_keyHash x = kh) (decisions d) = Some x"
      "dec_requestId x = rid" "find (\<lambda>r. req_id r = rid \<and> req_org r = organizationId a) (requests d) = Some r"
      "res = Decided (approvalView (request_details d r) [])" "d' = d"
  | (stale) r i reason where "stale_request a rid dto kh d r i reason" "res = Stale"
      "d' = invalidate r reason d"
  | (recorded) r i m s stepUp p d1 where "decides e a rid dto kh d r i m s stepUp p d1"
      "record_decision e a r m s stepUp dto kh d1 = Inr (res, d')"
proof (cases "find (\<lambda>x. dec_org x = organizationId a \<and> dec_keyHash x = kh) (decisions d)")
  case (Some x)
  from assms show thesis
    unfolding decide_tx_def Let_def Some option.case
    by (simp only: table_simps) (auto intro: replay [OF Some])
next
  case None
  from assms obtain r where r: "find (\<lambda>r. req_id r = rid \<and> req_org r = organizationId a) (requests d) = Some r"
    "req_status r = REQUEST_PENDING" "req_version r = dto_approvalVersion dto"
    unfolding decide_tx_def Let_def None option.case by (simp only: table_simps not_not) blast
  from assms obtain i where i: "find (\<lambda>i. inv_id i = req_invoiceId r \<and> inv_org i = organizationId a) (invoices d) = Some i"
    unfolding decide_tx_def Let_def None r option.case by (simp only: table_simps not_not) blast
  note known = None r i
  show thesis
  proof (cases "inv_version i \<noteq> req_invoiceVersion r \<or> inv_status i \<noteq> AWAITING_APPROVAL")
    case True
    with assms known show thesis
      by (intro stale [of r i "''INVOICE_VERSION_CHANGED''"])
        (auto simp: decide_tx_def Let_def stale_request_def)
  next
    case cur: False
    show thesis
    proof (cases "bank_outdated d (organizationId a) r i")
      case True
      with assms known cur show thesis
        by (intro stale [of r i "''VENDOR_BANK_ACCOUNT_CHANGED''"])
          (auto simp: decide_tx_def Let_def stale_request_def)
    next
      case False
      with assms known cur show thesis
        unfolding decide_tx_def Let_def
        apply (simp only: option.case if_False not_not HOL.simp_thms table_simps refl)
        apply (elim exE conjE)
        subgoal for m p d1 s stepUp
          by (rule recorded [of r i m s stepUp p d1]) (simp_all add: decides_def)
        done
    qed
  qed
qed

subsection \<open>The invariant\<close>

lemma invalidate_inv:
  assumes "approval_inv d"
  shows "approval_inv (invalidate r reason d)"
  unfolding invalidate_def
proof -
  let ?f = "\<lambda>x :: request. x\<lparr>req_status := REQUEST_INVALIDATED, req_invalidatedReason := Some reason\<rparr>"
  let ?P = "\<lambda>x. req_org x = req_org r \<and> req_id x = req_id r \<and> req_status x = REQUEST_PENDING"
  have "approval_inv (d\<lparr>requests := update_rows ?P ?f (requests d)\<rparr>)"
    by (rule approval_inv_requests [OF assms]) (auto simp: keeps_evidence_def)
  then have "approval_inv (d\<lparr>requests := update_rows ?P ?f (requests d)\<rparr>\<lparr>invoices := update_rows
      (\<lambda>i. inv_org i = req_org r \<and> inv_id i = req_invoiceId r \<and>
         inv_version i = req_invoiceVersion r \<and> inv_status i = AWAITING_APPROVAL)
      (\<lambda>i. i\<lparr>inv_status := NEEDS_REVIEW, inv_version := inv_version i + 1\<rparr>)
      (invoices (d\<lparr>requests := update_rows ?P ?f (requests d)\<rparr>))\<rparr>)"
    by (rule approval_inv_invoices) simp_all
  then show "approval_inv (d\<lparr>requests := update_rows ?P ?f (requests d), invoices := update_rows
      (\<lambda>i. inv_org i = req_org r \<and> inv_id i = req_invoiceId r \<and>
         inv_version i = req_invoiceVersion r \<and> inv_status i = AWAITING_APPROVAL)
      (\<lambda>i. i\<lparr>inv_status := NEEDS_REVIEW, inv_version := inv_version i + 1\<rparr>) (invoices d)\<rparr>)"
    by simp
qed

lemma create_decision_Inr:
  "create_decision x d = Inr d' \<longleftrightarrow> 10 \<le> length (sql_trim (dec_reason x)) \<and>
     (\<forall>k \<in> set decision_keys. \<forall>y \<in> set (decisions d). k y \<noteq> k x) \<and>
     d' = d\<lparr>decisions := decisions d @ [x]\<rparr>"
proof (cases "create_unique decision_keys x (decisions d)")
  case (Inl err)
  then have "err = UniqueConstraint" "\<exists>k \<in> set decision_keys. \<exists>y \<in> set (decisions d). k y = k x"
    by (auto simp: create_unique_def split: if_splits)
  with Inl show ?thesis by (auto simp: create_decision_def)
next
  case (Inr t)
  then have "t = decisions d @ [x]"
    "\<forall>k \<in> set decision_keys. \<forall>y \<in> set (decisions d). k y \<noteq> k x"
    by (simp_all add: create_unique_Inr)
  with Inr show ?thesis unfolding create_decision_def Inr sum.case by auto
qed

lemma create_decision_inv:
  assumes "create_decision x d = Inr d'" and inv: "approval_inv d"
    and r: "r \<in> set (requests d)" "decision_of x r" "dec_version x = req_version r"
      "dec_decidedBy x \<noteq> req_initiatedBy r"
  shows "approval_inv d'"
proof -
  have "q = r" if "q \<in> set (requests d)" "decision_of x q" for q
    using distinct_map_unique [OF approval_inv_distinct(2) [OF inv] that(1) r(1)] that(2) r(2)
    by (simp add: decision_of_def)
  then have "\<forall>q \<in> set (requests d). decision_of x q \<longrightarrow>
      dec_decidedBy x \<noteq> req_initiatedBy q \<and> dec_version x = req_version q"
    using r(3,4) by blast
  with r(1,2) have "decision_ok d x" unfolding decision_ok_def by blast
  moreover from assms(1) have "d' = d\<lparr>decisions := decisions d @ [x]\<rparr>"
    and "\<forall>k \<in> set decision_keys. \<forall>y \<in> set (decisions d). k y \<noteq> k x"
    by (simp_all add: create_decision_Inr)
  ultimately show ?thesis
    using approval_inv_decision [OF inv, of x] by (simp add: decision_keys_def)
qed

lemma set_request_status_inv:
  assumes "approval_inv d" and r: "r \<in> set (requests d)" "req_status r \<noteq> REQUEST_APPROVED"
    and ok: "st = REQUEST_APPROVED \<Longrightarrow> req_required r \<le> approvals_of d r"
  shows "approval_inv (set_request_status (req_org r) (req_id r) st now d)"
proof -
  have one: "q = r" if "q \<in> set (requests d)" "req_org q = req_org r \<and> req_id q = req_id r" for q
    using distinct_map_unique [OF approval_inv_distinct(2) [OF assms(1)] that(1) r(1)] that(2) by simp
  show ?thesis
    unfolding set_request_status_def
    by (rule approval_inv_requests [OF assms(1)])
      (use one r ok in \<open>auto simp: keeps_evidence_def\<close>)
qed

lemma set_invoice_status_inv:
  assumes "set_invoice_status org iid st d = Inr d'" and "approval_inv d"
  shows "approval_inv d'"
proof -
  from assms(1) have d': "d' = d\<lparr>invoices := update_rows (\<lambda>i. inv_org i = org \<and> inv_id i = iid)
      (\<lambda>i. i\<lparr>inv_status := st\<rparr>) (invoices d)\<rparr>"
    and g: "st = APPROVED \<Longrightarrow> i \<in> set (invoices d) \<Longrightarrow> inv_org i = org \<Longrightarrow> inv_id i = iid \<Longrightarrow>
        inv_status i \<noteq> APPROVED \<Longrightarrow> approval_guard d i" for i
    by (auto simp: set_invoice_status_def split: if_splits)
  have g': "approval_guard d i"
    if "i \<in> set (invoices d)" "inv_org i = org \<and> inv_id i = iid" "st = APPROVED" for i
  proof (cases "inv_status i = APPROVED")
    case True
    with assms(2) that(1) show ?thesis by (auto simp: approval_inv_def invoice_ok_def)
  next
    case False
    with that g show ?thesis by blast
  qed
  show ?thesis
    unfolding d'
    by (rule approval_inv_invoices [OF assms(2)]) (use g' in \<open>auto simp: approval_guard_def\<close>)
qed

lemma complete_decision_inv:
  assumes "complete_decision e r out d = Inr d'" and "approval_inv d"
    and "r \<in> set (requests d)" "req_status r = REQUEST_PENDING"
  shows "approval_inv d'"
proof -
  have st: "approval_inv (set_request_status (req_org r) (req_id r) st now d)"
    if "st = REQUEST_APPROVED \<Longrightarrow> req_required r \<le> approvals_of d r" for st now
    using set_request_status_inv [OF assms(2,3)] assms(4) that by simp
  show ?thesis
    using assms(1,2)
    by (auto simp: complete_decision_def split: if_splits elim!: set_invoice_status_inv intro!: st)
qed

lemma decision_audit_frame [frame, simp]:
  "invoices (decision_audit e a r t dto d) = invoices d"
  "requests (decision_audit e a r t dto d) = requests d"
  "decisions (decision_audit e a r t dto d) = decisions d"
  "assessments (decision_audit e a r t dto d) = assessments d"
  "memberships (decision_audit e a r t dto d) = memberships d"
  "sessions (decision_audit e a r t dto d) = sessions d"
  "approval_inv (decision_audit e a r t dto d) = approval_inv d"
  by (simp_all add: decision_audit_def)

lemma record_decisionE:
  assumes "record_decision e a r m s stepUp dto kh d = Inr (res, d')"
  obtains d1 d2 updated eligible where
    "create_decision (made_decision e a r m s stepUp dto kh) d = Inr d1"
    "complete_decision e r (dto_outcome dto) d1 = Inr d2"
    "find (\<lambda>x. req_id x = req_id r \<and> req_org x = organizationId a) (requests d2) = Some updated"
    "eligibleApprovers e 4 (organizationId a) (req_initiatedBy updated)
       (decision_audit e a r stepUp dto d2) = (eligible, d')"
    "res = Decided (approvalView (request_details (decision_audit e a r stepUp dto d2) updated) eligible)"
  using assms unfolding record_decision_def Let_def
  by (simp only: table_simps decision_audit_frame prod.inject sum.inject) (elim exE conjE, rule that, auto)

lemma decides_initiator:
  assumes "decides e a rid dto kh d r i m s stepUp p d1" and "approval_inv d"
  shows "approval_inv d1" "r \<in> set (requests d1)" "req_id r = rid" "req_org r = organizationId a"
    "req_status r = REQUEST_PENDING" "mem_id m \<noteq> req_initiatedBy r"
proof -
  from assms(1) have p: "policy e 0 (organizationId a) d = (p, d1)"
    and r: "find (\<lambda>r. req_id r = rid \<and> req_org r = organizationId a) (requests d) = Some r"
      "req_status r = REQUEST_PENDING"
    and sep: "\<not> (pol_separation p \<and> req_initiatedBy r = mem_id m)"
    by (simp_all add: decides_def)
  show "approval_inv d1" by (rule approval_inv_policy_of [OF p assms(2)])
  show "r \<in> set (requests d1)" "req_id r = rid" "req_org r = organizationId a"
    "req_status r = REQUEST_PENDING"
    using find_SomeD [OF r(1)] r(2) policy_frame(2) [OF p] by simp_all
  show "mem_id m \<noteq> req_initiatedBy r"
    using sep approval_inv_policy_of(2) [OF p assms(2)] by auto
qed

lemma decide_tx_inv:
  assumes "decide_tx e a rid dto kh d = Inr (res, d')" and "approval_inv d"
  shows "approval_inv d'"
  using assms(1)
proof (cases rule: decide_txE)
  case (replay x r)
  with assms(2) show ?thesis by simp
next
  case (stale r i reason)
  with assms(2) show ?thesis by (simp add: invalidate_inv)
next
  case (recorded r i m s stepUp p d1)
  note r = decides_initiator [OF recorded(1) assms(2)]
  from recorded(2) obtain d2 d3 eligible and updated :: request where
    c: "create_decision (made_decision e a r m s stepUp dto kh) d1 = Inr d2"
    and c': "complete_decision e r (dto_outcome dto) d2 = Inr d3"
    and el: "eligibleApprovers e 4 (organizationId a) (req_initiatedBy updated)
      (decision_audit e a r stepUp dto d3) = (eligible, d')"
    by (rule record_decisionE) blast
  have "approval_inv d2"
    by (rule create_decision_inv [OF c r(1,2)])
      (use r in \<open>simp_all add: made_decision_def decision_of_def\<close>)
  moreover have "requests d2 = requests d1" using c by (simp add: create_decision_Inr)
  ultimately have "approval_inv d3"
    using complete_decision_inv [OF c'] r by simp
  with approval_inv_eligible [OF el] show ?thesis by simp
qed

lemma decide_eq_run:
  "snd (decide e a rid dto key d) =
     (case idempotencyKeyHash e key of Inl err \<Rightarrow> d | Inr kh \<Rightarrow> snd (run (decide_tx e a rid dto kh) d))"
  by (auto simp: decide_def split: sum.splits prod.splits decide_result.splits)

lemma decide_inv:
  assumes "approval_inv d"
  shows "approval_inv (snd (decide e a rid dto key d))"
proof (cases "idempotencyKeyHash e key")
  case (Inr kh)
  have "approval_inv (snd (run (decide_tx e a rid dto kh) d))"
    by (rule tx.preserves [where P = approval_inv, OF decide_tx_inv [OF _ assms] assms])
  with Inr show ?thesis by (simp add: decide_eq_run)
qed (simp add: decide_eq_run assms)

section \<open>Reads and the policy\<close>

lemma list_views_inv:
  "approval_inv d \<Longrightarrow> approval_inv (snd (list_views e org rs d))"
proof (induction rs arbitrary: d)
  case (Cons r rs)
  obtain el d1 where el: "eligibleApprovers e 0 org (req_initiatedBy r) d = (el, d1)" by fastforce
  with Cons approval_inv_eligible [OF el] show ?case
    by (simp add: Let_def split: prod.split) (metis snd_conv)
qed simp

lemma list_requests_inv: "approval_inv d \<Longrightarrow> approval_inv (snd (list_requests e a d))"
  by (simp add: list_requests_def run_def list_views_inv split: prod.split)
    (metis list_views_inv snd_conv)

lemma get_request_inv: "approval_inv d \<Longrightarrow> approval_inv (snd (get_request e a rid d))"
  by (auto simp: get_request_def run_def Let_def split: sum.splits option.splits prod.splits
      dest: approval_inv_eligible)

lemma getPolicy_inv: "approval_inv d \<Longrightarrow> approval_inv (snd (getPolicy e a d))"
  by (auto simp: getPolicy_def run_def split: prod.splits dest: approval_inv_policy_of)

lemma apply_policy_dto_separation [simp]:
  "pol_separation (apply_policy_dto dto p) = pol_separation p"
  "pol_id (apply_policy_dto dto p) = pol_id p" "pol_org (apply_policy_dto dto p) = pol_org p"
  by (simp_all add: apply_policy_dto_def)

text \<open>The table of policies has one row per organization.\<close>

lemma updatePolicy_tx_Inr:
  assumes "updatePolicy_tx e a dto d = Inr (updated, d')"
  obtains existing d1 where "policy e 0 (organizationId a) d = (existing, d1)"
    "updated = apply_policy_dto dto existing" "policy_ok updated"
    "policies d' = update_rows (\<lambda>p. pol_org p = organizationId a) (apply_policy_dto dto) (policies d1)"
    "approval_inv d' = approval_inv (d1\<lparr>policies := policies d'\<rparr>)"
  using assms unfolding updatePolicy_tx_def Let_def
  by (auto simp: table_simps split: prod.splits if_splits)

lemma policy_row:
  assumes "policy e k org d = (p, d')"
  shows "p \<in> set (policies d')" "pol_org p = org"
  using assms by (auto elim!: policy_cases simp: default_policy_def)

lemma updatePolicy_tx_inv:
  assumes "updatePolicy_tx e a dto d = Inr (updated, d')" and inv: "approval_inv d"
  shows "approval_inv d'"
proof -
  from assms(1) obtain existing d1 where p: "policy e 0 (organizationId a) d = (existing, d1)"
    and u: "updated = apply_policy_dto dto existing" "policy_ok updated"
    and d': "policies d' = update_rows (\<lambda>p. pol_org p = organizationId a) (apply_policy_dto dto) (policies d1)"
      "approval_inv d' = approval_inv (d1\<lparr>policies := policies d'\<rparr>)"
    by (rule updatePolicy_tx_Inr)
  note inv1 = approval_inv_policy_of [OF p inv]
  note one = approval_inv_distinct(4) [OF inv1(1)]
  have "pol_separation q \<and> policy_ok q" if q: "q \<in> set (policies d')" for q
  proof -
    from q d' obtain x where x: "x \<in> set (policies d1)"
      "q = (if pol_org x = organizationId a then apply_policy_dto dto x else x)"
      by (auto simp: set_update_rows)
    show ?thesis
    proof (cases "pol_org x = organizationId a")
      case True
      with distinct_map_unique [OF one x(1) policy_row(1) [OF p]] policy_row(2) [OF p]
      have "x = existing" by simp
      with x True u inv1 show ?thesis by simp
    next
      case False
      with x approval_inv_policies [OF inv1(1)] show ?thesis by simp
    qed
  qed
  then show ?thesis
    using one by (simp add: d' approval_inv_policy [OF inv1(1)] map_update_rows)
qed

lemma updatePolicy_inv:
  assumes "approval_inv d"
  shows "approval_inv (snd (updatePolicy e a dto d))"
  unfolding updatePolicy_def
  by (rule tx.preserves [where P = approval_inv, OF updatePolicy_tx_inv [OF _ assms] assms])

end
