(* ===== verification/Crm_Common.thy ===== *)
theory Crm_Common
  imports Database Js_Number
begin

text \<open>
  What the CRM services share: \<open>apps/api/src/crm/building-access.service.ts\<close> (who may read and
  manage a building), \<open>crm/concurrency.ts\<close> (the \<open>If-Match\<close> version), and \<open>crm/audit.ts\<close> (the
  shapes that enter the audit trail and the redaction of free text).
\<close>

section \<open>Page queries\<close>

record page_query =
  pq_q :: "string option"
  pq_cursor :: "uuid option"
  pq_limit :: nat

text \<open>\<open>contains\<close> with \<open>mode: 'insensitive'\<close>; and what Prisma throws for a null in a \<open>NOT NULL\<close> column.\<close>

definition contains_ci :: "string \<Rightarrow> string \<Rightarrow> bool" where
  "contains_ci s q \<longleftrightarrow> contains (js_lower s) (js_lower q)"

definition validation_error :: failure where
  "validation_error = ExternalError ''PrismaClientValidationError''"

section \<open>Access to buildings\<close>

definition building_not_found :: failure where
  "building_not_found = Http NotFound ''BUILDING_NOT_FOUND''"

definition building_forbidden :: failure where
  "building_forbidden = Http Forbidden ''BUILDING_ACCESS_FORBIDDEN''"

definition grant_active :: "time \<Rightarrow> auth_context \<Rightarrow> grant \<Rightarrow> bool" where
  "grant_active now a g \<longleftrightarrow>
     gr_org g = organizationId a \<and> gr_membershipId g = membershipId a \<and> gr_validFrom g \<le> now \<and>
     (case gr_validUntil g of None \<Rightarrow> True | Some t \<Rightarrow> now < t)"

definition has_grant :: "time \<Rightarrow> auth_context \<Rightarrow> uuid \<Rightarrow> db \<Rightarrow> bool" where
  "has_grant now a bid d \<longleftrightarrow> list_ex (\<lambda>g. grant_active now a g \<and> gr_buildingId g = bid) (grants d)"

definition apartment_in :: "uuid \<Rightarrow> uuid \<Rightarrow> uuid \<Rightarrow> db \<Rightarrow> bool" where
  "apartment_in org aid bid d \<longleftrightarrow>
     list_ex (\<lambda>x. apt_id x = aid \<and> apt_org x = org \<and> apt_buildingId x = bid) (apartments d)"

text \<open>A date column compared with a timestamp is the midnight of its day.\<close>

definition lives_in :: "time \<Rightarrow> auth_context \<Rightarrow> uuid \<Rightarrow> db \<Rightarrow> bool" where
  "lives_in now a bid d \<longleftrightarrow>
     list_ex (\<lambda>x. occ_org x = organizationId a \<and> occ_membershipId x = membershipId a \<and>
        apartment_in (organizationId a) (occ_apartmentId x) bid d \<and> occ_startsOn x \<le> now \<and>
        (case occ_endsOn x of None \<Rightarrow> True | Some t \<Rightarrow> to_date now \<le> t)) (occupancies d)"

definition assertCanRead :: "time \<Rightarrow> auth_context \<Rightarrow> uuid \<Rightarrow> db \<Rightarrow> failure + unit" where
  "assertCanRead now a bid d =
     (if role a = OWNER \<or> role a = AUDITOR then Inr ()
      else if has_grant now a bid d then Inr ()
      else if lives_in now a bid d then Inr ()
      else Inl building_not_found)"

definition assertCanManage :: "time \<Rightarrow> auth_context \<Rightarrow> uuid \<Rightarrow> db \<Rightarrow> failure + unit" where
  "assertCanManage now a bid d =
     (if role a = OWNER then Inr ()
      else if role a = ADMINISTRATOR \<and> has_grant now a bid d then Inr ()
      else Inl building_forbidden)"

definition assertBuildingExists :: "uuid \<Rightarrow> uuid \<Rightarrow> db \<Rightarrow> failure + unit" where
  "assertBuildingExists org bid d =
     (case find (\<lambda>b. bld_id b = bid \<and> bld_org b = org) (buildings d) of
        Some _ \<Rightarrow> Inr ()
      | None \<Rightarrow> Inl building_not_found)"

text \<open>Each building is checked at its own reading of the clock, numbered from \<open>k\<close>.\<close>

fun check_all :: "env \<Rightarrow> nat \<Rightarrow> auth_context \<Rightarrow> uuid list \<Rightarrow> db \<Rightarrow> failure + unit" where
  "check_all e k a [] d = Inr ()"
| "check_all e k a (b # bs) d =
     (case assertBuildingExists (organizationId a) b d of
        Inl err \<Rightarrow> Inl err
      | Inr _ \<Rightarrow>
      case assertCanManage (clock e k) a b d of
        Inl err \<Rightarrow> Inl err
      | Inr _ \<Rightarrow> check_all e (Suc k) a bs d)"

definition assertAllCanManage ::
  "env \<Rightarrow> nat \<Rightarrow> auth_context \<Rightarrow> uuid list \<Rightarrow> db \<Rightarrow> failure + unit" where
  "assertAllCanManage e k a bids d = check_all e k a (new_Set bids) d"

text \<open>
  The buildings an active grant of the member covers: the scope of the vendor and contract
  queries for every role but owner and auditor.
\<close>

definition sees_all :: "auth_context \<Rightarrow> bool" where
  "sees_all a \<longleftrightarrow> role a = OWNER \<or> role a = AUDITOR"

definition granted :: "time \<Rightarrow> auth_context \<Rightarrow> db \<Rightarrow> uuid list" where
  "granted now a d = map gr_buildingId (filter (grant_active now a) (grants d))"

lemma assertCanManage_Inr [table_simps]:
  "assertCanManage now a b d = Inr u \<longleftrightarrow>
     role a = OWNER \<or> role a = ADMINISTRATOR \<and> b \<in> set (granted now a d)"
  by (auto simp: assertCanManage_def has_grant_def granted_def list_ex_iff)

lemma assertBuildingExists_Inr [table_simps]:
  "assertBuildingExists org b d = Inr u \<longleftrightarrow> (\<exists>x \<in> set (buildings d). bld_id x = b \<and> bld_org x = org)"
  by (auto simp: assertBuildingExists_def find_None_iff split: option.split dest: find_SomeD)

lemma check_all_Inr:
  "check_all e k a bs d = Inr u \<Longrightarrow> b \<in> set bs \<Longrightarrow>
     (\<exists>x \<in> set (buildings d). bld_id x = b \<and> bld_org x = organizationId a) \<and>
     (role a = OWNER \<or> role a = ADMINISTRATOR \<and> (\<exists>j. b \<in> set (granted (clock e j) a d)))"
proof (induction bs arbitrary: k)
  case (Cons c bs)
  from Cons.prems(1) have c: "assertBuildingExists (organizationId a) c d = Inr ()"
    "assertCanManage (clock e k) a c d = Inr ()" and rest: "check_all e (Suc k) a bs d = Inr u"
    by (auto split: sum.splits)
  show ?case
  proof (cases "b = c")
    case True
    with c show ?thesis by (auto simp: assertBuildingExists_Inr assertCanManage_Inr)
  next
    case False
    with Cons.prems(2) Cons.IH [OF rest] show ?thesis by simp
  qed
qed simp

lemma assertAllCanManage_Inr:
  "assertAllCanManage e k a bs d = Inr u \<Longrightarrow> b \<in> set bs \<Longrightarrow>
     (\<exists>x \<in> set (buildings d). bld_id x = b \<and> bld_org x = organizationId a) \<and>
     (role a = OWNER \<or> role a = ADMINISTRATOR \<and> (\<exists>j. b \<in> set (granted (clock e j) a d)))"
  using check_all_Inr [of e k a "new_Set bs" d u b] by (simp add: assertAllCanManage_def)

section \<open>\<open>If-Match\<close>\<close>

definition strip_quotes :: "string \<Rightarrow> string" where
  "strip_quotes s =
     (let t = (if s \<noteq> [] \<and> hd s = CHR 0x22 then tl s else s)
      in if t \<noteq> [] \<and> last t = CHR 0x22 then butlast t else t)"

definition expectedVersion :: "string option \<Rightarrow> failure + nat" where
  "expectedVersion ifMatch =
     (case ifMatch of
        None \<Rightarrow> Inl (Http PreconditionRequired ''ENTITY_VERSION_REQUIRED'')
      | Some h \<Rightarrow>
          let t = js_trim h;
              v = strip_quotes (if is_prefix ''W/'' t then drop 2 t else t)
          in if v \<noteq> [] \<and> list_all is_digit v \<and> 1 \<le> read_nat v \<and> read_nat v < 2 ^ 53
             then Inr (read_nat v)
             else Inl (Http PreconditionRequired ''ENTITY_VERSION_REQUIRED''))"

definition staleWrite :: failure where
  "staleWrite = Http Conflict ''STALE_WRITE''"

definition invalidCursor :: failure where
  "invalidCursor = Http NotFound ''CURSOR_NOT_FOUND''"

section \<open>Audit shapes\<close>

definition json_str :: "string option \<Rightarrow> json" where
  "json_str v = (case v of None \<Rightarrow> JNull | Some s \<Rightarrow> JString s)"

definition vendor_status_name :: "vendor_status \<Rightarrow> string" where
  "vendor_status_name s =
     (case s of VENDOR_DRAFT \<Rightarrow> ''DRAFT'' | VENDOR_ACTIVE \<Rightarrow> ''ACTIVE''
      | VENDOR_SUSPENDED \<Rightarrow> ''SUSPENDED'' | VENDOR_ARCHIVED \<Rightarrow> ''ARCHIVED'')"

definition contract_status_name :: "contract_status \<Rightarrow> string" where
  "contract_status_name s =
     (case s of CONTRACT_DRAFT \<Rightarrow> ''DRAFT'' | CONTRACT_ACTIVE \<Rightarrow> ''ACTIVE''
      | CONTRACT_EXPIRED \<Rightarrow> ''EXPIRED'' | CONTRACT_TERMINATED \<Rightarrow> ''TERMINATED'')"

definition vendorAuditShape :: "vendor \<Rightarrow> json" where
  "vendorAuditShape v = JObject
     [(''id'', JString (ven_id v)), (''legalName'', JString (ven_legalName v)),
      (''tradingName'', json_str (ven_tradingName v)),
      (''registrationNumber'', json_str (ven_registrationNumber v)),
      (''status'', JString (vendor_status_name (ven_status v))),
      (''tags'', JArray (map JString (ven_tags v))), (''version'', JInt (int (ven_version v))),
      (''contactDetails'', JString ''[REDACTED]''), (''taxId'', JString ''[REDACTED]''),
      (''internalNotes'', JString ''[REDACTED]'')]"

definition contractAuditShape :: "contract \<Rightarrow> json" where
  "contractAuditShape c = JObject
     [(''id'', JString (ctr_id c)), (''vendorId'', JString (ctr_vendorId c)),
      (''reference'', JString (ctr_reference c)), (''title'', JString (ctr_title c)),
      (''serviceCategory'', JString (ctr_serviceCategory c)),
      (''valueLimit'', json_str (map_option decimal_toString (ctr_valueLimit c))),
      (''currency'', json_str (ctr_currency c)),
      (''startsOn'', JString (take 10 (toISOString (ctr_startsOn c)))),
      (''endsOn'', json_str (map_option (\<lambda>t. take 10 (toISOString t)) (ctr_endsOn c))),
      (''status'', JString (contract_status_name (ctr_status c))),
      (''documentReference'',
         if truthy (ctr_documentReference c) then JString ''[REFERENCE_REDACTED]'' else JNull),
      (''version'', JInt (int (ctr_version c)))]"

section \<open>Redaction of free text\<close>

text \<open>
  The two regular expressions as backtracking matchers: a matcher maps the character before the
  position and the rest of the text to the positions it can end at, in the order of preference.
\<close>

type_synonym position = "char option \<times> string"
type_synonym matcher = "position \<Rightarrow> position list"

definition word_char :: "char \<Rightarrow> bool" where
  "word_char c \<longleftrightarrow> is_digit c \<or> is_upper c \<or> is_lower c \<or> c = CHR ''_''"

definition letter :: "char \<Rightarrow> bool" where
  "letter c \<longleftrightarrow> is_upper c \<or> is_lower c"

definition alnum :: "char \<Rightarrow> bool" where
  "alnum c \<longleftrightarrow> letter c \<or> is_digit c"

definition at_boundary :: matcher where
  "at_boundary pos =
     (case pos of (p, s) \<Rightarrow>
        if (case p of None \<Rightarrow> False | Some c \<Rightarrow> word_char c)
             \<noteq> (case s of [] \<Rightarrow> False | c # _ \<Rightarrow> word_char c)
        then [pos] else [])"

definition one :: "(char \<Rightarrow> bool) \<Rightarrow> matcher" where
  "one P pos = (case pos of (p, []) \<Rightarrow> [] | (p, c # s) \<Rightarrow> if P c then [(Some c, s)] else [])"

definition seq :: "matcher \<Rightarrow> matcher \<Rightarrow> matcher" where
  "seq m n pos = concat (map n (m pos))"

fun exactly :: "nat \<Rightarrow> matcher \<Rightarrow> matcher" where
  "exactly 0 m pos = [pos]"
| "exactly (Suc n) m pos = concat (map (exactly n m) (m pos))"

text \<open>At most \<open>n\<close> times, as often as possible first.\<close>

fun up_to :: "nat \<Rightarrow> matcher \<Rightarrow> matcher" where
  "up_to 0 m pos = [pos]"
| "up_to (Suc n) m pos = concat (map (up_to n m) (m pos)) @ [pos]"

definition account_pattern :: matcher where
  "account_pattern =
     seq at_boundary (seq (exactly 2 (one letter)) (seq (exactly 2 (one is_digit))
       (let grp = seq (up_to 1 (one (\<lambda>c. c = CHR '' ''))) (exactly 4 (one alnum)) in
        seq (exactly 2 grp) (seq (up_to 5 grp) (seq (up_to 2 (one alnum)) at_boundary)))))"

definition number_pattern :: matcher where
  "number_pattern pos =
     seq at_boundary (seq (exactly 8 (one is_digit))
       (seq (up_to (length (snd pos)) (one is_digit)) at_boundary)) pos"

function replace_all :: "matcher \<Rightarrow> string \<Rightarrow> position \<Rightarrow> string" where
  "replace_all m rep (p, s) =
     (case filter (\<lambda>q. length (snd q) < length s) (m (p, s)) of
        q # _ \<Rightarrow> rep @ replace_all m rep q
      | [] \<Rightarrow> (case s of [] \<Rightarrow> [] | c # t \<Rightarrow> c # replace_all m rep (Some c, t)))"
  by pat_completeness auto
termination
proof (relation "measure (\<lambda>(m, rep, p, s). length s)")
  fix m :: matcher and rep :: string and p s q qs
  assume eq: "filter (\<lambda>q. length (snd q) < length s) (m (p, s)) = q # qs"
  have "\<forall>x \<in> set (filter (\<lambda>q. length (snd q) < length s) (m (p, s))). length (snd x) < length s"
    by simp
  then have "length (snd q) < length s" unfolding eq by simp
  then show "((m, rep, q), (m, rep, p, s)) \<in> measure (\<lambda>(m, rep, p, s). length s)"
    by (simp add: split_beta)
qed auto

definition redactAuditReason :: "string option \<Rightarrow> string option" where
  "redactAuditReason reason =
     map_option (\<lambda>r. js_trim (replace_all number_pattern ''[REDACTED_NUMBER]''
       (None, replace_all account_pattern ''[REDACTED_ACCOUNT]'' (None, r)))) reason"

end
