(* ===== verification/Pagination.thy ===== *)
theory Pagination
  imports CRM_Prelude "HOL-Library.List_Lexorder" "HOL-Library.Product_Lexorder"
begin

text \<open>
  Cursor pagination as every list of the API does it: the rows in a fixed order, from the cursor
  on, one more than the limit, and the \<open>page\<close> method that turns them into the page and the next
  cursor (\<open>buildings.service.ts\<close>, \<open>vendors.service.ts\<close>, \<open>contracts.service.ts\<close>,
  \<open>dashboard.service.ts\<close>, \<open>invoices.service.ts\<close>).  The crawl along the cursors, as a client
  makes it, yields every row once and in order; the locale \<open>listing\<close> states what it needs of a list.
\<close>

definition page :: "('r \<Rightarrow> uuid) \<Rightarrow> nat \<Rightarrow> 'r list \<Rightarrow> 'r list \<times> uuid option" where
  "page ident limit rows =
     (let hasMore = limit < length rows; data = (if hasMore then take limit rows else rows)
      in (data, if hasMore then (if data = [] then None else Some (ident (last data))) else None))"

text \<open>
  Prisma's \<open>findMany\<close> with \<open>orderBy\<close>, \<open>take\<close> and, with a cursor, \<open>cursor\<close> and \<open>skip: 1\<close>: the
  rows whose order key is not before the cursor's, without the first of them.
\<close>

definition find_page :: "('r \<Rightarrow> 'k::linorder) \<Rightarrow> nat \<Rightarrow> 'r option \<Rightarrow> 'r list \<Rightarrow> 'r list" where
  "find_page key limit cursor rows =
     take (limit + 1)
       (case cursor of
          None \<Rightarrow> sort_key key rows
        | Some c \<Rightarrow> drop 1 (filter (\<lambda>r. key c \<le> key r) (sort_key key rows)))"

text \<open>
  The client follows \<open>nextCursor\<close> until it is null; the rows do not change meanwhile.  The fuel is the
  number of calls it is ready to make; without an answer to the last one the crawl is \<open>None\<close>.
\<close>

fun crawl :: "(uuid option \<Rightarrow> failure + 'v list \<times> uuid option) \<Rightarrow> nat \<Rightarrow> uuid option \<Rightarrow> 'v list option" where
  "crawl fetch 0 cursor = None"
| "crawl fetch (Suc n) cursor =
     (case fetch cursor of
        Inl err \<Rightarrow> None
      | Inr (data, None) \<Rightarrow> Some data
      | Inr (data, Some c) \<Rightarrow> map_option ((@) data) (crawl fetch n (Some c)))"

lemma page_simps:
  "length rows \<le> limit \<Longrightarrow> page ident limit rows = (rows, None)"
  "0 < limit \<Longrightarrow> limit < length rows \<Longrightarrow>
     page ident limit rows = (take limit rows, Some (ident (rows ! (limit - 1))))"
  by (simp_all add: page_def Let_def last_conv_nth) auto

lemma page_length: "length (fst (page ident limit rows)) \<le> limit"
  by (simp add: page_def Let_def)

lemma page_prefix: "\<exists>rest. rows = fst (page ident limit rows) @ rest"
  by (auto simp: page_def Let_def intro: exI [of _ "drop limit rows"])

lemma page_next_None: "0 < limit \<Longrightarrow>
    snd (page ident limit rows) = None \<longleftrightarrow> length rows \<le> limit"
  by (auto simp: page_def Let_def)

lemma sorted_from:
  assumes "sorted (map key (ys @ c # zs))" and "distinct (map key (ys @ c # zs))"
  shows "filter (\<lambda>r. key c \<le> key r) (ys @ c # zs) = c # zs"
proof -
  have "\<not> key c \<le> key r" if "r \<in> set ys" for r
  proof -
    have "key r \<le> key c" using assms(1) that by (auto simp: sorted_append)
    moreover have "key r \<noteq> key c" using assms(2) that by (auto simp: image_iff)
    ultimately show ?thesis by simp
  qed
  then have "filter (\<lambda>r. key c \<le> key r) ys = []" by simp
  moreover have "filter (\<lambda>r. key c \<le> key r) zs = zs"
    using assms(1) by (auto simp: sorted_append intro!: filter_True)
  ultimately show ?thesis by simp
qed

text \<open>Primary keys: distinct, and never the empty string, which a query string drops.\<close>

definition identified :: "('r \<Rightarrow> uuid) \<Rightarrow> 'r list \<Rightarrow> bool" where
  "identified ident t \<longleftrightarrow> distinct (map ident t) \<and> (\<forall>r \<in> set t. ident r \<noteq> [])"

lemma identified_keys:
  assumes "identified ident t" and "\<And>r. snd (key r) = map of_char (ident r)"
  shows "distinct (map (key :: 'r \<Rightarrow> 'a \<times> nat list) (filter P t))"
proof -
  have "inj_on key (set t)"
  proof (rule inj_onI)
    fix x y assume xy: "x \<in> set t" "y \<in> set t" "key x = key y"
    have "inj (of_char :: char \<Rightarrow> nat)" by (rule injI) simp
    moreover have "map of_char (ident x) = (map of_char (ident y) :: nat list)"
      using assms(2) xy(3) by metis
    ultimately have "ident x = ident y" by (simp add: inj_map_eq_map)
    then show "x = y"
      using assms(1) xy by (auto simp: identified_def distinct_map dest: inj_onD)
  qed
  moreover have "distinct t" using assms(1) by (simp add: identified_def distinct_map)
  ultimately show ?thesis by (auto simp: distinct_map intro: inj_on_subset)
qed

section \<open>The listing interface\<close>

text \<open>
  What a listing promises: the first call answers with the first page of its rows, a call with the
  identifier of one of the rows answers with the page after that row, and the order tells the rows apart.
  The situation \<open>s\<close> is everything else the call depends on.
\<close>

locale listing =
  fixes fetch :: "'s \<Rightarrow> nat \<Rightarrow> uuid option \<Rightarrow> failure + 'v list \<times> uuid option"
    and rows :: "'s \<Rightarrow> 'r list" and key :: "'s \<Rightarrow> 'r \<Rightarrow> 'k::linorder" and ident :: "'r \<Rightarrow> uuid"
    and view :: "'s \<Rightarrow> 'r \<Rightarrow> 'v" and ok :: "'s \<Rightarrow> bool"
  assumes first_call: "fetch s lmt None =
       Inr (map_prod (map (view s)) id (page ident lmt (find_page (key s) lmt None (rows s))))"
    and next_call: "ok s \<Longrightarrow> c \<in> set (rows s) \<Longrightarrow> fetch s lmt (Some (ident c)) =
       Inr (map_prod (map (view s)) id (page ident lmt (find_page (key s) lmt (Some c) (rows s))))"
    and told_apart: "ok s \<Longrightarrow> distinct (map (key s) (rows s))"
begin

text \<open>From a row that splits the ordered list, a crawl yields the rest of it.\<close>

lemma crawl_from:
  assumes "ok s" and "0 < lmt"
  shows "sort_key (key s) (rows s) = ys @ c # zs \<Longrightarrow> length zs < n \<Longrightarrow>
    crawl (fetch s lmt) n (Some (ident c)) = Some (map (view s) zs)"
proof (induction n arbitrary: ys c zs)
  case 0
  then show ?case by simp
next
  case (Suc n)
  have s: "sorted (map (key s) (ys @ c # zs))" unfolding Suc.prems(1) [symmetric] by simp
  have "distinct (map (key s) (sort_key (key s) (rows s)))"
    using told_apart [OF assms(1)] by (metis distinct_map distinct_sort inj_on_def set_sort)
  then have d: "distinct (map (key s) (ys @ c # zs))" by (simp only: Suc.prems(1))
  have f: "find_page (key s) lmt (Some c) (rows s) = take (lmt + 1) zs"
    unfolding find_page_def option.case Suc.prems(1) sorted_from [OF s d] by simp
  have "c \<in> set (rows s)"
    using Suc.prems(1) by (metis in_set_conv_decomp set_sort)
  note call = next_call [OF assms(1) this, of lmt]
  show ?case
  proof (cases "length zs \<le> lmt")
    case True
    then show ?thesis by (simp add: call f page_simps(1))
  next
    case False
    define c' where "c' = zs ! (lmt - 1)"
    have p: "page ident lmt (take (Suc lmt) zs) = (take lmt zs, Some (ident c'))"
      using False assms(2) by (simp add: page_simps(2) c'_def min_def)
    have split: "zs = take (lmt - 1) zs @ c' # drop lmt zs"
      using False assms(2) id_take_nth_drop [of "lmt - 1" zs] by (simp add: c'_def)
    have "sort_key (key s) (rows s) = (ys @ c # take (lmt - 1) zs) @ c' # drop lmt zs"
      using Suc.prems(1) split by simp
    moreover have "length (drop lmt zs) < n" using Suc.prems(2) assms(2) False by simp
    ultimately have "crawl (fetch s lmt) n (Some (ident c')) = Some (map (view s) (drop lmt zs))" by (rule Suc.IH)
    then show ?thesis by (simp add: call f p map_append [symmetric] del: map_append)
  qed
qed

lemma crawl_all:
  assumes "ok s" and "0 < lmt" and "length (rows s) < n"
  shows "crawl (fetch s lmt) n None = Some (map (view s) (sort_key (key s) (rows s)))"
proof (cases "length (rows s) \<le> lmt")
  case True
  with assms(3) show ?thesis
    by (cases n) (simp_all add: first_call find_page_def page_simps(1))
next
  case False
  define zs where "zs = sort_key (key s) (rows s)"
  define c' where "c' = zs ! (lmt - 1)"
  have len: "length zs = length (rows s)" by (simp add: zs_def)
  have p: "page ident lmt (take (Suc lmt) zs) = (take lmt zs, Some (ident c'))"
    using False assms(2) len by (simp add: page_simps(2) c'_def min_def)
  have split: "zs = take (lmt - 1) zs @ c' # drop lmt zs"
    using False assms(2) len id_take_nth_drop [of "lmt - 1" zs] by (simp add: c'_def)
  from assms(3) obtain m where n: "n = Suc m" by (cases n) simp_all
  have "crawl (fetch s lmt) m (Some (ident c')) = Some (map (view s) (drop lmt zs))"
    by (rule crawl_from [OF assms(1,2), of "take (lmt - 1) zs"])
      (use split n assms(3) False len assms(2) in \<open>simp_all add: zs_def [symmetric]\<close>)
  then show ?thesis
    using p by (simp add: n first_call find_page_def zs_def [symmetric] map_append [symmetric] del: map_append)
qed

end

end
