(* ===== verification/Buildings.thy ===== *)
theory Buildings
  imports Crm_Common Pagination
begin

text \<open>
  The building service, \<open>apps/api/src/crm/buildings.service.ts\<close>: buildings with optimistic
  versions, apartments, access grants and occupancies.  The collation of the database, which
  orders names, is the argument \<open>coll\<close>.
\<close>

section \<open>Request bodies\<close>

record create_building_dto =
  cbd_name :: string
  cbd_addressLine1 :: string
  cbd_addressLine2 :: "string option"
  cbd_city :: string
  cbd_postalCode :: string
  cbd_countryCode :: string

record update_building_dto =
  ubd_name :: "string field"
  ubd_addressLine1 :: "string field"
  ubd_addressLine2 :: "string field"
  ubd_city :: "string field"
  ubd_postalCode :: "string field"
  ubd_countryCode :: "string field"

section \<open>Checks of the tables\<close>

definition building_keys :: "(building \<Rightarrow> string list) list" where
  "building_keys = [\<lambda>b. [bld_id b], \<lambda>b. [bld_org b, bld_name b]]"

definition apartment_keys :: "(apartment \<Rightarrow> string list) list" where
  "apartment_keys = [\<lambda>x. [apt_id x], \<lambda>x. [apt_org x, apt_buildingId x, apt_unitNumber x]]"

definition country_code_ok :: "string \<Rightarrow> bool" where
  "country_code_ok c \<longleftrightarrow> length c = 2 \<and> list_all is_upper c"

section \<open>Listing\<close>

definition building_access :: "time \<Rightarrow> auth_context \<Rightarrow> db \<Rightarrow> building \<Rightarrow> bool" where
  "building_access now a d b \<longleftrightarrow>
     sees_all a \<or> has_grant now a (bld_id b) d \<or>
     list_ex (\<lambda>x. occ_org x = organizationId a \<and> occ_membershipId x = membershipId a \<and>
        apartment_in (organizationId a) (occ_apartmentId x) (bld_id b) d) (occupancies d)"

definition building_matches :: "string option \<Rightarrow> building \<Rightarrow> bool" where
  "building_matches q b \<longleftrightarrow>
     \<not> truthy q \<or> contains_ci (bld_name b) (the q) \<or> contains_ci (bld_addressLine1 b) (the q) \<or>
     contains_ci (bld_city b) (the q)"

definition listed_buildings :: "time \<Rightarrow> auth_context \<Rightarrow> string option \<Rightarrow> db \<Rightarrow> building list" where
  "listed_buildings now a q d =
     filter (\<lambda>b. bld_org b = organizationId a \<and> building_access now a d b \<and> building_matches q b)
       (buildings d)"

definition building_order :: "(string \<Rightarrow> nat list) \<Rightarrow> building \<Rightarrow> nat list \<times> nat list" where
  "building_order coll b = (coll (bld_name b), map of_char (bld_id b))"

definition list_buildings_tx ::
  "(string \<Rightarrow> nat list) \<Rightarrow> env \<Rightarrow> auth_context \<Rightarrow> page_query \<Rightarrow>
     (db, building list \<times> uuid option) work" where
  "list_buildings_tx coll e a query d =
     (let now = clock e 0; rows = listed_buildings now a (pq_q query) d in
      if truthy (pq_cursor query) then
        (case find (\<lambda>b. bld_id b = the (pq_cursor query) \<and> bld_org b = organizationId a \<and>
               building_access now a d b) (buildings d) of
           None \<Rightarrow> Inl invalidCursor
         | Some c \<Rightarrow>
             Inr (page bld_id (pq_limit query)
               (find_page (building_order coll) (pq_limit query) (Some c) rows), d))
      else
        Inr (page bld_id (pq_limit query)
          (find_page (building_order coll) (pq_limit query) None rows), d))"

definition list_buildings ::
  "(string \<Rightarrow> nat list) \<Rightarrow> env \<Rightarrow> auth_context \<Rightarrow> page_query \<Rightarrow> db \<Rightarrow>
     (failure + building list \<times> uuid option) \<times> db" where
  "list_buildings coll e a query = run (list_buildings_tx coll e a query)"

interpretation building_list: listing
  "\<lambda>(coll, e, a, q, d) lmt cursor. fst (list_buildings coll e a
     \<lparr>pq_q = q, pq_cursor = cursor, pq_limit = lmt\<rparr> d)"
  "\<lambda>(coll, e, a, q, d). listed_buildings (clock e 0) a q d"
  "\<lambda>(coll, e, a, q, d). building_order coll" bld_id "\<lambda>s b. b"
  "\<lambda>(coll, e, a, q, d). identified bld_id (buildings d)"
proof (unfold_locales, goal_cases)
  case (1 s lmt)
  then show ?case
    by (auto simp: list_buildings_def list_buildings_tx_def run_def Let_def map_prod_def split: prod.splits)
next
  case (2 s c lmt)
  then obtain coll e a q d where s: "s = (coll, e, a, q, d)" and ids: "identified bld_id (buildings d)"
    and c: "c \<in> set (listed_buildings (clock e 0) a q d)" by (cases s) auto
  have "find (\<lambda>b. bld_id b = bld_id c \<and> bld_org b = organizationId a \<and> building_access (clock e 0) a d b) (buildings d) = Some c"
    using c ids by (intro find_unique [of bld_id]) (auto simp: identified_def listed_buildings_def)
  moreover have "bld_id c \<noteq> []" using c ids by (auto simp: identified_def listed_buildings_def)
  ultimately show ?case
    by (auto simp: s list_buildings_def list_buildings_tx_def run_def Let_def map_prod_def split: prod.splits)
next
  case (3 s)
  then show ?case
    by (cases s) (auto simp: listed_buildings_def building_order_def intro!: identified_keys)
qed

section \<open>Reading one building\<close>

type_synonym apartment_view = "apartment \<times> (occupancy \<times> membership option) list"

definition apartment_view :: "db \<Rightarrow> apartment \<Rightarrow> apartment_view" where
  "apartment_view d x =
     (x, map (\<lambda>x. (x, find (\<lambda>m. mem_id m = occ_membershipId x \<and> mem_org m = occ_org x) (memberships d)))
        (sort_key (\<lambda>x. - occ_startsOn x)
          (filter (\<lambda>y. occ_apartmentId y = apt_id x \<and> occ_org y = apt_org x) (occupancies d))))"

definition get_building_tx ::
  "(string \<Rightarrow> nat list) \<Rightarrow> env \<Rightarrow> auth_context \<Rightarrow> uuid \<Rightarrow> (db, building \<times> apartment_view list) work" where
  "get_building_tx coll e a bid d =
     (case assertCanRead (clock e 0) a bid d of
        Inl err \<Rightarrow> Inl err
      | Inr _ \<Rightarrow>
      case find (\<lambda>b. bld_id b = bid \<and> bld_org b = organizationId a) (buildings d) of
        None \<Rightarrow> Inl building_not_found
      | Some b \<Rightarrow>
          Inr ((b, map (apartment_view d) (sort_key (\<lambda>x. coll (apt_unitNumber x))
            (filter (\<lambda>x. apt_buildingId x = bid \<and> apt_org x = organizationId a) (apartments d)))), d))"

definition get_building ::
  "(string \<Rightarrow> nat list) \<Rightarrow> env \<Rightarrow> auth_context \<Rightarrow> uuid \<Rightarrow> db \<Rightarrow>
     (failure + building \<times> apartment_view list) \<times> db" where
  "get_building coll e a bid = run (get_building_tx coll e a bid)"

definition listResidents ::
  "(string \<Rightarrow> nat list) \<Rightarrow> auth_context \<Rightarrow> db \<Rightarrow> (failure + (membership \<times> user) list) \<times> db" where
  "listResidents coll a =
     run (\<lambda>d. Inr (sort_key (\<lambda>x. coll (user_displayName (snd x)))
       (List.map_filter (\<lambda>m. map_option (\<lambda>u. (m, u)) (find (\<lambda>u. user_id u = mem_userId m) (users d)))
         (filter (\<lambda>m. mem_org m = organizationId a \<and> mem_role m = RESIDENT \<and>
            mem_status m = MEMBER_ACTIVE) (memberships d))), d))"

section \<open>Writes\<close>

definition new_building :: "env \<Rightarrow> auth_context \<Rightarrow> create_building_dto \<Rightarrow> building" where
  "new_building e a dto =
     \<lparr>bld_id = new_uuid e 0, bld_org = organizationId a, bld_name = cbd_name dto,
      bld_addressLine1 = cbd_addressLine1 dto, bld_addressLine2 = cbd_addressLine2 dto,
      bld_city = cbd_city dto, bld_postalCode = cbd_postalCode dto,
      bld_countryCode = cbd_countryCode dto, bld_version = 1\<rparr>"

definition create_building_tx ::
  "env \<Rightarrow> auth_context \<Rightarrow> create_building_dto \<Rightarrow> (db, building) work" where
  "create_building_tx e a dto d =
     (if \<not> country_code_ok (cbd_countryCode dto) then Inl (DatabaseError ''Building_countryCode_check'')
      else case create_unique building_keys (new_building e a dto) (buildings d) of
        Inl err \<Rightarrow> Inl err
      | Inr bs \<Rightarrow> Inr (new_building e a dto, d\<lparr>buildings := bs\<rparr>))"

definition create_building ::
  "env \<Rightarrow> auth_context \<Rightarrow> create_building_dto \<Rightarrow> db \<Rightarrow> (failure + building) \<times> db" where
  "create_building e a dto = run (create_building_tx e a dto)"

definition apply_building_dto :: "update_building_dto \<Rightarrow> building \<Rightarrow> building" where
  "apply_building_dto dto b =
     b\<lparr>bld_name := set_required (ubd_name dto) (bld_name b),
       bld_addressLine1 := set_required (ubd_addressLine1 dto) (bld_addressLine1 b),
       bld_addressLine2 := set_optional (ubd_addressLine2 dto) (bld_addressLine2 b),
       bld_city := set_required (ubd_city dto) (bld_city b),
       bld_postalCode := set_required (ubd_postalCode dto) (bld_postalCode b),
       bld_countryCode := set_required (ubd_countryCode dto) (bld_countryCode b),
       bld_version := bld_version b + 1\<rparr>"

definition building_dto_nulls :: "update_building_dto \<Rightarrow> bool" where
  "building_dto_nulls dto \<longleftrightarrow>
     ubd_name dto = Null \<or> ubd_addressLine1 dto = Null \<or> ubd_city dto = Null \<or>
     ubd_postalCode dto = Null \<or> ubd_countryCode dto = Null"

definition update_building_tx ::
  "env \<Rightarrow> auth_context \<Rightarrow> uuid \<Rightarrow> nat \<Rightarrow> update_building_dto \<Rightarrow> (db, building) work" where
  "update_building_tx e a bid v dto d =
     (case assertCanManage (clock e 0) a bid d of
        Inl err \<Rightarrow> Inl err
      | Inr _ \<Rightarrow>
          let P = (\<lambda>b. bld_id b = bid \<and> bld_org b = organizationId a \<and> bld_version b = v) in
          if building_dto_nulls dto then Inl validation_error
          else if list_ex (\<lambda>b. P b \<and> \<not> country_code_ok (bld_countryCode (apply_building_dto dto b))) (buildings d)
          then Inl (DatabaseError ''Building_countryCode_check'')
          else
          case update_unique building_keys P (apply_building_dto dto) (buildings d) of
            Inl err \<Rightarrow> Inl err
          | Inr bs \<Rightarrow>
          if count_rows P (buildings d) \<noteq> 1 then Inl staleWrite
          else
          case find (\<lambda>b. bld_id b = bid \<and> bld_org b = organizationId a) bs of
            None \<Rightarrow> Inl (DatabaseError ''P2025'')
          | Some b \<Rightarrow> Inr (b, d\<lparr>buildings := bs\<rparr>))"

definition update_building ::
  "env \<Rightarrow> auth_context \<Rightarrow> uuid \<Rightarrow> nat \<Rightarrow> update_building_dto \<Rightarrow> db \<Rightarrow> (failure + building) \<times> db" where
  "update_building e a bid v dto = run (update_building_tx e a bid v dto)"

definition addApartment_tx ::
  "env \<Rightarrow> auth_context \<Rightarrow> uuid \<Rightarrow> string \<Rightarrow> string option \<Rightarrow> (db, apartment) work" where
  "addApartment_tx e a bid unit flr d =
     (case assertBuildingExists (organizationId a) bid d of
        Inl err \<Rightarrow> Inl err
      | Inr _ \<Rightarrow>
      case assertCanManage (clock e 0) a bid d of
        Inl err \<Rightarrow> Inl err
      | Inr _ \<Rightarrow>
          let x = \<lparr>apt_id = new_uuid e 0, apt_org = organizationId a, apt_buildingId = bid,
            apt_unitNumber = unit, apt_floor = flr\<rparr> in
          case create_unique apartment_keys x (apartments d) of
            Inl err \<Rightarrow> Inl err
          | Inr xs \<Rightarrow> Inr (x, d\<lparr>apartments := xs\<rparr>))"

definition addApartment ::
  "env \<Rightarrow> auth_context \<Rightarrow> uuid \<Rightarrow> string \<Rightarrow> string option \<Rightarrow> db \<Rightarrow> (failure + apartment) \<times> db" where
  "addApartment e a bid unit flr = run (addApartment_tx e a bid unit flr)"

definition grant_dates_ok :: "grant \<Rightarrow> bool" where
  "grant_dates_ok g \<longleftrightarrow> (case gr_validUntil g of None \<Rightarrow> True | Some t \<Rightarrow> gr_validFrom g < t)"

definition grantAccess_tx ::
  "env \<Rightarrow> auth_context \<Rightarrow> uuid \<Rightarrow> uuid \<Rightarrow> time option \<Rightarrow> (db, grant) work" where
  "grantAccess_tx e a bid mid validUntil d =
     (let org = organizationId a; Q = (\<lambda>g. gr_org g = org \<and> gr_membershipId g = mid \<and> gr_buildingId g = bid) in
      case assertBuildingExists org bid d of
        Inl err \<Rightarrow> Inl err
      | Inr _ \<Rightarrow>
      case find (\<lambda>m. mem_id m = mid \<and> mem_org m = org \<and> mem_status m = MEMBER_ACTIVE) (memberships d) of
        None \<Rightarrow> Inl (Http NotFound ''MEMBERSHIP_NOT_FOUND'')
      | Some _ \<Rightarrow>
      case find Q (grants d) of
        Some g \<Rightarrow>
          let g' = g\<lparr>gr_validUntil := validUntil\<rparr> in
          if \<not> grant_dates_ok g' then Inl (DatabaseError ''MembershipBuildingAccess_dates_check'')
          else Inr (g', d\<lparr>grants := update_rows Q (\<lambda>g. g\<lparr>gr_validUntil := validUntil\<rparr>) (grants d)\<rparr>)
      | None \<Rightarrow>
          let g = \<lparr>gr_id = new_uuid e 0, gr_org = org, gr_membershipId = mid, gr_buildingId = bid,
            gr_validFrom = clock e 0, gr_validUntil = validUntil\<rparr> in
          if \<not> grant_dates_ok g then Inl (DatabaseError ''MembershipBuildingAccess_dates_check'')
          else Inr (g, d\<lparr>grants := grants d @ [g]\<rparr>))"

definition grantAccess ::
  "env \<Rightarrow> auth_context \<Rightarrow> uuid \<Rightarrow> uuid \<Rightarrow> time option \<Rightarrow> db \<Rightarrow> (failure + grant) \<times> db" where
  "grantAccess e a bid mid validUntil = run (grantAccess_tx e a bid mid validUntil)"

definition addOccupancy_tx ::
  "env \<Rightarrow> auth_context \<Rightarrow> uuid \<Rightarrow> uuid \<Rightarrow> time \<Rightarrow> time option \<Rightarrow> (db, occupancy) work" where
  "addOccupancy_tx e a aid mid startsOn endsOn d =
     (let org = organizationId a in
      case find (\<lambda>x. apt_id x = aid \<and> apt_org x = org) (apartments d) of
        None \<Rightarrow> Inl (Http NotFound ''APARTMENT_NOT_FOUND'')
      | Some x \<Rightarrow>
      case assertCanManage (clock e 0) a (apt_buildingId x) d of
        Inl err \<Rightarrow> Inl err
      | Inr _ \<Rightarrow>
      case find (\<lambda>m. mem_id m = mid \<and> mem_org m = org \<and> mem_role m = RESIDENT \<and>
             mem_status m = MEMBER_ACTIVE) (memberships d) of
        None \<Rightarrow> Inl (Http UnprocessableEntity ''RESIDENT_MEMBERSHIP_REQUIRED'')
      | Some _ \<Rightarrow>
          let occ = \<lparr>occ_id = new_uuid e 0, occ_org = org, occ_apartmentId = aid,
            occ_membershipId = mid, occ_startsOn = to_date startsOn,
            occ_endsOn = map_option to_date endsOn\<rparr> in
          if (case occ_endsOn occ of None \<Rightarrow> False | Some t \<Rightarrow> t < occ_startsOn occ)
          then Inl (DatabaseError ''Occupancy_dates_check'')
          else Inr (occ, d\<lparr>occupancies := occupancies d @ [occ]\<rparr>))"

definition addOccupancy ::
  "env \<Rightarrow> auth_context \<Rightarrow> uuid \<Rightarrow> uuid \<Rightarrow> time \<Rightarrow> time option \<Rightarrow> db \<Rightarrow> (failure + occupancy) \<times> db" where
  "addOccupancy e a aid mid startsOn endsOn = run (addOccupancy_tx e a aid mid startsOn endsOn)"

end
