(* ===== verification/Encoding.thy ===== *)
theory Encoding
  imports Json
begin

text \<open>
  What the services use of \<open>Buffer\<close> and \<open>JSON\<close> of the JavaScript library: a \<open>Buffer\<close> is the string
  of its bytes; UTF-8, base64 and base64url in both directions; and \<open>JSON.stringify\<close> and
  \<open>JSON.parse\<close> on objects of strings, with the round trips.
\<close>

section \<open>Buffers\<close>

text \<open>UTF-8 on the code points below 256, in both directions.\<close>

fun utf8_encode :: "string \<Rightarrow> string" where
  "utf8_encode [] = []"
| "utf8_encode (c # s) =
     (if of_char c < (128 :: nat) then c # utf8_encode s
      else char_of (192 + of_char c div 64 :: nat) # char_of (128 + of_char c mod 64 :: nat)
        # utf8_encode s)"

fun utf8_decode :: "string \<Rightarrow> string" where
  "utf8_decode [] = []"
| "utf8_decode [c] = [c]"
| "utf8_decode (c # b # s) =
     (if of_char c < (128 :: nat) then c # utf8_decode (b # s)
      else char_of ((of_char c - 192) * 64 + (of_char b - 128) :: nat) # utf8_decode s)"

definition base64_char :: "nat \<Rightarrow> char" where
  "base64_char n =
     (if n < 26 then char_of (65 + n) else if n < 52 then char_of (71 + n)
      else if n < 62 then char_of (n - 4) else if n = 62 then CHR ''+'' else CHR ''/'')"

definition base64_value :: "char \<Rightarrow> nat" where
  "base64_value c =
     (if is_upper c then of_char c - 65 else if is_lower c then of_char c - 71
      else if is_digit c then of_char c + 4 else if c \<in> {CHR ''+'', CHR ''-''} then 62 else 63)"

fun base64_encode :: "string \<Rightarrow> string" where
  "base64_encode [] = []"
| "base64_encode [a] =
     [base64_char (of_char a div 4), base64_char (of_char a mod 4 * 16), CHR ''='', CHR ''='']"
| "base64_encode [a, b] =
     [base64_char (of_char a div 4), base64_char (of_char a mod 4 * 16 + of_char b div 16),
      base64_char (of_char b mod 16 * 4), CHR ''='']"
| "base64_encode (a # b # c # s) =
     [base64_char (of_char a div 4), base64_char (of_char a mod 4 * 16 + of_char b div 16),
      base64_char (of_char b mod 16 * 4 + of_char c div 64), base64_char (of_char c mod 64)]
     @ base64_encode s"

definition byte :: "nat \<Rightarrow> char" where
  "byte n = char_of (n mod 256)"

fun base64_groups :: "string \<Rightarrow> string" where
  "base64_groups (a # b # c # d # s) =
     byte (base64_value a * 4 + base64_value b div 16)
     # byte (base64_value b * 16 + base64_value c div 4)
     # byte (base64_value c * 64 + base64_value d) # base64_groups s"
| "base64_groups [a, b, c] =
     [byte (base64_value a * 4 + base64_value b div 16),
      byte (base64_value b * 16 + base64_value c div 4)]"
| "base64_groups [a, b] = [byte (base64_value a * 4 + base64_value b div 16)]"
| "base64_groups [a] = []"
| "base64_groups [] = []"

definition base64_letter :: "char \<Rightarrow> bool" where
  "base64_letter c \<longleftrightarrow> is_upper c \<or> is_lower c \<or> is_digit c \<or>
     c \<in> {CHR ''+'', CHR ''/'', CHR ''-'', CHR ''_''}"

definition base64_decode :: "string \<Rightarrow> string" where
  "base64_decode s = base64_groups (filter base64_letter (takeWhile (\<lambda>c. c \<noteq> CHR ''='') s))"

text \<open>\<open>base64url\<close>: two other letters and no padding; the decoder takes both alphabets.\<close>

definition url_char :: "char \<Rightarrow> char" where
  "url_char c = (if c = CHR ''+'' then CHR ''-'' else if c = CHR ''/'' then CHR ''_'' else c)"

definition base64url_encode :: "string \<Rightarrow> string" where
  "base64url_encode s = map url_char (filter (\<lambda>c. c \<noteq> CHR ''='') (base64_encode s))"

section \<open>Objects of strings\<close>

definition stringify_fields :: "(string \<times> string) list \<Rightarrow> string" where
  "stringify_fields fs =
     ''{'' @ join '','' (map (\<lambda>(k, v). stringify_string k @ '':'' @ stringify_string v) fs) @ ''}''"

definition hex_value :: "char \<Rightarrow> nat option" where
  "hex_value c =
     (if is_digit c then Some (of_char c - 48)
      else if of_char c \<in> {97 .. 102 :: nat} then Some (of_char c - 87)
      else if of_char c \<in> {65 .. 70 :: nat} then Some (of_char c - 55) else None)"

text \<open>\<open>JSON.parse\<close> on objects of strings, the only texts the cipher is given.\<close>

fun parse_chars :: "string \<Rightarrow> (string \<times> string) option" where
  "parse_chars [] = None"
| "parse_chars (c # s) =
     (if c = quote then Some ([], s)
      else if of_char c = (92 :: nat) then
        (case s of
           [] \<Rightarrow> None
         | x # t \<Rightarrow>
             if x = CHR ''u'' then
               (case t of
                  h1 # h2 # h3 # h4 # r \<Rightarrow>
                    (case (hex_value h1, hex_value h2, hex_value h3, hex_value h4) of
                       (Some 0, Some 0, Some u, Some v) \<Rightarrow>
                         map_option (\<lambda>(w, z). (char_of (16 * u + v) # w, z)) (parse_chars r)
                     | _ \<Rightarrow> None)
                | _ \<Rightarrow> None)
             else
               (case (if x = quote \<or> of_char x = (92 :: nat) \<or> x = CHR ''/'' then Some x
                      else if x = CHR ''b'' then Some (char_of (8 :: nat))
                      else if x = CHR ''t'' then Some (char_of (9 :: nat))
                      else if x = CHR ''n'' then Some (char_of (10 :: nat))
                      else if x = CHR ''f'' then Some (char_of (12 :: nat))
                      else if x = CHR ''r'' then Some (char_of (13 :: nat)) else None) of
                  None \<Rightarrow> None
                | Some y \<Rightarrow> map_option (\<lambda>(w, z). (y # w, z)) (parse_chars t)))
      else if of_char c < (32 :: nat) then None
      else map_option (\<lambda>(w, z). (c # w, z)) (parse_chars s))"

definition parse_string :: "string \<Rightarrow> (string \<times> string) option" where
  "parse_string s = (case s of c # t \<Rightarrow> if c = quote then parse_chars t else None | [] \<Rightarrow> None)"

fun parse_entries :: "nat \<Rightarrow> string \<Rightarrow> (string \<times> string) list option" where
  "parse_entries 0 s = None"
| "parse_entries (Suc n) s =
     (case parse_string s of
        Some (k, c # t) \<Rightarrow>
          if c \<noteq> CHR '':'' then None
          else
            (case parse_string t of
               Some (v, x # r) \<Rightarrow>
                 if x = CHR '','' then map_option (\<lambda>es. (k, v) # es) (parse_entries n r)
                 else if x = CHR ''}'' \<and> r = [] then Some [(k, v)]
                 else None
             | _ \<Rightarrow> None)
      | _ \<Rightarrow> None)"

definition parse_fields :: "string \<Rightarrow> (string \<times> string) list option" where
  "parse_fields s =
     (case s of
        c # t \<Rightarrow>
          if c \<noteq> CHR ''{'' then None else if t = ''}'' then Some [] else parse_entries (length t) t
      | [] \<Rightarrow> None)"

text \<open>Integers, and a fixed text in front.\<close>

definition read_int :: "string \<Rightarrow> int option" where
  "read_int s =
     (if s \<noteq> [] \<and> list_all is_digit s then Some (int (read_nat s))
      else if s \<noteq> [] \<and> hd s = CHR ''-'' \<and> tl s \<noteq> [] \<and> list_all is_digit (tl s)
      then Some (- int (read_nat (tl s))) else None)"

definition expect :: "string \<Rightarrow> string \<Rightarrow> string option" where
  "expect p s = (if is_prefix p s then Some (drop (length p) s) else None)"

section \<open>Round trips\<close>

lemma of_char_less [simp]: "of_char (c :: char) < (256 :: nat)"
  by simp

lemma utf8_roundtrip [simp]: "utf8_decode (utf8_encode s) = s"
proof (induction s)
  case (Cons c s)
  show ?case
  proof (cases "of_char c < (128 :: nat)")
    case True
    with Cons show ?thesis by (cases "utf8_encode s") auto
  next
    case False
    let ?n = "of_char c :: nat"
    have n: "?n div 64 < 4" by (rule less_mult_imp_div_less) simp
    then have "of_char (char_of (192 + ?n div 64) :: char) = 192 + ?n div 64"
      "of_char (char_of (128 + ?n mod 64) :: char) = 128 + ?n mod 64" by simp_all
    with False Cons show ?thesis by simp
  qed
qed simp

lemma base64_value_char: "n < 64 \<Longrightarrow> base64_value (base64_char n) = n"
  by (auto simp: base64_value_def base64_char_def is_upper_def is_lower_def is_digit_def)

lemma base64_char_ok:
  assumes "n < 64"
  shows "base64_char n \<noteq> CHR ''=''" "base64_letter (base64_char n)"
  using assms
  by (auto simp: base64_letter_def base64_char_def is_upper_def is_lower_def is_digit_def
      dest: arg_cong [of _ _ "of_char :: char \<Rightarrow> nat"])

lemma byte_of_char [simp]: "byte (of_char c) = c"
  by (simp add: byte_def)

lemma base64_bits:
  fixes a b c :: nat
  assumes "a < 256" "b < 256" "c < 256"
  shows "a div 4 < 64" "a mod 4 * 16 < 64" "a mod 4 * 16 + b div 16 < 64"
    "b mod 16 * 4 < 64" "b mod 16 * 4 + c div 64 < 64" "c mod 64 < 64"
    "a div 4 * 4 + (a mod 4 * 16 + b div 16) div 16 = a"
    "a div 4 * 4 + a mod 4 * 16 div 16 = a"
    "((a mod 4 * 16 + b div 16) * 16 + (b mod 16 * 4 + c div 64) div 4) mod 256 = b"
    "((a mod 4 * 16 + b div 16) * 16 + b mod 16 * 4 div 4) mod 256 = b"
    "((b mod 16 * 4 + c div 64) * 64 + c mod 64) mod 256 = c"
proof -
  have b: "b div 16 < 16" and c: "c div 64 < 4" and a: "a div 4 < 64"
    using assms by (auto intro: less_mult_imp_div_less)
  have a': "a mod 4 < 4" and b': "b mod 16 < 16" by simp_all
  show "a div 4 < 64" "c mod 64 < 64" using a by simp_all
  show "a mod 4 * 16 < 64" "b mod 16 * 4 < 64" using a' b' by linarith+
  show "a mod 4 * 16 + b div 16 < 64" "b mod 16 * 4 + c div 64 < 64" using a' b' b c by linarith+
  have 1: "(a mod 4 * 16 + b div 16) div 16 = a mod 4" using b by simp
  have 2: "(b mod 16 * 4 + c div 64) div 4 = b mod 16" using c by simp
  show "a div 4 * 4 + (a mod 4 * 16 + b div 16) div 16 = a" "a div 4 * 4 + a mod 4 * 16 div 16 = a"
    by (simp_all add: 1)
  have "(a mod 4 * 16 + b div 16) * 16 + b mod 16 = a mod 4 * 256 + (b div 16 * 16 + b mod 16)"
    by simp
  then have 3: "((a mod 4 * 16 + b div 16) * 16 + b mod 16) mod 256 = b" using assms(2) by simp
  then show "((a mod 4 * 16 + b div 16) * 16 + (b mod 16 * 4 + c div 64) div 4) mod 256 = b"
    "((a mod 4 * 16 + b div 16) * 16 + b mod 16 * 4 div 4) mod 256 = b"
    by (simp_all add: 2)
  have "(b mod 16 * 4 + c div 64) * 64 + c mod 64 = b mod 16 * 256 + (c div 64 * 64 + c mod 64)"
    by simp
  then show "((b mod 16 * 4 + c div 64) * 64 + c mod 64) mod 256 = c" using assms(3) by simp
qed

lemma base64_roundtrip [simp]: "base64_decode (base64_encode s) = s"
  unfolding base64_decode_def
proof (induction s rule: base64_encode.induct)
  case (2 a)
  note bits = base64_bits [of "of_char a" 0 0]
  show ?case
    using bits by (simp add: base64_char_ok base64_value_char byte_def)
next
  case (3 a b)
  note bits = base64_bits [of "of_char a" "of_char b" 0]
  show ?case
    using bits by (simp add: base64_char_ok base64_value_char byte_def)
next
  case (4 a b c s)
  note bits = base64_bits [of "of_char a" "of_char b" "of_char c"]
  show ?case
    using bits 4 by (simp add: base64_char_ok base64_value_char byte_def)
qed simp

lemma char_codes:
  "char_of (34 :: nat) = CHR 0x22" "char_of (92 :: nat) = CHR 0x5C" "char_of (8 :: nat) = CHR 0x08"
  "char_of (9 :: nat) = CHR 0x09" "char_of (10 :: nat) = CHR 0x0A" "char_of (12 :: nat) = CHR 0x0C"
  "char_of (13 :: nat) = CHR 0x0D"
  by code_simp+

lemma url_char_ok:
  assumes "n < 64"
  shows "base64_value (url_char (base64_char n)) = n" "url_char (base64_char n) \<noteq> CHR ''=''"
    "base64_letter (url_char (base64_char n))"
proof -
  have "base64_value (url_char c) = base64_value c" for c
    by (auto simp: url_char_def base64_value_def is_upper_def is_lower_def is_digit_def)
  then show "base64_value (url_char (base64_char n)) = n" by (simp add: base64_value_char assms)
  show "url_char (base64_char n) \<noteq> CHR ''=''" using base64_char_ok [OF assms] by (simp add: url_char_def)
  show "base64_letter (url_char (base64_char n))"
    using base64_char_ok(2) [OF assms] by (auto simp: url_char_def base64_letter_def)
qed

lemma base64url_roundtrip [simp]: "base64_decode (base64url_encode s) = s"
  unfolding base64_decode_def base64url_encode_def
proof (induction s rule: base64_encode.induct)
  case (2 a)
  show ?case
    using base64_bits [of "of_char a" 0 0] by (simp add: base64_char_ok url_char_ok byte_def)
next
  case (3 a b)
  show ?case
    using base64_bits [of "of_char a" "of_char b" 0] by (simp add: base64_char_ok url_char_ok byte_def)
next
  case (4 a b c s)
  show ?case
    using base64_bits [of "of_char a" "of_char b" "of_char c"] 4
    by (simp add: base64_char_ok url_char_ok byte_def)
qed simp

lemma hex_value_digit: "d < 16 \<Longrightarrow> hex_value (hex_digit d) = Some d"
  by (auto simp: hex_value_def hex_digit_def is_digit_def)

lemma parse_escaped:
  "parse_chars (escape_char c @ r) = map_option (\<lambda>(w, z). (c # w, z)) (parse_chars r)"
proof (cases "of_char c < (32 :: nat) \<and> of_char c \<notin> {8, 9, 10, 12, 13 :: nat}")
  case True
  let ?n = "of_char c :: nat"
  have c: "escape_char c = [char_of (92 :: nat), CHR ''u'', CHR ''0'', CHR ''0'',
      hex_digit (?n div 16), hex_digit (?n mod 16)]"
    using True by (auto simp: escape_char_def)
  have "?n div 16 < 16" by (rule less_mult_imp_div_less) simp
  then have h: "hex_value (hex_digit (?n div 16)) = Some (?n div 16)"
    "hex_value (hex_digit (?n mod 16)) = Some (?n mod 16)"
    by (simp_all add: hex_value_digit)
  have "char_of (16 * (?n div 16) + ?n mod 16) = c" by simp
  with h show ?thesis unfolding c by (simp add: quote_def hex_value_def is_digit_def)
next
  case False
  let ?n = "of_char c :: nat"
  show ?thesis
  proof (cases "?n \<in> {34, 92, 8, 9, 10, 12, 13}")
    case True
    moreover have "c = char_of ?n" by simp
    ultimately consider "c = char_of (34 :: nat)" | "c = char_of (92 :: nat)" | "c = char_of (8 :: nat)"
      | "c = char_of (9 :: nat)" | "c = char_of (10 :: nat)" | "c = char_of (12 :: nat)"
      | "c = char_of (13 :: nat)" unfolding insert_iff empty_iff by metis
    then show ?thesis by cases (simp_all add: escape_char_def quote_def char_codes)
  next
    case other: False
    have ne: "c \<noteq> char_of m" if "m \<in> {34, 92, 8, 9, 10, 12, 13 :: nat}" for m
      using other that by auto
    have "escape_char c = [c]" using False other ne by (simp add: escape_char_def)
    moreover have "c \<noteq> quote" "?n \<noteq> 92" "\<not> ?n < 32"
      using False other ne by (auto simp: quote_def)
    ultimately show ?thesis by simp
  qed
qed

lemma parse_string_stringify [simp]: "parse_string (stringify_string s @ r) = Some (s, r)"
proof -
  have "parse_chars (concat (map escape_char s) @ quote # r) = Some (s, r)"
    by (induction s) (simp_all add: parse_escaped)
  then show ?thesis by (simp add: parse_string_def stringify_string_def)
qed

lemma parse_entries_join:
  "fs \<noteq> [] \<Longrightarrow> length fs \<le> n \<Longrightarrow>
    parse_entries n (join '','' (map (\<lambda>(k, v). stringify_string k @ '':'' @ stringify_string v) fs) @ ''}'')
      = Some fs"
proof (induction fs arbitrary: n)
  case (Cons f fs)
  then obtain m where n: "n = Suc m" by (cases n) auto
  show ?case
  proof (cases fs)
    case Nil
    with n show ?thesis by (cases f) simp
  next
    case (Cons g gs)
    with n Cons.IH [of m] Cons.prems show ?thesis by (cases f) simp
  qed
qed simp

lemma parse_stringify_fields:
  assumes "fs \<noteq> []"
  shows "parse_fields (stringify_fields fs) = Some fs"
proof -
  define body where "body = join '','' (map (\<lambda>(k, v). stringify_string k @ '':'' @ stringify_string v) fs)"
  have long: "length fs \<le> length (join '','' (map (\<lambda>(k, v). stringify_string k @ '':'' @ stringify_string v) fs))"
    for fs
  proof (induction fs)
    case (Cons f fs)
    then show ?case by (cases fs; cases f) (auto simp: stringify_string_def)
  qed simp
  define t where "t = body @ ''}''"
  have "t \<noteq> ''}''" using long [of fs] assms by (auto simp: t_def body_def)
  moreover have "parse_entries (length t) t = Some fs"
    unfolding t_def body_def by (rule parse_entries_join [OF assms]) (use long [of fs] in simp)
  moreover have "stringify_fields fs = CHR ''{'' # t"
    by (simp only: stringify_fields_def body_def t_def append_Cons append_Nil)
  ultimately show ?thesis by (simp add: parse_fields_def)
qed

lemma expect_append [simp]: "expect p (p @ s) = Some s"
  by (simp add: expect_def is_prefix_def)

lemma read_int_show_int [simp]: "read_int (show_int n) = Some n"
proof (cases "n < 0")
  case True
  have "\<not> is_digit (CHR ''-'')" by (simp add: is_digit_def)
  with True show ?thesis by (simp add: read_int_def show_int_def)
qed (simp add: read_int_def show_int_def)

lemma base64url_no_dot: "CHR ''.'' \<notin> set (base64url_encode s)"
proof -
  have ne: "CHR ''.'' \<noteq> base64_char n" if "n < 64" for n
  proof -
    have "\<not> base64_letter (CHR ''.'')"
      by (simp add: base64_letter_def is_upper_def is_lower_def is_digit_def)
    with base64_char_ok(2) [OF that] show ?thesis by metis
  qed
  have "CHR ''.'' \<notin> set (base64_encode s)"
  proof (induction s rule: base64_encode.induct)
    case (2 a)
    show ?case using base64_bits [of "of_char a" 0 0] ne by simp
  next
    case (3 a b)
    show ?case using base64_bits [of "of_char a" "of_char b" 0] ne by simp
  next
    case (4 a b c s)
    show ?case using base64_bits [of "of_char a" "of_char b" "of_char c"] ne 4 by simp
  qed simp
  then show ?thesis by (auto simp: base64url_encode_def url_char_def)
qed

lemma base64url_Nil: "base64url_encode s = [] \<Longrightarrow> s = []"
  by (metis base64url_roundtrip base64_decode_def base64_groups.simps(5) filter.simps(1) takeWhile.simps(1))

end
