(* ===== verification/Bank_Encryption.thy ===== *)
theory Bank_Encryption
  imports Database Encoding
begin

text \<open>
  \<open>apps/api/src/crm/bank-encryption.service.ts\<close>: bank accounts are stored as AES-256-GCM
  ciphertexts bound to their organization and vendor, with a keyed fingerprint and masked forms
  for display.  The primitives of \<open>node:crypto\<close> are the fields of the record \<open>crypto\<close>.  The bullet of the masks (U+2022) has no code below 256
  and is written with its code in Windows-1252.
\<close>

record crypto =
  crypto_digest :: "string \<Rightarrow> string"
  crypto_hkdf :: "string \<Rightarrow> string \<Rightarrow> string \<Rightarrow> string"
  crypto_encrypt :: "string \<Rightarrow> string \<Rightarrow> string \<Rightarrow> string \<Rightarrow> string \<times> string"
  crypto_decrypt :: "string \<Rightarrow> string \<Rightarrow> string \<Rightarrow> string \<Rightarrow> string \<Rightarrow> string option"
  crypto_hmac :: "string \<Rightarrow> string \<Rightarrow> string"

record bank_service =
  svc_keyId :: string
  svc_encryptionKey :: string
  svc_fingerprintKey :: string

record plain_account =
  acc_accountNumber :: string
  acc_accountHolder :: string
  acc_bankName :: "string option"

record encrypted_account =
  enc_account :: string
  enc_iv :: string
  enc_tag :: string
  enc_keyId :: string
  enc_fingerprint :: string
  enc_masked :: string
  enc_maskedHolder :: string

section \<open>The stored text\<close>

definition account_fields :: "plain_account \<Rightarrow> (string \<times> string) list" where
  "account_fields acc =
     [(''accountNumber'', acc_accountNumber acc), (''accountHolder'', acc_accountHolder acc)]
     @ (case acc_bankName acc of None \<Rightarrow> [] | Some b \<Rightarrow> [(''bankName'', b)])"

definition read_account :: "(string \<times> string) list \<Rightarrow> plain_account option" where
  "read_account fs =
     (case (map_of (rev fs) ''accountNumber'', map_of (rev fs) ''accountHolder'') of
        (Some n, Some h) \<Rightarrow>
          Some \<lparr>acc_accountNumber = n, acc_accountHolder = h, acc_bankName = map_of (rev fs) ''bankName''\<rparr>
      | _ \<Rightarrow> None)"

section \<open>The service\<close>

definition bank_encryption_service ::
  "crypto \<Rightarrow> string option \<Rightarrow> string option \<Rightarrow> failure + bank_service" where
  "bank_encryption_service c secret keyId =
     (if \<not> truthy secret \<or> length (the secret) < 32
      then Inl (ExternalError ''FIELD_ENCRYPTION_KEY must contain at least 32 characters.'')
      else
        let masterKey = crypto_digest c (utf8_encode (the secret)) in
        Inr \<lparr>svc_keyId = (case keyId of None \<Rightarrow> ''local-v1'' | Some k \<Rightarrow> k),
             svc_encryptionKey = crypto_hkdf c masterKey ''bloctrust-crm'' ''bank-encryption'',
             svc_fingerprintKey = crypto_hkdf c masterKey ''bloctrust-crm'' ''bank-fingerprint''\<rparr>)"

definition aad :: "uuid \<Rightarrow> uuid \<Rightarrow> string" where
  "aad org vid = utf8_encode (''bloctrust:bank:v1:'' @ org @ '':'' @ vid)"

definition normalizeAccount :: "string \<Rightarrow> string" where
  "normalizeAccount s = js_upper (filter (\<lambda>c. c \<noteq> CHR '' '' \<and> c \<noteq> CHR ''-'') s)"

definition bullet :: char where
  "bullet = char_of (149 :: nat)"

definition maskAccount :: "string \<Rightarrow> string" where
  "maskAccount s =
     (let n = length s; first = take (min 2 (n - 4)) s
      in first @ replicate (max 4 (min 10 (n - length first - 4))) bullet @ drop (n - 4) s)"

text \<open>\<open>split(/\s+/u)\<close>: the parts between runs of white space.\<close>

function split_space :: "string \<Rightarrow> string list" where
  "split_space s =
     (case dropWhile (\<lambda>c. \<not> js_space c) s of
        [] \<Rightarrow> [s]
      | c # t \<Rightarrow> takeWhile (\<lambda>c. \<not> js_space c) s # split_space (dropWhile js_space t))"
  by pat_completeness auto
termination
proof (relation "measure length")
  fix s c t
  assume "dropWhile (\<lambda>c. \<not> js_space c) s = c # t"
  then have "length (c # t) \<le> length s" by (metis length_dropWhile_le)
  moreover have "length (dropWhile js_space t) \<le> length t" by (rule length_dropWhile_le)
  ultimately show "(dropWhile js_space t, s) \<in> measure length" by simp
qed simp

declare split_space.simps [simp del]

definition maskHolder :: "string \<Rightarrow> string" where
  "maskHolder s =
     join '' '' (map (\<lambda>w. take 1 w @ replicate (max 2 (length w - 1)) bullet)
       (split_space (js_trim s)))"

definition encrypt ::
  "crypto \<Rightarrow> bank_service \<Rightarrow> string \<Rightarrow> uuid \<Rightarrow> uuid \<Rightarrow> plain_account \<Rightarrow> encrypted_account" where
  "encrypt c svc iv org vid acc =
     (let accountNumber = normalizeAccount (acc_accountNumber acc);
          plaintext = utf8_encode (stringify_fields (account_fields
            \<lparr>acc_accountNumber = accountNumber, acc_accountHolder = js_trim (acc_accountHolder acc),
             acc_bankName = (if truthy (acc_bankName acc) then map_option js_trim (acc_bankName acc) else None)\<rparr>));
          (encrypted, tag) = crypto_encrypt c (svc_encryptionKey svc) iv (aad org vid) plaintext
      in \<lparr>enc_account = base64_encode encrypted, enc_iv = base64_encode iv,
          enc_tag = base64_encode tag, enc_keyId = svc_keyId svc,
          enc_fingerprint = crypto_hmac c (svc_fingerprintKey svc) (utf8_encode (org @ '':'' @ accountNumber)),
          enc_masked = maskAccount accountNumber, enc_maskedHolder = maskHolder (acc_accountHolder acc)\<rparr>)"

definition decryption_failed :: failure where
  "decryption_failed = Http InternalServerError ''FIELD_DECRYPTION_FAILED''"

definition decrypt ::
  "crypto \<Rightarrow> bank_service \<Rightarrow> uuid \<Rightarrow> uuid \<Rightarrow> encrypted_account \<Rightarrow> failure + plain_account" where
  "decrypt c svc org vid stored =
     (if enc_keyId stored \<noteq> svc_keyId svc then Inl (Http InternalServerError ''FIELD_KEY_UNAVAILABLE'')
      else
        let iv = base64_decode (enc_iv stored); tag = base64_decode (enc_tag stored) in
        if length iv \<noteq> 12 \<or> length tag \<noteq> 16 then Inl decryption_failed
        else
        case crypto_decrypt c (svc_encryptionKey svc) iv (aad org vid) tag (base64_decode (enc_account stored)) of
          None \<Rightarrow> Inl decryption_failed
        | Some text \<Rightarrow>
        case Option.bind (parse_fields (utf8_decode text)) read_account of
          None \<Rightarrow> Inl decryption_failed
        | Some acc \<Rightarrow> Inr acc)"

section \<open>Round trips\<close>

lemma read_account_fields: "read_account (account_fields acc) = Some acc"
  by (cases acc) (simp add: read_account_def account_fields_def split: option.split)

end
