(* ===== verification/Vendors.thy ===== *)
theory Vendors
  imports Crm_Common Pagination Bank_Encryption
begin

text \<open>
  The vendor service, \<open>apps/api/src/crm/vendors.service.ts\<close>: vendor passports with optimistic
  versions and building links, contacts, and the append-only versions of a vendor's bank account,
  whose change freezes every pending approval of the vendor.
\<close>

section \<open>Request bodies\<close>

record create_vendor_dto =
  cvd_legalName :: string
  cvd_tradingName :: "string option"
  cvd_registrationNumber :: "string option"
  cvd_taxId :: "string option"
  cvd_email :: "string option"
  cvd_phone :: "string option"
  cvd_status :: "vendor_status field"
  cvd_tags :: "string list option"
  cvd_internalNotes :: "string option"
  cvd_buildingIds :: "uuid list option"

record update_vendor_dto =
  uvd_legalName :: "string field"
  uvd_tradingName :: "string field"
  uvd_registrationNumber :: "string field"
  uvd_taxId :: "string field"
  uvd_email :: "string field"
  uvd_phone :: "string field"
  uvd_status :: "vendor_status field"
  uvd_tags :: "string list field"
  uvd_internalNotes :: "string field"
  uvd_buildingIds :: "uuid list option"

record vendor_query =
  vq_page :: page_query
  vq_status :: "vendor_status option"
  vq_buildingId :: "uuid option"

record contact_dto =
  cd_name :: string
  cd_role :: "string option"
  cd_email :: "string option"
  cd_phone :: "string option"
  cd_isVerified :: bool

section \<open>Views\<close>

text \<open>\<open>bankPublicSelect\<close>: what of a bank-account version leaves the service.\<close>

record bank_public =
  bp_id :: uuid
  bp_vendorId :: uuid
  bp_versionNumber :: nat
  bp_countryCode :: string
  bp_masked :: string
  bp_maskedHolder :: string
  bp_keyId :: string
  bp_verifications :: "(uuid \<times> bank_status) list"

definition bankPublicSelect :: "db \<Rightarrow> bank_version \<Rightarrow> bank_public" where
  "bankPublicSelect d b =
     \<lparr>bp_id = bank_id b, bp_vendorId = bank_vendorId b, bp_versionNumber = bank_number b,
      bp_countryCode = bank_countryCode b, bp_masked = bank_masked b,
      bp_maskedHolder = bank_maskedHolder b, bp_keyId = bank_keyId b,
      bp_verifications = map (\<lambda>x. (bver_id x, bver_status x))
        (filter (\<lambda>x. bver_bankVersionId x = bank_id b \<and> bver_org x = bank_org b)
          (rev (bank_verifications d)))\<rparr>"

definition banks_of :: "db \<Rightarrow> uuid \<Rightarrow> uuid \<Rightarrow> bank_version list" where
  "banks_of d org vid =
     rev (sort_key bank_number (filter (\<lambda>b. bank_org b = org \<and> bank_vendorId b = vid) (bank_versions d)))"

definition links_of :: "db \<Rightarrow> uuid \<Rightarrow> uuid \<Rightarrow> uuid list" where
  "links_of d org vid =
     map vb_buildingId (filter (\<lambda>l. vb_org l = org \<and> vb_vendorId l = vid) (vendor_buildings d))"

record vendor_view =
  vv_vendor :: vendor
  vv_contacts :: "vendor_contact list"
  vv_buildings :: "building list"
  vv_banks :: "bank_public list"
  vv_contracts :: "contract list"

definition contracts_of :: "db \<Rightarrow> uuid \<Rightarrow> uuid \<Rightarrow> contract list" where
  "contracts_of d org vid =
     sort_key (\<lambda>c. case ctr_endsOn c of None \<Rightarrow> (1 :: nat, 0) | Some t \<Rightarrow> (0, t))
       (filter (\<lambda>c. ctr_org c = org \<and> ctr_vendorId c = vid) (contracts d))"

definition vendor_view :: "db \<Rightarrow> vendor \<Rightarrow> vendor_view" where
  "vendor_view d v =
     \<lparr>vv_vendor = v,
      vv_contacts = filter (\<lambda>x. con_org x = ven_org v \<and> con_vendorId x = ven_id v) (contacts d),
      vv_buildings = List.map_filter (\<lambda>b. find (\<lambda>x. bld_id x = b \<and> bld_org x = ven_org v) (buildings d))
        (links_of d (ven_org v) (ven_id v)),
      vv_banks = map (bankPublicSelect d) (banks_of d (ven_org v) (ven_id v)),
      vv_contracts = contracts_of d (ven_org v) (ven_id v)\<rparr>"

section \<open>Failures\<close>

definition vendor_not_found :: failure where
  "vendor_not_found = Http NotFound ''VENDOR_NOT_FOUND''"

definition bank_not_found :: failure where
  "bank_not_found = Http NotFound ''BANK_ACCOUNT_VERSION_NOT_FOUND''"

definition building_required :: failure where
  "building_required = Http Conflict ''AUTHORIZED_BUILDING_REQUIRED''"

section \<open>Scope\<close>

text \<open>\<open>vendorScope\<close> and the two assertions over it.\<close>

definition vendorScope :: "time \<Rightarrow> auth_context \<Rightarrow> db \<Rightarrow> vendor \<Rightarrow> bool" where
  "vendorScope now a d v \<longleftrightarrow>
     sees_all a \<or>
     list_ex (\<lambda>b. b \<in> set (granted now a d)) (links_of d (organizationId a) (ven_id v))"

definition find_vendor :: "auth_context \<Rightarrow> uuid \<Rightarrow> db \<Rightarrow> vendor option" where
  "find_vendor a vid d = find (\<lambda>v. ven_id v = vid \<and> ven_org v = organizationId a) (vendors d)"

definition assertCanReadVendor :: "time \<Rightarrow> auth_context \<Rightarrow> uuid \<Rightarrow> db \<Rightarrow> failure + unit" where
  "assertCanReadVendor now a vid d =
     (case find (\<lambda>v. ven_id v = vid \<and> ven_org v = organizationId a \<and> vendorScope now a d v) (vendors d) of
        None \<Rightarrow> Inl vendor_not_found
      | Some _ \<Rightarrow> Inr ())"

definition assertCanManageVendor ::
  "env \<Rightarrow> nat \<Rightarrow> auth_context \<Rightarrow> uuid \<Rightarrow> db \<Rightarrow> failure + vendor" where
  "assertCanManageVendor e k a vid d =
     (case find_vendor a vid d of
        None \<Rightarrow> Inl vendor_not_found
      | Some v \<Rightarrow>
          let links = links_of d (organizationId a) vid in
          if role a \<noteq> OWNER \<and> links = [] then Inl vendor_not_found
          else
          case assertAllCanManage e k a links d of
            Inl err \<Rightarrow> Inl err
          | Inr _ \<Rightarrow> Inr v)"

definition tags :: "string list option \<Rightarrow> string list" where
  "tags ts =
     new_Set (filter (\<lambda>t. t \<noteq> []) (map (\<lambda>t. js_lower (js_trim t)) (case ts of None \<Rightarrow> [] | Some l \<Rightarrow> l)))"

section \<open>Reading\<close>

definition vendor_matches :: "string option \<Rightarrow> vendor \<Rightarrow> bool" where
  "vendor_matches q v \<longleftrightarrow>
     \<not> truthy q \<or> contains_ci (ven_legalName v) (the q) \<or>
     (case ven_tradingName v of None \<Rightarrow> False | Some t \<Rightarrow> contains_ci t (the q)) \<or>
     (case ven_registrationNumber v of None \<Rightarrow> False | Some t \<Rightarrow> contains_ci t (the q)) \<or>
     the q \<in> set (ven_tags v)"

definition listed_vendors :: "time \<Rightarrow> auth_context \<Rightarrow> vendor_query \<Rightarrow> db \<Rightarrow> vendor list" where
  "listed_vendors now a query d =
     filter (\<lambda>v. ven_org v = organizationId a \<and> vendorScope now a d v \<and>
        vendor_matches (pq_q (vq_page query)) v \<and>
        (case vq_status query of None \<Rightarrow> True | Some s \<Rightarrow> ven_status v = s) \<and>
        (\<not> truthy (vq_buildingId query) \<or>
         the (vq_buildingId query) \<in> set (links_of d (organizationId a) (ven_id v)))) (vendors d)"

definition vendor_order :: "(string \<Rightarrow> nat list) \<Rightarrow> vendor \<Rightarrow> nat list \<times> nat list" where
  "vendor_order coll v = (coll (ven_legalName v), map of_char (ven_id v))"

definition vendor_page ::
  "(string \<Rightarrow> nat list) \<Rightarrow> nat \<Rightarrow> vendor option \<Rightarrow> vendor list \<Rightarrow> db \<Rightarrow> vendor_view list \<times> uuid option" where
  "vendor_page coll lmt cursor rows d =
     (let (data, nxt) = page ven_id lmt (find_page (vendor_order coll) lmt cursor rows)
      in (map (\<lambda>v. let w = vendor_view d v in w\<lparr>vv_banks := take 1 (vv_banks w), vv_contracts := []\<rparr>) data, nxt))"

definition list_vendors_tx ::
  "(string \<Rightarrow> nat list) \<Rightarrow> env \<Rightarrow> auth_context \<Rightarrow> vendor_query \<Rightarrow> (db, vendor_view list \<times> uuid option) work" where
  "list_vendors_tx coll e a query d =
     (let now = clock e 0; rows = listed_vendors now a query d; lmt = pq_limit (vq_page query) in
      if truthy (pq_cursor (vq_page query)) then
        (case find (\<lambda>v. ven_id v = the (pq_cursor (vq_page query)) \<and> ven_org v = organizationId a \<and>
               vendorScope now a d v) (vendors d) of
           None \<Rightarrow> Inl invalidCursor
         | Some c \<Rightarrow> Inr (vendor_page coll lmt (Some c) rows d, d))
      else Inr (vendor_page coll lmt None rows d, d))"

definition list_vendors ::
  "(string \<Rightarrow> nat list) \<Rightarrow> env \<Rightarrow> auth_context \<Rightarrow> vendor_query \<Rightarrow> db \<Rightarrow>
     (failure + vendor_view list \<times> uuid option) \<times> db" where
  "list_vendors coll e a query = run (list_vendors_tx coll e a query)"

interpretation vendor_list: listing
  "\<lambda>(coll, e, a, query, d) lmt cursor. fst (list_vendors coll e a
     (query\<lparr>vq_page := (vq_page query)\<lparr>pq_cursor := cursor, pq_limit := lmt\<rparr>\<rparr>) d)"
  "\<lambda>(coll, e, a, query, d). listed_vendors (clock e 0) a query d"
  "\<lambda>(coll, e, a, query, d). vendor_order coll" ven_id
  "\<lambda>(coll, e, a, query, d) v. (vendor_view d v)\<lparr>vv_banks := take 1 (vv_banks (vendor_view d v)), vv_contracts := []\<rparr>"
  "\<lambda>(coll, e, a, query, d). identified ven_id (vendors d)"
proof (unfold_locales, goal_cases)
  case (1 s lmt)
  then show ?case
    by (auto simp: list_vendors_def list_vendors_tx_def vendor_page_def listed_vendors_def run_def Let_def map_prod_def
        split: prod.splits)
next
  case (2 s c lmt)
  then obtain coll e a query d where s: "s = (coll, e, a, query, d)" and ids: "identified ven_id (vendors d)"
    and c: "c \<in> set (listed_vendors (clock e 0) a query d)" by (cases s) auto
  have "find (\<lambda>v. ven_id v = ven_id c \<and> ven_org v = organizationId a \<and> vendorScope (clock e 0) a d v) (vendors d) = Some c"
    using c ids by (intro find_unique [of ven_id]) (auto simp: identified_def listed_vendors_def)
  moreover have "ven_id c \<noteq> []" using c ids by (auto simp: identified_def listed_vendors_def)
  ultimately show ?case
    by (auto simp: s list_vendors_def list_vendors_tx_def vendor_page_def listed_vendors_def run_def Let_def map_prod_def
        split: prod.splits)
next
  case (3 s)
  then show ?case
    by (cases s) (auto simp: listed_vendors_def vendor_order_def intro!: identified_keys)
qed

definition get_vendor_tx :: "env \<Rightarrow> auth_context \<Rightarrow> uuid \<Rightarrow> (db, vendor_view) work" where
  "get_vendor_tx e a vid d =
     (case assertCanReadVendor (clock e 0) a vid d of
        Inl err \<Rightarrow> Inl err
      | Inr _ \<Rightarrow>
      case find_vendor a vid d of
        None \<Rightarrow> Inl vendor_not_found
      | Some v \<Rightarrow> Inr (vendor_view d v, d))"

definition get_vendor :: "env \<Rightarrow> auth_context \<Rightarrow> uuid \<Rightarrow> db \<Rightarrow> (failure + vendor_view) \<times> db" where
  "get_vendor e a vid = run (get_vendor_tx e a vid)"

definition bankHistory_tx :: "env \<Rightarrow> auth_context \<Rightarrow> uuid \<Rightarrow> (db, bank_public list) work" where
  "bankHistory_tx e a vid d =
     (case assertCanReadVendor (clock e 0) a vid d of
        Inl err \<Rightarrow> Inl err
      | Inr _ \<Rightarrow> Inr (map (bankPublicSelect d) (banks_of d (organizationId a) vid), d))"

definition bankHistory :: "env \<Rightarrow> auth_context \<Rightarrow> uuid \<Rightarrow> db \<Rightarrow> (failure + bank_public list) \<times> db" where
  "bankHistory e a vid = run (bankHistory_tx e a vid)"

section \<open>Vendor writes\<close>

definition new_vendor :: "env \<Rightarrow> auth_context \<Rightarrow> create_vendor_dto \<Rightarrow> vendor" where
  "new_vendor e a dto =
     \<lparr>ven_id = new_uuid e 0, ven_org = organizationId a, ven_legalName = cvd_legalName dto,
      ven_tradingName = cvd_tradingName dto, ven_registrationNumber = cvd_registrationNumber dto,
      ven_taxId = cvd_taxId dto, ven_email = cvd_email dto, ven_phone = cvd_phone dto,
      ven_status = set_required (cvd_status dto) VENDOR_DRAFT, ven_tags = tags (cvd_tags dto),
      ven_internalNotes = cvd_internalNotes dto, ven_version = 1\<rparr>"

definition vendor_links :: "uuid \<Rightarrow> uuid \<Rightarrow> uuid list \<Rightarrow> vendor_building list" where
  "vendor_links org vid bids = map (\<lambda>b. \<lparr>vb_org = org, vb_vendorId = vid, vb_buildingId = b\<rparr>) bids"

definition create_vendor_tx :: "env \<Rightarrow> auth_context \<Rightarrow> create_vendor_dto \<Rightarrow> (db, vendor) work" where
  "create_vendor_tx e a dto d =
     (let bids = new_Set (case cvd_buildingIds dto of None \<Rightarrow> [] | Some l \<Rightarrow> l) in
      case assertAllCanManage e 0 a bids d of
        Inl err \<Rightarrow> Inl err
      | Inr _ \<Rightarrow>
      if role a = ADMINISTRATOR \<and> bids = [] then Inl building_required
      else if cvd_status dto = Null then Inl validation_error
      else
      let v = new_vendor e a dto in
      case create_unique [ven_id] v (vendors d) of
        Inl err \<Rightarrow> Inl err
      | Inr vs \<Rightarrow>
          Inr (v, writeAudit e 1 (organizationId a) (Some (membershipId a)) ''VENDOR_CREATED'' ''VENDOR''
            (ven_id v) None (Some (vendorAuditShape v)) None
            (d\<lparr>vendors := vs,
               vendor_buildings := vendor_buildings d @ vendor_links (organizationId a) (ven_id v) bids\<rparr>)))"

definition create_vendor :: "env \<Rightarrow> auth_context \<Rightarrow> create_vendor_dto \<Rightarrow> db \<Rightarrow> (failure + vendor) \<times> db" where
  "create_vendor e a dto = run (create_vendor_tx e a dto)"

text \<open>
  In an update the tags of the body replace the column; an absent list keeps it and null is
  refused by Prisma like every null in a \<open>NOT NULL\<close> column.
\<close>

definition apply_vendor_dto :: "update_vendor_dto \<Rightarrow> vendor \<Rightarrow> vendor" where
  "apply_vendor_dto dto v =
     v\<lparr>ven_legalName := set_required (uvd_legalName dto) (ven_legalName v),
       ven_tradingName := set_optional (uvd_tradingName dto) (ven_tradingName v),
       ven_registrationNumber := set_optional (uvd_registrationNumber dto) (ven_registrationNumber v),
       ven_taxId := set_optional (uvd_taxId dto) (ven_taxId v),
       ven_email := set_optional (uvd_email dto) (ven_email v),
       ven_phone := set_optional (uvd_phone dto) (ven_phone v),
       ven_status := set_required (uvd_status dto) (ven_status v),
       ven_tags := (case uvd_tags dto of Value ts \<Rightarrow> tags (Some ts) | _ \<Rightarrow> ven_tags v),
       ven_internalNotes := set_optional (uvd_internalNotes dto) (ven_internalNotes v),
       ven_version := ven_version v + 1\<rparr>"

definition vendor_dto_nulls :: "update_vendor_dto \<Rightarrow> bool" where
  "vendor_dto_nulls dto \<longleftrightarrow> uvd_legalName dto = Null \<or> uvd_status dto = Null \<or> uvd_tags dto = Null"

text \<open>A contract of the vendor covers one of the buildings.\<close>

definition contract_covers :: "db \<Rightarrow> uuid \<Rightarrow> uuid \<Rightarrow> uuid list \<Rightarrow> bool" where
  "contract_covers d org vid bids \<longleftrightarrow>
     list_ex (\<lambda>l. cb_org l = org \<and> cb_buildingId l \<in> set bids \<and>
        list_ex (\<lambda>c. ctr_id c = cb_contractId l \<and> ctr_org c = org \<and> ctr_vendorId c = vid) (contracts d))
       (contract_buildings d)"

definition relink_vendor :: "uuid \<Rightarrow> uuid \<Rightarrow> uuid list \<Rightarrow> uuid list \<Rightarrow> db \<Rightarrow> failure + db" where
  "relink_vendor org vid current requested d =
     (let removed = filter (\<lambda>b. b \<notin> set requested) (new_Set current);
          added = filter (\<lambda>b. b \<notin> set current) requested in
      if removed \<noteq> [] \<and> contract_covers d org vid removed
      then Inl (Http Conflict ''VENDOR_BUILDING_CONTRACT_CONFLICT'')
      else Inr (d\<lparr>vendor_buildings :=
             filter (\<lambda>l. \<not> (vb_org l = org \<and> vb_vendorId l = vid \<and> vb_buildingId l \<in> set removed))
               (vendor_buildings d) @ vendor_links org vid added\<rparr>))"

definition update_vendor_tx ::
  "env \<Rightarrow> auth_context \<Rightarrow> uuid \<Rightarrow> nat \<Rightarrow> update_vendor_dto \<Rightarrow> (db, vendor) work" where
  "update_vendor_tx e a vid v dto d =
     (let org = organizationId a; bids = map_option new_Set (uvd_buildingIds dto);
          P = (\<lambda>x. ven_id x = vid \<and> ven_org x = org \<and> ven_version x = v) in
      case assertCanManageVendor e 0 a vid d of
        Inl err \<Rightarrow> Inl err
      | Inr bef \<Rightarrow>
      case (case bids of None \<Rightarrow> Inr () | Some bs \<Rightarrow> assertAllCanManage e (length (vendor_buildings d)) a bs d) of
        Inl err \<Rightarrow> Inl err
      | Inr _ \<Rightarrow>
      if role a = ADMINISTRATOR \<and> bids = Some [] then Inl building_required
      else if vendor_dto_nulls dto then Inl validation_error
      else if count_rows P (vendors d) \<noteq> 1 then Inl staleWrite
      else
      let d1 = d\<lparr>vendors := update_rows P (apply_vendor_dto dto) (vendors d)\<rparr> in
      case (case bids of None \<Rightarrow> Inr d1 | Some bs \<Rightarrow> relink_vendor org vid (links_of d org vid) bs d1) of
        Inl err \<Rightarrow> Inl err
      | Inr d2 \<Rightarrow>
      case find_vendor a vid d2 of
        None \<Rightarrow> Inl (DatabaseError ''P2025'')
      | Some aft \<Rightarrow>
          Inr (aft, writeAudit e 0 org (Some (membershipId a)) ''VENDOR_UPDATED'' ''VENDOR'' vid
            (Some (vendorAuditShape bef)) (Some (vendorAuditShape aft)) None d2))"

definition update_vendor ::
  "env \<Rightarrow> auth_context \<Rightarrow> uuid \<Rightarrow> nat \<Rightarrow> update_vendor_dto \<Rightarrow> db \<Rightarrow> (failure + vendor) \<times> db" where
  "update_vendor e a vid v dto = run (update_vendor_tx e a vid v dto)"

definition addContact_tx ::
  "env \<Rightarrow> auth_context \<Rightarrow> uuid \<Rightarrow> contact_dto \<Rightarrow> (db, vendor_contact) work" where
  "addContact_tx e a vid dto d =
     (case assertCanManageVendor e 1 a vid d of
        Inl err \<Rightarrow> Inl err
      | Inr _ \<Rightarrow>
          let c = \<lparr>con_id = new_uuid e 0, con_org = organizationId a, con_vendorId = vid,
            con_name = cd_name dto, con_role = cd_role dto, con_email = cd_email dto,
            con_phone = cd_phone dto, con_isVerified = cd_isVerified dto,
            con_verifiedAt = (if cd_isVerified dto then Some (clock e 0) else None)\<rparr>
          in Inr (c, d\<lparr>contacts := contacts d @ [c]\<rparr>))"

definition addContact ::
  "env \<Rightarrow> auth_context \<Rightarrow> uuid \<Rightarrow> contact_dto \<Rightarrow> db \<Rightarrow> (failure + vendor_contact) \<times> db" where
  "addContact e a vid dto = run (addContact_tx e a vid dto)"

section \<open>Bank accounts\<close>

definition bank_keys :: "(bank_version \<Rightarrow> string list \<times> nat) list" where
  "bank_keys = [\<lambda>b. ([bank_id b], 0), \<lambda>b. ([bank_org b, bank_vendorId b], bank_number b)]"

definition new_bank_version ::
  "env \<Rightarrow> auth_context \<Rightarrow> uuid \<Rightarrow> nat \<Rightarrow> string \<Rightarrow> encrypted_account \<Rightarrow> bank_version" where
  "new_bank_version e a vid n country enc =
     \<lparr>bank_id = new_uuid e 0, bank_org = organizationId a, bank_vendorId = vid, bank_number = n,
      bank_countryCode = country, bank_account = enc_account enc, bank_iv = enc_iv enc,
      bank_tag = enc_tag enc, bank_keyId = enc_keyId enc, bank_fingerprint = enc_fingerprint enc,
      bank_masked = enc_masked enc, bank_maskedHolder = enc_maskedHolder enc,
      bank_createdBy = membershipId a\<rparr>"

definition first_verification :: "env \<Rightarrow> auth_context \<Rightarrow> bank_version \<Rightarrow> bank_verification" where
  "first_verification e a b =
     \<lparr>bver_id = new_uuid e 1, bver_org = organizationId a, bver_bankVersionId = bank_id b,
      bver_status = BANK_PENDING, bver_evidence = None,
      bver_reason = Some ''New bank-account version requires independent verification'',
      bver_verifiedBy = membershipId a\<rparr>"

text \<open>The pending requests on invoices of the vendor, and the invoices that wait for them.\<close>

definition pending_of_vendor :: "db \<Rightarrow> uuid \<Rightarrow> uuid \<Rightarrow> request \<Rightarrow> bool" where
  "pending_of_vendor d org vid r \<longleftrightarrow>
     req_org r = org \<and> req_status r = REQUEST_PENDING \<and>
     list_ex (\<lambda>i. inv_id i = req_invoiceId r \<and> inv_org i = org \<and> inv_vendorId i = Some vid) (invoices d)"

definition freeze_approvals :: "uuid \<Rightarrow> uuid \<Rightarrow> db \<Rightarrow> db" where
  "freeze_approvals org vid d =
     d\<lparr>requests := update_rows (pending_of_vendor d org vid)
          (\<lambda>r. r\<lparr>req_status := REQUEST_INVALIDATED,
                 req_invalidatedReason := Some ''VENDOR_BANK_ACCOUNT_CHANGED''\<rparr>) (requests d),
       invoices := update_rows
          (\<lambda>i. inv_org i = org \<and> inv_vendorId i = Some vid \<and> inv_status i = AWAITING_APPROVAL)
          (\<lambda>i. i\<lparr>inv_status := NEEDS_REVIEW, inv_bankVersionId := None,
                 inv_version := inv_version i + 1\<rparr>) (invoices d)\<rparr>"

definition next_bank_number :: "db \<Rightarrow> uuid \<Rightarrow> uuid \<Rightarrow> nat" where
  "next_bank_number d org vid =
     (case find_max bank_number (\<lambda>b. bank_org b = org \<and> bank_vendorId b = vid) (bank_versions d) of
        None \<Rightarrow> 0 | Some b \<Rightarrow> bank_number b) + 1"

definition bank_created_json :: "uuid \<Rightarrow> bank_version \<Rightarrow> nat \<Rightarrow> json" where
  "bank_created_json vid b frozen = JObject
     [(''vendorId'', JString vid), (''versionNumber'', JInt (int (bank_number b))),
      (''maskedAccount'', JString (bank_masked b)),
      (''maskedAccountHolder'', JString (bank_maskedHolder b)),
      (''encryptionKeyId'', JString (bank_keyId b)), (''frozenApprovalCount'', JInt (int frozen))]"

definition addBankVersion_tx ::
  "crypto \<Rightarrow> bank_service \<Rightarrow> env \<Rightarrow> auth_context \<Rightarrow> uuid \<Rightarrow> string \<Rightarrow> plain_account \<Rightarrow> (db, bank_public) work" where
  "addBankVersion_tx c svc e a vid country acc d =
     (let org = organizationId a in
      case assertCanReadVendor (clock e 0) a vid d of
        Inl err \<Rightarrow> Inl err
      | Inr _ \<Rightarrow>
          let b = new_bank_version e a vid (next_bank_number d org vid) country
                (encrypt c svc (random_token e 0) org vid acc) in
          case create_unique bank_keys b (bank_versions d) of
            Inl UniqueConstraint \<Rightarrow> Inl staleWrite
          | Inl err \<Rightarrow> Inl err
          | Inr bs \<Rightarrow>
              let d1 = d\<lparr>bank_versions := bs,
                    bank_verifications := bank_verifications d @ [first_verification e a b]\<rparr>;
                  frozen = (if 1 < bank_number b then count_rows (pending_of_vendor d1 org vid) (requests d1) else 0);
                  d2 = (if 1 < bank_number b then freeze_approvals org vid d1 else d1);
                  d3 = writeAudit e 2 org (Some (membershipId a)) ''BANK_ACCOUNT_VERSION_CREATED''
                    ''BANK_ACCOUNT'' (bank_id b) None (Some (bank_created_json vid b frozen)) None d2
              in Inr (bankPublicSelect d1 b, d3))"

definition addBankVersion ::
  "crypto \<Rightarrow> bank_service \<Rightarrow> env \<Rightarrow> auth_context \<Rightarrow> uuid \<Rightarrow> string \<Rightarrow> plain_account \<Rightarrow> db \<Rightarrow>
     (failure + bank_public) \<times> db" where
  "addBankVersion c svc e a vid country acc = run (addBankVersion_tx c svc e a vid country acc)"

definition find_bank :: "auth_context \<Rightarrow> uuid \<Rightarrow> uuid \<Rightarrow> db \<Rightarrow> bank_version option" where
  "find_bank a vid bid d =
     find (\<lambda>b. bank_id b = bid \<and> bank_org b = organizationId a \<and> bank_vendorId b = vid) (bank_versions d)"

definition bank_status_name :: "bank_status \<Rightarrow> string" where
  "bank_status_name s =
     (case s of BANK_PENDING \<Rightarrow> ''PENDING'' | BANK_VERIFIED \<Rightarrow> ''VERIFIED'' | BANK_REJECTED \<Rightarrow> ''REJECTED'')"

text \<open>A redacted text that is empty is left out, like an absent one.\<close>

definition redacted :: "string option \<Rightarrow> string option" where
  "redacted t = (if truthy (redactAuditReason t) then redactAuditReason t else None)"

definition verifyBankVersion_tx ::
  "env \<Rightarrow> auth_context \<Rightarrow> uuid \<Rightarrow> uuid \<Rightarrow> bank_status \<Rightarrow> string option \<Rightarrow> string option \<Rightarrow>
     (db, bank_verification) work" where
  "verifyBankVersion_tx e a vid bid status evidence reason d =
     (case assertCanReadVendor (clock e 0) a vid d of
        Inl err \<Rightarrow> Inl err
      | Inr _ \<Rightarrow>
      case find_bank a vid bid d of
        None \<Rightarrow> Inl bank_not_found
      | Some b \<Rightarrow>
          let x = \<lparr>bver_id = new_uuid e 0, bver_org = organizationId a, bver_bankVersionId = bid,
                bver_status = status, bver_evidence = redacted evidence, bver_reason = redacted reason,
                bver_verifiedBy = membershipId a\<rparr>
          in Inr (x, writeAudit e 1 (organizationId a) (Some (membershipId a))
            ''BANK_ACCOUNT_VERIFICATION_RECORDED'' ''BANK_ACCOUNT'' bid None
            (Some (JObject [(''vendorId'', JString vid), (''versionNumber'', JInt (int (bank_number b))),
               (''maskedAccount'', JString (bank_masked b)),
               (''verificationStatus'', JString (bank_status_name status))])) None
            (d\<lparr>bank_verifications := bank_verifications d @ [x]\<rparr>)))"

definition verifyBankVersion ::
  "env \<Rightarrow> auth_context \<Rightarrow> uuid \<Rightarrow> uuid \<Rightarrow> bank_status \<Rightarrow> string option \<Rightarrow> string option \<Rightarrow> db \<Rightarrow>
     (failure + bank_verification) \<times> db" where
  "verifyBankVersion e a vid bid status evidence reason =
     run (verifyBankVersion_tx e a vid bid status evidence reason)"

definition stored_account :: "bank_version \<Rightarrow> encrypted_account" where
  "stored_account b =
     \<lparr>enc_account = bank_account b, enc_iv = bank_iv b, enc_tag = bank_tag b, enc_keyId = bank_keyId b,
      enc_fingerprint = bank_fingerprint b, enc_masked = bank_masked b,
      enc_maskedHolder = bank_maskedHolder b\<rparr>"

record revealed =
  rev_id :: uuid
  rev_versionNumber :: nat
  rev_countryCode :: string
  rev_account :: plain_account

definition revealBankVersion_tx ::
  "crypto \<Rightarrow> bank_service \<Rightarrow> env \<Rightarrow> auth_context \<Rightarrow> uuid \<Rightarrow> uuid \<Rightarrow> string \<Rightarrow> (db, revealed) work" where
  "revealBankVersion_tx c svc e a vid bid reason d =
     (case assertCanReadVendor (clock e 0) a vid d of
        Inl err \<Rightarrow> Inl err
      | Inr _ \<Rightarrow>
      case find_bank a vid bid d of
        None \<Rightarrow> Inl bank_not_found
      | Some b \<Rightarrow>
      case decrypt c svc (organizationId a) vid (stored_account b) of
        Inl err \<Rightarrow> Inl err
      | Inr acc \<Rightarrow>
          Inr (\<lparr>rev_id = bank_id b, rev_versionNumber = bank_number b,
                rev_countryCode = bank_countryCode b, rev_account = acc\<rparr>,
            writeAudit e 0 (organizationId a) (Some (membershipId a)) ''BANK_ACCOUNT_REVEALED''
              ''BANK_ACCOUNT'' (bank_id b) None
              (Some (JObject [(''vendorId'', JString vid), (''versionNumber'', JInt (int (bank_number b))),
                 (''maskedAccount'', JString (bank_masked b)), (''revealed'', JBool True)]))
              (redactAuditReason (Some reason)) d))"

definition revealBankVersion ::
  "crypto \<Rightarrow> bank_service \<Rightarrow> env \<Rightarrow> auth_context \<Rightarrow> uuid \<Rightarrow> uuid \<Rightarrow> string \<Rightarrow> db \<Rightarrow>
     (failure + revealed) \<times> db" where
  "revealBankVersion c svc e a vid bid reason = run (revealBankVersion_tx c svc e a vid bid reason)"

end
