(* ===== verification/Contracts.thy ===== *)
theory Contracts
  imports Vendors
begin

text \<open>
  The contract service, \<open>apps/api/src/crm/contracts.service.ts\<close>: contracts of a vendor over
  buildings its passport is authorized for, with optimistic versions and a value limit that comes
  with its currency.  Money in a body is already read into hundredths.
\<close>

section \<open>Request bodies\<close>

record create_contract_dto =
  ccd_vendorId :: uuid
  ccd_reference :: string
  ccd_title :: string
  ccd_serviceCategory :: string
  ccd_valueLimit :: "cents option"
  ccd_currency :: "string option"
  ccd_startsOn :: time
  ccd_endsOn :: "time option"
  ccd_status :: "contract_status field"
  ccd_documentReference :: "string option"
  ccd_buildingIds :: "uuid list"

record update_contract_dto =
  ucd_vendorId :: "uuid field"
  ucd_reference :: "string field"
  ucd_title :: "string field"
  ucd_serviceCategory :: "string field"
  ucd_valueLimit :: "cents field"
  ucd_currency :: "string field"
  ucd_startsOn :: "time option"
  ucd_endsOn :: "time option"
  ucd_status :: "contract_status field"
  ucd_documentReference :: "string field"
  ucd_buildingIds :: "uuid list option"

record contract_query =
  cq_page :: page_query
  cq_status :: "contract_status option"
  cq_vendorId :: "uuid option"
  cq_buildingId :: "uuid option"

section \<open>Checks\<close>

definition contract_not_found :: failure where
  "contract_not_found = Http NotFound ''CONTRACT_NOT_FOUND''"

definition contract_keys :: "(contract \<Rightarrow> string list) list" where
  "contract_keys = [\<lambda>c. [ctr_id c], \<lambda>c. [ctr_org c, ctr_reference c]]"

definition contract_dates_ok :: "contract \<Rightarrow> bool" where
  "contract_dates_ok c \<longleftrightarrow> (case ctr_endsOn c of None \<Rightarrow> True | Some t \<Rightarrow> ctr_startsOn c \<le> t)"

definition contract_links :: "db \<Rightarrow> uuid \<Rightarrow> uuid \<Rightarrow> uuid list" where
  "contract_links d org cid =
     map cb_buildingId (filter (\<lambda>l. cb_org l = org \<and> cb_contractId l = cid) (contract_buildings d))"

text \<open>A limit and a currency come together or not at all; an empty currency counts as absent.\<close>

definition valueFields :: "cents option \<Rightarrow> string option \<Rightarrow> failure + (cents option \<times> string option)" where
  "valueFields valueLimit currency =
     (if (valueLimit \<noteq> None) \<noteq> truthy currency
      then Inl (Http UnprocessableEntity ''CONTRACT_VALUE_CURRENCY_REQUIRED'')
      else if valueLimit \<noteq> None \<and> truthy currency then Inr (valueLimit, currency)
      else Inr (None, None))"

definition contractScope :: "time \<Rightarrow> auth_context \<Rightarrow> db \<Rightarrow> contract \<Rightarrow> bool" where
  "contractScope now a d c \<longleftrightarrow>
     sees_all a \<or>
     list_ex (\<lambda>b. b \<in> set (granted now a d)) (contract_links d (organizationId a) (ctr_id c))"

definition assertVendorForBuildings :: "uuid \<Rightarrow> uuid \<Rightarrow> uuid list \<Rightarrow> db \<Rightarrow> failure + unit" where
  "assertVendorForBuildings org vid bids d =
     (case find (\<lambda>v. ven_id v = vid \<and> ven_org v = org) (vendors d) of
        None \<Rightarrow> Inl vendor_not_found
      | Some _ \<Rightarrow>
          if list_ex (\<lambda>b. b \<notin> set (links_of d org vid)) bids
          then Inl (Http UnprocessableEntity ''VENDOR_BUILDING_LINK_REQUIRED'')
          else Inr ())"

section \<open>Reading\<close>

record contract_view =
  cw_contract :: contract
  cw_vendor :: "vendor option"
  cw_buildings :: "building list"

definition contract_view :: "db \<Rightarrow> contract \<Rightarrow> contract_view" where
  "contract_view d c =
     \<lparr>cw_contract = c,
      cw_vendor = find (\<lambda>v. ven_id v = ctr_vendorId c \<and> ven_org v = ctr_org c) (vendors d),
      cw_buildings = List.map_filter (\<lambda>b. find (\<lambda>x. bld_id x = b \<and> bld_org x = ctr_org c) (buildings d))
        (contract_links d (ctr_org c) (ctr_id c))\<rparr>"

definition contract_matches :: "db \<Rightarrow> string option \<Rightarrow> contract \<Rightarrow> bool" where
  "contract_matches d q c \<longleftrightarrow>
     \<not> truthy q \<or> contains_ci (ctr_reference c) (the q) \<or> contains_ci (ctr_title c) (the q) \<or>
     contains_ci (ctr_serviceCategory c) (the q) \<or>
     list_ex (\<lambda>v. ven_id v = ctr_vendorId c \<and> ven_org v = ctr_org c \<and>
        contains_ci (ven_legalName v) (the q)) (vendors d)"

definition listed_contracts :: "time \<Rightarrow> auth_context \<Rightarrow> contract_query \<Rightarrow> db \<Rightarrow> contract list" where
  "listed_contracts now a query d =
     filter (\<lambda>c. ctr_org c = organizationId a \<and> contractScope now a d c \<and>
        contract_matches d (pq_q (cq_page query)) c \<and>
        (case cq_status query of None \<Rightarrow> True | Some s \<Rightarrow> ctr_status c = s) \<and>
        (\<not> truthy (cq_vendorId query) \<or> Some (ctr_vendorId c) = cq_vendorId query) \<and>
        (\<not> truthy (cq_buildingId query) \<or>
         the (cq_buildingId query) \<in> set (contract_links d (organizationId a) (ctr_id c)))) (contracts d)"

text \<open>Ascending by the end date, contracts without one last, then by identifier.\<close>

definition contract_order :: "contract \<Rightarrow> nat \<times> time \<times> nat list" where
  "contract_order c =
     (case ctr_endsOn c of
        None \<Rightarrow> (1, 0, map of_char (ctr_id c))
      | Some t \<Rightarrow> (0, t, map of_char (ctr_id c)))"

definition contract_page ::
  "nat \<Rightarrow> contract option \<Rightarrow> contract list \<Rightarrow> db \<Rightarrow> contract_view list \<times> uuid option" where
  "contract_page lmt cursor rows d =
     (let (data, nxt) = page ctr_id lmt (find_page contract_order lmt cursor rows)
      in (map (contract_view d) data, nxt))"

definition list_contracts_tx ::
  "env \<Rightarrow> auth_context \<Rightarrow> contract_query \<Rightarrow> (db, contract_view list \<times> uuid option) work" where
  "list_contracts_tx e a query d =
     (let now = clock e 0; rows = listed_contracts now a query d; lmt = pq_limit (cq_page query) in
      if truthy (pq_cursor (cq_page query)) then
        (case find (\<lambda>c. ctr_id c = the (pq_cursor (cq_page query)) \<and> ctr_org c = organizationId a \<and>
               contractScope now a d c) (contracts d) of
           None \<Rightarrow> Inl invalidCursor
         | Some c \<Rightarrow> Inr (contract_page lmt (Some c) rows d, d))
      else Inr (contract_page lmt None rows d, d))"

definition list_contracts ::
  "env \<Rightarrow> auth_context \<Rightarrow> contract_query \<Rightarrow> db \<Rightarrow> (failure + contract_view list \<times> uuid option) \<times> db" where
  "list_contracts e a query = run (list_contracts_tx e a query)"

interpretation contract_list: listing
  "\<lambda>(e, a, query, d) lmt cursor. fst (list_contracts e a
     (query\<lparr>cq_page := (cq_page query)\<lparr>pq_cursor := cursor, pq_limit := lmt\<rparr>\<rparr>) d)"
  "\<lambda>(e, a, query, d). listed_contracts (clock e 0) a query d" "\<lambda>s. contract_order" ctr_id
  "\<lambda>(e, a, query, d). contract_view d" "\<lambda>(e, a, query, d). identified ctr_id (contracts d)"
proof (unfold_locales, goal_cases)
  case (1 s lmt)
  then show ?case
    by (auto simp: list_contracts_def list_contracts_tx_def contract_page_def listed_contracts_def run_def Let_def
        map_prod_def split: prod.splits)
next
  case (2 s c lmt)
  then obtain e a query d where s: "s = (e, a, query, d)" and ids: "identified ctr_id (contracts d)"
    and c: "c \<in> set (listed_contracts (clock e 0) a query d)" by (cases s) auto
  have "find (\<lambda>x. ctr_id x = ctr_id c \<and> ctr_org x = organizationId a \<and> contractScope (clock e 0) a d x) (contracts d) = Some c"
    using c ids by (intro find_unique [of ctr_id]) (auto simp: identified_def listed_contracts_def)
  moreover have "ctr_id c \<noteq> []" using c ids by (auto simp: identified_def listed_contracts_def)
  ultimately show ?case
    by (auto simp: s list_contracts_def list_contracts_tx_def contract_page_def listed_contracts_def run_def Let_def
        map_prod_def split: prod.splits)
next
  case (3 s)
  then obtain e a query d where s: "s = (e, a, query, d)" and ids: "identified ctr_id (contracts d)" by (cases s) auto
  have "snd (case contract_order c of (n, t, i) \<Rightarrow> ((n, t), i)) = map of_char (ctr_id c)" for c
    by (simp add: contract_order_def split: option.split)
  from identified_keys [OF ids this]
  have "distinct (map (\<lambda>c. case contract_order c of (n, t, i) \<Rightarrow> ((n, t), i)) (listed_contracts (clock e 0) a query d))"
    by (simp add: listed_contracts_def)
  then show ?case by (auto simp: s distinct_map inj_on_def)
qed

definition get_contract_tx :: "env \<Rightarrow> auth_context \<Rightarrow> uuid \<Rightarrow> (db, contract_view) work" where
  "get_contract_tx e a cid d =
     (case find (\<lambda>c. ctr_id c = cid \<and> ctr_org c = organizationId a \<and> contractScope (clock e 0) a d c)
         (contracts d) of
        None \<Rightarrow> Inl contract_not_found
      | Some c \<Rightarrow> Inr (contract_view d c, d))"

definition get_contract :: "env \<Rightarrow> auth_context \<Rightarrow> uuid \<Rightarrow> db \<Rightarrow> (failure + contract_view) \<times> db" where
  "get_contract e a cid = run (get_contract_tx e a cid)"

section \<open>Writing\<close>

definition new_contract ::
  "env \<Rightarrow> auth_context \<Rightarrow> create_contract_dto \<Rightarrow> cents option \<Rightarrow> string option \<Rightarrow> contract" where
  "new_contract e a dto vl cur =
     \<lparr>ctr_id = new_uuid e 0, ctr_org = organizationId a, ctr_vendorId = ccd_vendorId dto,
      ctr_reference = ccd_reference dto, ctr_title = ccd_title dto,
      ctr_serviceCategory = ccd_serviceCategory dto, ctr_valueLimit = vl, ctr_currency = cur,
      ctr_startsOn = to_date (ccd_startsOn dto), ctr_endsOn = map_option to_date (ccd_endsOn dto),
      ctr_status = set_required (ccd_status dto) CONTRACT_DRAFT,
      ctr_documentReference = ccd_documentReference dto, ctr_version = 1\<rparr>"

definition contract_rows :: "uuid \<Rightarrow> uuid \<Rightarrow> uuid list \<Rightarrow> contract_building list" where
  "contract_rows org cid bids = map (\<lambda>b. \<lparr>cb_org = org, cb_contractId = cid, cb_buildingId = b\<rparr>) bids"

definition create_contract_tx :: "env \<Rightarrow> auth_context \<Rightarrow> create_contract_dto \<Rightarrow> (db, contract) work" where
  "create_contract_tx e a dto d =
     (let org = organizationId a; bids = new_Set (ccd_buildingIds dto) in
      case assertAllCanManage e 0 a bids d of
        Inl err \<Rightarrow> Inl err
      | Inr _ \<Rightarrow>
      case assertVendorForBuildings org (ccd_vendorId dto) bids d of
        Inl err \<Rightarrow> Inl err
      | Inr _ \<Rightarrow>
      case valueFields (ccd_valueLimit dto) (ccd_currency dto) of
        Inl err \<Rightarrow> Inl err
      | Inr (vl, cur) \<Rightarrow>
      if ccd_status dto = Null then Inl validation_error
      else
      let c = new_contract e a dto vl cur in
      if \<not> contract_dates_ok c then Inl (DatabaseError ''Contract_dates_check'')
      else
      case create_unique contract_keys c (contracts d) of
        Inl err \<Rightarrow> Inl err
      | Inr cs \<Rightarrow>
          Inr (c, writeAudit e 1 org (Some (membershipId a)) ''CONTRACT_CREATED'' ''CONTRACT'' (ctr_id c)
            None (Some (contractAuditShape c)) None
            (d\<lparr>contracts := cs,
               contract_buildings := contract_buildings d @ contract_rows org (ctr_id c) bids\<rparr>)))"

definition create_contract :: "env \<Rightarrow> auth_context \<Rightarrow> create_contract_dto \<Rightarrow> db \<Rightarrow> (failure + contract) \<times> db" where
  "create_contract e a dto = run (create_contract_tx e a dto)"

text \<open>\<open>dto ?? before\<close> for the two value columns.\<close>

definition or_before :: "'a field \<Rightarrow> 'a option \<Rightarrow> 'a option" where
  "or_before f bef = (case f of Value x \<Rightarrow> Some x | _ \<Rightarrow> bef)"

definition new_value_fields ::
  "update_contract_dto \<Rightarrow> contract \<Rightarrow> failure + (cents option \<times> string option)" where
  "new_value_fields dto bef =
     (if ucd_valueLimit dto \<noteq> Undefined \<or> ucd_currency dto \<noteq> Undefined
      then valueFields (or_before (ucd_valueLimit dto) (ctr_valueLimit bef))
             (or_before (ucd_currency dto) (ctr_currency bef))
      else Inr (ctr_valueLimit bef, ctr_currency bef))"

definition apply_contract_dto ::
  "update_contract_dto \<Rightarrow> cents option \<Rightarrow> string option \<Rightarrow> contract \<Rightarrow> contract" where
  "apply_contract_dto dto vl cur c =
     c\<lparr>ctr_vendorId := set_required (ucd_vendorId dto) (ctr_vendorId c),
       ctr_reference := set_required (ucd_reference dto) (ctr_reference c),
       ctr_title := set_required (ucd_title dto) (ctr_title c),
       ctr_serviceCategory := set_required (ucd_serviceCategory dto) (ctr_serviceCategory c),
       ctr_valueLimit := vl, ctr_currency := cur,
       ctr_startsOn := (case ucd_startsOn dto of None \<Rightarrow> ctr_startsOn c | Some t \<Rightarrow> to_date t),
       ctr_endsOn := (case ucd_endsOn dto of None \<Rightarrow> ctr_endsOn c | Some t \<Rightarrow> Some (to_date t)),
       ctr_status := set_required (ucd_status dto) (ctr_status c),
       ctr_documentReference := set_optional (ucd_documentReference dto) (ctr_documentReference c),
       ctr_version := ctr_version c + 1\<rparr>"

definition contract_dto_nulls :: "update_contract_dto \<Rightarrow> bool" where
  "contract_dto_nulls dto \<longleftrightarrow> ucd_vendorId dto = Null \<or> ucd_reference dto = Null \<or>
     ucd_title dto = Null \<or> ucd_serviceCategory dto = Null \<or> ucd_status dto = Null"

text \<open>
  The trigger \<open>Contract_vendor_authorization\<close>: a new vendor must be authorized for every building
  still linked; when the body lists buildings, the links were deleted just before.
\<close>

definition vendor_change_ok :: "db \<Rightarrow> contract \<Rightarrow> contract \<Rightarrow> bool" where
  "vendor_change_ok d old upd \<longleftrightarrow>
     ctr_vendorId old = ctr_vendorId upd \<or>
     list_all (\<lambda>b. b \<in> set (links_of d (ctr_org upd) (ctr_vendorId upd)))
       (contract_links d (ctr_org upd) (ctr_id upd))"

definition write_contract ::
  "auth_context \<Rightarrow> uuid \<Rightarrow> nat \<Rightarrow> (contract \<Rightarrow> contract) \<Rightarrow> db \<Rightarrow> failure + db" where
  "write_contract a cid v f d =
     (let P = (\<lambda>c. ctr_id c = cid \<and> ctr_org c = organizationId a \<and> ctr_version c = v) in
      if list_ex (\<lambda>c. P c \<and> \<not> vendor_change_ok d c (f c)) (contracts d)
      then Inl (DatabaseError ''contract vendor is not authorized for every building'')
      else if list_ex (\<lambda>c. P c \<and> \<not> contract_dates_ok (f c)) (contracts d)
      then Inl (DatabaseError ''Contract_dates_check'')
      else
      case update_unique contract_keys P f (contracts d) of
        Inl err \<Rightarrow> Inl err
      | Inr cs \<Rightarrow>
          if count_rows P (contracts d) \<noteq> 1 then Inl staleWrite else Inr (d\<lparr>contracts := cs\<rparr>))"

definition update_contract_tx ::
  "env \<Rightarrow> auth_context \<Rightarrow> uuid \<Rightarrow> nat \<Rightarrow> update_contract_dto \<Rightarrow> (db, contract) work" where
  "update_contract_tx e a cid v dto d =
     (let org = organizationId a in
      case find (\<lambda>c. ctr_id c = cid \<and> ctr_org c = org) (contracts d) of
        None \<Rightarrow> Inl contract_not_found
      | Some bef \<Rightarrow>
      let links = contract_links d org cid; bids = map_option new_Set (ucd_buildingIds dto) in
      case assertAllCanManage e 0 a links d of
        Inl err \<Rightarrow> Inl err
      | Inr _ \<Rightarrow>
      case (case bids of None \<Rightarrow> Inr () | Some bs \<Rightarrow> assertAllCanManage e (length links) a bs d) of
        Inl err \<Rightarrow> Inl err
      | Inr _ \<Rightarrow>
      case assertVendorForBuildings org
          (case ucd_vendorId dto of Value vid \<Rightarrow> vid | _ \<Rightarrow> ctr_vendorId bef)
          (case bids of None \<Rightarrow> links | Some bs \<Rightarrow> bs) d of
        Inl err \<Rightarrow> Inl err
      | Inr _ \<Rightarrow>
      case new_value_fields dto bef of
        Inl err \<Rightarrow> Inl err
      | Inr (vl, cur) \<Rightarrow>
      if contract_dto_nulls dto then Inl validation_error
      else
      let d1 = (if bids = None then d
            else d\<lparr>contract_buildings :=
              filter (\<lambda>l. \<not> (cb_org l = org \<and> cb_contractId l = cid)) (contract_buildings d)\<rparr>) in
      case write_contract a cid v (apply_contract_dto dto vl cur) d1 of
        Inl err \<Rightarrow> Inl err
      | Inr d2 \<Rightarrow>
      let d3 = (case bids of None \<Rightarrow> d2
            | Some bs \<Rightarrow> d2\<lparr>contract_buildings := contract_buildings d2 @ contract_rows org cid bs\<rparr>) in
      case find (\<lambda>c. ctr_id c = cid \<and> ctr_org c = org) (contracts d3) of
        None \<Rightarrow> Inl (DatabaseError ''P2025'')
      | Some aft \<Rightarrow>
          Inr (aft, writeAudit e 0 org (Some (membershipId a)) ''CONTRACT_UPDATED'' ''CONTRACT'' cid
            (Some (contractAuditShape bef)) (Some (contractAuditShape aft)) None d3))"

definition update_contract ::
  "env \<Rightarrow> auth_context \<Rightarrow> uuid \<Rightarrow> nat \<Rightarrow> update_contract_dto \<Rightarrow> db \<Rightarrow> (failure + contract) \<times> db" where
  "update_contract e a cid v dto = run (update_contract_tx e a cid v dto)"

end
