(* ===== verification/Dashboard.thy ===== *)
theory Dashboard
  imports Contracts
begin

text \<open>
  \<open>apps/api/src/crm/dashboard.service.ts\<close>: contracts about to end, vendors whose passport is
  incomplete, and the audit trail page by page.  Rows with the same \<open>endsOn\<close> and audit events of one
  millisecond come in the order of their creation.
\<close>

record expiring_contract =
  ec_contract :: contract
  ec_vendor :: "vendor option"

record incomplete_vendor =
  iv_id :: uuid
  iv_legalName :: string
  iv_missing :: "string list"

record dashboard_view =
  dv_generatedAt :: string
  dv_expiring :: "expiring_contract list"
  dv_incomplete :: "incomplete_vendor list"

text \<open>No scope at all for owners and auditors, the granted buildings for everybody else.\<close>

definition buildingScope :: "time \<Rightarrow> auth_context \<Rightarrow> db \<Rightarrow> uuid list option" where
  "buildingScope now a d =
     (if role a = OWNER \<or> role a = AUDITOR then None
      else Some (map gr_buildingId (filter (\<lambda>g. gr_org g = organizationId a \<and>
        gr_membershipId g = membershipId a \<and> gr_validFrom g \<le> now \<and>
        (case gr_validUntil g of None \<Rightarrow> True | Some t \<Rightarrow> now < t)) (grants d))))"

definition in_scope :: "uuid list option \<Rightarrow> uuid list \<Rightarrow> bool" where
  "in_scope scope bs \<longleftrightarrow> (case scope of None \<Rightarrow> True | Some allowed \<Rightarrow> list_ex (\<lambda>b. b \<in> set allowed) bs)"

definition expires_before :: "time \<Rightarrow> time" where
  "expires_before now = now + 60 * 86400000"

definition expiring :: "time \<Rightarrow> auth_context \<Rightarrow> db \<Rightarrow> contract \<Rightarrow> bool" where
  "expiring now a d c \<longleftrightarrow>
     ctr_org c = organizationId a \<and> ctr_status c = CONTRACT_ACTIVE \<and>
     (case ctr_endsOn c of None \<Rightarrow> False | Some t \<Rightarrow> to_date now \<le> t \<and> t \<le> to_date (expires_before now)) \<and>
     in_scope (buildingScope now a d) (contract_links d (ctr_org c) (ctr_id c))"

definition expiringContracts :: "time \<Rightarrow> auth_context \<Rightarrow> db \<Rightarrow> expiring_contract list" where
  "expiringContracts now a d =
     map (\<lambda>c. \<lparr>ec_contract = c,
           ec_vendor = find (\<lambda>v. ven_id v = ctr_vendorId c \<and> ven_org v = ctr_org c) (vendors d)\<rparr>)
       (take 25 (sort_key (\<lambda>c. the (ctr_endsOn c)) (filter (expiring now a d) (contracts d))))"

definition latest_status :: "db \<Rightarrow> bank_version \<Rightarrow> bank_status option" where
  "latest_status d b =
     map_option bver_status
       (find_latest (\<lambda>x. bver_bankVersionId x = bank_id b \<and> bver_org x = bank_org b) (bank_verifications d))"

definition latest_bank_version :: "db \<Rightarrow> vendor \<Rightarrow> bank_version option" where
  "latest_bank_version d v =
     find_max bank_number (\<lambda>b. bank_vendorId b = ven_id v \<and> bank_org b = ven_org v) (bank_versions d)"

definition missing_items :: "db \<Rightarrow> vendor \<Rightarrow> string list" where
  "missing_items d v =
     (if truthy (ven_registrationNumber v) then [] else [''registration number'']) @
     (if truthy (ven_taxId v) then [] else [''tax identifier'']) @
     (if truthy (ven_email v) \<and> truthy (ven_phone v) then [] else [''contact details'']) @
     (if list_ex (\<lambda>c. con_vendorId c = ven_id v \<and> con_org c = ven_org v \<and> con_isVerified c) (contacts d)
      then [] else [''verified contact'']) @
     (case latest_bank_version d v of
        None \<Rightarrow> [''bank-account version'']
      | Some b \<Rightarrow> if latest_status d b = Some BANK_VERIFIED then [] else [''verified bank account''])"

definition vendor_candidates ::
  "(string \<Rightarrow> nat list) \<Rightarrow> time \<Rightarrow> auth_context \<Rightarrow> db \<Rightarrow> vendor list" where
  "vendor_candidates coll now a d =
     take 100 (sort_key (\<lambda>v. coll (ven_legalName v))
       (filter (\<lambda>v. ven_org v = organizationId a \<and> ven_status v \<noteq> VENDOR_ARCHIVED \<and>
          in_scope (buildingScope now a d)
            (map vb_buildingId (filter (\<lambda>l. vb_org l = ven_org v \<and> vb_vendorId l = ven_id v) (vendor_buildings d))))
        (vendors d)))"

definition incompleteVendors ::
  "(string \<Rightarrow> nat list) \<Rightarrow> time \<Rightarrow> auth_context \<Rightarrow> db \<Rightarrow> incomplete_vendor list" where
  "incompleteVendors coll now a d =
     take 25 (filter (\<lambda>v. iv_missing v \<noteq> [])
       (map (\<lambda>v. \<lparr>iv_id = ven_id v, iv_legalName = ven_legalName v, iv_missing = missing_items d v\<rparr>)
         (vendor_candidates coll now a d)))"

definition get_dashboard ::
  "(string \<Rightarrow> nat list) \<Rightarrow> env \<Rightarrow> auth_context \<Rightarrow> db \<Rightarrow> (failure + dashboard_view) \<times> db" where
  "get_dashboard coll e a =
     run (\<lambda>d. Inr (\<lparr>dv_generatedAt = toISOString (clock e 0),
        dv_expiring = expiringContracts (clock e 0) a d,
        dv_incomplete = incompleteVendors coll (clock e 0) a d\<rparr>, d))"

section \<open>The audit trail\<close>

record audit_query =
  aq_page :: page_query
  aq_entityType :: "string option"
  aq_entityId :: "uuid option"

definition audit_matches :: "auth_context \<Rightarrow> audit_query \<Rightarrow> audit_event \<Rightarrow> bool" where
  "audit_matches a query v \<longleftrightarrow>
     au_org v = organizationId a \<and>
     (truthy (aq_entityType query) \<longrightarrow> au_entityType v = the (aq_entityType query)) \<and>
     (truthy (aq_entityId query) \<longrightarrow> au_entityId v = the (aq_entityId query))"

definition listed_events :: "auth_context \<Rightarrow> audit_query \<Rightarrow> db \<Rightarrow> audit_event list" where
  "listed_events a query d = filter (audit_matches a query) (audit d)"

text \<open>The latest event first: the order key counts the events from the end of the table.\<close>

definition audit_order :: "db \<Rightarrow> audit_event \<Rightarrow> nat" where
  "audit_order d v = length (takeWhile (\<lambda>x. au_id x \<noteq> au_id v) (rev (audit d)))"

definition list_audit_tx ::
  "auth_context \<Rightarrow> audit_query \<Rightarrow> (db, audit_event list \<times> uuid option) work" where
  "list_audit_tx a query d =
     (let rows = listed_events a query d; cursor = pq_cursor (aq_page query); lmt = pq_limit (aq_page query) in
      if truthy cursor then
        (case find (\<lambda>v. au_id v = the cursor \<and> au_org v = organizationId a) (audit d) of
           None \<Rightarrow> Inl invalidCursor
         | Some c \<Rightarrow> Inr (page au_id lmt (find_page (audit_order d) lmt (Some c) rows), d))
      else Inr (page au_id lmt (find_page (audit_order d) lmt None rows), d))"

definition list_audit ::
  "auth_context \<Rightarrow> audit_query \<Rightarrow> db \<Rightarrow> (failure + audit_event list \<times> uuid option) \<times> db" where
  "list_audit a query = run (list_audit_tx a query)"

lemma audit_matches_page [simp]: "audit_matches a (query\<lparr>aq_page := p\<rparr>) = audit_matches a query"
  by (rule ext) (simp add: audit_matches_def)

lemma prefix_lengths_inject:
  assumes "x \<in> set xs" "y \<in> set xs"
    and "length (takeWhile (\<lambda>z. f z \<noteq> f x) xs) = length (takeWhile (\<lambda>z. f z \<noteq> f y) xs)"
  shows "f x = f y"
proof -
  have nth: "f (xs ! length (takeWhile (\<lambda>z. f z \<noteq> f u) xs)) = f u" if "u \<in> set xs" for u
  proof -
    have "length (takeWhile (\<lambda>z. f z \<noteq> f u) xs) < length xs"
      using that by (induction xs) auto
    from nth_length_takeWhile [OF this] show ?thesis by simp
  qed
  show ?thesis by (rule trans [OF nth [OF assms(1), symmetric, unfolded assms(3)] nth [OF assms(2)]])
qed

lemma audit_order_inj:
  assumes "identified au_id (audit d)"
  shows "distinct (map (audit_order d) (filter P (audit d)))"
proof -
  have "inj_on (audit_order d) (set (audit d))"
  proof (rule inj_onI)
    fix x y assume xy: "x \<in> set (audit d)" "y \<in> set (audit d)" "audit_order d x = audit_order d y"
    then have "au_id x = au_id y"
      using prefix_lengths_inject [of x "rev (audit d)" y au_id] by (simp add: audit_order_def)
    then show "x = y" using assms xy(1,2) by (auto simp: identified_def distinct_map dest: inj_onD)
  qed
  moreover have "distinct (audit d)" using assms by (simp add: identified_def distinct_map)
  ultimately show ?thesis by (auto simp: distinct_map intro: inj_on_subset)
qed

interpretation audit_list: listing
  "\<lambda>(a, query, d) lmt cursor. fst (list_audit a
     (query\<lparr>aq_page := (aq_page query)\<lparr>pq_cursor := cursor, pq_limit := lmt\<rparr>\<rparr>) d)"
  "\<lambda>(a, query, d). listed_events a query d" "\<lambda>(a, query, d). audit_order d" au_id
  "\<lambda>s v. v" "\<lambda>(a, query, d). identified au_id (audit d)"
proof (unfold_locales, goal_cases)
  case (1 s lmt)
  then show ?case
    by (auto simp: list_audit_def list_audit_tx_def listed_events_def run_def Let_def
        map_prod_def split: prod.splits)
next
  case (2 s c lmt)
  then obtain a query d where s: "s = (a, query, d)" and ids: "identified au_id (audit d)"
    and c: "c \<in> set (listed_events a query d)" by (cases s) auto
  have "find (\<lambda>v. au_id v = au_id c \<and> au_org v = organizationId a) (audit d) = Some c"
    using c ids by (intro find_unique [of au_id]) (auto simp: identified_def listed_events_def audit_matches_def)
  moreover have "au_id c \<noteq> []" using c ids by (auto simp: identified_def listed_events_def)
  ultimately show ?case
    by (auto simp: s list_audit_def list_audit_tx_def listed_events_def run_def Let_def
        map_prod_def split: prod.splits)
next
  case (3 s)
  then show ?case by (cases s) (auto simp: listed_events_def intro!: audit_order_inj)
qed

end
