(* ===== verification/Document_Validation.thy ===== *)
theory Document_Validation
  imports CRM_Prelude
begin

text \<open>
  \<open>apps/api/src/invoices/document-validation.ts\<close>: the checks of an uploaded file before it is
  stored: one suffix, the size while it streams, and the agreement of the signature, the declared
  type and the suffix.  The stream is the list of its chunks, a chunk the string of its bytes.
\<close>

definition MAX_INVOICE_BYTES :: nat where
  "MAX_INVOICE_BYTES = 15 * 1024 * 1024"

definition allowedTypes :: "(string \<times> string list) list" where
  "allowedTypes =
     [(''application/pdf'', [''.pdf'']), (''image/png'', [''.png'']),
      (''image/jpeg'', [''.jpg'', ''.jpeg''])]"

record validated_document =
  val_detectedMimeType :: string
  val_sha256 :: string
  val_sizeBytes :: nat

definition invalidDocument :: "string \<Rightarrow> failure" where
  "invalidDocument code = Http BadRequest code"

section \<open>File names\<close>

text \<open>
  \<open>normalize('NFKC')\<close> on the code units below 256; a character whose image is above 255 is shown by
  a question mark or a slash, which the pattern of the suffixes does not contain either.
\<close>

definition nfkc_char :: "char \<Rightarrow> string" where
  "nfkc_char c =
     (let n = of_char c :: nat in
      if n = 160 then '' '' else if n \<in> {168, 175, 180, 184} then '' ?'' else if n = 170 then ''a''
      else if n = 178 then ''2'' else if n = 179 then ''3'' else if n = 181 then ''?''
      else if n = 185 then ''1'' else if n = 186 then ''o'' else if n = 188 then ''1/4''
      else if n = 189 then ''1/2'' else if n = 190 then ''3/4'' else [c])"

definition normalize_nfkc :: "string \<Rightarrow> string" where
  "normalize_nfkc s = concat (map nfkc_char s)"

definition suffix_char :: "char \<Rightarrow> bool" where
  "suffix_char c \<longleftrightarrow> is_lower c \<or> is_digit c"

text \<open>The number of matches of \<open>/\.[a-z0-9]+/gu\<close>: each starts at a dot before a suffix character.\<close>

fun count_suffixes :: "string \<Rightarrow> nat" where
  "count_suffixes (c # d # s) =
     (if c = CHR ''.'' \<and> suffix_char d then 1 else 0) + count_suffixes (d # s)"
| "count_suffixes s = 0"

definition validateFilename :: "string \<Rightarrow> failure + unit" where
  "validateFilename name =
     (let normalized = js_lower (normalize_nfkc name) in
      if 255 < length name \<or> CHR 0x00 \<in> set name \<or> count_suffixes normalized \<noteq> 1
      then Inl (invalidDocument ''DOCUMENT_FILENAME_REJECTED'')
      else if list_ex (ends_with normalized) (concat (map snd allowedTypes)) then Inr ()
      else Inl (invalidDocument ''DOCUMENT_EXTENSION_REJECTED''))"

section \<open>Signatures\<close>

text \<open>\<open>toString('ascii')\<close> clears the high bit of each byte.\<close>

definition to_ascii :: "string \<Rightarrow> string" where
  "to_ascii s = map (\<lambda>c. char_of (of_char c mod 128 :: nat)) s"

definition png_signature :: string where
  "png_signature = map char_of [137, 80, 78, 71, 13, 10, 26, 10 :: nat]"

definition detectMimeType :: "string \<Rightarrow> string" where
  "detectMimeType sig =
     (if to_ascii (take 5 sig) = ''%PDF-'' then ''application/pdf''
      else if take 8 sig = png_signature then ''image/png''
      else if take 3 sig = map char_of [255, 216, 255 :: nat] then ''image/jpeg''
      else ''application/octet-stream'')"

section \<open>The stream\<close>

definition too_large :: failure where
  "too_large = Http PayloadTooLarge ''DOCUMENT_TOO_LARGE''"

text \<open>The loop over the chunks: the bytes so far and at most sixteen of them as the signature.\<close>

fun read_chunks :: "nat \<Rightarrow> string \<Rightarrow> string list \<Rightarrow> failure + (nat \<times> string)" where
  "read_chunks bytes_read sig [] = Inr (bytes_read, sig)"
| "read_chunks bytes_read sig (bytes # chunks) =
     (let bytes_read' = bytes_read + length bytes in
      if MAX_INVOICE_BYTES < bytes_read' then Inl too_large
      else read_chunks bytes_read'
        (if length sig < 16 then sig @ take (16 - length sig) bytes else sig) chunks)"

definition validateDocumentFile ::
  "(string \<Rightarrow> string) \<Rightarrow> string list \<Rightarrow> string \<Rightarrow> string \<Rightarrow> nat option \<Rightarrow> failure + validated_document" where
  "validateDocumentFile sha chunks name declared reportedSize =
     (case validateFilename name of
        Inl err \<Rightarrow> Inl err
      | Inr _ \<Rightarrow>
      if (case reportedSize of None \<Rightarrow> False | Some n \<Rightarrow> MAX_INVOICE_BYTES < n) then Inl too_large
      else
      case read_chunks 0 [] chunks of
        Inl err \<Rightarrow> Inl err
      | Inr (bytes_read, sig) \<Rightarrow>
      if bytes_read = 0 then Inl (invalidDocument ''DOCUMENT_EMPTY'')
      else
      let detected = detectMimeType sig in
      case map_of allowedTypes detected of
        None \<Rightarrow> Inl (invalidDocument ''DOCUMENT_MIME_SIGNATURE_MISMATCH'')
      | Some extensions \<Rightarrow>
          if js_lower declared \<noteq> detected then Inl (invalidDocument ''DOCUMENT_MIME_SIGNATURE_MISMATCH'')
          else if \<not> list_ex (ends_with (js_lower name)) extensions
          then Inl (invalidDocument ''DOCUMENT_EXTENSION_SIGNATURE_MISMATCH'')
          else Inr \<lparr>val_detectedMimeType = detected, val_sha256 = sha (concat chunks),
                    val_sizeBytes = bytes_read\<rparr>)"

section \<open>The chunks do not matter\<close>

text \<open>
  The reference: the size of the whole file and its first sixteen bytes.  The loop agrees with it
  for every way to cut the file.
\<close>

definition whole_file :: "string \<Rightarrow> failure + (nat \<times> string)" where
  "whole_file bytes =
     (if MAX_INVOICE_BYTES < length bytes then Inl too_large else Inr (length bytes, take 16 bytes))"

lemma read_chunks_append:
  "length bs \<le> MAX_INVOICE_BYTES \<Longrightarrow>
     read_chunks (length bs) (take 16 bs) chunks = whole_file (bs @ concat chunks)"
proof (induction chunks arbitrary: bs)
  case Nil
  then show ?case by (simp add: whole_file_def)
next
  case (Cons c cs)
  show ?case
  proof (cases "MAX_INVOICE_BYTES < length bs + length c")
    case True
    then show ?thesis by (simp add: whole_file_def Let_def)
  next
    case False
    have "(if length (take 16 bs) < 16 then take 16 bs @ take (16 - length (take 16 bs)) c else take 16 bs)
        = take 16 (bs @ c)" by (simp add: min_def)
    then have "read_chunks (length bs) (take 16 bs) (c # cs) = read_chunks (length (bs @ c)) (take 16 (bs @ c)) cs"
      using False by (simp only: read_chunks.simps Let_def length_append if_False)
    with Cons.IH [of "bs @ c"] False show ?thesis by simp
  qed
qed

lemma read_chunks_whole: "read_chunks 0 [] chunks = whole_file (concat chunks)"
  using read_chunks_append [of "[]" chunks] by simp

end
