(* ===== verification/Download_Tokens.thy ===== *)
theory Download_Tokens
  imports Database Encoding
begin

text \<open>
  \<open>apps/api/src/invoices/download-token.service.ts\<close>: a download token is the base64url of its
  claim and the base64url of the HMAC of that payload.  The HMAC is the argument \<open>hmac\<close>, a function
  of the key and the text to the digest's base64url.
\<close>

record download_claim =
  clm_documentId :: string
  clm_organizationId :: string
  clm_expiresAt :: int

definition invalidToken :: failure where
  "invalidToken = Http Unauthorized ''DOWNLOAD_TOKEN_INVALID''"

text \<open>The constructor: \<open>DOWNLOAD_TOKEN_SECRET ?? SESSION_SIGNING_KEY\<close>, of at least 32 characters.\<close>

definition download_secret :: "string option \<Rightarrow> string option \<Rightarrow> failure + string" where
  "download_secret download session =
     (let secret = (case download of None \<Rightarrow> session | Some s \<Rightarrow> Some s) in
      if \<not> truthy secret \<or> length (the secret) < 32
      then Inl (ExternalError ''DOWNLOAD_TOKEN_SECRET or SESSION_SIGNING_KEY with at least 32 characters is required.'')
      else Inr (the secret))"

definition document_key :: string where
  "document_key = ''{'' @ stringify_string ''documentId'' @ '':''"

definition organization_key :: string where
  "organization_key = '','' @ stringify_string ''organizationId'' @ '':''"

definition expiry_key :: string where
  "expiry_key = '','' @ stringify_string ''expiresAt'' @ '':''"

definition claim_json :: "download_claim \<Rightarrow> string" where
  "claim_json c =
     document_key @ stringify_string (clm_documentId c)
       @ organization_key @ stringify_string (clm_organizationId c)
       @ expiry_key @ show_int (clm_expiresAt c) @ ''}''"

text \<open>\<open>JSON.parse\<close> on claims: an object with the three properties in the order they are issued.\<close>

definition parse_claim :: "string \<Rightarrow> download_claim option" where
  "parse_claim s =
     Option.bind (expect document_key s) (\<lambda>s1.
     Option.bind (parse_string s1) (\<lambda>(doc, s2).
     Option.bind (expect organization_key s2) (\<lambda>s3.
     Option.bind (parse_string s3) (\<lambda>(org, s4).
     Option.bind (expect expiry_key s4) (\<lambda>s5.
     if s5 \<noteq> [] \<and> last s5 = CHR ''}'' then
       map_option (\<lambda>n. \<lparr>clm_documentId = doc, clm_organizationId = org, clm_expiresAt = n\<rparr>)
         (read_int (butlast s5))
     else None)))))"

definition sign :: "(string \<Rightarrow> string \<Rightarrow> string) \<Rightarrow> string \<Rightarrow> string \<Rightarrow> string" where
  "sign hmac secret payload = hmac secret payload"

definition issue_download :: "(string \<Rightarrow> string \<Rightarrow> string) \<Rightarrow> string \<Rightarrow> time \<Rightarrow> int \<Rightarrow> uuid \<Rightarrow> uuid \<Rightarrow> string" where
  "issue_download hmac secret now ttlSeconds doc org =
     (let payload = base64url_encode (utf8_encode (claim_json
            \<lparr>clm_documentId = doc, clm_organizationId = org, clm_expiresAt = now + ttlSeconds * 1000\<rparr>))
      in payload @ ''.'' @ sign hmac secret payload)"

definition verify_download ::
  "(string \<Rightarrow> string \<Rightarrow> string) \<Rightarrow> string \<Rightarrow> time \<Rightarrow> string option \<Rightarrow> uuid \<Rightarrow> uuid \<Rightarrow> failure + unit" where
  "verify_download hmac secret now token doc org =
     (if \<not> truthy token then Inl invalidToken
      else
      case split_on (CHR ''.'') (the token) of
        payload # supplied # _ \<Rightarrow>
          if payload = [] \<or> supplied = [] then Inl invalidToken
          else if sign hmac secret payload \<noteq> supplied then Inl invalidToken
          else
          (case parse_claim (utf8_decode (base64_decode payload)) of
             None \<Rightarrow> Inl invalidToken
           | Some c \<Rightarrow>
               if clm_documentId c \<noteq> doc \<or> clm_organizationId c \<noteq> org \<or> clm_expiresAt c < now
               then Inl invalidToken else Inr ())
      | _ \<Rightarrow> Inl invalidToken)"

section \<open>Round trip\<close>

lemma parse_claim_json [simp]: "parse_claim (claim_json c) = Some c"
  by (cases c) (simp add: parse_claim_def claim_json_def butlast_append)

end
