(* ===== verification/Invoices.thy ===== *)
theory Invoices
  imports Approvals Document_Validation Download_Tokens
begin

text \<open>
  The invoice service, \<open>apps/api/src/invoices/invoices.service.ts\<close>: the upload of a document with
  the invoice it opens, the reads, the edits of a draft, which withdraw a pending approval, and the
  download of approved documents.  The object storage and the job queue are external: the outcome
  of each of their calls is an argument.
\<close>

section \<open>Views\<close>

record invoice_view =
  ivw_invoice :: invoice
  ivw_lines :: "invoice_line list"
  ivw_documents :: "(document \<times> processing option) list"
  ivw_assessment :: "assessment option"
  ivw_request :: "request_details option"

definition processing_of :: "db \<Rightarrow> document \<Rightarrow> processing option" where
  "processing_of d x =
     find (\<lambda>p. pr_documentId p = doc_id x \<and> pr_org p = doc_org x) (processings d)"

text \<open>
  \<open>sanitizeInvoice\<close> leaves out the two object keys, the hash and the detail of the scan.
\<close>

definition sanitize_document :: "document \<Rightarrow> document" where
  "sanitize_document x = x\<lparr>doc_quarantineKey := [], doc_approvedKey := None, doc_sha256 := None\<rparr>"

definition sanitize_processing :: "processing \<Rightarrow> processing" where
  "sanitize_processing p = p\<lparr>pr_scanDetail := None\<rparr>"

definition document_views :: "db \<Rightarrow> uuid \<Rightarrow> uuid \<Rightarrow> (document \<times> processing option) list" where
  "document_views d org iid =
     map (\<lambda>x. (sanitize_document x, map_option sanitize_processing (processing_of d x)))
       (documents_of d org iid)"

definition lines_of :: "db \<Rightarrow> uuid \<Rightarrow> uuid \<Rightarrow> invoice_line list" where
  "lines_of d org iid =
     sort_key line_position (filter (\<lambda>l. line_invoiceId l = iid \<and> line_org l = org) (invoice_lines d))"

definition invoice_not_found :: failure where
  "invoice_not_found = Http NotFound ''INVOICE_RESOURCE_NOT_FOUND''"

section \<open>Reading\<close>

definition list_invoices :: "auth_context \<Rightarrow> db \<Rightarrow> (failure + invoice_view list) \<times> db" where
  "list_invoices a =
     run (\<lambda>d. Inr (map (\<lambda>i. \<lparr>ivw_invoice = i, ivw_lines = [],
              ivw_documents = document_views d (organizationId a) (inv_id i),
              ivw_assessment = None, ivw_request = None\<rparr>)
            (take 100 (filter (\<lambda>i. inv_org i = organizationId a) (rev (invoices d)))), d))"

definition get_invoice_tx :: "auth_context \<Rightarrow> uuid \<Rightarrow> (db, invoice_view) work" where
  "get_invoice_tx a iid d =
     (let org = organizationId a in
      case find (\<lambda>i. inv_id i = iid \<and> inv_org i = org) (invoices d) of
        None \<Rightarrow> Inl invoice_not_found
      | Some i \<Rightarrow>
          Inr (\<lparr>ivw_invoice = i, ivw_lines = lines_of d org iid,
                ivw_documents = document_views d org iid,
                ivw_assessment = find_latest (\<lambda>x. ra_invoiceId x = iid \<and> ra_org x = org) (assessments d),
                ivw_request = map_option (request_details d)
                  (find_max req_version (\<lambda>r. req_invoiceId r = iid \<and> req_org r = org) (requests d))\<rparr>, d))"

definition get_invoice :: "auth_context \<Rightarrow> uuid \<Rightarrow> db \<Rightarrow> (failure + invoice_view) \<times> db" where
  "get_invoice a iid = run (get_invoice_tx a iid)"

section \<open>Relationships\<close>

definition assertRelationships :: "uuid \<Rightarrow> uuid option \<Rightarrow> uuid option \<Rightarrow> db \<Rightarrow> failure + unit" where
  "assertRelationships org vendorId contractId d =
     (if truthy vendorId \<and> \<not> list_ex (\<lambda>v. ven_id v = the vendorId \<and> ven_org v = org) (vendors d)
      then Inl invoice_not_found
      else if truthy contractId then
        (if \<not> truthy vendorId then Inl (Http BadRequest ''INVOICE_CONTRACT_REQUIRES_VENDOR'')
         else if \<not> list_ex (\<lambda>c. ctr_id c = the contractId \<and> ctr_org c = org \<and>
                 ctr_vendorId c = the vendorId) (contracts d)
         then Inl invoice_not_found else Inr ())
      else Inr ())"

text \<open>The trigger \<open>Invoice_contract_vendor\<close>.\<close>

definition contract_vendor_ok :: "db \<Rightarrow> invoice \<Rightarrow> bool" where
  "contract_vendor_ok d i \<longleftrightarrow>
     (case inv_contractId i of
        None \<Rightarrow> True
      | Some cid \<Rightarrow>
          (case inv_vendorId i of
             None \<Rightarrow> False
           | Some vid \<Rightarrow> list_ex (\<lambda>c. ctr_id c = cid \<and> ctr_org c = inv_org i \<and> ctr_vendorId c = vid)
               (contracts d)))"

section \<open>Upload\<close>

record uploaded_file =
  upl_chunks :: "string list"
  upl_originalname :: string
  upl_mimetype :: string
  upl_size :: nat

record upload_world =
  uw_put :: "failure option"
  uw_enqueue :: "failure option"

definition new_invoice :: "env \<Rightarrow> auth_context \<Rightarrow> uuid option \<Rightarrow> uuid option \<Rightarrow> invoice" where
  "new_invoice e a vendorId contractId =
     \<lparr>inv_id = new_uuid e 1, inv_org = organizationId a, inv_vendorId = vendorId,
      inv_contractId = contractId, inv_bankVersionId = None, inv_number = None,
      inv_issueDate = None, inv_dueDate = None, inv_currency = None, inv_subtotal = None,
      inv_taxAmount = None, inv_totalAmount = None, inv_notes = None, inv_status = PROCESSING,
      inv_version = 1, inv_createdBy = membershipId a\<rparr>"

definition new_document ::
  "env \<Rightarrow> auth_context \<Rightarrow> uploaded_file \<Rightarrow> validated_document \<Rightarrow> document" where
  "new_document e a file v =
     \<lparr>doc_id = new_uuid e 0, doc_org = organizationId a, doc_invoiceId = new_uuid e 1,
      doc_filename = upl_originalname file, doc_declaredMime = js_lower (upl_mimetype file),
      doc_detectedMime = val_detectedMimeType v, doc_size = val_sizeBytes v,
      doc_quarantineKey = new_uuid e 3 @ ''/'' @ new_uuid e 4, doc_approvedKey = None,
      doc_sha256 = None, doc_duplicateOf = None, doc_storageState = STORED_QUARANTINED,
      doc_createdBy = membershipId a\<rparr>"

definition new_processing :: "env \<Rightarrow> auth_context \<Rightarrow> processing" where
  "new_processing e a =
     \<lparr>pr_org = organizationId a, pr_documentId = new_uuid e 0, pr_state = PROC_QUARANTINED,
      pr_progress = 10, pr_scanResult = SCAN_PENDING, pr_scanDetail = None, pr_ocrEngine = None,
      pr_suggestions = None, pr_attempts = 0, pr_startedAt = None, pr_heartbeatAt = None,
      pr_completedAt = None, pr_errorCode = None, pr_errorMessage = None\<rparr>"

definition document_keys :: "(document \<Rightarrow> string list) list" where
  "document_keys = [\<lambda>x. [doc_id x], \<lambda>x. [[], doc_quarantineKey x]]"

definition invoice_status_name :: "invoice_status \<Rightarrow> string" where
  "invoice_status_name s =
     (case s of PROCESSING \<Rightarrow> ''PROCESSING'' | NEEDS_REVIEW \<Rightarrow> ''NEEDS_REVIEW''
      | MANUAL_REVIEW \<Rightarrow> ''MANUAL_REVIEW'' | BLOCKED \<Rightarrow> ''BLOCKED''
      | AWAITING_APPROVAL \<Rightarrow> ''AWAITING_APPROVAL'' | APPROVED \<Rightarrow> ''APPROVED'' | REJECTED \<Rightarrow> ''REJECTED'')"

definition upload_tx ::
  "env \<Rightarrow> auth_context \<Rightarrow> uuid option \<Rightarrow> uuid option \<Rightarrow> uploaded_file \<Rightarrow> validated_document \<Rightarrow>
     (db, invoice_view) work" where
  "upload_tx e a vendorId contractId file v d =
     (let org = organizationId a; i = new_invoice e a vendorId contractId;
          x = new_document e a file v; p = new_processing e a in
      case assertRelationships org vendorId contractId d of
        Inl err \<Rightarrow> Inl err
      | Inr _ \<Rightarrow>
      if \<not> contract_vendor_ok d i then Inl (DatabaseError ''invoice contract does not belong to vendor'')
      else
      case create_unique [inv_id] i (invoices d) of
        Inl err \<Rightarrow> Inl err
      | Inr is \<Rightarrow>
      case create_unique document_keys x (documents d) of
        Inl err \<Rightarrow> Inl err
      | Inr xs \<Rightarrow>
      case create_unique [pr_documentId] p (processings d) of
        Inl err \<Rightarrow> Inl err
      | Inr ps \<Rightarrow>
          Inr (\<lparr>ivw_invoice = i, ivw_lines = [],
                ivw_documents = [(sanitize_document x, Some (sanitize_processing p))],
                ivw_assessment = None, ivw_request = None\<rparr>,
            writeAudit e 5 org (Some (membershipId a)) ''INVOICE_UPLOADED'' ''INVOICE'' (inv_id i) None
              (Some (JObject [(''documentId'', JString (doc_id x)),
                 (''status'', JString (invoice_status_name (inv_status i))),
                 (''sizeBytes'', JInt (int (val_sizeBytes v)))])) None
              (d\<lparr>invoices := is, documents := xs, processings := ps\<rparr>)))"

text \<open>The trigger \<open>DocumentProcessing_valid_transition\<close>.\<close>

definition transition_ok :: "processing_state \<Rightarrow> processing_state \<Rightarrow> bool" where
  "transition_ok old upd \<longleftrightarrow> old = upd \<or>
     (case old of
        PROC_QUARANTINED \<Rightarrow> upd = PROC_SCANNING \<or> upd = PROC_MANUAL_REVIEW
      | PROC_SCANNING \<Rightarrow>
          upd = PROC_QUARANTINED \<or> upd = PROC_PARSED \<or> upd = PROC_BLOCKED \<or> upd = PROC_MANUAL_REVIEW
      | PROC_PARSED \<Rightarrow> upd = PROC_NEEDS_REVIEW \<or> upd = PROC_MANUAL_REVIEW
      | _ \<Rightarrow> False)"

definition update_processings ::
  "(processing \<Rightarrow> bool) \<Rightarrow> (processing \<Rightarrow> processing) \<Rightarrow> db \<Rightarrow> failure + db" where
  "update_processings P f d =
     (if list_ex (\<lambda>p. P p \<and> \<not> transition_ok (pr_state p) (pr_state (f p))) (processings d)
      then Inl (DatabaseError ''invalid document processing transition'')
      else Inr (d\<lparr>processings := update_rows P f (processings d)\<rparr>))"

definition markManualReview_tx :: "env \<Rightarrow> uuid \<Rightarrow> uuid \<Rightarrow> uuid \<Rightarrow> string \<Rightarrow> (db, unit) work" where
  "markManualReview_tx e org did iid code d =
     (case update_processings (\<lambda>p. pr_documentId p = did \<and> pr_org p = org)
        (\<lambda>p. p\<lparr>pr_state := PROC_MANUAL_REVIEW, pr_progress := 100, pr_errorCode := Some code,
               pr_completedAt := Some (clock e 0)\<rparr>) d of
        Inl err \<Rightarrow> Inl err
      | Inr d1 \<Rightarrow>
          Inr ((), d1\<lparr>invoices := update_rows (\<lambda>i. inv_id i = iid \<and> inv_org i = org)
            (\<lambda>i. i\<lparr>inv_status := MANUAL_REVIEW\<rparr>) (invoices d1)\<rparr>))"

definition markManualReview ::
  "env \<Rightarrow> uuid \<Rightarrow> uuid \<Rightarrow> uuid \<Rightarrow> string \<Rightarrow> db \<Rightarrow> (failure + unit) \<times> db" where
  "markManualReview e org did iid code = run (markManualReview_tx e org did iid code)"

text \<open>
  The whole upload: the file is stored before the rows exist, and removed again when the
  transaction fails; a failure of the queue sends the invoice to manual review.
\<close>

definition upload ::
  "env \<Rightarrow> upload_world \<Rightarrow> auth_context \<Rightarrow> uuid option \<Rightarrow> uuid option \<Rightarrow> uploaded_file option \<Rightarrow> db \<Rightarrow>
     (failure + invoice_view) \<times> db" where
  "upload e w a vendorId contractId upl d =
     (case upl of
        None \<Rightarrow> (Inl (Http BadRequest ''DOCUMENT_FILE_REQUIRED''), d)
      | Some file \<Rightarrow>
      case validateDocumentFile (sha256 e) (upl_chunks file) (upl_originalname file)
          (upl_mimetype file) (Some (upl_size file)) of
        Inl err \<Rightarrow> (Inl err, d)
      | Inr v \<Rightarrow>
      case uw_put w of
        Some err \<Rightarrow> (Inl err, d)
      | None \<Rightarrow>
      case run (upload_tx e a vendorId contractId file v) d of
        (Inl err, d1) \<Rightarrow> (Inl err, d1)
      | (Inr view, d1) \<Rightarrow>
      case uw_enqueue w of
        None \<Rightarrow> (Inr view, d1)
      | Some _ \<Rightarrow>
      case markManualReview e (organizationId a) (new_uuid e 0) (new_uuid e 1) ''QUEUE_UNAVAILABLE'' d1 of
        (Inl err, d2) \<Rightarrow> (Inl err, d2)
      | (Inr _, d2) \<Rightarrow> (Inr view, d2))"

section \<open>Edits of a draft\<close>

record line_dto =
  ldto_description :: string
  ldto_quantity :: int
  ldto_unitPrice :: int
  ldto_taxRate :: "int option"
  ldto_amount :: cents

record update_invoice_dto =
  uid_version :: nat
  uid_vendorId :: "uuid field"
  uid_contractId :: "uuid field"
  uid_number :: "string field"
  uid_issueDate :: "time field"
  uid_dueDate :: "time field"
  uid_currency :: "string field"
  uid_subtotal :: "cents field"
  uid_taxAmount :: "cents field"
  uid_totalAmount :: "cents field"
  uid_notes :: "string field"
  uid_lines :: "line_dto list option"

definition canEditInvoiceDraft :: "invoice_status \<Rightarrow> (storage_state \<times> scan_result option) list \<Rightarrow> bool" where
  "canEditInvoiceDraft status docs \<longleftrightarrow>
     (if status = NEEDS_REVIEW \<or> status = AWAITING_APPROVAL then True
      else if status \<noteq> MANUAL_REVIEW then False
      else list_ex (\<lambda>x. fst x = STORED_APPROVED \<and> snd x = Some SCAN_CLEAN) docs)"

definition invoiceAudit :: "invoice \<Rightarrow> json" where
  "invoiceAudit i = JObject
     [(''id'', JString (inv_id i)), (''status'', JString (invoice_status_name (inv_status i))),
      (''version'', JInt (int (inv_version i))), (''vendorId'', json_opt (inv_vendorId i)),
      (''contractId'', json_opt (inv_contractId i)),
      (''totalAmount'', json_opt (map_option decimal_toString (inv_totalAmount i)))]"

text \<open>\<open>dto ?? existing\<close>; \<open>new Date(null)\<close> is the epoch.\<close>

definition field_or :: "'a field \<Rightarrow> 'a option \<Rightarrow> 'a option" where
  "field_or f old = (case f of Value x \<Rightarrow> Some x | _ \<Rightarrow> old)"

definition set_date :: "time field \<Rightarrow> time option \<Rightarrow> time option" where
  "set_date f old = (case f of Undefined \<Rightarrow> old | Null \<Rightarrow> Some 0 | Value t \<Rightarrow> Some (to_date t))"

definition set_text :: "(string \<Rightarrow> string) \<Rightarrow> string field \<Rightarrow> string option \<Rightarrow> string option" where
  "set_text g f old = (case f of Value s \<Rightarrow> Some (g s) | _ \<Rightarrow> old)"

definition apply_invoice_dto :: "update_invoice_dto \<Rightarrow> bool \<Rightarrow> invoice \<Rightarrow> invoice" where
  "apply_invoice_dto dto invalidates i =
     i\<lparr>inv_vendorId := set_optional (uid_vendorId dto) (inv_vendorId i),
       inv_contractId := set_optional (uid_contractId dto) (inv_contractId i),
       inv_number := set_text js_trim (uid_number dto) (inv_number i),
       inv_issueDate := set_date (uid_issueDate dto) (inv_issueDate i),
       inv_dueDate := set_date (uid_dueDate dto) (inv_dueDate i),
       inv_currency := set_text js_upper (uid_currency dto) (inv_currency i),
       inv_subtotal := set_optional (uid_subtotal dto) (inv_subtotal i),
       inv_taxAmount := set_optional (uid_taxAmount dto) (inv_taxAmount i),
       inv_totalAmount := set_optional (uid_totalAmount dto) (inv_totalAmount i),
       inv_notes := set_text js_trim (uid_notes dto) (inv_notes i),
       inv_status := (if invalidates then NEEDS_REVIEW else inv_status i),
       inv_bankVersionId := (if invalidates then None else inv_bankVersionId i),
       inv_version := inv_version i + 1\<rparr>"

text \<open>The CHECK constraints of the invoice table.\<close>

definition nonneg :: "int option \<Rightarrow> bool" where
  "nonneg v \<longleftrightarrow> (case v of None \<Rightarrow> True | Some x \<Rightarrow> 0 \<le> x)"

definition invoice_checks :: "invoice \<Rightarrow> string option" where
  "invoice_checks i =
     (if (case (inv_issueDate i, inv_dueDate i) of (Some s, Some t) \<Rightarrow> t < s | _ \<Rightarrow> False)
      then Some ''Invoice_dates_check''
      else if (case inv_currency i of None \<Rightarrow> False | Some c \<Rightarrow> \<not> (length c = 3 \<and> list_all is_upper c))
      then Some ''Invoice_currency_check''
      else if \<not> (nonneg (inv_subtotal i) \<and> nonneg (inv_taxAmount i) \<and> nonneg (inv_totalAmount i))
      then Some ''Invoice_amounts_check'' else None)"

text \<open>Calling \<open>trim\<close> or \<open>toUpperCase\<close> on null throws.\<close>

definition invoice_dto_throws :: "update_invoice_dto \<Rightarrow> bool" where
  "invoice_dto_throws dto \<longleftrightarrow> uid_number dto = Null \<or> uid_currency dto = Null \<or> uid_notes dto = Null"

definition withdraw_requests :: "uuid \<Rightarrow> uuid \<Rightarrow> db \<Rightarrow> db" where
  "withdraw_requests org iid d =
     d\<lparr>requests := update_rows
          (\<lambda>r. req_org r = org \<and> req_invoiceId r = iid \<and> req_status r = REQUEST_PENDING)
          (\<lambda>r. r\<lparr>req_status := REQUEST_INVALIDATED, req_invalidatedReason := Some ''INVOICE_DATA_CHANGED''\<rparr>)
          (requests d)\<rparr>"

definition new_lines :: "uuid \<Rightarrow> uuid \<Rightarrow> line_dto list \<Rightarrow> invoice_line list" where
  "new_lines org iid ls =
     map (\<lambda>(n, l). \<lparr>line_org = org, line_invoiceId = iid, line_description = ldto_description l,
            line_quantity = ldto_quantity l, line_unitPrice = ldto_unitPrice l,
            line_taxRate = ldto_taxRate l, line_amount = ldto_amount l, line_position = n\<rparr>)
       (enumerate 0 ls)"

definition replace_lines :: "uuid \<Rightarrow> uuid \<Rightarrow> line_dto list option \<Rightarrow> db \<Rightarrow> db" where
  "replace_lines org iid ls d =
     (case ls of
        None \<Rightarrow> d
      | Some l \<Rightarrow> d\<lparr>invoice_lines :=
          filter (\<lambda>x. \<not> (line_invoiceId x = iid \<and> line_org x = org)) (invoice_lines d)
            @ new_lines org iid l\<rparr>)"

text \<open>The conditional write of the draft with the checks of the database.\<close>

definition write_draft ::
  "auth_context \<Rightarrow> uuid \<Rightarrow> update_invoice_dto \<Rightarrow> bool \<Rightarrow> db \<Rightarrow> failure + db" where
  "write_draft a iid dto invalidates d =
     (let P = (\<lambda>i. inv_id i = iid \<and> inv_org i = organizationId a \<and> inv_version i = uid_version dto);
          f = apply_invoice_dto dto invalidates in
      if (uid_vendorId dto \<noteq> Undefined \<or> uid_contractId dto \<noteq> Undefined) \<and>
         list_ex (\<lambda>i. P i \<and> \<not> contract_vendor_ok d (f i)) (invoices d)
      then Inl (DatabaseError ''invoice contract does not belong to vendor'')
      else
      case List.map_filter (\<lambda>i. if P i then invoice_checks (f i) else None) (invoices d) of
        name # _ \<Rightarrow> Inl (DatabaseError name)
      | [] \<Rightarrow>
          if count_rows P (invoices d) \<noteq> 1 then Inl (Http Conflict ''STALE_INVOICE_VERSION'')
          else Inr (d\<lparr>invoices := update_rows P f (invoices d)\<rparr>))"

definition draft_audits ::
  "env \<Rightarrow> auth_context \<Rightarrow> invoice \<Rightarrow> invoice \<Rightarrow> bool \<Rightarrow> db \<Rightarrow> db" where
  "draft_audits e a existing updated invalidates d =
     (let d1 = writeAudit e 0 (organizationId a) (Some (membershipId a)) ''INVOICE_DRAFT_UPDATED''
            ''INVOICE'' (inv_id existing) (Some (invoiceAudit existing)) (Some (invoiceAudit updated)) None d
      in if invalidates then
           writeAudit e 2 (organizationId a) (Some (membershipId a)) ''APPROVAL_REQUEST_INVALIDATED''
             ''INVOICE'' (inv_id existing) None
             (Some (JObject [(''invoiceVersion'', JInt (int (inv_version updated))),
                (''status'', JString (invoice_status_name (inv_status updated)))]))
             (Some ''Invoice financial data changed while approval was pending.'') d1
         else d1)"

definition update_invoice_tx ::
  "env \<Rightarrow> auth_context \<Rightarrow> uuid \<Rightarrow> update_invoice_dto \<Rightarrow> (db, invoice_view) work" where
  "update_invoice_tx e a iid dto d =
     (let org = organizationId a in
      case find (\<lambda>i. inv_id i = iid \<and> inv_org i = org) (invoices d) of
        None \<Rightarrow> Inl invoice_not_found
      | Some existing \<Rightarrow>
      if \<not> canEditInvoiceDraft (inv_status existing)
           (map (\<lambda>x. (doc_storageState x, scan_of d x)) (documents_of d org iid))
      then Inl (Http Conflict ''INVOICE_NOT_EDITABLE'')
      else
      let invalidates = (inv_status existing = AWAITING_APPROVAL);
          d1 = (if invalidates then withdraw_requests org iid d else d) in
      case assertRelationships org (field_or (uid_vendorId dto) (inv_vendorId existing))
          (field_or (uid_contractId dto) (inv_contractId existing)) d1 of
        Inl err \<Rightarrow> Inl err
      | Inr _ \<Rightarrow>
      if invoice_dto_throws dto then Inl (ExternalError ''TypeError'')
      else
      case write_draft a iid dto invalidates d1 of
        Inl err \<Rightarrow> Inl err
      | Inr d2 \<Rightarrow>
      let d3 = replace_lines org iid (uid_lines dto) d2 in
      case find (\<lambda>i. inv_id i = iid \<and> inv_org i = org) (invoices d3) of
        None \<Rightarrow> Inl (DatabaseError ''P2025'')
      | Some updated \<Rightarrow>
          Inr (\<lparr>ivw_invoice = updated, ivw_lines = lines_of d3 org iid,
                ivw_documents = document_views d3 org iid, ivw_assessment = None, ivw_request = None\<rparr>,
            draft_audits e a existing updated invalidates d3))"

definition update_invoice ::
  "env \<Rightarrow> auth_context \<Rightarrow> uuid \<Rightarrow> update_invoice_dto \<Rightarrow> db \<Rightarrow> (failure + invoice_view) \<times> db" where
  "update_invoice e a iid dto = run (update_invoice_tx e a iid dto)"

section \<open>Downloads\<close>

definition approvedDocument :: "uuid \<Rightarrow> uuid \<Rightarrow> db \<Rightarrow> failure + document" where
  "approvedDocument org did d =
     (case find (\<lambda>x. doc_id x = did \<and> doc_org x = org \<and> doc_storageState x = STORED_APPROVED \<and>
            doc_approvedKey x \<noteq> None) (documents d) of
        None \<Rightarrow> Inl invoice_not_found
      | Some x \<Rightarrow> Inr x)"

definition download_audit ::
  "env \<Rightarrow> auth_context \<Rightarrow> string \<Rightarrow> document \<Rightarrow> db \<Rightarrow> db" where
  "download_audit e a action x d =
     writeAudit e 0 (organizationId a) (Some (membershipId a)) action ''DOCUMENT'' (doc_id x) None
       (Some (JObject [(''invoiceId'', JString (doc_invoiceId x)), (''mimeType'', JString (doc_detectedMime x))]))
       None d"

definition issueDownload ::
  "(string \<Rightarrow> string \<Rightarrow> string) \<Rightarrow> string \<Rightarrow> env \<Rightarrow> auth_context \<Rightarrow> uuid \<Rightarrow> db \<Rightarrow>
     (failure + string \<times> nat) \<times> db" where
  "issueDownload hmac secret e a did =
     run (\<lambda>d. case approvedDocument (organizationId a) did d of
            Inl err \<Rightarrow> Inl err
          | Inr x \<Rightarrow>
              Inr ((issue_download hmac secret (clock e 0) 60 (doc_id x) (organizationId a), 60),
                download_audit e a ''DOCUMENT_DOWNLOAD_AUTHORIZED'' x d))"

record download_stream =
  dls_key :: string
  dls_mimeType :: string
  dls_filename :: string

text \<open>What is streamed is named by its object key; the storage may fail after the audit is written.\<close>

definition download ::
  "(string \<Rightarrow> string \<Rightarrow> string) \<Rightarrow> string \<Rightarrow> env \<Rightarrow> failure option \<Rightarrow> auth_context \<Rightarrow> uuid \<Rightarrow> string option \<Rightarrow>
     db \<Rightarrow> (failure + download_stream) \<times> db" where
  "download hmac secret e stored a did token d =
     (case verify_download hmac secret (clock e 0) token did (organizationId a) of
        Inl err \<Rightarrow> (Inl err, d)
      | Inr _ \<Rightarrow>
      case run (\<lambda>d. case approvedDocument (organizationId a) did d of
            Inl err \<Rightarrow> Inl err
          | Inr x \<Rightarrow> Inr (x, download_audit e a ''DOCUMENT_DOWNLOADED'' x d)) d of
        (Inl err, d1) \<Rightarrow> (Inl err, d1)
      | (Inr x, d1) \<Rightarrow>
          (case stored of
             Some err \<Rightarrow> (Inl err, d1)
           | None \<Rightarrow> (Inr \<lparr>dls_key = the (doc_approvedKey x), dls_mimeType = doc_detectedMime x,
                          dls_filename = doc_filename x\<rparr>, d1)))"

end
