(* ===== verification/Pipeline.thy ===== *)
theory Pipeline
  imports Invoices
begin

text \<open>
  The ingestion worker, \<open>apps/worker/src/invoice-pipeline.ts\<close> and its driver \<open>main.ts\<close>: an uploaded
  document is scanned, promoted to the approved bucket with its hash and the earlier duplicate,
  read by OCR, and left for review; an infected one is blocked; an error resets the job for the
  next attempt or, at the last one, sends it to manual review.  The worker connects without
  row-level security and writes the tenant into every statement.  What the outside answers (object
  storage, ClamAV, OCR) is the record \<open>ingest_world\<close>; the advisory lock serializes the promotions
  of one hash, which the sequence of statements here does.
\<close>

record ingest_job =
  job_invoiceId :: uuid
  job_documentId :: uuid
  job_organizationId :: uuid
  job_correlationId :: uuid

text \<open>A failed call is the name of its error.\<close>

record ingest_world =
  iw_download :: "string option"
  iw_scan :: "string + bool"
  iw_sha256 :: string
  iw_put :: "string option"
  iw_delete :: "string option"
  iw_redownload :: "string option"
  iw_ocr :: "string + string \<times> (string \<times> string) list"

section \<open>Statements\<close>

definition for_job :: "ingest_job \<Rightarrow> processing \<Rightarrow> bool" where
  "for_job j p \<longleftrightarrow> pr_documentId p = job_documentId j \<and> pr_org p = job_organizationId j"

definition job_document :: "ingest_job \<Rightarrow> document \<Rightarrow> bool" where
  "job_document j x \<longleftrightarrow> doc_id x = job_documentId j \<and> doc_org x = job_organizationId j"

definition job_invoice :: "ingest_job \<Rightarrow> invoice \<Rightarrow> bool" where
  "job_invoice j i \<longleftrightarrow> inv_id i = job_invoiceId j \<and> inv_org i = job_organizationId j"

definition load :: "ingest_job \<Rightarrow> db \<Rightarrow> (document \<times> processing) option" where
  "load j d =
     Option.bind (find (\<lambda>x. job_document j x \<and> doc_invoiceId x = job_invoiceId j) (documents d)) (\<lambda>x.
       map_option (\<lambda>p. (x, p)) (find (for_job j) (processings d)))"

definition progress ::
  "time \<Rightarrow> ingest_job \<Rightarrow> processing_state \<Rightarrow> nat \<Rightarrow> bool \<Rightarrow> scan_result option \<Rightarrow> db \<Rightarrow> failure + db" where
  "progress now j st n incrementAttempt scan =
     update_processings (for_job j)
       (\<lambda>p. p\<lparr>pr_state := st, pr_progress := n,
              pr_attempts := pr_attempts p + (if incrementAttempt then 1 else 0),
              pr_scanResult := (case scan of None \<Rightarrow> pr_scanResult p | Some r \<Rightarrow> r),
              pr_startedAt := (case pr_startedAt p of None \<Rightarrow> Some now | Some t \<Rightarrow> Some t),
              pr_heartbeatAt := Some now\<rparr>)"

definition worker_audit :: "env \<Rightarrow> nat \<Rightarrow> ingest_job \<Rightarrow> string \<Rightarrow> json \<Rightarrow> db \<Rightarrow> db" where
  "worker_audit e k j action aft d =
     d\<lparr>audit := audit d @
       [\<lparr>au_id = new_uuid e k, au_org = job_organizationId j, au_actor = None, au_action = action,
         au_entityType = ''DOCUMENT'', au_entityId = job_documentId j, au_before = None,
         au_after = Some aft, au_reason = None, au_correlationId = job_correlationId j\<rparr>]\<rparr>"

definition set_status :: "ingest_job \<Rightarrow> invoice_status \<Rightarrow> db \<Rightarrow> db" where
  "set_status j st d =
     d\<lparr>invoices := update_rows (job_invoice j) (\<lambda>i. i\<lparr>inv_status := st\<rparr>) (invoices d)\<rparr>"

text \<open>The transaction of a clean scan; the trigger \<open>Document_identity_immutable\<close> guards the document.\<close>

definition duplicate_of :: "ingest_job \<Rightarrow> string \<Rightarrow> db \<Rightarrow> uuid option" where
  "duplicate_of j sha d =
     map_option doc_id (find (\<lambda>x. doc_org x = job_organizationId j \<and> doc_sha256 x = Some sha \<and>
        doc_id x \<noteq> job_documentId j) (documents d))"

definition identity_ok :: "document \<Rightarrow> document \<Rightarrow> bool" where
  "identity_ok old upd \<longleftrightarrow>
     doc_org upd = doc_org old \<and> doc_invoiceId upd = doc_invoiceId old \<and>
     doc_quarantineKey upd = doc_quarantineKey old \<and>
     (doc_approvedKey old = None \<or> doc_approvedKey upd = doc_approvedKey old) \<and>
     (doc_sha256 old = None \<or> doc_sha256 upd = doc_sha256 old)"

definition update_documents :: "ingest_job \<Rightarrow> (document \<Rightarrow> document) \<Rightarrow> db \<Rightarrow> failure + db" where
  "update_documents j f d =
     (if list_ex (\<lambda>x. job_document j x \<and> \<not> identity_ok x (f x)) (documents d)
      then Inl (DatabaseError ''document identity is immutable'')
      else if list_ex (\<lambda>x. job_document j x \<and> doc_approvedKey (f x) \<noteq> None \<and>
                list_ex (\<lambda>y. \<not> job_document j y \<and> doc_approvedKey y = doc_approvedKey (f x)) (documents d))
              (documents d)
      then Inl UniqueConstraint
      else Inr (d\<lparr>documents := update_rows (job_document j) f (documents d)\<rparr>))"

definition promote :: "time \<Rightarrow> ingest_job \<Rightarrow> string \<Rightarrow> string \<Rightarrow> (db, unit) work" where
  "promote now j approvedKey sha d =
     (case update_documents j (\<lambda>x. x\<lparr>doc_approvedKey := Some approvedKey, doc_sha256 := Some sha,
           doc_duplicateOf := duplicate_of j sha d, doc_storageState := STORED_APPROVED\<rparr>) d of
        Inl err \<Rightarrow> Inl err
      | Inr d1 \<Rightarrow>
      case update_processings (for_job j) (\<lambda>p. p\<lparr>pr_state := PROC_PARSED, pr_progress := 75,
           pr_scanResult := SCAN_CLEAN, pr_heartbeatAt := Some now\<rparr>) d1 of
        Inl err \<Rightarrow> Inl err
      | Inr d2 \<Rightarrow> Inr ((), d2))"

definition finish ::
  "env \<Rightarrow> time \<Rightarrow> ingest_job \<Rightarrow> string \<Rightarrow> (string \<times> string) list \<Rightarrow> (db, unit) work" where
  "finish e now j engine suggestions d =
     (case update_processings (for_job j) (\<lambda>p. p\<lparr>pr_state := PROC_NEEDS_REVIEW, pr_progress := 100,
           pr_ocrEngine := Some engine, pr_suggestions := Some suggestions,
           pr_completedAt := Some now, pr_heartbeatAt := Some now\<rparr>) d of
        Inl err \<Rightarrow> Inl err
      | Inr d1 \<Rightarrow>
          Inr ((), worker_audit e 2 j ''INVOICE_OCR_SUGGESTIONS_CREATED''
            (JObject [(''suggestionFields'', JArray (map (JString \<circ> fst) suggestions))])
            (set_status j NEEDS_REVIEW d1)))"

definition block :: "env \<Rightarrow> time \<Rightarrow> ingest_job \<Rightarrow> (db, unit) work" where
  "block e now j d =
     (case update_documents j (\<lambda>x. x\<lparr>doc_storageState := STORED_BLOCKED\<rparr>) d of
        Inl err \<Rightarrow> Inl err
      | Inr d1 \<Rightarrow>
      case update_processings (for_job j) (\<lambda>p. p\<lparr>pr_state := PROC_BLOCKED, pr_progress := 100,
           pr_scanResult := SCAN_INFECTED, pr_scanDetail := Some ''MALWARE_FOUND'',
           pr_completedAt := Some now\<rparr>) d1 of
        Inl err \<Rightarrow> Inl err
      | Inr d2 \<Rightarrow>
          Inr ((), worker_audit e 2 j ''DOCUMENT_BLOCKED'' (JObject [(''reason'', JString ''MALWARE_FOUND'')])
            (set_status j BLOCKED d2)))"

definition manualReview :: "time \<Rightarrow> ingest_job \<Rightarrow> string \<Rightarrow> db \<Rightarrow> failure + db" where
  "manualReview now j errorCode d =
     (case update_processings
         (\<lambda>p. for_job j p \<and> pr_state p \<noteq> PROC_NEEDS_REVIEW \<and> pr_state p \<noteq> PROC_BLOCKED)
         (\<lambda>p. p\<lparr>pr_state := PROC_MANUAL_REVIEW, pr_progress := 100,
                pr_scanResult := (if pr_scanResult p = SCAN_PENDING then SCAN_ERROR else pr_scanResult p),
                pr_errorCode := Some (take 80 errorCode),
                pr_errorMessage := Some ''Processing requires operator review'',
                pr_completedAt := Some now\<rparr>) d of
        Inl err \<Rightarrow> Inl err
      | Inr d1 \<Rightarrow>
          Inr (d1\<lparr>invoices := update_rows (\<lambda>i. job_invoice j i \<and> inv_status i = PROCESSING)
             (\<lambda>i. i\<lparr>inv_status := MANUAL_REVIEW\<rparr>) (invoices d1)\<rparr>))"

definition stored_approved :: "ingest_job \<Rightarrow> db \<Rightarrow> bool" where
  "stored_approved j d \<longleftrightarrow>
     list_ex (\<lambda>x. job_document j x \<and> doc_storageState x = STORED_APPROVED) (documents d)"

definition resetForRetry :: "time \<Rightarrow> ingest_job \<Rightarrow> db \<Rightarrow> failure + db" where
  "resetForRetry now j d =
     update_processings (\<lambda>p. for_job j p \<and> list_ex (job_document j) (documents d))
       (\<lambda>p. p\<lparr>pr_state := (if stored_approved j d then PROC_PARSED else PROC_QUARANTINED),
              pr_progress := (if stored_approved j d then 75 else 10),
              pr_errorCode := None, pr_errorMessage := None, pr_heartbeatAt := Some now\<rparr>) d"

section \<open>One attempt\<close>

text \<open>
  The part of \<open>process\<close> inside its \<open>try\<close>: the name of the error it ends with, if any, and the
  database, on which every statement before the error has been committed.
\<close>

definition pg_error :: string where
  "pg_error = ''error''"

definition read_document ::
  "env \<Rightarrow> ingest_world \<Rightarrow> ingest_job \<Rightarrow> db \<Rightarrow> string option \<times> db" where
  "read_document e w j d =
     (case iw_ocr w of
        Inl err \<Rightarrow> (Some err, d)
      | Inr (engine, suggestions) \<Rightarrow>
          (case run (finish e (clock e 3) j engine suggestions) d of
             (Inl _, d1) \<Rightarrow> (Some pg_error, d1)
           | (Inr _, d1) \<Rightarrow> (None, d1)))"

definition scan_document ::
  "env \<Rightarrow> ingest_world \<Rightarrow> ingest_job \<Rightarrow> db \<Rightarrow> string option \<times> db" where
  "scan_document e w j d =
     (case progress (clock e 0) j PROC_SCANNING 25 True None d of
        Inl _ \<Rightarrow> (Some pg_error, d)
      | Inr d1 \<Rightarrow>
      case iw_download w of
        Some err \<Rightarrow> (Some err, d1)
      | None \<Rightarrow>
      case iw_scan w of
        Inl err \<Rightarrow> (Some err, d1)
      | Inr clean \<Rightarrow>
      if \<not> clean then
        (case run (block e (clock e 1) j) d1 of
           (Inl _, d2) \<Rightarrow> (Some pg_error, d2)
         | (Inr _, d2) \<Rightarrow> (None, d2))
      else
      case iw_put w of
        Some err \<Rightarrow> (Some err, d1)
      | None \<Rightarrow>
      case run (promote (clock e 2) j (new_uuid e 0 @ ''/'' @ new_uuid e 1) (iw_sha256 w)) d1 of
        (Inl _, d2) \<Rightarrow> (Some pg_error, d2)
      | (Inr _, d2) \<Rightarrow>
      case iw_delete w of
        Some err \<Rightarrow> (Some err, d2)
      | None \<Rightarrow> read_document e w j d2)"

definition reread_document ::
  "env \<Rightarrow> ingest_world \<Rightarrow> ingest_job \<Rightarrow> db \<Rightarrow> string option \<times> db" where
  "reread_document e w j d =
     (case progress (clock e 0) j PROC_PARSED 75 True (Some SCAN_CLEAN) d of
        Inl _ \<Rightarrow> (Some pg_error, d)
      | Inr d1 \<Rightarrow>
      case iw_redownload w of
        Some err \<Rightarrow> (Some err, d1)
      | None \<Rightarrow> read_document e w j d1)"

definition handle_error ::
  "env \<Rightarrow> ingest_job \<Rightarrow> bool \<Rightarrow> string \<Rightarrow> db \<Rightarrow> string option \<times> db" where
  "handle_error e j finalAttempt err d =
     (case (if finalAttempt then manualReview (clock e 4) j err d else resetForRetry (clock e 4) j d) of
        Inl _ \<Rightarrow> (Some pg_error, d)
      | Inr d' \<Rightarrow> (Some err, d'))"

definition process_job ::
  "env \<Rightarrow> ingest_world \<Rightarrow> ingest_job \<Rightarrow> bool \<Rightarrow> db \<Rightarrow> string option \<times> db" where
  "process_job e w j finalAttempt d =
     (case load j d of
        None \<Rightarrow> (None, d)
      | Some (x, p) \<Rightarrow>
      if pr_state p \<in> {PROC_NEEDS_REVIEW, PROC_MANUAL_REVIEW, PROC_BLOCKED} then (None, d)
      else
      case (if doc_storageState x = STORED_QUARANTINED then scan_document e w j d
            else reread_document e w j d) of
        (None, d1) \<Rightarrow> (None, d1)
      | (Some err, d1) \<Rightarrow> handle_error e j finalAttempt err d1)"

section \<open>The attempts of a job\<close>

text \<open>
  \<open>main.ts\<close>: an attempt is the last one when the attempts made before it reach the limit of the
  queue, three.  A failed attempt is repeated by the queue with the next number.
\<close>

definition is_final :: "nat \<Rightarrow> nat option \<Rightarrow> bool" where
  "is_final attemptsMade attempts \<longleftrightarrow>
     (case attempts of None \<Rightarrow> 1 | Some n \<Rightarrow> n) \<le> attemptsMade + 1"

fun run_attempts ::
  "(env \<times> ingest_world) list \<Rightarrow> nat \<Rightarrow> nat option \<Rightarrow> ingest_job \<Rightarrow> db \<Rightarrow> string option \<times> db" where
  "run_attempts [] made limit_of j d = (None, d)"
| "run_attempts ((e, w) # ews) made limit_of j d =
     (case process_job e w j (is_final made limit_of) d of
        (None, d') \<Rightarrow> (None, d')
      | (Some err, d') \<Rightarrow>
          if is_final made limit_of then (Some err, d') else run_attempts ews (Suc made) limit_of j d')"

end
