(* ===== verification/Sessions.thy ===== *)
theory Sessions
  imports Database Encoding
begin

text \<open>
  \<open>apps/api/src/identity/session-token.service.ts\<close> and \<open>identity/session.service.ts\<close>: signed access
  tokens, sessions with one-time refresh tokens, their rotation with detection of reuse, and
  revocation.  The HMAC is the argument \<open>hmac\<close>, from the key and the text to the digest's base64url;
  an opaque token is a reading of \<open>random_token\<close>.
\<close>

section \<open>Access tokens\<close>

record access_payload =
  pl_sessionId :: string
  pl_userId :: string
  pl_organizationId :: string
  pl_expiresAt :: int

definition invalid_access_token :: failure where
  "invalid_access_token = Http Unauthorized ''ACCESS_SESSION_INVALID''"

definition session_signing_key :: "string option \<Rightarrow> failure + string" where
  "session_signing_key configured =
     (let key = (case configured of None \<Rightarrow> ''development_only_replace_with_32_random_bytes'' | Some k \<Rightarrow> k)
      in if length key < 32
         then Inl (ExternalError ''SESSION_SIGNING_KEY must contain at least 32 characters.'')
         else Inr key)"

definition session_key :: string where
  "session_key = ''{'' @ stringify_string ''version'' @ '':1,'' @ stringify_string ''sessionId'' @ '':''"

definition user_key :: string where
  "user_key = '','' @ stringify_string ''userId'' @ '':''"

definition tenant_key :: string where
  "tenant_key = '','' @ stringify_string ''organizationId'' @ '':''"

definition until_key :: string where
  "until_key = '','' @ stringify_string ''expiresAt'' @ '':''"

definition payload_json :: "access_payload \<Rightarrow> string" where
  "payload_json p =
     session_key @ stringify_string (pl_sessionId p) @ user_key @ stringify_string (pl_userId p)
       @ tenant_key @ stringify_string (pl_organizationId p)
       @ until_key @ show_int (pl_expiresAt p) @ ''}''"

text \<open>
  \<open>JSON.parse\<close> and the checks of the types, on payloads of version 1 as \<open>signAccessToken\<close> writes
  them; the texts that reach it carry a valid signature.
\<close>

definition parse_payload :: "string \<Rightarrow> access_payload option" where
  "parse_payload s =
     Option.bind (expect session_key s) (\<lambda>s1.
     Option.bind (parse_string s1) (\<lambda>(sid, s2).
     Option.bind (expect user_key s2) (\<lambda>s3.
     Option.bind (parse_string s3) (\<lambda>(uid, s4).
     Option.bind (expect tenant_key s4) (\<lambda>s5.
     Option.bind (parse_string s5) (\<lambda>(org, s6).
     Option.bind (expect until_key s6) (\<lambda>s7.
     if s7 \<noteq> [] \<and> last s7 = CHR ''}'' then
       map_option (\<lambda>n. \<lparr>pl_sessionId = sid, pl_userId = uid, pl_organizationId = org, pl_expiresAt = n\<rparr>)
         (read_int (butlast s7))
     else None)))))))"

definition signAccessToken :: "(string \<Rightarrow> string \<Rightarrow> string) \<Rightarrow> string \<Rightarrow> access_payload \<Rightarrow> string" where
  "signAccessToken hmac key p =
     (let enc = base64url_encode (utf8_encode (payload_json p))
      in ''v1.'' @ enc @ ''.'' @ hmac key enc)"

definition verifyAccessToken ::
  "(string \<Rightarrow> string \<Rightarrow> string) \<Rightarrow> string \<Rightarrow> time \<Rightarrow> string \<Rightarrow> failure + access_payload" where
  "verifyAccessToken hmac key now token =
     (case split_on (CHR ''.'') token of
        version # enc # supplied # others \<Rightarrow>
          if version \<noteq> ''v1'' \<or> enc = [] \<or> supplied = [] \<or> (others \<noteq> [] \<and> hd others \<noteq> [])
          then Inl invalid_access_token
          else if hmac key enc \<noteq> supplied then Inl invalid_access_token
          else
          (case parse_payload (utf8_decode (base64_decode enc)) of
             None \<Rightarrow> Inl invalid_access_token
           | Some p \<Rightarrow> if pl_expiresAt p \<le> now then Inl invalid_access_token else Inr p)
      | _ \<Rightarrow> Inl invalid_access_token)"

lemma parse_payload_json [simp]: "parse_payload (payload_json p) = Some p"
  by (cases p) (simp add: parse_payload_def payload_json_def butlast_append)

section \<open>Sessions\<close>

record metadata =
  md_userAgent :: "string option"
  md_ipAddress :: "string option"

record session_bundle =
  sb_sessionId :: uuid
  sb_accessToken :: string
  sb_refreshToken :: string
  sb_csrfToken :: string
  sb_accessExpiresAt :: time
  sb_refreshExpiresAt :: time

definition metadataFrom :: "string option \<Rightarrow> string option \<Rightarrow> metadata" where
  "metadataFrom userAgent ip =
     \<lparr>md_userAgent = (let u = map_option (take 512) userAgent in if truthy u then u else None),
      md_ipAddress =
        (let i = map_option (\<lambda>s. if is_prefix ''::ffff:'' s then drop 7 s else s) ip
         in if truthy i then i else None)\<rparr>"

definition session_keys :: "(session \<Rightarrow> string list) list" where
  "session_keys = [\<lambda>s. [ses_id s], \<lambda>s. [[], ses_refreshHash s]]"

definition token_keys :: "(refresh_token \<Rightarrow> string list) list" where
  "token_keys = [\<lambda>t. [tok_id t], \<lambda>t. [[], tok_hash t]]"

definition new_token :: "uuid \<Rightarrow> uuid \<Rightarrow> string \<Rightarrow> time \<Rightarrow> refresh_token" where
  "new_token ident sid h expires =
     \<lparr>tok_id = ident, tok_sessionId = sid, tok_hash = h, tok_expiresAt = expires,
      tok_usedAt = None, tok_revokedAt = None\<rparr>"

definition new_session :: "env \<Rightarrow> uuid \<Rightarrow> uuid \<Rightarrow> metadata \<Rightarrow> session" where
  "new_session e uid org md =
     \<lparr>ses_id = new_uuid e 0, ses_userId = uid, ses_org = org, ses_family = new_uuid e 1,
      ses_refreshHash = sha256 e (random_token e 0), ses_csrfHash = sha256 e (random_token e 1),
      ses_userAgent = md_userAgent md, ses_ipAddress = md_ipAddress md, ses_rotation = 0,
      ses_stepUp = None, ses_lastUsedAt = clock e 2, ses_expiresAt = clock e 0 + refreshTtl e,
      ses_revokedAt = None, ses_createdAt = clock e 2\<rparr>"

definition create_session_tx :: "env \<Rightarrow> uuid \<Rightarrow> uuid \<Rightarrow> metadata \<Rightarrow> (db, session) work" where
  "create_session_tx e uid org md d =
     (let s = new_session e uid org md in
      case create_unique session_keys s (sessions d) of
        Inl err \<Rightarrow> Inl err
      | Inr ss \<Rightarrow>
      case create_unique token_keys
          (new_token (new_uuid e 2) (ses_id s) (ses_refreshHash s) (ses_expiresAt s)) (tokens d) of
        Inl err \<Rightarrow> Inl err
      | Inr ts \<Rightarrow> Inr (s, d\<lparr>sessions := ss, tokens := ts\<rparr>))"

definition bundle_of ::
  "(string \<Rightarrow> string \<Rightarrow> string) \<Rightarrow> string \<Rightarrow> env \<Rightarrow> session \<Rightarrow> session_bundle" where
  "bundle_of hmac key e s =
     (let accessExpiresAt = clock e 1 + accessTtl e in
      \<lparr>sb_sessionId = ses_id s,
       sb_accessToken = signAccessToken hmac key
         \<lparr>pl_sessionId = ses_id s, pl_userId = ses_userId s, pl_organizationId = ses_org s,
          pl_expiresAt = accessExpiresAt\<rparr>,
       sb_refreshToken = random_token e 0, sb_csrfToken = random_token e 1,
       sb_accessExpiresAt = accessExpiresAt, sb_refreshExpiresAt = ses_expiresAt s\<rparr>)"

definition create_session ::
  "(string \<Rightarrow> string \<Rightarrow> string) \<Rightarrow> string \<Rightarrow> env \<Rightarrow> uuid \<Rightarrow> uuid \<Rightarrow> metadata \<Rightarrow> db \<Rightarrow>
     (failure + session_bundle) \<times> db" where
  "create_session hmac key e uid org md d =
     (case run (create_session_tx e uid org md) d of
        (Inl err, d') \<Rightarrow> (Inl err, d')
      | (Inr s, d') \<Rightarrow> (Inr (bundle_of hmac key e s), d'))"

section \<open>Authentication\<close>

definition invalid_access_session :: failure where
  "invalid_access_session = Http Unauthorized ''ACCESS_SESSION_INACTIVE''"

definition user_of :: "uuid \<Rightarrow> db \<Rightarrow> user option" where
  "user_of uid d = find (\<lambda>u. user_id u = uid) (users d)"

definition member_of :: "uuid \<Rightarrow> uuid \<Rightarrow> db \<Rightarrow> membership option" where
  "member_of org uid d = find (\<lambda>m. mem_org m = org \<and> mem_userId m = uid) (memberships d)"

text \<open>An active user with an active membership that has not ended.\<close>

definition entitled :: "time \<Rightarrow> uuid \<Rightarrow> uuid \<Rightarrow> db \<Rightarrow> bool" where
  "entitled now org uid d \<longleftrightarrow>
     (case user_of uid d of None \<Rightarrow> False | Some u \<Rightarrow> user_status u = USER_ACTIVE) \<and>
     (case member_of org uid d of
        None \<Rightarrow> False
      | Some m \<Rightarrow> mem_status m = MEMBER_ACTIVE \<and>
          (case mem_validUntil m of None \<Rightarrow> True | Some t \<Rightarrow> now < t))"

definition authenticateAccessToken ::
  "(string \<Rightarrow> string \<Rightarrow> string) \<Rightarrow> string \<Rightarrow> env \<Rightarrow> string \<Rightarrow> db \<Rightarrow> failure + auth_context" where
  "authenticateAccessToken hmac key e token d =
     (case verifyAccessToken hmac key (clock e 0) token of
        Inl err \<Rightarrow> Inl err
      | Inr p \<Rightarrow>
      case find (\<lambda>s. ses_id s = pl_sessionId p) (sessions d) of
        None \<Rightarrow> Inl invalid_access_session
      | Some s \<Rightarrow>
      if ses_userId s \<noteq> pl_userId p \<or> ses_org s \<noteq> pl_organizationId p \<or> ses_revokedAt s \<noteq> None \<or>
         ses_expiresAt s \<le> clock e 1
      then Inl invalid_access_session
      else
      case member_of (ses_org s) (ses_userId s) d of
        None \<Rightarrow> Inl invalid_access_session
      | Some m \<Rightarrow>
      if \<not> entitled (clock e 2) (ses_org s) (ses_userId s) d then Inl invalid_access_session
      else Inr \<lparr>userId = ses_userId s, membershipId = mem_id m, sessionId = ses_id s,
                organizationId = ses_org s, role = mem_role m, authenticatedAt = ses_createdAt s,
                stepUpVerifiedAt = ses_stepUp s\<rparr>)"

section \<open>Revocation\<close>

definition in_family :: "uuid \<Rightarrow> db \<Rightarrow> refresh_token \<Rightarrow> bool" where
  "in_family fam d t \<longleftrightarrow> list_ex (\<lambda>s. ses_id s = tok_sessionId t \<and> ses_family s = fam) (sessions d)"

definition revokeFamily :: "uuid \<Rightarrow> time \<Rightarrow> db \<Rightarrow> db" where
  "revokeFamily fam now d =
     d\<lparr>sessions := update_rows (\<lambda>s. ses_family s = fam \<and> ses_revokedAt s = None)
          (\<lambda>s. s\<lparr>ses_revokedAt := Some now\<rparr>) (sessions d),
       tokens := update_rows (\<lambda>t. in_family fam d t \<and> tok_revokedAt t = None)
          (\<lambda>t. t\<lparr>tok_revokedAt := Some now\<rparr>) (tokens d)\<rparr>"

definition revoke :: "env \<Rightarrow> uuid \<Rightarrow> db \<Rightarrow> db" where
  "revoke e sid d =
     (case find (\<lambda>s. ses_id s = sid) (sessions d) of
        None \<Rightarrow> d
      | Some s \<Rightarrow> revokeFamily (ses_family s) (clock e 0) d)"

definition of_user :: "uuid \<Rightarrow> db \<Rightarrow> refresh_token \<Rightarrow> bool" where
  "of_user uid d t \<longleftrightarrow> list_ex (\<lambda>s. ses_id s = tok_sessionId t \<and> ses_userId s = uid) (sessions d)"

definition revokeAll :: "env \<Rightarrow> uuid \<Rightarrow> db \<Rightarrow> db" where
  "revokeAll e uid d =
     d\<lparr>sessions := update_rows (\<lambda>s. ses_userId s = uid \<and> ses_revokedAt s = None)
          (\<lambda>s. s\<lparr>ses_revokedAt := Some (clock e 0)\<rparr>) (sessions d),
       tokens := update_rows (\<lambda>t. of_user uid d t \<and> tok_revokedAt t = None)
          (\<lambda>t. t\<lparr>tok_revokedAt := Some (clock e 0)\<rparr>) (tokens d)\<rparr>"

section \<open>Rotation\<close>

datatype rotation = INVALID | REUSED | ROTATED session

definition refresh_reused :: failure where
  "refresh_reused = Http Unauthorized ''REFRESH_TOKEN_REUSED''"

definition invalid_refresh_session :: failure where
  "invalid_refresh_session = Http Unauthorized ''REFRESH_SESSION_INVALID''"

definition or_old :: "'a option \<Rightarrow> 'a option \<Rightarrow> 'a option" where
  "or_old upd old = (case upd of None \<Rightarrow> old | Some x \<Rightarrow> Some x)"

definition rotated_session :: "env \<Rightarrow> metadata \<Rightarrow> session \<Rightarrow> session" where
  "rotated_session e md s =
     s\<lparr>ses_refreshHash := sha256 e (random_token e 0), ses_csrfHash := sha256 e (random_token e 1),
       ses_lastUsedAt := clock e 0, ses_rotation := ses_rotation s + 1,
       ses_userAgent := or_old (md_userAgent md) (ses_userAgent s),
       ses_ipAddress := or_old (md_ipAddress md) (ses_ipAddress s)\<rparr>"

definition use_token :: "env \<Rightarrow> metadata \<Rightarrow> refresh_token \<Rightarrow> session \<Rightarrow> (db, rotation) work" where
  "use_token e md t s d =
     (let P = (\<lambda>x. tok_id x = tok_id t \<and> tok_usedAt x = None \<and> tok_revokedAt x = None);
          d1 = d\<lparr>tokens := update_rows P (\<lambda>x. x\<lparr>tok_usedAt := Some (clock e 0)\<rparr>) (tokens d)\<rparr> in
      if count_rows P (tokens d) \<noteq> 1 then Inr (REUSED, revokeFamily (ses_family s) (clock e 0) d1)
      else
      case update_unique session_keys (\<lambda>x. ses_id x = ses_id s) (rotated_session e md) (sessions d1) of
        Inl err \<Rightarrow> Inl err
      | Inr ss \<Rightarrow>
      case create_unique token_keys
          (new_token (new_uuid e 0) (ses_id s) (sha256 e (random_token e 0)) (ses_expiresAt s)) (tokens d1) of
        Inl err \<Rightarrow> Inl err
      | Inr ts \<Rightarrow> Inr (ROTATED s, d1\<lparr>sessions := ss, tokens := ts\<rparr>))"

definition rotate_tx :: "env \<Rightarrow> string \<Rightarrow> metadata \<Rightarrow> (db, rotation) work" where
  "rotate_tx e refreshToken md d =
     (let now = clock e 0 in
      case find (\<lambda>t. tok_hash t = sha256 e refreshToken) (tokens d) of
        None \<Rightarrow> Inr (INVALID, d)
      | Some t \<Rightarrow>
      case find (\<lambda>s. ses_id s = tok_sessionId t) (sessions d) of
        None \<Rightarrow> Inl (DatabaseError ''SessionRefreshToken_sessionId_fkey'')
      | Some s \<Rightarrow>
      if tok_usedAt t \<noteq> None \<or> tok_revokedAt t \<noteq> None
      then Inr (REUSED, revokeFamily (ses_family s) now d)
      else if ses_revokedAt s \<noteq> None \<or> ses_expiresAt s \<le> now \<or> tok_expiresAt t \<le> now
      then Inr (INVALID, revokeFamily (ses_family s) now d)
      else if \<not> entitled now (ses_org s) (ses_userId s) d
      then Inr (INVALID, revokeFamily (ses_family s) now d)
      else use_token e md t s d)"

text \<open>The revocation of a reused or invalid token is committed; the exception comes after it.\<close>

definition rotate ::
  "(string \<Rightarrow> string \<Rightarrow> string) \<Rightarrow> string \<Rightarrow> env \<Rightarrow> string \<Rightarrow> metadata \<Rightarrow> db \<Rightarrow>
     (failure + session_bundle) \<times> db" where
  "rotate hmac key e refreshToken md d =
     (case run (rotate_tx e refreshToken md) d of
        (Inl err, d') \<Rightarrow> (Inl err, d')
      | (Inr REUSED, d') \<Rightarrow> (Inl refresh_reused, d')
      | (Inr INVALID, d') \<Rightarrow> (Inl invalid_refresh_session, d')
      | (Inr (ROTATED s), d') \<Rightarrow> (Inr (bundle_of hmac key e s), d'))"

end
