(* ===== verification/Passkeys.thy ===== *)
theory Passkeys
  imports Sessions
begin

text \<open>
  \<open>apps/api/src/identity/passkey.service.ts\<close>: registration of passkeys and step-up verification of a
  session, each over a challenge that is used once.  The verification of an authenticator's answer
  is the library \<open>@simplewebauthn/server\<close>: an argument from the answer and the expected challenge
  to an exception, a refusal or the verified facts.
\<close>

section \<open>Authenticator answers\<close>

record assertion =
  as_id :: string
  as_body :: string

record registration_info =
  ri_credentialId :: string
  ri_publicKey :: string
  ri_counter :: int
  ri_transports :: "string list option"
  ri_backedUp :: bool

record authentication_info =
  ai_userVerified :: bool
  ai_newCounter :: int
  ai_backedUp :: bool

type_synonym registration_verifier = "assertion \<Rightarrow> string \<Rightarrow> failure + registration_info option"
type_synonym authentication_verifier =
  "assertion \<Rightarrow> string \<Rightarrow> credential \<Rightarrow> failure + authentication_info option"

record passkey_options =
  po_challenge :: string
  po_credentials :: "(string \<times> string list) list"

definition isAuthenticatorTransport :: "string \<Rightarrow> bool" where
  "isAuthenticatorTransport v \<longleftrightarrow>
     v \<in> {''ble'', ''cable'', ''hybrid'', ''internal'', ''nfc'', ''smart-card'', ''usb''}"

definition transportsForWebAuthn :: "string list \<Rightarrow> string list" where
  "transportsForWebAuthn vs = filter isAuthenticatorTransport vs"

definition passkey_options :: "string \<Rightarrow> credential list \<Rightarrow> passkey_options" where
  "passkey_options challenge cs =
     \<lparr>po_challenge = challenge,
      po_credentials = map (\<lambda>c. (cred_credentialId c, transportsForWebAuthn (cred_transports c))) cs\<rparr>"

section \<open>Failures\<close>

definition verification_failed :: failure where
  "verification_failed = Http BadRequest ''PASSKEY_VERIFICATION_FAILED''"

definition challenge_consumed :: failure where
  "challenge_consumed = Http BadRequest ''PASSKEY_CHALLENGE_REPLAYED''"

definition challenge_invalid :: failure where
  "challenge_invalid = Http BadRequest ''PASSKEY_CHALLENGE_INVALID''"

section \<open>Challenges\<close>

definition challengeTtlMilliseconds :: time where
  "challengeTtlMilliseconds = 5 * 60 * 1000"

definition challenge_keys :: "(challenge \<Rightarrow> string list) list" where
  "challenge_keys = [\<lambda>c. [ch_id c], \<lambda>c. [[], ch_challenge c]]"

definition replaceChallenge ::
  "env \<Rightarrow> auth_context \<Rightarrow> challenge_purpose \<Rightarrow> string \<Rightarrow> (db, unit) work" where
  "replaceChallenge e a purpose challenge d =
     (let now = clock e 3;
          retired = update_rows (\<lambda>c. ch_sessionId c = sessionId a \<and> ch_purpose c = purpose \<and> ch_usedAt c = None)
            (\<lambda>c. c\<lparr>ch_usedAt := Some now\<rparr>) (challenges d);
          c = \<lparr>ch_id = new_uuid e 0, ch_userId = userId a, ch_sessionId = sessionId a,
            ch_purpose = purpose, ch_challenge = challenge,
            ch_expiresAt = now + challengeTtlMilliseconds, ch_usedAt = None\<rparr> in
      case create_unique challenge_keys c retired of
        Inl err \<Rightarrow> Inl err
      | Inr cs \<Rightarrow> Inr ((), d\<lparr>challenges := cs\<rparr>))"

definition activeChallenge :: "time \<Rightarrow> auth_context \<Rightarrow> challenge_purpose \<Rightarrow> db \<Rightarrow> failure + challenge" where
  "activeChallenge now a purpose d =
     (case find_latest (\<lambda>c. ch_userId c = userId a \<and> ch_sessionId c = sessionId a \<and>
            ch_purpose c = purpose \<and> ch_usedAt c = None \<and> now < ch_expiresAt c) (challenges d) of
        None \<Rightarrow> Inl challenge_invalid
      | Some c \<Rightarrow> Inr c)"

definition live_challenge :: "time \<Rightarrow> uuid \<Rightarrow> challenge \<Rightarrow> bool" where
  "live_challenge now cid c \<longleftrightarrow> ch_id c = cid \<and> ch_usedAt c = None \<and> now < ch_expiresAt c"

definition consume_challenge :: "time \<Rightarrow> time \<Rightarrow> uuid \<Rightarrow> db \<Rightarrow> db" where
  "consume_challenge now used cid d =
     d\<lparr>challenges := update_rows (live_challenge now cid)
        (\<lambda>c. c\<lparr>ch_usedAt := Some used\<rparr>) (challenges d)\<rparr>"

section \<open>Registration\<close>

definition credentials_of :: "uuid \<Rightarrow> db \<Rightarrow> credential list" where
  "credentials_of uid d = filter (\<lambda>c. cred_userId c = uid) (credentials d)"

definition assertRegistrationAuthorized :: "env \<Rightarrow> auth_context \<Rightarrow> nat \<Rightarrow> failure + unit" where
  "assertRegistrationAuthorized e a n =
     (let hasRecentStepUp = (case stepUpVerifiedAt a of
            None \<Rightarrow> False | Some t \<Rightarrow> clock e 0 - t \<le> 5 * 60 * 1000);
          hasRecentLogin = (clock e 1 - authenticatedAt a \<le> 10 * 60 * 1000) in
      if (0 < n \<and> \<not> hasRecentStepUp) \<or> (n = 0 \<and> \<not> hasRecentLogin)
      then Inl (Http Forbidden (if 0 < n then ''STEP_UP_REQUIRED'' else ''RECENT_LOGIN_REQUIRED''))
      else Inr ())"

definition registrationOptions ::
  "env \<Rightarrow> auth_context \<Rightarrow> db \<Rightarrow> (failure + passkey_options) \<times> db" where
  "registrationOptions e a d =
     (case user_of (userId a) d of
        None \<Rightarrow> (Inl (DatabaseError ''P2025''), d)
      | Some _ \<Rightarrow>
      case assertRegistrationAuthorized e a (length (credentials_of (userId a) d)) of
        Inl err \<Rightarrow> (Inl err, d)
      | Inr _ \<Rightarrow>
          let options = passkey_options (random_token e 0) (credentials_of (userId a) d) in
          case run (replaceChallenge e a REGISTRATION (po_challenge options)) d of
            (Inl err, d') \<Rightarrow> (Inl err, d')
          | (Inr _, d') \<Rightarrow> (Inr options, d'))"

definition credential_keys :: "(credential \<Rightarrow> string list) list" where
  "credential_keys = [\<lambda>c. [cred_id c], \<lambda>c. [[], cred_credentialId c]]"

definition new_credential ::
  "env \<Rightarrow> auth_context \<Rightarrow> registration_info \<Rightarrow> string option \<Rightarrow> credential" where
  "new_credential e a info deviceName =
     \<lparr>cred_id = new_uuid e 0, cred_userId = userId a, cred_credentialId = ri_credentialId info,
      cred_publicKey = ri_publicKey info, cred_counter = ri_counter info,
      cred_transports = (case ri_transports info of None \<Rightarrow> [] | Some ts \<Rightarrow> ts),
      cred_deviceName = (if truthy deviceName then deviceName else None),
      cred_backedUp = ri_backedUp info, cred_lastUsedAt = None\<rparr>"

text \<open>The transaction returns nothing when the challenge was consumed meanwhile.\<close>

definition register_tx ::
  "env \<Rightarrow> auth_context \<Rightarrow> challenge \<Rightarrow> registration_info \<Rightarrow> string option \<Rightarrow> (db, credential option) work" where
  "register_tx e a c info deviceName d =
     (if count_rows (live_challenge (clock e 1) (ch_id c)) (challenges d) \<noteq> 1
      then Inr (None, consume_challenge (clock e 1) (clock e 2) (ch_id c) d)
      else
      let d1 = consume_challenge (clock e 1) (clock e 2) (ch_id c) d;
          cr = new_credential e a info deviceName in
      case create_unique credential_keys cr (credentials d1) of
        Inl err \<Rightarrow> Inl err
      | Inr crs \<Rightarrow> Inr (Some cr, d1\<lparr>credentials := crs\<rparr>))"

definition verifyRegistration ::
  "registration_verifier \<Rightarrow> env \<Rightarrow> auth_context \<Rightarrow> assertion \<Rightarrow> string option \<Rightarrow> db \<Rightarrow>
     (failure + string \<times> string option) \<times> db" where
  "verifyRegistration verifier e a response deviceName d =
     (case activeChallenge (clock e 0) a REGISTRATION d of
        Inl err \<Rightarrow> (Inl err, d)
      | Inr c \<Rightarrow>
      case verifier response (ch_challenge c) of
        Inl err \<Rightarrow> (Inl err, d)
      | Inr None \<Rightarrow> (Inl verification_failed, d)
      | Inr (Some info) \<Rightarrow>
      case run (register_tx e a c info deviceName) d of
        (Inl err, d') \<Rightarrow> (Inl err, d')
      | (Inr None, d') \<Rightarrow> (Inl challenge_consumed, d')
      | (Inr (Some cr), d') \<Rightarrow> (Inr (cred_credentialId cr, cred_deviceName cr), d'))"

section \<open>Step-up\<close>

definition stepUpOptions :: "env \<Rightarrow> auth_context \<Rightarrow> db \<Rightarrow> (failure + passkey_options) \<times> db" where
  "stepUpOptions e a d =
     (let cs = credentials_of (userId a) d in
      if cs = [] then (Inl (Http Forbidden ''PASSKEY_REQUIRED''), d)
      else
        let options = passkey_options (random_token e 0) cs in
        case run (replaceChallenge e a STEP_UP (po_challenge options)) d of
          (Inl err, d') \<Rightarrow> (Inl err, d')
        | (Inr _, d') \<Rightarrow> (Inr options, d'))"

definition step_up_tx ::
  "env \<Rightarrow> auth_context \<Rightarrow> challenge \<Rightarrow> credential \<Rightarrow> authentication_info \<Rightarrow> (db, bool) work" where
  "step_up_tx e a c cr info d =
     (let verifiedAt = clock e 1; d1 = consume_challenge verifiedAt verifiedAt (ch_id c) d in
      if count_rows (live_challenge verifiedAt (ch_id c)) (challenges d) \<noteq> 1 then Inr (False, d1)
      else if \<not> list_ex (\<lambda>s. ses_id s = sessionId a) (sessions d1) then Inl (DatabaseError ''P2025'')
      else Inr (True,
        d1\<lparr>credentials := update_rows (\<lambda>x. cred_id x = cred_id cr)
              (\<lambda>x. x\<lparr>cred_counter := ai_newCounter info, cred_backedUp := ai_backedUp info,
                     cred_lastUsedAt := Some verifiedAt\<rparr>) (credentials d1),
           sessions := update_rows (\<lambda>s. ses_id s = sessionId a)
              (\<lambda>s. s\<lparr>ses_stepUp := Some verifiedAt\<rparr>) (sessions d1)\<rparr>))"

definition verifyStepUp ::
  "authentication_verifier \<Rightarrow> env \<Rightarrow> auth_context \<Rightarrow> assertion \<Rightarrow> db \<Rightarrow> (failure + string) \<times> db" where
  "verifyStepUp verifier e a response d =
     (case activeChallenge (clock e 0) a STEP_UP d of
        Inl err \<Rightarrow> (Inl err, d)
      | Inr c \<Rightarrow>
      case find (\<lambda>x. cred_credentialId x = as_id response) (credentials d) of
        None \<Rightarrow> (Inl verification_failed, d)
      | Some cr \<Rightarrow>
      if cred_userId cr \<noteq> userId a then (Inl verification_failed, d)
      else if \<bar>cred_counter cr\<bar> \<ge> 2 ^ 53 then (Inl verification_failed, d)
      else
      case verifier response (ch_challenge c) cr of
        Inl err \<Rightarrow> (Inl err, d)
      | Inr None \<Rightarrow> (Inl verification_failed, d)
      | Inr (Some info) \<Rightarrow>
      if \<not> ai_userVerified info then (Inl verification_failed, d)
      else
      case run (step_up_tx e a c cr info) d of
        (Inl err, d') \<Rightarrow> (Inl err, d')
      | (Inr False, d') \<Rightarrow> (Inl challenge_consumed, d')
      | (Inr True, d') \<Rightarrow> (Inr (toISOString (clock e 1)), d'))"

end
