(* ===== verification/Fake_Bank.thy ===== *)
theory Fake_Bank
  imports Database
begin

text \<open>
  \<open>apps/api/src/integrations/fake-bank-webhook.ts\<close> and \<open>fake-bank.service.ts\<close>: the signature of a
  webhook of the fake bank and the ledger of its deliveries, each event recorded once.  The HMAC is
  the argument \<open>hmac\<close>, from the key and the text to the digest in hexadecimal.
\<close>

record fake_bank_payload =
  fb_eventId :: uuid
  fb_organizationId :: uuid
  fb_vendorId :: uuid
  fb_bankAccountVersionId :: uuid
  fb_status :: bank_status

definition fb_status_name :: "bank_status \<Rightarrow> string" where
  "fb_status_name s =
     (case s of BANK_PENDING \<Rightarrow> ''PENDING'' | BANK_VERIFIED \<Rightarrow> ''VERIFIED'' | BANK_REJECTED \<Rightarrow> ''REJECTED'')"

definition payload_object :: "fake_bank_payload \<Rightarrow> json" where
  "payload_object p = JObject
     [(''eventId'', JString (fb_eventId p)), (''organizationId'', JString (fb_organizationId p)),
      (''vendorId'', JString (fb_vendorId p)),
      (''bankAccountVersionId'', JString (fb_bankAccountVersionId p)),
      (''status'', JString (fb_status_name (fb_status p)))]"

definition signed_text :: "fake_bank_payload \<Rightarrow> string \<Rightarrow> string" where
  "signed_text p timestamp = timestamp @ ''.'' @ canonicalJson (payload_object p)"

definition signFakeBankWebhook ::
  "(string \<Rightarrow> string \<Rightarrow> string) \<Rightarrow> fake_bank_payload \<Rightarrow> string \<Rightarrow> string \<Rightarrow> string" where
  "signFakeBankWebhook hmac p timestamp secret = ''sha256='' @ hmac secret (signed_text p timestamp)"

definition verifyFakeBankWebhook ::
  "(string \<Rightarrow> string \<Rightarrow> string) \<Rightarrow> fake_bank_payload \<Rightarrow> string option \<Rightarrow> string option \<Rightarrow> string \<Rightarrow>
     time \<Rightarrow> int \<Rightarrow> bool" where
  "verifyFakeBankWebhook hmac p timestamp signature secret now maximumAgeSeconds \<longleftrightarrow>
     truthy timestamp \<and> truthy signature \<and>
     length (the timestamp) = 10 \<and> list_all is_digit (the timestamp) \<and>
     \<bar>now div 1000 - int (read_nat (the timestamp))\<bar> \<le> maximumAgeSeconds \<and>
     the signature = signFakeBankWebhook hmac p (the timestamp) secret"

record webhook_result =
  wr_accepted :: bool
  wr_duplicate :: bool
  wr_stateTransitioned :: bool

definition delivery_keys :: "(delivery \<Rightarrow> string list) list" where
  "delivery_keys = [\<lambda>x. [dlv_id x], \<lambda>x. [dlv_org x, dlv_eventId x]]"

definition last_delivery :: "db \<Rightarrow> uuid \<Rightarrow> uuid \<Rightarrow> delivery option" where
  "last_delivery d org bid =
     find_latest (\<lambda>x. dlv_org x = org \<and> dlv_bankVersionId x = bid) (deliveries d)"

definition transitioned :: "db \<Rightarrow> fake_bank_payload \<Rightarrow> bool" where
  "transitioned d p \<longleftrightarrow>
     (case last_delivery d (fb_organizationId p) (fb_bankAccountVersionId p) of
        None \<Rightarrow> BANK_PENDING | Some x \<Rightarrow> dlv_status x) \<noteq> fb_status p"

definition new_delivery :: "env \<Rightarrow> fake_bank_payload \<Rightarrow> string \<Rightarrow> string \<Rightarrow> delivery" where
  "new_delivery e p timestamp payloadHash =
     \<lparr>dlv_id = new_uuid e 0, dlv_org = fb_organizationId p, dlv_eventId = fb_eventId p,
      dlv_vendorId = fb_vendorId p, dlv_bankVersionId = fb_bankAccountVersionId p,
      dlv_status = fb_status p, dlv_payloadHash = payloadHash,
      dlv_timestamp = int (read_nat timestamp) * 1000\<rparr>"

definition webhook_tx ::
  "env \<Rightarrow> fake_bank_payload \<Rightarrow> string \<Rightarrow> string \<Rightarrow> (db, webhook_result) work" where
  "webhook_tx e p timestamp payloadHash d =
     (case find (\<lambda>x. dlv_org x = fb_organizationId p \<and> dlv_eventId x = fb_eventId p) (deliveries d) of
        Some replay \<Rightarrow>
          if dlv_payloadHash replay \<noteq> payloadHash
          then Inl (Http Conflict ''FAKE_BANK_EVENT_ID_REUSED'')
          else Inr (\<lparr>wr_accepted = True, wr_duplicate = True, wr_stateTransitioned = False\<rparr>, d)
      | None \<Rightarrow>
      case find (\<lambda>b. bank_id b = fb_bankAccountVersionId p \<and> bank_org b = fb_organizationId p \<and>
             bank_vendorId b = fb_vendorId p) (bank_versions d) of
        None \<Rightarrow> Inl (Http NotFound ''FAKE_BANK_ACCOUNT_NOT_FOUND'')
      | Some b \<Rightarrow>
      case create_unique delivery_keys (new_delivery e p timestamp payloadHash) (deliveries d) of
        Inl err \<Rightarrow> Inl err
      | Inr xs \<Rightarrow>
          Inr (\<lparr>wr_accepted = True, wr_duplicate = False, wr_stateTransitioned = transitioned d p\<rparr>,
            writeAudit e 1 (fb_organizationId p) None ''FAKE_BANK_STATUS_RECEIVED'' ''FAKE_BANK_WEBHOOK''
              (fb_eventId p) None
              (Some (JObject [(''vendorId'', JString (fb_vendorId p)),
                 (''bankAccountVersionId'', JString (fb_bankAccountVersionId p)),
                 (''status'', JString (fb_status_name (fb_status p))),
                 (''stateTransitioned'', JBool (transitioned d p))])) None
              (d\<lparr>deliveries := xs\<rparr>)))"

definition process_webhook ::
  "(string \<Rightarrow> string \<Rightarrow> string) \<Rightarrow> string option \<Rightarrow> env \<Rightarrow> fake_bank_payload \<Rightarrow> string option \<Rightarrow>
     string option \<Rightarrow> db \<Rightarrow> (failure + webhook_result) \<times> db" where
  "process_webhook hmac secret e p timestamp signature d =
     (if \<not> truthy secret then (Inl (Http Unauthorized ''FAKE_BANK_WEBHOOK_NOT_CONFIGURED''), d)
      else if \<not> verifyFakeBankWebhook hmac p timestamp signature (the secret) (clock e 0) 300
      then (Inl (Http Unauthorized ''FAKE_BANK_SIGNATURE_INVALID''), d)
      else run (webhook_tx e p (the timestamp) (sha256 e (signed_text p (the timestamp)))) d)"

end
