(* ===== verification/Passwords.thy ===== *)
theory Passwords
  imports Encoding Js_Number
begin

text \<open>
  \<open>apps/api/src/identity/password.service.ts\<close> and \<open>pwned-password.service.ts\<close>: the encoded
  password hashes, their parser with its bounds, and the screening against known breaches.  Argon2id
  is the argument \<open>argon2\<close>, from the message, the salt and the parameters to the derived bytes
  or the error it throws; SHA-1 in upper case hexadecimal and the answer of the range server are arguments too.
\<close>

record argon_parameters =
  arg_memory :: nat
  arg_passes :: nat
  arg_parallelism :: nat
  arg_tagLength :: nat

record parsed_hash =
  ph_salt :: string
  ph_expected :: string
  ph_parameters :: argon_parameters

type_synonym argon2_function = "string \<Rightarrow> string \<Rightarrow> argon_parameters \<Rightarrow> failure + string"

definition MAX_MEMORY_KIB :: nat where "MAX_MEMORY_KIB = 262144"
definition MAX_PASSES :: nat where "MAX_PASSES = 10"
definition MAX_PARALLELISM :: nat where "MAX_PARALLELISM = 8"

text \<open>
  The configured costs.  A value that \<open>Number\<close> does not read as a natural number makes every call
  of \<open>argon2\<close> throw; it is \<open>None\<close> here.
\<close>

definition natural_setting :: "nat \<Rightarrow> string option \<Rightarrow> nat option" where
  "natural_setting preset value =
     (case value of
        None \<Rightarrow> Some preset
      | Some s \<Rightarrow>
          (case js_number s of
             None \<Rightarrow> None
           | Some q \<Rightarrow> if q = of_nat (nat \<lfloor>q\<rfloor>) then Some (nat \<lfloor>q\<rfloor>) else None))"

definition password_parameters :: "string option \<Rightarrow> string option \<Rightarrow> argon_parameters option" where
  "password_parameters memory passes =
     (case (natural_setting 19456 memory, natural_setting 2 passes) of
        (Some m, Some t) \<Rightarrow> Some \<lparr>arg_memory = m, arg_passes = t, arg_parallelism = 1, arg_tagLength = 32\<rparr>
      | _ \<Rightarrow> None)"

section \<open>Encoding\<close>

definition encode_bytes :: "string \<Rightarrow> string" where
  "encode_bytes value = rev (dropWhile (\<lambda>c. c = CHR ''='') (rev (base64_encode value)))"

definition decode_bytes :: "string \<Rightarrow> string" where
  "decode_bytes value = base64_decode value"

definition parameter_string :: "argon_parameters \<Rightarrow> string" where
  "parameter_string p = ''m='' @ show_nat (arg_memory p) @ '',t='' @ show_nat (arg_passes p)
     @ '',p='' @ show_nat (arg_parallelism p)"

definition encoded_hash :: "argon_parameters \<Rightarrow> string \<Rightarrow> string \<Rightarrow> string" where
  "encoded_hash p salt key = ''$argon2id$v=19$'' @ parameter_string p @ ''$'' @ encode_bytes salt
     @ ''$'' @ encode_bytes key"

definition hash_password ::
  "argon2_function \<Rightarrow> argon_parameters option \<Rightarrow> string \<Rightarrow> string \<Rightarrow> failure + string" where
  "hash_password argon2 parameters salt password =
     (case parameters of
        None \<Rightarrow> Inl (ExternalError ''ERR_OUT_OF_RANGE'')
      | Some p \<Rightarrow>
          (case argon2 password salt p of
             Inl err \<Rightarrow> Inl err
           | Inr key \<Rightarrow> Inr (encoded_hash p salt key)))"

section \<open>Parsing\<close>

text \<open>
  The regular expression is a sequence of fixed texts, digits and runs without a dollar sign, so a
  match is found by splitting; \<open>Number\<close> of a run of digits is a safe integer exactly when it is below
  2 to the 53rd.
\<close>

definition read_digits :: "string \<Rightarrow> string \<Rightarrow> nat option" where
  "read_digits prefix s =
     (case expect prefix s of
        None \<Rightarrow> None
      | Some t \<Rightarrow> if t \<noteq> [] \<and> list_all is_digit t then Some (read_nat t) else None)"

definition match_hash :: "string \<Rightarrow> (nat \<times> nat \<times> nat \<times> string \<times> string) option" where
  "match_hash encoded =
     (case split_on (CHR ''$'') encoded of
        [start, name, version, costs, salt, key] \<Rightarrow>
          if start \<noteq> [] \<or> name \<noteq> ''argon2id'' \<or> version \<noteq> ''v=19'' \<or> salt = [] \<or> key = [] then None
          else
            (case split_on (CHR '','') costs of
               [m, t, p] \<Rightarrow>
                 (case (read_digits ''m='' m, read_digits ''t='' t, read_digits ''p='' p) of
                    (Some memory, Some passes, Some parallelism) \<Rightarrow>
                      Some (memory, passes, parallelism, salt, key)
                  | _ \<Rightarrow> None)
             | _ \<Rightarrow> None)
      | _ \<Rightarrow> None)"

definition safe_integer :: "nat \<Rightarrow> bool" where
  "safe_integer n \<longleftrightarrow> n < 2 ^ 53"

definition within_bounds :: "nat \<Rightarrow> nat \<Rightarrow> nat \<Rightarrow> string \<Rightarrow> string \<Rightarrow> bool" where
  "within_bounds memory passes parallelism salt expected \<longleftrightarrow>
     \<not> (memory < 8 * parallelism \<or> MAX_MEMORY_KIB < memory \<or> passes < 1 \<or> MAX_PASSES < passes \<or>
        parallelism < 1 \<or> MAX_PARALLELISM < parallelism \<or>
        length salt < 16 \<or> 64 < length salt \<or> length expected < 16 \<or> 64 < length expected)"

definition parse_hash :: "string \<Rightarrow> parsed_hash option" where
  "parse_hash encoded =
     (case match_hash encoded of
        None \<Rightarrow> None
      | Some (memory, passes, parallelism, saltValue, hashValue) \<Rightarrow>
          if \<not> safe_integer memory \<or> \<not> safe_integer passes \<or> \<not> safe_integer parallelism then None
          else
            (let salt = decode_bytes saltValue; expected = decode_bytes hashValue in
             if \<not> within_bounds memory passes parallelism salt expected then None
             else Some \<lparr>ph_salt = salt, ph_expected = expected,
               ph_parameters = \<lparr>arg_memory = memory, arg_passes = passes, arg_parallelism = parallelism,
                 arg_tagLength = length expected\<rparr>\<rparr>))"

definition verify_password :: "argon2_function \<Rightarrow> string \<Rightarrow> string \<Rightarrow> bool" where
  "verify_password argon2 password encoded =
     (case parse_hash encoded of
        None \<Rightarrow> False
      | Some parsed \<Rightarrow>
          (case argon2 password (ph_salt parsed) (ph_parameters parsed) of
             Inl _ \<Rightarrow> False
           | Inr candidate \<Rightarrow> candidate = ph_expected parsed))"

section \<open>Breached passwords\<close>

text \<open>
  The range server answers a prefix with nothing (\<open>fetch\<close> throws or times out), or with
  \<open>response.ok\<close> and the text.  The count is \<open>None\<close> when \<open>Number\<close> yields \<open>NaN\<close>.
\<close>

definition screening_unavailable :: failure where
  "screening_unavailable = Http ServiceUnavailable ''PASSWORD_SCREENING_UNAVAILABLE''"

definition count_of_line :: "string \<Rightarrow> rat option" where
  "count_of_line line =
     (case split_on (CHR '':'') line of _ # n # _ \<Rightarrow> js_number (js_trim n) | _ \<Rightarrow> Some 0)"

definition exposureCount ::
  "(string \<Rightarrow> string) \<Rightarrow> (string \<Rightarrow> (bool \<times> string) option) \<Rightarrow> string \<Rightarrow> failure + rat option" where
  "exposureCount sha1 lookup password =
     (let digest = sha1 password; suffix = drop 5 digest in
      case lookup (take 5 digest) of
        None \<Rightarrow> Inl screening_unavailable
      | Some (okay, answer) \<Rightarrow>
          if \<not> okay then Inl screening_unavailable
          else
            (case find (is_prefix (suffix @ '':'')) (split_on (char_of (10 :: nat)) answer) of
               None \<Rightarrow> Inr (Some 0)
             | Some line \<Rightarrow> Inr (count_of_line line)))"

section \<open>A stored hash reads back\<close>

lemma takeWhile_rstrip:
  "takeWhile (\<lambda>c. c \<noteq> x) (rev (dropWhile (\<lambda>c. c = x) (rev s))) = takeWhile (\<lambda>c. c \<noteq> x) s"
  by (induction s rule: rev_induct) (auto simp: takeWhile_append)

lemma decode_encode_bytes [simp]: "decode_bytes (encode_bytes s) = s"
proof -
  have "base64_decode (encode_bytes s) = base64_decode (base64_encode s)"
    by (simp add: base64_decode_def encode_bytes_def takeWhile_rstrip)
  then show ?thesis by (simp add: decode_bytes_def)
qed

lemma encode_bytes_Nil: "encode_bytes s = [] \<Longrightarrow> s = []"
  by (metis decode_encode_bytes decode_bytes_def base64_decode_def base64_groups.simps(5) filter.simps(1)
      takeWhile.simps(1))

lemma base64_encode_letters: "c \<in> set (base64_encode s) \<Longrightarrow> base64_letter c \<or> c = CHR ''=''"
proof (induction s rule: base64_encode.induct)
  case (2 a)
  then show ?case using base64_bits [of "of_char a" 0 0] base64_char_ok(2) by auto
next
  case (3 a b)
  then show ?case using base64_bits [of "of_char a" "of_char b" 0] base64_char_ok(2) by auto
next
  case (4 a b c s)
  then show ?case using base64_bits [of "of_char a" "of_char b" "of_char c"] base64_char_ok(2) by auto
qed simp

lemma encode_bytes_plain: "CHR ''$'' \<notin> set (encode_bytes s)"
proof -
  have "set (encode_bytes s) \<subseteq> set (base64_encode s)"
    by (auto simp: encode_bytes_def dest: set_dropWhileD)
  moreover have "\<not> base64_letter (CHR ''$'')"
    by (simp add: base64_letter_def is_upper_def is_lower_def is_digit_def)
  ultimately show ?thesis using base64_encode_letters by fastforce
qed

lemma digits_plain: "list_all is_digit s \<Longrightarrow> CHR ''$'' \<notin> set s" "list_all is_digit s \<Longrightarrow> CHR '','' \<notin> set s"
  by (auto simp: list_all_iff is_digit_def)

lemma read_digits_show: "read_digits p (p @ show_nat n) = Some n"
  by (simp add: read_digits_def)

lemma parameters_split:
  "split_on (CHR '','') (parameter_string p) =
     [''m='' @ show_nat (arg_memory p), ''t='' @ show_nat (arg_passes p), ''p='' @ show_nat (arg_parallelism p)]"
  "CHR ''$'' \<notin> set (parameter_string p)"
proof -
  have c: "CHR '','' \<notin> set (''m='' @ show_nat n)" "CHR '','' \<notin> set (''t='' @ show_nat n)"
    "CHR '','' \<notin> set (''p='' @ show_nat n)" for n
    using digits_plain(2) [OF show_nat_list_all] by simp_all
  have "parameter_string p = (''m='' @ show_nat (arg_memory p)) @ CHR '','' #
     (''t='' @ show_nat (arg_passes p)) @ CHR '','' # (''p='' @ show_nat (arg_parallelism p))"
    by (simp add: parameter_string_def)
  then show "split_on (CHR '','') (parameter_string p) =
     [''m='' @ show_nat (arg_memory p), ''t='' @ show_nat (arg_passes p), ''p='' @ show_nat (arg_parallelism p)]"
    by (simp only: split_on_append [OF c(1)] split_on_append [OF c(2)] split_on_single [OF c(3)])
  show "CHR ''$'' \<notin> set (parameter_string p)"
    using digits_plain(1) [OF show_nat_list_all] by (simp add: parameter_string_def)
qed

lemma match_encoded:
  assumes "salt \<noteq> []" "key \<noteq> []"
  shows "match_hash (encoded_hash p salt key) =
     Some (arg_memory p, arg_passes p, arg_parallelism p, encode_bytes salt, encode_bytes key)"
proof -
  have "split_on (CHR ''$'') (encoded_hash p salt key) =
     [[], ''argon2id'', ''v=19'', parameter_string p, encode_bytes salt, encode_bytes key]"
    by (simp add: encoded_hash_def split_on_append [OF parameters_split(2)] split_on_append [OF encode_bytes_plain]
        split_on_single [OF encode_bytes_plain])
  then show ?thesis
    using assms encode_bytes_Nil read_digits_show [of "''m=''"] read_digits_show [of "''t=''"] read_digits_show [of "''p=''"]
    by (auto simp: match_hash_def parameters_split(1))
qed

lemma parse_encoded:
  assumes "length salt = 16" "length key = 32"
  shows "parse_hash (encoded_hash p salt key) =
     (if 8 * arg_parallelism p \<le> arg_memory p \<and> arg_memory p \<le> MAX_MEMORY_KIB \<and>
         1 \<le> arg_passes p \<and> arg_passes p \<le> MAX_PASSES \<and>
         1 \<le> arg_parallelism p \<and> arg_parallelism p \<le> MAX_PARALLELISM
      then Some \<lparr>ph_salt = salt, ph_expected = key, ph_parameters = p\<lparr>arg_tagLength := 32\<rparr>\<rparr> else None)"
proof -
  have ne: "salt \<noteq> []" "key \<noteq> []" using assms by auto
  show ?thesis
    using assms
    by (auto simp: parse_hash_def match_encoded [OF ne] within_bounds_def Let_def safe_integer_def
        MAX_MEMORY_KIB_def MAX_PASSES_def MAX_PARALLELISM_def)
qed

end
