(* ===== verification/Auth.thy ===== *)
theory Auth
  imports Passwords Sessions
begin

text \<open>
  \<open>apps/api/src/identity/auth.service.ts\<close> with the bodies of \<open>identity/dto.ts\<close>, and
  \<open>organizations/organizations.service.ts\<close>: onboarding of an organization with its owner, login,
  the caller's own data, and the reads of an organization and its members.  The service creates the session in
  a transaction of its own, after the one that creates the rows; its identifiers and clock readings have
  the places 0 to 2 of \<open>Sessions\<close>, those of this service the places from 3.
\<close>

section \<open>Bodies\<close>

record onboard_dto =
  on_organizationName :: string
  on_organizationSlug :: string
  on_displayName :: string
  on_email :: string
  on_password :: string

record login_dto =
  lg_email :: string
  lg_organizationSlug :: string
  lg_password :: string

definition normalizeEmail :: "string \<Rightarrow> string" where
  "normalizeEmail value = js_lower (js_trim value)"

definition length_within :: "nat \<Rightarrow> nat \<Rightarrow> string \<Rightarrow> bool" where
  "length_within lo hi s \<longleftrightarrow> lo \<le> length s \<and> length s \<le> hi"

text \<open>\<open>^[a-z0-9]+(?:-[a-z0-9]+)*$\<close>: the words between the hyphens are not empty.\<close>

definition slug_ok :: "string \<Rightarrow> bool" where
  "slug_ok s \<longleftrightarrow> list_all (\<lambda>w. w \<noteq> [] \<and> list_all (\<lambda>c. is_lower c \<or> is_digit c) w) (split_on (CHR ''-'') s)"

text \<open>The decorators, on the transformed body; \<open>@IsEmail()\<close> is the library's, an argument.\<close>

definition valid_OnboardOrganizationDto :: "(string \<Rightarrow> bool) \<Rightarrow> onboard_dto \<Rightarrow> bool" where
  "valid_OnboardOrganizationDto is_email dto \<longleftrightarrow>
     length_within 2 160 (on_organizationName dto) \<and>
     length_within 3 80 (on_organizationSlug dto) \<and> slug_ok (on_organizationSlug dto) \<and>
     length_within 2 120 (on_displayName dto) \<and>
     is_email (on_email dto) \<and> length (on_email dto) \<le> 320 \<and>
     length_within 12 128 (on_password dto)"

definition valid_LoginDto :: "(string \<Rightarrow> bool) \<Rightarrow> login_dto \<Rightarrow> bool" where
  "valid_LoginDto is_email dto \<longleftrightarrow>
     is_email (lg_email dto) \<and> length (lg_email dto) \<le> 320 \<and>
     length_within 3 80 (lg_organizationSlug dto) \<and> length (lg_password dto) \<le> 128"

section \<open>Onboarding\<close>

record auth_result =
  ar_session :: session_bundle
  ar_userId :: uuid
  ar_email :: string
  ar_displayName :: string
  ar_organizationId :: uuid
  ar_slug :: string
  ar_name :: string
  ar_role :: membership_role

definition user_keys :: "(user \<Rightarrow> string list) list" where
  "user_keys = [\<lambda>u. [user_id u], \<lambda>u. [[], user_email u]]"

definition organization_keys :: "(organization \<Rightarrow> string list) list" where
  "organization_keys = [\<lambda>x. [org_id x], \<lambda>x. [[], org_slug x]]"

definition membership_keys :: "(membership \<Rightarrow> string list) list" where
  "membership_keys = [\<lambda>m. [mem_id m], \<lambda>m. [mem_org m, mem_userId m]]"

definition new_user :: "env \<Rightarrow> string \<Rightarrow> onboard_dto \<Rightarrow> user" where
  "new_user e passwordHash dto =
     \<lparr>user_id = new_uuid e 3, user_email = on_email dto, user_displayName = js_trim (on_displayName dto),
      user_passwordHash = Some passwordHash, user_status = USER_ACTIVE\<rparr>"

definition new_organization :: "env \<Rightarrow> onboard_dto \<Rightarrow> organization" where
  "new_organization e dto =
     \<lparr>org_id = new_uuid e 4, org_slug = on_organizationSlug dto, org_name = js_trim (on_organizationName dto)\<rparr>"

definition new_owner :: "env \<Rightarrow> membership" where
  "new_owner e =
     \<lparr>mem_id = new_uuid e 5, mem_org = new_uuid e 4, mem_userId = new_uuid e 3, mem_role = OWNER,
      mem_status = MEMBER_ACTIVE, mem_validUntil = None\<rparr>"

definition onboard_tx :: "env \<Rightarrow> string \<Rightarrow> onboard_dto \<Rightarrow> (db, user \<times> organization) work" where
  "onboard_tx e passwordHash dto d =
     (case create_unique user_keys (new_user e passwordHash dto) (users d) of
        Inl err \<Rightarrow> Inl err
      | Inr us \<Rightarrow>
      case create_unique organization_keys (new_organization e dto) (organizations d) of
        Inl err \<Rightarrow> Inl err
      | Inr os \<Rightarrow>
      case create_unique membership_keys (new_owner e) (memberships d) of
        Inl err \<Rightarrow> Inl err
      | Inr ms \<Rightarrow>
          Inr ((new_user e passwordHash dto, new_organization e dto),
            d\<lparr>users := us, organizations := os, memberships := ms\<rparr>))"

definition onboarding_error :: "failure \<Rightarrow> failure" where
  "onboarding_error err =
     (if err = UniqueConstraint then Http Conflict ''ONBOARDING_CONFLICT'' else err)"

definition auth_result_of ::
  "session_bundle \<Rightarrow> user \<Rightarrow> organization \<Rightarrow> membership_role \<Rightarrow> auth_result" where
  "auth_result_of s u x r =
     \<lparr>ar_session = s, ar_userId = user_id u, ar_email = user_email u,
      ar_displayName = user_displayName u, ar_organizationId = org_id x, ar_slug = org_slug x,
      ar_name = org_name x, ar_role = r\<rparr>"

text \<open>\<open>NaN > 0\<close> is false.\<close>

definition exposed :: "rat option \<Rightarrow> bool" where
  "exposed n \<longleftrightarrow> (case n of None \<Rightarrow> False | Some q \<Rightarrow> 0 < q)"

definition onboard ::
  "(string \<Rightarrow> string \<Rightarrow> string) \<Rightarrow> string \<Rightarrow> argon2_function \<Rightarrow> argon_parameters option \<Rightarrow> (string \<Rightarrow> string) \<Rightarrow>
     (string \<Rightarrow> (bool \<times> string) option) \<Rightarrow> env \<Rightarrow> string \<Rightarrow> metadata \<Rightarrow> onboard_dto \<Rightarrow> db \<Rightarrow>
     (failure + auth_result) \<times> db" where
  "onboard hmac key argon2 parameters sha1 lookup e salt md dto d =
     (case exposureCount sha1 lookup (on_password dto) of
        Inl err \<Rightarrow> (Inl err, d)
      | Inr n \<Rightarrow>
      if exposed n then (Inl (Http UnprocessableEntity ''PASSWORD_COMPROMISED''), d)
      else
      case hash_password argon2 parameters salt (on_password dto) of
        Inl err \<Rightarrow> (Inl err, d)
      | Inr passwordHash \<Rightarrow>
      case run (onboard_tx e passwordHash dto) d of
        (Inl err, d') \<Rightarrow> (Inl (onboarding_error err), d')
      | (Inr (u, x), d') \<Rightarrow>
      case create_session hmac key e (user_id u) (org_id x) md d' of
        (Inl err, d'') \<Rightarrow> (Inl (onboarding_error err), d'')
      | (Inr s, d'') \<Rightarrow> (Inr (auth_result_of s u x OWNER), d''))"

section \<open>Login\<close>

definition credentials_invalid :: failure where
  "credentials_invalid = Http Unauthorized ''CREDENTIALS_INVALID''"

definition dummy_password :: string where
  "dummy_password = ''invalid-account-timing-sentinel''"

definition dummy_hash :: "argon2_function \<Rightarrow> argon_parameters option \<Rightarrow> string \<Rightarrow> failure + string" where
  "dummy_hash argon2 parameters salt = hash_password argon2 parameters salt dummy_password"

definition login_hash :: "string \<Rightarrow> user option \<Rightarrow> string" where
  "login_hash dummy u =
     (case Option.bind u user_passwordHash of None \<Rightarrow> dummy | Some h \<Rightarrow> h)"

text \<open>The hash of the dummy password is computed when the service is constructed.\<close>

definition login ::
  "(string \<Rightarrow> string \<Rightarrow> string) \<Rightarrow> string \<Rightarrow> argon2_function \<Rightarrow> string \<Rightarrow> env \<Rightarrow> metadata \<Rightarrow> login_dto \<Rightarrow> db \<Rightarrow>
     (failure + auth_result) \<times> db" where
  "login hmac key argon2 dummy e md dto d =
     (let usr = find (\<lambda>u. user_email u = lg_email dto) (users d);
          tenant = find (\<lambda>x. org_slug x = lg_organizationSlug dto) (organizations d);
          passwordMatches = verify_password argon2 (lg_password dto) (login_hash dummy usr) in
      case (usr, tenant) of
        (Some u, Some x) \<Rightarrow>
          (case member_of (org_id x) (user_id u) d of
             None \<Rightarrow> (Inl credentials_invalid, d)
           | Some m \<Rightarrow>
               if \<not> passwordMatches \<or> user_status u \<noteq> USER_ACTIVE \<or> mem_status m \<noteq> MEMBER_ACTIVE \<or>
                  (case mem_validUntil m of None \<Rightarrow> False | Some t \<Rightarrow> t \<le> clock e 3)
               then (Inl credentials_invalid, d)
               else
                 (case create_session hmac key e (user_id u) (org_id x) md d of
                    (Inl err, d') \<Rightarrow> (Inl err, d')
                  | (Inr s, d') \<Rightarrow> (Inr (auth_result_of s u x (mem_role m)), d')))
      | _ \<Rightarrow> (Inl credentials_invalid, d))"

section \<open>Reads\<close>

record me_view =
  me_user :: user
  me_organization :: organization
  me_role :: membership_role
  me_sessionId :: uuid
  me_stepUp :: "string option"
  me_passkeyCount :: nat

definition me :: "auth_context \<Rightarrow> db \<Rightarrow> failure + me_view" where
  "me a d =
     (case (user_of (userId a) d, find (\<lambda>x. org_id x = organizationId a) (organizations d)) of
        (Some u, Some x) \<Rightarrow>
          Inr \<lparr>me_user = u, me_organization = x, me_role = role a, me_sessionId = sessionId a,
            me_stepUp = map_option toISOString (stepUpVerifiedAt a),
            me_passkeyCount = count_rows (\<lambda>c. cred_userId c = userId a) (credentials d)\<rparr>
      | _ \<Rightarrow> Inl (DatabaseError ''P2025''))"

definition organization_not_found :: failure where
  "organization_not_found = Http NotFound ''ORGANIZATION_NOT_FOUND''"

definition get_organization :: "uuid \<Rightarrow> db \<Rightarrow> failure + organization" where
  "get_organization organization d =
     (case find (\<lambda>x. org_id x = organization) (organizations d) of
        None \<Rightarrow> Inl organization_not_found
      | Some x \<Rightarrow> Inr x)"

record member_view =
  mv_membership :: membership
  mv_user :: user

definition listMembers :: "uuid \<Rightarrow> db \<Rightarrow> member_view list" where
  "listMembers organization d =
     List.map_filter (\<lambda>m. map_option (\<lambda>u. \<lparr>mv_membership = m, mv_user = u\<rparr>) (user_of (mem_userId m) d))
       (filter (\<lambda>m. mem_org m = organization) (memberships d))"

end
