(* ===== verification/Preservation.thy ===== *)
theory Preservation
  imports Approval_Steps Buildings Dashboard Pipeline Passkeys Fake_Bank Auth
begin

text \<open>
  Every operation of the services keeps the invariant of the approval tables.  Most of them leave
  the five tables alone; a new bank account, an edit of a draft and the worker change invoices and
  requests, within what \<open>approval_inv_invoices\<close> and \<open>approval_inv_requests\<close> allow.
\<close>

definition approval_frame :: "db \<Rightarrow> db \<Rightarrow> bool" where
  "approval_frame d d' \<longleftrightarrow> invoices d' = invoices d \<and> requests d' = requests d \<and>
     decisions d' = decisions d \<and> assessments d' = assessments d \<and> policies d' = policies d \<and>
     documents d' = documents d \<and> processings d' = processings d"

lemma approval_frame_refl [simp]: "approval_frame d d"
  by (simp add: approval_frame_def)

lemma approval_frame_trans [trans]: "approval_frame d d' \<Longrightarrow> approval_frame d' d'' \<Longrightarrow> approval_frame d d''"
  by (simp add: approval_frame_def)

lemma approval_frame_inv: "approval_frame d d' \<Longrightarrow> approval_inv d \<Longrightarrow> approval_inv d'"
  using approval_inv_cong [of d' d] by (simp add: approval_frame_def)

lemma run_frame:
  assumes "\<And>r d'. w d = Inr (r, d') \<Longrightarrow> approval_frame d d'"
  shows "approval_frame d (snd (run w d))"
  by (rule tx.preserves [where P = "approval_frame d", OF assms approval_frame_refl])

section \<open>Buildings, vendors, contracts\<close>

lemma building_ops_frame:
  shows "approval_frame d (snd (list_buildings coll e a q d))"
    "approval_frame d (snd (get_building coll e a b d))"
    "approval_frame d (snd (listResidents coll a d))"
    "approval_frame d (snd (create_building e a cdto d))"
    "approval_frame d (snd (update_building e a b v udto d))"
    "approval_frame d (snd (addApartment e a b unit flr d))"
    "approval_frame d (snd (grantAccess e a b m until d))"
    "approval_frame d (snd (addOccupancy e a b m s t d))"
  unfolding list_buildings_def get_building_def listResidents_def create_building_def
    update_building_def addApartment_def grantAccess_def addOccupancy_def
  by (rule run_frame;
      auto simp: list_buildings_tx_def get_building_tx_def create_building_tx_def
        update_building_tx_def addApartment_tx_def grantAccess_tx_def addOccupancy_tx_def
        approval_frame_def Let_def split: sum.splits option.splits if_splits)+


lemma relink_vendor_frame: "relink_vendor org vid cur bs d = Inr d' \<Longrightarrow> approval_frame d d'"
  by (auto simp: relink_vendor_def approval_frame_def Let_def split: if_splits)

lemma update_vendor_frame: "update_vendor_tx e a vid v dto d = Inr (r, d') \<Longrightarrow> approval_frame d d'"
  unfolding update_vendor_tx_def Let_def
  by (simp only: table_simps) (auto simp: approval_frame_def split: option.splits dest!: relink_vendor_frame)

lemma vendor_ops_frame:
  shows "approval_frame d (snd (list_vendors coll e a vq d))"
    "approval_frame d (snd (get_vendor e a vid d))"
    "approval_frame d (snd (bankHistory e a vid d))"
    "approval_frame d (snd (create_vendor e a cdto d))"
    "approval_frame d (snd (update_vendor e a vid v udto d))"
    "approval_frame d (snd (addContact e a vid kdto d))"
    "approval_frame d (snd (verifyBankVersion e a vid bid st ev re d))"
    "approval_frame d (snd (revealBankVersion c svc e a vid bid txt d))"
  unfolding list_vendors_def get_vendor_def bankHistory_def create_vendor_def update_vendor_def
    addContact_def verifyBankVersion_def revealBankVersion_def
  by (rule run_frame;
      (erule update_vendor_frame)?;
      auto simp: list_vendors_tx_def get_vendor_tx_def bankHistory_tx_def create_vendor_tx_def
        addContact_tx_def verifyBankVersion_tx_def revealBankVersion_tx_def
        approval_frame_def Let_def split: sum.splits option.splits if_splits)+

lemma write_contract_frame: "write_contract a cid v f d = Inr d' \<Longrightarrow> approval_frame d d'"
  unfolding write_contract_def Let_def by (simp only: table_simps) (auto simp: approval_frame_def)

lemma update_contract_frame: "update_contract_tx e a cid v dto d = Inr (r, d') \<Longrightarrow> approval_frame d d'"
  unfolding update_contract_tx_def Let_def
  by (simp only: table_simps)
    (auto simp: approval_frame_def split: option.splits if_splits dest!: write_contract_frame)

lemma contract_ops_frame:
  shows "approval_frame d (snd (list_contracts e a cq d))"
    "approval_frame d (snd (get_contract e a cid d))"
    "approval_frame d (snd (create_contract e a cdto d))"
    "approval_frame d (snd (update_contract e a cid v udto d))"
  unfolding list_contracts_def get_contract_def create_contract_def update_contract_def
  by (rule run_frame;
      (erule update_contract_frame)?;
      auto simp: list_contracts_tx_def get_contract_tx_def create_contract_tx_def
        approval_frame_def Let_def split: sum.splits option.splits if_splits)+

section \<open>A new bank account\<close>

lemma freeze_approvals_inv:
  assumes "approval_inv d"
  shows "approval_inv (freeze_approvals org vid d)"
proof -
  let ?f = "\<lambda>r :: request. r\<lparr>req_status := REQUEST_INVALIDATED,
      req_invalidatedReason := Some ''VENDOR_BANK_ACCOUNT_CHANGED''\<rparr>"
  let ?d = "d\<lparr>requests := update_rows (pending_of_vendor d org vid) ?f (requests d)\<rparr>"
  have "approval_inv ?d"
    by (rule approval_inv_requests [OF assms]) (simp_all add: keeps_evidence_def pending_of_vendor_def)
  then have "approval_inv (?d\<lparr>invoices := update_rows
          (\<lambda>i. inv_org i = org \<and> inv_vendorId i = Some vid \<and> inv_status i = AWAITING_APPROVAL)
          (\<lambda>i. i\<lparr>inv_status := NEEDS_REVIEW, inv_bankVersionId := None,
                 inv_version := inv_version i + 1\<rparr>) (invoices ?d)\<rparr>)"
    by (rule approval_inv_invoices) simp_all
  then show ?thesis by (simp add: freeze_approvals_def)
qed

lemma addBankVersion_tx_Inr:
  assumes "addBankVersion_tx c svc e a vid country acc d = Inr (view, d')"
  obtains b d1 x where "assertCanReadVendor (clock e 0) a vid d = Inr x"
    "b = new_bank_version e a vid (next_bank_number d (organizationId a) vid) country
       (encrypt c svc (random_token e 0) (organizationId a) vid acc)"
    "create_unique bank_keys b (bank_versions d) = Inr (bank_versions d @ [b])"
    "d1 = d\<lparr>bank_versions := bank_versions d @ [b],
       bank_verifications := bank_verifications d @ [first_verification e a b]\<rparr>"
    "view = bankPublicSelect d1 b"
    "d' = writeAudit e 2 (organizationId a) (Some (membershipId a)) ''BANK_ACCOUNT_VERSION_CREATED''
       ''BANK_ACCOUNT'' (bank_id b) None (Some (bank_created_json vid b
         (if 1 < bank_number b then count_rows (pending_of_vendor d1 (organizationId a) vid) (requests d1) else 0)))
       None (if 1 < bank_number b then freeze_approvals (organizationId a) vid d1 else d1)"
  using assms unfolding addBankVersion_tx_def Let_def
  apply (simp only: table_simps)
  apply (elim exE)
  subgoal for x
    by (rule that [of x "new_bank_version e a vid (next_bank_number d (organizationId a) vid) country
         (encrypt c svc (random_token e 0) (organizationId a) vid acc)"])
      (auto simp: table_simps split: sum.splits failure.splits)
  done

lemma addBankVersion_inv:
  assumes "approval_inv d"
  shows "approval_inv (snd (addBankVersion c svc e a vid country acc d))"
  unfolding addBankVersion_def
proof (rule tx.preserves [where P = approval_inv, OF _ assms])
  fix view d' assume "addBankVersion_tx c svc e a vid country acc d = Inr (view, d')"
  then obtain b d1 where d1: "d1 = d\<lparr>bank_versions := bank_versions d @ [b],
       bank_verifications := bank_verifications d @ [first_verification e a b]\<rparr>"
    and d': "approval_inv d' = approval_inv (if 1 < bank_number b then freeze_approvals (organizationId a) vid d1 else d1)"
    by (rule addBankVersion_tx_Inr) simp
  from d1 have "approval_inv d1" using assms approval_inv_cong [of d1 d] by simp
  with d' show "approval_inv d'" by (simp add: freeze_approvals_inv)
qed


section \<open>Invoices\<close>

lemma approval_inv_new_invoice:
  assumes "approval_inv d" and "\<forall>j \<in> set (invoices d). inv_id j \<noteq> inv_id i"
    and "inv_status i \<noteq> APPROVED"
  shows "approval_inv (d\<lparr>invoices := invoices d @ [i]\<rparr>)" (is "approval_inv ?d")
proof -
  have "request_ok ?d r" if "request_ok d r" for r
    using that assms(2) by (auto simp: request_ok_def request_of_def approvals_of_def)
  moreover have "assessment_ok ?d a" if "assessment_ok d a" for a
    using that assms(2) by (auto simp: assessment_ok_def)
  ultimately show ?thesis
    using assms by (auto simp: approval_inv_def keys_ok_def policies_ok_def decision_ok_def
        invoice_ok_def approval_guard_def)
qed

definition upload_event :: "env \<Rightarrow> validated_document \<Rightarrow> json" where
  "upload_event e v = JObject [(''documentId'', JString (new_uuid e 0)),
     (''status'', JString ''PROCESSING''), (''sizeBytes'', JInt (int (val_sizeBytes v)))]"

lemma new_upload_simps [simp]:
  "inv_id (new_invoice e a vid cid) = new_uuid e 1" "inv_status (new_invoice e a vid cid) = PROCESSING"
  "inv_org (new_invoice e a vid cid) = organizationId a"
  "inv_version (new_invoice e a vid cid) = 1"
  "doc_id (new_document e a upf v) = new_uuid e 0" "doc_org (new_document e a upf v) = organizationId a"
  "pr_documentId (new_processing e a) = new_uuid e 0" "pr_org (new_processing e a) = organizationId a"
  by (simp_all add: new_invoice_def new_document_def new_processing_def)

lemma upload_txE:
  assumes "upload_tx e a vid cid upf v d = Inr (view, d')"
  obtains xs ps where "assertRelationships (organizationId a) vid cid d = Inr ()"
    "\<forall>j \<in> set (invoices d). inv_id j \<noteq> new_uuid e 1"
    "xs = documents d @ [new_document e a upf v]" "ps = processings d @ [new_processing e a]"
    "\<forall>k \<in> set document_keys. \<forall>x \<in> set (documents d). k x \<noteq> k (new_document e a upf v)"
    "\<forall>p \<in> set (processings d). pr_documentId p \<noteq> new_uuid e 0"
    "d' = writeAudit e 5 (organizationId a) (Some (membershipId a)) ''INVOICE_UPLOADED'' ''INVOICE''
       (new_uuid e 1) None
       (Some (upload_event e v)) None (d\<lparr>invoices := invoices d @ [new_invoice e a vid cid],
         documents := xs, processings := ps\<rparr>)"
  using assms unfolding upload_tx_def Let_def
  apply (simp only: table_simps)
  apply (elim exE conjE)
  subgoal premises prems for u ivs xs ps
    by (rule that) (use prems in \<open>auto simp: upload_event_def invoice_status_name_def\<close>)
  done

lemma upload_tx_inv:
  assumes "upload_tx e a vid cid upf v d = Inr (view, d')" and "approval_inv d"
  shows "approval_inv d'"
  using assms(1)
proof (rule upload_txE)
  fix xs ps
  assume fresh: "\<forall>j \<in> set (invoices d). inv_id j \<noteq> new_uuid e 1"
    and d': "d' = writeAudit e 5 (organizationId a) (Some (membershipId a)) ''INVOICE_UPLOADED'' ''INVOICE''
       (new_uuid e 1) None
       (Some (upload_event e v)) None (d\<lparr>invoices := invoices d @ [new_invoice e a vid cid],
         documents := xs, processings := ps\<rparr>)"
  have "approval_inv (d\<lparr>invoices := invoices d @ [new_invoice e a vid cid]\<rparr>)"
    using fresh by (intro approval_inv_new_invoice [OF assms(2)]) (simp_all add: new_invoice_def)
  then show ?thesis
    unfolding d' by (subst approval_inv_cong [of _ "d\<lparr>invoices := invoices d @ [new_invoice e a vid cid]\<rparr>"]) simp_all
qed

lemma update_processings_Inr [table_simps]:
  "update_processings P f d = Inr d' \<longleftrightarrow>
     (\<forall>p \<in> set (processings d). P p \<longrightarrow> transition_ok (pr_state p) (pr_state (f p))) \<and>
     d' = d\<lparr>processings := update_rows P f (processings d)\<rparr>"
  by (auto simp: update_processings_def list_ex_iff)

lemma processings_inv [simp]: "approval_inv (d\<lparr>processings := ps\<rparr>) = approval_inv d"
  by (rule approval_inv_cong) simp_all

lemma documents_inv [simp]: "approval_inv (d\<lparr>documents := xs\<rparr>) = approval_inv d"
  by (rule approval_inv_cong) simp_all

lemma invoice_status_inv:
  assumes "approval_inv d" and "st \<noteq> APPROVED"
  shows "approval_inv (d\<lparr>invoices := update_rows P (\<lambda>i. i\<lparr>inv_status := st\<rparr>) (invoices d)\<rparr>)"
  by (rule approval_inv_invoices [OF assms(1)]) (simp_all add: assms(2))

lemma markManualReview_inv:
  assumes "approval_inv d"
  shows "approval_inv (snd (markManualReview e org did iid code d))"
  unfolding markManualReview_def
proof (rule tx.preserves [where P = approval_inv, OF _ assms])
  fix u d' assume "markManualReview_tx e org did iid code d = Inr (u, d')"
  then obtain ps where "d' = d\<lparr>processings := ps, invoices := update_rows
      (\<lambda>i. inv_id i = iid \<and> inv_org i = org) (\<lambda>i. i\<lparr>inv_status := MANUAL_REVIEW\<rparr>) (invoices d)\<rparr>"
    unfolding markManualReview_tx_def by (simp only: table_simps) auto
  with invoice_status_inv [of "d\<lparr>processings := ps\<rparr>" MANUAL_REVIEW] assms
  show "approval_inv d'" by simp
qed

lemma upload_inv:
  assumes "approval_inv d"
  shows "approval_inv (snd (upload e w a vid cid upl d))"
proof -
  have tx: "approval_inv (snd (run (upload_tx e a vid cid upf v) d))" for upf v
    by (rule tx.preserves [where P = approval_inv, OF upload_tx_inv [OF _ assms] assms])
  have mark: "approval_inv (snd (markManualReview e org did iid code d1))" if "approval_inv d1" for org did iid code d1
    by (rule markManualReview_inv [OF that])
  show ?thesis
    unfolding upload_def
    by (auto split: option.split sum.split prod.split simp: assms) (metis tx mark snd_conv)+
qed

lemma withdraw_requests_inv:
  assumes "approval_inv d"
  shows "approval_inv (withdraw_requests org iid d)"
  unfolding withdraw_requests_def
  by (rule approval_inv_requests [OF assms]) (simp_all add: keeps_evidence_def)

lemma write_draft_Inr:
  "write_draft a iid dto invalidates d = Inr d' \<Longrightarrow>
     d' = d\<lparr>invoices := update_rows
        (\<lambda>i. inv_id i = iid \<and> inv_org i = organizationId a \<and> inv_version i = uid_version dto)
        (apply_invoice_dto dto invalidates) (invoices d)\<rparr>"
  by (auto simp: write_draft_def Let_def split: if_splits list.splits)

lemma update_invoice_txE:
  assumes "update_invoice_tx e a iid dto d = Inr (view, d')"
  obtains existing updated d2 where
    "find (\<lambda>i. inv_id i = iid \<and> inv_org i = organizationId a) (invoices d) = Some existing"
    "canEditInvoiceDraft (inv_status existing)
       (map (\<lambda>x. (doc_storageState x, scan_of d x)) (documents_of d (organizationId a) iid))"
    "write_draft a iid dto (inv_status existing = AWAITING_APPROVAL)
       (if inv_status existing = AWAITING_APPROVAL then withdraw_requests (organizationId a) iid d else d) = Inr d2"
    "find (\<lambda>i. inv_id i = iid \<and> inv_org i = organizationId a) (invoices d2) = Some updated"
    "ivw_invoice view = updated"
    "d' = draft_audits e a existing updated (inv_status existing = AWAITING_APPROVAL)
       (replace_lines (organizationId a) iid (uid_lines dto) d2)"
proof -
  have lines: "invoices (replace_lines org iid ls x) = invoices x" for org ls x
    by (simp add: replace_lines_def split: option.split)
  from assms show thesis
    unfolding update_invoice_tx_def Let_def
    by (simp only: table_simps not_not lines) (auto intro: that)
qed

lemma replace_lines_inv [simp]: "approval_inv (replace_lines org iid ls d) = approval_inv d"
  by (rule approval_inv_cong) (simp_all add: replace_lines_def split: option.split)

lemma draft_audits_inv [simp]: "approval_inv (draft_audits e a x u b d) = approval_inv d"
  by (simp add: draft_audits_def Let_def)

lemma update_invoice_inv:
  assumes "approval_inv d"
  shows "approval_inv (snd (update_invoice e a iid dto d))"
  unfolding update_invoice_def
proof (rule tx.preserves [where P = approval_inv, OF _ assms])
  fix view d' assume "update_invoice_tx e a iid dto d = Inr (view, d')"
  then obtain existing updated d2 where
    x: "find (\<lambda>i. inv_id i = iid \<and> inv_org i = organizationId a) (invoices d) = Some existing"
    and ed: "canEditInvoiceDraft (inv_status existing)
       (map (\<lambda>x. (doc_storageState x, scan_of d x)) (documents_of d (organizationId a) iid))"
    and w: "write_draft a iid dto (inv_status existing = AWAITING_APPROVAL)
       (if inv_status existing = AWAITING_APPROVAL then withdraw_requests (organizationId a) iid d else d) = Inr d2"
    and d': "approval_inv d' = approval_inv d2"
    by (rule update_invoice_txE) simp
  define d1 where "d1 = (if inv_status existing = AWAITING_APPROVAL then withdraw_requests (organizationId a) iid d else d)"
  have inv1: "approval_inv d1" using assms by (simp add: d1_def withdraw_requests_inv)
  have rows: "invoices d1 = invoices d" by (simp add: d1_def withdraw_requests_def)
  note ex = find_SomeD [OF x]
  have "inv_status i \<noteq> APPROVED" if "i \<in> set (invoices d1)" "inv_id i = iid" for i
  proof -
    have "i = existing"
      using distinct_map_unique [OF approval_inv_distinct(1) [OF assms] _ ex(1)] that ex rows by simp
    with ed show ?thesis by (auto simp: canEditInvoiceDraft_def split: if_splits)
  qed
  then have "approval_inv d2"
    unfolding write_draft_Inr [OF w, folded d1_def]
    by (intro approval_inv_invoices [OF inv1]) (auto simp: apply_invoice_dto_def split: if_splits)
  with d' show "approval_inv d'" by simp
qed

lemma invoice_ops_frame:
  shows "approval_frame d (snd (list_invoices a d))"
    "approval_frame d (snd (get_invoice a iid d))"
    "approval_frame d (snd (issueDownload h s e a did d))"
    "approval_frame d (snd (download h s e st a did tok d))"
  unfolding list_invoices_def get_invoice_def issueDownload_def download_def
  by (auto simp: run_def get_invoice_tx_def download_audit_def approval_frame_def Let_def
      split: sum.splits option.splits if_splits)


section \<open>The worker\<close>

lemma update_documents_Inr [table_simps]:
  "update_documents j f d = Inr d' \<longleftrightarrow>
     (\<forall>x \<in> set (documents d). job_document j x \<longrightarrow> identity_ok x (f x)) \<and>
     (\<forall>x \<in> set (documents d). job_document j x \<longrightarrow> doc_approvedKey (f x) \<noteq> None \<longrightarrow>
        (\<forall>y \<in> set (documents d). \<not> job_document j y \<longrightarrow> doc_approvedKey y \<noteq> doc_approvedKey (f x))) \<and>
     d' = d\<lparr>documents := update_rows (job_document j) f (documents d)\<rparr>"
  by (auto simp: update_documents_def list_ex_iff)

lemma worker_audit_inv [simp]: "approval_inv (worker_audit e k j ac af d) = approval_inv d"
  by (rule approval_inv_cong) (simp_all add: worker_audit_def)

lemma set_status_inv: "approval_inv d \<Longrightarrow> st \<noteq> APPROVED \<Longrightarrow> approval_inv (set_status j st d)"
  unfolding set_status_def by (rule invoice_status_inv)

lemma update_processings_inv: "update_processings P f d = Inr d' \<Longrightarrow> approval_inv d' = approval_inv d"
  by (auto simp: update_processings_Inr)

lemma update_documents_inv: "update_documents j f d = Inr d' \<Longrightarrow> approval_inv d' = approval_inv d"
  by (auto simp: update_documents_Inr)

lemma progress_inv: "progress now j st n inc scan d = Inr d' \<Longrightarrow> approval_inv d' = approval_inv d"
  unfolding progress_def by (rule update_processings_inv)

lemma worker_tx_inv:
  "promote now j key sha d = Inr (u, d') \<Longrightarrow> approval_inv d' = approval_inv d"
  "finish e now j eng sug d = Inr (u, d') \<Longrightarrow> approval_inv d \<Longrightarrow> approval_inv d'"
  "block e now j d = Inr (u, d') \<Longrightarrow> approval_inv d \<Longrightarrow> approval_inv d'"
  by (auto simp: promote_def finish_def block_def set_status_inv split: sum.splits
      dest!: update_processings_inv update_documents_inv)

lemma handle_error_inv:
  assumes "approval_inv d"
  shows "approval_inv (snd (handle_error e j final err d))"
proof (cases final)
  case True
  have "approval_inv d'" if "manualReview (clock e 4) j err d = Inr d'" for d'
  proof -
    from that obtain ps where "d' = d\<lparr>processings := ps, invoices := update_rows
        (\<lambda>i. job_invoice j i \<and> inv_status i = PROCESSING) (\<lambda>i. i\<lparr>inv_status := MANUAL_REVIEW\<rparr>) (invoices d)\<rparr>"
      unfolding manualReview_def by (simp only: table_simps) auto
    with invoice_status_inv [of "d\<lparr>processings := ps\<rparr>" MANUAL_REVIEW] assms show ?thesis by simp
  qed
  with True assms show ?thesis by (auto simp: handle_error_def split: sum.split)
next
  case False
  with assms show ?thesis
    by (auto simp: handle_error_def resetForRetry_def split: sum.split dest: update_processings_inv)
qed

lemma run_worker_inv:
  assumes "approval_inv d" and "\<And>u d'. w d = Inr (u, d') \<Longrightarrow> approval_inv d'"
  shows "run w d = (r, d') \<Longrightarrow> approval_inv d'"
  using tx.preserves [where P = approval_inv, of w d] assms by (metis snd_conv)

lemma read_document_inv:
  assumes "approval_inv d"
  shows "approval_inv (snd (read_document e w j d))"
proof -
  have "approval_inv d'" if "run (finish e now j eng sug) d = (r, d')" for now eng sug r d'
    by (rule run_worker_inv [OF assms worker_tx_inv(2) [OF _ assms] that])
  with assms show ?thesis by (auto simp: read_document_def split: sum.split prod.split)
qed

lemma scan_document_inv:
  assumes "approval_inv d"
  shows "approval_inv (snd (scan_document e w j d))"
proof (cases "progress (clock e 0) j PROC_SCANNING 25 True None d")
  case (Inr d1)
  with assms have d1: "approval_inv d1" by (simp add: progress_inv)
  have b: "approval_inv d2" if "run (block e now j) d1 = (r, d2)" for now r d2
    by (rule run_worker_inv [OF d1 worker_tx_inv(3) [OF _ d1] that])
  have p: "approval_inv d2" if "run (promote now j key sha) d1 = (r, d2)" for now r d2 key sha
    using that d1 by (intro run_worker_inv [OF d1 _ that]) (simp add: worker_tx_inv(1))
  show ?thesis
    using Inr d1 by (auto simp: scan_document_def split: option.split sum.split prod.split
        dest: b p intro!: read_document_inv)
qed (simp add: scan_document_def assms)

lemma reread_document_inv:
  assumes "approval_inv d"
  shows "approval_inv (snd (reread_document e w j d))"
  using assms by (auto simp: reread_document_def split: option.split sum.split
      dest: progress_inv intro!: read_document_inv)

lemma process_job_inv:
  assumes "approval_inv d"
  shows "approval_inv (snd (process_job e w j final d))"
proof -
  have s: "approval_inv d1" if "scan_document e w j d = (r, d1)" for r d1
    using scan_document_inv [OF assms, of e w j] that by simp
  have r: "approval_inv d1" if "reread_document e w j d = (r, d1)" for r d1
    using reread_document_inv [OF assms, of e w j] that by simp
  show ?thesis
    using assms by (auto simp: process_job_def split: option.split prod.split
        dest: s r intro!: handle_error_inv)
qed

lemma run_attempts_inv:
  "approval_inv d \<Longrightarrow> approval_inv (snd (run_attempts ews made lmt j d))"
proof (induction ews made lmt j d rule: run_attempts.induct)
  case (2 e w ews made lmt j d)
  obtain r d' where r: "process_job e w j (is_final made lmt) d = (r, d')" by fastforce
  then have "approval_inv d'" using process_job_inv [OF "2.prems", of e w j "is_final made lmt"] by simp
  then show ?case using "2.IH" r by (auto split: option.split)
qed simp

section \<open>Identity and the webhook\<close>

lemma revokeFamily_frame: "approval_frame d (revokeFamily fam now d)"
  by (simp add: approval_frame_def revokeFamily_def)

lemma rotate_tx_frame: "rotate_tx e tok md d = Inr (r, d') \<Longrightarrow> approval_frame d d'"
  by (auto simp: rotate_tx_def use_token_def Let_def approval_frame_def revokeFamily_def
      split: option.splits if_splits sum.splits)

lemma session_ops_frame:
  shows "approval_frame d (snd (create_session h key e uid org md d))"
    "approval_frame d (revoke e sid d)"
    "approval_frame d (revokeAll e uid d)"
    "approval_frame d (snd (rotate h key e tok md d))"
proof -
  have "approval_frame d (snd (run (create_session_tx e uid org md) d))"
    by (rule run_frame)
      (auto simp: create_session_tx_def approval_frame_def Let_def split: sum.splits)
  then show "approval_frame d (snd (create_session h key e uid org md d))"
    by (auto simp: create_session_def split: sum.split prod.split)
  show "approval_frame d (revoke e sid d)"
    by (simp add: revoke_def revokeFamily_frame split: option.split)
  show "approval_frame d (revokeAll e uid d)"
    by (simp add: approval_frame_def revokeAll_def)
  have "approval_frame d (snd (run (rotate_tx e tok md) d))"
    by (rule run_frame [OF rotate_tx_frame])
  then show "approval_frame d (snd (rotate h key e tok md d))"
    by (auto simp: rotate_def split: sum.split prod.split rotation.split)
qed

lemma passkey_ops_frame:
  shows "approval_frame d (snd (registrationOptions e a d))"
    "approval_frame d (snd (verifyRegistration rv e a resp dn d))"
    "approval_frame d (snd (stepUpOptions e a d))"
    "approval_frame d (snd (verifyStepUp av e a resp d))"
proof -
  have ch: "approval_frame d (snd (run (replaceChallenge e a p c) d))" for p c
    by (rule run_frame)
      (auto simp: replaceChallenge_def approval_frame_def Let_def split: sum.splits)
  have reg: "approval_frame d (snd (run (register_tx e a c info dn) d))" for c info
    by (rule run_frame)
      (auto simp: register_tx_def consume_challenge_def approval_frame_def Let_def split: sum.splits if_splits)
  have st: "approval_frame d (snd (run (step_up_tx e a c cr info) d))" for c cr info
    by (rule run_frame)
      (auto simp: step_up_tx_def consume_challenge_def approval_frame_def Let_def split: if_splits)
  show "approval_frame d (snd (registrationOptions e a d))" "approval_frame d (snd (stepUpOptions e a d))"
    using ch by (auto simp: registrationOptions_def stepUpOptions_def Let_def
        split: sum.split prod.split option.split) (metis snd_conv)+
  show "approval_frame d (snd (verifyRegistration rv e a resp dn d))"
    using reg by (auto simp: verifyRegistration_def split: sum.split prod.split option.split) (metis snd_conv)+
  show "approval_frame d (snd (verifyStepUp av e a resp d))"
    using st by (auto simp: verifyStepUp_def split: sum.split prod.split option.split bool.split) (metis snd_conv)+
qed

lemma process_webhook_frame:
  shows "approval_frame d (snd (process_webhook h secret e p ts sig d))"
proof -
  have "approval_frame d (snd (run (webhook_tx e p t hash) d))" for t hash
    by (rule run_frame)
      (auto simp: webhook_tx_def approval_frame_def split: option.splits sum.splits if_splits)
  then show ?thesis by (simp add: process_webhook_def)
qed

lemma auth_ops_frame:
  shows "approval_frame d (snd (onboard h key argon2 pp sha1 lookup e salt md ondto d))"
    "approval_frame d (snd (login h key argon2 dummy e md lgdto d))"
    "approval_frame d (snd (get_dashboard coll e a d))"
    "approval_frame d (snd (list_audit a query d))"
proof -
  have tx: "approval_frame d d1" if "run (onboard_tx e ph ondto) d = (r, d1)" for ph r d1
  proof -
    have "approval_frame d (snd (run (onboard_tx e ph ondto) d))"
      by (rule run_frame) (auto simp: onboard_tx_def approval_frame_def split: sum.splits)
    with that show ?thesis by simp
  qed
  have s: "approval_frame d d2" if "approval_frame d d1" "create_session h key e uid o' md d1 = (r, d2)" for uid o' r d1 d2
    using approval_frame_trans [OF that(1) session_ops_frame(1) [of d1 h key e uid o' md]] that(2) by simp
  show "approval_frame d (snd (onboard h key argon2 pp sha1 lookup e salt md ondto d))"
    unfolding onboard_def by (auto split: sum.split prod.split dest: tx s)
  show "approval_frame d (snd (login h key argon2 dummy e md lgdto d))"
    unfolding login_def Let_def by (auto split: sum.split prod.split option.split dest: s [OF approval_frame_refl])
  show "approval_frame d (snd (get_dashboard coll e a d))" "approval_frame d (snd (list_audit a query d))"
    unfolding get_dashboard_def list_audit_def
    by (rule run_frame; auto simp: list_audit_tx_def Let_def split: if_splits option.splits)+
qed

text \<open>The operations that leave the invoices and their approvals alone.\<close>

lemmas framed_ops = building_ops_frame vendor_ops_frame contract_ops_frame invoice_ops_frame
  session_ops_frame passkey_ops_frame process_webhook_frame auth_ops_frame

lemmas framed_ops_inv = framed_ops [THEN approval_frame_inv]

end
