(* ===== verification/Tenancy.thy ===== *)
theory Tenancy
  imports Preservation
begin

text \<open>
  Isolation of the tenants.  The database runs the tenant services under row-level security; here
  the tenant is a predicate of every query, and \<open>same_for\<close> says that the rows of one organization are
  untouched.  Each operation called for one organization keeps the rows of every other.
\<close>

definition same_for :: "uuid \<Rightarrow> db \<Rightarrow> db \<Rightarrow> bool" where
  "same_for org d d' \<longleftrightarrow>
     filter (\<lambda>x. bld_org x = org) (buildings d') = filter (\<lambda>x. bld_org x = org) (buildings d) \<and>
     filter (\<lambda>x. apt_org x = org) (apartments d') = filter (\<lambda>x. apt_org x = org) (apartments d) \<and>
     filter (\<lambda>x. gr_org x = org) (grants d') = filter (\<lambda>x. gr_org x = org) (grants d) \<and>
     filter (\<lambda>x. occ_org x = org) (occupancies d') = filter (\<lambda>x. occ_org x = org) (occupancies d) \<and>
     filter (\<lambda>x. ven_org x = org) (vendors d') = filter (\<lambda>x. ven_org x = org) (vendors d) \<and>
     filter (\<lambda>x. con_org x = org) (contacts d') = filter (\<lambda>x. con_org x = org) (contacts d) \<and>
     filter (\<lambda>x. vb_org x = org) (vendor_buildings d') = filter (\<lambda>x. vb_org x = org) (vendor_buildings d) \<and>
     filter (\<lambda>x. bank_org x = org) (bank_versions d') = filter (\<lambda>x. bank_org x = org) (bank_versions d) \<and>
     filter (\<lambda>x. bver_org x = org) (bank_verifications d') =
       filter (\<lambda>x. bver_org x = org) (bank_verifications d) \<and>
     filter (\<lambda>x. ctr_org x = org) (contracts d') = filter (\<lambda>x. ctr_org x = org) (contracts d) \<and>
     filter (\<lambda>x. cb_org x = org) (contract_buildings d') = filter (\<lambda>x. cb_org x = org) (contract_buildings d) \<and>
     filter (\<lambda>x. inv_org x = org) (invoices d') = filter (\<lambda>x. inv_org x = org) (invoices d) \<and>
     filter (\<lambda>x. line_org x = org) (invoice_lines d') = filter (\<lambda>x. line_org x = org) (invoice_lines d) \<and>
     filter (\<lambda>x. doc_org x = org) (documents d') = filter (\<lambda>x. doc_org x = org) (documents d) \<and>
     filter (\<lambda>x. pr_org x = org) (processings d') = filter (\<lambda>x. pr_org x = org) (processings d) \<and>
     filter (\<lambda>x. pol_org x = org) (policies d') = filter (\<lambda>x. pol_org x = org) (policies d) \<and>
     filter (\<lambda>x. ra_org x = org) (assessments d') = filter (\<lambda>x. ra_org x = org) (assessments d) \<and>
     filter (\<lambda>x. req_org x = org) (requests d') = filter (\<lambda>x. req_org x = org) (requests d) \<and>
     filter (\<lambda>x. dec_org x = org) (decisions d') = filter (\<lambda>x. dec_org x = org) (decisions d) \<and>
     filter (\<lambda>x. dlv_org x = org) (deliveries d') = filter (\<lambda>x. dlv_org x = org) (deliveries d) \<and>
     filter (\<lambda>x. au_org x = org) (audit d') = filter (\<lambda>x. au_org x = org) (audit d) \<and>
     filter (\<lambda>x. mem_org x = org) (memberships d') = filter (\<lambda>x. mem_org x = org) (memberships d) \<and>
     filter (\<lambda>x. org_id x = org) (organizations d') = filter (\<lambda>x. org_id x = org) (organizations d)"

lemma same_for_refl [simp]: "same_for org d d"
  by (simp add: same_for_def)

lemma same_for_trans: "same_for org d d' \<Longrightarrow> same_for org d' d'' \<Longrightarrow> same_for org d d''"
  by (simp add: same_for_def)

lemma filter_keep_conj: "\<forall>x. Q x \<longrightarrow> R x \<Longrightarrow> filter (\<lambda>x. R x \<and> Q x) xs = filter Q xs"
  by (induction xs) auto

lemma filter_update_other:
  assumes "\<forall>r. P r \<longrightarrow> k r \<noteq> org" and "\<forall>r. k (f r) = k r"
  shows "filter (\<lambda>r. k r = org) (update_rows P f t) = filter (\<lambda>r. k r = org) t"
  using assms by (induction t) auto

lemma audit_same: "org \<noteq> o' \<Longrightarrow> filter (\<lambda>x. au_org x = o') (audit (writeAudit e k org ac t en i b f r d)) =
    filter (\<lambda>x. au_org x = o') (audit d)"
  by (simp add: writeAudit_def)

lemma writeAudit_same: "org \<noteq> o' \<Longrightarrow> same_for o' d (writeAudit e k org ac t en i b f r d') = same_for o' d d'"
  by (simp add: same_for_def audit_same)

lemmas same_defs = same_for_def filter_update_other filter_keep_conj audit_same

lemma run_same:
  assumes "\<And>r d'. w d = Inr (r, d') \<Longrightarrow> same_for org d d'"
  shows "same_for org d (snd (run w d))"
  by (rule tx.relates [where R = "same_for org", OF assms]) simp_all

section \<open>Buildings, vendors, contracts\<close>


lemma building_ops_same:
  assumes "organizationId a \<noteq> org"
  shows "same_for org d (snd (list_buildings coll e a q d))"
    "same_for org d (snd (get_building coll e a b d))"
    "same_for org d (snd (listResidents coll a d))"
    "same_for org d (snd (create_building e a cdto d))"
    "same_for org d (snd (update_building e a b v udto d))"
    "same_for org d (snd (addApartment e a b unit flr d))"
    "same_for org d (snd (grantAccess e a b m until d))"
    "same_for org d (snd (addOccupancy e a b m s t d))"
  unfolding list_buildings_def get_building_def listResidents_def create_building_def
    update_building_def addApartment_def grantAccess_def addOccupancy_def
  using assms
  by (intro run_same;
      auto simp: list_buildings_tx_def get_building_tx_def create_building_tx_def
        update_building_tx_def addApartment_tx_def grantAccess_tx_def addOccupancy_tx_def
        table_simps same_defs Let_def new_building_def apply_building_dto_def
        split: sum.splits option.splits if_splits)+


lemma links_same [simp]:
  "org \<noteq> o' \<Longrightarrow> filter (\<lambda>x. vb_org x = o') (vendor_links org vid bs) = []"
  "org \<noteq> o' \<Longrightarrow> filter (\<lambda>x. cb_org x = o') (contract_rows org cid bs) = []"
  by (simp_all add: vendor_links_def contract_rows_def filter_empty_conv)

lemma relink_vendor_same:
  "organizationId a \<noteq> org \<Longrightarrow> relink_vendor (organizationId a) vid cur bs d = Inr d' \<Longrightarrow> same_for org d d'"
  by (auto simp: relink_vendor_def same_defs Let_def split: if_splits)

lemma update_vendor_same:
  assumes "organizationId a \<noteq> org" and "update_vendor_tx e a vid v dto d = Inr (r, d')"
  shows "same_for org d d'"
  using assms(2) unfolding update_vendor_tx_def Let_def
  apply (simp only: table_simps)
  apply (elim exE conjE)
  subgoal premises prems for bef u d2 aft
  proof -
    let ?d1 = "d\<lparr>vendors := update_rows (\<lambda>x. ven_id x = vid \<and> ven_org x = organizationId a \<and> ven_version x = v)
        (apply_vendor_dto dto) (vendors d)\<rparr>"
    have "same_for org d ?d1" using assms(1) by (simp add: same_defs apply_vendor_dto_def)
    moreover have "same_for org ?d1 d2"
      using prems relink_vendor_same [OF assms(1), of vid _ _ ?d1 d2] by (auto split: option.splits)
    ultimately have "same_for org d d2" by (rule same_for_trans)
    with prems assms(1) show ?thesis by (auto simp: writeAudit_same)
  qed
  done

lemma freeze_approvals_same:
  "org \<noteq> o' \<Longrightarrow> same_for o' d (freeze_approvals org vid d)"
  by (simp add: freeze_approvals_def pending_of_vendor_def same_defs)

lemma addBankVersion_same:
  assumes "organizationId a \<noteq> org" and "addBankVersion_tx c svc e a vid country acc d = Inr (view, d')"
  shows "same_for org d d'"
  using assms(2)
proof (rule addBankVersion_tx_Inr)
  fix b d1
  assume b: "b = new_bank_version e a vid (next_bank_number d (organizationId a) vid) country
       (encrypt c svc (random_token e 0) (organizationId a) vid acc)"
    and d1: "d1 = d\<lparr>bank_versions := bank_versions d @ [b],
       bank_verifications := bank_verifications d @ [first_verification e a b]\<rparr>"
    and d': "d' = writeAudit e 2 (organizationId a) (Some (membershipId a)) ''BANK_ACCOUNT_VERSION_CREATED''
       ''BANK_ACCOUNT'' (bank_id b) None (Some (bank_created_json vid b
         (if 1 < bank_number b then count_rows (pending_of_vendor d1 (organizationId a) vid) (requests d1) else 0)))
       None (if 1 < bank_number b then freeze_approvals (organizationId a) vid d1 else d1)"
  have "same_for org d d1"
    using assms(1) by (simp add: d1 b same_for_def new_bank_version_def first_verification_def)
  then show ?thesis
    unfolding d' using assms(1) freeze_approvals_same [OF assms(1), of d1]
    by (auto simp: writeAudit_same intro: same_for_trans)
qed

lemma vendor_ops_same:
  assumes "organizationId a \<noteq> org"
  shows "same_for org d (snd (list_vendors coll e a vq d))"
    "same_for org d (snd (get_vendor e a vid d))"
    "same_for org d (snd (bankHistory e a vid d))"
    "same_for org d (snd (create_vendor e a cdto d))"
    "same_for org d (snd (addContact e a vid kdto d))"
    "same_for org d (snd (verifyBankVersion e a vid bid st ev re d))"
    "same_for org d (snd (revealBankVersion c svc e a vid bid txt d))"
  unfolding list_vendors_def get_vendor_def bankHistory_def create_vendor_def
    addContact_def verifyBankVersion_def revealBankVersion_def
  using assms
  by (intro run_same;
      auto simp: list_vendors_tx_def get_vendor_tx_def bankHistory_tx_def create_vendor_tx_def
        addContact_tx_def verifyBankVersion_tx_def revealBankVersion_tx_def new_vendor_def
        table_simps same_defs Let_def split: sum.splits option.splits if_splits)+

lemma vendor_updates_same:
  assumes "organizationId a \<noteq> org"
  shows "same_for org d (snd (update_vendor e a vid v udto d))"
    "same_for org d (snd (addBankVersion c svc e a vid country acc d))"
  unfolding update_vendor_def addBankVersion_def
  by (rule run_same, erule update_vendor_same [OF assms] addBankVersion_same [OF assms])+

lemma write_contract_same:
  "organizationId a \<noteq> org \<Longrightarrow> write_contract a cid v (apply_contract_dto dto vl cur) d = Inr d' \<Longrightarrow>
     same_for org d d'"
  unfolding write_contract_def Let_def
  by (simp only: table_simps) (auto simp: same_defs apply_contract_dto_def)

lemma update_contract_same:
  assumes "organizationId a \<noteq> org" and "update_contract_tx e a cid v dto d = Inr (r, d')"
  shows "same_for org d d'"
  using assms(2) unfolding update_contract_tx_def Let_def
  apply (simp only: table_simps)
  apply (elim exE conjE)
  subgoal premises prems for bef u1 u2 u3 vl vs cur d2 aft
  proof -
    let ?d1 = "if map_option new_Set (ucd_buildingIds dto) = None then d
      else d\<lparr>contract_buildings := filter (\<lambda>l. \<not> (cb_org l = organizationId a \<and> cb_contractId l = cid))
        (contract_buildings d)\<rparr>"
    have "same_for org d ?d1" using assms(1) by (simp add: same_defs)
    moreover have "same_for org ?d1 d2"
      using prems by (intro write_contract_same [OF assms(1)]) simp
    ultimately have "same_for org d d2" by (rule same_for_trans)
    moreover have "same_for org d2 (d2\<lparr>contract_buildings :=
        contract_buildings d2 @ contract_rows (organizationId a) cid bs\<rparr>)" for bs
      using assms(1) by (simp add: same_for_def)
    ultimately show ?thesis
      using prems assms(1) by (auto simp: writeAudit_same split: option.splits intro: same_for_trans)
  qed
  done

lemma contract_ops_same:
  assumes "organizationId a \<noteq> org"
  shows "same_for org d (snd (list_contracts e a cq d))"
    "same_for org d (snd (get_contract e a cid d))"
    "same_for org d (snd (create_contract e a cdto d))"
  unfolding list_contracts_def get_contract_def create_contract_def
  using assms
  by (intro run_same;
      auto simp: list_contracts_tx_def get_contract_tx_def create_contract_tx_def new_contract_def
        table_simps same_defs Let_def split: sum.splits option.splits if_splits)+

lemma contract_updates_same:
  assumes "organizationId a \<noteq> org"
  shows "same_for org d (snd (update_contract e a cid v udto d))"
  unfolding update_contract_def by (rule run_same) (erule update_contract_same [OF assms])

section \<open>Approvals\<close>

lemma policy_same:
  assumes "org \<noteq> o'" and "policy e k org d = (p, d')"
  shows "same_for o' d d'"
  using assms(2)
proof (cases rule: policy_cases)
  case created
  with assms(1) show ?thesis by (simp add: same_for_def default_policy_def)
qed simp

lemma eligible_same:
  assumes "org \<noteq> o'" and "eligibleApprovers e k org ini d = (v, d')"
  shows "same_for o' d d'"
  using assms(2) policy_same [OF assms(1), of e k d] by (auto simp: eligibleApprovers_def split: prod.splits)

lemma submit_audits_same:
  "organizationId a \<noteq> org \<Longrightarrow> same_for org d (submit_audits e a iid v ev r d') = same_for org d d'"
  by (simp add: submit_audits_def writeAudit_same)

lemma submit_tx_same:
  assumes a: "organizationId a \<noteq> org" and "submit_tx e a iid v kh d = Inr (view, d')"
  shows "same_for org d d'"
  using assms(2)
proof (cases rule: submit_txE)
  case (fresh i p d1 bank ev risk req eligible)
  have "same_for org d d1"
    using fresh(1) policy_same [OF a] by (auto simp: submits_def)
  moreover have "same_for org d1 (after_submit e a iid v bank risk req d1)"
    using fresh(1) a by (auto simp: submits_def after_submit_def same_defs moves_on_submit_def)
  ultimately show ?thesis
    using eligible_same [OF a fresh(4)] a by (metis same_for_trans submit_audits_same)
qed simp

lemma invalidate_same: "req_org r \<noteq> org \<Longrightarrow> same_for org d (invalidate r reason d)"
  by (simp add: invalidate_def same_defs)

lemma set_status_same:
  assumes "org \<noteq> o'"
  shows "same_for o' d (set_request_status org rid st now d)"
    "set_invoice_status org iid s d = Inr d' \<Longrightarrow> same_for o' d d'"
  using assms by (auto simp: set_request_status_def set_invoice_status_def same_defs split: if_splits)

lemma complete_decision_same:
  assumes "req_org r \<noteq> org" and "complete_decision e r outcome d = Inr d'"
  shows "same_for org d d'"
proof -
  have "same_for org d d'" if "set_invoice_status (req_org r) iid s (set_request_status (req_org r) rid st now d) = Inr d'"
    for iid s rid st now
    by (rule same_for_trans [OF set_status_same(1) [OF assms(1)] set_status_same(2) [OF assms(1) that]])
  with assms(2) show ?thesis by (auto simp: complete_decision_def split: if_splits)
qed

lemma decide_tx_same:
  assumes a: "organizationId a \<noteq> org" and "decide_tx e a rid dto kh d = Inr (res, d')"
  shows "same_for org d d'"
  using assms(2)
proof (cases rule: decide_txE)
  case (stale r i reason)
  then have "req_org r = organizationId a" by (auto simp: stale_request_def dest: find_SomeD)
  with stale a show ?thesis by (simp add: invalidate_same)
next
  case (recorded r i m s stepUp p d1)
  then have r: "req_org r = organizationId a" "policy e 0 (organizationId a) d = (p, d1)"
    by (auto simp: decides_def dest: find_SomeD)
  from recorded(2) obtain d2 d3 eligible and updated :: request where
    c: "create_decision (made_decision e a r m s stepUp dto kh) d1 = Inr d2"
    and c': "complete_decision e r (dto_outcome dto) d2 = Inr d3"
    and el: "eligibleApprovers e 4 (organizationId a) (req_initiatedBy updated)
      (decision_audit e a r stepUp dto d3) = (eligible, d')"
    by (rule record_decisionE) blast
  have "same_for org d d1" using r(2) by (rule policy_same [OF a])
  moreover have "same_for org d1 d2"
    using c a by (auto simp: create_decision_Inr same_for_def made_decision_def)
  moreover have "same_for org d2 d3" using r(1) a by (intro complete_decision_same [OF _ c']) simp
  moreover have "same_for org d3 (decision_audit e a r stepUp dto d3)"
    using a by (simp add: decision_audit_def writeAudit_same)
  ultimately show ?thesis using eligible_same [OF a el] by (meson same_for_trans)
qed simp

lemma list_views_same:
  assumes "org \<noteq> o'"
  shows "same_for o' d (snd (list_views e org rs d))"
proof (induction rs arbitrary: d)
  case (Cons r rs)
  obtain el d1 where el: "eligibleApprovers e 0 org (req_initiatedBy r) d = (el, d1)" by fastforce
  have "same_for o' d d1" by (rule eligible_same [OF assms el])
  with Cons [of d1] el show ?case by (auto simp: Let_def split: prod.split intro: same_for_trans)
qed simp

lemma updatePolicy_tx_same:
  assumes a: "organizationId a \<noteq> org" and "updatePolicy_tx e a dto d = Inr (r, d')"
  shows "same_for org d d'"
proof -
  obtain existing d1 where p: "policy e 0 (organizationId a) d = (existing, d1)" by fastforce
  have "same_for org d1 (d1\<lparr>policies := update_rows (\<lambda>p. pol_org p = organizationId a) (apply_policy_dto dto) (policies d1)\<rparr>)"
    using a by (simp add: same_defs apply_policy_dto_def)
  with p assms policy_same [OF a p] show ?thesis
    by (auto simp: updatePolicy_tx_def Let_def writeAudit_same split: if_splits intro: same_for_trans)
qed

lemma approval_ops_same:
  assumes "organizationId a \<noteq> org"
  shows "same_for org d (snd (submit e a iid v key d))"
    "same_for org d (snd (decide e a rid dto key d))"
    "same_for org d (snd (list_requests e a d))"
    "same_for org d (snd (get_request e a rid d))"
    "same_for org d (snd (getPolicy e a d))"
    "same_for org d (snd (updatePolicy e a pdto d))"
proof -
  have "same_for org d (snd (run (submit_tx e a iid v kh) d))" for kh
    by (rule run_same) (erule submit_tx_same [OF assms])
  then show "same_for org d (snd (submit e a iid v key d))"
    by (simp add: submit_def split: sum.split)
  have "same_for org d (snd (run (decide_tx e a rid dto kh) d))" for kh
    by (rule run_same) (erule decide_tx_same [OF assms])
  then show "same_for org d (snd (decide e a rid dto key d))"
    by (simp add: decide_eq_run split: sum.split)
  show "same_for org d (snd (list_requests e a d))"
    unfolding list_requests_def using list_views_same [OF assms] by (intro run_same) (metis sum.inject(2) snd_conv)
  show "same_for org d (snd (get_request e a rid d))"
    unfolding get_request_def by (rule run_same)
      (auto simp: Let_def split: option.splits prod.splits dest: eligible_same [OF assms])
  show "same_for org d (snd (getPolicy e a d))"
    unfolding getPolicy_def by (rule run_same) (auto dest: policy_same [OF assms])
  show "same_for org d (snd (updatePolicy e a pdto d))"
    unfolding updatePolicy_def by (rule run_same) (erule updatePolicy_tx_same [OF assms])
qed


section \<open>Invoices and the worker\<close>

lemma upload_tx_same:
  assumes "organizationId a \<noteq> org" and "upload_tx e a vid cid upf v d = Inr (view, d')"
  shows "same_for org d d'"
  using assms(2)
proof (rule upload_txE)
  fix xs ps
  assume "xs = documents d @ [new_document e a upf v]" "ps = processings d @ [new_processing e a]"
    and d': "d' = writeAudit e 5 (organizationId a) (Some (membershipId a)) ''INVOICE_UPLOADED'' ''INVOICE''
       (new_uuid e 1) None (Some (upload_event e v)) None
       (d\<lparr>invoices := invoices d @ [new_invoice e a vid cid], documents := xs, processings := ps\<rparr>)"
  then show ?thesis
    unfolding d' using assms(1) by (simp add: writeAudit_same) (simp add: same_for_def)
qed

lemma markManualReview_same:
  assumes "org \<noteq> o'"
  shows "same_for o' d (snd (markManualReview e org did iid code d))"
  unfolding markManualReview_def markManualReview_tx_def using assms
  by (intro run_same) (auto simp: table_simps same_defs)

lemma update_invoice_same:
  assumes a: "organizationId a \<noteq> org" and "update_invoice_tx e a iid dto d = Inr (view, d')"
  shows "same_for org d d'"
  using assms(2)
proof (rule update_invoice_txE)
  fix existing updated :: invoice and d2
  define d1 where "d1 = (if inv_status existing = AWAITING_APPROVAL then withdraw_requests (organizationId a) iid d else d)"
  assume w: "write_draft a iid dto (inv_status existing = AWAITING_APPROVAL)
       (if inv_status existing = AWAITING_APPROVAL then withdraw_requests (organizationId a) iid d else d) = Inr d2"
    and d': "d' = draft_audits e a existing updated (inv_status existing = AWAITING_APPROVAL)
       (replace_lines (organizationId a) iid (uid_lines dto) d2)"
  have "same_for org d d1" using a by (simp add: d1_def withdraw_requests_def same_defs)
  moreover have "same_for org d1 d2"
    using a by (simp add: write_draft_Inr [OF w, folded d1_def] same_defs apply_invoice_dto_def)
  moreover have "same_for org d2 (replace_lines (organizationId a) iid (uid_lines dto) d2)"
    using a by (auto simp: replace_lines_def new_lines_def same_defs filter_empty_conv split: option.split)
  ultimately show ?thesis
    unfolding d' using a by (auto simp: draft_audits_def Let_def writeAudit_same intro: same_for_trans)
qed

lemma invoice_ops_same:
  assumes "organizationId a \<noteq> org"
  shows "same_for org d (snd (upload e w a vid cid upl d))"
    "same_for org d (snd (update_invoice e a iid dto d))"
    "same_for org d (snd (list_invoices a d))"
    "same_for org d (snd (get_invoice a iid d))"
    "same_for org d (snd (issueDownload h s e a did d))"
    "same_for org d (snd (download h s e st a did tok d))"
proof -
  have up: "same_for org d d1" if "run (upload_tx e a vid cid upf v) d = (r, d1)" for upf v r d1
    using that run_same [of "upload_tx e a vid cid upf v" d org] upload_tx_same [OF assms] by (metis snd_conv)
  have mark: "same_for org d1 d2" if "markManualReview e (organizationId a) did iid code d1 = (r, d2)"
    for d1 did iid code r d2
    using markManualReview_same [OF assms, of d1 e did iid code] that by simp
  show "same_for org d (snd (upload e w a vid cid upl d))"
    unfolding upload_def
    by (auto split: option.split sum.split prod.split dest!: up mark intro: same_for_trans)
  show "same_for org d (snd (update_invoice e a iid dto d))"
    unfolding update_invoice_def by (rule run_same) (erule update_invoice_same [OF assms])
  show "same_for org d (snd (list_invoices a d))" "same_for org d (snd (get_invoice a iid d))"
    "same_for org d (snd (issueDownload h s e a did d))"
    "same_for org d (snd (download h s e st a did tok d))"
    unfolding list_invoices_def get_invoice_def issueDownload_def download_def using assms
    by (auto simp: run_def get_invoice_tx_def download_audit_def writeAudit_same Let_def
        split: sum.splits option.splits if_splits)
qed

lemma worker_audit_same:
  "job_organizationId j \<noteq> org \<Longrightarrow> same_for org d (worker_audit e k j ac af d') = same_for org d d'"
  by (simp add: same_for_def worker_audit_def)

lemma update_processings_same:
  assumes "update_processings P f d = Inr d'"
    and "\<forall>p. P p \<longrightarrow> pr_org p \<noteq> org" and "\<forall>p. pr_org (f p) = pr_org p"
  shows "same_for org d d'"
  using assms by (simp add: update_processings_Inr same_defs)

lemma update_documents_same:
  assumes "update_documents j f d = Inr d'"
    and "job_organizationId j \<noteq> org" and "\<forall>x. doc_org (f x) = doc_org x"
  shows "same_for org d d'"
  using assms by (simp add: update_documents_Inr same_defs job_document_def)

lemma job_invoices_same:
  assumes "job_organizationId j \<noteq> org"
  shows "same_for org d (d\<lparr>invoices := update_rows (\<lambda>i. job_invoice j i \<and> P i)
      (\<lambda>i. i\<lparr>inv_status := st\<rparr>) (invoices d)\<rparr>)"
    "same_for org d (set_status j st d)"
  using assms by (simp_all add: same_defs job_invoice_def set_status_def)

lemma worker_statements_same:
  assumes j: "job_organizationId j \<noteq> org"
  shows "progress now j st n inc scan d = Inr d' \<Longrightarrow> same_for org d d'"
    "promote now j key sha d = Inr (u, d') \<Longrightarrow> same_for org d d'"
    "finish e now j eng sug d = Inr (u, d') \<Longrightarrow> same_for org d d'"
    "block e now j d = Inr (u, d') \<Longrightarrow> same_for org d d'"
    "manualReview now j err d = Inr d' \<Longrightarrow> same_for org d d'"
    "resetForRetry now j d = Inr d' \<Longrightarrow> same_for org d d'"
proof -
  have p: "same_for org x y" if "update_processings (\<lambda>p. for_job j p \<and> Q p) f x = Inr y" "\<forall>p. pr_org (f p) = pr_org p"
    for Q f x y
    by (rule update_processings_same [OF that(1) _ that(2)]) (use j in \<open>simp add: for_job_def\<close>)
  have p': "same_for org x y" if "update_processings (for_job j) f x = Inr y" "\<forall>p. pr_org (f p) = pr_org p" for f x y
    by (rule update_processings_same [OF that(1) _ that(2)]) (use j in \<open>simp add: for_job_def\<close>)
  have st: "same_for org x (worker_audit e k j ac af (set_status j s y))" if "same_for org x y" for x y e k ac af s
    using same_for_trans [OF that job_invoices_same(2) [OF j]] j by (simp add: worker_audit_same)
  show "progress now j st n inc scan d = Inr d' \<Longrightarrow> same_for org d d'"
    unfolding progress_def by (erule p') simp
  show "resetForRetry now j d = Inr d' \<Longrightarrow> same_for org d d'"
    unfolding resetForRetry_def by (erule p) simp
  show "finish e now j eng sug d = Inr (u, d') \<Longrightarrow> same_for org d d'"
    unfolding finish_def by (auto split: sum.splits intro!: st dest!: p')
  show "promote now j key sha d = Inr (u, d') \<Longrightarrow> same_for org d d'"
    unfolding promote_def
    by (auto split: sum.splits dest!: p' update_documents_same [OF _ j] intro: same_for_trans)
  show "block e now j d = Inr (u, d') \<Longrightarrow> same_for org d d'"
    unfolding block_def
    by (auto split: sum.splits dest!: p' update_documents_same [OF _ j] intro!: st intro: same_for_trans)
  show "manualReview now j err d = Inr d' \<Longrightarrow> same_for org d d'"
    unfolding manualReview_def
    apply (simp only: sum_case_Inr_iff sum.inject)
    apply (elim exE conjE)
    apply (drule p, simp)
    apply (drule sym, hypsubst)
    apply (erule same_for_trans [OF _ job_invoices_same(1) [OF j]])
    done
qed

lemma worker_run_same:
  assumes "\<And>u d'. w d = Inr (u, d') \<Longrightarrow> same_for org d d'" and "run w d = (r, d')"
  shows "same_for org d d'"
  using run_same [of w d org] assms by simp

lemma read_document_same:
  assumes "job_organizationId j \<noteq> org"
  shows "same_for org d (snd (read_document e w j d))"
proof -
  have "same_for org d d'" if "run (finish e now j eng sug) d = (r, d')" for now eng sug r d'
    by (rule worker_run_same [OF worker_statements_same(3) [OF assms] that])
  then show ?thesis by (auto simp: read_document_def split: sum.split prod.split)
qed

lemma process_job_same:
  assumes j: "job_organizationId j \<noteq> org"
  shows "same_for org d (snd (process_job e w j final d))"
proof -
  note w = worker_statements_same [OF j]
  have read: "same_for org x z" if "same_for org x y" "read_document e' w' j y = (r, z)" for x y z r e' w'
    using same_for_trans [OF that(1)] read_document_same [OF j, of y e' w'] that(2) by simp
  have promoted: "same_for org x z" if "run (promote now j key sha) y = (r, z)" "same_for org x y"
    for x y z r now key sha
    using same_for_trans [OF that(2) worker_run_same [OF w(2) that(1)]] .
  have blocked: "same_for org x z" if "run (block e' now j) y = (r, z)" "same_for org x y" for x y z r e' now
    using same_for_trans [OF that(2) worker_run_same [OF w(4) that(1)]] .
  have scan: "same_for org d y" if "scan_document e w j d = (r, y)" for r y
    using that unfolding scan_document_def
    by (auto split: sum.splits option.splits prod.splits if_splits dest!: w(1)
        dest: promoted blocked intro: read)
  have reread: "same_for org d y" if "reread_document e w j d = (r, y)" for r y
    using that unfolding reread_document_def
    by (auto split: sum.splits option.splits dest!: w(1) intro: read)
  have err: "same_for org x (snd (handle_error e j final er y))" if "same_for org x y" for x y er
    using that by (auto simp: handle_error_def split: sum.split if_splits
        dest: w(5,6) intro: same_for_trans)
  show ?thesis
    unfolding process_job_def by (auto split: option.split prod.split if_splits dest: scan reread intro!: err)
qed

section \<open>Identity and the webhook\<close>

text \<open>The identity tables belong to no tenant, and their operations change no tenant's table.\<close>

lemma revokeFamily_same: "same_for org d (revokeFamily fam now d)"
  by (simp add: same_for_def revokeFamily_def)

lemma identity_run_same:
  assumes "run w d = (r, d')" and "\<And>x y. w d = Inr (x, y) \<Longrightarrow> same_for org d y"
  shows "same_for org d d'"
  using run_same [of w d org] assms by simp

lemma session_ops_same:
  "same_for org d (snd (create_session h key e uid o' md d))"
  "same_for org d (revoke e sid d)"
  "same_for org d (revokeAll e uid d)"
  "same_for org d (snd (rotate h key e tok md d))"
proof -
  have c: "same_for org d d'" if "run (create_session_tx e uid o' md) d = (r, d')" for r d'
    by (rule identity_run_same [OF that]) (auto simp: create_session_tx_def same_for_def Let_def split: sum.splits)
  have r: "same_for org d d'" if "run (rotate_tx e tok md) d = (r, d')" for r d'
    by (rule identity_run_same [OF that])
      (auto simp: rotate_tx_def use_token_def Let_def same_for_def revokeFamily_def
        split: option.splits if_splits sum.splits)
  show "same_for org d (snd (create_session h key e uid o' md d))"
    unfolding create_session_def by (auto split: sum.split prod.split dest: c)
  show "same_for org d (revoke e sid d)"
    by (simp add: revoke_def revokeFamily_same split: option.split)
  show "same_for org d (revokeAll e uid d)" by (simp add: same_for_def revokeAll_def)
  show "same_for org d (snd (rotate h key e tok md d))"
    unfolding rotate_def by (auto split: sum.split prod.split rotation.split dest: r)
qed

lemma passkey_ops_same:
  "same_for org d (snd (registrationOptions e a d))"
  "same_for org d (snd (verifyRegistration rv e a resp dn d))"
  "same_for org d (snd (stepUpOptions e a d))"
  "same_for org d (snd (verifyStepUp av e a resp d))"
proof -
  have ch: "same_for org d d'" if "run (replaceChallenge e a p c) d = (r, d')" for p c r d'
    by (rule identity_run_same [OF that]) (auto simp: replaceChallenge_def same_for_def Let_def split: sum.splits)
  have reg: "same_for org d d'" if "run (register_tx e a c info dn) d = (r, d')" for c info r d'
    by (rule identity_run_same [OF that])
      (auto simp: register_tx_def consume_challenge_def same_for_def Let_def split: sum.splits if_splits)
  have st: "same_for org d d'" if "run (step_up_tx e a c cr info) d = (r, d')" for c cr info r d'
    by (rule identity_run_same [OF that])
      (auto simp: step_up_tx_def consume_challenge_def same_for_def Let_def split: if_splits)
  show "same_for org d (snd (registrationOptions e a d))" "same_for org d (snd (stepUpOptions e a d))"
    unfolding registrationOptions_def stepUpOptions_def Let_def
    by (auto split: sum.split prod.split option.split dest: ch)
  show "same_for org d (snd (verifyRegistration rv e a resp dn d))"
    unfolding verifyRegistration_def by (auto split: sum.split prod.split option.split dest: reg)
  show "same_for org d (snd (verifyStepUp av e a resp d))"
    unfolding verifyStepUp_def by (auto split: sum.split prod.split option.split bool.split dest: st)
qed

lemma process_webhook_same:
  assumes "fb_organizationId p \<noteq> org"
  shows "same_for org d (snd (process_webhook h secret e p ts sig d))"
proof -
  have "same_for org d (snd (run (webhook_tx e p t hash) d))" for t hash
    by (rule run_same) (use assms in \<open>auto simp: webhook_tx_def table_simps same_defs new_delivery_def
        split: option.splits sum.splits if_splits\<close>)
  then show ?thesis by (simp add: process_webhook_def)
qed

text \<open>Onboarding adds rows of the organization it creates, and no others.\<close>

lemma auth_ops_same:
  shows "new_uuid e 4 \<noteq> org \<Longrightarrow> same_for org d (snd (onboard h key argon2 pp sha1 lookup e salt md ondto d))"
    "same_for org d (snd (login h key argon2 dummy e md lgdto d))"
    "same_for org d (snd (get_dashboard coll e a d))"
    "same_for org d (snd (list_audit a query d))"
proof -
  have s: "same_for org d d2" if "same_for org d d1" "create_session h key e uid o' md d1 = (r, d2)" for uid o' r d1 d2
    using same_for_trans [OF that(1) session_ops_same(1) [of org d1 h key e uid o' md]] that(2) by simp
  show "same_for org d (snd (onboard h key argon2 pp sha1 lookup e salt md ondto d))" if "new_uuid e 4 \<noteq> org"
  proof -
    have "same_for org d d1" if "run (onboard_tx e ph ondto) d = (r, d1)" for ph r d1
      by (rule identity_run_same [OF that])
        (use \<open>new_uuid e 4 \<noteq> org\<close> in \<open>auto simp: onboard_tx_def same_for_def new_owner_def new_organization_def
          table_simps split: sum.splits\<close>)
    then show ?thesis unfolding onboard_def by (auto split: sum.split prod.split dest: s)
  qed
  show "same_for org d (snd (login h key argon2 dummy e md lgdto d))"
    unfolding login_def Let_def by (auto split: sum.split prod.split option.split dest: s [OF same_for_refl])
  show "same_for org d (snd (get_dashboard coll e a d))" "same_for org d (snd (list_audit a query d))"
    unfolding get_dashboard_def list_audit_def
    by (rule run_same; auto simp: list_audit_tx_def Let_def split: if_splits option.splits)+
qed

end
