(* ===== verification/System.thy ===== *)
theory System
  imports Tenancy
begin

text \<open>
  The whole system as a transition relation on the database.  A step is one call of a service or
  one attempt of the worker, labelled with the organization it works for, for an onboarding the
  one it creates; the other calls of the identity services carry no label.  A reachable database starts with no invoices, requests,
  decisions, assessments and policies.  The locale \<open>kept\<close> lifts what every step keeps to whole runs;
  it is interpreted on the invariant of the approvals and, per organization, on the runs of the others.
\<close>

inductive step :: "uuid option \<Rightarrow> db \<Rightarrow> db \<Rightarrow> bool" where
  list_buildings: "step (Some (organizationId a)) d (snd (list_buildings coll e a q d))"
| get_building: "step (Some (organizationId a)) d (snd (get_building coll e a bid d))"
| listResidents: "step (Some (organizationId a)) d (snd (listResidents coll a d))"
| create_building: "step (Some (organizationId a)) d (snd (create_building e a bdto d))"
| update_building: "step (Some (organizationId a)) d (snd (update_building e a bid v budto d))"
| addApartment: "step (Some (organizationId a)) d (snd (addApartment e a bid unit flr d))"
| grantAccess: "step (Some (organizationId a)) d (snd (grantAccess e a bid mid until d))"
| addOccupancy: "step (Some (organizationId a)) d (snd (addOccupancy e a aid mid starts ends d))"
| list_vendors: "step (Some (organizationId a)) d (snd (list_vendors coll e a vq d))"
| get_vendor: "step (Some (organizationId a)) d (snd (get_vendor e a vid d))"
| bankHistory: "step (Some (organizationId a)) d (snd (bankHistory e a vid d))"
| create_vendor: "step (Some (organizationId a)) d (snd (create_vendor e a vdto d))"
| update_vendor: "step (Some (organizationId a)) d (snd (update_vendor e a vid v vudto d))"
| addContact: "step (Some (organizationId a)) d (snd (addContact e a vid kdto d))"
| addBankVersion: "step (Some (organizationId a)) d (snd (addBankVersion c svc e a vid country acc d))"
| verifyBankVersion: "step (Some (organizationId a)) d (snd (verifyBankVersion e a vid bkid bst evi rsn d))"
| revealBankVersion: "step (Some (organizationId a)) d (snd (revealBankVersion c svc e a vid bkid txt d))"
| list_contracts: "step (Some (organizationId a)) d (snd (list_contracts e a cq d))"
| get_contract: "step (Some (organizationId a)) d (snd (get_contract e a cid d))"
| create_contract: "step (Some (organizationId a)) d (snd (create_contract e a cdto d))"
| update_contract: "step (Some (organizationId a)) d (snd (update_contract e a cid v cudto d))"
| upload: "step (Some (organizationId a)) d (snd (upload e uw a ovid ocid upl d))"
| list_invoices: "step (Some (organizationId a)) d (snd (list_invoices a d))"
| get_invoice: "step (Some (organizationId a)) d (snd (get_invoice a iid d))"
| update_invoice: "step (Some (organizationId a)) d (snd (update_invoice e a iid idto d))"
| issueDownload: "step (Some (organizationId a)) d (snd (issueDownload hmac secret e a did d))"
| download: "step (Some (organizationId a)) d (snd (download hmac secret e stored a did tok d))"
| submit: "step (Some (organizationId a)) d (snd (submit e a iid v key d))"
| decide: "step (Some (organizationId a)) d (snd (decide e a rid ddto key d))"
| list_requests: "step (Some (organizationId a)) d (snd (list_requests e a d))"
| get_request: "step (Some (organizationId a)) d (snd (get_request e a rid d))"
| getPolicy: "step (Some (organizationId a)) d (snd (getPolicy e a d))"
| updatePolicy: "step (Some (organizationId a)) d (snd (updatePolicy e a pdto d))"
| process_job: "step (Some (job_organizationId j)) d (snd (process_job e iw j final d))"
| process_webhook:
    "step (Some (fb_organizationId p)) d (snd (process_webhook hmac osecret e p ts sig d))"
| create_session: "step None d (snd (create_session hmac key' e uid org md d))"
| rotate: "step None d (snd (rotate hmac key' e rtok md d))"
| revoke: "step None d (revoke e sid d)"
| revokeAll: "step None d (revokeAll e uid d)"
| registrationOptions: "step None d (snd (registrationOptions e a d))"
| verifyRegistration: "step None d (snd (verifyRegistration rv e a resp dn d))"
| stepUpOptions: "step None d (snd (stepUpOptions e a d))"
| verifyStepUp: "step None d (snd (verifyStepUp av e a resp d))"
| onboard: "step (Some (new_uuid e 4)) d (snd (onboard hmac key' argon2 pp sha1 lookup e salt md ondto d))"
| login: "step None d (snd (login hmac key' argon2 dummy e md lgdto d))"
| get_dashboard: "step (Some (organizationId a)) d (snd (get_dashboard coll e a d))"
| list_audit: "step (Some (organizationId a)) d (snd (list_audit a aq d))"

text \<open>A database on which no invoice has been uploaded yet.\<close>

definition init :: "db \<Rightarrow> bool" where
  "init d \<longleftrightarrow> invoices d = [] \<and> requests d = [] \<and> decisions d = [] \<and> assessments d = [] \<and>
     policies d = [] \<and> documents d = [] \<and> processings d = []"

inductive steps :: "uuid option list \<Rightarrow> db \<Rightarrow> db \<Rightarrow> bool" where
  steps_nil: "steps [] d d"
| steps_snoc: "steps ls d d' \<Longrightarrow> step l d' d'' \<Longrightarrow> steps (ls @ [l]) d d''"

definition reachable :: "db \<Rightarrow> bool" where
  "reachable d \<longleftrightarrow> (\<exists>ls d0. init d0 \<and> steps ls d0 d)"

inductive_cases steps_nilE [elim!]: "steps [] d d'"

lemma steps_snoc_iff: "steps (ls @ [l]) d d'' \<longleftrightarrow> (\<exists>d'. steps ls d d' \<and> step l d' d'')"
proof
  assume "steps (ls @ [l]) d d''"
  then show "\<exists>d'. steps ls d d' \<and> step l d' d''" by cases auto
qed (auto intro: steps_snoc)

section \<open>Lifting to runs\<close>

text \<open>A property that every step with an admitted label keeps holds after every such run.\<close>

locale kept =
  fixes L :: "uuid option \<Rightarrow> bool" and P :: "db \<Rightarrow> bool"
  assumes keeps: "step l d d' \<Longrightarrow> L l \<Longrightarrow> P d \<Longrightarrow> P d'"
begin

lemma run_keeps: "steps ls d d' \<Longrightarrow> \<forall>l \<in> set ls. L l \<Longrightarrow> P d \<Longrightarrow> P d'"
  by (induction rule: steps.induct) (auto intro: keeps)

lemma reachable_keeps: "reachable d \<Longrightarrow> (\<And>l. L l) \<Longrightarrow> (\<And>d0. init d0 \<Longrightarrow> P d0) \<Longrightarrow> P d"
  unfolding reachable_def using run_keeps by blast

end

lemmas ops_inv = framed_ops_inv addBankVersion_inv upload_inv update_invoice_inv submit_inv decide_inv
  list_requests_inv get_request_inv getPolicy_inv updatePolicy_inv process_job_inv

lemmas ops_same = building_ops_same vendor_ops_same vendor_updates_same contract_ops_same
  contract_updates_same invoice_ops_same approval_ops_same process_job_same process_webhook_same
  session_ops_same passkey_ops_same auth_ops_same

interpretation approvals: kept "\<lambda>_. True" approval_inv
proof
  fix l d d' assume "step l d d'" "approval_inv d"
  then show "approval_inv d'" by cases (simp_all add: ops_inv)
qed

lemma step_same:
  assumes "step l d d'" and "l \<noteq> Some org"
  shows "same_for org d d'"
  using assms by cases (simp_all add: ops_same)

interpretation tenants: kept "\<lambda>l. l \<noteq> Some org" "same_for org d" for org d
  by unfold_locales (auto intro: same_for_trans step_same)

lemma init_approval_inv: "init d \<Longrightarrow> approval_inv d"
  by (simp add: init_def approval_defs)

lemma reachable_approval_inv: "reachable d \<Longrightarrow> approval_inv d"
  by (rule approvals.reachable_keeps) (simp_all add: init_approval_inv)

lemma reachable_step: "reachable d \<Longrightarrow> step l d d' \<Longrightarrow> reachable d'"
  unfolding reachable_def using steps_snoc by blast

lemma reachable_init: "init d \<Longrightarrow> reachable d"
  unfolding reachable_def using steps_nil by blast

end
