(* ===== verification/Scenario.thy ===== *)
theory Scenario
  imports System
begin

text \<open>
  A concrete run of the system: an accountant uploads an invoice of a vendor with a bank account,
  the worker reads it, the accountant completes and submits it, and the owner approves it.  The
  properties are applied to its states.  Identifiers are a letter for the call and a number for the
  place; SHA-256 is the identity.
\<close>

definition demo_env :: "string \<Rightarrow> env" where
  "demo_env p = \<lparr>clock = \<lambda>_. 5000000, new_uuid = \<lambda>n. p @ [''01234567'' ! n], random_token = \<lambda>n. p @ [''tuvwxyz'' ! n],
     sha256 = \<lambda>s. s, stepUpTtl = 300000, accessTtl = 900000, refreshTtl = 86400000\<rparr>"

definition accountant :: auth_context where
  "accountant = \<lparr>userId = ''ua'', membershipId = ''ma'', sessionId = ''sa'', organizationId = ''org'',
     role = ACCOUNTANT, authenticatedAt = 0, stepUpVerifiedAt = None\<rparr>"

definition owner :: auth_context where
  "owner = \<lparr>userId = ''uo'', membershipId = ''mo'', sessionId = ''so'', organizationId = ''org'',
     role = OWNER, authenticatedAt = 0, stepUpVerifiedAt = Some 4990000\<rparr>"

definition demo_member :: "uuid \<Rightarrow> uuid \<Rightarrow> membership_role \<Rightarrow> membership" where
  "demo_member m u r = \<lparr>mem_id = m, mem_org = ''org'', mem_userId = u, mem_role = r,
     mem_status = MEMBER_ACTIVE, mem_validUntil = None\<rparr>"

definition demo_user :: "uuid \<Rightarrow> user" where
  "demo_user u = \<lparr>user_id = u, user_email = u, user_displayName = u, user_passwordHash = None,
     user_status = USER_ACTIVE\<rparr>"

definition demo_session :: "uuid \<Rightarrow> uuid \<Rightarrow> time option \<Rightarrow> session" where
  "demo_session s u t = \<lparr>ses_id = s, ses_userId = u, ses_org = ''org'', ses_family = s @ ''f'',
     ses_refreshHash = s @ ''r'', ses_csrfHash = s @ ''c'', ses_userAgent = None, ses_ipAddress = None,
     ses_rotation = 0, ses_stepUp = t, ses_lastUsedAt = 0, ses_expiresAt = 80000000,
     ses_revokedAt = None, ses_createdAt = 0\<rparr>"

definition demo_vendor :: vendor where
  "demo_vendor = \<lparr>ven_id = ''v'', ven_org = ''org'', ven_legalName = ''Lift Service'', ven_tradingName = None,
     ven_registrationNumber = None, ven_taxId = None, ven_email = None, ven_phone = None,
     ven_status = VENDOR_ACTIVE, ven_tags = [], ven_internalNotes = None, ven_version = 1\<rparr>"

definition demo_bank :: bank_version where
  "demo_bank = \<lparr>bank_id = ''b'', bank_org = ''org'', bank_vendorId = ''v'', bank_number = 1,
     bank_countryCode = ''MD'', bank_account = [], bank_iv = [], bank_tag = [], bank_keyId = ''local-v1'',
     bank_fingerprint = [], bank_masked = [], bank_maskedHolder = [], bank_createdBy = ''mo''\<rparr>"

definition demo0 :: db where
  "demo0 = empty_db\<lparr>users := [demo_user ''ua'', demo_user ''uo''],
     memberships := [demo_member ''ma'' ''ua'' ACCOUNTANT, demo_member ''mo'' ''uo'' OWNER],
     sessions := [demo_session ''sa'' ''ua'' None, demo_session ''so'' ''uo'' (Some 4990000)],
     vendors := [demo_vendor], bank_versions := [demo_bank]\<rparr>"

definition demo_file :: uploaded_file where
  "demo_file = \<lparr>upl_chunks = [''%PDF-1'', ''.7''], upl_originalname = ''invoice.pdf'',
     upl_mimetype = ''application/pdf'', upl_size = 8\<rparr>"

definition demo1 :: db where
  "demo1 = snd (Invoices.upload (demo_env ''a'') \<lparr>uw_put = None, uw_enqueue = None\<rparr> accountant (Some ''v'')
     None (Some demo_file) demo0)"

definition demo_job :: ingest_job where
  "demo_job = \<lparr>job_invoiceId = ''a1'', job_documentId = ''a0'', job_organizationId = ''org'',
     job_correlationId = ''c''\<rparr>"

definition demo_world :: "bool \<Rightarrow> ingest_world" where
  "demo_world clean = \<lparr>iw_download = None, iw_scan = Inr clean, iw_sha256 = ''hash'', iw_put = None,
     iw_delete = None, iw_redownload = None, iw_ocr = Inr (''ocr'', [(''total'', ''100'')])\<rparr>"

definition demo2 :: db where
  "demo2 = snd (Pipeline.process_job (demo_env ''p'') (demo_world True) demo_job False demo1)"

definition demo_draft :: update_invoice_dto where
  "demo_draft = \<lparr>uid_version = 1, uid_vendorId = Undefined, uid_contractId = Undefined,
     uid_number = Value '' N-1'', uid_issueDate = Undefined, uid_dueDate = Undefined,
     uid_currency = Value ''eur'', uid_subtotal = Undefined, uid_taxAmount = Undefined,
     uid_totalAmount = Value 10000, uid_notes = Undefined, uid_lines = None\<rparr>"

definition demo3 :: db where
  "demo3 = snd (Invoices.update_invoice (demo_env ''e'') accountant ''a1'' demo_draft demo2)"

definition demo4 :: db where
  "demo4 = snd (Approvals.submit (demo_env ''s'') accountant ''a1'' 2 (Some ''submit-0123456789'') demo3)"

definition demo_decision :: "decision_outcome \<Rightarrow> approval_decision_dto" where
  "demo_decision o' = \<lparr>dto_approvalVersion = 1, dto_outcome = o', dto_reason = ''amount checked''\<rparr>"

definition demo5 :: db where
  "demo5 = snd (Approvals.decide (demo_env ''d'') owner ''s2'' (demo_decision APPROVE) (Some ''decide-0123456789'') demo4)"


lemma demo_env_simps [simp]:
  "clock (demo_env p) n = 5000000" "new_uuid (demo_env p) n = p @ [''01234567'' ! n]"
  "random_token (demo_env p) n = p @ [''tuvwxyz'' ! n]" "sha256 (demo_env p) = (\<lambda>s. s)"
  "stepUpTtl (demo_env p) = 300000" "accessTtl (demo_env p) = 900000"
  "refreshTtl (demo_env p) = 86400000"
  by (simp_all add: demo_env_def)

lemma demo_contexts [simp]:
  "userId accountant = ''ua''" "membershipId accountant = ''ma''" "sessionId accountant = ''sa''"
  "organizationId accountant = ''org''" "role accountant = ACCOUNTANT"
  "userId owner = ''uo''" "membershipId owner = ''mo''" "sessionId owner = ''so''"
  "organizationId owner = ''org''" "role owner = OWNER"
  by (simp_all add: accountant_def owner_def)

lemma demo_bank_simps [simp]:
  "bank_id demo_bank = ''b''" "bank_org demo_bank = ''org''" "bank_vendorId demo_bank = ''v''"
  "bank_number demo_bank = 1"
  by (simp_all add: demo_bank_def)

lemma demo0_tables [simp]:
  "users demo0 = [demo_user ''ua'', demo_user ''uo'']"
  "memberships demo0 = [demo_member ''ma'' ''ua'' ACCOUNTANT, demo_member ''mo'' ''uo'' OWNER]"
  "sessions demo0 = [demo_session ''sa'' ''ua'' None, demo_session ''so'' ''uo'' (Some 4990000)]"
  "vendors demo0 = [demo_vendor]" "bank_versions demo0 = [demo_bank]" "contracts demo0 = []"
  "invoices demo0 = []" "documents demo0 = []" "processings demo0 = []" "invoice_lines demo0 = []"
  "policies demo0 = []" "requests demo0 = []" "decisions demo0 = []" "assessments demo0 = []"
  by (simp_all add: demo0_def empty_db_def)

lemma demo_validated [simp]:
  "validateDocumentFile (\<lambda>s. s) (upl_chunks demo_file) (upl_originalname demo_file)
     (upl_mimetype demo_file) (Some (upl_size demo_file)) =
   Inr \<lparr>val_detectedMimeType = ''application/pdf'', val_sha256 = ''%PDF-1.7'', val_sizeBytes = 8\<rparr>"
proof -
  have "validateFilename ''invoice.pdf'' = Inr ()"
    by (simp add: validateFilename_def js_lower_def js_lower_char_def normalize_nfkc_def nfkc_char_def
        suffix_char_def is_lower_def is_digit_def is_upper_def allowedTypes_def ends_with_def is_prefix_def Let_def)
  then show ?thesis
    by (simp add: demo_file_def validateDocumentFile_def MAX_INVOICE_BYTES_def detectMimeType_def to_ascii_def
        allowedTypes_def js_lower_def js_lower_char_def is_upper_def ends_with_def is_prefix_def Let_def
        char_of_eq_iff eq_commute [of _ "char_of _"])
qed

definition demo_invoice :: "invoice_status \<Rightarrow> nat \<Rightarrow> invoice" where
  "demo_invoice st v = (new_invoice (demo_env ''a'') accountant (Some ''v'') None)
     \<lparr>inv_status := st, inv_version := v\<rparr>"

definition demo_document :: document where
  "demo_document = new_document (demo_env ''a'') accountant demo_file
     \<lparr>val_detectedMimeType = ''application/pdf'', val_sha256 = ''%PDF-1.7'', val_sizeBytes = 8\<rparr>"

lemma demo1_tables [simp]:
  "users demo1 = users demo0" "memberships demo1 = memberships demo0" "sessions demo1 = sessions demo0"
  "vendors demo1 = vendors demo0" "bank_versions demo1 = bank_versions demo0" "contracts demo1 = []"
  "invoices demo1 = [demo_invoice PROCESSING 1]" "documents demo1 = [demo_document]"
  "processings demo1 = [new_processing (demo_env ''a'') accountant]" "invoice_lines demo1 = []"
  "policies demo1 = []" "requests demo1 = []" "decisions demo1 = []" "assessments demo1 = []"
  by (simp_all add: demo1_def Invoices.upload_def upload_tx_def assertRelationships_def contract_vendor_ok_def
      demo_vendor_def run_def create_unique_def demo_invoice_def demo_document_def new_invoice_def
      document_keys_def Let_def)

lemma demo_invoice_simps [simp]:
  "inv_id (demo_invoice st v) = ''a1''" "inv_org (demo_invoice st v) = ''org''"
  "inv_status (demo_invoice st v) = st" "inv_version (demo_invoice st v) = v"
  "inv_vendorId (demo_invoice st v) = Some ''v''" "inv_contractId (demo_invoice st v) = None"
  "inv_status_update (\<lambda>_. st') (demo_invoice st v) = demo_invoice st' v"
  by (simp_all add: demo_invoice_def new_invoice_def)

lemma demo_document_simps [simp]:
  "doc_id demo_document = ''a0''" "doc_org demo_document = ''org''"
  "doc_invoiceId demo_document = ''a1''" "doc_storageState demo_document = STORED_QUARANTINED"
  "doc_approvedKey demo_document = None" "doc_sha256 demo_document = None"
  "doc_duplicateOf demo_document = None"
  by (simp_all add: demo_document_def new_document_def)

lemma demo_job_simps [simp]:
  "job_invoice demo_job i \<longleftrightarrow> inv_id i = ''a1'' \<and> inv_org i = ''org''"
  "job_document demo_job x \<longleftrightarrow> doc_id x = ''a0'' \<and> doc_org x = ''org''"
  "for_job demo_job p \<longleftrightarrow> pr_documentId p = ''a0'' \<and> pr_org p = ''org''"
  "job_invoiceId demo_job = ''a1''" "job_organizationId demo_job = ''org''" "job_documentId demo_job = ''a0''"
  by (simp_all add: job_invoice_def job_document_def for_job_def demo_job_def)

definition demo_approved_document :: document where
  "demo_approved_document = demo_document\<lparr>doc_approvedKey := Some ''p0/p1'', doc_sha256 := Some ''hash'',
     doc_duplicateOf := None, doc_storageState := STORED_APPROVED\<rparr>"

definition demo_read :: processing where
  "demo_read = (new_processing (demo_env ''a'') accountant)\<lparr>pr_state := PROC_NEEDS_REVIEW,
     pr_progress := 100, pr_scanResult := SCAN_CLEAN, pr_ocrEngine := Some ''ocr'',
     pr_suggestions := Some [(''total'', ''100'')], pr_attempts := 1, pr_startedAt := Some 5000000,
     pr_heartbeatAt := Some 5000000, pr_completedAt := Some 5000000\<rparr>"

lemmas worker_defs = Pipeline.process_job_def load_def scan_document_def reread_document_def
  read_document_def progress_def promote_def finish_def block_def update_processings_def
  update_documents_def duplicate_of_def identity_ok_def transition_ok_def set_status_def
  worker_audit_def run_def demo_world_def new_processing_def

lemma demo2_tables [simp]:
  "users demo2 = users demo0" "memberships demo2 = memberships demo0" "sessions demo2 = sessions demo0"
  "vendors demo2 = vendors demo0" "bank_versions demo2 = bank_versions demo0" "contracts demo2 = []"
  "invoices demo2 = [demo_invoice NEEDS_REVIEW 1]" "documents demo2 = [demo_approved_document]"
  "processings demo2 = [demo_read]" "invoice_lines demo2 = []"
  "policies demo2 = []" "requests demo2 = []" "decisions demo2 = []" "assessments demo2 = []"
  by (simp_all add: demo2_def worker_defs demo_approved_document_def demo_read_def)


definition demo_complete :: "invoice_status \<Rightarrow> nat \<Rightarrow> uuid option \<Rightarrow> invoice" where
  "demo_complete st v bk = (demo_invoice st v)
     \<lparr>inv_number := Some ''N-1'', inv_currency := Some ''EUR'', inv_totalAmount := Some 10000,
      inv_bankVersionId := bk\<rparr>"

lemma demo_complete_simps [simp]:
  "inv_id (demo_complete st v bk) = ''a1''" "inv_org (demo_complete st v bk) = ''org''"
  "inv_status (demo_complete st v bk) = st" "inv_version (demo_complete st v bk) = v"
  "inv_vendorId (demo_complete st v bk) = Some ''v''" "inv_contractId (demo_complete st v bk) = None"
  "inv_number (demo_complete st v bk) = Some ''N-1''" "inv_currency (demo_complete st v bk) = Some ''EUR''"
  "inv_totalAmount (demo_complete st v bk) = Some 10000"
  "demo_complete st v bk\<lparr>inv_status := st'\<rparr> = demo_complete st' v bk"
  "demo_complete st v bk\<lparr>inv_bankVersionId := bk', inv_version := v'\<rparr> = demo_complete st v' bk'"
  "demo_complete st v bk\<lparr>inv_version := v'\<rparr> = demo_complete st v' bk"
  by (simp_all add: demo_complete_def demo_invoice_def new_invoice_def)

lemma demo_approved_document_simps [simp]:
  "doc_id demo_approved_document = ''a0''" "doc_org demo_approved_document = ''org''"
  "doc_invoiceId demo_approved_document = ''a1''"
  "doc_storageState demo_approved_document = STORED_APPROVED"
  "doc_approvedKey demo_approved_document = Some ''p0/p1''"
  "doc_duplicateOf demo_approved_document = None"
  by (simp_all add: demo_approved_document_def)

lemma demo_read_simps [simp]:
  "pr_documentId demo_read = ''a0''" "pr_org demo_read = ''org''" "pr_scanResult demo_read = SCAN_CLEAN"
  "pr_state demo_read = PROC_NEEDS_REVIEW"
  by (simp_all add: demo_read_def)

lemma demo3_tables [simp]:
  "users demo3 = users demo0" "memberships demo3 = memberships demo0" "sessions demo3 = sessions demo0"
  "vendors demo3 = vendors demo0" "bank_versions demo3 = bank_versions demo0" "contracts demo3 = []"
  "invoices demo3 = [demo_complete NEEDS_REVIEW 2 None]" "documents demo3 = [demo_approved_document]"
  "processings demo3 = [demo_read]" "invoice_lines demo3 = []"
  "policies demo3 = []" "requests demo3 = []" "decisions demo3 = []" "assessments demo3 = []"
proof -
  have c: "js_upper ''eur'' = ''EUR''"
    by (simp add: js_upper_def js_upper_char_def is_lower_def char_of_eq_iff)
  have n: "js_trim '' N-1'' = ''N-1''"
    by (simp add: js_trim_def js_space_def)
  have u: "list_all is_upper ''EUR''" by (simp add: is_upper_def)
  show "users demo3 = users demo0" "memberships demo3 = memberships demo0" "sessions demo3 = sessions demo0"
    "vendors demo3 = vendors demo0" "bank_versions demo3 = bank_versions demo0" "contracts demo3 = []"
    "invoices demo3 = [demo_complete NEEDS_REVIEW 2 None]" "documents demo3 = [demo_approved_document]"
    "processings demo3 = [demo_read]" "invoice_lines demo3 = []"
    "policies demo3 = []" "requests demo3 = []" "decisions demo3 = []" "assessments demo3 = []"
    using u
    by (simp_all add: demo3_def Invoices.update_invoice_def update_invoice_tx_def canEditInvoiceDraft_def
        field_or_def demo_draft_def assertRelationships_def demo_vendor_def invoice_dto_throws_def
        write_draft_def contract_vendor_ok_def apply_invoice_dto_def set_optional_def set_text_def
        set_date_def c n invoice_checks_def nonneg_def List.map_filter_def replace_lines_def draft_audits_def
        run_def Let_def demo_complete_def demo_invoice_def new_invoice_def)
qed

definition demo_facts :: invoice_facts where
  "demo_facts = \<lparr>fact_bankVersion = Some 1, fact_exactDuplicate = False, fact_duplicateNumber = False,
     fact_totalAmount = Some (decimal_toString 10000), fact_contractLimit = None, fact_priorAverage = None\<rparr>"

definition demo_policy :: risk_policy where
  "demo_policy = default_policy ''s0'' ''org''"

definition demo_assessment :: assessment where
  "demo_assessment = submitted_assessment (demo_env ''s'') ''org'' ''a1'' 3
     (evaluateInvoiceRisk (\<lambda>s. s) ''a1'' demo_facts demo_policy)"

definition demo_request :: "request_status \<Rightarrow> request" where
  "demo_request st = (submitted_request (demo_env ''s'') accountant ''a1'' 3 demo_assessment demo_bank 1
     ''submit-0123456789'')\<lparr>req_status := st, req_completedAt := if st = REQUEST_PENDING then None else Some 5000000\<rparr>"

lemma demo_assessment_simps [simp]:
  "ra_level demo_assessment = LOW" "ra_id demo_assessment = ''s1''" "ra_org demo_assessment = ''org''"
  "ra_invoiceId demo_assessment = ''a1''" "ra_invoiceVersion demo_assessment = 3"
  "ra_totalScore demo_assessment = 0"
  by (simp_all add: demo_assessment_def score_of_rules demo_facts_def demo_policy_def default_policy_def
      bank_changed_def limit_exceeded_def amount_spike_def decimal_def level_of_def split: option.split)

lemma demo_request_simps [simp]:
  "req_id (demo_request st) = ''s2''" "req_org (demo_request st) = ''org''"
  "req_invoiceId (demo_request st) = ''a1''" "req_invoiceVersion (demo_request st) = 3"
  "req_assessmentId (demo_request st) = ''s1''" "req_bankVersionId (demo_request st) = Some ''b''"
  "req_version (demo_request st) = 1" "req_status (demo_request st) = st"
  "req_required (demo_request st) = 1" "req_initiatedBy (demo_request st) = ''ma''"
  "req_keyHash (demo_request st) = ''submit-0123456789''"
  by (simp_all add: demo_request_def demo_bank_def)

lemma demo_keys:
  "idempotencyKeyHash (demo_env p) (Some ''submit-0123456789'') = Inr ''submit-0123456789''"
  "idempotencyKeyHash (demo_env p) (Some ''decide-0123456789'') = Inr ''decide-0123456789''"
  by (simp_all add: idempotencyKeyHash_def js_trim_def js_space_def)

lemma demo4_tables [simp]:
  "users demo4 = users demo0" "memberships demo4 = memberships demo0" "sessions demo4 = sessions demo0"
  "vendors demo4 = vendors demo0" "bank_versions demo4 = bank_versions demo0" "contracts demo4 = []"
  "invoices demo4 = [demo_complete AWAITING_APPROVAL 3 (Some ''b'')]"
  "documents demo4 = [demo_approved_document]" "processings demo4 = [demo_read]" "invoice_lines demo4 = []"
  "policies demo4 = [demo_policy]" "requests demo4 = [demo_request REQUEST_PENDING]" "decisions demo4 = []"
  "assessments demo4 = [demo_assessment]"
proof -
  have facts: "submission_facts d ''org'' (demo_complete NEEDS_REVIEW 2 None) [demo_approved_document] demo_bank
      = demo_facts" if "invoices d = invoices demo3" "contracts d = []" for d
    using that by (simp add: submission_facts_def demo_facts_def duplicate_number_def contract_limit_def
        previous_amounts_def average_def List.map_filter_def demo_bank_def)
  have pending: "submitted_request e a iid v risk bank rv kh\<lparr>req_status := REQUEST_PENDING, req_completedAt := None\<rparr>
      = submitted_request e a iid v risk bank rv kh" for e a iid v risk bank rv kh
    by (simp add: submitted_request_def)
  have org: "pol_org (default_policy k x) = x" for k x by (simp add: default_policy_def)
  show "users demo4 = users demo0" "memberships demo4 = memberships demo0" "sessions demo4 = sessions demo0"
    "vendors demo4 = vendors demo0" "bank_versions demo4 = bank_versions demo0" "contracts demo4 = []"
    "invoices demo4 = [demo_complete AWAITING_APPROVAL 3 (Some ''b'')]"
    "documents demo4 = [demo_approved_document]" "processings demo4 = [demo_read]" "invoice_lines demo4 = []"
    "policies demo4 = [demo_policy]" "requests demo4 = [demo_request REQUEST_PENDING]" "decisions demo4 = []"
    "assessments demo4 = [demo_assessment]"
    by (simp_all add: demo4_def Approvals.submit_def demo_keys submit_tx_def documents_of_def review_incomplete_def
        document_cleared_def scan_of_def policy_def latest_bank_def facts next_request_version_def
        create_unique_def moves_on_submit_def submit_audits_def eligibleApprovers_def run_def Let_def
        demo_assessment_def demo_request_def demo_policy_def pending org)
qed


definition demo_vote :: "decision_outcome \<Rightarrow> decision" where
  "demo_vote out = made_decision (demo_env ''d'') owner (demo_request REQUEST_PENDING)
     (demo_member ''mo'' ''uo'' OWNER) (demo_session ''so'' ''uo'' (Some 4990000)) 4990000 (demo_decision out)
     ''decide-0123456789''"

lemma demo_vote_simps [simp]:
  "dec_org (demo_vote out) = ''org''" "dec_requestId (demo_vote out) = ''s2''" "dec_version (demo_vote out) = 1"
  "dec_outcome (demo_vote out) = out" "dec_decidedBy (demo_vote out) = ''mo''"
  "dec_keyHash (demo_vote out) = ''decide-0123456789''"
  by (simp_all add: demo_vote_def made_decision_def demo_decision_def demo_member_def)

lemma demo_policy_simps [simp]:
  "pol_org demo_policy = ''org''" "pol_separation demo_policy" "pol_id demo_policy = ''s0''"
  by (simp_all add: demo_policy_def default_policy_def)

lemma demo_reason [simp]: "js_trim ''amount checked'' = ''amount checked''"
  by (simp add: js_trim_def js_space_def)

lemma demo_update_status [simp]:
  "demo_request st\<lparr>req_status := REQUEST_APPROVED, req_completedAt := Some 5000000\<rparr> = demo_request REQUEST_APPROVED"
  by (simp add: demo_request_def)

lemma demo_decide:
  "decide_tx (demo_env ''d'') owner ''s2'' (demo_decision APPROVE) ''decide-0123456789'' demo4 =
   record_decision (demo_env ''d'') owner (demo_request REQUEST_PENDING) (demo_member ''mo'' ''uo'' OWNER)
     (demo_session ''so'' ''uo'' (Some 4990000)) 4990000 (demo_decision APPROVE) ''decide-0123456789'' demo4"
  by (simp add: decide_tx_def bank_outdated_def latest_bank_def eligible_member_def policy_def
      verified_session_def demo_decision_def demo_member_def demo_session_def APPROVER_ROLES_def Let_def)

lemma demo5_tables [simp]:
  "users demo5 = users demo0" "memberships demo5 = memberships demo0" "sessions demo5 = sessions demo0"
  "vendors demo5 = vendors demo0" "bank_versions demo5 = bank_versions demo0" "contracts demo5 = []"
  "invoices demo5 = [demo_complete APPROVED 3 (Some ''b'')]"
  "documents demo5 = [demo_approved_document]" "processings demo5 = [demo_read]" "invoice_lines demo5 = []"
  "policies demo5 = [demo_policy]" "requests demo5 = [demo_request REQUEST_APPROVED]"
  "decisions demo5 = [demo_vote APPROVE]" "assessments demo5 = [demo_assessment]"
proof -
  have vote: "made_decision (demo_env ''d'') owner (demo_request REQUEST_PENDING)
     (demo_member ''mo'' ''uo'' OWNER) (demo_session ''so'' ''uo'' (Some 4990000)) 4990000 (demo_decision APPROVE)
     ''decide-0123456789'' = demo_vote APPROVE" by (simp add: demo_vote_def)
  have reason: "dec_reason (demo_vote APPROVE) = ''amount checked''"
    by (simp add: demo_vote_def made_decision_def demo_decision_def)
  have out: "dto_outcome (demo_decision APPROVE) = APPROVE" by (simp add: demo_decision_def)
  show "users demo5 = users demo0" "memberships demo5 = memberships demo0" "sessions demo5 = sessions demo0"
    "vendors demo5 = vendors demo0" "bank_versions demo5 = bank_versions demo0" "contracts demo5 = []"
    "invoices demo5 = [demo_complete APPROVED 3 (Some ''b'')]"
    "documents demo5 = [demo_approved_document]" "processings demo5 = [demo_read]" "invoice_lines demo5 = []"
    "policies demo5 = [demo_policy]" "requests demo5 = [demo_request REQUEST_APPROVED]"
    "decisions demo5 = [demo_vote APPROVE]" "assessments demo5 = [demo_assessment]"
    by (simp_all add: demo5_def Approvals.decide_def demo_keys run_def demo_decide record_decision_def vote
        reason create_decision_def sql_trim_def create_unique_def complete_decision_def out approvals_of_def
        set_request_status_def set_invoice_status_def approval_guard_def decision_audit_def
        eligibleApprovers_def policy_def Let_def)
qed

section \<open>The calls succeed\<close>

lemma demo_accepted:
  "\<exists>v. Approvals.decide (demo_env ''d'') owner ''s2'' (demo_decision APPROVE) (Some ''decide-0123456789'') demo4
     = (Inr v, demo5)"
proof -
  have "\<exists>v. fst (Approvals.decide (demo_env ''d'') owner ''s2'' (demo_decision APPROVE)
      (Some ''decide-0123456789'') demo4) = Inr v"
    by (simp add: Approvals.decide_def demo_keys run_def demo_decide)
      (simp add: record_decision_def made_decision_def demo_decision_def demo_member_def demo_session_def create_decision_def sql_trim_def create_unique_def
        complete_decision_def approvals_of_def set_request_status_def set_invoice_status_def
        approval_guard_def decision_audit_def eligibleApprovers_def policy_def Let_def)
  then show ?thesis by (metis demo5_def prod.collapse)
qed

lemma demo_submitted:
  "\<exists>v. Approvals.submit (demo_env ''s'') accountant ''a1'' 2 (Some ''submit-0123456789'') demo3 = (Inr v, demo4)"
proof -
  have "\<exists>v. fst (Approvals.submit (demo_env ''s'') accountant ''a1'' 2 (Some ''submit-0123456789'') demo3) = Inr v"
    by (simp add: Approvals.submit_def demo_keys submit_tx_def documents_of_def review_incomplete_def
        document_cleared_def scan_of_def policy_def latest_bank_def next_request_version_def
        create_unique_def moves_on_submit_def submit_audits_def eligibleApprovers_def run_def Let_def
        default_policy_def)
  then show ?thesis by (metis demo4_def prod.collapse)
qed

section \<open>The states are reachable\<close>

lemma demo_reachable:
  "reachable demo0" "reachable demo1" "reachable demo2" "reachable demo3" "reachable demo4" "reachable demo5"
proof -
  show 0: "reachable demo0" by (rule reachable_init) (simp add: init_def)
  show 1: "reachable demo1" unfolding demo1_def by (rule reachable_step [OF 0 step.upload])
  show 2: "reachable demo2" unfolding demo2_def by (rule reachable_step [OF 1 step.process_job])
  show 3: "reachable demo3" unfolding demo3_def by (rule reachable_step [OF 2 step.update_invoice])
  show 4: "reachable demo4" unfolding demo4_def by (rule reachable_step [OF 3 step.submit])
  show "reachable demo5" unfolding demo5_def by (rule reachable_step [OF 4 step.decide])
qed

lemma demo_steps:
  "step (Some ''org'') demo0 demo1" "step (Some ''org'') demo3 demo4" "step (Some ''org'') demo4 demo5"
  using step.upload [of accountant demo0 "demo_env ''a''"] step.submit [of accountant demo3 "demo_env ''s''"]
    step.decide [of owner demo4 "demo_env ''d''"]
  by (simp_all add: demo1_def demo4_def demo5_def)

end
