(* ===== verification/Approval_Properties.thy ===== *)
theory Approval_Properties
  imports Scenario
begin

text \<open>
  What the approval service guarantees: the quorum behind every approved invoice, who may decide,
  what a decision, a stale request and a replay do, and when a submission succeeds.
\<close>

section \<open>The quorum\<close>

text \<open>The members who approved a request.\<close>

definition approvers :: "db \<Rightarrow> request \<Rightarrow> uuid set" where
  "approvers d r = dec_decidedBy ` {x \<in> set (decisions d). decision_of x r \<and> dec_outcome x = APPROVE}"

lemma approvals_of_card:
  assumes "approval_inv d"
  shows "approvals_of d r \<le> card (approvers d r)"
proof -
  let ?P = "\<lambda>x. dec_org x = req_org r \<and> dec_requestId x = req_id r \<and>
        dec_version x = req_version r \<and> dec_outcome x = APPROVE"
  have dist: "distinct (map (\<lambda>x. [dec_org x, dec_requestId x, dec_decidedBy x]) (decisions d))"
    using assms by (simp add: approval_inv_def keys_ok_def)
  have inj: "inj_on dec_decidedBy (set (filter ?P (decisions d)))"
    using dist by (auto simp: distinct_map inj_on_def)
  have "distinct (filter ?P (decisions d))" using dist by (simp add: distinct_map)
  then have "approvals_of d r = card (set (filter ?P (decisions d)))"
    unfolding approvals_of_def count_rows_def by (rule distinct_card [symmetric])
  also have "\<dots> = card (dec_decidedBy ` set (filter ?P (decisions d)))"
    using inj by (simp add: card_image)
  also have "\<dots> \<le> card (approvers d r)"
    by (rule card_mono) (auto simp: approvers_def decision_of_def)
  finally show ?thesis .
qed

lemma initiator_not_approver:
  assumes "approval_inv d" and "r \<in> set (requests d)"
  shows "req_initiatedBy r \<notin> approvers d r"
  using assms by (force simp: approval_inv_def decision_ok_def approvers_def)

text \<open>
  C1: In every reachable state an approved invoice has an approved request for exactly its present
  version, with an assessment as evidence; at least as many different members approved that request
  as the level of risk asks for (two when it is high), and the member who submitted it is none of them.
\<close>

theorem approved_invoice_has_quorum:
  assumes "reachable d" and "i \<in> set (invoices d)" and "inv_status i = APPROVED"
  shows "\<exists>r \<in> set (requests d). \<exists>x \<in> set (assessments d).
     request_of r i \<and> req_invoiceVersion r = inv_version i \<and> req_status r = REQUEST_APPROVED \<and>
     evidence_of x r \<and> (if ra_level x = HIGH then 2 else 1) \<le> card (approvers d r) \<and>
     req_initiatedBy r \<notin> approvers d r"
proof -
  have I: "approval_inv d" using assms(1) by (rule reachable_approval_inv)
  with assms obtain r where r: "r \<in> set (requests d)" "request_of r i"
    "req_invoiceVersion r = inv_version i" "req_status r = REQUEST_APPROVED"
    by (auto simp: approval_inv_def invoice_ok_def approval_guard_def request_of_def)
  with I obtain x where x: "x \<in> set (assessments d)" "evidence_of x r"
    "req_required r = (if ra_level x = HIGH then 2 else 1)" "req_required r \<le> approvals_of d r"
    by (auto simp: approval_inv_def request_ok_def)
  have "(if ra_level x = HIGH then 2 else 1) \<le> card (approvers d r)"
    using x(3,4) approvals_of_card [OF I, of r] by simp
  with r x initiator_not_approver [OF I r(1)] show ?thesis by blast
qed

theorem approved_invoice_has_quorum_witness:
  "\<exists>r \<in> set (requests demo5). req_status r = REQUEST_APPROVED \<and> req_invoiceVersion r = 3"
  using approved_invoice_has_quorum [OF demo_reachable(6), of "demo_complete APPROVED 3 (Some ''b'')"]
  by auto

section \<open>Decisions\<close>

lemma decide_InrE:
  assumes "decide e a rid dto key d = (Inr v, d')"
  obtains kh where "idempotencyKeyHash e key = Inr kh" "decide_tx e a rid dto kh d = Inr (Decided v, d')"
  using assms by (auto simp: decide_def tx.outcome_iff split: sum.splits prod.splits decide_result.splits)

lemma decide_recordedE:
  assumes "decide e a rid dto key d = (Inr v, d')" and "decisions d' \<noteq> decisions d"
  obtains kh r i m s t p d1 d2 d3 eligible and updated :: request where
    "idempotencyKeyHash e key = Inr kh"
    "decides e a rid dto kh d r i m s t p d1"
    "create_decision (made_decision e a r m s t dto kh) d1 = Inr d2"
    "complete_decision e r (dto_outcome dto) d2 = Inr d3"
    "find (\<lambda>x. req_id x = req_id r \<and> req_org x = organizationId a) (requests d3) = Some updated"
    "eligibleApprovers e 4 (organizationId a) (req_initiatedBy updated) (decision_audit e a r t dto d3) = (eligible, d')"
    "v = approvalView (request_details (decision_audit e a r t dto d3) updated) eligible"
proof -
  from assms(1) obtain kh where kh: "idempotencyKeyHash e key = Inr kh"
    and tx: "decide_tx e a rid dto kh d = Inr (Decided v, d')" by (rule decide_InrE)
  from tx show thesis
  proof (cases rule: decide_txE)
    case (recorded r i m s t p d1)
    from recorded(2) show thesis
      by (rule record_decisionE) (rule that [OF kh recorded(1)], auto)
  qed (use assms(2) in auto)
qed

lemma complete_decision_decisions:
  "complete_decision e r out d = Inr d' \<Longrightarrow> decisions d' = decisions d"
  by (auto simp: complete_decision_def set_invoice_status_def set_request_status_def split: if_splits)

text \<open>
  C2: A decision that is recorded was made by an active member of the organization with the role
  of an approver who did not submit the request, in a session of the same user that is neither
  revoked nor expired and whose passkey was verified within the configured time; it is one new row.
\<close>

theorem decision_is_authorised:
  assumes "reachable d" and "decide e a rid dto key d = (Inr v, d')" and "decisions d' \<noteq> decisions d"
  shows "\<exists>m \<in> set (memberships d). \<exists>s \<in> set (sessions d). \<exists>r \<in> set (requests d). \<exists>t x.
     mem_id m = membershipId a \<and> mem_org m = organizationId a \<and> mem_userId m = userId a \<and>
     mem_status m = MEMBER_ACTIVE \<and> mem_role m \<in> {OWNER, ADMINISTRATOR, ACCOUNTANT} \<and>
     req_id r = rid \<and> req_org r = organizationId a \<and> req_initiatedBy r \<noteq> mem_id m \<and>
     ses_id s = sessionId a \<and> ses_userId s = userId a \<and> ses_revokedAt s = None \<and>
     clock e 1 < ses_expiresAt s \<and> ses_stepUp s = Some t \<and> clock e 0 - stepUpTtl e \<le> t \<and>
     decisions d' = decisions d @ [x] \<and> dec_requestId x = rid \<and> dec_decidedBy x = mem_id m \<and>
     dec_sessionId x = ses_id s \<and> dec_outcome x = dto_outcome dto"
  using assms(2,3)
proof (rule decide_recordedE)
  fix kh r i m s t p d1 d2 d3 eligible and updated :: request
  assume dec: "decides e a rid dto kh d r i m s t p d1"
    and c: "create_decision (made_decision e a r m s t dto kh) d1 = Inr d2"
    and c': "complete_decision e r (dto_outcome dto) d2 = Inr d3"
    and el: "eligibleApprovers e 4 (organizationId a) (req_initiatedBy updated) (decision_audit e a r t dto d3) = (eligible, d')"
  have p: "policy e 0 (organizationId a) d = (p, d1)" using dec by (simp add: decides_def)
  have m: "m \<in> set (memberships d)" "mem_id m = membershipId a" "mem_org m = organizationId a"
    "mem_userId m = userId a" "mem_status m = MEMBER_ACTIVE" "mem_role m \<in> {OWNER, ADMINISTRATOR, ACCOUNTANT}"
    using dec by (auto simp: decides_def eligible_member_def APPROVER_ROLES_def dest: find_SomeD)
  have s: "s \<in> set (sessions d)" "ses_id s = sessionId a" "ses_userId s = userId a" "ses_revokedAt s = None"
    "clock e 1 < ses_expiresAt s" "ses_stepUp s = Some t" "clock e 0 - stepUpTtl e \<le> t"
    using dec policy_frame [OF p] by (auto simp: decides_def verified_session_def dest: find_SomeD)
  note r = decides_initiator [OF dec reachable_approval_inv [OF assms(1)]]
  have "decisions d' = decisions d @ [made_decision e a r m s t dto kh]"
    using c complete_decision_decisions [OF c'] eligible_frame(3) [OF el] policy_frame(3) [OF p]
    by (simp add: create_decision_Inr)
  with m s r policy_frame(2) [OF p] show ?thesis
    by (intro bexI [OF _ m(1)] bexI [OF _ s(1)] bexI [of _ r] exI conjI) (auto simp: made_decision_def)
qed

theorem decision_is_authorised_witness:
  "\<exists>m \<in> set (memberships demo4). mem_id m = ''mo'' \<and> mem_role m = OWNER"
proof -
  obtain v where v: "decide (demo_env ''d'') owner ''s2'' (demo_decision APPROVE) (Some ''decide-0123456789'') demo4
      = (Inr v, demo5)"
    using demo_accepted by blast
  show ?thesis
    using decision_is_authorised [OF demo_reachable(5) v] by (auto simp: demo_member_def)
qed


text \<open>The status a request and its invoice get when one more decision is counted.\<close>

definition decided_status :: "request \<Rightarrow> decision_outcome \<Rightarrow> nat \<Rightarrow> request_status \<times> invoice_status" where
  "decided_status r out approvals =
     (case out of
        REJECT \<Rightarrow> (REQUEST_REJECTED, REJECTED)
      | APPROVE \<Rightarrow>
          if req_required r \<le> approvals then (REQUEST_APPROVED, APPROVED)
          else (REQUEST_PENDING, AWAITING_APPROVAL))"

definition close_request :: "time \<Rightarrow> request_status \<Rightarrow> request \<Rightarrow> request" where
  "close_request now st r =
     (if st = REQUEST_PENDING then r else r\<lparr>req_status := st, req_completedAt := Some now\<rparr>)"

lemma set_request_status_rows:
  assumes "approval_inv d" and "r \<in> set (requests d)"
  shows "requests (set_request_status (req_org r) (req_id r) st now d) =
     map (\<lambda>x. if req_id x = req_id r then r\<lparr>req_status := st, req_completedAt := Some now\<rparr> else x) (requests d)"
  unfolding set_request_status_def
  using update_rows_one(1) [OF approval_inv_distinct(2) [OF assms(1)] assms(2),
      of "\<lambda>x. req_org x = req_org r \<and> req_id x = req_id r"] by simp

lemma set_invoice_status_rows:
  assumes "set_invoice_status (inv_org i) (inv_id i) st d = Inr d'"
    and "approval_inv d" and "i \<in> set (invoices d)"
  shows "requests d' = requests d \<and>
     invoices d' = map (\<lambda>x. if inv_id x = inv_id i then i\<lparr>inv_status := st\<rparr> else x) (invoices d)"
  using assms(1) update_rows_one(1) [OF approval_inv_distinct(1) [OF assms(2)] assms(3),
      of "\<lambda>x. inv_org x = inv_org i \<and> inv_id x = inv_id i"]
  by (auto simp: set_invoice_status_def split: if_splits)

lemma complete_decision_rows:
  assumes "complete_decision e r out d = Inr d'" and inv: "approval_inv d"
    and r: "r \<in> set (requests d)" "req_status r = REQUEST_PENDING"
    and i: "i \<in> set (invoices d)" "request_of r i" "inv_status i = AWAITING_APPROVAL"
    and st: "decided_status r out (approvals_of d r) = (rs, st)"
  shows "requests d' = map (\<lambda>x. if req_id x = req_id r then close_request (clock e 2) rs r else x) (requests d)"
    and "invoices d' = map (\<lambda>x. if inv_id x = inv_id i then i\<lparr>inv_status := st\<rparr> else x) (invoices d)"
proof -
  have one: "x = r" if "x \<in> set (requests d)" "req_id x = req_id r" for x
    using distinct_map_unique [OF approval_inv_distinct(2) [OF inv] that(1) r(1) that(2)] .
  have one': "x = i" if "x \<in> set (invoices d)" "inv_id x = inv_id i" for x
    using distinct_map_unique [OF approval_inv_distinct(1) [OF inv] that(1) i(1) that(2)] .
  have "requests d' = map (\<lambda>x. if req_id x = req_id r then close_request (clock e 2) rs r else x) (requests d) \<and>
      invoices d' = map (\<lambda>x. if inv_id x = inv_id i then i\<lparr>inv_status := st\<rparr> else x) (invoices d)"
  proof (cases "rs = REQUEST_PENDING")
    case True
    with st have "st = AWAITING_APPROVAL" "out = APPROVE" "\<not> req_required r \<le> approvals_of d r"
      by (auto simp: decided_status_def split: decision_outcome.splits if_splits)
    with True assms(1) have d': "d' = d" "close_request (clock e 2) rs r = r"
      by (simp_all add: complete_decision_def close_request_def)
    have "i\<lparr>inv_status := st\<rparr> = i" using i(3) \<open>st = AWAITING_APPROVAL\<close> by (cases i) simp
    with d' show ?thesis by (auto intro!: map_idI [symmetric] one [symmetric] one' [symmetric])
  next
    case False
    define d1 where "d1 = set_request_status (req_org r) (req_id r) rs (clock e 2) d"
    have ok: "approval_inv d1"
      unfolding d1_def using st r by (intro set_request_status_inv [OF inv])
        (auto simp: decided_status_def split: decision_outcome.splits if_splits)
    from assms(1) st False i(2) have s: "set_invoice_status (inv_org i) (inv_id i) st d1 = Inr d'"
      by (auto simp: complete_decision_def decided_status_def d1_def request_of_def
          split: decision_outcome.splits if_splits)
    have rows: "invoices d1 = invoices d" by (simp add: d1_def set_request_status_def)
    from set_invoice_status_rows [OF s ok] i(1) rows set_request_status_rows [OF inv r(1), of rs "clock e 2"]
    show ?thesis using False one one' by (auto simp: d1_def [symmetric] close_request_def)
  qed
  then show "requests d' = map (\<lambda>x. if req_id x = req_id r then close_request (clock e 2) rs r else x) (requests d)"
    "invoices d' = map (\<lambda>x. if inv_id x = inv_id i then i\<lparr>inv_status := st\<rparr> else x) (invoices d)"
    by simp_all
qed

text \<open>
  C8: A recorded decision takes effect at once and on nothing else: a rejection closes the request
  and the invoice as rejected; an approval closes both as approved exactly when, with this vote, the
  required number of approvals is reached, and otherwise leaves both pending.  No other request and
  no other invoice changes.
\<close>

theorem decision_outcome:
  assumes "reachable d" and "decide e a rid dto key d = (Inr v, d')" and "decisions d' \<noteq> decisions d"
  shows "\<exists>r \<in> set (requests d). \<exists>i \<in> set (invoices d).
     req_id r = rid \<and> req_status r = REQUEST_PENDING \<and> request_of r i \<and>
     inv_status i = AWAITING_APPROVAL \<and> inv_version i = req_invoiceVersion r \<and>
     (let (rs, st) = decided_status r (dto_outcome dto)
            (approvals_of d r + (if dto_outcome dto = APPROVE then 1 else 0)) in
      requests d' = map (\<lambda>x. if req_id x = rid then close_request (clock e 2) rs r else x) (requests d) \<and>
      invoices d' = map (\<lambda>x. if inv_id x = inv_id i then i\<lparr>inv_status := st\<rparr> else x) (invoices d))"
  using assms(2,3)
proof (rule decide_recordedE)
  fix kh r i m s t p d1 d2 d3 eligible and updated :: request
  assume dec: "decides e a rid dto kh d r i m s t p d1"
    and c: "create_decision (made_decision e a r m s t dto kh) d1 = Inr d2"
    and c': "complete_decision e r (dto_outcome dto) d2 = Inr d3"
    and el: "eligibleApprovers e 4 (organizationId a) (req_initiatedBy updated) (decision_audit e a r t dto d3) = (eligible, d')"
  have p: "policy e 0 (organizationId a) d = (p, d1)" using dec by (simp add: decides_def)
  from dec have fr: "find (\<lambda>r. req_id r = rid \<and> req_org r = organizationId a) (requests d) = Some r"
    and fi: "find (\<lambda>i. inv_id i = req_invoiceId r \<and> inv_org i = organizationId a) (invoices d) = Some i"
    and st: "req_status r = REQUEST_PENDING" "inv_status i = AWAITING_APPROVAL" "inv_version i = req_invoiceVersion r"
    by (simp_all add: decides_def)
  note r = find_SomeD [OF fr] and i = find_SomeD [OF fi]
  have of: "request_of r i" using r(2) i(2) by (simp add: request_of_def)
  note ini = decides_initiator [OF dec reachable_approval_inv [OF assms(1)]]
  have d2: "invoices d2 = invoices d" "requests d2 = requests d"
    "decisions d2 = decisions d @ [made_decision e a r m s t dto kh]"
    using c policy_frame [OF p] by (simp_all add: create_decision_Inr)
  have inv2: "approval_inv d2"
    by (rule create_decision_inv [OF c ini(1,2)]) (use ini in \<open>simp_all add: made_decision_def decision_of_def\<close>)
  have n: "approvals_of d2 r = approvals_of d r + (if dto_outcome dto = APPROVE then 1 else 0)"
    using r by (simp add: approvals_of_def d2 made_decision_def)
  obtain rs ist where ist: "decided_status r (dto_outcome dto) (approvals_of d2 r) = (rs, ist)" by fastforce
  have "r \<in> set (requests d2)" "i \<in> set (invoices d2)" using r i d2 by simp_all
  from complete_decision_rows [OF c' inv2 this(1) st(1) this(2) of st(2) ist]
  have "requests d' = map (\<lambda>x. if req_id x = rid then close_request (clock e 2) rs r else x) (requests d)"
    "invoices d' = map (\<lambda>x. if inv_id x = inv_id i then i\<lparr>inv_status := ist\<rparr> else x) (invoices d)"
    using eligible_frame(1,2) [OF el] d2 r by simp_all
  with st ist of i r show ?thesis unfolding n by (intro bexI [OF _ r(1)] bexI [OF _ i(1)]) simp
qed

theorem decision_outcome_witness:
  "\<exists>i \<in> set (invoices demo4). invoices demo5 = map (\<lambda>x. if inv_id x = inv_id i then i\<lparr>inv_status := APPROVED\<rparr> else x) (invoices demo4)"
proof -
  obtain v where v: "decide (demo_env ''d'') owner ''s2'' (demo_decision APPROVE) (Some ''decide-0123456789'') demo4
      = (Inr v, demo5)"
    using demo_accepted by blast
  have "dto_outcome (demo_decision APPROVE) = APPROVE" by (simp add: demo_decision_def)
  with decision_outcome [OF demo_reachable(5) v] show ?thesis
    by (auto simp: decided_status_def)
qed

end
