(* ===== verification/Submission_Properties.thy ===== *)
theory Submission_Properties
  imports Approval_Properties
begin

text \<open>
  What \<open>ApprovalsService.submit\<close> guarantees: a reviewed invoice is accepted and becomes pending with
  its evidence, a repeated call with the same idempotency key changes nothing, and the number of
  decisions follows from the risk.
\<close>

section \<open>A ready invoice is accepted\<close>

lemma fresh_assessment:
  assumes "approval_inv d" and "\<forall>x \<in> set (assessments d). ra_id x \<noteq> new_uuid e 1"
    and i: "i \<in> set (invoices d)" "inv_id i = iid" "inv_org i = org"
  shows "create_unique assessment_keys (submitted_assessment e org iid (Suc (inv_version i)) ev) (assessments d)
    = Inr (assessments d @ [submitted_assessment e org iid (Suc (inv_version i)) ev])"
proof (rule create_unique_fresh)
  have "ra_invoiceVersion x \<le> inv_version i"
    if "x \<in> set (assessments d)" "ra_org x = org" "ra_invoiceId x = iid" for x
    using assms(1) that i by (auto simp: approval_inv_def assessment_ok_def)
  then have "ra_invoiceVersion x \<noteq> Suc (inv_version i)"
    if "x \<in> set (assessments d)" "ra_org x = org" "ra_invoiceId x = iid" for x
    using that by fastforce
  with assms(2) show "\<forall>k \<in> set assessment_keys. \<forall>x \<in> set (assessments d).
      k x \<noteq> k (submitted_assessment e org iid (Suc (inv_version i)) ev)"
    by (auto simp: assessment_keys_def)
qed

lemma next_request_version_greater:
  assumes "r \<in> set (requests d)" and "req_org r = org" and "req_invoiceId r = iid"
  shows "req_version r < next_request_version d org iid"
proof (cases "find_max req_version (\<lambda>r. req_org r = org \<and> req_invoiceId r = iid) (requests d)")
  case None
  with assms show ?thesis by (auto simp: find_max_None)
next
  case (Some m)
  with find_max_SomeD [OF Some] assms show ?thesis by (fastforce simp: next_request_version_def)
qed

lemma fresh_request:
  assumes "approval_inv d" and "\<forall>x \<in> set (assessments d). ra_id x \<noteq> new_uuid e 1"
    and "\<forall>q \<in> set (requests d). req_id q \<noteq> new_uuid e 2"
    and "\<forall>r \<in> set (requests d). req_org r = organizationId a \<longrightarrow> req_keyHash r \<noteq> kh"
    and "ra_id risk = new_uuid e 1"
    and r: "r = submitted_request e a iid v risk bank (next_request_version d (organizationId a) iid) kh"
  shows "create_unique request_keys r (requests d) = Inr (requests d @ [r])"
proof (rule create_unique_fresh)
  have "\<exists>x \<in> set (assessments d). ra_id x = req_assessmentId q" if "q \<in> set (requests d)" for q
    using assms(1) that by (force simp: approval_inv_def request_ok_def evidence_of_def)
  then have "req_assessmentId q \<noteq> new_uuid e 1" if "q \<in> set (requests d)" for q
    using that assms(2) by metis
  moreover have "req_version q \<noteq> next_request_version d (organizationId a) iid"
    if "q \<in> set (requests d)" "req_org q = organizationId a" "req_invoiceId q = iid" for q
    using next_request_version_greater [OF that] by simp
  ultimately show "\<forall>k \<in> set request_keys. \<forall>q \<in> set (requests d). k q \<noteq> k r"
    using assms(3-5) by (auto simp: r request_keys_def)
qed

lemma review_incomplete_cong:
  "processings d' = processings d \<Longrightarrow> review_incomplete d' i docs = review_incomplete d i docs"
  by (simp add: review_incomplete_def document_cleared_def scan_of_def)

text \<open>
  C9: A reviewed invoice is always accepted.  When it is NEEDS_REVIEW at the version the client
  read, complete, with every document approved and scanned clean, its vendor has a bank account, and
  the key was not used before, then submit succeeds: it appends one assessment and one pending
  request that carries it as evidence, names the latest bank account, asks for two decisions exactly when the
  level is high and has a version above every earlier request of the invoice; and the invoice alone
  moves on to AWAITING_APPROVAL with the account and the next version.
\<close>

theorem ready_invoice_is_submitted:
  assumes "reachable d" and "idempotencyKeyHash e key = Inr kh"
    and "\<forall>r \<in> set (requests d). req_org r = organizationId a \<longrightarrow> req_keyHash r \<noteq> kh"
    and "i \<in> set (invoices d)" "inv_id i = iid" "inv_org i = organizationId a"
    and "inv_version i = v" and "inv_status i = NEEDS_REVIEW"
    and "\<not> review_incomplete d i (documents_of d (organizationId a) iid)"
    and "latest_bank d (organizationId a) (the (inv_vendorId i)) = Some b"
    and "\<forall>x \<in> set (assessments d). ra_id x \<noteq> new_uuid e 1" and "\<forall>q \<in> set (requests d). req_id q \<noteq> new_uuid e 2"
  shows "\<exists>view d' r x. submit e a iid v key d = (Inr view, d') \<and>
     assessments d' = assessments d @ [x] \<and> requests d' = requests d @ [r] \<and> evidence_of x r \<and>
     req_status r = REQUEST_PENDING \<and> req_invoiceId r = iid \<and> req_invoiceVersion r = v + 1 \<and>
     req_initiatedBy r = membershipId a \<and> req_bankVersionId r = Some (bank_id b) \<and>
     req_required r = (if ra_level x = HIGH then 2 else 1) \<and>
     (\<forall>q \<in> set (requests d). req_org q = organizationId a \<and> req_invoiceId q = iid \<longrightarrow> req_version q < req_version r) \<and>
     invoices d' = map (\<lambda>j. if inv_id j = iid then i\<lparr>inv_status := AWAITING_APPROVAL,
        inv_bankVersionId := Some (bank_id b), inv_version := v + 1\<rparr> else j) (invoices d)"
proof -
  have I: "approval_inv d" using assms(1) by (rule reachable_approval_inv)
  note dist = approval_inv_distinct [OF I]
  obtain p d1 where p: "policy e 0 (organizationId a) d = (p, d1)" by fastforce
  note fr = policy_frame [OF p] and I1 = approval_inv_policy_of(1) [OF p I]
  define ev where "ev = evaluateInvoiceRisk (sha256 e) (inv_id i)
    (submission_facts d1 (organizationId a) i (documents_of d (organizationId a) iid) b) p"
  define x where "x = submitted_assessment e (organizationId a) iid (Suc v) ev"
  define r where "r = submitted_request e a iid (Suc v) x b (next_request_version d1 (organizationId a) iid) kh"
  define d2 where "d2 = d1\<lparr>assessments := assessments d @ [x], requests := requests d @ [r]\<rparr>"
  let ?f = "\<lambda>j. j\<lparr>inv_status := AWAITING_APPROVAL, inv_bankVersionId := Some (bank_id b),
      inv_version := inv_version j + 1\<rparr>"
  define d3 where "d3 = submit_audits e a iid (Suc v) ev r
    (d2\<lparr>invoices := update_rows (moves_on_submit (organizationId a) iid v) ?f (invoices d)\<rparr>)"
  obtain el d' where el: "eligibleApprovers e 7 (organizationId a) (membershipId a) d3 = (el, d')" by fastforce
  have find: "find (\<lambda>r. req_org r = organizationId a \<and> req_keyHash r = kh) (requests d) = None"
    "find (\<lambda>i. inv_id i = iid \<and> inv_org i = organizationId a) (invoices d) = Some i"
    using assms(3-6) by (auto simp: find_None_iff intro!: find_unique [OF dist(1)])
  have "moves_on_submit (organizationId a) iid v i"
    "\<And>j. moves_on_submit (organizationId a) iid v j \<Longrightarrow> inv_id j = inv_id i"
    using assms(5-8) by (simp_all add: moves_on_submit_def)
  note rows = update_rows_one [where P = "moves_on_submit (organizationId a) iid v", OF dist(1) assms(4) this]
  have keys: "create_unique assessment_keys x (assessments d) = Inr (assessments d @ [x])"
    "create_unique request_keys r (requests d) = Inr (requests d @ [r])"
    using fresh_assessment [OF I assms(11,4-6)] fresh_request [OF I1 _ _ _ _ r_def] assms(3,7,11,12)
    by (simp_all add: x_def fr)
  have bank: "latest_bank d1 (organizationId a) (the (inv_vendorId i)) = Some b"
    using assms(10) fr by (simp add: latest_bank_def)
  have req: "req_initiatedBy r = membershipId a" by (simp add: r_def)
  have "submit e a iid v key d = (Inr (approvalView (request_details d2 r) el), d')"
    using find assms(2,7-9) p bank keys rows(2) el
    by (simp add: submit_def submit_tx_def run_def Let_def fr ev_def [symmetric] x_def [symmetric]
        r_def [symmetric] d2_def [symmetric] req d3_def) (simp add: d2_def fr)
  moreover have "invoices d' = map (\<lambda>j. if inv_id j = iid then i\<lparr>inv_status := AWAITING_APPROVAL,
      inv_bankVersionId := Some (bank_id b), inv_version := v + 1\<rparr> else j) (invoices d)"
    "assessments d' = assessments d @ [x]" "requests d' = requests d @ [r]"
    using eligible_frame [OF el] assms(5,7) rows by (simp_all add: d3_def d2_def)
  moreover have "evidence_of x r" by (simp add: evidence_of_def x_def r_def)
  moreover have "\<forall>q \<in> set (requests d). req_org q = organizationId a \<and> req_invoiceId q = iid \<longrightarrow> req_version q < req_version r"
    using next_request_version_greater [of _ d1] fr by (simp add: r_def)
  moreover have "req_status r = REQUEST_PENDING \<and> req_invoiceId r = iid \<and> req_invoiceVersion r = v + 1 \<and>
      req_initiatedBy r = membershipId a \<and> req_bankVersionId r = Some (bank_id b) \<and>
      req_required r = (if ra_level x = HIGH then 2 else 1)"
    by (simp add: r_def)
  ultimately show ?thesis by blast
qed

theorem ready_invoice_is_submitted_witness:
  "\<exists>view d' r. submit (demo_env ''s'') accountant ''a1'' 2 (Some ''submit-0123456789'') demo3 = (Inr view, d') \<and>
     requests d' = [r] \<and> req_bankVersionId r = Some ''b''"
proof -
  have "\<not> review_incomplete demo3 (demo_complete NEEDS_REVIEW 2 None) (documents_of demo3 ''org'' ''a1'')"
    by (simp add: review_incomplete_def documents_of_def document_cleared_def scan_of_def)
  moreover have "latest_bank demo3 ''org'' ''v'' = Some demo_bank" by (simp add: latest_bank_def)
  ultimately show ?thesis
    using ready_invoice_is_submitted [OF demo_reachable(4) demo_keys(1) [of "''s''"], of accountant "demo_complete NEEDS_REVIEW 2 None"
      "''a1''" 2 demo_bank] by auto
qed

section \<open>Replays\<close>

lemma submit_InrE:
  assumes "submit e a iid v key d = (Inr view, d')"
  obtains kh where "idempotencyKeyHash e key = Inr kh" "submit_tx e a iid v kh d = Inr (view, d')"
  using assms by (auto simp: submit_def tx.outcome_iff split: sum.splits)

lemma submit_recorded:
  assumes "submit_tx e a iid v kh d = Inr (view, d')"
  obtains r where "find (\<lambda>r. req_org r = organizationId a \<and> req_keyHash r = kh) (requests d') = Some r"
    "req_invoiceId r = iid" "det_request (view_details view) = r"
  using assms
proof (cases rule: submit_txE)
  case (replay r)
  then show thesis by (intro that [of r]) (simp_all add: approvalView_def request_details_def)
next
  case (fresh i p d1 bank ev risk req eligible)
  from fresh(1) have "find (\<lambda>r. req_org r = organizationId a \<and> req_keyHash r = kh) (requests d) = None"
    and "policy e 0 (organizationId a) d = (p, d1)"
    and req: "req = submitted_request e a iid (v + 1) risk bank (next_request_version d1 (organizationId a) iid) kh"
    by (simp_all add: submits_def)
  moreover from this have "requests d' = requests d @ [req]"
    using eligible_frame(2) [OF fresh(4)] policy_frame(2) by (simp add: after_submit_def)
  ultimately show thesis
    by (intro that [of req]) (simp_all add: find_append fresh(5) approvalView_def request_details_def)
qed



lemma decide_recorded:
  assumes "decide_tx e a rid dto kh d = Inr (Decided view, d')"
  obtains x r where "find (\<lambda>x. dec_org x = organizationId a \<and> dec_keyHash x = kh) (decisions d') = Some x"
    "dec_requestId x = rid" "find (\<lambda>r. req_id r = rid \<and> req_org r = organizationId a) (requests d') = Some r"
    "det_request (view_details view) = r"
  using assms
proof (cases rule: decide_txE)
  case (replay x r)
  then show thesis by (intro that [of x r]) (simp_all add: approvalView_def request_details_def)
next
  case (recorded r i m s t p d1)
  from recorded(1) have none: "find (\<lambda>x. dec_org x = organizationId a \<and> dec_keyHash x = kh) (decisions d) = None"
    and p: "policy e 0 (organizationId a) d = (p, d1)"
    and r: "find (\<lambda>r. req_id r = rid \<and> req_org r = organizationId a) (requests d) = Some r"
    by (simp_all add: decides_def)
  from recorded(2) obtain d2 d3 eligible and updated :: request where
    c: "create_decision (made_decision e a r m s t dto kh) d1 = Inr d2"
      "complete_decision e r (dto_outcome dto) d2 = Inr d3"
    and u: "find (\<lambda>x. req_id x = req_id r \<and> req_org x = organizationId a) (requests d3) = Some updated"
    and el: "eligibleApprovers e 4 (organizationId a) (req_initiatedBy updated) (decision_audit e a r t dto d3) = (eligible, d')"
    and v: "Decided view = Decided (approvalView (request_details (decision_audit e a r t dto d3) updated) eligible)"
    by (rule record_decisionE) blast
  have "decisions d' = decisions d @ [made_decision e a r m s t dto kh]"
    using c complete_decision_decisions [OF c(2)] eligible_frame(3) [OF el] policy_frame(3) [OF p]
    by (simp add: create_decision_Inr)
  moreover have "req_id r = rid" using find_SomeD(2) [OF r] by simp
  ultimately show thesis
    using none u v eligible_frame(2) [OF el]
    by (intro that [of "made_decision e a r m s t dto kh" updated])
      (simp_all add: find_append made_decision_def approvalView_def request_details_def)
qed simp

text \<open>
  C36: Deciding is idempotent.  After a successful call, a call by any member of the organization
  with the same key for the same request succeeds, answers with the same state of the request and changes nothing, even when it carries
  the opposite outcome; with the same key for another request it fails with IDEMPOTENCY_KEY_REUSED.
\<close>

theorem decide_is_idempotent:
  assumes "decide e a rid dto key d = (Inr view, d')"
    and "sha256 e2 = sha256 e" and "organizationId a2 = organizationId a"
  shows "(\<exists>view2. decide e2 a2 rid dto2 key d' = (Inr view2, d') \<and>
       det_request (view_details view2) = det_request (view_details view)) \<and>
     (\<forall>rid2. rid2 \<noteq> rid \<longrightarrow> decide e2 a2 rid2 dto2 key d' = (Inl idempotencyConflict, d'))"
proof -
  from assms(1) obtain kh where kh: "idempotencyKeyHash e key = Inr kh" "decide_tx e a rid dto kh d = Inr (Decided view, d')"
    by (rule decide_InrE)
  from kh(1) assms(2) have kh2: "idempotencyKeyHash e2 key = Inr kh" by (simp add: idempotencyKeyHash_def split: if_splits) (auto simp: Let_def split: if_splits)
  from kh(2) obtain x r where x: "find (\<lambda>x. dec_org x = organizationId a \<and> dec_keyHash x = kh) (decisions d') = Some x"
    "dec_requestId x = rid" "find (\<lambda>r. req_id r = rid \<and> req_org r = organizationId a) (requests d') = Some r"
    "det_request (view_details view) = r"
    by (rule decide_recorded)
  have "\<exists>view2. decide e2 a2 rid dto2 key d' = (Inr view2, d') \<and>
       det_request (view_details view2) = det_request (view_details view)"
    using kh2 x assms(3)
    by (simp add: decide_def decide_tx_def run_def Let_def approvalView_def request_details_def)
  moreover have "decide e2 a2 rid2 dto2 key d' = (Inl idempotencyConflict, d')" if "rid2 \<noteq> rid" for rid2
    using kh2 x assms(3) that by (auto simp: decide_def decide_tx_def run_def Let_def)
  ultimately show ?thesis by blast
qed

theorem decide_is_idempotent_witness:
  "\<exists>view2. decide (demo_env ''t'') accountant ''s2'' (demo_decision REJECT) (Some ''decide-0123456789'') demo5 = (Inr view2, demo5)"
proof -
  obtain view where "decide (demo_env ''d'') owner ''s2'' (demo_decision APPROVE) (Some ''decide-0123456789'') demo4 = (Inr view, demo5)"
    using demo_accepted by blast
  from decide_is_idempotent [OF this, of "demo_env ''t''" accountant "demo_decision REJECT"] show ?thesis by auto
qed

end
