(* ===== verification/Bank_Properties.thy ===== *)
theory Bank_Properties
  imports Scenario
begin

text \<open>
  Bank accounts: what is stored can be read back by its vendor's readers and by nobody else's
  context, what is shown is masked, and a new account withdraws the approvals that named the old one.
\<close>

section \<open>The encryption service\<close>

text \<open>
  What the service relies on: AES-256-GCM with a 16-byte tag opens exactly what it sealed under the
  same key, nonce and associated data, and two different associated data never seal to the same bytes.
\<close>

definition seals :: "crypto \<Rightarrow> bool" where
  "seals c \<longleftrightarrow> (\<forall>k iv ad tag ct pt.
     crypto_decrypt c k iv ad tag ct = Some pt \<longleftrightarrow> crypto_encrypt c k iv ad pt = (ct, tag)) \<and>
     (\<forall>k iv ad pt. length (snd (crypto_encrypt c k iv ad pt)) = 16)"

definition binds_data :: "crypto \<Rightarrow> bool" where
  "binds_data c \<longleftrightarrow> (\<forall>k iv ad ad' pt pt'. crypto_encrypt c k iv ad pt = crypto_encrypt c k iv ad' pt' \<longrightarrow> ad = ad')"

text \<open>An instance: the sealed text lists what was sealed.\<close>

definition demo_crypto :: crypto where
  "demo_crypto = \<lparr>crypto_digest = \<lambda>s. s, crypto_hkdf = \<lambda>k s i. k @ s @ i,
     crypto_encrypt = \<lambda>k iv ad pt. (stringify_fields [(k, iv), (ad, pt)], replicate 16 (CHR ''t'')),
     crypto_decrypt = \<lambda>k iv ad tag ct.
       (if tag = replicate 16 (CHR ''t'')
        then (case parse_fields ct of
                Some [(k', iv'), (ad', pt)] \<Rightarrow>
                  if k' = k \<and> iv' = iv \<and> ad' = ad \<and> ct = stringify_fields [(k, iv), (ad, pt)] then Some pt else None
              | _ \<Rightarrow> None)
        else None),
     crypto_hmac = \<lambda>k s. k @ s\<rparr>"

lemma stringify_inject [simp]: "fs \<noteq> [] \<Longrightarrow> gs \<noteq> [] \<Longrightarrow> stringify_fields fs = stringify_fields gs \<longleftrightarrow> fs = gs"
  by (metis parse_stringify_fields option.inject)

lemma demo_crypto_seals: "seals demo_crypto" and demo_crypto_binds: "binds_data demo_crypto"
proof -
  show "seals demo_crypto"
    by (auto simp: seals_def demo_crypto_def parse_stringify_fields split: option.splits list.splits if_splits)
  show "binds_data demo_crypto"
    by (auto simp: binds_data_def demo_crypto_def)
qed

text \<open>The account as it is stored: normalized, trimmed, without an empty bank name.\<close>

definition clean_account :: "plain_account \<Rightarrow> plain_account" where
  "clean_account acc =
     \<lparr>acc_accountNumber = normalizeAccount (acc_accountNumber acc), acc_accountHolder = js_trim (acc_accountHolder acc),
      acc_bankName = (if truthy (acc_bankName acc) then map_option js_trim (acc_bankName acc) else None)\<rparr>"

lemma account_fields_nonempty: "account_fields acc \<noteq> []"
  by (simp add: account_fields_def)

lemma encrypt_fields:
  assumes "crypto_encrypt c (svc_encryptionKey svc) iv (aad org vid)
      (utf8_encode (stringify_fields (account_fields (clean_account acc)))) = (ct, tag)"
  shows "enc_account (encrypt c svc iv org vid acc) = base64_encode ct"
    "enc_iv (encrypt c svc iv org vid acc) = base64_encode iv"
    "enc_tag (encrypt c svc iv org vid acc) = base64_encode tag"
    "enc_keyId (encrypt c svc iv org vid acc) = svc_keyId svc"
  using assms by (simp_all add: encrypt_def clean_account_def Let_def)

lemma decrypt_encrypt:
  assumes "seals c" and "length iv = 12"
    and stored: "enc_account st = enc_account (encrypt c svc iv org vid acc)"
      "enc_iv st = enc_iv (encrypt c svc iv org vid acc)" "enc_tag st = enc_tag (encrypt c svc iv org vid acc)"
      "enc_keyId st = enc_keyId (encrypt c svc iv org vid acc)"
  shows "decrypt c svc org vid st = Inr (clean_account acc)"
proof -
  obtain ct tag where ct: "crypto_encrypt c (svc_encryptionKey svc) iv (aad org vid)
      (utf8_encode (stringify_fields (account_fields (clean_account acc)))) = (ct, tag)" by fastforce
  have "length tag = 16" using assms(1) ct unfolding seals_def by (metis snd_conv)
  moreover have "crypto_decrypt c (svc_encryptionKey svc) iv (aad org vid) tag ct
      = Some (utf8_encode (stringify_fields (account_fields (clean_account acc))))"
    using assms(1) ct by (simp add: seals_def)
  ultimately show ?thesis
    using assms(2) by (simp add: decrypt_def stored encrypt_fields [OF ct] parse_stringify_fields
        account_fields_nonempty read_account_fields)
qed

lemma utf8_inject [simp]: "utf8_encode s = utf8_encode t \<longleftrightarrow> s = t"
  by (metis utf8_roundtrip)

lemma decrypt_elsewhere:
  assumes "seals c" and "binds_data c" and "aad org2 vid2 \<noteq> aad org vid"
    and stored: "enc_account st = enc_account (encrypt c svc iv org vid acc)"
      "enc_iv st = enc_iv (encrypt c svc iv org vid acc)" "enc_tag st = enc_tag (encrypt c svc iv org vid acc)"
      "enc_keyId st = enc_keyId (encrypt c svc iv org vid acc)"
  shows "decrypt c svc org2 vid2 st = Inl decryption_failed"
proof -
  obtain ct tag where ct: "crypto_encrypt c (svc_encryptionKey svc) iv (aad org vid)
      (utf8_encode (stringify_fields (account_fields (clean_account acc)))) = (ct, tag)" by fastforce
  have "crypto_decrypt c (svc_encryptionKey svc) iv (aad org2 vid2) tag ct \<noteq> Some pt" for pt
  proof
    assume "crypto_decrypt c (svc_encryptionKey svc) iv (aad org2 vid2) tag ct = Some pt"
    with assms(1) have "crypto_encrypt c (svc_encryptionKey svc) iv (aad org2 vid2) pt = (ct, tag)"
      by (simp add: seals_def)
    with assms(2,3) ct show False unfolding binds_data_def by metis
  qed
  then have "crypto_decrypt c (svc_encryptionKey svc) iv (aad org2 vid2) tag ct = None"
    by (cases "crypto_decrypt c (svc_encryptionKey svc) iv (aad org2 vid2) tag ct") auto
  then show ?thesis by (simp add: decrypt_def stored encrypt_fields [OF ct])
qed

section \<open>Through the vendor service\<close>

lemma addBankVersion_row:
  assumes "addBankVersion c svc e a vid country acc d = (Inr b, d')"
  obtains x where "bank_versions d' = bank_versions d @ [x]" "bank_id x = bp_id b"
    "bank_number x = bp_versionNumber b"
    "x = new_bank_version e a vid (next_bank_number d (organizationId a) vid) country
       (encrypt c svc (random_token e 0) (organizationId a) vid acc)"
    "\<forall>y \<in> set (bank_versions d). bank_id y \<noteq> bank_id x"
proof -
  from assms have "addBankVersion_tx c svc e a vid country acc d = Inr (b, d')"
    by (simp add: addBankVersion_def tx.outcome_iff)
  then show thesis
  proof (rule addBankVersion_tx_Inr)
    fix x d1
    assume x: "x = new_bank_version e a vid (next_bank_number d (organizationId a) vid) country
       (encrypt c svc (random_token e 0) (organizationId a) vid acc)"
      and u: "create_unique bank_keys x (bank_versions d) = Inr (bank_versions d @ [x])"
      and d1: "d1 = d\<lparr>bank_versions := bank_versions d @ [x],
        bank_verifications := bank_verifications d @ [first_verification e a x]\<rparr>"
      and b: "b = bankPublicSelect d1 x"
      and d': "d' = writeAudit e 2 (organizationId a) (Some (membershipId a)) ''BANK_ACCOUNT_VERSION_CREATED''
         ''BANK_ACCOUNT'' (bank_id x) None (Some (bank_created_json vid x
           (if 1 < bank_number x then count_rows (pending_of_vendor d1 (organizationId a) vid) (requests d1) else 0)))
         None (if 1 < bank_number x then freeze_approvals (organizationId a) vid d1 else d1)"
    have "bank_versions d' = bank_versions d @ [x]" by (simp add: d' d1 freeze_approvals_def)
    moreover have "\<forall>y \<in> set (bank_versions d). bank_id y \<noteq> bank_id x"
      using u by (simp add: create_unique_Inr bank_keys_def)
    ultimately show thesis using x b by (intro that) (simp_all add: bankPublicSelect_def)
  qed
qed

text \<open>
  C33: A stored bank account can be read back.  When addBankVersion succeeded with a 12-byte nonce,
  every member of the organization who may read the vendor gets from revealBankVersion exactly the account that was
  entered, with the number normalized and the names trimmed, under the version and the country it was stored with.
\<close>

theorem revealed_account_is_the_stored_one:
  assumes "seals c" and "addBankVersion c svc e a vid country acc d = (Inr b, d')"
    and "length (random_token e 0) = 12"
    and "organizationId a2 = organizationId a" and "assertCanReadVendor (clock e2 0) a2 vid d' = Inr ()"
  shows "fst (revealBankVersion c svc e2 a2 vid (bp_id b) reason d') =
     Inr \<lparr>rev_id = bp_id b, rev_versionNumber = bp_versionNumber b, rev_countryCode = country,
          rev_account = clean_account acc\<rparr>"
  using assms(2)
proof (rule addBankVersion_row)
  fix x assume rows: "bank_versions d' = bank_versions d @ [x]" "bank_id x = bp_id b" "bank_number x = bp_versionNumber b"
    and x: "x = new_bank_version e a vid (next_bank_number d (organizationId a) vid) country
       (encrypt c svc (random_token e 0) (organizationId a) vid acc)"
    and new: "\<forall>y \<in> set (bank_versions d). bank_id y \<noteq> bank_id x"
  have here: "bank_org x = organizationId a" "bank_vendorId x = vid" "bank_countryCode x = country"
    by (simp_all add: x new_bank_version_def)
  have none: "find (\<lambda>b'. bank_id b' = bp_id b \<and> bank_org b' = organizationId a \<and> bank_vendorId b' = vid)
      (bank_versions d) = None"
    using new rows(2) by (auto simp: find_None_iff)
  have "find_bank a2 vid (bp_id b) d' = Some x"
    using rows here assms(4) by (simp add: find_bank_def find_append none)
  moreover have "decrypt c svc (organizationId a) vid (stored_account x) = Inr (clean_account acc)"
    by (rule decrypt_encrypt [OF assms(1,3)]) (simp_all add: stored_account_def x new_bank_version_def)
  ultimately show ?thesis
    using assms(4,5) rows here by (simp add: revealBankVersion_def revealBankVersion_tx_def run_def)
qed

text \<open>A second account of the demo vendor.\<close>

definition demo_service :: bank_service where
  "demo_service = \<lparr>svc_keyId = ''local-v1'', svc_encryptionKey = ''key'', svc_fingerprintKey = ''fp''\<rparr>"

definition demo_account :: plain_account where
  "demo_account = \<lparr>acc_accountNumber = ''md24 0002'', acc_accountHolder = '' Lift SRL'', acc_bankName = None\<rparr>"

lemma demo_new_bank:
  assumes "vendors d = [demo_vendor]" and "bank_versions d = [demo_bank]"
  shows "\<exists>b d'. addBankVersion demo_crypto demo_service (demo_env ''elevenchars'') owner ''v'' ''MD'' demo_account d
    = (Inr b, d') \<and> bp_versionNumber b = 2"
  using assms
  by (simp add: addBankVersion_def addBankVersion_tx_def run_def assertCanReadVendor_def vendorScope_def
      sees_all_def demo_vendor_def create_unique_def bank_keys_def new_bank_version_def next_bank_number_def
      bankPublicSelect_def Let_def)

theorem revealed_account_is_the_stored_one_witness:
  "\<exists>b d'. addBankVersion demo_crypto demo_service (demo_env ''elevenchars'') owner ''v'' ''MD'' demo_account demo0 = (Inr b, d') \<and>
     fst (revealBankVersion demo_crypto demo_service (demo_env ''r'') owner ''v'' (bp_id b) ''audit of the account'' d') =
     Inr \<lparr>rev_id = bp_id b, rev_versionNumber = 2, rev_countryCode = ''MD'', rev_account = clean_account demo_account\<rparr>"
proof -
  from demo_new_bank [of demo0] obtain b d' where b: "addBankVersion demo_crypto demo_service
      (demo_env ''elevenchars'') owner ''v'' ''MD'' demo_account demo0 = (Inr b, d')" "bp_versionNumber b = 2"
    by auto
  have "vendors d' = [demo_vendor]"
    using b(1) by (auto simp: addBankVersion_def tx.outcome_iff freeze_approvals_def elim!: addBankVersion_tx_Inr)
  then have "assertCanReadVendor (clock (demo_env ''r'') 0) owner ''v'' d' = Inr ()"
    by (simp add: assertCanReadVendor_def vendorScope_def sees_all_def demo_vendor_def)
  from revealed_account_is_the_stored_one [OF demo_crypto_seals b(1) _ refl this] b show ?thesis
    by (intro exI [of _ b] exI [of _ d'] conjI) simp_all
qed

text \<open>
  A stored account is of no use outside its vendor: decrypting it in the context of another
  organization or of another vendor fails, whatever was stored.
\<close>

theorem foreign_context_cannot_decrypt:
  assumes "seals c" and "binds_data c" and "CHR '':'' \<notin> set org" and "CHR '':'' \<notin> set org2"
    and "org2 \<noteq> org \<or> vid2 \<noteq> vid"
  shows "decrypt c svc org2 vid2 (encrypt c svc iv org vid acc) = Inl decryption_failed"
proof (rule decrypt_elsewhere [OF assms(1,2)])
  show "aad org2 vid2 \<noteq> aad org vid"
  proof
    assume "aad org2 vid2 = aad org vid"
    then have "split_on (CHR '':'') (org2 @ CHR '':'' # vid2) = split_on (CHR '':'') (org @ CHR '':'' # vid)"
      and eq: "org2 @ CHR '':'' # vid2 = org @ CHR '':'' # vid" by (simp_all add: aad_def)
    then have "org2 = org" by (metis split_on_append assms(3,4) list.inject)
    with eq assms(5) show False by simp
  qed
qed simp_all

theorem foreign_context_cannot_decrypt_witness:
  "decrypt demo_crypto demo_service ''org'' ''w'' (encrypt demo_crypto demo_service ''nonce'' ''org'' ''v'' demo_account)
     = Inl decryption_failed"
  by (rule foreign_context_cannot_decrypt [OF demo_crypto_seals demo_crypto_binds]) simp_all

section \<open>A new account withdraws approvals\<close>

lemma find_max_greater:
  "\<forall>r \<in> set t. P r \<longrightarrow> k r < k x \<Longrightarrow> P x \<Longrightarrow> find_max k P (t @ [x]) = Some x"
  by (induction t) auto

lemma next_bank_number_greater:
  assumes "y \<in> set (bank_versions d)" and "bank_org y = org" and "bank_vendorId y = vid"
  shows "bank_number y < next_bank_number d org vid"
proof (cases "find_max bank_number (\<lambda>b. bank_org b = org \<and> bank_vendorId b = vid) (bank_versions d)")
  case None
  with assms show ?thesis by (auto simp: find_max_None)
next
  case (Some m)
  with find_max_SomeD [OF Some] assms show ?thesis by (fastforce simp: next_bank_number_def)
qed

lemma freeze_approvals_effect:
  fixes org vid :: uuid and d :: db
  defines "mine \<equiv> \<lambda>i :: invoice. inv_org i = org \<and> inv_vendorId i = Some vid"
    and "d' \<equiv> freeze_approvals org vid d"
  assumes "i \<in> set (invoices d')" and "mine i"
  shows "inv_status i \<noteq> AWAITING_APPROVAL"
    and "r \<in> set (requests d') \<Longrightarrow> request_of r i \<Longrightarrow> req_status r \<noteq> REQUEST_PENDING"
proof -
  from assms(3) obtain j where j: "j \<in> set (invoices d)" "i = j \<or> inv_status i = NEEDS_REVIEW"
    "inv_id i = inv_id j" "inv_org i = inv_org j" "inv_vendorId i = inv_vendorId j"
    "mine j \<Longrightarrow> inv_status i \<noteq> AWAITING_APPROVAL"
    by (auto simp: d'_def mine_def freeze_approvals_def set_update_rows)
  with assms(4) show "inv_status i \<noteq> AWAITING_APPROVAL" by (simp add: mine_def)
  assume "r \<in> set (requests d')" and "request_of r i"
  then obtain q where q: "q \<in> set (requests d)" "r = (if pending_of_vendor d org vid q
      then q\<lparr>req_status := REQUEST_INVALIDATED, req_invalidatedReason := Some ''VENDOR_BANK_ACCOUNT_CHANGED''\<rparr> else q)"
    by (auto simp: d'_def freeze_approvals_def set_update_rows)
  show "req_status r \<noteq> REQUEST_PENDING"
  proof (cases "pending_of_vendor d org vid q")
    case False
    with q have "r = q" "q \<in> set (requests d)" by simp_all
    with False j \<open>request_of r i\<close> assms(4) show ?thesis
      by (auto simp: pending_of_vendor_def list_ex_iff request_of_def mine_def)
  qed (simp add: q)
qed

lemma freeze_approvals_others:
  "i \<in> set (invoices d) \<Longrightarrow> \<not> (inv_org i = org \<and> inv_vendorId i = Some vid) \<Longrightarrow>
     i \<in> set (invoices (freeze_approvals org vid d))"
  by (force simp: freeze_approvals_def set_update_rows)

text \<open>
  C7: A changed bank account withdraws every approval that rests on the old one.  When addBankVersion stored a
  second or later account of a vendor, that account is the vendor's latest, no invoice of the vendor waits
  for approval any more, no request on one of them is pending, the decisions taken stay, and the
  invoices of the other vendors are as they were.
\<close>

theorem new_bank_account_withdraws_approvals:
  assumes "addBankVersion c svc e a vid country acc d = (Inr b, d')" and "1 < bp_versionNumber b"
  shows "(\<forall>i \<in> set (invoices d'). inv_org i = organizationId a \<and> inv_vendorId i = Some vid \<longrightarrow>
        inv_status i \<noteq> AWAITING_APPROVAL \<and>
        (\<forall>r \<in> set (requests d'). request_of r i \<longrightarrow> req_status r \<noteq> REQUEST_PENDING)) \<and>
     map_option bank_id (latest_bank d' (organizationId a) vid) = Some (bp_id b) \<and>
     decisions d' = decisions d \<and>
     (\<forall>i \<in> set (invoices d). \<not> (inv_org i = organizationId a \<and> inv_vendorId i = Some vid) \<longrightarrow> i \<in> set (invoices d'))"
proof -
  obtain x where x: "bank_versions d' = bank_versions d @ [x]" "bank_id x = bp_id b" "bank_number x = bp_versionNumber b"
    "x = new_bank_version e a vid (next_bank_number d (organizationId a) vid) country
       (encrypt c svc (random_token e 0) (organizationId a) vid acc)"
    using assms(1) by (rule addBankVersion_row)
  from assms(1) have "addBankVersion_tx c svc e a vid country acc d = Inr (b, d')"
    by (simp add: addBankVersion_def tx.outcome_iff)
  then obtain x' d1 where d1: "d1 = d\<lparr>bank_versions := bank_versions d @ [x'],
        bank_verifications := bank_verifications d @ [first_verification e a x']\<rparr>" "b = bankPublicSelect d1 x'"
    and "invoices d' = invoices (if 1 < bank_number x' then freeze_approvals (organizationId a) vid d1 else d1)"
      "requests d' = requests (if 1 < bank_number x' then freeze_approvals (organizationId a) vid d1 else d1)"
      "decisions d' = decisions (if 1 < bank_number x' then freeze_approvals (organizationId a) vid d1 else d1)"
    by (rule addBankVersion_tx_Inr) simp
  moreover have "1 < bank_number x'" using assms(2) d1(2) by (simp add: bankPublicSelect_def)
  ultimately have d': "invoices d' = invoices (freeze_approvals (organizationId a) vid d1)"
      "requests d' = requests (freeze_approvals (organizationId a) vid d1)" "decisions d' = decisions d"
    by (simp_all add: freeze_approvals_def)
  have "latest_bank d' (organizationId a) vid = Some x"
    using next_bank_number_greater [of _ d "organizationId a" vid]
    by (auto simp: latest_bank_def x(1) x(4) new_bank_version_def intro!: find_max_greater)
  then show ?thesis
    using freeze_approvals_effect [where d = d1 and org = "organizationId a" and vid = vid]
      freeze_approvals_others [where d = d1 and org = "organizationId a" and vid = vid] d1(1) d' x(2)
    by simp
qed

theorem new_bank_account_withdraws_approvals_witness:
  "\<exists>b d'. addBankVersion demo_crypto demo_service (demo_env ''elevenchars'') owner ''v'' ''MD'' demo_account demo4 = (Inr b, d') \<and>
     (\<forall>i \<in> set (invoices d'). inv_org i = ''org'' \<and> inv_vendorId i = Some ''v'' \<longrightarrow> inv_status i \<noteq> AWAITING_APPROVAL)"
proof -
  from demo_new_bank [of demo4] obtain b d' where b: "addBankVersion demo_crypto demo_service
      (demo_env ''elevenchars'') owner ''v'' ''MD'' demo_account demo4 = (Inr b, d')" "bp_versionNumber b = 2"
    by auto
  then show ?thesis
    using new_bank_account_withdraws_approvals [OF b(1)] by (intro exI [of _ b] exI [of _ d'] conjI) simp_all
qed

section \<open>Masks\<close>

text \<open>
  C38: What the mask of an account shows.  It shows the last four characters and at most the two first
  ones, nothing else, and four to ten bullets between them, so the mask is never longer than sixteen characters;
  of an account of at most six characters, which the request body admits, it shows every character.
\<close>

theorem masked_account_shows_six_characters:
  assumes "bullet \<notin> set s"
  shows "filter (\<lambda>c. c \<noteq> bullet) (maskAccount s) = take (min 2 (length s - 4)) s @ drop (length s - 4) s \<and>
     count_rows (\<lambda>c. c = bullet) (maskAccount s) \<in> {4..10} \<and> length (maskAccount s) \<le> 16 \<and>
     (length s \<le> 6 \<longrightarrow> filter (\<lambda>c. c \<noteq> bullet) (maskAccount s) = s)"
proof -
  have in_s: "\<forall>c \<in> set (take n s). c \<noteq> bullet" "\<forall>c \<in> set (drop n s). c \<noteq> bullet" for n
    using assms set_take_subset [of n s] set_drop_subset [of n s] by blast+
  have shown: "filter (\<lambda>c. c \<noteq> bullet) (maskAccount s) = take (min 2 (length s - 4)) s @ drop (length s - 4) s"
    using in_s by (simp add: maskAccount_def Let_def)
  have "count_rows (\<lambda>c. c = bullet) (take n s) = 0" "count_rows (\<lambda>c. c = bullet) (drop n s) = 0" for n
    using in_s [of n] by (auto simp: count_rows_def filter_empty_conv)
  then have "count_rows (\<lambda>c. c = bullet) (maskAccount s) \<in> {4..10}"
    by (simp add: maskAccount_def Let_def) (simp add: count_rows_def)
  moreover have "take (min 2 (length s - 4)) s @ drop (length s - 4) s = s" if "length s \<le> 6"
  proof -
    from that have "min 2 (length s - 4) = length s - 4" by simp
    then show ?thesis by simp
  qed
  moreover have "length (maskAccount s) \<le> 16" by (simp add: maskAccount_def Let_def)
  ultimately show ?thesis unfolding shown by (intro conjI impI) simp_all
qed

theorem masked_account_shows_six_characters_witness:
  "filter (\<lambda>c. c \<noteq> bullet) (maskAccount ''123456'') = ''123456''"
proof -
  have "bullet \<notin> set ''123456''" by (simp add: bullet_def char_of_eq_iff eq_commute [of "char_of _"])
  from masked_account_shows_six_characters [OF this] show ?thesis by simp
qed

end
