(* ===== verification/Version_Properties.thy ===== *)
theory Version_Properties
  imports Scenario
begin

text \<open>
  Optimistic concurrency.  Buildings, vendors, contracts and drafts of invoices are written under the
  version the client read.  The locale states what such a write promises and proves once that of
  two writers with the same version the second is refused; it is interpreted on the four services.
\<close>

locale optimistic =
  fixes exec :: "nat \<Rightarrow> 'x \<Rightarrow> 's \<Rightarrow> (failure + 'r) \<times> 's"
    and admits :: "'x \<Rightarrow> bool" and live :: "'s \<Rightarrow> nat \<Rightarrow> bool"
  assumes accepted: "exec v x s = (Inr r, s') \<Longrightarrow> admits x \<Longrightarrow> live s v \<and> \<not> live s' v"
    and refused: "exec v x s = (Inl f, s') \<Longrightarrow> s' = s"
begin

lemma stale: "\<not> live s v \<Longrightarrow> admits x \<Longrightarrow> \<exists>f. exec v x s = (Inl f, s)"
  using accepted [of v x s] refused [of v x s] by (cases "exec v x s"; cases "fst (exec v x s)") auto

lemma second_refused:
  "exec v x s = (Inr r, s') \<Longrightarrow> admits x \<Longrightarrow> admits y \<Longrightarrow> \<exists>f. exec v y s' = (Inl f, s')"
  using accepted stale by blast

end

lemma count_bumped: "(\<And>r. P r \<Longrightarrow> \<not> P (f r)) \<Longrightarrow> count_rows P (update_rows P f t) = 0"
  by (induction t) auto

section \<open>The four services\<close>

definition building_live :: "uuid \<Rightarrow> uuid \<Rightarrow> db \<Rightarrow> nat \<Rightarrow> bool" where
  "building_live org bid d v \<longleftrightarrow>
     count_rows (\<lambda>b. bld_id b = bid \<and> bld_org b = org \<and> bld_version b = v) (buildings d) = 1"

definition vendor_live :: "uuid \<Rightarrow> uuid \<Rightarrow> db \<Rightarrow> nat \<Rightarrow> bool" where
  "vendor_live org vid d v \<longleftrightarrow>
     count_rows (\<lambda>x. ven_id x = vid \<and> ven_org x = org \<and> ven_version x = v) (vendors d) = 1"

definition contract_live :: "uuid \<Rightarrow> uuid \<Rightarrow> db \<Rightarrow> nat \<Rightarrow> bool" where
  "contract_live org cid d v \<longleftrightarrow>
     count_rows (\<lambda>c. ctr_id c = cid \<and> ctr_org c = org \<and> ctr_version c = v) (contracts d) = 1"

definition invoice_live :: "uuid \<Rightarrow> uuid \<Rightarrow> db \<Rightarrow> nat \<Rightarrow> bool" where
  "invoice_live org iid d v \<longleftrightarrow>
     count_rows (\<lambda>i. inv_id i = iid \<and> inv_org i = org \<and> inv_version i = v) (invoices d) = 1"

lemma building_accepted:
  assumes "update_building e a bid v dto d = (Inr b, d')"
  shows "building_live (organizationId a) bid d v" "\<not> building_live (organizationId a) bid d' v"
proof -
  let ?P = "\<lambda>b. bld_id b = bid \<and> bld_org b = organizationId a \<and> bld_version b = v"
  from assms have "update_building_tx e a bid v dto d = Inr (b, d')"
    by (simp add: update_building_def tx.outcome_iff)
  then have one: "count_rows ?P (buildings d) = 1"
    and rows: "buildings d' = update_rows ?P (apply_building_dto dto) (buildings d)"
    unfolding update_building_tx_def Let_def by (auto simp only: table_simps not_not) auto
  from one show "building_live (organizationId a) bid d v" by (simp add: building_live_def)
  have "count_rows ?P (buildings d') = 0"
    unfolding rows by (rule count_bumped) (simp add: apply_building_dto_def)
  then show "\<not> building_live (organizationId a) bid d' v" by (simp add: building_live_def)
qed

lemma relink_vendor_vendors: "relink_vendor org vid cur bs d = Inr d' \<Longrightarrow> vendors d' = vendors d"
  by (auto simp: relink_vendor_def Let_def split: if_splits)

lemma vendor_accepted:
  assumes "update_vendor e a vid v dto d = (Inr r, d')"
  shows "vendor_live (organizationId a) vid d v" "\<not> vendor_live (organizationId a) vid d' v"
proof -
  let ?P = "\<lambda>x. ven_id x = vid \<and> ven_org x = organizationId a \<and> ven_version x = v"
  from assms have "update_vendor_tx e a vid v dto d = Inr (r, d')"
    by (simp add: update_vendor_def tx.outcome_iff)
  then have one: "count_rows ?P (vendors d) = 1"
    and rows: "vendors d' = update_rows ?P (apply_vendor_dto dto) (vendors d)"
    unfolding update_vendor_tx_def Let_def
    by (auto simp only: table_simps not_not)
      (auto split: option.splits dest!: relink_vendor_vendors)
  from one show "vendor_live (organizationId a) vid d v" by (simp add: vendor_live_def)
  have "count_rows ?P (vendors d') = 0"
    unfolding rows by (rule count_bumped) (simp add: apply_vendor_dto_def)
  then show "\<not> vendor_live (organizationId a) vid d' v" by (simp add: vendor_live_def)
qed

lemma write_contract_rows:
  "write_contract a cid v f d = Inr d' \<Longrightarrow>
     count_rows (\<lambda>c. ctr_id c = cid \<and> ctr_org c = organizationId a \<and> ctr_version c = v) (contracts d) = 1 \<and>
     contracts d' = update_rows (\<lambda>c. ctr_id c = cid \<and> ctr_org c = organizationId a \<and> ctr_version c = v) f (contracts d)"
  unfolding write_contract_def Let_def by (simp only: table_simps not_not) auto

lemma update_contract_written:
  assumes "update_contract_tx e a cid v dto d = Inr (r, d')"
  shows "\<exists>d1 d2 vl cur. write_contract a cid v (apply_contract_dto dto vl cur) d1 = Inr d2 \<and>
     contracts d1 = contracts d \<and> contracts d' = contracts d2"
  using assms unfolding update_contract_tx_def Let_def
  apply (simp only: table_simps)
  apply (elim exE conjE)
  subgoal premises prems for bef u1 u2 u3 vl vs cur d2 aft
  proof -
    let ?d1 = "if map_option new_Set (ucd_buildingIds dto) = None then d
      else d\<lparr>contract_buildings := filter (\<lambda>l. \<not> (cb_org l = organizationId a \<and> cb_contractId l = cid))
        (contract_buildings d)\<rparr>"
    have "write_contract a cid v (apply_contract_dto dto vs cur) ?d1 = Inr d2" using prems by simp
    moreover have "contracts ?d1 = contracts d" by simp
    moreover have "contracts d' = contracts d2" using prems by (auto split: option.splits)
    ultimately show ?thesis by blast
  qed
  done

lemma contract_accepted:
  assumes "update_contract e a cid v dto d = (Inr r, d')"
  shows "contract_live (organizationId a) cid d v" "\<not> contract_live (organizationId a) cid d' v"
proof -
  let ?P = "\<lambda>c. ctr_id c = cid \<and> ctr_org c = organizationId a \<and> ctr_version c = v"
  from assms have "update_contract_tx e a cid v dto d = Inr (r, d')"
    by (simp add: update_contract_def tx.outcome_iff)
  then obtain d1 d2 vl cur where w: "write_contract a cid v (apply_contract_dto dto vl cur) d1 = Inr d2"
    "contracts d1 = contracts d" "contracts d' = contracts d2"
    by (auto dest!: update_contract_written)
  from write_contract_rows [OF w(1)] have one: "count_rows ?P (contracts d) = 1"
    and rows: "contracts d' = update_rows ?P (apply_contract_dto dto vl cur) (contracts d)"
    by (simp_all only: w(2,3))
  from one show "contract_live (organizationId a) cid d v" by (simp add: contract_live_def)
  have "count_rows ?P (contracts d') = 0"
    unfolding rows by (rule count_bumped) (simp add: apply_contract_dto_def)
  then show "\<not> contract_live (organizationId a) cid d' v" by (simp add: contract_live_def)
qed

lemma draft_accepted:
  assumes "update_invoice e a iid dto d = (Inr r, d')"
  shows "invoice_live (organizationId a) iid d (uid_version dto)"
    "\<not> invoice_live (organizationId a) iid d' (uid_version dto)"
proof -
  let ?P = "\<lambda>i. inv_id i = iid \<and> inv_org i = organizationId a \<and> inv_version i = uid_version dto"
  from assms have "update_invoice_tx e a iid dto d = Inr (r, d')"
    by (simp add: update_invoice_def tx.outcome_iff)
  then obtain inva d1 d2 where w: "write_draft a iid dto inva d1 = Inr d2" "invoices d1 = invoices d"
    "invoices d' = invoices d2"
    by (rule update_invoice_txE)
      (auto simp: draft_audits_def replace_lines_def withdraw_requests_def Let_def split: option.splits if_splits)
  from w(1) have "count_rows ?P (invoices d1) = 1"
    by (auto simp: write_draft_def Let_def split: if_splits list.splits)
  with w(2) show "invoice_live (organizationId a) iid d (uid_version dto)" by (simp add: invoice_live_def)
  have "count_rows ?P (invoices d') = 0"
    using count_bumped [of ?P "apply_invoice_dto dto inva"]
    by (simp add: w(3) write_draft_Inr [OF w(1)] apply_invoice_dto_def)
  then show "\<not> invoice_live (organizationId a) iid d' (uid_version dto)" by (simp add: invoice_live_def)
qed

interpretation building_writes: optimistic "\<lambda>v (e, a, dto). update_building e a bid v dto"
  "\<lambda>(e :: env, a, dto :: update_building_dto). organizationId a = org" "building_live org bid" for bid org
  by unfold_locales (auto simp: building_accepted, auto simp: update_building_def tx.failed_unchanged)

interpretation vendor_writes: optimistic "\<lambda>v (e, a, dto). update_vendor e a vid v dto"
  "\<lambda>(e :: env, a, dto :: update_vendor_dto). organizationId a = org" "vendor_live org vid" for vid org
  by unfold_locales (auto simp: vendor_accepted, auto simp: update_vendor_def tx.failed_unchanged)

interpretation contract_writes: optimistic "\<lambda>v (e, a, dto). update_contract e a cid v dto"
  "\<lambda>(e :: env, a, dto :: update_contract_dto). organizationId a = org" "contract_live org cid" for cid org
  by unfold_locales (auto simp: contract_accepted, auto simp: update_contract_def tx.failed_unchanged)

interpretation draft_writes: optimistic "\<lambda>v (e, a, dto). update_invoice e a iid (dto\<lparr>uid_version := v\<rparr>)"
  "\<lambda>(e :: env, a, dto :: update_invoice_dto). organizationId a = org" "invoice_live org iid" for iid org
proof
  fix v x d r d'
  assume "(case x of (e, a, dto) \<Rightarrow> update_invoice e a iid (dto\<lparr>uid_version := v\<rparr>)) d = (Inr r, d')"
    and "case x of (e :: env, a, dto) \<Rightarrow> organizationId a = org"
  then show "invoice_live org iid d v \<and> \<not> invoice_live org iid d' v"
    using draft_accepted [where dto = "(snd (snd x))\<lparr>uid_version := v\<rparr>"] by (auto split: prod.splits)
qed (auto simp: update_invoice_def tx.failed_unchanged)


lemma demo_drafted: "\<exists>view. update_invoice (demo_env ''e'') accountant ''a1'' demo_draft demo2 = (Inr view, demo3)"
proof -
  have c: "js_upper ''eur'' = ''EUR''"
    by (simp add: js_upper_def js_upper_char_def is_lower_def char_of_eq_iff)
  have u: "list_all is_upper ''EUR''" by (simp add: is_upper_def)
  have "\<exists>view. fst (update_invoice (demo_env ''e'') accountant ''a1'' demo_draft demo2) = Inr view"
    using u by (simp add: Invoices.update_invoice_def update_invoice_tx_def canEditInvoiceDraft_def
        field_or_def demo_draft_def assertRelationships_def demo_vendor_def invoice_dto_throws_def
        write_draft_def contract_vendor_ok_def apply_invoice_dto_def set_optional_def set_text_def
        set_date_def c invoice_checks_def nonneg_def List.map_filter_def replace_lines_def
        run_def Let_def demo_complete_def demo_invoice_def new_invoice_def)
  then show ?thesis by (metis demo3_def prod.collapse)
qed

definition no_vendor_change :: update_vendor_dto where
  "no_vendor_change = \<lparr>uvd_legalName = Value ''Lift Service SRL'', uvd_tradingName = Undefined, uvd_registrationNumber = Undefined,
     uvd_taxId = Undefined, uvd_email = Undefined, uvd_phone = Undefined, uvd_status = Undefined, uvd_tags = Undefined,
     uvd_internalNotes = Undefined, uvd_buildingIds = None\<rparr>"


section \<open>The version the client names\<close>

lemma js_trim_padded:
  assumes "list_all js_space p" and "list_all js_space q" and "c # s \<noteq> []" "\<not> js_space c" "\<not> js_space (last (c # s))"
  shows "js_trim (p @ (c # s) @ q) = c # s"
proof -
  have drop: "dropWhile js_space (r @ x # t) = x # t" if "list_all js_space r" "\<not> js_space x" for r x t
    using that by (induction r) auto
  obtain t x where t: "c # s = t @ [x]" by (cases "c # s" rule: rev_cases) auto
  with assms(5) have x: "\<not> js_space x" by simp
  have "dropWhile js_space (rev q @ x # rev t) = x # rev t"
    using x assms(2) by (intro drop) (simp_all add: list_all_iff)
  moreover have "rev ((c # s) @ q) = rev q @ x # rev t" unfolding t by simp
  ultimately show ?thesis
    using drop [OF assms(1,4), of "s @ q"] by (simp add: js_trim_def t [symmetric])
qed

lemma show_nat_ends: "\<exists>c t. show_nat v = c # t \<and> is_digit c \<and> is_digit (last (c # t))"
proof -
  obtain c t where c: "show_nat v = c # t" by (cases "show_nat v") simp
  with show_nat_digits [of v] have "\<forall>x \<in> set (c # t). is_digit x" by simp
  moreover have "last (c # t) \<in> set (c # t)" by (rule last_in_set) simp
  ultimately show ?thesis using c by auto
qed

text \<open>
  The If-Match header carries the version exactly.  A version that is a safe integer, sent bare, as an entity tag or as a weak
  entity tag, with any white space around it, is read back as itself; and whatever header is accepted, the version
  read is positive and below 2^53, so it is never a rounded number.
\<close>

theorem if_match_carries_the_version:
  assumes "list_all js_space p" and "list_all js_space q" and "1 \<le> v" and "v < 2 ^ 53"
    and "tag \<in> {show_nat v, [CHR 0x22] @ show_nat v @ [CHR 0x22], ''W/'' @ [CHR 0x22] @ show_nat v @ [CHR 0x22]}"
  shows "expectedVersion (Some (p @ tag @ q)) = Inr v \<and>
     (\<forall>h w. expectedVersion h = Inr w \<longrightarrow> 1 \<le> w \<and> w < 2 ^ 53)"
proof
  obtain c t where c: "show_nat v = c # t" "is_digit c" "is_digit (last (c # t))" using show_nat_ends by blast
  have dg: "\<not> js_space x" "x \<noteq> CHR 0x22" "x \<noteq> CHR ''W''" if "is_digit x" for x
    using that by (auto simp: is_digit_def js_space_def)
  have q: "\<not> js_space (CHR 0x22)" "\<not> js_space (CHR ''W'')" by (simp_all add: js_space_def)
  consider "tag = c # t" | "tag = CHR 0x22 # c # t @ [CHR 0x22]" | "tag = CHR ''W'' # CHR ''/'' # CHR 0x22 # c # t @ [CHR 0x22]"
    using assms(5) c(1) by auto
  note forms = this
  obtain x s where tag: "tag = x # s" "\<not> js_space x" "\<not> js_space (last (x # s))"
    by (cases rule: forms) (use c(2,3) dg(1) q in \<open>auto intro: that\<close>)
  have trim: "js_trim (p @ tag @ q) = tag"
    using js_trim_padded [OF assms(1,2) _ tag(2,3)] tag(1) by simp
  have strip: "strip_quotes (if is_prefix ''W/'' tag then drop 2 tag else tag) = show_nat v"
  proof -
    have "last (c # t @ [CHR 0x22]) = CHR 0x22" by simp
    moreover have "last (c # t) \<noteq> CHR 0x22" "c \<noteq> CHR 0x22" "c \<noteq> CHR ''W''" using dg c by blast+
    ultimately show ?thesis
      by (cases rule: forms) (auto simp: strip_quotes_def is_prefix_def Let_def c(1) simp del: last.simps)
  qed
  show "expectedVersion (Some (p @ tag @ q)) = Inr v"
    using assms(3,4) by (simp add: expectedVersion_def trim strip Let_def)
  show "\<forall>h w. expectedVersion h = Inr w \<longrightarrow> 1 \<le> w \<and> w < 2 ^ 53"
    by (auto simp: expectedVersion_def Let_def split: option.splits if_splits)
qed

theorem if_match_carries_the_version_witness:
  "expectedVersion (Some ('' '' @ (''W/'' @ [CHR 0x22] @ show_nat 7 @ [CHR 0x22]) @ [])) = Inr 7"
  using if_match_carries_the_version [of "'' ''" "[]" 7 "''W/'' @ [CHR 0x22] @ show_nat 7 @ [CHR 0x22]"]
  by (simp add: js_space_def)

end
