(* ===== verification/Risk_Properties.thy ===== *)
theory Risk_Properties
  imports Bank_Properties
begin

text \<open>
  What the risk engine guarantees: its comparisons of amounts, made on doubles read back from
  printed decimals, are the exact comparisons of cents; a fact that fires raises neither the score
  nor the level of any other downwards; and a changed bank account costs a second approval.
\<close>

section \<open>The exact rules\<close>

text \<open>The cents that \<open>toFixed(2)\<close> prints of the average.\<close>

definition mean_cents :: "rat list \<Rightarrow> int option" where
  "mean_cents vs =
     (if vs = [] then None
      else Some \<lfloor>\<bar>fl (foldl (\<lambda>s v. fl (s + v)) 0 vs / of_nat (length vs))\<bar> * 100 + 1 / 2\<rfloor>)"

definition exact_score ::
  "risk_policy \<Rightarrow> nat \<Rightarrow> bool \<Rightarrow> bool \<Rightarrow> cents option \<Rightarrow> cents option \<Rightarrow> cents option \<Rightarrow> int" where
  "exact_score p bank hash number tot cap mean =
     (if 1 < bank then pol_changedBank p else 0) +
     (if hash then pol_duplicateHash p else 0) +
     (if number then pol_duplicateNumber p else 0) +
     (case (tot, cap) of (Some t, Some l) \<Rightarrow> if l < t then pol_contractLimit p else 0 | _ \<Rightarrow> 0) +
     (case (tot, mean) of (Some t, Some m) \<Rightarrow> if 0 < m \<and> 2 * m \<le> t then pol_amountSpike p else 0 | _ \<Rightarrow> 0)"

definition moderate :: "cents option \<Rightarrow> bool" where
  "moderate c \<longleftrightarrow> (case c of None \<Rightarrow> True | Some x \<Rightarrow> 0 \<le> x \<and> x < 100 * 2 ^ 44)"

lemma js_number_toFixed2:
  assumes "0 \<le> x"
  shows "js_number (toFixed2 x) = Some (fl (of_int \<lfloor>\<bar>x\<bar> * 100 + 1 / 2\<rfloor> / 100))"
proof -
  define n where "n = nat \<lfloor>\<bar>x\<bar> * 100 + 1 / 2\<rfloor>"
  have "0 \<le> \<lfloor>\<bar>x\<bar> * 100 + 1 / 2\<rfloor>" by simp
  then have n: "(of_int \<lfloor>\<bar>x\<bar> * 100 + 1 / 2\<rfloor> :: rat) = of_nat n" by (simp add: n_def)
  have "toFixed2 x = show_nat (n div 100) @ CHR ''.'' # two_digits (n mod 100)"
    using assms by (simp add: toFixed2_def n_def Let_def)
  then have "js_number (toFixed2 x) = Some (fl (decimal_value (show_nat (n div 100)) (two_digits (n mod 100))))"
    using two_digits_list_all [of "n mod 100"] by (simp add: js_number_fraction)
  moreover have "decimal_value (show_nat (n div 100)) (two_digits (n mod 100)) = of_nat n / 100"
    using cents_split [of n] by (simp add: decimal_value_def read_two_digits) (simp add: two_digits_def)
  ultimately show ?thesis by (simp only: n)
qed

lemma fl_pos_ge0: "0 \<le> x \<Longrightarrow> 0 \<le> fl_pos x"
proof -
  assume "0 \<le> x"
  then have "0 \<le> x * 2 ^ 1074 / 2 ^ double_exponent x" by simp
  then have "0 \<le> round_even (x * 2 ^ 1074 / 2 ^ double_exponent x)"
    by (auto simp: round_even_def Let_def)
  then show ?thesis by (simp add: fl_pos_def)
qed

lemma fl_ge0: "0 \<le> x \<Longrightarrow> 0 \<le> fl x"
  by (simp add: fl_def fl_pos_ge0)

lemma sum_ge0: "0 \<le> s \<Longrightarrow> \<forall>v \<in> set vs. 0 \<le> v \<Longrightarrow> 0 \<le> foldl (\<lambda>s v. fl (s + v)) s vs"
proof (induction vs arbitrary: s)
  case (Cons v vs)
  then show ?case using fl_ge0 [of "s + v"] by simp
qed simp

lemma decimal_average:
  assumes "\<forall>v \<in> set vs. 0 \<le> v"
  shows "decimal (average vs) = map_option (\<lambda>m. fl (of_int m / 100)) (mean_cents vs)"
proof (cases "vs = []")
  case False
  have "0 \<le> fl (foldl (\<lambda>s v. fl (s + v)) 0 vs / of_nat (length vs))"
    using sum_ge0 [OF order_refl assms] by (intro fl_ge0) simp
  from js_number_toFixed2 [OF this] False show ?thesis
    by (simp add: average_def mean_cents_def decimal_def)
qed (simp add: average_def mean_cents_def decimal_def)

lemma decimal_printed:
  assumes "moderate c"
  shows "decimal (map_option decimal_toString c) = map_option (\<lambda>x. fl (of_int x / 100)) c"
  using assms by (cases c) (simp_all add: decimal_def moderate_def js_number_toString)

lemma fl_cents_pos:
  assumes "0 \<le> a" "a < 100 * 2 ^ 44"
  shows "0 < fl (of_int a / 100) \<longleftrightarrow> 0 < a"
proof -
  have "fl 0 = 0" using round_even_of_int [of 0] by (simp add: fl_def fl_pos_def)
  then show ?thesis using fl_cents_less [of 0 a] assms by simp
qed

lemma previous_amounts_ge0:
  assumes "\<forall>j \<in> set (invoices d). \<forall>c. inv_totalAmount j = Some c \<longrightarrow> 0 \<le> c"
  shows "\<forall>v \<in> set (previous_amounts d org i). 0 \<le> v"
proof
  fix v assume "v \<in> set (previous_amounts d org i)"
  then obtain j c where j: "j \<in> set (invoices d)" "inv_totalAmount j = Some c"
    "js_number (decimal_toString c) = Some v"
    by (auto simp: previous_amounts_def List.map_filter_def dest!: in_set_takeD split: bind_splits)
  with assms have "0 \<le> c" by blast
  then show "0 \<le> v" using j(3) js_number_toString [of c] fl_ge0 [of "of_int c / 100"] by simp
qed

text \<open>
  C10: The risk engine is exact.  The code prints every stored amount as a decimal, reads it back into
  a double, and compares doubles; for amounts below 2^44 currency units (17 trillion) its score of a submission is the one
  computed in integer cents: the weights of the rules that fire on the latest bank account
  number, the duplicates, the total above the contract's limit, and the total at least twice a
  positive mean of the vendor's previous amounts, the mean being the printed one; and the level is read off that score.
\<close>

theorem risk_score_is_exact:
  assumes "\<forall>j \<in> set (invoices d). \<forall>c. inv_totalAmount j = Some c \<longrightarrow> 0 \<le> c"
    and "moderate (inv_totalAmount i)" "moderate (contract_limit d org i)"
    and "moderate (mean_cents (previous_amounts d org i))"
  shows "ev_totalScore (evaluateInvoiceRisk h iid (submission_facts d org i docs b) p) =
      exact_score p (bank_number b) (\<exists>x \<in> set docs. doc_duplicateOf x \<noteq> None) (duplicate_number d org i)
        (inv_totalAmount i) (contract_limit d org i) (mean_cents (previous_amounts d org i)) \<and>
    ev_level (evaluateInvoiceRisk h iid (submission_facts d org i docs b) p) =
      level_of p (ev_totalScore (evaluateInvoiceRisk h iid (submission_facts d org i docs b) p))"
proof -
  let ?f = "submission_facts d org i docs b"
  note dec = decimal_printed [OF assms(2)] decimal_printed [OF assms(3)]
    decimal_average [OF previous_amounts_ge0 [OF assms(1)]]
  have "limit_exceeded ?f \<longleftrightarrow> (\<exists>t l. inv_totalAmount i = Some t \<and> contract_limit d org i = Some l \<and> l < t)"
    using assms(2,3) fl_cents_less dec(1,2)
    by (auto simp: limit_exceeded_def submission_facts_def moderate_def split: option.splits)
  moreover have "amount_spike ?f \<longleftrightarrow> (\<exists>t m. inv_totalAmount i = Some t \<and>
      mean_cents (previous_amounts d org i) = Some m \<and> 0 < m \<and> 2 * m \<le> t)"
    using assms(2,4) fl_cents_spike fl_cents_pos dec(1,3)
    by (auto simp: amount_spike_def submission_facts_def moderate_def split: option.splits)
  ultimately show ?thesis
    by (auto simp: score_of_rules exact_score_def bank_changed_def submission_facts_def list_ex_iff
        split: option.splits)
qed

definition demo_contract :: contract where
  "demo_contract = \<lparr>ctr_id = ''k'', ctr_org = ''org'', ctr_vendorId = ''v'', ctr_reference = ''K-1'',
     ctr_title = ''Lifts'', ctr_serviceCategory = ''LIFT'', ctr_valueLimit = Some 9999, ctr_currency = Some ''EUR'',
     ctr_startsOn = 0, ctr_endsOn = None, ctr_status = CONTRACT_ACTIVE, ctr_documentReference = None,
     ctr_version = 1\<rparr>"

definition demo_contracted :: invoice where
  "demo_contracted = (demo_complete NEEDS_REVIEW 2 None)\<lparr>inv_contractId := Some ''k''\<rparr>"

theorem risk_score_is_exact_witness:
  "ev_totalScore (evaluateInvoiceRisk (\<lambda>s. s) ''a1'' (submission_facts
      (demo3\<lparr>contracts := [demo_contract], invoices := [demo_contracted]\<rparr>) ''org''
      demo_contracted [demo_approved_document] demo_bank) demo_policy) = 50"
  using risk_score_is_exact [of "demo3\<lparr>contracts := [demo_contract], invoices := [demo_contracted]\<rparr>"
      demo_contracted "''org''" "\<lambda>s. s" "''a1''" "[demo_approved_document]" demo_bank demo_policy]
  by (simp add: moderate_def contract_limit_def previous_amounts_def mean_cents_def List.map_filter_def
      exact_score_def duplicate_number_def demo_contracted_def demo_contract_def demo_policy_def
      default_policy_def)

section \<open>Monotonicity\<close>

instantiation risk_level :: linorder
begin

definition level_rank :: "risk_level \<Rightarrow> nat" where
  "level_rank l = (case l of LOW \<Rightarrow> 0 | MEDIUM \<Rightarrow> 1 | HIGH \<Rightarrow> 2)"

definition less_eq_risk_level :: "risk_level \<Rightarrow> risk_level \<Rightarrow> bool" where
  "less_eq_risk_level l m \<longleftrightarrow> level_rank l \<le> level_rank m"

definition less_risk_level :: "risk_level \<Rightarrow> risk_level \<Rightarrow> bool" where
  "less_risk_level l m \<longleftrightarrow> level_rank l < level_rank m"

instance
  by standard (auto simp: less_eq_risk_level_def less_risk_level_def level_rank_def split: risk_level.splits)

end

lemma level_of_le: "pol_medium p < pol_high p \<Longrightarrow> s \<le> t \<Longrightarrow> level_of p s \<le> level_of p t"
  by (auto simp: level_of_def less_eq_risk_level_def level_rank_def)

lemma required_of_level: "(l :: risk_level) \<le> m \<Longrightarrow> (if l = HIGH then 2 else 1 :: nat) \<le> (if m = HIGH then 2 else 1)"
  by (cases l; cases m) (simp_all add: less_eq_risk_level_def level_rank_def)

text \<open>
  C37: More suspicion never lowers the bar.  Under a policy that the database accepts, when every rule that
  fires on one set of facts also fires on another, the other's score is at least as high, its level
  is at least as high, and its request asks for at least as many decisions.
\<close>

theorem risk_is_monotone:
  assumes "policy_ok p"
    and "bank_changed f \<longrightarrow> bank_changed g" "fact_exactDuplicate f \<longrightarrow> fact_exactDuplicate g"
    and "fact_duplicateNumber f \<longrightarrow> fact_duplicateNumber g"
    and "limit_exceeded f \<longrightarrow> limit_exceeded g" "amount_spike f \<longrightarrow> amount_spike g"
  shows "ev_totalScore (evaluateInvoiceRisk h iid f p) \<le> ev_totalScore (evaluateInvoiceRisk h iid2 g p) \<and>
     ev_level (evaluateInvoiceRisk h iid f p) \<le> ev_level (evaluateInvoiceRisk h iid2 g p) \<and>
     req_required (submitted_request e a iid v (submitted_assessment e org iid v (evaluateInvoiceRisk h iid f p)) b rv kh)
     \<le> req_required (submitted_request e a iid2 v2 (submitted_assessment e org iid2 v2
           (evaluateInvoiceRisk h iid2 g p)) b2 rv2 kh2)"
proof -
  have s: "ev_totalScore (evaluateInvoiceRisk h iid f p) \<le> ev_totalScore (evaluateInvoiceRisk h iid2 g p)"
    using assms by (simp add: score_of_rules policy_ok_def)
  then have l: "ev_level (evaluateInvoiceRisk h iid f p) \<le> ev_level (evaluateInvoiceRisk h iid2 g p)"
    using assms(1) by (simp add: policy_ok_def level_of_le)
  from s l required_of_level [OF l] show ?thesis by simp
qed

theorem risk_is_monotone_witness:
  "ev_level (evaluateInvoiceRisk (\<lambda>s. s) ''a1'' demo_facts demo_policy)
    \<le> ev_level (evaluateInvoiceRisk (\<lambda>s. s) ''a2'' (demo_facts\<lparr>fact_bankVersion := Some 2\<rparr>) demo_policy)"
proof -
  let ?g = "demo_facts\<lparr>fact_bankVersion := Some 2\<rparr>"
  have p: "policy_ok demo_policy" by (simp add: demo_policy_def default_policy_def policy_ok_def)
  show ?thesis
    using risk_is_monotone [OF p, of demo_facts ?g "\<lambda>s. s" "''a1''" "''a2''"]
    by (simp add: bank_changed_def demo_facts_def limit_exceeded_def amount_spike_def)
qed

section \<open>A changed account\<close>

text \<open>
  C24: An invoice of a vendor whose bank account has changed is never paid on one approval.
  As long as the organization's policy gives a changed account the weight of its high threshold, as
  the default policy does, every request submitted while the vendor's latest account is not its
  first asks for two decisions.
\<close>

theorem changed_account_needs_two_approvals:
  assumes "reachable d" and "submit e a iid v key d = (Inr view, d')"
    and "requests d' = requests d @ [r]"
    and "i \<in> set (invoices d)" "inv_id i = iid" "inv_org i = organizationId a"
    and "latest_bank d (organizationId a) (the (inv_vendorId i)) = Some b" "1 < bank_number b"
    and "pol_high (fst (policy e 0 (organizationId a) d)) \<le> pol_changedBank (fst (policy e 0 (organizationId a) d))"
  shows "req_required r = 2"
proof -
  from assms(2) obtain kh where "submit_tx e a iid v kh d = Inr (view, d')"
    by (auto simp: submit_def tx.outcome_iff split: sum.splits)
  then show ?thesis
  proof (cases rule: submit_txE)
    case (replay r)
    with assms(3) show ?thesis by simp
  next
    case (fresh j p d1 bank ev risk req eligible)
    have I: "approval_inv d" using assms(1) by (rule reachable_approval_inv)
    from fresh(1) have j: "find (\<lambda>i. inv_id i = iid \<and> inv_org i = organizationId a) (invoices d) = Some j"
      and p: "policy e 0 (organizationId a) d = (p, d1)"
      and bank: "latest_bank d1 (organizationId a) (the (inv_vendorId j)) = Some bank"
      and ev: "ev = evaluateInvoiceRisk (sha256 e) (inv_id j)
         (submission_facts d1 (organizationId a) j (documents_of d (organizationId a) iid) bank) p"
      and req: "risk = submitted_assessment e (organizationId a) iid (v + 1) ev"
         "req = submitted_request e a iid (v + 1) risk bank (next_request_version d1 (organizationId a) iid) kh"
      by (simp_all add: submits_def)
    have "j = i"
      using find_unique [OF approval_inv_distinct(1) [OF I] assms(4)] j assms(5,6) by fastforce
    with bank assms(7) have "bank = b" by (simp add: latest_bank_def policy_frame [OF p])
    with assms(8) have "bank_changed (submission_facts d1 (organizationId a) j (documents_of d (organizationId a) iid) bank)"
      by (simp add: bank_changed_def submission_facts_def)
    from rule_score_le(1) [OF approval_inv_policy_of(3) [OF p I] this, of "inv_id j"] have "ev_level ev = HIGH"
      using ev assms(9) p by (simp add: level_of_HIGH)
    moreover have "r = req"
      using assms(3) eligible_frame(2) [OF fresh(4)] policy_frame(2) [OF p] by (simp add: after_submit_def)
    ultimately show ?thesis using req by simp
  qed
qed

definition demo_rebanked :: db where
  "demo_rebanked = snd (addBankVersion demo_crypto demo_service (demo_env ''elevenchars'') owner ''v'' ''MD''
     demo_account demo3)"

lemma demo_rebanked_tables:
  "invoices demo_rebanked = [demo_complete NEEDS_REVIEW 2 None]" "requests demo_rebanked = []"
  "assessments demo_rebanked = []" "policies demo_rebanked = []" "documents demo_rebanked = [demo_approved_document]"
  "processings demo_rebanked = [demo_read]" "contracts demo_rebanked = []"
  "\<exists>nb. latest_bank demo_rebanked ''org'' ''v'' = Some nb \<and> bank_number nb = 2"
  by (simp_all add: demo_rebanked_def addBankVersion_def addBankVersion_tx_def run_def assertCanReadVendor_def
      vendorScope_def sees_all_def demo_vendor_def create_unique_def bank_keys_def new_bank_version_def
      next_bank_number_def freeze_approvals_def latest_bank_def Let_def)

theorem changed_account_needs_two_approvals_witness:
  "\<exists>view d' r. submit (demo_env ''s'') accountant ''a1'' 2 (Some ''submit-0123456789'') demo_rebanked = (Inr view, d') \<and>
     requests d' = [r] \<and> req_required r = 2"
proof -
  obtain nb where nb: "latest_bank demo_rebanked ''org'' ''v'' = Some nb" "bank_number nb = 2"
    using demo_rebanked_tables(8) by blast
  have nb': "latest_bank (demo_rebanked\<lparr>policies := ps\<rparr>) ''org'' ''v'' = Some nb" for ps
    using nb(1) by (simp add: latest_bank_def)
  have reach: "reachable demo_rebanked"
    unfolding demo_rebanked_def using step.addBankVersion [of owner demo3] by (intro reachable_step [OF demo_reachable(4)]) simp
  have "\<exists>view d' r. submit (demo_env ''s'') accountant ''a1'' 2 (Some ''submit-0123456789'') demo_rebanked = (Inr view, d') \<and>
     requests d' = [r]"
    by (simp add: Approvals.submit_def demo_keys submit_tx_def documents_of_def review_incomplete_def
        document_cleared_def scan_of_def policy_def nb' next_request_version_def demo_rebanked_tables
        create_unique_def moves_on_submit_def submit_audits_def eligibleApprovers_def run_def Let_def
        default_policy_def)
  then obtain view d' r where r: "submit (demo_env ''s'') accountant ''a1'' 2 (Some ''submit-0123456789'') demo_rebanked = (Inr view, d')"
     "requests d' = [r]" by blast
  have "req_required r = 2"
    by (rule changed_account_needs_two_approvals [OF reach r(1), of r "demo_complete NEEDS_REVIEW 2 None" nb])
      (use nb r(2) in \<open>simp_all add: demo_rebanked_tables policy_def default_policy_def Let_def\<close>)
  with r show ?thesis by blast
qed

end
