(* ===== verification/Evidence_Properties.thy ===== *)
theory Evidence_Properties
  imports Risk_Properties
begin

text \<open>
  What the evidence hash of a risk assessment stands for.  The canonical JSON of a value does not
  depend on the order in which its objects were filled, at any depth, and it determines the value up
  to that order; so two assessments with one hash carry the same evidence, or SHA-256 has
  collided on two strings that can be exhibited.
\<close>

section \<open>Key order\<close>

inductive reordered :: "json \<Rightarrow> json \<Rightarrow> bool" where
  same: "reordered j j"
| array: "list_all2 reordered vs ws \<Longrightarrow> reordered (JArray vs) (JArray ws)"
| object: "distinct (map fst es) \<Longrightarrow> list_all2 (\<lambda>e e'. fst e = fst e' \<and> reordered (snd e) (snd e')) es es' \<Longrightarrow>
    mset fs = mset es' \<Longrightarrow> reordered (JObject es) (JObject fs)"

inductive_simps reordered_simps:
  "reordered JNull j" "reordered (JBool b) j" "reordered (JInt i) j" "reordered (JString s) j"

lemma list_all2_fst:
  "list_all2 (\<lambda>e e'. fst e = fst e' \<and> R (snd e) (snd e')) es es' \<Longrightarrow> map fst es' = map fst es"
  by (induction rule: list_all2_induct) simp_all

text \<open>
  The canonical serialization ignores the order of keys.  When a JSON value results from another by
  reordering the entries of its objects, at any depth and inside arrays, whose own order counts,
  then canonicalJson gives the same string, so the same evidence always has the same hash.
\<close>

theorem canonical_ignores_key_order:
  assumes "reordered j j'"
  shows "canonicalJson j' = canonicalJson j"
  using assms
proof (induction rule: reordered.induct)
  case (array vs ws)
  then have "map canonicalJson ws = map canonicalJson vs"
    by (induction rule: list_all2_induct) simp_all
  then show ?case by simp
next
  case (object es es' fs)
  let ?c = "map (\<lambda>(k, v). (k, canonicalJson v))"
  have "?c es' = ?c es"
    using object.IH by (induction rule: list_all2_induct) (auto split: prod.splits)
  then have "mset (?c fs) = mset (?c es)"
    using object.hyps(2) by (metis mset_map)
  moreover have "map fst (?c es) = map fst es" by (simp add: case_prod_beta comp_def)
  then have "distinct (map fst (?c es))" using object.hyps(1) by (simp only:)
  ultimately have "sort_entries (?c fs) = sort_entries (?c es)" by (intro sort_entries_perm)
  then show ?case by (simp only: canonicalJson.simps)
qed simp

theorem canonical_ignores_key_order_witness:
  "canonicalJson (JObject [(''b'', JArray [JObject [(''z'', JNull), (''y'', JInt 1)]]), (''a'', JBool True)]) =
   canonicalJson (JObject [(''a'', JBool True), (''b'', JArray [JObject [(''y'', JInt 1), (''z'', JNull)]])])"
proof -
  have "reordered (JObject [(''y'', JInt 1), (''z'', JNull)]) (JObject [(''z'', JNull), (''y'', JInt 1)])"
    by (rule reordered.object [of _ "[(''y'', JInt 1), (''z'', JNull)]"]) (simp_all add: reordered.same)
  then show ?thesis
    by (intro canonical_ignores_key_order reordered.object
        [of _ "[(''a'', JBool True), (''b'', JArray [JObject [(''z'', JNull), (''y'', JInt 1)]])]"])
      (simp_all add: reordered.same reordered.array)
qed

section \<open>The string determines the value\<close>

text \<open>Sorting at every level, then printing in order.\<close>

fun normal :: "json \<Rightarrow> json" where
  "normal (JArray vs) = JArray (map normal vs)"
| "normal (JObject es) = JObject (sort_entries (map (\<lambda>(k, v). (k, normal v)) es))"
| "normal j = j"

fun layout :: "json \<Rightarrow> string" where
  "layout JNull = ''null''"
| "layout (JBool b) = (if b then ''true'' else ''false'')"
| "layout (JInt i) = show_int i"
| "layout (JString s) = stringify_string s"
| "layout (JArray vs) = ''['' @ join '','' (map layout vs) @ '']''"
| "layout (JObject es) = ''{'' @ join '','' (map (\<lambda>(k, v). stringify_string k @ '':'' @ layout v) es) @ ''}''"

lemma insort_key_map:
  "\<forall>y. f (h y) = g y \<Longrightarrow> insort_key f (h x) (map h xs) = map h (insort_key g x xs)"
  by (induction xs) simp_all

lemma sort_entries_map:
  "sort_entries (map (\<lambda>(k, v). (k, w v)) es) = map (\<lambda>(k, v). (k, w v)) (sort_entries es)"
  unfolding sort_entries_def
proof (induction es)
  case (Cons e es)
  let ?h = "\<lambda>(k, v). (k, w v)" and ?f = "\<lambda>e. collation_key (fst e)"
  have "insort_key ?f (?h e) (map ?h (sort_key ?f es)) = map ?h (insort_key ?f e (sort_key ?f es))"
    by (rule insort_key_map) auto
  then show ?case using Cons by simp
qed simp

lemma canonical_layout: "canonicalJson j = layout (normal j)"
proof (induction j rule: canonicalJson.induct)
  case (5 vs)
  then have "map canonicalJson vs = map layout (map normal vs)" by simp
  then show ?case by (simp only: canonicalJson.simps normal.simps layout.simps)
next
  case (6 es)
  have "map (\<lambda>(k, v). (k, canonicalJson v)) es = map (\<lambda>(k, v). (k, layout v)) (map (\<lambda>(k, v). (k, normal v)) es)"
    using 6 by auto
  then have "map (\<lambda>(k, v). stringify_string k @ '':'' @ v) (sort_entries (map (\<lambda>(k, v). (k, canonicalJson v)) es)) =
      map (\<lambda>(k, v). stringify_string k @ '':'' @ layout v) (sort_entries (map (\<lambda>(k, v). (k, normal v)) es))"
    by (simp only: sort_entries_map [of layout]) (simp add: comp_def case_prod_beta)
  then show ?case by (simp only: canonicalJson.simps normal.simps layout.simps)
qed auto

section \<open>Reading a layout back\<close>

definition delimited :: "string \<Rightarrow> bool" where
  "delimited r \<longleftrightarrow> r = [] \<or> hd r \<in> {CHR '','', CHR '']'', CHR ''}''}"

lemma stringify_string_inject: "stringify_string s @ r = stringify_string t @ r' \<longleftrightarrow> s = t \<and> r = r'"
  using parse_string_stringify [of s r] parse_string_stringify [of t r'] by (metis option.inject prod.inject)

definition number_char :: "char \<Rightarrow> bool" where
  "number_char c \<longleftrightarrow> is_digit c \<or> c = CHR ''-''"

lemma show_int_chars: "list_all number_char (show_int i)" and show_int_ne: "show_int i \<noteq> []"
proof -
  have "list_all number_char (show_nat n)" for n
    using show_nat_digits [of n] by (auto simp: list_all_iff number_char_def)
  then show "list_all number_char (show_int i)" by (simp add: show_int_def number_char_def)
  show "show_int i \<noteq> []" by (simp add: show_int_def)
qed

lemma show_int_inject:
  assumes "show_int i @ r = show_int k @ r'" "delimited r" "delimited r'"
  shows "i = k \<and> r = r'"
proof -
  have stop: "takeWhile number_char (show_int n @ z) = show_int n" if "delimited z" for n z
    using that show_int_chars [of n]
    by (cases z) (auto simp: delimited_def takeWhile_append list_all_iff number_char_def is_digit_def)
  have "show_int i = show_int k" using stop [OF assms(2), of i] stop [OF assms(3), of k] assms(1) by metis
  then show ?thesis using assms(1) read_int_show_int by (metis append_same_eq option.inject same_append_eq)
qed

lemma join_Cons: "join s (x # xs) = x @ (if xs = [] then [] else s @ join s xs)"
  by (cases xs) simp_all

lemma join_inject:
  assumes "\<forall>x \<in> set xs. \<forall>y r r'. item x @ r = item y @ r' \<longrightarrow> delimited r \<longrightarrow> delimited r' \<longrightarrow> x = y \<and> r = r'"
    and "\<forall>x. item x \<noteq> [] \<and> hd (item x) \<noteq> c" and "c \<in> {CHR '']'', CHR ''}''}"
    and "join '','' (map item xs) @ c # r = join '','' (map item ys) @ c # r'"
  shows "xs = ys \<and> r = r'"
  using assms(1,4)
proof (induction xs arbitrary: ys)
  case Nil
  have "ys = []"
  proof (cases ys)
    case (Cons y zs)
    define z where "z = (if zs = [] then [] else '','' @ join '','' (map item zs)) @ c # r'"
    have "item y @ z = c # r" using Nil(2) Cons by (simp add: join_Cons z_def)
    then have "hd (item y @ z) = c" by simp
    with assms(2) show ?thesis by (metis hd_append2)
  qed
  with Nil(2) show ?case by simp
next
  case (Cons x xs)
  let ?rest = "\<lambda>zs r. (if zs = [] then [] else '','' @ join '','' (map item zs)) @ c # r"
  have del: "delimited (?rest zs r)" for zs r using assms(3) by (auto simp: delimited_def)
  have j: "join '','' (map item (z # zs)) @ c # r = item z @ ?rest zs r" for z zs r by (simp add: join_Cons)
  show ?case
  proof (cases ys)
    case Nil
    have "join '','' (map item (x # xs)) @ c # r = c # r'" using Cons.prems(2) Nil by simp
    then have "hd (item x @ ?rest xs r) = c" by (simp only: j) simp
    with assms(2) show ?thesis by (metis hd_append2)
  next
    case (Cons y zs)
    have "item x @ ?rest xs r = item y @ ?rest zs r'" using Cons.prems(2) unfolding \<open>ys = y # zs\<close> j .
    then have eq: "x = y" "?rest xs r = ?rest zs r'"
      using Cons.prems(1) del by (meson list.set_intros(1))+
    have "xs = zs \<and> r = r'"
    proof (cases "xs = [] \<or> zs = []")
      case True
      with eq(2) assms(3) show ?thesis by (auto split: if_splits)
    next
      case False
      with eq(2) have "join '','' (map item xs) @ c # r = join '','' (map item zs) @ c # r'" by simp
      with Cons.IH Cons.prems(1) show ?thesis by (meson list.set_intros(2))
    qed
    with eq(1) Cons show ?thesis by simp
  qed
qed

text \<open>The first character tells the constructor.\<close>

fun shape :: "json \<Rightarrow> nat" where
  "shape JNull = 0"
| "shape (JBool b) = (if b then 1 else 2)"
| "shape (JInt i) = 3"
| "shape (JString s) = 4"
| "shape (JArray vs) = 5"
| "shape (JObject es) = 6"

definition char_shape :: "char \<Rightarrow> nat" where
  "char_shape c =
     (if number_char c then 3 else if c = CHR ''n'' then 0 else if c = CHR ''t'' then 1
      else if c = CHR ''f'' then 2 else if c = quote then 4 else if c = CHR ''['' then 5
      else if c = CHR ''{'' then 6 else 7)"

lemma quote_code: "quote = CHR 0x22"
  by (simp add: quote_def char_of_eq_iff)

lemma layout_ne: "layout j \<noteq> []"
  by (cases j) (simp_all add: show_int_ne stringify_string_def)

lemma char_shape_hd: "char_shape (hd (layout j)) = shape j"
proof (cases j)
  case (JInt i)
  have "number_char (hd (show_int i))"
    using show_int_chars [of i] show_int_ne [of i] by (cases "show_int i") simp_all
  with JInt show ?thesis by (simp add: char_shape_def)
qed (simp_all add: char_shape_def number_char_def is_digit_def quote_code stringify_string_def)

lemma same_shape: "layout j @ r = layout j' @ r' \<Longrightarrow> shape j' = shape j"
  using char_shape_hd layout_ne by (metis hd_append2)

lemma layout_hd: "hd (layout j) \<noteq> CHR '']''" "hd (layout j) \<noteq> CHR ''}''"
proof -
  have "char_shape (CHR '']'') = 7" "char_shape (CHR ''}'') = 7"
    by (simp_all add: char_shape_def number_char_def is_digit_def quote_code)
  moreover have "shape j < 7" by (cases j) simp_all
  ultimately show "hd (layout j) \<noteq> CHR '']''" "hd (layout j) \<noteq> CHR ''}''"
    using char_shape_hd [of j] by (metis less_irrefl)+
qed

fun entry_layout :: "string \<times> json \<Rightarrow> string" where
  "entry_layout (k, v) = stringify_string k @ '':'' @ layout v"

lemma entry_layout_hd: "entry_layout e \<noteq> [] \<and> hd (entry_layout e) = quote"
  by (cases e) (simp add: stringify_string_def)

lemma layout_object: "layout (JObject es) = ''{'' @ join '','' (map entry_layout es) @ ''}''"
proof -
  have "map entry_layout es = map (\<lambda>(k, v). stringify_string k @ '':'' @ layout v) es" by auto
  then show ?thesis by (simp only: layout.simps)
qed

declare layout.simps(6) [simp del]

lemma layout_inject:
  "layout j @ r = layout j' @ r' \<Longrightarrow> delimited r \<Longrightarrow> delimited r' \<Longrightarrow> j = j' \<and> r = r'"
proof (induction j arbitrary: j' r r' rule: layout.induct)
  case 1
  then show ?case using same_shape [OF 1(1)] by (cases j') (auto split: if_splits)
next
  case (2 b)
  then show ?case using same_shape [OF 2(1)] by (cases j') (auto split: if_splits)
next
  case (3 i)
  then obtain k where "j' = JInt k" using same_shape [OF 3(1)] by (cases j') (auto split: if_splits)
  with 3 show ?case using show_int_inject [of i r k r'] by simp
next
  case (4 s)
  then show ?case
    using same_shape [OF 4(1)] by (cases j') (auto simp: stringify_string_inject split: if_splits)
next
  case (5 vs)
  then obtain ws where j': "j' = JArray ws" using same_shape [OF 5(2)] by (cases j') (auto split: if_splits)
  have "vs = ws \<and> r = r'"
  proof (rule join_inject)
    show "\<forall>x \<in> set vs. \<forall>y r r'. layout x @ r = layout y @ r' \<longrightarrow> delimited r \<longrightarrow> delimited r' \<longrightarrow> x = y \<and> r = r'"
      using 5(1) by blast
    show "\<forall>x. layout x \<noteq> [] \<and> hd (layout x) \<noteq> CHR '']''" by (simp add: layout_ne layout_hd)
    show "join '','' (map layout vs) @ CHR '']'' # r = join '','' (map layout ws) @ CHR '']'' # r'"
      using 5(2) j' by simp
  qed simp
  then show ?case by (simp add: j')
next
  case (6 es)
  then obtain fs where j': "j' = JObject fs" using same_shape [OF 6(2)] by (cases j') (auto split: if_splits)
  have "es = fs \<and> r = r'"
  proof (rule join_inject)
    show "\<forall>x \<in> set es. \<forall>y r r'. entry_layout x @ r = entry_layout y @ r' \<longrightarrow> delimited r \<longrightarrow> delimited r' \<longrightarrow> x = y \<and> r = r'"
    proof (intro ballI allI impI)
      fix x y r r' assume x: "x \<in> set es" and eq: "entry_layout x @ r = entry_layout y @ r'" and d: "delimited r" "delimited r'"
      obtain k v l w where xy: "x = (k, v)" "y = (l, w)" by fastforce
      have "k = l \<and> layout v @ r = layout w @ r'"
        using eq unfolding xy entry_layout.simps append_assoc stringify_string_inject by simp
      then show "x = y \<and> r = r'" using 6(1) [OF x [unfolded xy(1)] refl _ d] xy by blast
    qed
    show "\<forall>x. entry_layout x \<noteq> [] \<and> hd (entry_layout x) \<noteq> CHR ''}''"
      using entry_layout_hd by (simp add: quote_code)
    show "join '','' (map entry_layout es) @ CHR ''}'' # r = join '','' (map entry_layout fs) @ CHR ''}'' # r'"
      using 6(2) j' by (simp add: layout_object)
  qed simp
  then show ?case by (simp add: j')
qed

lemma canonical_inject: "canonicalJson j = canonicalJson j' \<Longrightarrow> normal j = normal j'"
  using layout_inject [of "normal j" "[]" "normal j'" "[]"] by (simp add: canonical_layout delimited_def)

section \<open>The evidence\<close>

text \<open>Equal normal forms of two objects agree on every key.\<close>

lemma normal_object:
  assumes "normal (JObject es) = normal (JObject fs)" "distinct (map fst es)" "distinct (map fst fs)"
  shows "map_option normal (map_of es k) = map_option normal (map_of fs k)"
proof -
  have look: "map_of (sort_entries (map (\<lambda>(k, v). (k, normal v)) es)) k = map_option normal (map_of es k)"
    if "distinct (map fst es)" for es
  proof -
    let ?n = "map (\<lambda>(k, v). (k, normal v)) es"
    have keys: "map fst ?n = map fst es" by (simp add: case_prod_beta comp_def)
    have "mset (map fst (sort_entries ?n)) = mset (map fst ?n)"
      by (simp only: sort_entries_def mset_map mset_sort)
    then have "distinct (map fst (sort_entries ?n))"
      using that keys by (metis mset_eq_imp_distinct_iff)
    moreover have "distinct (map fst ?n)" using that by (simp only: keys)
    ultimately have "map_of (sort_entries ?n) = map_of ?n"
      by (subst map_of_inject_set) (simp_all add: sort_entries_def)
    then show ?thesis by (simp add: map_of_map)
  qed
  show ?thesis using look [OF assms(2)] look [OF assms(3)] assms(1) by simp
qed

lemma normal_entries:
  assumes "normal (JObject (zip ks vs)) = normal (JObject (zip ks ws))" "distinct ks"
    "length vs = length ks" "length ws = length ks"
  shows "map normal vs = map normal ws"
proof (rule nth_equalityI)
  fix n assume "n < length (map normal vs)"
  then have n: "n < length vs" "n < length ws" "n < length ks" using assms(3,4) by simp_all
  have "map_of (zip ks vs) (ks ! n) = Some (vs ! n)" "map_of (zip ks ws) (ks ! n) = Some (ws ! n)"
    using n assms by (simp_all add: map_of_zip_nth)
  then have "normal (vs ! n) = normal (ws ! n)"
    using normal_object [OF assms(1), of "ks ! n"] assms(2-4) by simp
  then show "map normal vs ! n = map normal ws ! n" using n by simp
qed (use assms(3,4) in simp)

lemma zip_fields:
  "JObject [(a, x), (b, y), (c, z), (d, w)] = JObject (zip [a, b, c, d] [x, y, z, w])"
  "JObject [(a, x), (b, y), (c, z), (d, w), (e, u), (f, v)] = JObject (zip [a, b, c, d, e, f] [x, y, z, w, u, v])"
  by simp_all

lemma normal_contribution: "normal (contribution_json c) = normal (contribution_json c') \<Longrightarrow> c = c'"
  unfolding contribution_json_def zip_fields by (drule normal_entries) auto

lemma normal_contributions: "normal (contributions_json cs) = normal (contributions_json cs') \<Longrightarrow> cs = cs'"
proof (induction cs arbitrary: cs')
  case Nil
  then show ?case by (simp add: contributions_json_def)
next
  case (Cons c cs)
  then obtain x xs where "cs' = x # xs" by (cases cs') (auto simp: contributions_json_def)
  with Cons show ?case by (auto simp: contributions_json_def dest: normal_contribution)
qed

lemma json_opt_inject: "normal (json_opt a) = normal (json_opt b) \<Longrightarrow> a = b"
  by (cases a; cases b) (simp_all add: json_opt_def)

lemma normal_facts: "normal (facts_json f) = normal (facts_json g) \<Longrightarrow> f = g"
  unfolding facts_json_def zip_fields
  by (drule normal_entries) (auto dest!: json_opt_inject split: option.splits)

lemma level_name_inject: "level_name l = level_name m \<Longrightarrow> l = m"
  by (cases l; cases m) (simp_all add: level_name_def)

lemma normal_evidence:
  "normal (evidence_json i r f cs s l) = normal (evidence_json i' r' f' cs' s' l') \<Longrightarrow>
     i = i' \<and> r = r' \<and> f = f' \<and> cs = cs' \<and> s = s' \<and> l = l'"
  unfolding evidence_json_def zip_fields
  by (drule normal_entries) (auto dest: normal_facts normal_contributions level_name_inject)

text \<open>
  C13: The evidence hash binds the evidence.  When two risk evaluations, of any invoices, facts and
  policies, have the same evidence hash, then they are about the same invoice, rule version, facts,
  contributions, score and level, unless the hash function maps the two different canonical
  strings to one value.
\<close>

theorem evidence_hash_binds:
  assumes "ev_evidenceHash (evaluateInvoiceRisk hash iid f p) = ev_evidenceHash (evaluateInvoiceRisk hash iid2 g q)"
    and "\<not> (\<exists>x y. x \<noteq> y \<and> hash x = hash y \<and>
       x = canonicalJson (evidence_json iid (pol_ruleVersion p) f (risk_contributions iid f p)
         (total_score (risk_contributions iid f p)) (level_of p (total_score (risk_contributions iid f p)))) \<and>
       y = canonicalJson (evidence_json iid2 (pol_ruleVersion q) g (risk_contributions iid2 g q)
         (total_score (risk_contributions iid2 g q)) (level_of q (total_score (risk_contributions iid2 g q)))))"
  shows "iid = iid2 \<and> evaluateInvoiceRisk hash iid f p = evaluateInvoiceRisk hash iid2 g q"
proof -
  have "canonicalJson (evidence_json iid (pol_ruleVersion p) f (risk_contributions iid f p)
         (total_score (risk_contributions iid f p)) (level_of p (total_score (risk_contributions iid f p)))) =
    canonicalJson (evidence_json iid2 (pol_ruleVersion q) g (risk_contributions iid2 g q)
         (total_score (risk_contributions iid2 g q)) (level_of q (total_score (risk_contributions iid2 g q))))"
    using assms by (auto simp: evaluateInvoiceRisk_def Let_def)
  from normal_evidence [OF canonical_inject [OF this]] show ?thesis
    by (elim conjE) (simp add: evaluateInvoiceRisk_def Let_def)
qed

theorem evidence_hash_binds_witness:
  "ev_evidenceHash (evaluateInvoiceRisk (\<lambda>s. s) ''a1'' demo_facts demo_policy) \<noteq>
   ev_evidenceHash (evaluateInvoiceRisk (\<lambda>s. s) ''a2'' demo_facts demo_policy)"
  using evidence_hash_binds [of "\<lambda>s. s" "''a1''" demo_facts demo_policy "''a2''" demo_facts demo_policy]
  by auto

end
