(* ===== verification/Ingest_Invariant.thy ===== *)
theory Ingest_Invariant
  imports System
begin

text \<open>
  The invariant of the ingestion: the storage state of a document and the state of its processing
  go together, an invoice reaches the approvals only with clean documents, and an invoice is
  PROCESSING only while a worker still has its document.  Every step of the system keeps it; the
  locale \<open>kept\<close> lifts it to the reachable databases.
\<close>

section \<open>The invariant\<close>

definition belongs :: "processing \<Rightarrow> document \<Rightarrow> bool" where
  "belongs p x \<longleftrightarrow> pr_documentId p = doc_id x \<and> pr_org p = doc_org x"

definition part_of :: "document \<Rightarrow> invoice \<Rightarrow> bool" where
  "part_of x i \<longleftrightarrow> doc_invoiceId x = inv_id i \<and> doc_org x = inv_org i"

definition settled :: "processing_state \<Rightarrow> bool" where
  "settled s \<longleftrightarrow> s \<in> {PROC_NEEDS_REVIEW, PROC_MANUAL_REVIEW, PROC_BLOCKED}"

definition pair_ok :: "document \<Rightarrow> processing \<Rightarrow> bool" where
  "pair_ok x p \<longleftrightarrow>
     (case doc_storageState x of
        STORED_QUARANTINED \<Rightarrow> doc_approvedKey x = None \<and> doc_sha256 x = None \<and>
          pr_state p \<in> {PROC_QUARANTINED, PROC_SCANNING, PROC_MANUAL_REVIEW} \<and> pr_scanResult p \<noteq> SCAN_CLEAN
      | STORED_APPROVED \<Rightarrow> doc_approvedKey x \<noteq> None \<and> doc_sha256 x \<noteq> None \<and>
          pr_state p \<in> {PROC_PARSED, PROC_NEEDS_REVIEW, PROC_MANUAL_REVIEW} \<and> pr_scanResult p = SCAN_CLEAN
      | STORED_BLOCKED \<Rightarrow> doc_approvedKey x = None \<and> pr_state p = PROC_BLOCKED \<and>
          pr_scanResult p = SCAN_INFECTED)"

definition files_ok :: "db \<Rightarrow> bool" where
  "files_ok d \<longleftrightarrow> distinct (map doc_id (documents d)) \<and> distinct (map doc_invoiceId (documents d)) \<and>
     distinct (map pr_documentId (processings d)) \<and>
     (\<forall>x \<in> set (documents d). (\<exists>i \<in> set (invoices d). part_of x i) \<and>
        (\<exists>p \<in> set (processings d). belongs p x) \<and>
        (\<forall>p \<in> set (processings d). belongs p x \<longrightarrow> pair_ok x p))"

definition past_review :: "invoice_status \<Rightarrow> bool" where
  "past_review s \<longleftrightarrow> s \<in> {AWAITING_APPROVAL, APPROVED, REJECTED}"

definition reviewed :: "db \<Rightarrow> invoice \<Rightarrow> bool" where
  "reviewed d i \<longleftrightarrow> (\<exists>x \<in> set (documents d). part_of x i) \<and>
     (\<forall>x \<in> set (documents d). part_of x i \<longrightarrow> doc_storageState x = STORED_APPROVED)"

definition in_work :: "db \<Rightarrow> invoice \<Rightarrow> bool" where
  "in_work d i \<longleftrightarrow> (\<forall>x \<in> set (documents d). part_of x i \<longrightarrow>
     (\<forall>p \<in> set (processings d). belongs p x \<longrightarrow> \<not> settled (pr_state p)))"

definition put_away :: "db \<Rightarrow> invoice \<Rightarrow> bool" where
  "put_away d i \<longleftrightarrow> (\<forall>x \<in> set (documents d). part_of x i \<longrightarrow>
     (\<forall>p \<in> set (processings d). belongs p x \<longrightarrow> settled (pr_state p)))"

definition ingest_inv :: "db \<Rightarrow> bool" where
  "ingest_inv d \<longleftrightarrow> files_ok d \<and> (\<forall>i \<in> set (invoices d).
     (past_review (inv_status i) \<longrightarrow> reviewed d i) \<and>
     (inv_status i = PROCESSING \<longrightarrow> in_work d i) \<and> (inv_status i \<noteq> PROCESSING \<longrightarrow> put_away d i))"

lemmas ingest_defs = ingest_inv_def files_ok_def reviewed_def in_work_def put_away_def

lemma ingest_frame: "approval_frame d d' \<Longrightarrow> ingest_inv d \<Longrightarrow> ingest_inv d'"
  by (simp add: approval_frame_def ingest_defs)

lemma ingest_cong:
  "invoices d' = invoices d \<Longrightarrow> documents d' = documents d \<Longrightarrow> processings d' = processings d \<Longrightarrow>
     ingest_inv d' = ingest_inv d"
  by (simp add: ingest_defs)

lemma ingest_writeAudit [simp]: "ingest_inv (writeAudit e k org ac t en i b f r d) = ingest_inv d"
  by (rule ingest_cong) simp_all

lemma ingest_other_tables [simp]:
  "ingest_inv (d\<lparr>policies := ps\<rparr>) = ingest_inv d" "ingest_inv (d\<lparr>decisions := xs\<rparr>) = ingest_inv d"
  by (rule ingest_cong; simp)+

section \<open>Updates of invoices\<close>

lemma ingest_invoices:
  assumes "ingest_inv d" and "documents d' = documents d" "processings d' = processings d"
    and rows: "invoices d' = update_rows Q f (invoices d)"
    and key: "\<And>i. inv_id (f i) = inv_id i" "\<And>i. inv_org (f i) = inv_org i"
    and st: "\<And>i. i \<in> set (invoices d) \<Longrightarrow> Q i \<Longrightarrow> past_review (inv_status (f i)) \<Longrightarrow>
        past_review (inv_status i) \<or> reviewed d i"
      "\<And>i. i \<in> set (invoices d) \<Longrightarrow> Q i \<Longrightarrow> inv_status (f i) \<noteq> PROCESSING"
      "\<And>i. i \<in> set (invoices d) \<Longrightarrow> Q i \<Longrightarrow> inv_status i \<noteq> PROCESSING"
  shows "ingest_inv d'"
proof -
  define H where "H = (\<lambda>i. if Q i then f i else i)"
  have sets: "set (invoices d') = H ` set (invoices d)" by (simp add: rows set_update_rows H_def)
  have part: "part_of x (H i) = part_of x i" for x i by (simp add: part_of_def H_def key)
  have same: "reviewed d' (H i) = reviewed d i" "in_work d' (H i) = in_work d i" "put_away d' (H i) = put_away d i" for i
    by (simp_all add: reviewed_def in_work_def put_away_def assms(2,3) part)
  have "files_ok d'" using assms(1) by (simp add: ingest_inv_def files_ok_def assms(2,3) sets part)
  moreover have "(past_review (inv_status (H i)) \<longrightarrow> reviewed d i) \<and>
      (inv_status (H i) = PROCESSING \<longrightarrow> in_work d i) \<and> (inv_status (H i) \<noteq> PROCESSING \<longrightarrow> put_away d i)"
    if "i \<in> set (invoices d)" for i
    using assms(1) st that by (auto simp: ingest_inv_def H_def split: if_splits)
  ultimately show ?thesis by (simp add: ingest_inv_def sets same)
qed

lemma past_review_simps [simp]:
  "past_review AWAITING_APPROVAL" "past_review APPROVED" "past_review REJECTED"
  "\<not> past_review PROCESSING" "\<not> past_review NEEDS_REVIEW" "\<not> past_review MANUAL_REVIEW" "\<not> past_review BLOCKED"
  by (simp_all add: past_review_def)

lemma settled_simps [simp]:
  "settled PROC_NEEDS_REVIEW" "settled PROC_MANUAL_REVIEW" "settled PROC_BLOCKED"
  "\<not> settled PROC_QUARANTINED" "\<not> settled PROC_SCANNING" "\<not> settled PROC_PARSED"
  by (simp_all add: settled_def)

section \<open>Updates by the worker\<close>

text \<open>
  The worker changes the row of its document, the row of its processing and the row of its invoice;
  the invariant asks only for the pair it leaves behind.
\<close>

lemma ingest_worker:
  assumes inv: "ingest_inv d" and x0: "x0 \<in> set (documents d)" "job_document j x0" "doc_invoiceId x0 = job_invoiceId j"
    and docs: "documents d' = update_rows (job_document j) f (documents d)"
    and procs: "processings d' = update_rows (for_job j) g (processings d)"
    and ivs: "invoices d' = update_rows (\<lambda>i. job_invoice j i \<and> C i) h (invoices d)"
    and fkey: "\<And>x. doc_id (f x) = doc_id x" "\<And>x. doc_org (f x) = doc_org x" "\<And>x. doc_invoiceId (f x) = doc_invoiceId x"
    and gkey: "\<And>p. pr_documentId (g p) = pr_documentId p" "\<And>p. pr_org (g p) = pr_org p"
    and hkey: "\<And>i. inv_id (h i) = inv_id i" "\<And>i. inv_org (h i) = inv_org i"
    and h: "\<And>i. \<not> past_review (inv_status (h i))" "\<And>i. inv_status (h i) \<noteq> PROCESSING"
    and pair: "\<And>p. p \<in> set (processings d) \<Longrightarrow> for_job j p \<Longrightarrow> pair_ok x0 p \<Longrightarrow> pair_ok (f x0) (g p)"
    and keep: "doc_storageState x0 = STORED_APPROVED \<Longrightarrow> doc_storageState (f x0) = STORED_APPROVED"
    and fin: "\<And>p i. p \<in> set (processings d) \<Longrightarrow> for_job j p \<Longrightarrow> pair_ok x0 p \<Longrightarrow> settled (pr_state (g p)) \<Longrightarrow>
       job_invoice j i \<Longrightarrow> inv_status i = PROCESSING \<Longrightarrow> C i"
    and rest: "\<And>p i. p \<in> set (processings d) \<Longrightarrow> for_job j p \<Longrightarrow> pair_ok x0 p \<Longrightarrow> settled (pr_state p) \<or> job_invoice j i \<and> C i \<Longrightarrow>
       settled (pr_state (g p))"
  shows "ingest_inv d'"
proof -
  have files: "files_ok d" and dist: "distinct (map doc_id (documents d))" "distinct (map pr_documentId (processings d))"
    "distinct (map doc_invoiceId (documents d))"
    using inv by (simp_all add: ingest_inv_def files_ok_def)
  have only: "x = x0" if "x \<in> set (documents d)" "job_document j x" for x
    using distinct_map_unique [OF dist(1) that(1) x0(1)] that x0(2) by (simp add: job_document_def)
  define F where "F = (\<lambda>x. if job_document j x then f x else x)"
  define G where "G = (\<lambda>p. if for_job j p then g p else p)"
  define H where "H = (\<lambda>i. if job_invoice j i \<and> C i then h i else i)"
  have sets: "set (documents d') = F ` set (documents d)" "set (processings d') = G ` set (processings d)"
    "set (invoices d') = H ` set (invoices d)"
    by (simp_all add: docs procs ivs set_update_rows F_def G_def H_def)
  have bel: "belongs (G p) (F x) = belongs p x" for p x by (simp add: belongs_def F_def G_def fkey gkey)
  have part: "part_of (F x) (H i) = part_of x i" for x i by (simp add: part_of_def F_def H_def fkey hkey)
  have jobs: "job_document j x = for_job j p" if "belongs p x" for x p
    using that by (simp add: belongs_def job_document_def for_job_def)
  have ok: "pair_ok (F x) (G p)" if "x \<in> set (documents d)" "p \<in> set (processings d)" "belongs p x" for x p
    using that files only [OF that(1)] pair jobs [OF that(3)] by (auto simp: F_def G_def files_ok_def)
  have "distinct (map doc_id (documents d'))" "distinct (map pr_documentId (processings d'))"
    "distinct (map doc_invoiceId (documents d'))"
    using dist by (simp_all add: docs procs map_update_rows fkey gkey)
  moreover have "(\<exists>i \<in> set (invoices d). part_of x i) \<and> (\<exists>p \<in> set (processings d). belongs p x)"
    if "x \<in> set (documents d)" for x
    using files that by (simp add: files_ok_def)
  ultimately have "files_ok d'"
    using ok by (simp add: files_ok_def sets bel part)
  moreover have "(past_review (inv_status (H i)) \<longrightarrow> reviewed d' (H i)) \<and>
      (inv_status (H i) = PROCESSING \<longrightarrow> in_work d' (H i)) \<and> (inv_status (H i) \<noteq> PROCESSING \<longrightarrow> put_away d' (H i))" if i: "i \<in> set (invoices d)" for i
  proof -
    have st: "\<not> (job_invoice j i \<and> C i) \<and> inv_status i = inv_status (H i)"
      if "past_review (inv_status (H i)) \<or> inv_status (H i) = PROCESSING"
      using that h by (auto simp: H_def split: if_splits)
    have app: "doc_storageState (F x) = STORED_APPROVED"
      if "x \<in> set (documents d)" "doc_storageState x = STORED_APPROVED" for x
      using that only keep by (auto simp: F_def)
    have "reviewed d i" if "past_review (inv_status (H i))"
      using st that inv i by (auto simp: ingest_inv_def)
    then have "past_review (inv_status (H i)) \<longrightarrow> reviewed d' (H i)"
      using app by (auto simp: reviewed_def sets part)
    moreover have "in_work d' (H i)" if p: "inv_status (H i) = PROCESSING"
    proof -
      from st p have "in_work d i" and C: "\<not> (job_invoice j i \<and> C i)" and s: "inv_status i = PROCESSING"
        using inv i by (auto simp: ingest_inv_def)
      have "\<not> settled (pr_state (G p))" if x: "x \<in> set (documents d)" "part_of x i"
        and p: "p \<in> set (processings d)" "belongs p x" for x p
      proof (cases "for_job j p")
        case True
        with jobs [OF p(2)] only [OF x(1)] have "x = x0" by simp
        moreover from this x(2) x0 have "job_invoice j i" by (simp add: part_of_def job_invoice_def job_document_def)
        moreover have "pair_ok x0 p" using files x(1) p \<open>x = x0\<close> by (auto simp: files_ok_def)
        ultimately show ?thesis using fin [OF p(1) True] C s True by (auto simp: G_def)
      next
        case False
        with \<open>in_work d i\<close> x p show ?thesis by (auto simp: in_work_def G_def)
      qed
      then show ?thesis by (auto simp: in_work_def sets bel part)
    qed
    moreover have "put_away d' (H i)" if n: "inv_status (H i) \<noteq> PROCESSING"
    proof -
      have "settled (pr_state (G p))" if x: "x \<in> set (documents d)" "part_of x i"
        and p: "p \<in> set (processings d)" "belongs p x" for x p
      proof (cases "for_job j p")
        case True
        with jobs [OF p(2)] only [OF x(1)] have "x = x0" by simp
        then have ok: "pair_ok x0 p" using files x(1) p by (auto simp: files_ok_def)
        show ?thesis
        proof (cases "job_invoice j i \<and> C i")
          case True
          then show ?thesis using rest [OF p(1) \<open>for_job j p\<close> ok] \<open>for_job j p\<close> by (auto simp: G_def)
        next
          case False
          with n have "inv_status i \<noteq> PROCESSING" by (auto simp: H_def)
          then have "settled (pr_state p)" using inv i x p by (auto simp: ingest_inv_def put_away_def)
          then show ?thesis using rest [OF p(1) \<open>for_job j p\<close> ok] \<open>for_job j p\<close> by (auto simp: G_def)
        qed
      next
        case False
        have "\<not> (job_invoice j i \<and> C i)"
        proof
          assume "job_invoice j i \<and> C i"
          with x0 have "part_of x0 i" by (simp add: part_of_def job_invoice_def job_document_def)
          with x(2) have "doc_invoiceId x = doc_invoiceId x0" by (simp add: part_of_def)
          with distinct_map_unique [OF dist(3) x(1) x0(1)] have "x = x0" by simp
          with x0(2) jobs [OF p(2)] False show False by simp
        qed
        with n have "inv_status i \<noteq> PROCESSING" by (auto simp: H_def)
        with inv i x p False show ?thesis by (auto simp: ingest_inv_def put_away_def G_def)
      qed
      then show ?thesis by (auto simp: put_away_def sets bel part)
    qed
    ultimately show ?thesis by blast
  qed
  ultimately show ?thesis by (auto simp: ingest_inv_def sets)
qed

section \<open>The worker\<close>

text \<open>What the worker knows of its document.\<close>

definition holds_document :: "ingest_job \<Rightarrow> storage_state \<Rightarrow> db \<Rightarrow> bool" where
  "holds_document j st d \<longleftrightarrow> ingest_inv d \<and> (\<exists>x \<in> set (documents d). job_document j x \<and>
     doc_invoiceId x = job_invoiceId j \<and> doc_storageState x = st) \<and>
     (\<forall>p \<in> set (processings d). for_job j p \<longrightarrow> \<not> settled (pr_state p))"

lemma load_holds:
  assumes "ingest_inv d" and "load j d = Some (x, p)"
  shows "\<not> settled (pr_state p) \<Longrightarrow> holds_document j (doc_storageState x) d" "pair_ok x p" "p \<in> set (processings d)" "for_job j p"
    "x \<in> set (documents d)" "job_document j x"
proof -
  from assms(2) have x: "x \<in> set (documents d)" "job_document j x" "doc_invoiceId x = job_invoiceId j"
    and p: "p \<in> set (processings d)" "for_job j p"
    by (auto simp: load_def bind_eq_Some_conv dest: find_SomeD)
  have dist: "distinct (map pr_documentId (processings d))" using assms(1) by (simp add: ingest_inv_def files_ok_def)
  have "q = p" if "q \<in> set (processings d)" "for_job j q" for q
    using distinct_map_unique [OF dist that(1) p(1)] that(2) p(2) by (simp add: for_job_def)
  then show "holds_document j (doc_storageState x) d" if "\<not> settled (pr_state p)"
    using assms(1) x that by (auto simp: holds_document_def)
  have "belongs p x" using x p by (simp add: belongs_def job_document_def for_job_def)
  then show "pair_ok x p" using assms(1) x p by (simp add: ingest_inv_def files_ok_def)
  show "p \<in> set (processings d)" "for_job j p" "x \<in> set (documents d)" "job_document j x" by fact+
qed

lemma progress_holds:
  assumes "holds_document j st d" and "progress now j s n inc scan d = Inr d'"
    and "st = STORED_QUARANTINED \<and> s = PROC_SCANNING \<and> scan = None \<or>
         st = STORED_APPROVED \<and> s = PROC_PARSED \<and> scan = Some SCAN_CLEAN"
  shows "holds_document j st d'"
proof -
  from assms(1) obtain x where x: "ingest_inv d" "x \<in> set (documents d)" "job_document j x"
    "doc_invoiceId x = job_invoiceId j" "doc_storageState x = st"
    and u: "\<forall>p \<in> set (processings d). for_job j p \<longrightarrow> \<not> settled (pr_state p)"
    by (auto simp: holds_document_def)
  define g where "g = (\<lambda>p :: processing. p\<lparr>pr_state := s, pr_progress := n,
              pr_attempts := pr_attempts p + (if inc then 1 else 0),
              pr_scanResult := (case scan of None \<Rightarrow> pr_scanResult p | Some r \<Rightarrow> r),
              pr_startedAt := (case pr_startedAt p of None \<Rightarrow> Some now | Some t \<Rightarrow> Some t),
              pr_heartbeatAt := Some now\<rparr>)"
  from assms(2) have d': "d' = d\<lparr>processings := update_rows (for_job j) g (processings d)\<rparr>"
    by (simp add: progress_def update_processings_Inr g_def)
  have "ingest_inv d'"
    by (rule ingest_worker [OF x(1-4), where f = "\<lambda>x. x" and g = g and C = "\<lambda>_. False" and h = "\<lambda>i. i\<lparr>inv_status := BLOCKED\<rparr>"])
      (use assms(3) x(5) u in \<open>auto simp: d' g_def pair_ok_def\<close>)
  moreover have "\<not> settled (pr_state p)" if "p \<in> set (processings d')" "for_job j p" for p
  proof -
    from that(1) have "p \<in> set (update_rows (for_job j) g (processings d))" by (simp add: d')
    then show ?thesis
      by (cases rule: update_rowsE) (use assms(3) that(2) in \<open>auto simp: g_def\<close>)
  qed
  ultimately show ?thesis using x by (auto simp: holds_document_def d')
qed

lemma ingest_worker_audit [simp]: "ingest_inv (worker_audit e k j ac af d) = ingest_inv d"
  by (rule ingest_cong) (simp_all add: worker_audit_def)

lemma block_inv:
  assumes "holds_document j STORED_QUARANTINED d" and "block e now j d = Inr (u, d')"
  shows "ingest_inv d'"
proof -
  from assms(1) obtain x where x: "ingest_inv d" "x \<in> set (documents d)" "job_document j x"
    "doc_invoiceId x = job_invoiceId j" "doc_storageState x = STORED_QUARANTINED"
    and u: "\<forall>p \<in> set (processings d). for_job j p \<longrightarrow> \<not> settled (pr_state p)"
    by (auto simp: holds_document_def)
  let ?f = "\<lambda>x :: document. x\<lparr>doc_storageState := STORED_BLOCKED\<rparr>"
  let ?g = "\<lambda>p. p\<lparr>pr_state := PROC_BLOCKED, pr_progress := 100, pr_scanResult := SCAN_INFECTED,
      pr_scanDetail := Some ''MALWARE_FOUND'', pr_completedAt := Some now\<rparr>"
  let ?d = "set_status j BLOCKED (d\<lparr>documents := update_rows (job_document j) ?f (documents d),
      processings := update_rows (for_job j) ?g (processings d)\<rparr>)"
  from assms(2) have "ingest_inv d' = ingest_inv ?d"
    by (auto simp: block_def table_simps split: sum.splits)
  moreover have "ingest_inv ?d"
    by (rule ingest_worker [OF x(1-4), where f = ?f and g = ?g and C = "\<lambda>_. True" and h = "\<lambda>i. i\<lparr>inv_status := BLOCKED\<rparr>"])
      (use x(5) u in \<open>auto simp: set_status_def pair_ok_def\<close>)
  ultimately show ?thesis by simp
qed

lemma promote_holds:
  assumes "holds_document j STORED_QUARANTINED d" and "promote now j key sha d = Inr (u, d')"
  shows "holds_document j STORED_APPROVED d'"
proof -
  from assms(1) obtain x where x: "ingest_inv d" "x \<in> set (documents d)" "job_document j x"
    "doc_invoiceId x = job_invoiceId j" "doc_storageState x = STORED_QUARANTINED"
    and u: "\<forall>p \<in> set (processings d). for_job j p \<longrightarrow> \<not> settled (pr_state p)"
    by (auto simp: holds_document_def)
  define f where "f = (\<lambda>x :: document. x\<lparr>doc_approvedKey := Some key, doc_sha256 := Some sha,
           doc_duplicateOf := duplicate_of j sha d, doc_storageState := STORED_APPROVED\<rparr>)"
  let ?g = "\<lambda>p. p\<lparr>pr_state := PROC_PARSED, pr_progress := 75, pr_scanResult := SCAN_CLEAN, pr_heartbeatAt := Some now\<rparr>"
  from assms(2) have d': "d' = d\<lparr>documents := update_rows (job_document j) f (documents d),
      processings := update_rows (for_job j) ?g (processings d)\<rparr>"
    by (auto simp: promote_def table_simps f_def split: sum.splits)
  have "ingest_inv d'"
    by (rule ingest_worker [OF x(1-4), where f = f and g = ?g and C = "\<lambda>_. False" and h = "\<lambda>i. i\<lparr>inv_status := BLOCKED\<rparr>"])
      (use x(5) u in \<open>auto simp: d' f_def pair_ok_def\<close>)
  moreover have "f x \<in> set (documents d')" "job_document j (f x)" "doc_invoiceId (f x) = job_invoiceId j"
    "doc_storageState (f x) = STORED_APPROVED"
    using x update_rows_mem [of x "documents d" "job_document j" f] by (simp_all add: d' f_def job_document_def)
  moreover have "\<not> settled (pr_state p)" if "p \<in> set (processings d')" "for_job j p" for p
  proof -
    from that(1) have "p \<in> set (update_rows (for_job j) ?g (processings d))" by (simp add: d')
    then show ?thesis by (cases rule: update_rowsE) (use that(2) in auto)
  qed
  ultimately show ?thesis by (auto simp: holds_document_def)
qed

lemma finish_inv:
  assumes "holds_document j STORED_APPROVED d" and "finish e now j eng sug d = Inr (u, d')"
  shows "ingest_inv d'"
proof -
  from assms(1) obtain x where x: "ingest_inv d" "x \<in> set (documents d)" "job_document j x"
    "doc_invoiceId x = job_invoiceId j" "doc_storageState x = STORED_APPROVED"
    and u: "\<forall>p \<in> set (processings d). for_job j p \<longrightarrow> \<not> settled (pr_state p)"
    by (auto simp: holds_document_def)
  let ?g = "\<lambda>p. p\<lparr>pr_state := PROC_NEEDS_REVIEW, pr_progress := 100,
           pr_ocrEngine := Some eng, pr_suggestions := Some sug,
           pr_completedAt := Some now, pr_heartbeatAt := Some now\<rparr>"
  let ?d = "set_status j NEEDS_REVIEW (d\<lparr>processings := update_rows (for_job j) ?g (processings d)\<rparr>)"
  from assms(2) have "ingest_inv d' = ingest_inv ?d"
    by (auto simp: finish_def table_simps split: sum.splits)
  moreover have "ingest_inv ?d"
    by (rule ingest_worker [OF x(1-4), where f = "\<lambda>x. x" and g = ?g and C = "\<lambda>_. True" and h = "\<lambda>i. i\<lparr>inv_status := NEEDS_REVIEW\<rparr>"])
      (use x(5) u in \<open>auto simp: set_status_def pair_ok_def\<close>)
  ultimately show ?thesis by simp
qed

lemma run_holds:
  assumes "holds_document j st d" and "\<And>u d'. w d = Inr (u, d') \<Longrightarrow> ingest_inv d'"
  shows "ingest_inv (snd (run w d))"
  by (rule tx.preserves [where P = ingest_inv])
    (use assms in \<open>auto simp: holds_document_def\<close>)

lemma read_document_ingest:
  assumes "holds_document j STORED_APPROVED d"
  shows "ingest_inv (snd (read_document e w j d))"
proof -
  have "ingest_inv d'" if "run (finish e now j eng sug) d = (r, d')" for now eng sug r d'
    using run_holds [OF assms, of "finish e now j eng sug"] finish_inv [OF assms] that by (metis snd_conv)
  with assms show ?thesis by (auto simp: read_document_def holds_document_def split: sum.split prod.split)
qed

definition job_live :: "ingest_job \<Rightarrow> db \<Rightarrow> bool" where
  "job_live j d \<longleftrightarrow> (\<exists>st. holds_document j st d)"

lemma job_live_inv: "job_live j d \<Longrightarrow> ingest_inv d"
  by (auto simp: job_live_def holds_document_def)

lemma job_liveI: "holds_document j st d \<Longrightarrow> job_live j d"
  by (auto simp: job_live_def)

lemma run_Inl: "run w d = (Inl x, d') \<Longrightarrow> d' = d"
  by (auto simp: run_def split: sum.splits)

lemma run_Inr: "run w d = (Inr x, d') \<Longrightarrow> w d = Inr (x, d')"
  by (auto simp: run_def split: sum.splits)

lemma read_document_outcome:
  assumes "holds_document j STORED_APPROVED d" and "read_document e w j d = (r, d1)"
  shows "ingest_inv d1 \<and> (r \<noteq> None \<longrightarrow> job_live j d1)"
  using read_document_ingest [OF assms(1), of e w] assms job_liveI [OF assms(1)]
  by (auto simp: read_document_def split: sum.splits prod.splits dest: run_Inl)

lemma scan_document_outcome:
  assumes "holds_document j STORED_QUARANTINED d" and "scan_document e w j d = (r, d1)"
  shows "ingest_inv d1 \<and> (r \<noteq> None \<longrightarrow> job_live j d1)"
proof (cases "progress (clock e 0) j PROC_SCANNING 25 True None d")
  case (Inl err)
  with assms show ?thesis using job_liveI [OF assms(1)] job_live_inv by (auto simp: scan_document_def)
next
  case (Inr d2)
  have d2: "holds_document j STORED_QUARANTINED d2" using progress_holds [OF assms(1) Inr] by simp
  have b: "ingest_inv d3" if "run (block e now j) d2 = (Inr u, d3)" for now u d3
    using block_inv [OF d2 run_Inr [OF that]] .
  have p: "holds_document j STORED_APPROVED d3" if "run (promote now j key sha) d2 = (Inr u, d3)" for now u d3 key sha
    using promote_holds [OF d2 run_Inr [OF that]] .
  from assms(2) Inr d2 show ?thesis
    using job_liveI [OF d2] job_live_inv [OF job_liveI [OF d2]]
    by (auto simp: scan_document_def split: option.splits sum.splits prod.splits if_splits
        dest!: run_Inl dest: b p job_liveI job_live_inv read_document_outcome)
qed

lemma reread_document_outcome:
  assumes "holds_document j STORED_APPROVED d" and "reread_document e w j d = (r, d1)"
  shows "ingest_inv d1 \<and> (r \<noteq> None \<longrightarrow> job_live j d1)"
proof (cases "progress (clock e 0) j PROC_PARSED 75 True (Some SCAN_CLEAN) d")
  case (Inl err)
  with assms show ?thesis using job_liveI [OF assms(1)] job_live_inv by (auto simp: reread_document_def)
next
  case (Inr d2)
  have d2: "holds_document j STORED_APPROVED d2" using progress_holds [OF assms(1) Inr] by simp
  from assms(2) Inr d2 show ?thesis
    using job_liveI [OF d2] job_live_inv [OF job_liveI [OF d2]]
    by (auto simp: reread_document_def split: option.splits dest: read_document_outcome)
qed

lemma manualReview_inv:
  assumes "job_live j d" and "manualReview now j err d = Inr d'"
  shows "ingest_inv d'"
proof -
  from assms(1) obtain x where x: "ingest_inv d" "x \<in> set (documents d)" "job_document j x"
    "doc_invoiceId x = job_invoiceId j"
    and u: "\<forall>p \<in> set (processings d). for_job j p \<longrightarrow> \<not> settled (pr_state p)"
    by (auto simp: job_live_def holds_document_def)
  define g where "g = (\<lambda>p :: processing. if pr_state p \<noteq> PROC_NEEDS_REVIEW \<and> pr_state p \<noteq> PROC_BLOCKED then
     p\<lparr>pr_state := PROC_MANUAL_REVIEW, pr_progress := 100,
                pr_scanResult := (if pr_scanResult p = SCAN_PENDING then SCAN_ERROR else pr_scanResult p),
                pr_errorCode := Some (take 80 err),
                pr_errorMessage := Some ''Processing requires operator review'',
                pr_completedAt := Some now\<rparr> else p)"
  have g: "update_rows (\<lambda>p. for_job j p \<and> pr_state p \<noteq> PROC_NEEDS_REVIEW \<and> pr_state p \<noteq> PROC_BLOCKED)
     (\<lambda>p. p\<lparr>pr_state := PROC_MANUAL_REVIEW, pr_progress := 100,
                pr_scanResult := (if pr_scanResult p = SCAN_PENDING then SCAN_ERROR else pr_scanResult p),
                pr_errorCode := Some (take 80 err),
                pr_errorMessage := Some ''Processing requires operator review'',
                pr_completedAt := Some now\<rparr>) ps = update_rows (for_job j) g ps" for ps
    by (auto simp: update_rows_def g_def)
  show ?thesis
    by (rule ingest_worker [OF x, where f = "\<lambda>x. x" and g = g and C = "\<lambda>i. inv_status i = PROCESSING"
          and h = "\<lambda>i. i\<lparr>inv_status := MANUAL_REVIEW\<rparr>"])
      (use assms(2) u in \<open>auto simp: manualReview_def table_simps g g_def pair_ok_def split: storage_state.splits\<close>)
qed

lemma resetForRetry_inv:
  assumes "job_live j d" and "resetForRetry now j d = Inr d'"
  shows "ingest_inv d'"
proof -
  from assms(1) obtain x where x: "ingest_inv d" "x \<in> set (documents d)" "job_document j x"
    "doc_invoiceId x = job_invoiceId j"
    and u: "\<forall>p \<in> set (processings d). for_job j p \<longrightarrow> \<not> settled (pr_state p)"
    by (auto simp: job_live_def holds_document_def)
  define st where "st = (if stored_approved j d then PROC_PARSED else PROC_QUARANTINED)"
  define g where "g = (\<lambda>p :: processing. p\<lparr>pr_state := st,
              pr_progress := (if stored_approved j d then 75 else 10),
              pr_errorCode := None, pr_errorMessage := None, pr_heartbeatAt := Some now\<rparr>)"
  have ex: "list_ex (job_document j) (documents d)" using x by (auto simp: list_ex_iff)
  have sa: "stored_approved j d = (doc_storageState x = STORED_APPROVED)"
  proof -
    have dist: "distinct (map doc_id (documents d))" using x(1) by (simp add: ingest_inv_def files_ok_def)
    have "y = x" if "y \<in> set (documents d)" "job_document j y" for y
      using distinct_map_unique [OF dist that(1) x(2)] that(2) x(3) by (simp add: job_document_def)
    then show ?thesis unfolding stored_approved_def list_ex_iff using x(2,3) by blast
  qed
  from assms(2) have d': "d' = d\<lparr>processings := update_rows (for_job j) g (processings d)\<rparr>"
    and tr: "\<forall>p \<in> set (processings d). for_job j p \<longrightarrow> transition_ok (pr_state p) st"
    by (simp_all add: resetForRetry_def update_processings_Inr ex g_def st_def)
  show ?thesis
    by (rule ingest_worker [OF x, where f = "\<lambda>x. x" and g = g and C = "\<lambda>_. False"
          and h = "\<lambda>i. i\<lparr>inv_status := MANUAL_REVIEW\<rparr>"])
      (use tr u in \<open>auto simp: d' g_def st_def sa pair_ok_def transition_ok_def split: storage_state.splits if_splits\<close>)
qed

lemma handle_error_ingest: "job_live j d \<Longrightarrow> ingest_inv (snd (handle_error e j final err d))"
  by (auto simp: handle_error_def job_live_inv split: sum.split intro: manualReview_inv resetForRetry_inv)

lemma process_job_ingest:
  assumes "ingest_inv d"
  shows "ingest_inv (snd (process_job e w j final d))"
proof (cases "load j d")
  case (Some xp)
  obtain x p where xp: "xp = (x, p)" by fastforce
  note l = load_holds [OF assms Some [unfolded xp]]
  show ?thesis
  proof (cases "pr_state p \<in> {PROC_NEEDS_REVIEW, PROC_MANUAL_REVIEW, PROC_BLOCKED}")
    case False
    then have "\<not> settled (pr_state p)" by (simp add: settled_def)
    note l1 = l(1) [OF this]
    from False consider "doc_storageState x = STORED_QUARANTINED" | "doc_storageState x = STORED_APPROVED"
      using l(2) by (auto simp: pair_ok_def split: storage_state.splits)
    then show ?thesis
    proof cases
      case 1
      obtain r d1 where r: "scan_document e w j d = (r, d1)" by fastforce
      with scan_document_outcome [OF l1 [unfolded 1] r] handle_error_ingest [of j d1 e final] Some xp False 1
      show ?thesis by (auto simp: process_job_def split: option.split)
    next
      case 2
      obtain r d1 where r: "reread_document e w j d = (r, d1)" by fastforce
      with reread_document_outcome [OF l1 [unfolded 2] r] handle_error_ingest [of j d1 e final] Some xp False 2
      show ?thesis by (auto simp: process_job_def split: option.split)
    qed
  qed (use Some xp assms in \<open>auto simp: process_job_def\<close>)
qed (simp add: process_job_def assms)

section \<open>Uploads\<close>

lemma upload_tx_ingest:
  assumes "ingest_inv d" and "upload_tx e a vid cid upf v d = Inr (view, d')"
  shows "ingest_inv d'"
  using assms(2)
proof (rule upload_txE)
  fix xs ps
  assume fresh: "\<forall>j \<in> set (invoices d). inv_id j \<noteq> new_uuid e 1"
    and ks: "\<forall>k \<in> set document_keys. \<forall>x \<in> set (documents d). k x \<noteq> k (new_document e a upf v)"
    and ps: "\<forall>p \<in> set (processings d). pr_documentId p \<noteq> new_uuid e 0"
    and d': "xs = documents d @ [new_document e a upf v]" "ps = processings d @ [new_processing e a]"
      "d' = writeAudit e 5 (organizationId a) (Some (membershipId a)) ''INVOICE_UPLOADED'' ''INVOICE''
       (new_uuid e 1) None (Some (upload_event e v)) None (d\<lparr>invoices := invoices d @ [new_invoice e a vid cid],
         documents := xs, processings := ps\<rparr>)"
  let ?x = "new_document e a upf v" and ?p = "new_processing e a" and ?i = "new_invoice e a vid cid"
  let ?d = "d\<lparr>invoices := invoices d @ [?i], documents := documents d @ [?x], processings := processings d @ [?p]\<rparr>"
  have new: "doc_invoiceId ?x = new_uuid e 1" "pair_ok ?x ?p" "part_of ?x ?i" "belongs ?p ?x" "\<not> settled (pr_state ?p)"
    by (simp_all add: new_document_def new_processing_def pair_ok_def part_of_def new_invoice_def belongs_def)
  have xid: "\<forall>x \<in> set (documents d). doc_id x \<noteq> new_uuid e 0" using ks by (simp add: document_keys_def)
  have old: "\<not> belongs ?p x" "\<not> part_of x ?i" if "x \<in> set (documents d)" for x
    using xid fresh that assms(1) by (fastforce simp: belongs_def part_of_def ingest_inv_def files_ok_def)+
  have iid: "\<forall>x \<in> set (documents d). doc_invoiceId x \<noteq> new_uuid e 1"
    using fresh assms(1) by (fastforce simp: part_of_def ingest_inv_def files_ok_def)
  have nop: "\<not> belongs p ?x" if "p \<in> set (processings d)" for p using ps that by (simp add: belongs_def)
  have noi: "\<not> part_of ?x i" if "i \<in> set (invoices d)" for i using fresh that new(1) by (auto simp: part_of_def)
  have "files_ok ?d"
    using assms(1) xid iid ps new old nop by (auto simp: ingest_inv_def files_ok_def)
  moreover have "reviewed ?d i = reviewed d i" "in_work ?d i = in_work d i" "put_away ?d i = put_away d i"
    if "i \<in> set (invoices d)" for i
    using noi [OF that] old by (auto simp: reviewed_def in_work_def put_away_def)
  moreover have "in_work ?d ?i" using new old nop by (auto simp: in_work_def)
  ultimately have "ingest_inv ?d" using assms(1) by (simp add: ingest_inv_def)
  with d' show ?thesis by simp
qed

lemma upload_tx_holds:
  assumes "ingest_inv d" and "upload_tx e a vid cid upf v d = Inr (view, d')"
  shows "job_live \<lparr>job_invoiceId = new_uuid e 1, job_documentId = new_uuid e 0,
     job_organizationId = organizationId a, job_correlationId = c\<rparr> d'"
  using assms(2)
proof (rule upload_txE)
  fix xs ps
  assume "xs = documents d @ [new_document e a upf v]" "ps = processings d @ [new_processing e a]"
    "\<forall>p \<in> set (processings d). pr_documentId p \<noteq> new_uuid e 0"
    and "d' = writeAudit e 5 (organizationId a) (Some (membershipId a)) ''INVOICE_UPLOADED'' ''INVOICE''
       (new_uuid e 1) None (Some (upload_event e v)) None (d\<lparr>invoices := invoices d @ [new_invoice e a vid cid],
         documents := xs, processings := ps\<rparr>)"
  then have "new_document e a upf v \<in> set (documents d')"
    and "\<forall>p \<in> set (processings d'). pr_documentId p = new_uuid e 0 \<longrightarrow> \<not> settled (pr_state p)"
    by (auto simp: new_processing_def)
  moreover have "doc_id (new_document e a upf v) = new_uuid e 0" "doc_org (new_document e a upf v) = organizationId a"
    "doc_invoiceId (new_document e a upf v) = new_uuid e 1" by (simp_all add: new_document_def)
  ultimately show ?thesis
    using upload_tx_ingest [OF assms] unfolding job_live_def holds_document_def job_document_def for_job_def
    by (intro exI [of _ "doc_storageState (new_document e a upf v)"] conjI bexI [of _ "new_document e a upf v"]) simp_all
qed

lemma markManualReview_ingest:
  assumes "job_live \<lparr>job_invoiceId = iid, job_documentId = did, job_organizationId = org, job_correlationId = c\<rparr> d"
    and "markManualReview_tx e org did iid code d = Inr (u, d')"
  shows "ingest_inv d'"
proof -
  let ?j = "\<lparr>job_invoiceId = iid, job_documentId = did, job_organizationId = org, job_correlationId = c\<rparr>"
  from assms(1) obtain x where x: "ingest_inv d" "x \<in> set (documents d)" "job_document ?j x"
    "doc_invoiceId x = job_invoiceId ?j"
    and u: "\<forall>p \<in> set (processings d). for_job ?j p \<longrightarrow> \<not> settled (pr_state p)"
    by (auto simp: job_live_def holds_document_def)
  define g where "g = (\<lambda>p :: processing. p\<lparr>pr_state := PROC_MANUAL_REVIEW, pr_progress := 100,
      pr_errorCode := Some code, pr_completedAt := Some (clock e 0)\<rparr>)"
  have k: "(\<lambda>p. pr_documentId p = did \<and> pr_org p = org) = for_job ?j"
    "(\<lambda>i. inv_id i = iid \<and> inv_org i = org) = job_invoice ?j"
    by (simp_all add: for_job_def job_invoice_def fun_eq_iff)
  from assms(2) have d': "documents d' = documents d" "processings d' = update_rows (for_job ?j) g (processings d)"
      "invoices d' = update_rows (job_invoice ?j) (\<lambda>i. i\<lparr>inv_status := MANUAL_REVIEW\<rparr>) (invoices d)"
    and tr: "\<forall>p \<in> set (processings d). for_job ?j p \<longrightarrow> transition_ok (pr_state p) PROC_MANUAL_REVIEW"
    by (auto simp: markManualReview_tx_def k g_def table_simps split: sum.splits)
  show ?thesis
    by (rule ingest_worker [OF x, where f = "\<lambda>x. x" and g = g and C = "\<lambda>_. True" and h = "\<lambda>i. i\<lparr>inv_status := MANUAL_REVIEW\<rparr>"])
      (use tr u in \<open>auto simp: d' g_def pair_ok_def transition_ok_def split: storage_state.splits\<close>)
qed

lemma upload_ingest:
  assumes "ingest_inv d"
  shows "ingest_inv (snd (upload e w a vid cid upl d))"
proof -
  have tx: "ingest_inv d1" if "run (upload_tx e a vid cid upf v) d = (r, d1)" for upf v r d1
    using that assms upload_tx_ingest [OF assms] by (auto simp: run_def split: sum.splits)
  have mark: "ingest_inv d2" if "run (upload_tx e a vid cid upf v) d = (Inr view, d1)"
    "markManualReview e (organizationId a) (new_uuid e 0) (new_uuid e 1) code d1 = (r, d2)" for upf v view d1 code r d2
    using that(2) markManualReview_ingest [OF upload_tx_holds [OF assms run_Inr [OF that(1)]]] tx [OF that(1)]
    by (auto simp: markManualReview_def run_def split: sum.splits)
  show ?thesis
    unfolding upload_def
    by (auto split: option.split sum.split prod.split simp: assms dest: tx mark)
qed

section \<open>Approvals\<close>

lemma policy_ingest:
  assumes "policy e k org d = (p, d')"
  shows "ingest_inv d' = ingest_inv d"
  using policy_frame [OF assms] by (intro ingest_cong) simp_all

lemma eligible_docs:
  assumes "eligibleApprovers e k org ini d = (el, d')"
  shows "documents d' = documents d" "processings d' = processings d" "invoices d' = invoices d"
proof -
  obtain p d1 where "policy e k org d = (p, d1)" by fastforce
  with assms policy_frame [OF this] show "documents d' = documents d" "processings d' = processings d"
    "invoices d' = invoices d" by (simp_all add: eligibleApprovers_def)
qed

lemma eligible_ingest: "eligibleApprovers e k org ini d = (el, d') \<Longrightarrow> ingest_inv d' = ingest_inv d"
  by (rule ingest_cong) (simp_all add: eligible_docs)

lemma review_complete_reviewed:
  assumes "\<not> review_incomplete d i (documents_of d (inv_org i) (inv_id i))"
  shows "reviewed d i"
  using assms by (auto simp: review_incomplete_def documents_of_def reviewed_def part_of_def document_cleared_def
      list_ex_iff filter_empty_conv)

lemma submit_audits_docs [simp]:
  "documents (submit_audits e a iid v ev r d) = documents d"
  "processings (submit_audits e a iid v ev r d) = processings d"
  by (simp_all add: submit_audits_def)

lemma submit_ingest:
  assumes I: "approval_inv d" and inv: "ingest_inv d"
  shows "ingest_inv (snd (submit e a iid v key d))"
proof -
  have "ingest_inv d'" if "submit_tx e a iid v kh d = Inr (view, d')" for kh view d'
    using that
  proof (cases rule: submit_txE)
    case (replay r)
    with inv show ?thesis by simp
  next
    case (fresh i p d1 bank ev risk req eligible)
    let ?d = "after_submit e a iid v bank risk req d1"
    let ?f = "\<lambda>i :: invoice. i\<lparr>inv_status := AWAITING_APPROVAL, inv_bankVersionId := Some (bank_id bank),
                 inv_version := inv_version i + 1\<rparr>"
    from fresh(1) have i: "find (\<lambda>i. inv_id i = iid \<and> inv_org i = organizationId a) (invoices d) = Some i"
      and rev: "\<not> review_incomplete d i (documents_of d (organizationId a) iid)" and p: "policy e 0 (organizationId a) d = (p, d1)"
      by (simp_all add: submits_def)
    note ex = find_SomeD [OF i]
    have j: "j = i" if "j \<in> set (invoices d)" "moves_on_submit (organizationId a) iid v j" for j
      using distinct_map_unique [OF approval_inv_distinct(1) [OF I] that(1) ex(1)] that(2) ex(2)
      by (simp add: moves_on_submit_def)
    have n: "inv_status j \<noteq> PROCESSING" if "moves_on_submit (organizationId a) iid v j" for j
      using that by (simp add: moves_on_submit_def)
    have r: "reviewed d i" using rev ex(2) by (intro review_complete_reviewed) simp
    have "ingest_inv ?d"
      by (rule ingest_invoices [OF inv, where Q = "moves_on_submit (organizationId a) iid v" and f = ?f])
        (use r j n policy_frame [OF p] in \<open>auto simp: after_submit_def\<close>)
    then show ?thesis using eligible_ingest [OF fresh(4)] ingest_cong [of "submit_audits e a iid (v + 1) ev req ?d" ?d] by simp
  qed
  then show ?thesis
    using inv by (auto simp: submit_def run_def split: sum.split prod.split)
qed

lemma invalidate_ingest:
  assumes "ingest_inv d"
  shows "ingest_inv (invalidate r reason d)"
  by (rule ingest_invoices [OF assms, where Q = "\<lambda>i. inv_org i = req_org r \<and> inv_id i = req_invoiceId r \<and>
             inv_version i = req_invoiceVersion r \<and> inv_status i = AWAITING_APPROVAL"
        and f = "\<lambda>i. i\<lparr>inv_status := NEEDS_REVIEW, inv_version := inv_version i + 1\<rparr>"])
    (simp_all add: invalidate_def)

text \<open>A completed decision closes only the invoice it awaited.\<close>

lemma complete_decision_ingest:
  assumes "distinct (map inv_id (invoices d))" "ingest_inv d" and "complete_decision e r out d = Inr d'"
    and "i \<in> set (invoices d)" "inv_id i = req_invoiceId r" "past_review (inv_status i)"
  shows "ingest_inv d'"
proof -
  have only: "past_review (inv_status j)" if "j \<in> set (invoices d)" "inv_id j = req_invoiceId r" for j
    using distinct_map_unique [OF assms(1) that(1) assms(4)] that assms(5,6) by simp
  then have n: "inv_status j \<noteq> PROCESSING" if "j \<in> set (invoices d)" "inv_id j = req_invoiceId r" for j
    using that by (metis past_review_simps(4))
  have set: "ingest_inv d2" if "set_invoice_status (req_org r) (req_invoiceId r) st d1 = Inr d2"
    "invoices d1 = invoices d" "documents d1 = documents d" "processings d1 = processings d" "st \<noteq> PROCESSING" for st d1 d2
    by (rule ingest_invoices [OF assms(2), where Q = "\<lambda>i. inv_org i = req_org r \<and> inv_id i = req_invoiceId r"
          and f = "\<lambda>i. i\<lparr>inv_status := st\<rparr>"])
      (use that only n in \<open>auto simp: set_invoice_status_def split: if_splits\<close>)
  show ?thesis
    using assms(2,3) by (auto simp: complete_decision_def set_request_status_def split: if_splits dest: set)
qed

lemma decide_ingest:
  assumes I: "approval_inv d" and inv: "ingest_inv d"
  shows "ingest_inv (snd (decide e a rid dto key d))"
proof -
  have "ingest_inv d'" if "decide_tx e a rid dto kh d = Inr (res, d')" for kh res d'
    using that
  proof (cases rule: decide_txE)
    case (replay x r)
    with inv show ?thesis by simp
  next
    case (stale r i reason)
    with inv show ?thesis by (simp add: invalidate_ingest)
  next
    case (recorded r i m s stepUp p d1)
    from recorded(1) have p: "policy e 0 (organizationId a) d = (p, d1)"
      and i: "find (\<lambda>i. inv_id i = req_invoiceId r \<and> inv_org i = organizationId a) (invoices d) = Some i"
      and st: "inv_status i = AWAITING_APPROVAL" by (simp_all add: decides_def)
    note ex = find_SomeD [OF i]
    from recorded(2) obtain d2 d3 eligible and updated :: request where
      c: "create_decision (made_decision e a r m s stepUp dto kh) d1 = Inr d2"
      and c': "complete_decision e r (dto_outcome dto) d2 = Inr d3"
      and el: "eligibleApprovers e 4 (organizationId a) (req_initiatedBy updated)
        (decision_audit e a r stepUp dto d3) = (eligible, d')"
      by (rule record_decisionE) blast
    from c have fr: "invoices d2 = invoices d" "ingest_inv d2 = ingest_inv d"
      using policy_frame [OF p] policy_ingest [OF p] by (auto simp: create_decision_Inr)
    have "ingest_inv d3"
      by (rule complete_decision_ingest [OF _ _ c', of i])
        (use fr inv ex st approval_inv_distinct(1) [OF I] in simp_all)
    then show ?thesis
      using eligible_ingest [OF el] by (simp add: decision_audit_def)
  qed
  then have "ingest_inv (snd (run (decide_tx e a rid dto kh) d))" for kh
    using inv by (auto simp: run_def split: sum.split)
  then show ?thesis
    using inv by (auto simp: decide_def split: sum.split prod.split decide_result.split) (metis snd_conv)+
qed

lemma freeze_approvals_ingest:
  assumes "ingest_inv d"
  shows "ingest_inv (freeze_approvals org vid d)"
  by (rule ingest_invoices [OF assms, where Q = "\<lambda>i. inv_org i = org \<and> inv_vendorId i = Some vid \<and> inv_status i = AWAITING_APPROVAL"
        and f = "\<lambda>i. i\<lparr>inv_status := NEEDS_REVIEW, inv_bankVersionId := None, inv_version := inv_version i + 1\<rparr>"])
    (simp_all add: freeze_approvals_def)

lemma addBankVersion_ingest:
  assumes "ingest_inv d"
  shows "ingest_inv (snd (addBankVersion c svc e a vid country acc d))"
  unfolding addBankVersion_def
proof (rule tx.preserves [where P = ingest_inv, OF _ assms])
  fix view d' assume "addBankVersion_tx c svc e a vid country acc d = Inr (view, d')"
  then obtain b d1 where d1: "d1 = d\<lparr>bank_versions := bank_versions d @ [b],
       bank_verifications := bank_verifications d @ [first_verification e a b]\<rparr>"
    and d': "ingest_inv d' = ingest_inv (if 1 < bank_number b then freeze_approvals (organizationId a) vid d1 else d1)"
    by (rule addBankVersion_tx_Inr) simp
  from d1 have "ingest_inv d1" using assms ingest_cong [of d1 d] by simp
  with d' show "ingest_inv d'" by (simp add: freeze_approvals_ingest)
qed

lemma update_invoice_ingest:
  assumes I: "approval_inv d" and inv: "ingest_inv d"
  shows "ingest_inv (snd (update_invoice e a iid dto d))"
  unfolding update_invoice_def
proof (rule tx.preserves [where P = ingest_inv, OF _ inv])
  fix view d' assume "update_invoice_tx e a iid dto d = Inr (view, d')"
  then obtain existing updated d2 where
    x: "find (\<lambda>i. inv_id i = iid \<and> inv_org i = organizationId a) (invoices d) = Some existing"
    and ed: "canEditInvoiceDraft (inv_status existing)
       (map (\<lambda>x. (doc_storageState x, scan_of d x)) (documents_of d (organizationId a) iid))"
    and w: "write_draft a iid dto (inv_status existing = AWAITING_APPROVAL)
       (if inv_status existing = AWAITING_APPROVAL then withdraw_requests (organizationId a) iid d else d) = Inr d2"
    and d': "d' = draft_audits e a existing updated (inv_status existing = AWAITING_APPROVAL)
       (replace_lines (organizationId a) iid (uid_lines dto) d2)"
    by (rule update_invoice_txE)
  define d1 where "d1 = (if inv_status existing = AWAITING_APPROVAL then withdraw_requests (organizationId a) iid d else d)"
  have d1: "invoices d1 = invoices d" "documents d1 = documents d" "processings d1 = processings d"
    by (simp_all add: d1_def withdraw_requests_def)
  note ex = find_SomeD [OF x]
  have st: "inv_status i \<noteq> PROCESSING" if "i \<in> set (invoices d)" "inv_id i = iid" for i
  proof -
    have "i = existing"
      using distinct_map_unique [OF approval_inv_distinct(1) [OF I] that(1) ex(1)] that ex(2) by simp
    with ed show ?thesis by (auto simp: canEditInvoiceDraft_def split: if_splits)
  qed
  have "ingest_inv d2"
    unfolding write_draft_Inr [OF w, folded d1_def]
    by (rule ingest_invoices [OF inv, where Q = "\<lambda>i. inv_id i = iid \<and> inv_org i = organizationId a \<and> inv_version i = uid_version dto"
          and f = "apply_invoice_dto dto (inv_status existing = AWAITING_APPROVAL)"])
      (use st in \<open>auto simp: d1 apply_invoice_dto_def split: if_splits\<close>)
  moreover have "ingest_inv (replace_lines org iid ls d2) = ingest_inv d2" for org ls
    by (rule ingest_cong) (simp_all add: replace_lines_def split: option.split)
  ultimately show "ingest_inv d'" by (simp add: d' draft_audits_def Let_def)
qed

lemma list_views_ingest: "list_views e org rs d = (vs, d') \<Longrightarrow> ingest_inv d' = ingest_inv d"
  by (induction rs arbitrary: vs d) (auto split: prod.splits dest: eligible_ingest)

lemma policy_ops_ingest:
  assumes "ingest_inv d"
  shows "ingest_inv (snd (list_requests e a d))" "ingest_inv (snd (get_request e a rid d))"
    "ingest_inv (snd (getPolicy e a d))" "ingest_inv (snd (updatePolicy e a dto d))"
proof -
  have "ingest_inv d'" if "updatePolicy_tx e a dto d = Inr (p, d')" for p d'
    using that assms unfolding updatePolicy_tx_def Let_def
    by (auto split: prod.splits if_splits dest: policy_ingest)
  then show "ingest_inv (snd (updatePolicy e a dto d))"
    using assms by (auto simp: updatePolicy_def run_def split: sum.split)
  show "ingest_inv (snd (list_requests e a d))" "ingest_inv (snd (get_request e a rid d))"
    "ingest_inv (snd (getPolicy e a d))"
    using assms by (auto simp: list_requests_def get_request_def getPolicy_def run_def
        split: sum.split option.split prod.splits dest: list_views_ingest eligible_ingest policy_ingest)
qed

section \<open>Reachable databases\<close>

lemmas ops_ingest = framed_ops [THEN ingest_frame] addBankVersion_ingest upload_ingest update_invoice_ingest
  submit_ingest decide_ingest policy_ops_ingest process_job_ingest

interpretation ingest: kept "\<lambda>_. True" "\<lambda>d. approval_inv d \<and> ingest_inv d"
proof
  fix l d d' assume s: "step l d d'" and i: "approval_inv d \<and> ingest_inv d"
  from s have "approval_inv d'" using approvals.keeps i by blast
  moreover from s i have "ingest_inv d'" by cases (simp_all add: ops_ingest)
  ultimately show "approval_inv d' \<and> ingest_inv d'" ..
qed

lemma init_ingest: "init d \<Longrightarrow> ingest_inv d"
  by (simp add: init_def ingest_defs)

lemma reachable_ingest: "reachable d \<Longrightarrow> ingest_inv d"
  using ingest.reachable_keeps init_approval_inv init_ingest by blast

end
