(* ===== verification/Session_Properties.thy ===== *)
theory Session_Properties
  imports Scenario
begin

text \<open>
  What the sessions, the tokens and the passkeys guarantee: tokens carry a signature over what they
  say and expire, an authenticated caller is an active member of the organization it acts for, a
  refresh token works once and its reuse kills the family, and a step-up needs a fresh assertion.
  The HMAC is a parameter; its digest is base64url, so it is not empty and has no dot.
\<close>

definition digest_ok :: "(string \<Rightarrow> string \<Rightarrow> string) \<Rightarrow> bool" where
  "digest_ok hmac \<longleftrightarrow> (\<forall>k m. hmac k m \<noteq> [] \<and> CHR ''.'' \<notin> set (hmac k m))"

definition demo_hmac :: "string \<Rightarrow> string \<Rightarrow> string" where
  "demo_hmac k m = base64url_encode (k @ m @ ''x'')"

lemma demo_hmac_ok: "digest_ok demo_hmac"
  using base64url_Nil base64url_no_dot by (force simp: digest_ok_def demo_hmac_def)

section \<open>Tokens\<close>

lemma payload_encoded: "base64url_encode (utf8_encode (payload_json p)) \<noteq> []"
  using base64url_Nil [of "utf8_encode (payload_json p)"]
  by (auto simp: payload_json_def session_key_def)

lemma claim_encoded: "base64url_encode (utf8_encode (claim_json c)) \<noteq> []"
  using base64url_Nil [of "utf8_encode (claim_json c)"]
  by (auto simp: claim_json_def document_key_def)

lemma access_verified:
  assumes "digest_ok hmac"
  shows "verifyAccessToken hmac key now (signAccessToken hmac key p) =
     (if pl_expiresAt p \<le> now then Inl invalid_access_token else Inr p)"
proof -
  define enc where "enc = base64url_encode (utf8_encode (payload_json p))"
  have "CHR ''.'' \<notin> set enc" "CHR ''.'' \<notin> set (hmac key enc)" "hmac key enc \<noteq> []" "enc \<noteq> []"
    using assms base64url_no_dot payload_encoded by (auto simp: enc_def digest_ok_def)
  moreover have "parse_payload (utf8_decode (base64_decode enc)) = Some p" by (simp add: enc_def)
  moreover have "CHR ''.'' \<notin> set ''v1''" by simp
  ultimately show ?thesis
    using split_on_append [of "CHR ''.''" "''v1''" "enc @ ''.'' @ hmac key enc"]
    by (simp add: signAccessToken_def verifyAccessToken_def Let_def enc_def [symmetric] split_on_append split_on_single)
qed

text \<open>
  An access token is read back as it was signed until it expires.  With a digest that is base64url,
  verifyAccessToken of a token that signAccessToken made with the same key returns exactly the session, user,
  organization and expiry that were signed, down to the base64url and the JSON, and fails from the expiry on.
\<close>

theorem access_token_round_trip:
  assumes "digest_ok hmac"
  shows "verifyAccessToken hmac key now (signAccessToken hmac key p) =
     (if pl_expiresAt p \<le> now then Inl invalid_access_token else Inr p)"
  using assms by (rule access_verified)

theorem access_token_round_trip_witness:
  "verifyAccessToken demo_hmac ''k'' 5 (signAccessToken demo_hmac ''k''
     \<lparr>pl_sessionId = ''s'', pl_userId = ''u'', pl_organizationId = ''o'', pl_expiresAt = 6\<rparr>) =
   Inr \<lparr>pl_sessionId = ''s'', pl_userId = ''u'', pl_organizationId = ''o'', pl_expiresAt = 6\<rparr>"
  by (simp add: access_token_round_trip [OF demo_hmac_ok])

lemma verify_issued:
  assumes "digest_ok hmac"
  shows "verify_download hmac secret t (Some (issue_download hmac secret now ttl doc org)) doc' org' = Inr ()
     \<longleftrightarrow> doc' = doc \<and> org' = org \<and> t \<le> now + ttl * 1000"
proof -
  define c where "c = \<lparr>clm_documentId = doc, clm_organizationId = org, clm_expiresAt = now + ttl * 1000\<rparr>"
  define enc where "enc = base64url_encode (utf8_encode (claim_json c))"
  have "CHR ''.'' \<notin> set enc" "CHR ''.'' \<notin> set (hmac secret enc)" "hmac secret enc \<noteq> []" "enc \<noteq> []"
    using assms base64url_no_dot claim_encoded by (auto simp: enc_def digest_ok_def)
  moreover have "parse_claim (utf8_decode (base64_decode enc)) = Some c" by (simp add: enc_def)
  ultimately show ?thesis
    by (auto simp: issue_download_def verify_download_def sign_def Let_def c_def [symmetric] enc_def [symmetric]
        split_on_append split_on_single) (auto simp: c_def)
qed

text \<open>
  C34: A download token opens one document, for one organization, until it expires.  With a base64url digest,
  the token issued for a document verifies exactly when it is presented for that document by that
  organization and not after its expiry.
\<close>

theorem download_token_opens_one_document:
  assumes "digest_ok hmac"
  shows "verify_download hmac secret t (Some (issue_download hmac secret now ttl doc org)) doc' org' = Inr ()
     \<longleftrightarrow> doc' = doc \<and> org' = org \<and> t \<le> now + ttl * 1000"
  using assms by (rule verify_issued)

theorem download_token_opens_one_document_witness:
  "verify_download demo_hmac ''k'' 1000 (Some (issue_download demo_hmac ''k'' 0 60 ''a0'' ''org'')) ''a0'' ''org'' = Inr () \<and>
   verify_download demo_hmac ''k'' 1000 (Some (issue_download demo_hmac ''k'' 0 60 ''a0'' ''org'')) ''a1'' ''org'' \<noteq> Inr ()"
  by (simp add: download_token_opens_one_document [OF demo_hmac_ok])

section \<open>Authentication\<close>

text \<open>
  C31: An authenticated caller is who the token and the database say.  When authenticateAccessToken accepts
  a token, the token carries the digest of its payload under the signing key, and the context it yields names a
  session that is neither revoked nor expired, of an active user, whose membership in
  the organization is active and not ended, with the role the membership has now.
\<close>

theorem authenticated_context_is_current:
  assumes "authenticateAccessToken hmac key e token d = Inr ctx"
  shows "(\<exists>enc others p. split_on (CHR ''.'') token = ''v1'' # enc # hmac key enc # others \<and>
        parse_payload (utf8_decode (base64_decode enc)) = Some p \<and> clock e 0 < pl_expiresAt p \<and>
        pl_sessionId p = sessionId ctx \<and> pl_userId p = userId ctx \<and> pl_organizationId p = organizationId ctx) \<and>
     (\<exists>s \<in> set (sessions d). ses_id s = sessionId ctx \<and> ses_userId s = userId ctx \<and>
        ses_org s = organizationId ctx \<and> ses_revokedAt s = None \<and> clock e 1 < ses_expiresAt s) \<and>
     (\<exists>u \<in> set (users d). user_id u = userId ctx \<and> user_status u = USER_ACTIVE) \<and>
     (\<exists>m \<in> set (memberships d). mem_id m = membershipId ctx \<and> mem_org m = organizationId ctx \<and>
        mem_userId m = userId ctx \<and> mem_status m = MEMBER_ACTIVE \<and> mem_role m = role ctx \<and>
        (\<forall>t. mem_validUntil m = Some t \<longrightarrow> clock e 2 < t))"
proof -
  from assms obtain p s m where p: "verifyAccessToken hmac key (clock e 0) token = Inr p"
    and s: "find (\<lambda>s. ses_id s = pl_sessionId p) (sessions d) = Some s" "ses_userId s = pl_userId p"
      "ses_org s = pl_organizationId p" "ses_revokedAt s = None" "clock e 1 < ses_expiresAt s"
    and m: "member_of (ses_org s) (ses_userId s) d = Some m" and en: "entitled (clock e 2) (ses_org s) (ses_userId s) d"
    and ctx: "ctx = \<lparr>userId = ses_userId s, membershipId = mem_id m, sessionId = ses_id s,
                organizationId = ses_org s, role = mem_role m, authenticatedAt = ses_createdAt s,
                stepUpVerifiedAt = ses_stepUp s\<rparr>"
    by (auto simp: authenticateAccessToken_def split: sum.splits option.splits if_splits)
  have "\<exists>enc others. split_on (CHR ''.'') token = ''v1'' # enc # hmac key enc # others \<and>
        parse_payload (utf8_decode (base64_decode enc)) = Some p \<and> clock e 0 < pl_expiresAt p"
    using p by (auto simp: verifyAccessToken_def split: list.splits if_splits option.splits)
  moreover note find_SomeD [OF s(1)]
  moreover have "m \<in> set (memberships d)" "mem_org m = ses_org s" "mem_userId m = ses_userId s"
    using find_SomeD [OF m [unfolded member_of_def]] by simp_all
  moreover obtain u where "find (\<lambda>u. user_id u = ses_userId s) (users d) = Some u" "user_status u = USER_ACTIVE"
    using en by (auto simp: entitled_def user_of_def split: option.splits)
  moreover note find_SomeD [OF this(1)]
  moreover have "mem_status m = MEMBER_ACTIVE" "\<forall>t. mem_validUntil m = Some t \<longrightarrow> clock e 2 < t"
    using en m by (auto simp: entitled_def split: option.splits)
  ultimately show ?thesis using s ctx by (intro conjI; force)
qed

definition demo_token :: string where
  "demo_token = signAccessToken demo_hmac ''k'' \<lparr>pl_sessionId = ''so'', pl_userId = ''uo'',
     pl_organizationId = ''org'', pl_expiresAt = 6000000\<rparr>"

lemma demo_authenticated:
  "authenticateAccessToken demo_hmac ''k'' (demo_env ''x'') demo_token demo0 = Inr owner"
proof -
  have v: "verifyAccessToken demo_hmac ''k'' 5000000 demo_token = Inr \<lparr>pl_sessionId = ''so'', pl_userId = ''uo'',
     pl_organizationId = ''org'', pl_expiresAt = 6000000\<rparr>"
    unfolding demo_token_def by (subst access_verified [OF demo_hmac_ok]) simp
  have "member_of ''org'' ''uo'' demo0 = Some (demo_member ''mo'' ''uo'' OWNER)"
    "user_of ''uo'' demo0 = Some (demo_user ''uo'')"
    "find (\<lambda>s. ses_id s = ''so'') (sessions demo0) = Some (demo_session ''so'' ''uo'' (Some 4990000))"
    by (simp_all add: member_of_def user_of_def demo_member_def demo_user_def demo_session_def)
  with v show ?thesis
    by (simp add: authenticateAccessToken_def entitled_def owner_def)
      (simp add: demo_member_def demo_user_def demo_session_def)
qed

theorem authenticated_context_is_current_witness:
  "\<exists>m \<in> set (memberships demo0). mem_id m = ''mo'' \<and> mem_status m = MEMBER_ACTIVE \<and> mem_role m = OWNER"
  using authenticated_context_is_current [OF demo_authenticated] by auto

section \<open>Refresh tokens\<close>

lemma revokeFamily_revokes:
  assumes "s \<in> set (sessions (revokeFamily fam now d))" "ses_family s = fam"
  shows "ses_revokedAt s \<noteq> None"
proof -
  from assms(1) have "s \<in> set (update_rows (\<lambda>s. ses_family s = fam \<and> ses_revokedAt s = None)
      (\<lambda>s. s\<lparr>ses_revokedAt := Some now\<rparr>) (sessions d))"
    by (simp add: revokeFamily_def)
  then show ?thesis using assms(2) by (cases rule: update_rowsE) auto
qed

text \<open>A session that is revoked neither authenticates nor rotates.\<close>

lemma revoked_not_authenticated:
  assumes "find (\<lambda>s. ses_id s = sid) (sessions d) = Some s" "ses_revokedAt s \<noteq> None"
    and "verifyAccessToken hmac key (clock e 0) token = Inr p" "pl_sessionId p = sid"
  shows "authenticateAccessToken hmac key e token d = Inl invalid_access_session"
  using assms by (simp add: authenticateAccessToken_def)

lemma revoked_not_rotated:
  assumes "find (\<lambda>t. tok_hash t = sha256 e tok) (tokens d) = Some t"
    and "find (\<lambda>s. ses_id s = tok_sessionId t) (sessions d) = Some s" "ses_revokedAt s \<noteq> None"
  shows "\<exists>err d'. rotate hmac key e tok md d = (Inl err, d')"
  using assms by (auto simp: rotate_def run_def rotate_tx_def Let_def)

lemma rotate_txE:
  assumes "rotate hmac key e tok md d = (Inr b, d')"
  obtains t s ss ts where "find (\<lambda>t. tok_hash t = sha256 e tok) (tokens d) = Some t"
    "find (\<lambda>s. ses_id s = tok_sessionId t) (sessions d) = Some s"
    "tok_usedAt t = None" "tok_revokedAt t = None" "ses_revokedAt s = None" "clock e 0 < ses_expiresAt s"
    "entitled (clock e 0) (ses_org s) (ses_userId s) d" "b = bundle_of hmac key e s"
    "sessions d' = update_rows (\<lambda>x. ses_id x = ses_id s) (rotated_session e md) (sessions d)"
    "tokens d' = update_rows (\<lambda>x. tok_id x = tok_id t \<and> tok_usedAt x = None \<and> tok_revokedAt x = None)
        (\<lambda>x. x\<lparr>tok_usedAt := Some (clock e 0)\<rparr>) (tokens d) @
      [new_token (new_uuid e 0) (ses_id s) (sha256 e (random_token e 0)) (ses_expiresAt s)]"
    "\<forall>x \<in> set (tokens d). tok_hash x \<noteq> sha256 e (random_token e 0)"
proof -
  from assms obtain s where "rotate_tx e tok md d = Inr (ROTATED s, d')" "b = bundle_of hmac key e s"
    by (auto simp: rotate_def run_def split: sum.splits rotation.splits)
  then obtain t ts where t: "find (\<lambda>t. tok_hash t = sha256 e tok) (tokens d) = Some t"
    "find (\<lambda>s. ses_id s = tok_sessionId t) (sessions d) = Some s"
    "tok_usedAt t = None" "tok_revokedAt t = None" "ses_revokedAt s = None" "clock e 0 < ses_expiresAt s"
    "entitled (clock e 0) (ses_org s) (ses_userId s) d"
    and ts: "create_unique token_keys (new_token (new_uuid e 0) (ses_id s) (sha256 e (random_token e 0)) (ses_expiresAt s))
      (update_rows (\<lambda>x. tok_id x = tok_id t \<and> tok_usedAt x = None \<and> tok_revokedAt x = None)
        (\<lambda>x. x\<lparr>tok_usedAt := Some (clock e 0)\<rparr>) (tokens d)) = Inr ts"
    and d': "sessions d' = update_rows (\<lambda>x. ses_id x = ses_id s) (rotated_session e md) (sessions d)" "tokens d' = ts"
    by (auto simp: rotate_tx_def use_token_def Let_def update_unique_Inr split: option.splits if_splits sum.splits)
  have hash: "map tok_hash (update_rows P (\<lambda>x. x\<lparr>tok_usedAt := u\<rparr>) xs) = map tok_hash xs" for P u xs
    by (rule map_update_rows) simp
  from ts have new: "ts = update_rows (\<lambda>x. tok_id x = tok_id t \<and> tok_usedAt x = None \<and> tok_revokedAt x = None)
        (\<lambda>x. x\<lparr>tok_usedAt := Some (clock e 0)\<rparr>) (tokens d) @
      [new_token (new_uuid e 0) (ses_id s) (sha256 e (random_token e 0)) (ses_expiresAt s)]"
    "sha256 e (random_token e 0) \<notin> set (map tok_hash (update_rows (\<lambda>x. tok_id x = tok_id t \<and> tok_usedAt x = None \<and> tok_revokedAt x = None)
        (\<lambda>x. x\<lparr>tok_usedAt := Some (clock e 0)\<rparr>) (tokens d)))"
    by (auto simp: create_unique_Inr token_keys_def new_token_def simp del: set_update_rows)
  from new(2) have "\<forall>x \<in> set (tokens d). tok_hash x \<noteq> sha256 e (random_token e 0)"
    unfolding hash set_map by (metis imageI)
  with t d' new(1) \<open>b = bundle_of hmac key e s\<close> show thesis by (intro that [of t s]) simp_all
qed

lemma revokeFamily_frame_ids:
  "find (\<lambda>s. ses_id s = sid) (sessions (revokeFamily fam now d)) =
     map_option (\<lambda>s. if ses_family s = fam \<and> ses_revokedAt s = None then s\<lparr>ses_revokedAt := Some now\<rparr> else s)
       (find (\<lambda>s. ses_id s = sid) (sessions d))"
  "find (\<lambda>t. tok_hash t = h) (tokens (revokeFamily fam now d)) =
     map_option (\<lambda>t. if in_family fam d t \<and> tok_revokedAt t = None then t\<lparr>tok_revokedAt := Some now\<rparr> else t)
       (find (\<lambda>t. tok_hash t = h) (tokens d))"
  by (simp_all add: revokeFamily_def find_update_rows)

text \<open>The second use of a refresh token, whoever makes it.\<close>

lemma reuse_revokes:
  assumes "rotate hmac key e tok md d = (Inr b, d')" and "sha256 e2 = sha256 e" "sha256 e3 = sha256 e"
  shows "\<exists>d2 fam. rotate hmac key e2 tok md2 d' = (Inl refresh_reused, d2) \<and>
     (\<exists>s \<in> set (sessions d). ses_id s = sb_sessionId b \<and> ses_family s = fam) \<and>
     (\<forall>s \<in> set (sessions d2). ses_family s = fam \<longrightarrow> ses_revokedAt s \<noteq> None) \<and>
     (\<exists>err d3. rotate hmac key e3 (sb_refreshToken b) md3 d2 = (Inl err, d3)) \<and>
     (\<forall>token p. verifyAccessToken hmac key (clock e3 0) token = Inr p \<and> pl_sessionId p = sb_sessionId b \<longrightarrow>
        authenticateAccessToken hmac key e3 token d2 = Inl invalid_access_session)"
  using assms(1)
proof (rule rotate_txE)
  fix t s ts
  assume t: "find (\<lambda>t. tok_hash t = sha256 e tok) (tokens d) = Some t"
    and s: "find (\<lambda>s. ses_id s = tok_sessionId t) (sessions d) = Some s"
    and un: "tok_usedAt t = None" "tok_revokedAt t = None" and b: "b = bundle_of hmac key e s"
    and d': "sessions d' = update_rows (\<lambda>x. ses_id x = ses_id s) (rotated_session e md) (sessions d)"
      "tokens d' = update_rows (\<lambda>x. tok_id x = tok_id t \<and> tok_usedAt x = None \<and> tok_revokedAt x = None)
        (\<lambda>x. x\<lparr>tok_usedAt := Some (clock e 0)\<rparr>) (tokens d) @
      [new_token (new_uuid e 0) (ses_id s) (sha256 e (random_token e 0)) (ses_expiresAt s)]"
    and new: "\<forall>x \<in> set (tokens d). tok_hash x \<noteq> sha256 e (random_token e 0)"
  have keep: "\<forall>r. (ses_id (rotated_session e md r) = x) = (ses_id r = x)" for x
    by (simp add: rotated_session_def)
  have fam: "ses_family (rotated_session e md s) = ses_family s" "ses_id (rotated_session e md s) = ses_id s"
    by (simp_all add: rotated_session_def)
  note sid = find_SomeD(2) [OF s]
  have s': "find (\<lambda>x. ses_id x = tok_sessionId t) (sessions d') = Some (rotated_session e md s)"
    by (simp add: d' find_update_rows keep s sid)
  have t': "find (\<lambda>t. tok_hash t = sha256 e tok) (tokens d') = Some (t\<lparr>tok_usedAt := Some (clock e 0)\<rparr>)"
    by (simp add: d' find_append find_update_rows t un)
  define d2 where "d2 = revokeFamily (ses_family s) (clock e2 0) d'"
  have reuse: "rotate hmac key e2 tok md2 d' = (Inl refresh_reused, d2)"
    using s' t' assms(2) by (simp add: rotate_def run_def rotate_tx_def Let_def d2_def fam)
  have n: "find (\<lambda>t. tok_hash t = sha256 e (random_token e 0)) (tokens d') =
      Some (new_token (new_uuid e 0) (ses_id s) (sha256 e (random_token e 0)) (ses_expiresAt s))"
  proof -
    have "find (\<lambda>t. tok_hash t = sha256 e (random_token e 0)) (tokens d) = None"
      using new by (auto simp: find_None_iff)
    then show ?thesis by (simp add: d' find_append find_update_rows) (simp add: new_token_def)
  qed
  obtain s2 where s2: "find (\<lambda>x. ses_id x = ses_id s) (sessions d2) = Some s2" "ses_revokedAt s2 \<noteq> None"
    using s' sid by (auto simp: d2_def revokeFamily_frame_ids fam)
  obtain t2 where t2: "find (\<lambda>t. tok_hash t = sha256 e (random_token e 0)) (tokens d2) = Some t2" "tok_sessionId t2 = ses_id s"
    using n by (auto simp: d2_def revokeFamily_frame_ids new_token_def)
  have "\<exists>err d3. rotate hmac key e3 (sb_refreshToken b) md3 d2 = (Inl err, d3)"
    using revoked_not_rotated [of e3 "sb_refreshToken b" d2 t2 s2] t2 s2 assms(3) by (simp add: b bundle_of_def Let_def)
  moreover have "sb_sessionId b = ses_id s" by (simp add: b bundle_of_def Let_def)
  moreover have "\<forall>x \<in> set (sessions d2). ses_family x = ses_family s \<longrightarrow> ses_revokedAt x \<noteq> None"
    using revokeFamily_revokes unfolding d2_def by blast
  moreover have "\<forall>token p. verifyAccessToken hmac key (clock e3 0) token = Inr p \<and> pl_sessionId p = ses_id s \<longrightarrow>
        authenticateAccessToken hmac key e3 token d2 = Inl invalid_access_session"
    using revoked_not_authenticated [OF s2] by blast
  ultimately show ?thesis
    using reuse find_SomeD(1) [OF s] by (intro exI [of _ d2] exI [of _ "ses_family s"]) auto
qed


lemma rotated_bundle: "rotate hmac key e tok md d = (Inr b, d') \<Longrightarrow> \<exists>s. b = bundle_of hmac key e s"
  by (auto elim!: rotate_txE)

definition demo_metadata :: metadata where
  "demo_metadata = \<lparr>md_userAgent = None, md_ipAddress = Some ''127.0.0.1''\<rparr>"

definition demo_login :: db where
  "demo_login = snd (create_session demo_hmac ''k'' (demo_env ''c'') ''uo'' ''org'' demo_metadata demo0)"

lemma demo0_tokens [simp]: "tokens demo0 = []"
  by (simp add: demo0_def empty_db_def)

lemma demo_login_tables:
  "tokens demo_login = [new_token ''c2'' ''c0'' ''ct'' 91400000]"
  "sessions demo_login = sessions demo0 @ [new_session (demo_env ''c'') ''uo'' ''org'' demo_metadata]"
  "users demo_login = users demo0" "memberships demo_login = memberships demo0"
  by (simp_all add: demo_login_def create_session_def run_def create_session_tx_def new_session_def demo_metadata_def
      create_unique_def session_keys_def token_keys_def new_token_def demo_session_def Let_def)

lemma demo_rotates:
  "\<exists>b d'. rotate demo_hmac ''k'' (demo_env ''r'') ''ct'' demo_metadata demo_login = (Inr b, d')"
  by (simp add: rotate_def run_def rotate_tx_def demo_login_tables new_token_def new_session_def demo_session_def
      entitled_def user_of_def member_of_def demo_user_def demo_member_def use_token_def update_unique_def
      create_unique_def token_keys_def session_keys_def rotated_session_def count_rows_def Let_def)


section \<open>Step-up\<close>

text \<open>
  C32: A step-up is a fresh proof of possession.  When verifyStepUp succeeds, the caller's session had an
  unused and unexpired step-up challenge, the verifier accepted the response for that challenge with a credential
  of the same user and with user verification; afterwards the session, and no other, carries the time of the
  step-up, the challenge is used up, and the stored signature counter is the one the verifier reported.
\<close>

theorem step_up_needs_a_fresh_assertion:
  assumes "verifyStepUp verifier e a response d = (Inr at_time, d')"
  shows "\<exists>c cr info. c \<in> set (challenges d) \<and> ch_userId c = userId a \<and> ch_sessionId c = sessionId a \<and>
     ch_purpose c = STEP_UP \<and> ch_usedAt c = None \<and> clock e 0 < ch_expiresAt c \<and>
     cr \<in> set (credentials d) \<and> cred_userId cr = userId a \<and> cred_credentialId cr = as_id response \<and>
     verifier response (ch_challenge c) cr = Inr (Some info) \<and> ai_userVerified info \<and>
     (\<forall>x \<in> set (challenges d'). \<not> live_challenge (clock e 1) (ch_id c) x) \<and>
     (\<forall>x \<in> set (credentials d'). cred_id x = cred_id cr \<longrightarrow> cred_counter x = ai_newCounter info) \<and>
     sessions d' = map (\<lambda>s. if ses_id s = sessionId a then s\<lparr>ses_stepUp := Some (clock e 1)\<rparr> else s) (sessions d)"
proof -
  from assms obtain c cr info where c: "activeChallenge (clock e 0) a STEP_UP d = Inr c"
    and cr: "find (\<lambda>x. cred_credentialId x = as_id response) (credentials d) = Some cr" "cred_userId cr = userId a"
    and info: "verifier response (ch_challenge c) cr = Inr (Some info)" "ai_userVerified info"
    and tx: "step_up_tx e a c cr info d = Inr (True, d')"
    by (auto simp: verifyStepUp_def run_def split: sum.splits option.splits if_splits bool.splits)
  from c have "find_latest (\<lambda>c. ch_userId c = userId a \<and> ch_sessionId c = sessionId a \<and>
            ch_purpose c = STEP_UP \<and> ch_usedAt c = None \<and> clock e 0 < ch_expiresAt c) (challenges d) = Some c"
    by (auto simp: activeChallenge_def split: option.splits)
  note ch = find_SomeD [OF this [unfolded find_latest_def]]
  from tx have d': "challenges d' = update_rows (live_challenge (clock e 1) (ch_id c)) (\<lambda>c. c\<lparr>ch_usedAt := Some (clock e 1)\<rparr>) (challenges d)"
    "credentials d' = update_rows (\<lambda>x. cred_id x = cred_id cr) (\<lambda>x. x\<lparr>cred_counter := ai_newCounter info,
       cred_backedUp := ai_backedUp info, cred_lastUsedAt := Some (clock e 1)\<rparr>) (credentials d)"
    "sessions d' = update_rows (\<lambda>s. ses_id s = sessionId a) (\<lambda>s. s\<lparr>ses_stepUp := Some (clock e 1)\<rparr>) (sessions d)"
    by (auto simp: step_up_tx_def consume_challenge_def Let_def split: if_splits)
  have "\<not> live_challenge (clock e 1) (ch_id c) x" if "x \<in> set (challenges d')" for x
    using that unfolding d' by (cases rule: update_rowsE) (auto simp: live_challenge_def)
  moreover have "cred_counter x = ai_newCounter info" if "x \<in> set (credentials d')" "cred_id x = cred_id cr" for x
    using that(1) unfolding d' by (cases rule: update_rowsE) (use that(2) in auto)
  moreover have "sessions d' = map (\<lambda>s. if ses_id s = sessionId a then s\<lparr>ses_stepUp := Some (clock e 1)\<rparr> else s) (sessions d)"
    unfolding d' update_rows_def ..
  ultimately show ?thesis
    using ch cr find_SomeD [OF cr(1)] info by (intro exI [of _ c] exI [of _ cr] exI [of _ info]) auto
qed

definition demo_passkey :: credential where
  "demo_passkey = \<lparr>cred_id = ''p'', cred_userId = ''uo'', cred_credentialId = ''pk'', cred_publicKey = [],
     cred_counter = 3, cred_transports = [], cred_deviceName = None, cred_backedUp = False, cred_lastUsedAt = None\<rparr>"

definition demo_challenged :: db where
  "demo_challenged = demo0\<lparr>credentials := [demo_passkey],
     challenges := [\<lparr>ch_id = ''h'', ch_userId = ''uo'', ch_sessionId = ''so'', ch_purpose = STEP_UP,
       ch_challenge = ''ch'', ch_expiresAt = 5100000, ch_usedAt = None\<rparr>]\<rparr>"

definition demo_verifier :: authentication_verifier where
  "demo_verifier resp ch cr = Inr (if as_body resp = ch then
     Some \<lparr>ai_userVerified = True, ai_newCounter = cred_counter cr + 1, ai_backedUp = False\<rparr> else None)"

theorem step_up_needs_a_fresh_assertion_witness:
  "\<exists>at_time d'. verifyStepUp demo_verifier (demo_env ''u'') owner \<lparr>as_id = ''pk'', as_body = ''ch''\<rparr> demo_challenged = (Inr at_time, d') \<and>
     (\<forall>x \<in> set (credentials d'). cred_id x = ''p'' \<longrightarrow> cred_counter x = 4)"
proof -
  have "\<exists>at_time d'. verifyStepUp demo_verifier (demo_env ''u'') owner \<lparr>as_id = ''pk'', as_body = ''ch''\<rparr> demo_challenged = (Inr at_time, d')"
    by (simp add: verifyStepUp_def activeChallenge_def find_latest_def demo_challenged_def demo_passkey_def demo_verifier_def
        run_def step_up_tx_def consume_challenge_def live_challenge_def count_rows_def demo_session_def Let_def)
  then obtain at_time d' where r: "verifyStepUp demo_verifier (demo_env ''u'') owner \<lparr>as_id = ''pk'', as_body = ''ch''\<rparr> demo_challenged = (Inr at_time, d')"
    by blast
  from step_up_needs_a_fresh_assertion [OF r] have "\<forall>x \<in> set (credentials d'). cred_id x = ''p'' \<longrightarrow> cred_counter x = 4"
    by (auto simp: demo_challenged_def demo_passkey_def demo_verifier_def)
  with r show ?thesis by blast
qed

end
