(* ===== verification/Work_Queue.thy ===== *)
theory Work_Queue
  imports Pipeline
begin

text \<open>
  The job queue between the API and the worker: \<open>invoices/invoice-queue.service.ts\<close> hands over a job with its
  options, \<open>apps/worker/src/main.ts\<close> takes jobs of two queues, reports each outcome on the console and shuts
  down in order.  Of the queue library a job carries its identifier, the attempts made and the attempts
  granted; closing a connection may fail.
\<close>

section \<open>\<open>InvoiceQueueService\<close>\<close>

record job_options =
  jo_jobId :: string
  jo_attempts :: nat
  jo_backoff :: "string \<times> nat"
  jo_removeOnComplete :: nat
  jo_removeOnFail :: nat

definition job_options :: "ingest_job \<Rightarrow> job_options" where
  "job_options j =
     \<lparr>jo_jobId = ''invoice-'' @ job_invoiceId j @ ''-ingest'', jo_attempts = 3, jo_backoff = (''exponential'', 2000),
      jo_removeOnComplete = 100, jo_removeOnFail = 500\<rparr>"

definition redis_url :: "string option \<Rightarrow> string" where
  "redis_url configured = (case configured of None \<Rightarrow> ''redis://localhost:6379'' | Some url \<Rightarrow> url)"

section \<open>Jobs\<close>

record 'a bull_job =
  bull_id :: "string option"
  bull_name :: string
  bull_data :: 'a
  bull_attemptsMade :: nat
  bull_attempts :: "nat option"

text \<open>The job that \<open>enqueue\<close> adds, before its first attempt.\<close>

definition enqueue :: "ingest_job \<Rightarrow> ingest_job bull_job" where
  "enqueue j =
     \<lparr>bull_id = Some (jo_jobId (job_options j)), bull_name = ''invoice.ingest'', bull_data = j, bull_attemptsMade = 0,
      bull_attempts = Some (jo_attempts (job_options j))\<rparr>"

text \<open>A line on the console; \<open>JSON.stringify\<close> leaves out what is undefined.\<close>

datatype console_line = Console_Info json | Console_Error json

definition log_fields :: "(string \<times> string option) list \<Rightarrow> json" where
  "log_fields kvs = JObject (List.map_filter (\<lambda>(k, v). map_option (\<lambda>s. (k, JString s)) v) kvs)"

section \<open>The two workers\<close>

record system_job =
  sj_correlationId :: string

definition system_handler :: "system_job bull_job \<Rightarrow> console_line list" where
  "system_handler job =
     [Console_Info (log_fields [(''event'', Some ''job.completed''), (''jobId'', bull_id job), (''jobName'', Some (bull_name job)),
        (''correlationId'', Some (sj_correlationId (bull_data job)))])]"

text \<open>A failed attempt throws the error out of the handler, before the line is written.\<close>

definition invoice_handler ::
  "env \<Rightarrow> ingest_world \<Rightarrow> ingest_job bull_job \<Rightarrow> db \<Rightarrow> (string option \<times> console_line list) \<times> db" where
  "invoice_handler e w job d =
     (case process_job e w (bull_data job) (is_final (bull_attemptsMade job) (bull_attempts job)) d of
        (Some err, d') \<Rightarrow> ((Some err, []), d')
      | (None, d') \<Rightarrow>
          ((None, [Console_Info (log_fields [(''event'', Some ''invoice.ingest.completed''), (''jobId'', bull_id job),
             (''invoiceId'', Some (job_invoiceId (bull_data job)))])]), d'))"

text \<open>\<open>Number(process.env.INVOICE_WORKER_CONCURRENCY ?? 2)\<close>, where \<open>None\<close> stands for not a number.\<close>

definition invoice_concurrency :: "string option \<Rightarrow> rat option" where
  "invoice_concurrency configured = (case configured of None \<Rightarrow> Some 2 | Some s \<Rightarrow> js_number s)"

section \<open>Failures\<close>

definition system_failed :: "system_job bull_job option \<Rightarrow> string \<Rightarrow> console_line" where
  "system_failed job errorName =
     Console_Error (log_fields [(''event'', Some ''job.failed''), (''jobId'', Option.bind job bull_id),
       (''jobName'', map_option bull_name job), (''errorName'', Some errorName)])"

definition invoice_failed :: "ingest_job bull_job option \<Rightarrow> string \<Rightarrow> console_line" where
  "invoice_failed job errorName =
     Console_Error (log_fields [(''event'', Some ''invoice.ingest.failed''), (''jobId'', Option.bind job bull_id),
       (''invoiceId'', map_option (\<lambda>j. job_invoiceId (bull_data j)) job), (''errorName'', Some errorName)])"

text \<open>
  The queue repeats a failed job until its attempts are spent, and reports every failure.  Each element of the list is the
  world of one attempt.
\<close>

fun work_off ::
  "(env \<times> ingest_world) list \<Rightarrow> ingest_job bull_job \<Rightarrow> db \<Rightarrow> (string option \<times> console_line list) \<times> db" where
  "work_off [] job d = ((None, []), d)"
| "work_off ((e, w) # ews) job d =
     (case invoice_handler e w job d of
        ((None, out), d') \<Rightarrow> ((None, out), d')
      | ((Some err, out), d') \<Rightarrow>
          let out' = out @ [invoice_failed (Some job) err] in
          if is_final (bull_attemptsMade job) (bull_attempts job) then ((Some err, out'), d')
          else (case work_off ews (job\<lparr>bull_attemptsMade := Suc (bull_attemptsMade job)\<rparr>) d' of
                  ((r, out''), d'') \<Rightarrow> ((r, out' @ out''), d'')))"

section \<open>Start and shutdown\<close>

definition worker_started :: console_line where
  "worker_started = Console_Info (JObject [(''event'', JString ''worker.started''),
     (''queues'', JArray [JString ''bloctrust.system'', JString ''bloctrust.invoice-ingest''])])"

datatype resource = System_Worker | Invoice_Worker | Invoice_Pipeline | Job_Queue | Redis_Connection

text \<open>Resources are closed one after the other, until one of them fails; the answer holds those that were closed.\<close>

fun close_all :: "(resource \<Rightarrow> string option) \<Rightarrow> resource list \<Rightarrow> resource list \<times> string option" where
  "close_all fails [] = ([], None)"
| "close_all fails (r # rs) =
     (case fails r of
        Some err \<Rightarrow> ([], Some err)
      | None \<Rightarrow> (case close_all fails rs of (rest, err) \<Rightarrow> (r # rest, err)))"

definition shutdown :: "string \<Rightarrow> (resource \<Rightarrow> string option) \<Rightarrow> console_line \<times> resource list \<times> string option" where
  "shutdown signal fails =
     (Console_Info (log_fields [(''event'', Some ''worker.shutdown''), (''signal'', Some signal)]),
      close_all fails [System_Worker, Invoice_Worker, Invoice_Pipeline, Redis_Connection])"

definition queue_onModuleDestroy :: "(resource \<Rightarrow> string option) \<Rightarrow> resource list \<times> string option" where
  "queue_onModuleDestroy fails = close_all fails [Job_Queue, Redis_Connection]"

section \<open>What the queue leaves in the database\<close>

text \<open>Apart from the console, working a job off is \<open>run_attempts\<close> with what the job carries.\<close>

lemma work_off_attempts:
  "work_off ews job d = ((r, out), d') \<Longrightarrow> run_attempts ews (bull_attemptsMade job) (bull_attempts job) (bull_data job) d = (r, d')"
proof (induction ews job d arbitrary: r out d' rule: work_off.induct)
  case (2 e w ews job d)
  then show ?case
    by (auto simp: invoice_handler_def Let_def split: prod.splits option.splits if_splits)
qed simp

lemma enqueue_simps [simp]:
  "bull_data (enqueue j) = j" "bull_attemptsMade (enqueue j) = 0" "bull_attempts (enqueue j) = Some 3"
  by (simp_all add: enqueue_def job_options_def)

end
