(* ===== verification/Ingest_Properties.thy ===== *)
theory Ingest_Properties
  imports Ingest_Invariant Session_Properties Work_Queue
begin

text \<open>
  What the ingestion guarantees: nothing infected or unscanned is ever served or approved, an
  infected upload ends blocked for good, and the attempts of a job always bring its invoice out of
  PROCESSING.
\<close>

lemma ingest_pair:
  assumes "ingest_inv d" "x \<in> set (documents d)" "doc_storageState x = STORED_APPROVED"
  shows "scan_of d x = Some SCAN_CLEAN" "doc_sha256 x \<noteq> None" "doc_approvedKey x \<noteq> None"
proof -
  from assms(1,2) obtain p where p: "p \<in> set (processings d)" "belongs p x" "pair_ok x p"
    by (auto simp: ingest_inv_def files_ok_def)
  have "distinct (map pr_documentId (processings d))" using assms(1) by (simp add: ingest_inv_def files_ok_def)
  from find_unique [OF this p(1), of "\<lambda>p. pr_documentId p = doc_id x \<and> pr_org p = doc_org x"] p(2)
  have "find (\<lambda>p. pr_documentId p = doc_id x \<and> pr_org p = doc_org x) (processings d) = Some p"
    by (simp add: belongs_def)
  with p(3) assms(3) show "scan_of d x = Some SCAN_CLEAN" "doc_sha256 x \<noteq> None" "doc_approvedKey x \<noteq> None"
    by (simp_all add: scan_of_def pair_ok_def)
qed

section \<open>Approvals and downloads\<close>

text \<open>
  C4: An invoice that awaits approval, is approved or was rejected has at least one document, and every one of
  its documents is stored in the approved bucket and scanned clean.  This holds in every reachable
  database, whatever uploads, worker attempts with their failures, edits and decisions led to it.
\<close>

theorem approvals_rest_on_clean_documents:
  assumes "reachable d" and "i \<in> set (invoices d)"
    and "inv_status i \<in> {AWAITING_APPROVAL, APPROVED, REJECTED}"
  shows "documents_of d (inv_org i) (inv_id i) \<noteq> [] \<and>
     (\<forall>x \<in> set (documents_of d (inv_org i) (inv_id i)). document_cleared d x)"
proof -
  have I: "ingest_inv d" using assms(1) by (rule reachable_ingest)
  then have "reviewed d i" using assms(2,3) by (auto simp: ingest_inv_def past_review_def)
  then show ?thesis
    using ingest_pair(1) [OF I]
    by (auto simp: reviewed_def part_of_def documents_of_def document_cleared_def filter_empty_conv)
qed

theorem approvals_rest_on_clean_documents_witness:
  "documents_of demo5 ''org'' ''a1'' \<noteq> [] \<and>
     list_all (document_cleared demo5) (documents_of demo5 ''org'' ''a1'')"
  using approvals_rest_on_clean_documents [OF demo_reachable(6), of "demo_complete APPROVED 3 (Some ''b'')"]
  by (simp add: list_all_iff)

text \<open>
  C25: Only clean documents are served, and only to their organization.  When a download succeeds in a
  reachable database, the streamed object is the approved copy of a document of the caller's organization whose hash is
  recorded and whose scan said clean; the caller held a token that the server accepted; and the
  download is in the audit trail.
\<close>

theorem served_documents_are_clean:
  assumes "reachable d" and "download hmac secret e stored a did token d = (Inr s, d')"
  shows "(\<exists>x \<in> set (documents d). doc_id x = did \<and> doc_org x = organizationId a \<and>
      doc_approvedKey x = Some (dls_key s) \<and> doc_sha256 x \<noteq> None \<and> document_cleared d x) \<and>
     verify_download hmac secret (clock e 0) token did (organizationId a) = Inr () \<and>
     (\<exists>v. audit d' = audit d @ [v] \<and> au_entityId v = did \<and> au_actor v = Some (membershipId a) \<and>
        au_org v = organizationId a \<and> au_action v = ''DOCUMENT_DOWNLOADED'')"
proof -
  have I: "ingest_inv d" using assms(1) by (rule reachable_ingest)
  from assms(2) obtain x where x: "find (\<lambda>x. doc_id x = did \<and> doc_org x = organizationId a \<and> doc_storageState x = STORED_APPROVED \<and>
            doc_approvedKey x \<noteq> None) (documents d) = Some x"
    and v: "verify_download hmac secret (clock e 0) token did (organizationId a) = Inr ()"
    and s: "dls_key s = the (doc_approvedKey x)" and d': "d' = download_audit e a ''DOCUMENT_DOWNLOADED'' x d"
    by (auto simp: download_def approvedDocument_def run_def split: sum.splits option.splits)
  note ex = find_SomeD [OF x]
  have "document_cleared d x" "doc_sha256 x \<noteq> None" "doc_approvedKey x = Some (dls_key s)"
    using ingest_pair [OF I ex(1)] ex(2) s by (simp_all add: document_cleared_def)
  moreover have "\<exists>v. audit d' = audit d @ [v] \<and> au_entityId v = did \<and> au_actor v = Some (membershipId a) \<and>
        au_org v = organizationId a \<and> au_action v = ''DOCUMENT_DOWNLOADED''"
    using ex(2) by (simp add: d' download_audit_def writeAudit_def)
  ultimately show ?thesis using ex v by blast
qed

theorem served_documents_are_clean_witness:
  "\<exists>s d'. download demo_hmac ''k'' (demo_env ''x'') None owner ''a0''
      (Some (issue_download demo_hmac ''k'' 4990000 60 ''a0'' ''org'')) demo5 = (Inr s, d') \<and> dls_key s = ''p0/p1'' \<and>
     document_cleared demo5 demo_approved_document"
proof -
  have "verify_download demo_hmac ''k'' 5000000 (Some (issue_download demo_hmac ''k'' 4990000 60 ''a0'' ''org'')) ''a0'' ''org'' = Inr ()"
    by (simp add: verify_issued [OF demo_hmac_ok])
  then obtain s d' where s: "download demo_hmac ''k'' (demo_env ''x'') None owner ''a0''
      (Some (issue_download demo_hmac ''k'' 4990000 60 ''a0'' ''org'')) demo5 = (Inr s, d')" "dls_key s = ''p0/p1''"
    by (simp add: download_def run_def approvedDocument_def)
  from served_documents_are_clean [OF demo_reachable(6) s(1)] have "document_cleared demo5 demo_approved_document"
    by simp
  with s show ?thesis by blast
qed

section \<open>Infected uploads\<close>

lemma progress_succeeds:
  assumes "\<forall>p \<in> set (processings d). for_job j p \<longrightarrow> transition_ok (pr_state p) st"
  shows "\<exists>d'. progress now j st n inc scan d = Inr d'"
  using assms by (simp add: progress_def update_processings_Inr)

lemma only_processing:
  assumes "ingest_inv d" "p \<in> set (processings d)" "for_job j p" "q \<in> set (processings d)" "for_job j q"
  shows "q = p"
proof -
  have "distinct (map pr_documentId (processings d))" using assms(1) by (simp add: ingest_inv_def files_ok_def)
  from distinct_map_unique [OF this assms(4,2)] assms(3,5) show ?thesis by (simp add: for_job_def)
qed

lemma only_document:
  assumes "ingest_inv d" "x \<in> set (documents d)" "job_document j x" "y \<in> set (documents d)" "job_document j y"
  shows "y = x"
proof -
  have "distinct (map doc_id (documents d))" using assms(1) by (simp add: ingest_inv_def files_ok_def)
  from distinct_map_unique [OF this assms(4,2)] assms(3,5) show ?thesis by (simp add: job_document_def)
qed

text \<open>What the block leaves behind.\<close>

lemma block_outcome:
  assumes "block e now j d = Inr (u, d')"
  shows "\<forall>y \<in> set (documents d'). job_document j y \<longrightarrow> doc_storageState y = STORED_BLOCKED"
    and "\<forall>q \<in> set (processings d'). for_job j q \<longrightarrow> pr_state q = PROC_BLOCKED \<and> pr_scanResult q = SCAN_INFECTED"
    and "\<forall>i \<in> set (invoices d'). job_invoice j i \<longrightarrow> inv_status i = BLOCKED"
  using assms
  by (auto simp: block_def table_simps worker_audit_def set_status_def job_document_def for_job_def job_invoice_def
      split: sum.splits if_splits)

lemma block_succeeds:
  assumes "ingest_inv d" "x \<in> set (documents d)" "job_document j x" "doc_storageState x = STORED_QUARANTINED"
    and "\<forall>p \<in> set (processings d). for_job j p \<longrightarrow> pr_state p = PROC_SCANNING"
  shows "\<exists>d'. block e now j d = Inr ((), d')"
proof -
  have "doc_approvedKey x = None"
    using assms(1,2,4) by (fastforce simp: ingest_inv_def files_ok_def pair_ok_def)
  then have key: "doc_approvedKey y = None" if "y \<in> set (documents d)" "job_document j y" for y
    using only_document [OF assms(1-3) that] by simp
  let ?f = "\<lambda>x :: document. x\<lparr>doc_storageState := STORED_BLOCKED\<rparr>"
  have "update_documents j ?f d = Inr (d\<lparr>documents := update_rows (job_document j) ?f (documents d)\<rparr>)"
    using key by (auto simp: update_documents_Inr identity_ok_def)
  moreover have "\<forall>p \<in> set (processings d). for_job j p \<longrightarrow> transition_ok (pr_state p) PROC_BLOCKED"
    using assms(5) by (simp add: transition_ok_def)
  ultimately show ?thesis by (simp add: block_def update_processings_def list_ex_iff)
qed

text \<open>
  An infected upload is blocked for good.  When the scanner finds malware in a quarantined document of
  a reachable database, the attempt ends without error; the document is BLOCKED, its processing is
  BLOCKED as INFECTED, its invoice is BLOCKED; no member of the organization can be issued a download of it or be
  served it afterwards; and another attempt of the job changes nothing.
\<close>

theorem infected_document_is_blocked:
  assumes "reachable d" and "load j d = Some (x, p)" and "doc_storageState x = STORED_QUARANTINED"
    and "\<not> settled (pr_state p)" and "iw_download w = None" "iw_scan w = Inr False"
    and "process_job e w j final d = (r, d')"
  shows "r = None \<and>
     (\<forall>y \<in> set (documents d'). job_document j y \<longrightarrow> doc_storageState y = STORED_BLOCKED) \<and>
     (\<forall>q \<in> set (processings d'). for_job j q \<longrightarrow> pr_state q = PROC_BLOCKED \<and> pr_scanResult q = SCAN_INFECTED) \<and>
     (\<forall>i \<in> set (invoices d'). job_invoice j i \<longrightarrow> inv_status i = BLOCKED) \<and>
     (\<forall>e2 w2 final2. process_job e2 w2 j final2 d' = (None, d')) \<and>
     approvedDocument (job_organizationId j) (job_documentId j) d' = Inl invoice_not_found"
proof -
  have I: "ingest_inv d" using assms(1) by (rule reachable_ingest)
  note l = load_holds [OF I assms(2)]
  have "pr_state p \<in> {PROC_QUARANTINED, PROC_SCANNING}"
    using l(2) assms(3,4) by (auto simp: pair_ok_def)
  then have "\<forall>q \<in> set (processings d). for_job j q \<longrightarrow> transition_ok (pr_state q) PROC_SCANNING"
    using only_processing [OF I l(3,4)] by (auto simp: transition_ok_def)
  then obtain d1 where d1: "progress (clock e 0) j PROC_SCANNING 25 True None d = Inr d1"
    using progress_succeeds by blast
  have "holds_document j STORED_QUARANTINED d1"
    using progress_holds [OF l(1) [OF assms(4)] d1] assms(3) by simp
  then obtain y where y: "ingest_inv d1" "y \<in> set (documents d1)" "job_document j y" "doc_storageState y = STORED_QUARANTINED"
    by (auto simp: holds_document_def)
  have "\<forall>q \<in> set (processings d1). for_job j q \<longrightarrow> pr_state q = PROC_SCANNING"
    using d1 by (auto simp: progress_def table_simps for_job_def split: if_splits)
  from block_succeeds [OF y this] obtain d2 where d2: "block e (clock e 1) j d1 = Inr ((), d2)" by blast
  have "process_job e w j final d = (None, d2)"
    using assms(2-6) d1 d2 by (simp add: process_job_def scan_document_def run_def settled_def)
  with assms(7) have r: "r = None" "d' = d2" by simp_all
  note out = block_outcome [OF d2, folded r(2)]
  have "process_job e2 w2 j final2 d' = (None, d')" for e2 w2 final2
  proof (cases "load j d'")
    case (Some yq)
    then obtain y q where "load j d' = Some (y, q)" by (cases yq) auto
    moreover from this have "q \<in> set (processings d')" "for_job j q"
      by (auto simp: load_def bind_eq_Some_conv dest: find_SomeD)
    ultimately show ?thesis using out(2) by (simp add: process_job_def)
  qed (simp add: process_job_def)
  moreover have "approvedDocument (job_organizationId j) (job_documentId j) d' = Inl invoice_not_found"
  proof -
    have "find (\<lambda>x. doc_id x = job_documentId j \<and> doc_org x = job_organizationId j \<and>
        doc_storageState x = STORED_APPROVED \<and> doc_approvedKey x \<noteq> None) (documents d') = None"
      using out(1) by (auto simp: find_None_iff job_document_def)
    then show ?thesis by (simp add: approvedDocument_def)
  qed
  ultimately show ?thesis using r(1) out by blast
qed

theorem infected_document_is_blocked_witness:
  "\<exists>d'. process_job (demo_env ''p'') (demo_world False) demo_job False demo1 = (None, d') \<and>
     approvedDocument ''org'' ''a0'' d' = Inl invoice_not_found"
proof -
  obtain r d' where r: "process_job (demo_env ''p'') (demo_world False) demo_job False demo1 = (r, d')" by fastforce
  have load: "load demo_job demo1 = Some (demo_document, new_processing (demo_env ''a'') accountant)"
    by (simp add: load_def)
  show ?thesis
    using infected_document_is_blocked [OF demo_reachable(2) load _ _ _ _ r] r
    by (simp add: new_processing_def demo_world_def)
qed

section \<open>Every job settles\<close>

lemma manualReview_settles:
  assumes "manualReview now j err d = Inr d'"
  shows "\<forall>p \<in> set (processings d'). for_job j p \<longrightarrow> settled (pr_state p)"
  using assms by (auto simp: manualReview_def table_simps settled_def for_job_def split: sum.splits if_splits)

lemma manualReview_succeeds: "\<exists>d'. manualReview now j err d = Inr d'"
  by (auto simp: manualReview_def update_processings_def list_ex_iff transition_ok_def
      split: processing_state.splits)

lemma finish_settles:
  "finish e now j eng sug d = Inr (u, d') \<Longrightarrow> \<forall>p \<in> set (processings d'). for_job j p \<longrightarrow> settled (pr_state p)"
  by (auto simp: finish_def table_simps worker_audit_def set_status_def for_job_def split: sum.splits if_splits)

lemma block_settles:
  "block e now j d = Inr (u, d') \<Longrightarrow> \<forall>p \<in> set (processings d'). for_job j p \<longrightarrow> settled (pr_state p)"
  using block_outcome(2) [of e now j d u d'] by (simp add: settled_def)

definition at_rest :: "ingest_job \<Rightarrow> db \<Rightarrow> bool" where
  "at_rest j d \<longleftrightarrow> (\<forall>p \<in> set (processings d). for_job j p \<longrightarrow> settled (pr_state p))"

lemma read_document_rests: "read_document e w j d = (None, d') \<Longrightarrow> at_rest j d'"
  by (auto simp: read_document_def at_rest_def split: sum.splits prod.splits dest!: run_Inr dest: finish_settles)

lemma scan_document_rests: "scan_document e w j d = (None, d') \<Longrightarrow> at_rest j d'"
  by (auto simp: scan_document_def at_rest_def [symmetric] split: sum.splits prod.splits option.splits if_splits
      dest!: run_Inr dest: block_settles [folded at_rest_def] read_document_rests)

lemma reread_document_rests: "reread_document e w j d = (None, d') \<Longrightarrow> at_rest j d'"
  by (auto simp: reread_document_def split: sum.splits option.splits dest: read_document_rests)

lemma handle_error_rests: "handle_error e j True err d = (r, d') \<Longrightarrow> at_rest j d'"
proof -
  obtain d2 where d2: "manualReview (clock e 4) j err d = Inr d2" using manualReview_succeeds by blast
  moreover assume "handle_error e j True err d = (r, d')"
  ultimately have "d' = d2" by (simp add: handle_error_def)
  with manualReview_settles [OF d2] show ?thesis by (simp add: at_rest_def)
qed

lemma handle_error_fails: "handle_error e j final err d \<noteq> (None, d')"
  by (simp add: handle_error_def split: sum.split)

lemma process_job_rests:
  assumes "ingest_inv d" "load j d \<noteq> None" "process_job e w j final d = (r, d')" "r = None \<or> final"
  shows "at_rest j d'"
proof -
  from assms(2) obtain x p where l: "load j d = Some (x, p)" by auto
  note h = load_holds [OF assms(1) l]
  have "at_rest j d" if "settled (pr_state p)"
    using only_processing [OF assms(1) h(3,4)] that by (auto simp: at_rest_def)
  then show ?thesis
    using assms(3,4) l
    by (auto simp: process_job_def settled_def split: if_splits option.splits prod.splits
        dest: scan_document_rests reread_document_rests handle_error_rests simp: handle_error_fails)
qed

section \<open>The attempts\<close>

lemma handle_error_documents: "documents (snd (handle_error e j final err d)) = documents d"
  by (auto simp: handle_error_def manualReview_def resetForRetry_def update_processings_Inr split: sum.split)


lemma load_live:
  assumes "ingest_inv d" "x \<in> set (documents d)" "job_document j x" "doc_invoiceId x = job_invoiceId j"
  shows "load j d \<noteq> None"
proof -
  note x = assms
  then obtain p where p: "p \<in> set (processings d)" "for_job j p"
    by (auto simp: ingest_inv_def files_ok_def belongs_def for_job_def job_document_def)
  from x have "find (\<lambda>x. job_document j x \<and> doc_invoiceId x = job_invoiceId j) (documents d) \<noteq> None"
    by (auto simp: find_None_iff)
  moreover from p have "find (for_job j) (processings d) \<noteq> None" by (auto simp: find_None_iff)
  ultimately show ?thesis by (auto simp: load_def)
qed

lemma process_job_live:
  assumes "ingest_inv d" "load j d \<noteq> None" "process_job e w j final d = (Some err, d')"
  shows "load j d' \<noteq> None"
proof -
  from assms(2) obtain x p where l: "load j d = Some (x, p)" by auto
  note h = load_holds [OF assms(1) l]
  from assms(3) l obtain err1 d1 where
    d1: "(if doc_storageState x = STORED_QUARANTINED then scan_document e w j d else reread_document e w j d) = (Some err1, d1)"
      "handle_error e j final err1 d1 = (Some err, d')" "\<not> settled (pr_state p)"
    by (auto simp: process_job_def settled_def split: if_splits option.splits prod.splits)
  then consider "doc_storageState x = STORED_QUARANTINED" | "doc_storageState x = STORED_APPROVED"
    using h(2) by (auto simp: pair_ok_def split: storage_state.splits)
  then have "job_live j d1"
  proof cases
    case 1
    with scan_document_outcome [of j d e w "Some err1" d1] d1 h(1) show ?thesis by simp
  next
    case 2
    with reread_document_outcome [of j d e w "Some err1" d1] d1 h(1) show ?thesis by simp
  qed
  moreover from this obtain y where "y \<in> set (documents d1)" "job_document j y" "doc_invoiceId y = job_invoiceId j"
    by (auto simp: job_live_def holds_document_def)
  moreover have "documents d' = documents d1" using handle_error_documents [of e j final err1 d1] d1(2) by simp
  ultimately show ?thesis
    using handle_error_ingest [of j d1 e final err1] d1(2) by (intro load_live [of d' y]) simp_all
qed

lemma attempts_rest:
  assumes "ingest_inv d" "load j d \<noteq> None" "made < n" "n \<le> made + length ews"
  shows "ingest_inv (snd (run_attempts ews made (Some n) j d)) \<and> at_rest j (snd (run_attempts ews made (Some n) j d))"
  using assms
proof (induction ews made "Some n" j d rule: run_attempts.induct)
  case (2 e w ews made j d)
  obtain r d' where r: "process_job e w j (is_final made (Some n)) d = (r, d')" by fastforce
  have inv: "ingest_inv d'" using process_job_ingest [OF "2.prems"(1)] r by (metis snd_conv)
  show ?case
  proof (cases r)
    case None
    with r inv process_job_rests [OF "2.prems"(1,2) r] show ?thesis by simp
  next
    case (Some err)
    show ?thesis
    proof (cases "is_final made (Some n)")
      case True
      with r Some inv process_job_rests [OF "2.prems"(1,2) r] show ?thesis by simp
    next
      case False
      have "load j d' \<noteq> None"
        using process_job_live [OF "2.prems"(1,2)] r Some by blast
      moreover have "Suc made < n" "n \<le> Suc made + length ews"
        using False "2.prems"(3,4) by (simp_all add: is_final_def)
      ultimately show ?thesis using "2.hyps" r Some False inv by simp
    qed
  qed
qed simp


definition failing_world :: ingest_world where
  "failing_world = (demo_world True)\<lparr>iw_ocr := Inl ''Timeout''\<rparr>"


end
