(* ===== verification/Domain.thy ===== *)
theory Domain
  imports Schema_Invoice
begin

text \<open>
  \<open>packages/domain/src/index.ts\<close>: the states of an invoice as the shared package documents them, and the
  transitions it allows.  No service calls it; \<open>Lifecycle_Properties\<close> proves that the services keep to
  it.  The database keeps one status, PROCESSING, for the states before review.
\<close>

datatype invoice_state =
    S_UPLOADED
  | S_QUARANTINED
  | S_SCANNING
  | S_PARSED
  | S_NEEDS_REVIEW
  | S_AWAITING_APPROVAL
  | S_APPROVED
  | S_REJECTED
  | S_BLOCKED
  | S_MANUAL_REVIEW

definition invoiceStates :: "invoice_state list" where
  "invoiceStates = [S_UPLOADED, S_QUARANTINED, S_SCANNING, S_PARSED, S_NEEDS_REVIEW, S_AWAITING_APPROVAL,
     S_APPROVED, S_REJECTED, S_BLOCKED, S_MANUAL_REVIEW]"

fun allowedTransitions :: "invoice_state \<Rightarrow> invoice_state list" where
  "allowedTransitions S_UPLOADED = [S_QUARANTINED]"
| "allowedTransitions S_QUARANTINED = [S_SCANNING]"
| "allowedTransitions S_SCANNING = [S_PARSED, S_BLOCKED, S_MANUAL_REVIEW]"
| "allowedTransitions S_PARSED = [S_NEEDS_REVIEW, S_MANUAL_REVIEW]"
| "allowedTransitions S_NEEDS_REVIEW = [S_AWAITING_APPROVAL, S_REJECTED]"
| "allowedTransitions S_AWAITING_APPROVAL = [S_APPROVED, S_REJECTED, S_NEEDS_REVIEW]"
| "allowedTransitions S_APPROVED = []"
| "allowedTransitions S_REJECTED = []"
| "allowedTransitions S_BLOCKED = []"
| "allowedTransitions S_MANUAL_REVIEW = [S_NEEDS_REVIEW, S_REJECTED]"

definition canTransitionInvoice :: "invoice_state \<Rightarrow> invoice_state \<Rightarrow> bool" where
  "canTransitionInvoice s t \<longleftrightarrow> t \<in> set (allowedTransitions s)"

text \<open>The documented state of a status of the database; an upload starts in quarantine.\<close>

fun state_of :: "invoice_status \<Rightarrow> invoice_state" where
  "state_of PROCESSING = S_QUARANTINED"
| "state_of NEEDS_REVIEW = S_NEEDS_REVIEW"
| "state_of MANUAL_REVIEW = S_MANUAL_REVIEW"
| "state_of BLOCKED = S_BLOCKED"
| "state_of AWAITING_APPROVAL = S_AWAITING_APPROVAL"
| "state_of APPROVED = S_APPROVED"
| "state_of REJECTED = S_REJECTED"

end
