(* ===== verification/Lifecycle.thy ===== *)
theory Lifecycle
  imports Ingest_Invariant Domain
begin

text \<open>
  The life of an invoice.  \<open>next_statuses\<close> are the moves the services make, \<open>leads\<close> is what follows
  from them, and \<open>advances\<close> says that every invoice is still there and has only moved so.  Every
  operation advances the invoices of a database that satisfies the two invariants.
\<close>

fun next_statuses :: "invoice_status \<Rightarrow> invoice_status list" where
  "next_statuses PROCESSING = [NEEDS_REVIEW, MANUAL_REVIEW, BLOCKED]"
| "next_statuses NEEDS_REVIEW = [AWAITING_APPROVAL]"
| "next_statuses AWAITING_APPROVAL = [APPROVED, REJECTED, NEEDS_REVIEW]"
| "next_statuses _ = []"

inductive leads :: "invoice_status \<Rightarrow> invoice_status \<Rightarrow> bool" where
  leads_refl [intro!, simp]: "leads s s"
| leads_step: "leads s t \<Longrightarrow> u \<in> set (next_statuses t) \<Longrightarrow> leads s u"

lemma leads_trans: "leads t u \<Longrightarrow> leads s t \<Longrightarrow> leads s u"
  by (induction rule: leads.induct) (auto intro: leads_step)

lemma leads_next [simp]:
  "leads PROCESSING NEEDS_REVIEW" "leads PROCESSING MANUAL_REVIEW" "leads PROCESSING BLOCKED"
  "leads NEEDS_REVIEW AWAITING_APPROVAL" "leads AWAITING_APPROVAL APPROVED"
  "leads AWAITING_APPROVAL REJECTED" "leads AWAITING_APPROVAL NEEDS_REVIEW"
  by (rule leads_step [OF leads_refl]; simp)+

text \<open>Where nothing follows, the invoice stays.\<close>

lemma leads_final: "leads s t \<Longrightarrow> next_statuses s = [] \<Longrightarrow> t = s"
  by (induction rule: leads.induct) auto

definition advances :: "db \<Rightarrow> db \<Rightarrow> bool" where
  "advances d d' \<longleftrightarrow> (\<forall>i \<in> set (invoices d). \<exists>i' \<in> set (invoices d').
     inv_id i' = inv_id i \<and> inv_org i' = inv_org i \<and> leads (inv_status i) (inv_status i'))"

lemma advances_refl [simp]: "advances d d"
  by (auto simp: advances_def)

lemma advances_trans: "advances d d' \<Longrightarrow> advances d' d'' \<Longrightarrow> advances d d''"
  unfolding advances_def by (metis leads_trans)

lemma advances_same: "invoices d' = invoices d \<Longrightarrow> advances d d'"
  by (auto simp: advances_def)

lemma advances_frame: "approval_frame d d' \<Longrightarrow> advances d d'"
  by (simp add: approval_frame_def advances_same)

lemma advances_update:
  assumes "invoices d' = update_rows Q f (invoices d)"
    and "\<And>i. inv_id (f i) = inv_id i" "\<And>i. inv_org (f i) = inv_org i"
    and "\<And>i. i \<in> set (invoices d) \<Longrightarrow> Q i \<Longrightarrow> leads (inv_status i) (inv_status (f i))"
  shows "advances d d'"
  unfolding advances_def
proof
  fix i assume i: "i \<in> set (invoices d)"
  show "\<exists>i' \<in> set (invoices d'). inv_id i' = inv_id i \<and> inv_org i' = inv_org i \<and> leads (inv_status i) (inv_status i')"
  proof (cases "Q i")
    case True
    then have "f i \<in> set (invoices d')" using update_rows_mem [OF i] by (simp add: assms(1))
    with assms(2,3) assms(4) [OF i True] show ?thesis by blast
  next
    case False
    with i have "i \<in> set (invoices d')" by (force simp: assms(1) update_rows_def)
    then show ?thesis by auto
  qed
qed

lemma advances_run:
  assumes "\<And>r d'. w d = Inr (r, d') \<Longrightarrow> advances d d'"
  shows "advances d (snd (run w d))"
  by (rule tx.preserves [where P = "advances d", OF assms advances_refl])

section \<open>Approvals and edits\<close>

lemma policy_advances: "policy e k org d = (p, d') \<Longrightarrow> advances d d'"
  using policy_frame by (intro advances_same) blast

lemma eligible_advances: "eligibleApprovers e k org ini d = (el, d') \<Longrightarrow> advances d d'"
  by (rule advances_same) (rule eligible_docs)

lemma submit_advances: "approval_inv d \<Longrightarrow> advances d (snd (submit e a iid v key d))"
proof -
  assume I: "approval_inv d"
  have "advances d d'" if "submit_tx e a iid v kh d = Inr (view, d')" for kh view d'
    using that
  proof (cases rule: submit_txE)
    case (fresh i p d1 bank ev risk req eligible)
    from fresh(1) have p: "policy e 0 (organizationId a) d = (p, d1)" by (simp add: submits_def)
    let ?f = "\<lambda>i :: invoice. i\<lparr>inv_status := AWAITING_APPROVAL, inv_bankVersionId := Some (bank_id bank),
                 inv_version := inv_version i + 1\<rparr>"
    have "advances d (after_submit e a iid v bank risk req d1)"
      by (rule advances_update [where Q = "moves_on_submit (organizationId a) iid v" and f = ?f])
        (use policy_frame [OF p] in \<open>auto simp: after_submit_def moves_on_submit_def\<close>)
    moreover have "invoices d' = invoices (after_submit e a iid v bank risk req d1)"
      using eligible_docs(3) [OF fresh(4)] by (simp add: submit_audits_def)
    ultimately show ?thesis by (simp add: advances_def)
  qed simp
  then show ?thesis by (auto simp: submit_def run_def split: sum.split prod.split)
qed

lemma decide_advances: "approval_inv d \<Longrightarrow> advances d (snd (decide e a rid dto key d))"
proof -
  assume I: "approval_inv d"
  have "advances d d'" if "decide_tx e a rid dto kh d = Inr (res, d')" for kh res d'
    using that
  proof (cases rule: decide_txE)
    case (stale r i reason)
    have "advances d (invalidate r reason d)"
      by (rule advances_update [where Q = "\<lambda>i. inv_org i = req_org r \<and> inv_id i = req_invoiceId r \<and>
             inv_version i = req_invoiceVersion r \<and> inv_status i = AWAITING_APPROVAL"
          and f = "\<lambda>i. i\<lparr>inv_status := NEEDS_REVIEW, inv_version := inv_version i + 1\<rparr>"])
        (auto simp: invalidate_def)
    with stale show ?thesis by simp
  next
    case (recorded r i m s stepUp p d1)
    from recorded(1) have p: "policy e 0 (organizationId a) d = (p, d1)"
      and i: "find (\<lambda>i. inv_id i = req_invoiceId r \<and> inv_org i = organizationId a) (invoices d) = Some i"
      and st: "inv_status i = AWAITING_APPROVAL" by (simp_all add: decides_def)
    note ex = find_SomeD [OF i]
    from recorded(2) obtain d2 d3 eligible and updated :: request where
      c: "create_decision (made_decision e a r m s stepUp dto kh) d1 = Inr d2"
      and c': "complete_decision e r (dto_outcome dto) d2 = Inr d3"
      and el: "eligibleApprovers e 4 (organizationId a) (req_initiatedBy updated)
        (decision_audit e a r stepUp dto d3) = (eligible, d')"
      by (rule record_decisionE) blast
    have same: "invoices d2 = invoices d" "invoices d' = invoices d3"
      using c policy_frame [OF p] eligible_docs(3) [OF el] by (auto simp: create_decision_Inr decision_audit_def)
    have only: "j = i" if "j \<in> set (invoices d)" "inv_id j = req_invoiceId r" for j
      using distinct_map_unique [OF approval_inv_distinct(1) [OF I] that(1) ex(1)] that ex(2) by simp
    have set: "advances d d5" if "set_invoice_status (req_org r) (req_invoiceId r) s d4 = Inr d5"
      "invoices d4 = invoices d" "leads AWAITING_APPROVAL s" for s d4 d5
      by (rule advances_update [where Q = "\<lambda>i. inv_org i = req_org r \<and> inv_id i = req_invoiceId r"
            and f = "\<lambda>i. i\<lparr>inv_status := s\<rparr>"])
        (use that only st in \<open>auto simp: set_invoice_status_def split: if_splits\<close>)
    have "advances d d3"
      using c' same(1) by (auto simp: complete_decision_def set_request_status_def advances_same split: if_splits dest: set)
    with same(2) show ?thesis by (simp add: advances_def)
  qed simp
  then have "advances d (snd (run (decide_tx e a rid dto kh) d))" for kh by (rule advances_run)
  then show ?thesis
    by (auto simp: decide_def split: sum.split prod.split decide_result.split) (metis snd_conv)+
qed

lemma addBankVersion_advances: "advances d (snd (addBankVersion c svc e a vid country acc d))"
  unfolding addBankVersion_def
proof (rule advances_run)
  fix view d' assume "addBankVersion_tx c svc e a vid country acc d = Inr (view, d')"
  then obtain b d1 where d1: "d1 = d\<lparr>bank_versions := bank_versions d @ [b],
       bank_verifications := bank_verifications d @ [first_verification e a b]\<rparr>"
    and d': "invoices d' = invoices (if 1 < bank_number b then freeze_approvals (organizationId a) vid d1 else d1)"
    by (rule addBankVersion_tx_Inr) simp
  have "advances d (freeze_approvals (organizationId a) vid d1)"
    by (rule advances_update [where Q = "\<lambda>i. inv_org i = organizationId a \<and> inv_vendorId i = Some vid \<and> inv_status i = AWAITING_APPROVAL"
          and f = "\<lambda>i. i\<lparr>inv_status := NEEDS_REVIEW, inv_bankVersionId := None, inv_version := inv_version i + 1\<rparr>"])
      (auto simp: freeze_approvals_def d1)
  with d1 d' show "advances d d'" by (auto simp: advances_def)
qed

lemma update_invoice_advances:
  assumes I: "approval_inv d"
  shows "advances d (snd (update_invoice e a iid dto d))"
  unfolding update_invoice_def
proof (rule advances_run)
  fix view d' assume "update_invoice_tx e a iid dto d = Inr (view, d')"
  then obtain existing updated d2 where
    x: "find (\<lambda>i. inv_id i = iid \<and> inv_org i = organizationId a) (invoices d) = Some existing"
    and w: "write_draft a iid dto (inv_status existing = AWAITING_APPROVAL)
       (if inv_status existing = AWAITING_APPROVAL then withdraw_requests (organizationId a) iid d else d) = Inr d2"
    and d': "d' = draft_audits e a existing updated (inv_status existing = AWAITING_APPROVAL)
       (replace_lines (organizationId a) iid (uid_lines dto) d2)"
    by (rule update_invoice_txE)
  note ex = find_SomeD [OF x]
  have only: "i = existing" if "i \<in> set (invoices d)" "inv_id i = iid" for i
    using distinct_map_unique [OF approval_inv_distinct(1) [OF I] that(1) ex(1)] that ex(2) by simp
  have "advances d d2"
    unfolding write_draft_Inr [OF w]
    by (rule advances_update [where Q = "\<lambda>i. inv_id i = iid \<and> inv_org i = organizationId a \<and> inv_version i = uid_version dto"
          and f = "apply_invoice_dto dto (inv_status existing = AWAITING_APPROVAL)"])
      (use only in \<open>auto simp: withdraw_requests_def apply_invoice_dto_def\<close>)
  moreover have "invoices d' = invoices d2"
    by (simp add: d' draft_audits_def Let_def replace_lines_def split: option.split)
  ultimately show "advances d d'" by (simp add: advances_def)
qed

lemma list_views_advances: "list_views e org rs d = (vs, d') \<Longrightarrow> invoices d' = invoices d"
  by (induction rs arbitrary: vs d) (auto split: prod.splits dest: eligible_docs)

lemma policy_ops_advances:
  shows "advances d (snd (list_requests e a d))" "advances d (snd (get_request e a rid d))"
    "advances d (snd (getPolicy e a d))" "advances d (snd (updatePolicy e a dto d))"
proof -
  have "advances d d'" if "updatePolicy_tx e a dto d = Inr (p, d')" for p d'
    using that unfolding updatePolicy_tx_def Let_def
    by (auto split: prod.splits if_splits dest!: policy_advances simp: advances_def)
  then show "advances d (snd (updatePolicy e a dto d))"
    unfolding updatePolicy_def by (auto simp: run_def split: sum.split)
  show "advances d (snd (list_requests e a d))" "advances d (snd (get_request e a rid d))"
    "advances d (snd (getPolicy e a d))"
    by (auto simp: list_requests_def get_request_def getPolicy_def run_def
        split: sum.split option.split prod.splits
        dest: list_views_advances [THEN advances_same] eligible_advances policy_advances)
qed

section \<open>The worker\<close>

text \<open>While the document of a job is in work, its invoice is PROCESSING.\<close>

lemma live_processing:
  assumes "job_live j d" and "i \<in> set (invoices d)" "job_invoice j i"
  shows "inv_status i = PROCESSING"
proof (rule ccontr)
  assume n: "inv_status i \<noteq> PROCESSING"
  from assms(1) obtain x where x: "ingest_inv d" "x \<in> set (documents d)" "job_document j x"
    "doc_invoiceId x = job_invoiceId j"
    and u: "\<forall>p \<in> set (processings d). for_job j p \<longrightarrow> \<not> settled (pr_state p)"
    by (auto simp: job_live_def holds_document_def)
  have part: "part_of x i" using x(3,4) assms(3) by (simp add: part_of_def job_document_def job_invoice_def)
  obtain p where p: "p \<in> set (processings d)" "belongs p x"
    using x(1,2) by (auto simp: ingest_inv_def files_ok_def)
  have "settled (pr_state p)" using x(1,2) assms(2) n part p by (auto simp: ingest_inv_def put_away_def)
  moreover have "for_job j p" using p(2) x(3) by (simp add: belongs_def for_job_def job_document_def)
  ultimately show False using u p(1) by blast
qed

lemma set_status_advances:
  assumes "job_live j d" and "invoices d' = invoices (set_status j st d)" "leads PROCESSING st"
  shows "advances d d'"
  by (rule advances_update [where Q = "job_invoice j" and f = "\<lambda>i. i\<lparr>inv_status := st\<rparr>"])
    (use assms live_processing [OF assms(1)] in \<open>auto simp: set_status_def\<close>)

lemma update_tables_invoices:
  "update_documents j f d = Inr d' \<Longrightarrow> invoices d' = invoices d"
  "update_processings P g d = Inr d' \<Longrightarrow> invoices d' = invoices d"
  by (auto simp: update_documents_Inr update_processings_Inr)

lemma worker_advances:
  shows "progress now j s n b scan d = Inr d' \<Longrightarrow> advances d d'"
    "promote now j key sha d = Inr (u, d') \<Longrightarrow> advances d d'"
    "job_live j d \<Longrightarrow> finish e now j eng sug d = Inr (u, d') \<Longrightarrow> advances d d'"
    "job_live j d \<Longrightarrow> block e now j d = Inr (u, d') \<Longrightarrow> advances d d'"
proof -
  show "advances d d'" if "progress now j s n b scan d = Inr d'"
    using that by (intro advances_same) (simp add: progress_def update_tables_invoices(2))
  show "advances d d'" if "promote now j key sha d = Inr (u, d')"
    using that by (intro advances_same)
      (auto simp: promote_def split: sum.splits dest!: update_tables_invoices)
  show "advances d d'" if "job_live j d" "finish e now j eng sug d = Inr (u, d')"
    by (rule set_status_advances [OF that(1), where st = NEEDS_REVIEW])
      (use that(2) in \<open>auto simp: finish_def set_status_def worker_audit_def split: sum.splits dest!: update_tables_invoices\<close>)
  show "advances d d'" if "job_live j d" "block e now j d = Inr (u, d')"
    by (rule set_status_advances [OF that(1), where st = BLOCKED])
      (use that(2) in \<open>auto simp: block_def set_status_def worker_audit_def split: sum.splits dest!: update_tables_invoices\<close>)
qed

lemma run_advances: "run w d = (r, d') \<Longrightarrow> (\<And>u d'. w d = Inr (u, d') \<Longrightarrow> advances d d') \<Longrightarrow> advances d d'"
  by (auto simp: run_def split: sum.splits)

lemma read_document_advances:
  assumes "holds_document j STORED_APPROVED d"
  shows "advances d (snd (read_document e w j d))"
proof -
  have "advances d d1" if "run (finish e now j eng sug) d = (r, d1)" for now eng sug r d1
    by (rule run_advances [OF that]) (rule worker_advances(3) [OF job_liveI [OF assms]])
  then show ?thesis by (auto simp: read_document_def split: sum.split prod.split)
qed

lemma scan_document_advances:
  assumes "holds_document j STORED_QUARANTINED d"
  shows "advances d (snd (scan_document e w j d))"
proof (cases "progress (clock e 0) j PROC_SCANNING 25 True None d")
  case (Inl err)
  then show ?thesis by (simp add: scan_document_def)
next
  case (Inr d1)
  have d1: "holds_document j STORED_QUARANTINED d1" using progress_holds [OF assms Inr] by simp
  note a1 = worker_advances(1) [OF Inr]
  have b: "advances d d2" if "run (block e now j) d1 = (r, d2)" for now r d2
    using advances_trans [OF a1 run_advances [OF that worker_advances(4) [OF job_liveI [OF d1]]]] .
  have p: "advances d d2" if "run (promote now j key sha) d1 = (r, d2)" for now key sha r d2
    using advances_trans [OF a1 run_advances [OF that worker_advances(2)]] .
  have rd: "advances d (snd (read_document e w j d2))" if "run (promote now j key sha) d1 = (Inr u, d2)" for now key sha u d2
    using advances_trans [OF p [OF that] read_document_advances [OF promote_holds [OF d1 run_Inr [OF that]]]] .
  show ?thesis
    using Inr a1 by (auto simp: scan_document_def split: option.split sum.split prod.split dest: b p rd)
qed

lemma reread_document_advances:
  assumes "holds_document j STORED_APPROVED d"
  shows "advances d (snd (reread_document e w j d))"
proof (cases "progress (clock e 0) j PROC_PARSED 75 True (Some SCAN_CLEAN) d")
  case (Inl err)
  then show ?thesis by (simp add: reread_document_def)
next
  case (Inr d1)
  have "holds_document j STORED_APPROVED d1" using progress_holds [OF assms Inr] by simp
  from advances_trans [OF worker_advances(1) [OF Inr] read_document_advances [OF this]] worker_advances(1) [OF Inr] Inr
  show ?thesis by (simp add: reread_document_def split: option.split)
qed

lemma handle_error_advances: "advances d (snd (handle_error e j final err d))"
proof -
  have "advances d d'" if "manualReview now j err d = Inr d'" for now d'
    by (rule advances_update [where Q = "\<lambda>i. job_invoice j i \<and> inv_status i = PROCESSING"
          and f = "\<lambda>i. i\<lparr>inv_status := MANUAL_REVIEW\<rparr>"])
      (use that in \<open>auto simp: manualReview_def split: sum.splits dest!: update_tables_invoices\<close>)
  moreover have "advances d d'" if "resetForRetry now j d = Inr d'" for now d'
    using that by (intro advances_same) (simp add: resetForRetry_def update_tables_invoices(2))
  ultimately show ?thesis by (auto simp: handle_error_def split: sum.split)
qed

lemma process_job_advances:
  assumes "ingest_inv d"
  shows "advances d (snd (process_job e w j final d))"
proof (cases "load j d")
  case (Some xp)
  obtain x p where xp: "xp = (x, p)" by fastforce
  note l = load_holds [OF assms Some [unfolded xp]]
  show ?thesis
  proof (cases "pr_state p \<in> {PROC_NEEDS_REVIEW, PROC_MANUAL_REVIEW, PROC_BLOCKED}")
    case False
    then have u: "\<not> settled (pr_state p)" by (simp add: settled_def)
    define w1 where "w1 = (if doc_storageState x = STORED_QUARANTINED then scan_document e w j d else reread_document e w j d)"
    have "doc_storageState x = STORED_QUARANTINED \<or> doc_storageState x = STORED_APPROVED"
      using l(2) u by (auto simp: pair_ok_def split: storage_state.splits)
    then have "advances d (snd w1)"
      using l(1) [OF u] scan_document_advances reread_document_advances by (auto simp: w1_def)
    then show ?thesis
      using Some xp False advances_trans [OF _ handle_error_advances]
      by (auto simp: process_job_def w1_def [symmetric] split: option.split prod.split)
  qed (use Some xp in \<open>auto simp: process_job_def\<close>)
qed (simp add: process_job_def)

lemma upload_advances:
  assumes "ingest_inv d"
  shows "advances d (snd (upload e w a vid cid upl d))"
proof -
  have tx: "advances d d1" if "run (upload_tx e a vid cid upf v) d = (r, d1)" for upf v r d1
  proof (rule run_advances [OF that])
    fix view d2 assume "upload_tx e a vid cid upf v d = Inr (view, d2)"
    then have "invoices d2 = invoices d @ [new_invoice e a vid cid]" by (rule upload_txE) simp
    then show "advances d d2" by (auto simp: advances_def)
  qed
  have mark: "advances d d2" if t: "run (upload_tx e a vid cid upf v) d = (Inr view, d1)"
    "markManualReview e (organizationId a) (new_uuid e 0) (new_uuid e 1) code d1 = (r, d2)" for upf v view d1 code r d2
  proof -
    let ?j = "\<lparr>job_invoiceId = new_uuid e 1, job_documentId = new_uuid e 0, job_organizationId = organizationId a,
       job_correlationId = []\<rparr>"
    have jo: "(\<lambda>i. inv_id i = new_uuid e (Suc 0) \<and> inv_org i = organizationId a) = job_invoice ?j"
      by (simp add: job_invoice_def fun_eq_iff)
    have live: "job_live ?j d1" by (rule upload_tx_holds [OF assms run_Inr [OF t(1)]])
    have "advances d1 d3" if "markManualReview_tx e (organizationId a) (new_uuid e 0) (new_uuid e 1) code d1 = Inr (u, d3)" for u d3
      by (rule set_status_advances [OF live, where st = MANUAL_REVIEW])
        (use that in \<open>auto simp: markManualReview_tx_def set_status_def jo table_simps split: sum.splits\<close>)
    then have "advances d1 d2" using t(2) by (auto simp: markManualReview_def intro: run_advances)
    with tx [OF t(1)] show ?thesis by (rule advances_trans)
  qed
  show ?thesis
    unfolding upload_def by (auto split: option.split sum.split prod.split dest: tx mark)
qed

section \<open>Runs\<close>

lemmas ops_advance = framed_ops [THEN advances_frame] addBankVersion_advances upload_advances
  update_invoice_advances submit_advances decide_advances policy_ops_advances process_job_advances

lemma step_advances:
  assumes "step l d d'" and "approval_inv d" "ingest_inv d"
  shows "advances d d'"
  using assms(1) by cases (simp_all add: ops_advance assms(2,3))

interpretation lifecycle: kept "\<lambda>_. True" "\<lambda>d'. approval_inv d' \<and> ingest_inv d' \<and> advances d d'" for d
  by unfold_locales (meson advances_trans approvals.keeps ingest.keeps step_advances)

lemma run_advances_invoices: "steps ls d d' \<Longrightarrow> reachable d \<Longrightarrow> advances d d'"
  using lifecycle.run_keeps reachable_approval_inv reachable_ingest advances_refl by blast

end
