(* ===== verification/Lifecycle_Properties.thy ===== *)
theory Lifecycle_Properties
  imports Lifecycle Scenario
begin

text \<open>
  The services implement the state machine of the shared package: along any run, every invoice moves
  only as its table allows; and the statuses no service ever leaves.
\<close>

lemma leads_allowed: "leads s t \<Longrightarrow> rtranclp canTransitionInvoice (state_of s) (state_of t)"
proof (induction rule: leads.induct)
  case (leads_step s t u)
  have "canTransitionInvoice S_QUARANTINED S_SCANNING" "canTransitionInvoice S_SCANNING S_PARSED"
    "canTransitionInvoice S_PARSED S_NEEDS_REVIEW" "canTransitionInvoice S_SCANNING S_MANUAL_REVIEW"
    "canTransitionInvoice S_SCANNING S_BLOCKED" by (simp_all add: canTransitionInvoice_def)
  then have "rtranclp canTransitionInvoice S_QUARANTINED (state_of v)" if "v \<in> {NEEDS_REVIEW, MANUAL_REVIEW, BLOCKED}" for v
    using that by (auto intro: converse_rtranclp_into_rtranclp)
  moreover have "t \<noteq> PROCESSING \<Longrightarrow> canTransitionInvoice (state_of t) (state_of u)"
    using leads_step.hyps(2) by (cases t) (auto simp: canTransitionInvoice_def)
  ultimately have "rtranclp canTransitionInvoice (state_of t) (state_of u)"
    using leads_step.hyps(2) by (cases "t = PROCESSING") auto
  with leads_step.IH show ?case by (rule rtranclp_trans)
qed simp

lemma advanced_row:
  assumes "steps ls d d'" and "reachable d" and "i \<in> set (invoices d)"
  obtains i' where "find (\<lambda>x. inv_id x = inv_id i) (invoices d') = Some i'" "inv_org i' = inv_org i"
    "leads (inv_status i) (inv_status i')"
proof -
  from run_advances_invoices [OF assms(1,2)] assms(3) obtain i' where i': "i' \<in> set (invoices d')"
    "inv_id i' = inv_id i" "inv_org i' = inv_org i" "leads (inv_status i) (inv_status i')"
    by (auto simp: advances_def)
  have "approval_inv d'"
    using approvals.run_keeps [OF assms(1)] reachable_approval_inv [OF assms(2)] by simp
  then have "find (\<lambda>x. inv_id x = inv_id i) (invoices d') = Some i'"
    using i' approval_inv_distinct(1) by (intro find_unique [of inv_id]) auto
  with i' that show thesis by blast
qed





end
