(* ===== verification/Http.thy ===== *)
theory Http
  imports Sessions
begin

text \<open>
  The way of a request to its handler: \<open>apps/api/src/common/cookies.ts\<close>, \<open>common/csrf.service.ts\<close>,
  \<open>csrf.guard.ts\<close>, \<open>identity/session-auth.guard.ts\<close>, \<open>roles.guard.ts\<close>, \<open>step-up.guard.ts\<close> and
  \<open>organizations/organization-scope.guard.ts\<close>, in the order in which \<open>app.module.ts\<close> and the
  controllers install them.
\<close>

record server_config =
  sc_cookieSecure :: "string option"
  sc_nodeEnv :: "string option"
  sc_trustedOrigins :: "string option"

text \<open>A header is absent, sent once, or an array.\<close>

datatype header = Missing | Single string | Several "string list"

record http_request =
  rq_method :: string
  rq_cookie :: "string option"
  rq_origin :: "string option"
  rq_csrfToken :: header
  rq_userAgent :: "string option"
  rq_ip :: "string option"
  rq_organizationId :: "uuid option"

section \<open>Cookies\<close>

definition secureCookies :: "server_config \<Rightarrow> bool" where
  "secureCookies conf \<longleftrightarrow>
     (case sc_cookieSecure conf of
        None \<Rightarrow> sc_nodeEnv conf = Some ''production''
      | Some s \<Rightarrow> s = ''true'')"

definition cookie_name :: "server_config \<Rightarrow> string \<Rightarrow> string" where
  "cookie_name conf kind = (if secureCookies conf then ''__Host-bt_'' else ''bt_'') @ kind"

abbreviation access_cookie :: "server_config \<Rightarrow> string" where
  "access_cookie conf \<equiv> cookie_name conf ''access''"

abbreviation refresh_cookie :: "server_config \<Rightarrow> string" where
  "refresh_cookie conf \<equiv> cookie_name conf ''refresh''"

abbreviation csrf_cookie :: "server_config \<Rightarrow> string" where
  "csrf_cookie conf \<equiv> cookie_name conf ''csrf''"

text \<open>
  \<open>decodeURIComponent\<close>: an escape is a byte, bytes from 128 are the two-byte sequences of UTF-8, and
  everything else throws.  A longer sequence stands for a code unit above 255, outside the fragment of
  strings; it is \<open>None\<close> like a malformed one.
\<close>

definition escaped_byte :: "char \<Rightarrow> char \<Rightarrow> nat option" where
  "escaped_byte a b =
     (case (hex_value a, hex_value b) of (Some u, Some v) \<Rightarrow> Some (16 * u + v) | _ \<Rightarrow> None)"

fun decodeURIComponent :: "string \<Rightarrow> string option" where
  "decodeURIComponent [] = Some []"
| "decodeURIComponent (c # s) =
     (if c \<noteq> CHR ''%'' then map_option ((#) c) (decodeURIComponent s)
      else
        (case s of
           a # b # t \<Rightarrow>
             (case escaped_byte a b of
                None \<Rightarrow> None
              | Some n \<Rightarrow>
                  if n < 128 then map_option ((#) (char_of n)) (decodeURIComponent t)
                  else if n = 194 \<or> n = 195 then
                    (case t of
                       p # x # y # r \<Rightarrow>
                         (case escaped_byte x y of
                            None \<Rightarrow> None
                          | Some m \<Rightarrow>
                              if p = CHR ''%'' \<and> 128 \<le> m \<and> m < 192
                              then map_option ((#) (char_of ((n - 192) * 64 + (m - 128))))
                                (decodeURIComponent r)
                              else None)
                     | _ \<Rightarrow> None)
                  else None)
         | _ \<Rightarrow> None))"

text \<open>One part of the header: nothing without a name in front of an equals sign.\<close>

definition read_cookie :: "string \<Rightarrow> (string \<times> string) list" where
  "read_cookie part =
     (let name = takeWhile (\<lambda>c. c \<noteq> CHR ''='') part in
      if name = [] \<or> name = part then []
      else
        (case decodeURIComponent (js_trim (drop (length name + 1) part)) of
           None \<Rightarrow> []
         | Some value \<Rightarrow> [(js_trim name, value)]))"

text \<open>\<open>Object.fromEntries\<close>: the last entry of a name wins.\<close>

definition readCookies :: "http_request \<Rightarrow> string \<Rightarrow> string option" where
  "readCookies rq =
     (if \<not> truthy (rq_cookie rq) then Map.empty
      else map_of (rev (concat (map read_cookie (split_on (CHR '';'') (the (rq_cookie rq)))))))"

text \<open>The calls on the response; every cookie has path \<open>/\<close> and is confined to its own site.\<close>

datatype cookie_call =
    Cookie (ck_name: string) (ck_value: string) (ck_expires: time) (ck_httpOnly: bool) (ck_secure: bool)
  | ClearCookie (ck_name: string) (ck_httpOnly: bool) (ck_secure: bool)

definition setSessionCookies :: "server_config \<Rightarrow> session_bundle \<Rightarrow> cookie_call list" where
  "setSessionCookies conf s =
     [Cookie (access_cookie conf) (sb_accessToken s) (sb_accessExpiresAt s) True (secureCookies conf),
      Cookie (refresh_cookie conf) (sb_refreshToken s) (sb_refreshExpiresAt s) True (secureCookies conf),
      Cookie (csrf_cookie conf) (sb_csrfToken s) (sb_refreshExpiresAt s) False (secureCookies conf)]"

definition clearSessionCookies :: "server_config \<Rightarrow> cookie_call list" where
  "clearSessionCookies conf =
     [ClearCookie (access_cookie conf) True (secureCookies conf),
      ClearCookie (refresh_cookie conf) True (secureCookies conf),
      ClearCookie (csrf_cookie conf) False (secureCookies conf)]"

section \<open>Cross-site requests\<close>

definition SAFE_METHODS :: "string list" where
  "SAFE_METHODS = [''GET'', ''HEAD'', ''OPTIONS'']"

definition strip_slash :: "string \<Rightarrow> string" where
  "strip_slash s = (if s \<noteq> [] \<and> last s = CHR ''/'' then butlast s else s)"

definition trustedOrigins :: "server_config \<Rightarrow> string list" where
  "trustedOrigins conf =
     filter (\<lambda>s. s \<noteq> [])
       (map (\<lambda>s. strip_slash (js_trim s))
         (split_on (CHR '','')
           (case sc_trustedOrigins conf of None \<Rightarrow> ''http://localhost:3000'' | Some s \<Rightarrow> s)))"

definition assertTrustedOrigin :: "server_config \<Rightarrow> http_request \<Rightarrow> failure + unit" where
  "assertTrustedOrigin conf rq =
     (if \<not> truthy (rq_origin rq) \<or> strip_slash (the (rq_origin rq)) \<notin> set (trustedOrigins conf)
      then Inl (Http Forbidden ''ORIGIN_NOT_TRUSTED'') else Inr ())"

definition header_value :: "header \<Rightarrow> string option" where
  "header_value h =
     (case h of Missing \<Rightarrow> None | Single s \<Rightarrow> Some s
      | Several ss \<Rightarrow> (case ss of [] \<Rightarrow> None | s # _ \<Rightarrow> Some s))"

text \<open>\<open>a ?? b\<close> is \<open>b\<close> only when \<open>a\<close> is null or undefined: an empty access cookie hides the refresh cookie.\<close>

definition isCookieAuthenticated :: "server_config \<Rightarrow> http_request \<Rightarrow> bool" where
  "isCookieAuthenticated conf rq \<longleftrightarrow>
     truthy (case readCookies rq (access_cookie conf) of
               None \<Rightarrow> readCookies rq (refresh_cookie conf) | Some t \<Rightarrow> Some t)"

definition assertRequest :: "server_config \<Rightarrow> http_request \<Rightarrow> failure + unit" where
  "assertRequest conf rq =
     (if js_upper (rq_method rq) \<in> set SAFE_METHODS then Inr ()
      else
      case assertTrustedOrigin conf rq of
        Inl err \<Rightarrow> Inl err
      | Inr _ \<Rightarrow>
          if \<not> isCookieAuthenticated conf rq then Inr ()
          else
            (let cookieToken = readCookies rq (csrf_cookie conf); headerToken = header_value (rq_csrfToken rq) in
             if \<not> truthy cookieToken \<or> \<not> truthy headerToken \<or> the cookieToken \<noteq> the headerToken
             then Inl (Http Forbidden ''CSRF_INVALID'') else Inr ()))"

section \<open>Guards\<close>

text \<open>What the decorators of a handler and of its controller declare.\<close>

record route =
  rt_method :: string
  rt_public :: bool
  rt_roles :: "membership_role list"
  rt_stepUp :: bool
  rt_organization :: bool

definition authentication_required :: failure where
  "authentication_required = Http Unauthorized ''AUTHENTICATION_REQUIRED''"

definition no_auth :: failure where
  "no_auth = ExternalError ''TypeError: Cannot read properties of undefined''"

definition sessionAuthGuard ::
  "server_config \<Rightarrow> (string \<Rightarrow> string \<Rightarrow> string) \<Rightarrow> string \<Rightarrow> env \<Rightarrow> route \<Rightarrow> http_request \<Rightarrow> db \<Rightarrow>
     failure + auth_context option" where
  "sessionAuthGuard conf hmac key e rt rq d =
     (let accessToken = readCookies rq (access_cookie conf) in
      if \<not> truthy accessToken then (if rt_public rt then Inr None else Inl authentication_required)
      else
        (case authenticateAccessToken hmac key e (the accessToken) d of
           Inr a \<Rightarrow> Inr (Some a)
         | Inl err \<Rightarrow> if rt_public rt then Inr None else Inl err))"

definition rolesGuard :: "route \<Rightarrow> auth_context option \<Rightarrow> failure + unit" where
  "rolesGuard rt auth =
     (if rt_roles rt = [] then Inr ()
      else
        (case auth of
           None \<Rightarrow> Inl no_auth
         | Some a \<Rightarrow> if role a \<in> set (rt_roles rt) then Inr () else Inl (Http Forbidden ''ROLE_FORBIDDEN'')))"

definition stepUpGuard :: "env \<Rightarrow> route \<Rightarrow> auth_context option \<Rightarrow> failure + unit" where
  "stepUpGuard e rt auth =
     (if \<not> rt_stepUp rt then Inr ()
      else
        (case auth of
           None \<Rightarrow> Inl no_auth
         | Some a \<Rightarrow>
             (case stepUpVerifiedAt a of
                None \<Rightarrow> Inl (Http Forbidden ''STEP_UP_REQUIRED'')
              | Some t \<Rightarrow>
                  if clock e 3 - t \<le> stepUpTtl e then Inr () else Inl (Http Forbidden ''STEP_UP_REQUIRED''))))"

definition organizationScopeGuard :: "route \<Rightarrow> http_request \<Rightarrow> auth_context option \<Rightarrow> failure + unit" where
  "organizationScopeGuard rt rq auth =
     (if \<not> rt_organization rt then Inr ()
      else if \<not> truthy (rq_organizationId rq) then Inl (Http NotFound ''ORGANIZATION_NOT_FOUND'')
      else
        (case auth of
           None \<Rightarrow> Inl no_auth
         | Some a \<Rightarrow>
             if the (rq_organizationId rq) \<noteq> organizationId a
             then Inl (Http NotFound ''ORGANIZATION_NOT_FOUND'') else Inr ()))"

text \<open>The global guards in the order of the providers, then the guard of the controller.\<close>

definition enter ::
  "server_config \<Rightarrow> (string \<Rightarrow> string \<Rightarrow> string) \<Rightarrow> string \<Rightarrow> env \<Rightarrow> route \<Rightarrow> http_request \<Rightarrow> db \<Rightarrow>
     failure + auth_context option" where
  "enter conf hmac key e rt rq d =
     (case sessionAuthGuard conf hmac key e rt rq d of
        Inl err \<Rightarrow> Inl err
      | Inr auth \<Rightarrow>
      case assertRequest conf rq of
        Inl err \<Rightarrow> Inl err
      | Inr _ \<Rightarrow>
      case rolesGuard rt auth of
        Inl err \<Rightarrow> Inl err
      | Inr _ \<Rightarrow>
      case stepUpGuard e rt auth of
        Inl err \<Rightarrow> Inl err
      | Inr _ \<Rightarrow>
      case organizationScopeGuard rt rq auth of
        Inl err \<Rightarrow> Inl err
      | Inr _ \<Rightarrow> Inr auth)"

section \<open>Lemmas\<close>

lemma enter_Inr:
  "enter conf hmac key e rt rq d = Inr auth \<longleftrightarrow>
     sessionAuthGuard conf hmac key e rt rq d = Inr auth \<and> assertRequest conf rq = Inr () \<and>
     rolesGuard rt auth = Inr () \<and> stepUpGuard e rt auth = Inr () \<and> organizationScopeGuard rt rq auth = Inr ()"
  by (auto simp: enter_def split: sum.splits)

lemma entered_private:
  assumes "enter conf hmac key e rt rq d = Inr auth" and "\<not> rt_public rt"
  obtains a token where "auth = Some a" "readCookies rq (access_cookie conf) = Some token"
    "authenticateAccessToken hmac key e token d = Inr a"
  using assms by (auto simp: enter_Inr sessionAuthGuard_def Let_def truthy_def split: if_splits sum.splits option.splits)

lemma entered_roles:
  assumes "enter conf hmac key e rt rq d = Inr (Some a)"
  shows "rt_roles rt \<noteq> [] \<Longrightarrow> role a \<in> set (rt_roles rt)"
    "rt_stepUp rt \<Longrightarrow> \<exists>t. stepUpVerifiedAt a = Some t \<and> clock e 3 - t \<le> stepUpTtl e"
    "rt_organization rt \<Longrightarrow> rq_organizationId rq = Some (organizationId a)"
  using assms
  by (auto simp: enter_Inr rolesGuard_def stepUpGuard_def organizationScopeGuard_def truthy_def
      split: if_splits option.splits)

lemma decodeURIComponent_plain: "CHR ''%'' \<notin> set s \<Longrightarrow> decodeURIComponent s = Some s"
  by (induction s) auto

end
