(* ===== verification/Bodies.thy ===== *)
theory Bodies
  imports Auth Buildings Contracts Approvals Invoices Fake_Bank Dashboard
begin

text \<open>
  The decorators of the request bodies, as the \<open>ValidationPipe\<close> of \<open>apps/api/src/main.ts\<close>
  applies them: the transforms first, then the validators, and a body that fails one is answered 400.
  The classes are those of \<open>crm/dto.ts\<close>, \<open>invoices/dto.ts\<close>, \<open>approvals/dto.ts\<close>, \<open>integrations/dto.ts\<close>
  and \<open>identity/dto.ts\<close>.  Dates, money and numbers are already read, so what is left of their validators
  is their range; \<open>@IsEmail()\<close> and \<open>@IsUUID()\<close> are the library's and the fields of the record \<open>checks\<close>.
\<close>

record checks =
  is_email :: "string \<Rightarrow> bool"
  is_uuid :: "string \<Rightarrow> bool"
  is_uuid4 :: "string \<Rightarrow> bool"

definition bad_request :: failure where
  "bad_request = Http BadRequest ''Bad Request''"

definition accept :: "('a \<Rightarrow> 'a) \<Rightarrow> ('a \<Rightarrow> bool) \<Rightarrow> 'a \<Rightarrow> failure + 'a" where
  "accept transform valid dto = (if valid (transform dto) then Inr (transform dto) else Inl bad_request)"

lemma accept_Inr: "accept f V x = Inr y \<longleftrightarrow> y = f x \<and> V y"
  by (auto simp: accept_def)

text \<open>\<open>@IsOptional()\<close> skips the validators of an absent and of a null property.\<close>

definition if_given :: "('a \<Rightarrow> bool) \<Rightarrow> 'a option \<Rightarrow> bool" where
  "if_given P v = (case v of None \<Rightarrow> True | Some x \<Rightarrow> P x)"

definition if_set :: "('a \<Rightarrow> bool) \<Rightarrow> 'a field \<Rightarrow> bool" where
  "if_set P f = if_given P (defined f)"

definition upper :: "string \<Rightarrow> string" where "upper s = js_upper (js_trim s)"
definition lower :: "string \<Rightarrow> string" where "lower s = js_lower (js_trim s)"

definition at_most :: "nat \<Rightarrow> string \<Rightarrow> bool" where
  "at_most n s \<longleftrightarrow> length s \<le> n"

definition letters :: "nat \<Rightarrow> string \<Rightarrow> bool" where
  "letters n s \<longleftrightarrow> length s = n \<and> list_all is_upper s"

definition elements :: "nat \<Rightarrow> ('a \<Rightarrow> bool) \<Rightarrow> 'a list \<Rightarrow> bool" where
  "elements n P xs \<longleftrightarrow> length xs \<le> n \<and> list_all P xs"

section \<open>Queries\<close>

definition transform_PageQueryDto :: "page_query \<Rightarrow> page_query" where
  "transform_PageQueryDto q = q\<lparr>pq_q := map_option js_trim (pq_q q)\<rparr>"

definition valid_PageQueryDto :: "checks \<Rightarrow> page_query \<Rightarrow> bool" where
  "valid_PageQueryDto ck q \<longleftrightarrow> if_given (at_most 100) (pq_q q) \<and> if_given (is_uuid ck) (pq_cursor q) \<and>
     1 \<le> pq_limit q \<and> pq_limit q \<le> 50"

definition transform_VendorPageQueryDto :: "vendor_query \<Rightarrow> vendor_query" where
  "transform_VendorPageQueryDto q = q\<lparr>vq_page := transform_PageQueryDto (vq_page q)\<rparr>"

definition valid_VendorPageQueryDto :: "checks \<Rightarrow> vendor_query \<Rightarrow> bool" where
  "valid_VendorPageQueryDto ck q \<longleftrightarrow> valid_PageQueryDto ck (vq_page q) \<and> if_given (is_uuid ck) (vq_buildingId q)"

definition transform_ContractPageQueryDto :: "contract_query \<Rightarrow> contract_query" where
  "transform_ContractPageQueryDto q = q\<lparr>cq_page := transform_PageQueryDto (cq_page q)\<rparr>"

definition valid_ContractPageQueryDto :: "checks \<Rightarrow> contract_query \<Rightarrow> bool" where
  "valid_ContractPageQueryDto ck q \<longleftrightarrow> valid_PageQueryDto ck (cq_page q) \<and>
     if_given (is_uuid ck) (cq_buildingId q) \<and> if_given (is_uuid ck) (cq_vendorId q)"

definition transform_AuditPageQueryDto :: "audit_query \<Rightarrow> audit_query" where
  "transform_AuditPageQueryDto q = q\<lparr>aq_page := transform_PageQueryDto (aq_page q)\<rparr>"

definition valid_AuditPageQueryDto :: "checks \<Rightarrow> audit_query \<Rightarrow> bool" where
  "valid_AuditPageQueryDto ck q \<longleftrightarrow> valid_PageQueryDto ck (aq_page q) \<and>
     if_given (\<lambda>s. s \<in> {''VENDOR'', ''CONTRACT'', ''BANK_ACCOUNT''}) (aq_entityType q) \<and>
     if_given (is_uuid ck) (aq_entityId q)"

section \<open>Buildings\<close>

definition transform_CreateBuildingDto :: "create_building_dto \<Rightarrow> create_building_dto" where
  "transform_CreateBuildingDto dto =
     \<lparr>cbd_name = js_trim (cbd_name dto), cbd_addressLine1 = js_trim (cbd_addressLine1 dto),
      cbd_addressLine2 = map_option js_trim (cbd_addressLine2 dto), cbd_city = js_trim (cbd_city dto),
      cbd_postalCode = js_trim (cbd_postalCode dto), cbd_countryCode = upper (cbd_countryCode dto)\<rparr>"

definition valid_CreateBuildingDto :: "create_building_dto \<Rightarrow> bool" where
  "valid_CreateBuildingDto dto \<longleftrightarrow>
     length_within 2 160 (cbd_name dto) \<and> length_within 2 200 (cbd_addressLine1 dto) \<and>
     if_given (at_most 200) (cbd_addressLine2 dto) \<and> length_within 2 120 (cbd_city dto) \<and>
     length_within 2 24 (cbd_postalCode dto) \<and> letters 2 (cbd_countryCode dto)"

definition transform_UpdateBuildingDto :: "update_building_dto \<Rightarrow> update_building_dto" where
  "transform_UpdateBuildingDto dto =
     \<lparr>ubd_name = map_field js_trim (ubd_name dto), ubd_addressLine1 = map_field js_trim (ubd_addressLine1 dto),
      ubd_addressLine2 = map_field js_trim (ubd_addressLine2 dto), ubd_city = map_field js_trim (ubd_city dto),
      ubd_postalCode = map_field js_trim (ubd_postalCode dto),
      ubd_countryCode = map_field upper (ubd_countryCode dto)\<rparr>"

definition valid_UpdateBuildingDto :: "update_building_dto \<Rightarrow> bool" where
  "valid_UpdateBuildingDto dto \<longleftrightarrow>
     if_set (length_within 2 160) (ubd_name dto) \<and> if_set (length_within 2 200) (ubd_addressLine1 dto) \<and>
     if_set (at_most 200) (ubd_addressLine2 dto) \<and> if_set (length_within 2 120) (ubd_city dto) \<and>
     if_set (length_within 2 24) (ubd_postalCode dto) \<and> if_set (letters 2) (ubd_countryCode dto)"

definition transform_CreateApartmentDto :: "string \<times> string option \<Rightarrow> string \<times> string option" where
  "transform_CreateApartmentDto = map_prod js_trim (map_option js_trim)"

definition valid_CreateApartmentDto :: "string \<times> string option \<Rightarrow> bool" where
  "valid_CreateApartmentDto dto \<longleftrightarrow> length_within 1 40 (fst dto) \<and> if_given (at_most 20) (snd dto)"

section \<open>Vendors\<close>

definition transform_CreateVendorDto :: "create_vendor_dto \<Rightarrow> create_vendor_dto" where
  "transform_CreateVendorDto dto =
     \<lparr>cvd_legalName = js_trim (cvd_legalName dto), cvd_tradingName = map_option js_trim (cvd_tradingName dto),
      cvd_registrationNumber = map_option js_trim (cvd_registrationNumber dto),
      cvd_taxId = map_option js_trim (cvd_taxId dto), cvd_email = map_option lower (cvd_email dto),
      cvd_phone = map_option js_trim (cvd_phone dto), cvd_status = cvd_status dto, cvd_tags = cvd_tags dto,
      cvd_internalNotes = map_option js_trim (cvd_internalNotes dto), cvd_buildingIds = cvd_buildingIds dto\<rparr>"

definition valid_CreateVendorDto :: "checks \<Rightarrow> create_vendor_dto \<Rightarrow> bool" where
  "valid_CreateVendorDto ck dto \<longleftrightarrow>
     length_within 2 200 (cvd_legalName dto) \<and> if_given (at_most 200) (cvd_tradingName dto) \<and>
     if_given (at_most 80) (cvd_registrationNumber dto) \<and> if_given (at_most 80) (cvd_taxId dto) \<and>
     if_given (\<lambda>s. is_email ck s \<and> at_most 320 s) (cvd_email dto) \<and> if_given (at_most 40) (cvd_phone dto) \<and>
     if_given (elements 20 (at_most 60)) (cvd_tags dto) \<and> if_given (at_most 4000) (cvd_internalNotes dto) \<and>
     if_given (elements 50 (is_uuid4 ck)) (cvd_buildingIds dto)"

definition transform_UpdateVendorDto :: "update_vendor_dto \<Rightarrow> update_vendor_dto" where
  "transform_UpdateVendorDto dto =
     \<lparr>uvd_legalName = map_field js_trim (uvd_legalName dto), uvd_tradingName = map_field js_trim (uvd_tradingName dto),
      uvd_registrationNumber = map_field js_trim (uvd_registrationNumber dto),
      uvd_taxId = map_field js_trim (uvd_taxId dto), uvd_email = map_field lower (uvd_email dto),
      uvd_phone = map_field js_trim (uvd_phone dto), uvd_status = uvd_status dto, uvd_tags = uvd_tags dto,
      uvd_internalNotes = map_field js_trim (uvd_internalNotes dto), uvd_buildingIds = uvd_buildingIds dto\<rparr>"

definition valid_UpdateVendorDto :: "checks \<Rightarrow> update_vendor_dto \<Rightarrow> bool" where
  "valid_UpdateVendorDto ck dto \<longleftrightarrow>
     if_set (length_within 2 200) (uvd_legalName dto) \<and> if_set (at_most 200) (uvd_tradingName dto) \<and>
     if_set (at_most 80) (uvd_registrationNumber dto) \<and> if_set (at_most 80) (uvd_taxId dto) \<and>
     if_set (\<lambda>s. is_email ck s \<and> at_most 320 s) (uvd_email dto) \<and> if_set (at_most 40) (uvd_phone dto) \<and>
     if_set (elements 20 (at_most 60)) (uvd_tags dto) \<and> if_set (at_most 4000) (uvd_internalNotes dto) \<and>
     if_given (elements 50 (is_uuid4 ck)) (uvd_buildingIds dto)"

definition transform_CreateVendorContactDto :: "contact_dto \<Rightarrow> contact_dto" where
  "transform_CreateVendorContactDto dto =
     \<lparr>cd_name = js_trim (cd_name dto), cd_role = map_option js_trim (cd_role dto),
      cd_email = map_option lower (cd_email dto), cd_phone = map_option js_trim (cd_phone dto),
      cd_isVerified = cd_isVerified dto\<rparr>"

definition valid_CreateVendorContactDto :: "checks \<Rightarrow> contact_dto \<Rightarrow> bool" where
  "valid_CreateVendorContactDto ck dto \<longleftrightarrow>
     length_within 2 160 (cd_name dto) \<and> if_given (at_most 120) (cd_role dto) \<and>
     if_given (\<lambda>s. is_email ck s \<and> at_most 320 s) (cd_email dto) \<and> if_given (at_most 40) (cd_phone dto)"

text \<open>\<open>^[A-Z0-9][A-Z0-9 -]{5,63}$\<close>, after the trimming and the upper case.\<close>

definition account_number_ok :: "string \<Rightarrow> bool" where
  "account_number_ok s \<longleftrightarrow> length_within 6 64 s \<and> (is_upper (hd s) \<or> is_digit (hd s)) \<and>
     list_all (\<lambda>c. is_upper c \<or> is_digit c \<or> c = CHR '' '' \<or> c = CHR ''-'') s"

definition transform_CreateBankAccountVersionDto :: "string \<times> plain_account \<Rightarrow> string \<times> plain_account" where
  "transform_CreateBankAccountVersionDto dto =
     (upper (fst dto),
      \<lparr>acc_accountNumber = upper (acc_accountNumber (snd dto)),
       acc_accountHolder = js_trim (acc_accountHolder (snd dto)),
       acc_bankName = map_option js_trim (acc_bankName (snd dto))\<rparr>)"

definition valid_CreateBankAccountVersionDto :: "string \<times> plain_account \<Rightarrow> bool" where
  "valid_CreateBankAccountVersionDto dto \<longleftrightarrow>
     length_within 2 200 (acc_accountHolder (snd dto)) \<and> if_given (at_most 160) (acc_bankName (snd dto)) \<and>
     letters 2 (fst dto) \<and> account_number_ok (acc_accountNumber (snd dto))"

text \<open>A verification names a status, an evidence reference and a reason.\<close>

definition transform_VerifyBankAccountDto ::
  "bank_status \<times> string option \<times> string option \<Rightarrow> bank_status \<times> string option \<times> string option" where
  "transform_VerifyBankAccountDto = (\<lambda>(st, ev, rs). (st, map_option js_trim ev, map_option js_trim rs))"

definition valid_VerifyBankAccountDto :: "bank_status \<times> string option \<times> string option \<Rightarrow> bool" where
  "valid_VerifyBankAccountDto = (\<lambda>(st, ev, rs). if_given (at_most 500) ev \<and> if_given (at_most 500) rs)"

definition valid_RevealBankAccountDto :: "string \<Rightarrow> bool" where
  "valid_RevealBankAccountDto rs \<longleftrightarrow> length_within 10 500 rs"

section \<open>Contracts\<close>

text \<open>\<open>^\d{1,17}(?:\.\d{1,2})?$\<close>, read into hundredths.\<close>

definition value_limit_ok :: "cents \<Rightarrow> bool" where
  "value_limit_ok v \<longleftrightarrow> 0 \<le> v \<and> v < 10 ^ 19"

definition transform_CreateContractDto :: "create_contract_dto \<Rightarrow> create_contract_dto" where
  "transform_CreateContractDto dto =
     \<lparr>ccd_vendorId = ccd_vendorId dto, ccd_reference = js_trim (ccd_reference dto),
      ccd_title = js_trim (ccd_title dto), ccd_serviceCategory = js_trim (ccd_serviceCategory dto),
      ccd_valueLimit = ccd_valueLimit dto, ccd_currency = map_option upper (ccd_currency dto),
      ccd_startsOn = ccd_startsOn dto, ccd_endsOn = ccd_endsOn dto, ccd_status = ccd_status dto,
      ccd_documentReference = map_option js_trim (ccd_documentReference dto), ccd_buildingIds = ccd_buildingIds dto\<rparr>"

definition valid_CreateContractDto :: "checks \<Rightarrow> create_contract_dto \<Rightarrow> bool" where
  "valid_CreateContractDto ck dto \<longleftrightarrow>
     is_uuid ck (ccd_vendorId dto) \<and> length_within 1 80 (ccd_reference dto) \<and> length_within 2 200 (ccd_title dto) \<and>
     length_within 2 120 (ccd_serviceCategory dto) \<and> if_given value_limit_ok (ccd_valueLimit dto) \<and>
     if_given (letters 3) (ccd_currency dto) \<and> if_given (at_most 500) (ccd_documentReference dto) \<and>
     ccd_buildingIds dto \<noteq> [] \<and> elements 50 (is_uuid4 ck) (ccd_buildingIds dto)"

definition transform_UpdateContractDto :: "update_contract_dto \<Rightarrow> update_contract_dto" where
  "transform_UpdateContractDto dto =
     \<lparr>ucd_vendorId = ucd_vendorId dto, ucd_reference = map_field js_trim (ucd_reference dto),
      ucd_title = map_field js_trim (ucd_title dto), ucd_serviceCategory = map_field js_trim (ucd_serviceCategory dto),
      ucd_valueLimit = ucd_valueLimit dto, ucd_currency = map_field upper (ucd_currency dto),
      ucd_startsOn = ucd_startsOn dto, ucd_endsOn = ucd_endsOn dto, ucd_status = ucd_status dto,
      ucd_documentReference = map_field js_trim (ucd_documentReference dto), ucd_buildingIds = ucd_buildingIds dto\<rparr>"

definition valid_UpdateContractDto :: "checks \<Rightarrow> update_contract_dto \<Rightarrow> bool" where
  "valid_UpdateContractDto ck dto \<longleftrightarrow>
     if_set (is_uuid ck) (ucd_vendorId dto) \<and> if_set (length_within 1 80) (ucd_reference dto) \<and>
     if_set (length_within 2 200) (ucd_title dto) \<and> if_set (length_within 2 120) (ucd_serviceCategory dto) \<and>
     if_set value_limit_ok (ucd_valueLimit dto) \<and> if_set (letters 3) (ucd_currency dto) \<and>
     if_set (at_most 500) (ucd_documentReference dto) \<and> if_given (elements 50 (is_uuid4 ck)) (ucd_buildingIds dto)"

section \<open>Invoices, approvals and the webhook\<close>

definition valid_UploadInvoiceDto :: "checks \<Rightarrow> uuid option \<times> uuid option \<Rightarrow> bool" where
  "valid_UploadInvoiceDto ck dto \<longleftrightarrow> if_given (is_uuid ck) (fst dto) \<and> if_given (is_uuid ck) (snd dto)"

definition valid_InvoiceLineDto :: "line_dto \<Rightarrow> bool" where
  "valid_InvoiceLineDto l \<longleftrightarrow>
     at_most 500 (ldto_description l) \<and> 1 \<le> ldto_quantity l \<and> 0 \<le> ldto_unitPrice l \<and>
     if_given (\<lambda>r. 0 \<le> r \<and> r \<le> 1000000) (ldto_taxRate l) \<and> 0 \<le> ldto_amount l"

definition valid_UpdateInvoiceDraftDto :: "checks \<Rightarrow> update_invoice_dto \<Rightarrow> bool" where
  "valid_UpdateInvoiceDraftDto ck dto \<longleftrightarrow>
     1 \<le> uid_version dto \<and> if_set (is_uuid ck) (uid_vendorId dto) \<and> if_set (is_uuid ck) (uid_contractId dto) \<and>
     if_set (at_most 80) (uid_number dto) \<and> if_set (length_within 3 3) (uid_currency dto) \<and>
     if_set ((\<le>) 0) (uid_subtotal dto) \<and> if_set ((\<le>) 0) (uid_taxAmount dto) \<and>
     if_set ((\<le>) 0) (uid_totalAmount dto) \<and> if_set (at_most 4000) (uid_notes dto) \<and>
     if_given (list_all valid_InvoiceLineDto) (uid_lines dto)"

definition valid_SubmitInvoiceDto :: "nat \<Rightarrow> bool" where
  "valid_SubmitInvoiceDto v \<longleftrightarrow> 1 \<le> v"

definition valid_FakeBankWebhookDto :: "checks \<Rightarrow> fake_bank_payload \<Rightarrow> bool" where
  "valid_FakeBankWebhookDto ck p \<longleftrightarrow>
     is_uuid ck (fb_eventId p) \<and> is_uuid ck (fb_organizationId p) \<and> is_uuid ck (fb_vendorId p) \<and>
     is_uuid ck (fb_bankAccountVersionId p)"

text \<open>The transforms of the identity bodies touch the address alone.\<close>

definition transform_OnboardOrganizationDto :: "onboard_dto \<Rightarrow> onboard_dto" where
  "transform_OnboardOrganizationDto dto = dto\<lparr>on_email := normalizeEmail (on_email dto)\<rparr>"

definition transform_LoginDto :: "login_dto \<Rightarrow> login_dto" where
  "transform_LoginDto dto = dto\<lparr>lg_email := normalizeEmail (lg_email dto)\<rparr>"

definition valid_RegisterPasskeyDto :: "string option \<Rightarrow> bool" where
  "valid_RegisterPasskeyDto deviceName \<longleftrightarrow> if_given (at_most 120) deviceName"

section \<open>What a validated body guarantees\<close>

lemma letters_country: "letters 2 s \<Longrightarrow> country_code_ok s"
  by (simp add: letters_def country_code_ok_def)

end
