(* ===== verification/Controllers.thy ===== *)
theory Controllers
  imports Http Bodies Passkeys Download_Tokens
begin

text \<open>
  The controllers of \<open>apps/api/src\<close>: one datatype of calls per controller, the decorators of each
  handler as a \<open>route\<close>, the handler with the validation of its body, and its answer.  \<open>serve\<close> lets a
  request pass the guards of \<open>Http\<close> and then calls the handler; guards and handler read the database
  at different moments, \<open>d0\<close> and \<open>d\<close>, and have their own readings of the clock, \<open>ge\<close> and \<open>e\<close>.
\<close>

section \<open>Health\<close>

text \<open>
  The probes of \<open>health/health.service.ts\<close>: PostgreSQL answers a query, and Redis, which connects lazily, a ping.
  What the two clients answer is the argument.
\<close>

record probes =
  prb_query :: bool
  prb_redis_status :: string
  prb_connect :: bool
  prb_ping :: bool

definition pingRedis :: "probes \<Rightarrow> bool" where
  "pingRedis p \<longleftrightarrow> (prb_redis_status p = ''wait'' \<longrightarrow> prb_connect p) \<and> prb_ping p"

definition dependency_unavailable :: failure where
  "dependency_unavailable = Http ServiceUnavailable ''DEPENDENCY_UNAVAILABLE''"

definition readiness :: "probes \<Rightarrow> failure + unit" where
  "readiness p = (if prb_query p \<and> pingRedis p then Inr () else Inl dependency_unavailable)"

section \<open>What the process is configured with and what it calls\<close>

text \<open>
  Two HMAC encodings (base64url and hexadecimal), Argon2id with its configured costs, SHA-1 and the range
  service of breached passwords, AES and HKDF, the WebAuthn library, the collation of the database, and
  object storage, queue and the probed clients as they answer this request.
\<close>

record api =
  api_config :: server_config
  api_hmac :: "string \<Rightarrow> string \<Rightarrow> string"
  api_sessionKey :: string
  api_downloadSecret :: string
  api_hexHmac :: "string \<Rightarrow> string \<Rightarrow> string"
  api_webhookSecret :: "string option"
  api_argon2 :: argon2_function
  api_costs :: "argon_parameters option"
  api_dummyHash :: string
  api_salt :: string
  api_sha1 :: "string \<Rightarrow> string"
  api_range :: "string \<Rightarrow> (bool \<times> string) option"
  api_crypto :: crypto
  api_bank :: bank_service
  api_registration :: registration_verifier
  api_authentication :: authentication_verifier
  api_collation :: "string \<Rightarrow> nat list"
  api_checks :: checks
  api_upload :: upload_world
  api_storage :: "failure option"
  api_version :: "string option"
  api_dependencies :: probes

text \<open>What a handler does with an answer of a service, and with a body.\<close>

definition answer :: "('a \<Rightarrow> 'b) \<Rightarrow> (failure + 'a) \<times> db \<Rightarrow> (failure + 'b) \<times> db" where
  "answer f r = (case r of (Inl err, d) \<Rightarrow> (Inl err, d) | (Inr x, d) \<Rightarrow> (Inr (f x), d))"

definition validated ::
  "failure + 'a \<Rightarrow> ('a \<Rightarrow> db \<Rightarrow> (failure + 'b) \<times> db) \<Rightarrow> db \<Rightarrow> (failure + 'b) \<times> db" where
  "validated body f d = (case body of Inl err \<Rightarrow> (Inl err, d) | Inr dto \<Rightarrow> f dto d)"

definition org_route :: "string \<Rightarrow> membership_role list \<Rightarrow> bool \<Rightarrow> route" where
  "org_route m rs stepUp =
     \<lparr>rt_method = m, rt_public = False, rt_roles = rs, rt_stepUp = stepUp, rt_organization = True\<rparr>"

definition public_route :: "string \<Rightarrow> route" where
  "public_route m =
     \<lparr>rt_method = m, rt_public = True, rt_roles = [], rt_stepUp = False, rt_organization = False\<rparr>"

definition member_route :: "string \<Rightarrow> route" where
  "member_route m =
     \<lparr>rt_method = m, rt_public = False, rt_roles = [], rt_stepUp = False, rt_organization = False\<rparr>"

section \<open>\<open>identity/auth.controller.ts\<close>\<close>

datatype auth_call =
    Onboard onboard_dto
  | Login login_dto
  | Refresh
  | Logout
  | Logout_All
  | Me
  | Registration_Options
  | Verify_Registration assertion "string option"
  | Step_Up_Options
  | Verify_Step_Up assertion

text \<open>The answer carries no token but the CSRF token; the tokens travel in cookies.\<close>

record auth_response =
  rs_userId :: uuid
  rs_email :: string
  rs_displayName :: string
  rs_organizationId :: uuid
  rs_slug :: string
  rs_name :: string
  rs_role :: membership_role
  rs_csrfToken :: string
  rs_accessExpiresAt :: string
  rs_refreshExpiresAt :: string

definition authResponse :: "auth_result \<Rightarrow> auth_response" where
  "authResponse r =
     \<lparr>rs_userId = ar_userId r, rs_email = ar_email r, rs_displayName = ar_displayName r,
      rs_organizationId = ar_organizationId r, rs_slug = ar_slug r, rs_name = ar_name r, rs_role = ar_role r,
      rs_csrfToken = sb_csrfToken (ar_session r), rs_accessExpiresAt = toISOString (sb_accessExpiresAt (ar_session r)),
      rs_refreshExpiresAt = toISOString (sb_refreshExpiresAt (ar_session r))\<rparr>"

datatype auth_reply =
    Signed_In auth_response "cookie_call list"
  | Refreshed string string string "cookie_call list"
  | Logged_Out "cookie_call list"
  | Myself me_view
  | Passkey_Options passkey_options
  | Registered string "string option"
  | Stepped_Up string

definition refreshRequired :: failure where
  "refreshRequired = Http Unauthorized ''REFRESH_SESSION_REQUIRED''"

fun auth_route :: "auth_call \<Rightarrow> route" where
  "auth_route (Onboard _) = public_route ''POST''"
| "auth_route (Login _) = public_route ''POST''"
| "auth_route Refresh = public_route ''POST''"
| "auth_route Me = member_route ''GET''"
| "auth_route _ = member_route ''POST''"

definition signed_in :: "server_config \<Rightarrow> auth_result \<Rightarrow> auth_reply" where
  "signed_in conf r = Signed_In (authResponse r) (setSessionCookies conf (ar_session r))"

definition refreshed :: "server_config \<Rightarrow> session_bundle \<Rightarrow> auth_reply" where
  "refreshed conf s =
     Refreshed (sb_csrfToken s) (toISOString (sb_accessExpiresAt s)) (toISOString (sb_refreshExpiresAt s))
       (setSessionCookies conf s)"

definition request_metadata :: "http_request \<Rightarrow> metadata" where
  "request_metadata rq = metadataFrom (rq_userAgent rq) (rq_ip rq)"

text \<open>The public endpoints have no context, the others cannot do without.\<close>

fun public_auth_handler :: "api \<Rightarrow> env \<Rightarrow> http_request \<Rightarrow> auth_call \<Rightarrow> db \<Rightarrow> (failure + auth_reply) \<times> db" where
  "public_auth_handler s e rq (Onboard dto) d =
     validated (accept transform_OnboardOrganizationDto (valid_OnboardOrganizationDto (is_email (api_checks s))) dto)
       (\<lambda>dto d. answer (signed_in (api_config s))
          (onboard (api_hmac s) (api_sessionKey s) (api_argon2 s) (api_costs s) (api_sha1 s) (api_range s) e
            (api_salt s) (request_metadata rq) dto d)) d"
| "public_auth_handler s e rq (Login dto) d =
     validated (accept transform_LoginDto (valid_LoginDto (is_email (api_checks s))) dto)
       (\<lambda>dto d. answer (signed_in (api_config s))
          (login (api_hmac s) (api_sessionKey s) (api_argon2 s) (api_dummyHash s) e (request_metadata rq) dto d)) d"
| "public_auth_handler s e rq Refresh d =
     (let refreshToken = readCookies rq (refresh_cookie (api_config s)) in
      if \<not> truthy refreshToken then (Inl refreshRequired, d)
      else answer (refreshed (api_config s))
        (rotate (api_hmac s) (api_sessionKey s) e (the refreshToken) (request_metadata rq) d))"
| "public_auth_handler s e rq _ d = (Inl no_auth, d)"

fun auth_handler :: "api \<Rightarrow> env \<Rightarrow> auth_context \<Rightarrow> auth_call \<Rightarrow> db \<Rightarrow> (failure + auth_reply) \<times> db" where
  "auth_handler s e a Logout d =
     (Inr (Logged_Out (clearSessionCookies (api_config s))), revoke e (sessionId a) d)"
| "auth_handler s e a Logout_All d =
     (Inr (Logged_Out (clearSessionCookies (api_config s))), revokeAll e (userId a) d)"
| "auth_handler s e a Me d = answer Myself (me a d, d)"
| "auth_handler s e a Registration_Options d = answer Passkey_Options (registrationOptions e a d)"
| "auth_handler s e a (Verify_Registration response deviceName) d =
     validated (accept id valid_RegisterPasskeyDto deviceName)
       (\<lambda>deviceName d. answer (\<lambda>(cid, name). Registered cid name)
          (verifyRegistration (api_registration s) e a response deviceName d)) d"
| "auth_handler s e a Step_Up_Options d = answer Passkey_Options (stepUpOptions e a d)"
| "auth_handler s e a (Verify_Step_Up response) d =
     answer Stepped_Up (verifyStepUp (api_authentication s) e a response d)"
| "auth_handler s e a _ d = (Inl no_auth, d)"

section \<open>\<open>organizations/organizations.controller.ts\<close>\<close>

datatype organizations_call = Get_Organization | List_Members

datatype organizations_reply = Organization organization | Members "member_view list"

fun organizations_route :: "organizations_call \<Rightarrow> route" where
  "organizations_route Get_Organization = org_route ''GET'' [] False"
| "organizations_route List_Members = org_route ''GET'' [OWNER, ADMINISTRATOR, AUDITOR] True"

text \<open>The identifier is the parameter of the path, which the guard has compared with the caller's.\<close>

fun organizations_handler ::
  "http_request \<Rightarrow> organizations_call \<Rightarrow> db \<Rightarrow> (failure + organizations_reply) \<times> db" where
  "organizations_handler rq Get_Organization d =
     answer Organization (get_organization (the (rq_organizationId rq)) d, d)"
| "organizations_handler rq List_Members d =
     (Inr (Members (listMembers (the (rq_organizationId rq)) d)), d)"

section \<open>\<open>approvals/approvals.controller.ts\<close>\<close>

datatype approvals_call =
    List_Requests
  | Get_Request uuid
  | Decide uuid "string option" approval_decision_dto
  | Get_Policy
  | Update_Policy update_policy_dto

datatype approvals_reply = Requests "approval_view list" | Request approval_view | Policy risk_policy

definition reader_roles :: "membership_role list" where
  "reader_roles = [OWNER, ADMINISTRATOR, ACCOUNTANT, AUDITOR]"

definition finance_roles :: "membership_role list" where
  "finance_roles = [OWNER, ADMINISTRATOR, ACCOUNTANT]"

fun approvals_route :: "approvals_call \<Rightarrow> route" where
  "approvals_route List_Requests = org_route ''GET'' reader_roles False"
| "approvals_route (Get_Request _) = org_route ''GET'' reader_roles False"
| "approvals_route (Decide _ _ _) = org_route ''POST'' finance_roles True"
| "approvals_route Get_Policy = org_route ''GET'' [OWNER, ADMINISTRATOR, AUDITOR] False"
| "approvals_route (Update_Policy _) = org_route ''PATCH'' [OWNER] True"

fun approvals_handler ::
  "env \<Rightarrow> auth_context \<Rightarrow> approvals_call \<Rightarrow> db \<Rightarrow> (failure + approvals_reply) \<times> db" where
  "approvals_handler e a List_Requests d = answer Requests (list_requests e a d)"
| "approvals_handler e a (Get_Request rid) d = answer Request (get_request e a rid d)"
| "approvals_handler e a (Decide rid key dto) d =
     validated (accept id valid_ApprovalDecisionDto dto) (\<lambda>dto d. answer Request (decide e a rid dto key d)) d"
| "approvals_handler e a Get_Policy d = answer Policy (getPolicy e a d)"
| "approvals_handler e a (Update_Policy dto) d =
     validated (accept id valid_UpdateRiskPolicyDto dto) (\<lambda>dto d. answer Policy (updatePolicy e a dto d)) d"

section \<open>\<open>invoices/invoices.controller.ts\<close>\<close>

datatype invoices_call =
    List_Invoices
  | Get_Invoice uuid
  | Upload "uuid option" "uuid option" "uploaded_file option"
  | Update_Draft uuid update_invoice_dto
  | Submit uuid "string option" nat
  | Issue_Download uuid
  | Download uuid "string option"

datatype invoices_reply =
    Invoices "invoice_view list"
  | Invoice invoice_view
  | Submitted approval_view
  | Download_Token string nat
  | Content download_stream "(string \<times> string) list"

fun invoices_route :: "invoices_call \<Rightarrow> route" where
  "invoices_route List_Invoices = org_route ''GET'' reader_roles False"
| "invoices_route (Get_Invoice _) = org_route ''GET'' reader_roles False"
| "invoices_route (Upload _ _ _) = org_route ''POST'' finance_roles False"
| "invoices_route (Update_Draft _ _) = org_route ''PATCH'' finance_roles False"
| "invoices_route (Submit _ _ _) = org_route ''POST'' finance_roles False"
| "invoices_route (Issue_Download _) = org_route ''POST'' reader_roles False"
| "invoices_route (Download _ _) = org_route ''GET'' reader_roles False"

definition safeFilename :: "string \<Rightarrow> string" where
  "safeFilename filename =
     map (\<lambda>c. if c \<in> {CHR 0x22, CHR 0x5C, CHR 0x0D, CHR 0x0A} then CHR ''_'' else c) filename"

text \<open>\<open>^https?:\/\/[a-z0-9.-]+(?::\d+)?$\<close>, ignoring case.\<close>

definition host_char :: "char \<Rightarrow> bool" where
  "host_char c \<longleftrightarrow> is_upper c \<or> is_lower c \<or> is_digit c \<or> c = CHR ''.'' \<or> c = CHR ''-''"

definition host_and_port :: "string \<Rightarrow> bool" where
  "host_and_port s \<longleftrightarrow> takeWhile host_char s \<noteq> [] \<and>
     (case dropWhile host_char s of
        [] \<Rightarrow> True
      | c # ds \<Rightarrow> c = CHR '':'' \<and> ds \<noteq> [] \<and> list_all is_digit ds)"

definition frame_ancestor :: "string \<Rightarrow> bool" where
  "frame_ancestor origin \<longleftrightarrow>
     list_ex (\<lambda>scheme. is_prefix scheme (map to_lower origin) \<and> host_and_port (drop (length scheme) origin))
       [''http://'', ''https://'']"

definition trustedFrameAncestors :: "server_config \<Rightarrow> string" where
  "trustedFrameAncestors conf =
     (let origins = filter frame_ancestor (map js_trim (split_on (CHR '','')
            (case sc_trustedOrigins conf of None \<Rightarrow> ''http://localhost:3000'' | Some s \<Rightarrow> s)))
      in if origins = [] then [CHR 0x27] @ ''none'' @ [CHR 0x27] else join '' '' origins)"

definition download_headers :: "server_config \<Rightarrow> download_stream \<Rightarrow> (string \<times> string) list" where
  "download_headers conf x =
     [(''Cache-Control'', ''private, no-store''),
      (''Content-Type'', dls_mimeType x),
      (''Content-Security-Policy'', ''default-src '' @ [CHR 0x27] @ ''none'' @ [CHR 0x27] @ ''; frame-ancestors '' @
         trustedFrameAncestors conf),
      (''Cross-Origin-Resource-Policy'', ''cross-origin''),
      (''Content-Disposition'', ''inline; filename='' @ [CHR 0x22] @ safeFilename (dls_filename x) @ [CHR 0x22])]"

fun invoices_handler ::
  "api \<Rightarrow> env \<Rightarrow> auth_context \<Rightarrow> invoices_call \<Rightarrow> db \<Rightarrow> (failure + invoices_reply) \<times> db" where
  "invoices_handler s e a List_Invoices d = answer Invoices (list_invoices a d)"
| "invoices_handler s e a (Get_Invoice iid) d = answer Invoice (get_invoice a iid d)"
| "invoices_handler s e a (Upload vid cid upl) d =
     validated (accept id (valid_UploadInvoiceDto (api_checks s)) (vid, cid))
       (\<lambda>(vid, cid) d. answer Invoice (upload e (api_upload s) a vid cid upl d)) d"
| "invoices_handler s e a (Update_Draft iid dto) d =
     validated (accept id (valid_UpdateInvoiceDraftDto (api_checks s)) dto)
       (\<lambda>dto d. answer Invoice (update_invoice e a iid dto d)) d"
| "invoices_handler s e a (Submit iid key v) d =
     validated (accept id valid_SubmitInvoiceDto v) (\<lambda>v d. answer Submitted (submit e a iid v key d)) d"
| "invoices_handler s e a (Issue_Download did) d =
     answer (\<lambda>(t, n). Download_Token t n) (issueDownload (api_hmac s) (api_downloadSecret s) e a did d)"
| "invoices_handler s e a (Download did tok) d =
     answer (\<lambda>x. Content x (download_headers (api_config s) x))
       (download (api_hmac s) (api_downloadSecret s) e (api_storage s) a did tok d)"

end
