(* ===== verification/Crm_Controllers.thy ===== *)
theory Crm_Controllers
  imports Controllers
begin

text \<open>
  The controllers of \<open>apps/api/src/crm\<close>: buildings, vendors, contracts and the dashboard.  A body is
  validated before the handler runs; the handler of an update reads the version from \<open>If-Match\<close> before it
  calls the service.
\<close>

definition versioned ::
  "string option \<Rightarrow> (nat \<Rightarrow> db \<Rightarrow> (failure + 'b) \<times> db) \<Rightarrow> db \<Rightarrow> (failure + 'b) \<times> db" where
  "versioned ifMatch f d = (case expectedVersion ifMatch of Inl err \<Rightarrow> (Inl err, d) | Inr v \<Rightarrow> f v d)"

definition manager_roles :: "membership_role list" where
  "manager_roles = [OWNER, ADMINISTRATOR]"

section \<open>\<open>buildings.controller.ts\<close>\<close>

datatype buildings_call =
    List_Buildings page_query
  | List_Residents
  | Get_Building uuid
  | Create_Building create_building_dto
  | Update_Building uuid "string option" update_building_dto
  | Add_Apartment uuid string "string option"
  | Grant_Access uuid uuid "time option"
  | Add_Occupancy uuid uuid time "time option"

datatype buildings_reply =
    Buildings "building list" "uuid option"
  | Residents "(membership \<times> user) list"
  | Building_Details building "apartment_view list"
  | Building building
  | Apartment apartment
  | Access grant
  | Occupancy occupancy

fun buildings_route :: "buildings_call \<Rightarrow> route" where
  "buildings_route (List_Buildings _) = org_route ''GET'' [OWNER, ADMINISTRATOR, ACCOUNTANT, RESIDENT, AUDITOR] False"
| "buildings_route List_Residents = org_route ''GET'' manager_roles False"
| "buildings_route (Get_Building _) = org_route ''GET'' [OWNER, ADMINISTRATOR, AUDITOR] False"
| "buildings_route (Create_Building _) = org_route ''POST'' [OWNER] False"
| "buildings_route (Update_Building _ _ _) = org_route ''PATCH'' manager_roles False"
| "buildings_route (Add_Apartment _ _ _) = org_route ''POST'' manager_roles False"
| "buildings_route (Grant_Access _ _ _) = org_route ''POST'' [OWNER] True"
| "buildings_route (Add_Occupancy _ _ _ _) = org_route ''POST'' manager_roles False"

fun buildings_handler ::
  "api \<Rightarrow> env \<Rightarrow> auth_context \<Rightarrow> buildings_call \<Rightarrow> db \<Rightarrow> (failure + buildings_reply) \<times> db" where
  "buildings_handler s e a (List_Buildings q) d =
     validated (accept transform_PageQueryDto (valid_PageQueryDto (api_checks s)) q)
       (\<lambda>q d. answer (\<lambda>(bs, next). Buildings bs next) (list_buildings (api_collation s) e a q d)) d"
| "buildings_handler s e a List_Residents d = answer Residents (listResidents (api_collation s) a d)"
| "buildings_handler s e a (Get_Building bid) d =
     answer (\<lambda>(b, xs). Building_Details b xs) (get_building (api_collation s) e a bid d)"
| "buildings_handler s e a (Create_Building dto) d =
     validated (accept transform_CreateBuildingDto valid_CreateBuildingDto dto)
       (\<lambda>dto d. answer Building (create_building e a dto d)) d"
| "buildings_handler s e a (Update_Building bid ifMatch dto) d =
     validated (accept transform_UpdateBuildingDto valid_UpdateBuildingDto dto)
       (\<lambda>dto. versioned ifMatch (\<lambda>v d. answer Building (update_building e a bid v dto d))) d"
| "buildings_handler s e a (Add_Apartment bid unit flr) d =
     validated (accept transform_CreateApartmentDto valid_CreateApartmentDto (unit, flr))
       (\<lambda>(unit, flr) d. answer Apartment (addApartment e a bid unit flr d)) d"
| "buildings_handler s e a (Grant_Access bid mid until) d =
     validated (accept id (is_uuid (api_checks s)) mid)
       (\<lambda>mid d. answer Access (grantAccess e a bid mid until d)) d"
| "buildings_handler s e a (Add_Occupancy aid mid starts ends) d =
     validated (accept id (is_uuid (api_checks s)) mid)
       (\<lambda>mid d. answer Occupancy (addOccupancy e a aid mid starts ends d)) d"

section \<open>\<open>vendors.controller.ts\<close>\<close>

datatype vendors_call =
    List_Vendors vendor_query
  | Get_Vendor uuid
  | Create_Vendor create_vendor_dto
  | Update_Vendor uuid "string option" update_vendor_dto
  | Add_Contact uuid contact_dto
  | Bank_History uuid
  | Add_Bank_Version uuid string plain_account
  | Verify_Bank_Version uuid uuid bank_status "string option" "string option"
  | Reveal_Bank_Version uuid uuid string

datatype vendors_reply =
    Vendor_Views "vendor_view list" "uuid option"
  | Vendor_View vendor_view
  | Vendor vendor
  | Contact vendor_contact
  | Bank_Versions "bank_public list"
  | Bank_Version bank_public
  | Bank_Verification bank_verification
  | Revealed_Account revealed

fun vendors_route :: "vendors_call \<Rightarrow> route" where
  "vendors_route (List_Vendors _) = org_route ''GET'' reader_roles False"
| "vendors_route (Get_Vendor _) = org_route ''GET'' reader_roles False"
| "vendors_route (Create_Vendor _) = org_route ''POST'' manager_roles False"
| "vendors_route (Update_Vendor _ _ _) = org_route ''PATCH'' manager_roles False"
| "vendors_route (Add_Contact _ _) = org_route ''POST'' manager_roles True"
| "vendors_route (Bank_History _) = org_route ''GET'' reader_roles False"
| "vendors_route (Add_Bank_Version _ _ _) = org_route ''POST'' finance_roles True"
| "vendors_route (Verify_Bank_Version _ _ _ _ _) = org_route ''POST'' finance_roles True"
| "vendors_route (Reveal_Bank_Version _ _ _) = org_route ''POST'' finance_roles True"

fun vendors_handler ::
  "api \<Rightarrow> env \<Rightarrow> auth_context \<Rightarrow> vendors_call \<Rightarrow> db \<Rightarrow> (failure + vendors_reply) \<times> db" where
  "vendors_handler s e a (List_Vendors q) d =
     validated (accept transform_VendorPageQueryDto (valid_VendorPageQueryDto (api_checks s)) q)
       (\<lambda>q d. answer (\<lambda>(vs, next). Vendor_Views vs next) (list_vendors (api_collation s) e a q d)) d"
| "vendors_handler s e a (Get_Vendor vid) d = answer Vendor_View (get_vendor e a vid d)"
| "vendors_handler s e a (Create_Vendor dto) d =
     validated (accept transform_CreateVendorDto (valid_CreateVendorDto (api_checks s)) dto)
       (\<lambda>dto d. answer Vendor (create_vendor e a dto d)) d"
| "vendors_handler s e a (Update_Vendor vid ifMatch dto) d =
     validated (accept transform_UpdateVendorDto (valid_UpdateVendorDto (api_checks s)) dto)
       (\<lambda>dto. versioned ifMatch (\<lambda>v d. answer Vendor (update_vendor e a vid v dto d))) d"
| "vendors_handler s e a (Add_Contact vid dto) d =
     validated (accept transform_CreateVendorContactDto (valid_CreateVendorContactDto (api_checks s)) dto)
       (\<lambda>dto d. answer Contact (addContact e a vid dto d)) d"
| "vendors_handler s e a (Bank_History vid) d = answer Bank_Versions (bankHistory e a vid d)"
| "vendors_handler s e a (Add_Bank_Version vid country acc) d =
     validated (accept transform_CreateBankAccountVersionDto valid_CreateBankAccountVersionDto (country, acc))
       (\<lambda>(country, acc) d. answer Bank_Version
          (addBankVersion (api_crypto s) (api_bank s) e a vid country acc d)) d"
| "vendors_handler s e a (Verify_Bank_Version vid bkid st ev rs) d =
     validated (accept transform_VerifyBankAccountDto valid_VerifyBankAccountDto (st, ev, rs))
       (\<lambda>(st, ev, rs) d. answer Bank_Verification (verifyBankVersion e a vid bkid st ev rs d)) d"
| "vendors_handler s e a (Reveal_Bank_Version vid bkid rs) d =
     validated (accept js_trim valid_RevealBankAccountDto rs)
       (\<lambda>rs d. answer Revealed_Account (revealBankVersion (api_crypto s) (api_bank s) e a vid bkid rs d)) d"

section \<open>\<open>contracts.controller.ts\<close> and \<open>dashboard.controller.ts\<close>\<close>

datatype contracts_call =
    List_Contracts contract_query
  | Get_Contract uuid
  | Create_Contract create_contract_dto
  | Update_Contract uuid "string option" update_contract_dto

datatype contracts_reply =
    Contract_Views "contract_view list" "uuid option"
  | Contract_View contract_view
  | Contract contract

fun contracts_route :: "contracts_call \<Rightarrow> route" where
  "contracts_route (List_Contracts _) = org_route ''GET'' reader_roles False"
| "contracts_route (Get_Contract _) = org_route ''GET'' reader_roles False"
| "contracts_route (Create_Contract _) = org_route ''POST'' manager_roles False"
| "contracts_route (Update_Contract _ _ _) = org_route ''PATCH'' manager_roles False"

fun contracts_handler ::
  "api \<Rightarrow> env \<Rightarrow> auth_context \<Rightarrow> contracts_call \<Rightarrow> db \<Rightarrow> (failure + contracts_reply) \<times> db" where
  "contracts_handler s e a (List_Contracts q) d =
     validated (accept transform_ContractPageQueryDto (valid_ContractPageQueryDto (api_checks s)) q)
       (\<lambda>q d. answer (\<lambda>(cs, next). Contract_Views cs next) (list_contracts e a q d)) d"
| "contracts_handler s e a (Get_Contract cid) d = answer Contract_View (get_contract e a cid d)"
| "contracts_handler s e a (Create_Contract dto) d =
     validated (accept transform_CreateContractDto (valid_CreateContractDto (api_checks s)) dto)
       (\<lambda>dto d. answer Contract (create_contract e a dto d)) d"
| "contracts_handler s e a (Update_Contract cid ifMatch dto) d =
     validated (accept transform_UpdateContractDto (valid_UpdateContractDto (api_checks s)) dto)
       (\<lambda>dto. versioned ifMatch (\<lambda>v d. answer Contract (update_contract e a cid v dto d))) d"

datatype dashboard_call = Get_Dashboard | Audit_Events audit_query

datatype dashboard_reply = Dashboard dashboard_view | Events "audit_event list" "uuid option"

fun dashboard_route :: "dashboard_call \<Rightarrow> route" where
  "dashboard_route Get_Dashboard = org_route ''GET'' reader_roles False"
| "dashboard_route (Audit_Events _) = org_route ''GET'' [OWNER, AUDITOR] False"

fun dashboard_handler ::
  "api \<Rightarrow> env \<Rightarrow> auth_context \<Rightarrow> dashboard_call \<Rightarrow> db \<Rightarrow> (failure + dashboard_reply) \<times> db" where
  "dashboard_handler s e a Get_Dashboard d = answer Dashboard (get_dashboard (api_collation s) e a d)"
| "dashboard_handler s e a (Audit_Events q) d =
     validated (accept transform_AuditPageQueryDto (valid_AuditPageQueryDto (api_checks s)) q)
       (\<lambda>q d. answer (\<lambda>(vs, next). Events vs next) (list_audit a q d)) d"

end
