(* ===== verification/Gateway.thy ===== *)
theory Gateway
  imports Crm_Controllers
begin

text \<open>
  One request of the API from the guards to the answer: the remaining public endpoints (the webhook of
  \<open>integrations/fake-bank.controller.ts\<close>, \<open>health/\<close> and \<open>version.controller.ts\<close>), the union of all
  controllers, and \<open>serve\<close>, which \<open>app.module.ts\<close> composes of guards and handler.
\<close>

section \<open>Public endpoints\<close>

datatype public_call =
    Webhook fake_bank_payload "string option" "string option"
  | Live
  | Ready
  | Version

datatype public_reply = Accepted webhook_result | Alive string | Dependencies_Up | About string string

definition getVersion :: "api \<Rightarrow> public_reply" where
  "getVersion s =
     About (case api_version s of None \<Rightarrow> ''0.5.0-dev'' | Some v \<Rightarrow> v)
       (case sc_nodeEnv (api_config s) of None \<Rightarrow> ''development'' | Some v \<Rightarrow> v)"

fun public_call_route :: "public_call \<Rightarrow> route" where
  "public_call_route (Webhook _ _ _) = public_route ''POST''"
| "public_call_route _ = public_route ''GET''"

fun public_handler :: "api \<Rightarrow> env \<Rightarrow> public_call \<Rightarrow> db \<Rightarrow> (failure + public_reply) \<times> db" where
  "public_handler s e (Webhook p ts sig) d =
     validated (accept id (valid_FakeBankWebhookDto (api_checks s)) p)
       (\<lambda>p d. answer Accepted (process_webhook (api_hexHmac s) (api_webhookSecret s) e p ts sig d)) d"
| "public_handler s e Live d = (Inr (Alive (toISOString (clock e 0))), d)"
| "public_handler s e Ready d = (map_sum id (\<lambda>_. Dependencies_Up) (readiness (api_dependencies s)), d)"
| "public_handler s e Version d = (Inr (getVersion s), d)"

section \<open>All controllers\<close>

datatype api_call =
    Auth_Call auth_call
  | Organizations_Call organizations_call
  | Approvals_Call approvals_call
  | Invoices_Call invoices_call
  | Buildings_Call buildings_call
  | Vendors_Call vendors_call
  | Contracts_Call contracts_call
  | Dashboard_Call dashboard_call
  | Public_Call public_call

datatype api_reply =
    Auth_Reply auth_reply
  | Organizations_Reply organizations_reply
  | Approvals_Reply approvals_reply
  | Invoices_Reply invoices_reply
  | Buildings_Reply buildings_reply
  | Vendors_Reply vendors_reply
  | Contracts_Reply contracts_reply
  | Dashboard_Reply dashboard_reply
  | Public_Reply public_reply

fun route_of :: "api_call \<Rightarrow> route" where
  "route_of (Auth_Call c) = auth_route c"
| "route_of (Organizations_Call c) = organizations_route c"
| "route_of (Approvals_Call c) = approvals_route c"
| "route_of (Invoices_Call c) = invoices_route c"
| "route_of (Buildings_Call c) = buildings_route c"
| "route_of (Vendors_Call c) = vendors_route c"
| "route_of (Contracts_Call c) = contracts_route c"
| "route_of (Dashboard_Call c) = dashboard_route c"
| "route_of (Public_Call c) = public_call_route c"

text \<open>The handler of a private call, with the context the guard has attached to the request.\<close>

fun member_handler ::
  "api \<Rightarrow> env \<Rightarrow> http_request \<Rightarrow> auth_context \<Rightarrow> api_call \<Rightarrow> db \<Rightarrow> (failure + api_reply) \<times> db" where
  "member_handler s e rq a (Auth_Call c) d = answer Auth_Reply (auth_handler s e a c d)"
| "member_handler s e rq a (Organizations_Call c) d = answer Organizations_Reply (organizations_handler rq c d)"
| "member_handler s e rq a (Approvals_Call c) d = answer Approvals_Reply (approvals_handler e a c d)"
| "member_handler s e rq a (Invoices_Call c) d = answer Invoices_Reply (invoices_handler s e a c d)"
| "member_handler s e rq a (Buildings_Call c) d = answer Buildings_Reply (buildings_handler s e a c d)"
| "member_handler s e rq a (Vendors_Call c) d = answer Vendors_Reply (vendors_handler s e a c d)"
| "member_handler s e rq a (Contracts_Call c) d = answer Contracts_Reply (contracts_handler s e a c d)"
| "member_handler s e rq a (Dashboard_Call c) d = answer Dashboard_Reply (dashboard_handler s e a c d)"
| "member_handler s e rq a (Public_Call c) d = answer Public_Reply (public_handler s e c d)"

fun guest_handler :: "api \<Rightarrow> env \<Rightarrow> http_request \<Rightarrow> api_call \<Rightarrow> db \<Rightarrow> (failure + api_reply) \<times> db" where
  "guest_handler s e rq (Auth_Call c) d = answer Auth_Reply (public_auth_handler s e rq c d)"
| "guest_handler s e rq (Public_Call c) d = answer Public_Reply (public_handler s e c d)"
| "guest_handler s e rq _ d = (Inl no_auth, d)"

definition handle ::
  "api \<Rightarrow> env \<Rightarrow> http_request \<Rightarrow> auth_context option \<Rightarrow> api_call \<Rightarrow> db \<Rightarrow> (failure + api_reply) \<times> db" where
  "handle s e rq auth c =
     (if rt_public (route_of c) then guest_handler s e rq c
      else case auth of None \<Rightarrow> (\<lambda>d. (Inl no_auth, d)) | Some a \<Rightarrow> member_handler s e rq a c)"

text \<open>The router has matched the method of the request; a HEAD request is served as a GET, both are safe.\<close>

definition serve ::
  "api \<Rightarrow> env \<Rightarrow> db \<Rightarrow> env \<Rightarrow> http_request \<Rightarrow> api_call \<Rightarrow> db \<Rightarrow> (failure + api_reply) \<times> db" where
  "serve s ge d0 e rq c d =
     (case enter (api_config s) (api_hmac s) (api_sessionKey s) ge (route_of c)
             (rq\<lparr>rq_method := rt_method (route_of c)\<rparr>) d0 of
        Inl err \<Rightarrow> (Inl err, d)
      | Inr auth \<Rightarrow> handle s e rq auth c d)"

end
