(* ===== verification/Auth_Properties.thy ===== *)
theory Auth_Properties
  imports Auth Session_Properties
begin

text \<open>
  Onboarding and login: the password of the owner opens the organization, and which others do; and the
  password that opens every account without one.
\<close>

definition argon2_ok :: "argon2_function \<Rightarrow> bool" where
  "argon2_ok argon2 \<longleftrightarrow> (\<forall>message salt p k. argon2 message salt p = Inr k \<longrightarrow> length k = arg_tagLength p)"

definition accepted_costs :: "argon_parameters \<Rightarrow> bool" where
  "accepted_costs p \<longleftrightarrow> 8 * arg_parallelism p \<le> arg_memory p \<and> arg_memory p \<le> 262144 \<and>
     1 \<le> arg_passes p \<and> arg_passes p \<le> 10 \<and> 1 \<le> arg_parallelism p \<and> arg_parallelism p \<le> 8"

lemma password_parameters_fixed:
  "password_parameters memory passes = Some p \<Longrightarrow> arg_tagLength p = 32 \<and> arg_parallelism p = 1"
  by (auto simp: password_parameters_def split: option.splits)

lemma verify_hashed:
  assumes "argon2_ok argon2" and "password_parameters memory passes = Some p" and "length salt = 16"
    and "hash_password argon2 (Some p) salt pw = Inr h"
  shows "verify_password argon2 w h \<longleftrightarrow> accepted_costs p \<and> argon2 w salt p = argon2 pw salt p"
proof -
  from assms(4) obtain k where k: "argon2 pw salt p = Inr k" "h = encoded_hash p salt k"
    by (auto simp: hash_password_def split: sum.splits)
  have len: "length k = 32"
    using assms(1) k(1) password_parameters_fixed [OF assms(2)] by (auto simp: argon2_ok_def)
  have p: "p\<lparr>arg_tagLength := 32\<rparr> = p" using password_parameters_fixed [OF assms(2)] by (cases p) simp
  show ?thesis
    using parse_encoded [OF assms(3) len, of p] k
    by (auto simp: verify_password_def p accepted_costs_def MAX_MEMORY_KIB_def MAX_PASSES_def MAX_PARALLELISM_def
        split: sum.splits)
qed

lemma find_new: "\<forall>r \<in> set t. \<not> P r \<Longrightarrow> P r \<Longrightarrow> find P (t @ [r]) = Some r"
  by (induction t) auto

lemma create_session_users:
  "create_session hmac key e uid org md d = (r, d') \<Longrightarrow>
     users d' = users d \<and> organizations d' = organizations d \<and> memberships d' = memberships d"
  by (auto simp: create_session_def run_def create_session_tx_def Let_def split: sum.splits prod.splits)

lemma onboard_InrE:
  assumes "onboard hmac key argon2 (Some p) sha1 lookup e salt md dto d = (Inr r, d')"
  obtains h s where "hash_password argon2 (Some p) salt (on_password dto) = Inr h"
    "r = auth_result_of s (new_user e h dto) (new_organization e dto) OWNER"
    "\<forall>u \<in> set (users d). user_email u \<noteq> on_email dto"
    "\<forall>x \<in> set (organizations d). org_slug x \<noteq> on_organizationSlug dto"
    "\<forall>m \<in> set (memberships d). \<not> (mem_org m = new_uuid e 4 \<and> mem_userId m = new_uuid e 3)"
    "users d' = users d @ [new_user e h dto]" "organizations d' = organizations d @ [new_organization e dto]"
    "memberships d' = memberships d @ [new_owner e]"
proof -
  from assms obtain h s d1 where h: "hash_password argon2 (Some p) salt (on_password dto) = Inr h"
    and tx: "onboard_tx e h dto d = Inr ((new_user e h dto, new_organization e dto), d1)"
    and s: "create_session hmac key e (new_uuid e 3) (new_uuid e 4) md d1 = (Inr s, d')"
    and r: "r = auth_result_of s (new_user e h dto) (new_organization e dto) OWNER"
    by (auto simp: onboard_def run_def onboard_tx_def new_user_def new_organization_def
        split: sum.splits prod.splits if_splits)
  from tx have "\<forall>u \<in> set (users d). user_email u \<noteq> on_email dto"
    "\<forall>x \<in> set (organizations d). org_slug x \<noteq> on_organizationSlug dto"
    "\<forall>m \<in> set (memberships d). \<not> (mem_org m = new_uuid e 4 \<and> mem_userId m = new_uuid e 3)"
    "users d1 = users d @ [new_user e h dto]" "organizations d1 = organizations d @ [new_organization e dto]"
    "memberships d1 = memberships d @ [new_owner e]"
    by (auto simp: onboard_tx_def create_unique_def user_keys_def organization_keys_def membership_keys_def
        new_user_def new_organization_def new_owner_def split: if_splits)
  with that [OF h r] create_session_users [OF s] show thesis by simp
qed

text \<open>
  C15: The password of the owner opens the organization.  After a successful onboarding, a login with the same address
  and slug and any password opens a session of the owner exactly when Argon2id derives the same bytes from both
  passwords and the configured costs are within the bounds of the parser; otherwise it answers
  CREDENTIALS_INVALID and changes nothing.  In particular, with costs outside the bounds, which hashing accepts,
  nobody ever logs in.
\<close>

theorem onboarded_owner_logs_in:
  assumes "argon2_ok argon2" and "password_parameters memory passes = Some p" and "length salt = 16"
    and "onboard hmac key argon2 (Some p) sha1 lookup e salt md dto d = (Inr r, d')"
  shows "login hmac key argon2 dummy e2 md2 \<lparr>lg_email = on_email dto,
       lg_organizationSlug = on_organizationSlug dto, lg_password = w\<rparr> d' =
     (if accepted_costs p \<and> argon2 w salt p = argon2 (on_password dto) salt p
      then (case create_session hmac key e2 (ar_userId r) (ar_organizationId r) md2 d' of
              (Inl err, d2) \<Rightarrow> (Inl err, d2)
            | (Inr s, d2) \<Rightarrow> (Inr (r\<lparr>ar_session := s\<rparr>), d2))
      else (Inl credentials_invalid, d'))"
  using assms(4)
proof (rule onboard_InrE)
  fix h s
  assume h: "hash_password argon2 (Some p) salt (on_password dto) = Inr h"
    and r: "r = auth_result_of s (new_user e h dto) (new_organization e dto) OWNER"
    and new: "\<forall>u \<in> set (users d). user_email u \<noteq> on_email dto"
      "\<forall>x \<in> set (organizations d). org_slug x \<noteq> on_organizationSlug dto"
      "\<forall>m \<in> set (memberships d). \<not> (mem_org m = new_uuid e 4 \<and> mem_userId m = new_uuid e 3)"
    and d': "users d' = users d @ [new_user e h dto]" "organizations d' = organizations d @ [new_organization e dto]"
      "memberships d' = memberships d @ [new_owner e]"
  have "find (\<lambda>u. user_email u = on_email dto) (users d') = Some (new_user e h dto)"
    "find (\<lambda>x. org_slug x = on_organizationSlug dto) (organizations d') = Some (new_organization e dto)"
    unfolding d' using new(1,2) by (subst find_new; simp add: new_user_def new_organization_def)+
  moreover have "member_of (new_uuid e 4) (new_uuid e 3) d' = Some (new_owner e)"
    unfolding member_of_def d' using new(3) by (subst find_new; simp add: new_owner_def)
  ultimately show ?thesis
    using verify_hashed [OF assms(1,2,3) h, of w]
    by (auto simp: login_def login_hash_def new_user_def new_organization_def new_owner_def r auth_result_of_def
        split: sum.split prod.split)
qed

definition demo_argon2 :: argon2_function where
  "demo_argon2 message salt p = Inr (take (arg_tagLength p) (message @ replicate (arg_tagLength p) (CHR ''x'')))"

lemma demo_argon2_ok: "argon2_ok demo_argon2"
  by (auto simp: argon2_ok_def demo_argon2_def min_def)

definition demo_parameters :: argon_parameters where
  "demo_parameters = \<lparr>arg_memory = 19456, arg_passes = 2, arg_parallelism = 1, arg_tagLength = 32\<rparr>"

lemma demo_parameters_configured: "password_parameters None None = Some demo_parameters"
  by (simp add: password_parameters_def natural_setting_def demo_parameters_def)

definition demo_onboard :: onboard_dto where
  "demo_onboard = \<lparr>on_organizationName = ''Block 7'', on_organizationSlug = ''block-7'', on_displayName = ''Ana'',
     on_email = ''ana@block7.md'', on_password = ''correct horse''\<rparr>"

lemma demo_onboarded:
  "\<exists>r d'. onboard demo_hmac ''k'' demo_argon2 (Some demo_parameters) (\<lambda>s. s) (\<lambda>_. Some (True, [])) (demo_env ''o'')
     ''0123456789abcdef'' demo_metadata demo_onboard empty_db = (Inr r, d')"
  by (simp add: onboard_def exposureCount_def exposed_def hash_password_def demo_argon2_def onboard_tx_def run_def
      create_unique_def empty_db_def create_session_def create_session_tx_def demo_onboard_def is_prefix_def
      count_of_line_def Let_def)

theorem onboarded_owner_logs_in_witness:
  "\<exists>r d'. onboard demo_hmac ''k'' demo_argon2 (Some demo_parameters) (\<lambda>s. s) (\<lambda>_. Some (True, [])) (demo_env ''o'')
     ''0123456789abcdef'' demo_metadata demo_onboard empty_db = (Inr r, d') \<and>
   login demo_hmac ''k'' demo_argon2 [] (demo_env ''i'') demo_metadata \<lparr>lg_email = on_email demo_onboard,
       lg_organizationSlug = on_organizationSlug demo_onboard, lg_password = ''wrong''\<rparr> d' = (Inl credentials_invalid, d')"
proof -
  obtain r d' where r: "onboard demo_hmac ''k'' demo_argon2 (Some demo_parameters) (\<lambda>s. s) (\<lambda>_. Some (True, []))
     (demo_env ''o'') ''0123456789abcdef'' demo_metadata demo_onboard empty_db = (Inr r, d')"
    using demo_onboarded by blast
  have "demo_argon2 ''wrong'' ''0123456789abcdef'' demo_parameters \<noteq>
      demo_argon2 (on_password demo_onboard) ''0123456789abcdef'' demo_parameters"
    by (simp add: demo_argon2_def demo_onboard_def demo_parameters_def)
  with onboarded_owner_logs_in [OF demo_argon2_ok demo_parameters_configured _ r, where w = "''wrong''"] r
  show ?thesis by auto
qed

text \<open>
  C30: One known password opens every account without a password.  For an account whose password hash is null the login
  compares with the hash of a fixed text of the source, so an active member without a password, for instance one who uses
  passkeys only, is logged in by anyone who sends that text.
\<close>

theorem sentinel_opens_passwordless_account:
  assumes "argon2_ok argon2" and "password_parameters memory passes = Some p" and "accepted_costs p"
    and "length salt = 16" and "dummy_hash argon2 (Some p) salt = Inr dummy"
    and "find (\<lambda>u. user_email u = lg_email dto) (users d) = Some u" "user_passwordHash u = None"
      "user_status u = USER_ACTIVE"
    and "find (\<lambda>x. org_slug x = lg_organizationSlug dto) (organizations d) = Some x"
    and "member_of (org_id x) (user_id u) d = Some m" "mem_status m = MEMBER_ACTIVE" "mem_validUntil m = None"
    and "lg_password dto = ''invalid-account-timing-sentinel''"
  shows "login hmac key argon2 dummy e md dto d =
     (case create_session hmac key e (user_id u) (org_id x) md d of
        (Inl err, d') \<Rightarrow> (Inl err, d')
      | (Inr s, d') \<Rightarrow> (Inr (auth_result_of s u x (mem_role m)), d'))"
proof -
  have "verify_password argon2 (lg_password dto) dummy"
    using verify_hashed [OF assms(1,2,4), of dummy_password dummy "lg_password dto"] assms(3,5,13)
    by (simp add: dummy_hash_def dummy_password_def)
  with assms show ?thesis by (simp add: login_def login_hash_def)
qed

definition demo_tenant :: organization where
  "demo_tenant = \<lparr>org_id = ''org'', org_slug = ''block-1'', org_name = ''Block 1''\<rparr>"

theorem sentinel_opens_passwordless_account_witness:
  "\<exists>dummy s d'. dummy_hash demo_argon2 (Some demo_parameters) ''0123456789abcdef'' = Inr dummy \<and>
     login demo_hmac ''k'' demo_argon2 dummy (demo_env ''z'') demo_metadata \<lparr>lg_email = ''uo'', lg_organizationSlug = ''block-1'',
       lg_password = ''invalid-account-timing-sentinel''\<rparr> (demo0\<lparr>organizations := [demo_tenant]\<rparr>) = (Inr s, d') \<and> ar_role s = OWNER"
proof -
  obtain dummy where dummy: "dummy_hash demo_argon2 (Some demo_parameters) ''0123456789abcdef'' = Inr dummy"
    by (simp add: dummy_hash_def hash_password_def demo_argon2_def)
  have costs: "accepted_costs demo_parameters" by (simp add: accepted_costs_def demo_parameters_def)
  let ?d = "demo0\<lparr>organizations := [demo_tenant]\<rparr>"
  let ?dto = "\<lparr>lg_email = ''uo'', lg_organizationSlug = ''block-1'', lg_password = ''invalid-account-timing-sentinel''\<rparr>"
  have "login demo_hmac ''k'' demo_argon2 dummy (demo_env ''z'') demo_metadata ?dto ?d =
     (case create_session demo_hmac ''k'' (demo_env ''z'') ''uo'' ''org'' demo_metadata ?d of
        (Inl err, d') \<Rightarrow> (Inl err, d')
      | (Inr s, d') \<Rightarrow> (Inr (auth_result_of s (demo_user ''uo'') demo_tenant (mem_role (demo_member ''mo'' ''uo'' OWNER))), d'))"
    using sentinel_opens_passwordless_account [OF demo_argon2_ok demo_parameters_configured costs _ dummy,
        of ?dto ?d "demo_user ''uo''" demo_tenant "demo_member ''mo'' ''uo'' OWNER"]
    by (simp add: demo_user_def demo_tenant_def demo_member_def member_of_def)
  moreover have "\<exists>s d'. create_session demo_hmac ''k'' (demo_env ''z'') ''uo'' ''org'' demo_metadata ?d = (Inr s, d')"
    by (simp add: create_session_def create_session_tx_def run_def create_unique_def demo_session_def
        session_keys_def token_keys_def new_session_def new_token_def demo0_tokens Let_def)
  ultimately show ?thesis using dummy by (auto simp: auth_result_of_def demo_member_def)
qed

end
