(* ===== verification/Browser.thy ===== *)
theory Browser
  imports Gateway Auth_Properties
begin

text \<open>
  The other end of the cookies: the header a browser sends for the cookies it was given, and that
  \<open>readCookies\<close> reads back from it what \<open>setSessionCookies\<close> has set, for tokens in base64url.
\<close>

definition cookie_pair :: "cookie_call \<Rightarrow> string" where
  "cookie_pair c = ck_name c @ ''='' @ ck_value c"

definition cookie_header :: "cookie_call list \<Rightarrow> string" where
  "cookie_header cs = join ''; '' (map cookie_pair cs)"

definition token_char :: "char \<Rightarrow> bool" where
  "token_char c \<longleftrightarrow> base64_letter c \<or> c = CHR ''.''"

abbreviation token_text :: "string \<Rightarrow> bool" where
  "token_text s \<equiv> list_all token_char s"

definition url_digest :: "(string \<Rightarrow> string \<Rightarrow> string) \<Rightarrow> bool" where
  "url_digest hmac \<longleftrightarrow> (\<forall>k m. hmac k m \<noteq> [] \<and> list_all base64_letter (hmac k m))"

section \<open>The alphabet of the tokens\<close>

lemma token_char_plain:
  assumes "token_char c"
  shows "c \<noteq> CHR '';''" "c \<noteq> CHR ''%''" "\<not> js_space c"
  using assms
  by (auto simp: token_char_def base64_letter_def is_upper_def is_lower_def is_digit_def js_space_def)

lemma base64url_letters: "list_all base64_letter (base64url_encode s)"
proof -
  have "\<forall>c \<in> set (base64_encode s). c = CHR ''='' \<or> base64_letter c"
  proof (induction s rule: base64_encode.induct)
    case (2 a)
    show ?case using base64_bits [of "of_char a" 0 0] by (simp add: base64_char_ok)
  next
    case (3 a b)
    show ?case using base64_bits [of "of_char a" "of_char b" 0] by (simp add: base64_char_ok)
  next
    case (4 a b c s)
    then show ?case using base64_bits [of "of_char a" "of_char b" "of_char c"] by (auto simp: base64_char_ok)
  qed simp
  then show ?thesis by (auto simp: base64url_encode_def url_char_def list_all_iff base64_letter_def)
qed

lemma url_digest_ok: "url_digest hmac \<Longrightarrow> digest_ok hmac"
  by (force simp: url_digest_def digest_ok_def list_all_iff base64_letter_def is_upper_def is_lower_def is_digit_def)

lemma access_token_text: "url_digest hmac \<Longrightarrow> token_text (signAccessToken hmac key p)"
  using base64url_letters [of "utf8_encode (payload_json p)"]
  by (auto simp: signAccessToken_def Let_def url_digest_def list_all_iff token_char_def base64_letter_def
      is_lower_def is_digit_def)

section \<open>The header\<close>

lemma js_trim_token:
  assumes "token_text s"
  shows "js_trim s = s" "js_trim (CHR '' '' # s) = s"
proof -
  have *: "dropWhile js_space t = t" if "token_text t" for t
    using that by (cases t) (auto dest: token_char_plain)
  have "token_text (rev s)" using assms by (simp add: list_all_iff)
  then show "js_trim s = s" "js_trim (CHR '' '' # s) = s"
    using assms by (simp_all add: js_trim_def * js_space_def)
qed

lemma decode_token: "token_text s \<Longrightarrow> decodeURIComponent s = Some s"
  by (rule decodeURIComponent_plain) (auto simp: list_all_iff dest: token_char_plain)

lemma read_pair:
  assumes "token_text n" "n \<noteq> []" "CHR ''='' \<notin> set n" "token_text v" "sp = [] \<or> sp = '' ''"
  shows "read_cookie (sp @ n @ ''='' @ v) = [(n, v)]"
proof -
  have "takeWhile (\<lambda>c. c \<noteq> CHR ''='') (sp @ n @ ''='' @ v) = sp @ n"
    using assms(3,5) by (subst append_assoc [symmetric], subst takeWhile_append2) auto
  moreover have "js_trim (sp @ n) = n" using assms(1,5) by (auto simp: js_trim_token)
  ultimately show ?thesis
    using assms by (auto simp: read_cookie_def Let_def js_trim_token decode_token)
qed

lemma pair_no_semicolon:
  "token_text n \<Longrightarrow> token_text v \<Longrightarrow> CHR '';'' \<notin> set (n @ ''='' @ v)"
  by (auto simp: list_all_iff dest: token_char_plain)

lemma cookie_name_text:
  assumes "kind \<in> {''access'', ''refresh'', ''csrf''}"
  shows "token_text (cookie_name conf kind)" "cookie_name conf kind \<noteq> []" "CHR ''='' \<notin> set (cookie_name conf kind)"
  using assms
  by (auto simp: cookie_name_def token_char_def base64_letter_def is_lower_def is_upper_def)

lemma cookie_name_inject [simp]: "cookie_name conf k = cookie_name conf k' \<longleftrightarrow> k = k'"
  by (simp add: cookie_name_def)

lemma session_cookies_read:
  assumes "token_text (sb_accessToken b)" "token_text (sb_refreshToken b)" "token_text (sb_csrfToken b)"
    and "rq_cookie rq = Some (cookie_header (setSessionCookies conf b))"
  shows "readCookies rq (access_cookie conf) = Some (sb_accessToken b)"
    "readCookies rq (refresh_cookie conf) = Some (sb_refreshToken b)"
    "readCookies rq (csrf_cookie conf) = Some (sb_csrfToken b)"
proof -
  let ?n = "cookie_name conf"
  note names = cookie_name_text [of "''access''" conf] cookie_name_text [of "''refresh''" conf]
    cookie_name_text [of "''csrf''" conf]
  let ?p = "\<lambda>k v. ?n k @ ''='' @ v"
  have "cookie_header (setSessionCookies conf b) = ?p ''access'' (sb_accessToken b) @ CHR '';'' #
      ('' '' @ ?p ''refresh'' (sb_refreshToken b)) @ CHR '';'' # ('' '' @ ?p ''csrf'' (sb_csrfToken b))"
    by (simp add: cookie_header_def setSessionCookies_def cookie_pair_def)
  moreover have "split_on (CHR '';'') \<dots> =
      [?p ''access'' (sb_accessToken b), '' '' @ ?p ''refresh'' (sb_refreshToken b), '' '' @ ?p ''csrf'' (sb_csrfToken b)]"
    using pair_no_semicolon names assms(1-3)
    by (subst split_on_append, force, subst split_on_append, force, subst split_on_single, force, simp)
  ultimately have "readCookies rq = map_of (rev (concat (map read_cookie
      [?p ''access'' (sb_accessToken b), '' '' @ ?p ''refresh'' (sb_refreshToken b), '' '' @ ?p ''csrf'' (sb_csrfToken b)])))"
    using assms(4) names by (simp add: readCookies_def)
  moreover have "read_cookie (?p ''access'' (sb_accessToken b)) = [(?n ''access'', sb_accessToken b)]"
    "read_cookie ('' '' @ ?p ''refresh'' (sb_refreshToken b)) = [(?n ''refresh'', sb_refreshToken b)]"
    "read_cookie ('' '' @ ?p ''csrf'' (sb_csrfToken b)) = [(?n ''csrf'', sb_csrfToken b)]"
    using read_pair [of "?n ''access''" "sb_accessToken b" "[]"] read_pair [of "?n ''refresh''" "sb_refreshToken b" "'' ''"]
      read_pair [of "?n ''csrf''" "sb_csrfToken b" "'' ''"] names assms(1-3) by auto
  ultimately have "readCookies rq = map_of [(?n ''csrf'', sb_csrfToken b), (?n ''refresh'', sb_refreshToken b),
      (?n ''access'', sb_accessToken b)]" by simp
  then show "readCookies rq (access_cookie conf) = Some (sb_accessToken b)"
    "readCookies rq (refresh_cookie conf) = Some (sb_refreshToken b)"
    "readCookies rq (csrf_cookie conf) = Some (sb_csrfToken b)" by simp_all
qed

end
