(* ===== verification/Gateway_Properties.thy ===== *)
theory Gateway_Properties
  imports Browser
begin

text \<open>
  Requests at the gateway: every request is at most one step of the system, and what a request must prove
  before it may change the data of an organization.
\<close>

section \<open>Every request is a step of the system\<close>

definition served :: "uuid option \<Rightarrow> db \<Rightarrow> db \<Rightarrow> bool" where
  "served l d d' \<longleftrightarrow> d' = d \<or> step l d d'"

lemma served_refl [simp, intro]: "served l d d"
  by (simp add: served_def)

lemma served_step: "step l d d' \<Longrightarrow> served l d d'"
  by (simp add: served_def)

lemma snd_answer [simp]: "snd (answer f r) = snd r"
  by (auto simp: answer_def split: prod.split sum.split)

lemma validated_served: "(\<And>x. served l d (snd (f x d))) \<Longrightarrow> served l d (snd (validated b f d))"
  by (auto simp: validated_def split: sum.split)

lemma versioned_served: "(\<And>v. served l d (snd (f v d))) \<Longrightarrow> served l d (snd (versioned h f d))"
  by (auto simp: versioned_def split: sum.split)

lemmas served_rules = validated_served versioned_served step.intros [THEN served_step]

lemma organization_handlers_served:
  "served (Some (organizationId a)) d (snd (approvals_handler e a c1 d))"
  "served (Some (organizationId a)) d (snd (invoices_handler s e a c2 d))"
  "served (Some (organizationId a)) d (snd (buildings_handler s e a c3 d))"
  "served (Some (organizationId a)) d (snd (vendors_handler s e a c4 d))"
  "served (Some (organizationId a)) d (snd (contracts_handler s e a c5 d))"
  "served (Some (organizationId a)) d (snd (dashboard_handler s e a c6 d))"
  subgoal by (cases c1) (auto intro!: served_rules)
  subgoal by (cases c2) (auto intro!: served_rules)
  subgoal by (cases c3) (auto intro!: served_rules)
  subgoal by (cases c4) (auto intro!: served_rules)
  subgoal by (cases c5) (auto intro!: served_rules)
  subgoal by (cases c6) (auto intro!: served_rules)
  done

lemma public_auth_served:
  "\<exists>l. served l d (snd (public_auth_handler s e rq c d)) \<and> (l = None \<or> (\<exists>dto. c = Onboard dto) \<and> l = Some (new_uuid e 4))"
proof (cases c)
  case (Onboard dto)
  then have "served (Some (new_uuid e 4)) d (snd (public_auth_handler s e rq c d))"
    by (auto intro!: served_rules)
  with Onboard show ?thesis by blast
next
  case (Login dto)
  then have "served None d (snd (public_auth_handler s e rq c d))" by (auto intro!: served_rules)
  then show ?thesis by blast
next
  case Refresh
  then have "served None d (snd (public_auth_handler s e rq c d))" by (auto simp: Let_def intro!: served_rules)
  then show ?thesis by blast
qed auto

lemma auth_served: "served None d (snd (auth_handler s e a c d))"
  by (cases c) (auto intro!: served_rules)

lemma organizations_served: "served l d (snd (organizations_handler rq c d))"
  by (cases c) auto

section \<open>The routes\<close>

lemma route_methods: "rt_method (route_of c) \<in> {''GET'', ''POST'', ''PATCH''}"
proof (cases c)
  case (Auth_Call x) then show ?thesis by (cases x) (auto simp: public_route_def member_route_def)
next
  case (Organizations_Call x) then show ?thesis by (cases x) (auto simp: org_route_def)
next
  case (Approvals_Call x) then show ?thesis by (cases x) (auto simp: org_route_def)
next
  case (Invoices_Call x) then show ?thesis by (cases x) (auto simp: org_route_def)
next
  case (Buildings_Call x) then show ?thesis by (cases x) (auto simp: org_route_def)
next
  case (Vendors_Call x) then show ?thesis by (cases x) (auto simp: org_route_def)
next
  case (Contracts_Call x) then show ?thesis by (cases x) (auto simp: org_route_def)
next
  case (Dashboard_Call x) then show ?thesis by (cases x) (auto simp: org_route_def)
next
  case (Public_Call x) then show ?thesis by (cases x) (auto simp: public_route_def)
qed

text \<open>The calls that work for the organization of the caller, with a list of roles.\<close>

fun organization_call :: "api_call \<Rightarrow> bool" where
  "organization_call (Auth_Call _) = False"
| "organization_call (Organizations_Call _) = False"
| "organization_call (Public_Call _) = False"
| "organization_call _ = True"

lemma organization_routes:
  assumes "organization_call c"
  shows "\<not> rt_public (route_of c) \<and> rt_organization (route_of c) \<and> rt_roles (route_of c) \<noteq> []"
proof (cases c)
  case (Approvals_Call x) then show ?thesis by (cases x) (auto simp: org_route_def reader_roles_def finance_roles_def)
next
  case (Invoices_Call x) then show ?thesis by (cases x) (auto simp: org_route_def reader_roles_def finance_roles_def)
next
  case (Buildings_Call x) then show ?thesis by (cases x) (auto simp: org_route_def manager_roles_def)
next
  case (Vendors_Call x)
  then show ?thesis by (cases x) (auto simp: org_route_def manager_roles_def reader_roles_def finance_roles_def)
next
  case (Contracts_Call x) then show ?thesis by (cases x) (auto simp: org_route_def manager_roles_def reader_roles_def)
next
  case (Dashboard_Call x) then show ?thesis by (cases x) (auto simp: org_route_def reader_roles_def)
qed (use assms in auto)

lemma js_upper_methods [simp]:
  "js_upper ''GET'' = ''GET''" "js_upper ''POST'' = ''POST''" "js_upper ''PATCH'' = ''PATCH''"
  by (simp_all add: js_upper_def js_upper_char_def is_lower_def)

lemma unsafe_request_checked:
  assumes "assertRequest conf (rq\<lparr>rq_method := m\<rparr>) = Inr ()" and "m \<in> {''POST'', ''PATCH''}"
    and "readCookies rq (access_cookie conf) = Some t" "t \<noteq> []"
  shows "assertTrustedOrigin conf rq = Inr () \<and>
     (\<exists>csrf. csrf \<noteq> [] \<and> readCookies rq (csrf_cookie conf) = Some csrf \<and> header_value (rq_csrfToken rq) = Some csrf)"
proof -
  have cookies: "readCookies (rq\<lparr>rq_method := m\<rparr>) = readCookies rq"
    by (rule ext) (simp add: readCookies_def)
  have origin: "assertTrustedOrigin conf (rq\<lparr>rq_method := m\<rparr>) = assertTrustedOrigin conf rq"
    by (simp add: assertTrustedOrigin_def)
  show ?thesis
    using assms by (auto simp: assertRequest_def SAFE_METHODS_def cookies origin isCookieAuthenticated_def truthy_def
        Let_def split: if_splits sum.splits option.splits)
qed

lemma authenticated_member:
  assumes "authenticateAccessToken hmac key e token d = Inr a"
  shows "\<exists>m. member_of (organizationId a) (userId a) d = Some m \<and> mem_status m = MEMBER_ACTIVE \<and> role a = mem_role m"
  using assms
  by (auto simp: authenticateAccessToken_def entitled_def split: sum.splits option.splits if_splits)

lemma member_served:
  assumes "\<not> rt_public (route_of c)"
  shows "\<exists>l. served l d (snd (member_handler s e rq a c d)) \<and>
     (l = None \<or> organization_call c \<and> l = Some (organizationId a))"
proof (cases c)
  case (Public_Call x)
  with assms show ?thesis by (cases x) (auto simp: public_route_def)
qed (auto intro: auth_served organizations_served organization_handlers_served)

lemma guest_served:
  "\<exists>l. served l d (snd (guest_handler s e rq c d)) \<and>
     (l = None \<or> (\<exists>dto. c = Auth_Call (Onboard dto)) \<and> l = Some (new_uuid e 4) \<or>
      (\<exists>p ts sig. c = Public_Call (Webhook p ts sig) \<and> l = Some (fb_organizationId p)))"
proof (cases c)
  case (Auth_Call x)
  with public_auth_served [of d s e rq x] show ?thesis by auto
next
  case (Public_Call x)
  then show ?thesis
  proof (cases x)
    case (Webhook p ts sig)
    have "served (Some (fb_organizationId p)) d (snd (public_handler s e x d))"
      unfolding Webhook public_handler.simps accept_def
      by (auto simp: validated_def intro!: served_rules)
    with Public_Call Webhook show ?thesis by auto
  qed (auto simp: exI [of _ None])
qed auto

lemma webhook_unchanged:
  assumes "snd (guest_handler s e rq (Public_Call (Webhook p ts sig)) d) \<noteq> d"
  shows "\<exists>key timestamp. api_webhookSecret s = Some key \<and> key \<noteq> [] \<and> ts = Some timestamp \<and>
     \<bar>clock e 0 div 1000 - int (read_nat timestamp)\<bar> \<le> 300 \<and>
     sig = Some (signFakeBankWebhook (api_hexHmac s) p timestamp key)"
  using assms
  by (auto simp: validated_def accept_def process_webhook_def verifyFakeBankWebhook_def truthy_def
      split: if_splits option.splits)

text \<open>
  C3: Who may change an organization.  If a request changes any row of the tables of an organization, then either it
  carries an access token that authenticates, at the moment of the guards, an active member of this very
  organization, whose role there is one the handler admits, with a recent passkey verification where the handler demands
  one and, unless it is a GET, from a trusted origin with the CSRF token of the cookie repeated in the header; or it is a webhook of
  the bank for this organization, signed with the configured secret at most five minutes ago; or it is the
  onboarding that creates the organization.
\<close>

theorem only_members_change_an_organization:
  assumes "\<not> same_for org d (snd (serve s ge d0 e rq c d))"
  shows "(\<exists>token a m. readCookies rq (access_cookie (api_config s)) = Some token \<and>
        authenticateAccessToken (api_hmac s) (api_sessionKey s) ge token d0 = Inr a \<and>
        organizationId a = org \<and> rq_organizationId rq = Some org \<and>
        member_of org (userId a) d0 = Some m \<and> mem_status m = MEMBER_ACTIVE \<and> role a = mem_role m \<and>
        role a \<in> set (rt_roles (route_of c)) \<and>
        (\<not> rt_stepUp (route_of c) \<or> (\<exists>t. stepUpVerifiedAt a = Some t \<and> clock ge 3 - t \<le> stepUpTtl ge)) \<and>
        (rt_method (route_of c) = ''GET'' \<or> assertTrustedOrigin (api_config s) rq = Inr () \<and>
          (\<exists>csrf. csrf \<noteq> [] \<and> readCookies rq (csrf_cookie (api_config s)) = Some csrf \<and>
             header_value (rq_csrfToken rq) = Some csrf))) \<or>
     (\<exists>p timestamp sig key. c = Public_Call (Webhook p (Some timestamp) (Some sig)) \<and> fb_organizationId p = org \<and>
        api_webhookSecret s = Some key \<and> key \<noteq> [] \<and> sig = signFakeBankWebhook (api_hexHmac s) p timestamp key \<and>
        \<bar>clock e 0 div 1000 - int (read_nat timestamp)\<bar> \<le> 300) \<or>
     (\<exists>dto. c = Auth_Call (Onboard dto) \<and> org = new_uuid e 4)"
proof -
  let ?rt = "route_of c" and ?conf = "api_config s" and ?d' = "snd (serve s ge d0 e rq c d)"
  let ?rq = "rq\<lparr>rq_method := rt_method ?rt\<rparr>"
  have changed: "?d' \<noteq> d" using assms by auto
  then obtain auth where entered: "enter ?conf (api_hmac s) (api_sessionKey s) ge ?rt ?rq d0 = Inr auth"
    and handled: "?d' = snd (handle s e rq auth c d)"
    by (auto simp: serve_def split: sum.splits)
  have cookies: "readCookies ?rq = readCookies rq" by (rule ext) (simp add: readCookies_def)
  show ?thesis
  proof (cases "rt_public ?rt")
    case False
    obtain a token where a: "auth = Some a" "readCookies rq (access_cookie ?conf) = Some token"
      "authenticateAccessToken (api_hmac s) (api_sessionKey s) ge token d0 = Inr a"
      using entered_private [OF entered False] by (auto simp: cookies)
    have "?d' = snd (member_handler s e rq a c d)" using handled False a(1) by (simp add: handle_def)
    then obtain l where "served l d ?d'" "l = None \<or> organization_call c \<and> l = Some (organizationId a)"
      using member_served [OF False] by metis
    then have org: "organization_call c" "organizationId a = org"
      using assms step_same changed by (auto simp: served_def)
    note entry = entered_roles [OF entered [unfolded a(1)]] and routes = organization_routes [OF org(1)]
    obtain m where m: "member_of org (userId a) d0 = Some m" "mem_status m = MEMBER_ACTIVE" "role a = mem_role m"
      using authenticated_member [OF a(3)] org(2) by auto
    have "token \<noteq> []" using entered a(2) routes
      by (auto simp: enter_Inr sessionAuthGuard_def cookies truthy_def split: if_splits)
    then have "rt_method ?rt = ''GET'' \<or> assertTrustedOrigin ?conf rq = Inr () \<and>
        (\<exists>csrf. csrf \<noteq> [] \<and> readCookies rq (csrf_cookie ?conf) = Some csrf \<and> header_value (rq_csrfToken rq) = Some csrf)"
      using unsafe_request_checked [of ?conf "rt_method ?rt" rq token] entered a(2) route_methods [of c] by (auto simp: enter_Inr)
    with a(2,3) m org(2) entry routes show ?thesis by auto
  next
    case True
    then have d': "?d' = snd (guest_handler s e rq c d)" using handled by (simp add: handle_def)
    obtain l where l: "served l d ?d'" "l = None \<or> (\<exists>dto. c = Auth_Call (Onboard dto)) \<and> l = Some (new_uuid e 4) \<or>
      (\<exists>p ts sig. c = Public_Call (Webhook p ts sig) \<and> l = Some (fb_organizationId p))"
      using guest_served unfolding d' by blast
    then have "l = Some org" using assms step_same changed by (auto simp: served_def)
    with l(2) consider dto where "c = Auth_Call (Onboard dto)" "org = new_uuid e 4"
      | p ts sig where "c = Public_Call (Webhook p ts sig)" "org = fb_organizationId p" by auto
    then show ?thesis
    proof cases
      case 2
      then show ?thesis using webhook_unchanged [of s e rq p ts sig d] changed unfolding d' by auto
    qed blast
  qed
qed

section \<open>From the login to the next request\<close>

lemma created_session:
  assumes "create_session hmac key e uid org md d1 = (Inr b, d')"
  shows "b = bundle_of hmac key e (new_session e uid org md)"
    "find (\<lambda>x. ses_id x = new_uuid e 0) (sessions d') = Some (new_session e uid org md)"
proof -
  from assms obtain "b = bundle_of hmac key e (new_session e uid org md)"
    and s: "sessions d' = sessions d1 @ [new_session e uid org md]"
      "\<forall>x \<in> set (sessions d1). ses_id x \<noteq> new_uuid e 0"
    by (auto simp: create_session_def run_def create_session_tx_def create_unique_def session_keys_def new_session_def
        Let_def split: sum.splits if_splits)
  then show "b = bundle_of hmac key e (new_session e uid org md)"
    "find (\<lambda>x. ses_id x = new_uuid e 0) (sessions d') = Some (new_session e uid org md)"
    by (auto simp: find_new) (simp add: find_new new_session_def)
qed

lemma onboard_session:
  assumes "onboard hmac key argon2 costs sha1 lookup e salt md dto d = (Inr r, d')"
  shows "\<exists>d1 m. create_session hmac key e (ar_userId r) (ar_organizationId r) md d1 = (Inr (ar_session r), d') \<and>
     member_of (ar_organizationId r) (ar_userId r) d' = Some m \<and> mem_role m = ar_role r"
proof -
  obtain p where "costs = Some p" using assms
    by (cases costs) (auto simp: onboard_def hash_password_def split: sum.splits if_splits)
  with assms have "onboard hmac key argon2 (Some p) sha1 lookup e salt md dto d = (Inr r, d')" by simp
  then show ?thesis
  proof (rule onboard_InrE)
    fix h s
    assume r: "r = auth_result_of s (new_user e h dto) (new_organization e dto) OWNER"
      and new: "\<forall>m \<in> set (memberships d). \<not> (mem_org m = new_uuid e 4 \<and> mem_userId m = new_uuid e 3)"
      and d': "memberships d' = memberships d @ [new_owner e]"
    have "member_of (new_uuid e 4) (new_uuid e 3) d' = Some (new_owner e)"
      unfolding member_of_def d' using new by (subst find_new; simp add: new_owner_def)
    moreover have "\<exists>d1. create_session hmac key e (new_uuid e 3) (new_uuid e 4) md d1 = (Inr s, d')"
      using assms by (auto simp: onboard_def run_def onboard_tx_def new_user_def new_organization_def r auth_result_of_def
          split: sum.splits prod.splits if_splits)
    ultimately show ?thesis by (auto simp: r auth_result_of_def new_user_def new_organization_def new_owner_def)
  qed
qed

lemma login_session:
  assumes "login hmac key argon2 dummy e md dto d = (Inr r, d')"
  shows "\<exists>d1 m. create_session hmac key e (ar_userId r) (ar_organizationId r) md d1 = (Inr (ar_session r), d') \<and>
     member_of (ar_organizationId r) (ar_userId r) d' = Some m \<and> mem_role m = ar_role r"
proof -
  from assms obtain u x m s where m: "member_of (org_id x) (user_id u) d = Some m"
    and s: "create_session hmac key e (user_id u) (org_id x) md d = (Inr s, d')"
    and r: "r = auth_result_of s u x (mem_role m)"
    by (auto simp: login_def Let_def split: option.splits if_splits prod.splits sum.splits)
  have "member_of (org_id x) (user_id u) d' = Some m"
    using m create_session_users [OF s] by (simp add: member_of_def)
  with s r show ?thesis by (auto simp: auth_result_of_def)
qed

lemma signed_inE:
  assumes "serve s ge d0 e rq (Auth_Call c) d = (Inr (Auth_Reply (Signed_In resp cookies)), d')"
  obtains r :: auth_result and d1 :: db and m :: membership where "resp = authResponse r" "cookies = setSessionCookies (api_config s) (ar_session r)"
    "create_session (api_hmac s) (api_sessionKey s) e (ar_userId r) (ar_organizationId r) (request_metadata rq) d1 =
       (Inr (ar_session r), d')"
    "member_of (ar_organizationId r) (ar_userId r) d' = Some m" "mem_role m = ar_role r"
proof -
  from assms obtain auth where h: "handle s e rq auth (Auth_Call c) d = (Inr (Auth_Reply (Signed_In resp cookies)), d')"
    by (auto simp: serve_def split: sum.splits)
  show thesis
  proof (cases c)
    case (Onboard dto)
    with h obtain r dto' where "onboard (api_hmac s) (api_sessionKey s) (api_argon2 s) (api_costs s) (api_sha1 s)
        (api_range s) e (api_salt s) (request_metadata rq) dto' d = (Inr r, d')"
      "signed_in (api_config s) r = Signed_In resp cookies"
      by (auto simp: handle_def public_route_def answer_def validated_def accept_def split: sum.splits prod.splits if_splits)
    with onboard_session [OF this(1)] that show thesis by (auto simp: signed_in_def)
  next
    case (Login dto)
    with h obtain r dto' where "login (api_hmac s) (api_sessionKey s) (api_argon2 s) (api_dummyHash s) e
        (request_metadata rq) dto' d = (Inr r, d')" "signed_in (api_config s) r = Signed_In resp cookies"
      by (auto simp: handle_def public_route_def answer_def validated_def accept_def split: sum.splits prod.splits if_splits)
    with login_session [OF this(1)] that show thesis by (auto simp: signed_in_def)
  qed (use h in \<open>auto simp: handle_def public_route_def member_route_def answer_def validated_def accept_def
      refreshed_def Let_def split: sum.splits prod.splits if_splits option.splits\<close>)
qed

text \<open>
  C18: A login carries over to the next request.  When an onboarding or a login has been answered, a browser that sends the
  cookies it was given, with the CSRF token of the answer in the header and from a trusted origin, passes all guards of every
  route that its role may use without a fresh passkey, before the access token expires and while the
  member is entitled: the request is authenticated as the user, the organization and the role of the answer.
\<close>

theorem signed_in_browser_is_admitted:
  assumes "url_digest (api_hmac s)" and "token_text (random_token e 0)" "token_text (random_token e 1)" "random_token e 1 \<noteq> []"
    and "serve s ge d0 e rq (Auth_Call c) d = (Inr (Auth_Reply (Signed_In resp cookies)), d')"
    and "rq_cookie rq2 = Some (cookie_header cookies)" and "rq_csrfToken rq2 = Single (rs_csrfToken resp)"
    and "assertTrustedOrigin (api_config s) rq2 = Inr ()"
    and "clock ge2 0 < clock e 1 + accessTtl e" "clock ge2 1 < clock e 0 + refreshTtl e"
    and "entitled (clock ge2 2) (rs_organizationId resp) (rs_userId resp) d'"
    and "rt_roles rt = [] \<or> rs_role resp \<in> set (rt_roles rt)" "\<not> rt_stepUp rt"
    and "rt_organization rt = False \<or> rs_organizationId resp \<noteq> [] \<and> rq_organizationId rq2 = Some (rs_organizationId resp)"
  shows "\<exists>a. enter (api_config s) (api_hmac s) (api_sessionKey s) ge2 rt rq2 d' = Inr (Some a) \<and>
     userId a = rs_userId resp \<and> organizationId a = rs_organizationId resp \<and> role a = rs_role resp"
  using assms(5)
proof (rule signed_inE)
  fix r :: auth_result and d1 :: db and m :: membership
  let ?conf = "api_config s" and ?hmac = "api_hmac s" and ?key = "api_sessionKey s"
  let ?ses = "new_session e (ar_userId r) (ar_organizationId r) (request_metadata rq)"
  assume r: "resp = authResponse r" "cookies = setSessionCookies ?conf (ar_session r)"
    and s: "create_session ?hmac ?key e (ar_userId r) (ar_organizationId r) (request_metadata rq) d1 = (Inr (ar_session r), d')"
    and m: "member_of (ar_organizationId r) (ar_userId r) d' = Some m" "mem_role m = ar_role r"
  let ?p = "\<lparr>pl_sessionId = new_uuid e 0, pl_userId = ar_userId r, pl_organizationId = ar_organizationId r,
      pl_expiresAt = clock e 1 + accessTtl e\<rparr>"
  have b: "ar_session r = bundle_of ?hmac ?key e ?ses" by (rule created_session(1) [OF s])
  then have fields: "sb_accessToken (ar_session r) = signAccessToken ?hmac ?key ?p"
    "sb_refreshToken (ar_session r) = random_token e 0" "sb_csrfToken (ar_session r) = random_token e 1"
    by (simp_all add: bundle_of_def new_session_def Let_def)
  note cookies = session_cookies_read [of "ar_session r" rq2 ?conf, unfolded fields,
    OF access_token_text [OF assms(1)] assms(2,3) assms(6) [unfolded r(2)]]
  have "verifyAccessToken ?hmac ?key (clock ge2 0) (signAccessToken ?hmac ?key ?p) = Inr ?p"
    using assms(9) by (simp add: access_verified [OF url_digest_ok [OF assms(1)]])
  then obtain a where a: "authenticateAccessToken ?hmac ?key ge2 (signAccessToken ?hmac ?key ?p) d' = Inr a"
    "userId a = ar_userId r" "organizationId a = ar_organizationId r" "role a = ar_role r"
    using created_session(2) [OF s] m assms(10,11)
    by (simp add: authenticateAccessToken_def r(1) authResponse_def new_session_def)
  have "signAccessToken ?hmac ?key ?p \<noteq> []" by (simp add: signAccessToken_def Let_def)
  with a(1) cookies(1) have "sessionAuthGuard ?conf ?hmac ?key ge2 rt rq2 d' = Inr (Some a)"
    by (simp add: sessionAuthGuard_def)
  moreover have "assertRequest ?conf rq2 = Inr ()"
    using assms(4,7,8) cookies(3) by (simp add: assertRequest_def header_value_def r(1) authResponse_def fields)
  moreover have "rolesGuard rt (Some a) = Inr ()" "stepUpGuard ge2 rt (Some a) = Inr ()"
    "organizationScopeGuard rt rq2 (Some a) = Inr ()"
    using assms(12-14) a by (auto simp: rolesGuard_def stepUpGuard_def organizationScopeGuard_def r(1) authResponse_def)
  ultimately show ?thesis using a by (auto simp: enter_Inr r(1) authResponse_def)
qed

section \<open>A browser\<close>

definition demo_api :: api where
  "demo_api = \<lparr>api_config = \<lparr>sc_cookieSecure = None, sc_nodeEnv = None, sc_trustedOrigins = None\<rparr>,
     api_hmac = demo_hmac, api_sessionKey = ''k'', api_downloadSecret = ''k'', api_hexHmac = demo_hmac, api_webhookSecret = None,
     api_argon2 = demo_argon2, api_costs = Some demo_parameters, api_dummyHash = [], api_salt = ''0123456789abcdef'',
     api_sha1 = (\<lambda>s. s), api_range = (\<lambda>_. Some (True, [])),
     api_crypto = \<lparr>crypto_digest = (\<lambda>s. s), crypto_hkdf = (\<lambda>_ _ _. []), crypto_encrypt = (\<lambda>_ _ _ p. (p, [])),
       crypto_decrypt = (\<lambda>_ _ _ _ _. None), crypto_hmac = demo_hmac\<rparr>,
     api_bank = \<lparr>svc_keyId = [], svc_encryptionKey = [], svc_fingerprintKey = []\<rparr>,
     api_registration = (\<lambda>_ _. Inr None), api_authentication = (\<lambda>_ _ _. Inr None), api_collation = map of_char,
     api_checks = \<lparr>is_email = (\<lambda>_. True), is_uuid = (\<lambda>_. True), is_uuid4 = (\<lambda>_. True)\<rparr>,
     api_upload = \<lparr>uw_put = None, uw_enqueue = None\<rparr>, api_storage = None, api_version = None, 
     api_dependencies = \<lparr>prb_query = True, prb_redis_status = ''ready'', prb_connect = True, prb_ping = True\<rparr>\<rparr>"

definition demo_bundle :: session_bundle where
  "demo_bundle = \<lparr>sb_sessionId = ''so'', sb_accessToken = demo_token, sb_refreshToken = ''r'', sb_csrfToken = ''c'',
     sb_accessExpiresAt = 6000000, sb_refreshExpiresAt = 6000000\<rparr>"

definition demo_http :: "cookie_call list \<Rightarrow> string \<Rightarrow> uuid \<Rightarrow> http_request" where
  "demo_http cookies csrf org = \<lparr>rq_method = ''POST'', rq_cookie = Some (cookie_header cookies),
     rq_origin = Some ''http://localhost:3000'', rq_csrfToken = Single csrf, rq_userAgent = None, rq_ip = None,
     rq_organizationId = Some org\<rparr>"

lemma demo_origin: "assertTrustedOrigin (api_config demo_api) (demo_http cs csrf org) = Inr ()"
  by (simp add: assertTrustedOrigin_def demo_http_def demo_api_def trustedOrigins_def js_trim_def js_space_def strip_slash_def)

lemma demo_url_digest: "url_digest demo_hmac"
  using base64url_letters base64url_Nil by (force simp: url_digest_def demo_hmac_def)

lemma demo_token_letters: "token_text ''r''" "token_text ''c''" "token_text demo_token"
  using access_token_text [OF demo_url_digest]
  by (simp_all add: token_char_def base64_letter_def is_lower_def demo_token_def)

lemma demo_entered:
  assumes "rt_roles rt = [] \<or> OWNER \<in> set (rt_roles rt)" "\<not> rt_stepUp rt"
  shows "enter (api_config demo_api) demo_hmac ''k'' (demo_env ''x'') rt
     (demo_http (setSessionCookies (api_config demo_api) demo_bundle) ''c'' ''org'') demo0 = Inr (Some owner)"
proof -
  let ?conf = "api_config demo_api"
  let ?rq = "demo_http (setSessionCookies ?conf demo_bundle) ''c'' ''org''"
  have b: "sb_accessToken demo_bundle = demo_token" "sb_refreshToken demo_bundle = ''r''" "sb_csrfToken demo_bundle = ''c''"
    by (simp_all add: demo_bundle_def)
  have "rq_cookie ?rq = Some (cookie_header (setSessionCookies ?conf demo_bundle))" by (simp add: demo_http_def)
  note cookies = session_cookies_read [of demo_bundle, unfolded b, OF demo_token_letters(3,1,2) this]
  have "demo_token \<noteq> []" by (simp add: demo_token_def signAccessToken_def Let_def)
  then have "sessionAuthGuard ?conf demo_hmac ''k'' (demo_env ''x'') rt ?rq demo0 = Inr (Some owner)"
    using cookies(1) demo_authenticated by (simp add: sessionAuthGuard_def)
  moreover have "assertRequest ?conf ?rq = Inr ()"
    using cookies(3) demo_origin by (simp add: assertRequest_def header_value_def) (simp add: demo_http_def)
  ultimately show ?thesis
    using assms by (auto simp: enter_Inr rolesGuard_def stepUpGuard_def organizationScopeGuard_def owner_def demo_http_def)
qed

definition demo_new_building :: create_building_dto where
  "demo_new_building = \<lparr>cbd_name = ''Block 8'', cbd_addressLine1 = ''Main St 8'', cbd_addressLine2 = None,
     cbd_city = ''Balti'', cbd_postalCode = ''3100'', cbd_countryCode = ''MD''\<rparr>"

theorem only_members_change_an_organization_witness:
  "\<exists>token a. readCookies (demo_http (setSessionCookies (api_config demo_api) demo_bundle) ''c'' ''org'')
        (access_cookie (api_config demo_api)) = Some token \<and>
     authenticateAccessToken demo_hmac ''k'' (demo_env ''x'') token demo0 = Inr a \<and> organizationId a = ''org'' \<and>
     role a = OWNER"
proof -
  let ?rq = "demo_http (setSessionCookies (api_config demo_api) demo_bundle) ''c'' ''org''"
  let ?c = "Buildings_Call (Create_Building demo_new_building)"
  have "snd (serve demo_api (demo_env ''x'') demo0 (demo_env ''y'') ?rq ?c demo0) =
      snd (create_building (demo_env ''y'') owner demo_new_building demo0)"
  proof -
    have "?rq\<lparr>rq_method := rt_method (route_of ?c)\<rparr> = ?rq" by (simp add: org_route_def demo_http_def)
    moreover have "api_hmac demo_api = demo_hmac" "api_sessionKey demo_api = ''k''" by (simp_all add: demo_api_def)
    moreover have "transform_CreateBuildingDto demo_new_building = demo_new_building"
      "valid_CreateBuildingDto demo_new_building"
      by (simp_all add: transform_CreateBuildingDto_def demo_new_building_def js_trim_def js_space_def upper_def
          js_upper_def js_upper_char_def is_lower_def valid_CreateBuildingDto_def length_within_def if_given_def
          letters_def is_upper_def)
    ultimately show ?thesis
      using demo_entered [of "route_of ?c"]
      by (simp add: serve_def org_route_def handle_def validated_def accept_def)
  qed
  moreover have "\<not> same_for ''org'' demo0 (snd (create_building (demo_env ''y'') owner demo_new_building demo0))"
  proof -
    have "buildings demo0 = []" by (simp add: demo0_def empty_db_def)
    moreover have "country_code_ok (cbd_countryCode demo_new_building)"
      by (simp add: demo_new_building_def country_code_ok_def is_upper_def)
    ultimately have "buildings (snd (create_building (demo_env ''y'') owner demo_new_building demo0)) =
        [new_building (demo_env ''y'') owner demo_new_building]"
      by (simp add: create_building_def run_def create_building_tx_def create_unique_def)
    with \<open>buildings demo0 = []\<close> show ?thesis by (simp add: same_for_def new_building_def owner_def)
  qed
  ultimately have "\<not> same_for ''org'' demo0 (snd (serve demo_api (demo_env ''x'') demo0 (demo_env ''y'') ?rq ?c demo0))"
    by simp
  from only_members_change_an_organization [OF this] show ?thesis
    by (auto simp: demo_api_def org_route_def)
qed

lemma demo_signed_up:
  "\<exists>resp cookies d'. serve demo_api (demo_env ''o'') empty_db (demo_env ''o'')
     (demo_http [] [] []) (Auth_Call (Onboard demo_onboard)) empty_db =
       (Inr (Auth_Reply (Signed_In resp cookies)), d') \<and> entitled 5000000 (rs_organizationId resp) (rs_userId resp) d' \<and>
     rs_role resp = OWNER \<and> rs_organizationId resp = ''o4''"
proof -
  let ?md = "request_metadata (demo_http [] [] [])"
  obtain r d' where r: "onboard demo_hmac ''k'' demo_argon2 (Some demo_parameters) (\<lambda>s. s) (\<lambda>_. Some (True, []))
     (demo_env ''o'') ''0123456789abcdef'' ?md demo_onboard empty_db = (Inr r, d')"
    by (force simp: onboard_def exposureCount_def exposed_def hash_password_def demo_argon2_def onboard_tx_def run_def
      create_unique_def empty_db_def create_session_def create_session_tx_def demo_onboard_def is_prefix_def
      count_of_line_def Let_def)
  have ent: "entitled 5000000 (ar_organizationId r) (ar_userId r) d' \<and> ar_role r = OWNER \<and> ar_organizationId r = ''o4''"
    using r
  proof (rule onboard_InrE)
    fix h s
    assume x: "r = auth_result_of s (new_user (demo_env ''o'') h demo_onboard) (new_organization (demo_env ''o'') demo_onboard) OWNER"
      and d': "users d' = users empty_db @ [new_user (demo_env ''o'') h demo_onboard]"
        "memberships d' = memberships empty_db @ [new_owner (demo_env ''o'')]"
    then show ?thesis
      by (simp add: entitled_def user_of_def member_of_def empty_db_def auth_result_of_def new_user_def new_owner_def
          new_organization_def)
  qed
  have "enter (api_config demo_api) demo_hmac ''k'' (demo_env ''o'') (public_route ''POST'')
      ((demo_http [] [] [])\<lparr>rq_method := ''POST''\<rparr>) empty_db = Inr None"
  proof -
    have q: "(demo_http [] [] [])\<lparr>rq_method := ''POST''\<rparr> = demo_http [] [] []" by (simp add: demo_http_def)
    have "readCookies (demo_http [] [] []) = Map.empty"
      by (simp add: readCookies_def demo_http_def cookie_header_def)
    then show ?thesis
      unfolding q using demo_origin [of "[]" "[]" "[]"]
      by (simp add: enter_Inr sessionAuthGuard_def assertRequest_def isCookieAuthenticated_def rolesGuard_def
          stepUpGuard_def organizationScopeGuard_def public_route_def)
  qed
  moreover have "accept transform_OnboardOrganizationDto (valid_OnboardOrganizationDto (is_email (api_checks demo_api))) demo_onboard = Inr demo_onboard"
    by (simp add: accept_def demo_api_def transform_OnboardOrganizationDto_def demo_onboard_def normalizeEmail_def
        js_trim_def js_space_def js_lower_def js_lower_char_def is_upper_def is_lower_def is_digit_def
        valid_OnboardOrganizationDto_def length_within_def slug_ok_def)
  moreover have "api_hmac demo_api = demo_hmac" "api_sessionKey demo_api = ''k''" "api_argon2 demo_api = demo_argon2"
    "api_costs demo_api = Some demo_parameters" "api_sha1 demo_api = (\<lambda>s. s)" "api_range demo_api = (\<lambda>_. Some (True, []))"
    "api_salt demo_api = ''0123456789abcdef''" by (simp_all add: demo_api_def)
  ultimately show ?thesis
    using r ent by (auto simp: serve_def handle_def public_route_def validated_def answer_def signed_in_def authResponse_def)
qed

theorem signed_in_browser_is_admitted_witness:
  "\<exists>resp cookies d' a. serve demo_api (demo_env ''o'') empty_db (demo_env ''o'')
     (demo_http [] [] []) (Auth_Call (Onboard demo_onboard)) empty_db =
       (Inr (Auth_Reply (Signed_In resp cookies)), d') \<and>
     enter (api_config demo_api) demo_hmac ''k'' (demo_env ''x'') (route_of (Buildings_Call (Create_Building demo_new_building)))
       (demo_http cookies (rs_csrfToken resp) (rs_organizationId resp)) d' = Inr (Some a) \<and> role a = OWNER"
proof -
  obtain resp cookies d' where s: "serve demo_api (demo_env ''o'') empty_db (demo_env ''o'')
     (demo_http [] [] []) (Auth_Call (Onboard demo_onboard)) empty_db =
       (Inr (Auth_Reply (Signed_In resp cookies)), d')"
    and ent: "entitled 5000000 (rs_organizationId resp) (rs_userId resp) d'" "rs_role resp = OWNER" "rs_organizationId resp = ''o4''"
    using demo_signed_up by blast
  let ?rt = "route_of (Buildings_Call (Create_Building demo_new_building))"
  have h: "api_hmac demo_api = demo_hmac" "api_sessionKey demo_api = ''k''" by (simp_all add: demo_api_def)
  have "url_digest (api_hmac demo_api)" by (simp add: demo_url_digest h)
  moreover have "token_text (random_token (demo_env ''o'') 0)" "token_text (random_token (demo_env ''o'') 1)"
    by (simp_all add: token_char_def base64_letter_def is_lower_def)
  moreover have "random_token (demo_env ''o'') 1 \<noteq> []" "assertTrustedOrigin (api_config demo_api)
      (demo_http cookies (rs_csrfToken resp) ''o4'') = Inr ()"
    by (simp_all add: demo_origin)
  moreover have "rq_cookie (demo_http cookies (rs_csrfToken resp) ''o4'') = Some (cookie_header cookies)"
    "rq_csrfToken (demo_http cookies (rs_csrfToken resp) ''o4'') = Single (rs_csrfToken resp)"
    "rq_organizationId (demo_http cookies (rs_csrfToken resp) ''o4'') = Some ''o4''"
    by (simp_all add: demo_http_def)
  moreover have "OWNER \<in> set (rt_roles ?rt)" "\<not> rt_stepUp ?rt" by (simp_all add: org_route_def)
  ultimately show ?thesis
    using signed_in_browser_is_admitted [OF _ _ _ _ s, of "demo_http cookies (rs_csrfToken resp) ''o4''" "demo_env ''x''" ?rt]
      ent s by (auto simp: h)
qed

end
