(* ===== verification/Webhook_Properties.thy ===== *)
theory Webhook_Properties
  imports Fake_Bank Scenario
begin

text \<open>
  The webhook of the bank: an event enters the ledger once, and what counts as the same event.
\<close>


definition demo_event :: fake_bank_payload where
  "demo_event = \<lparr>fb_eventId = ''w'', fb_organizationId = ''org'', fb_vendorId = ''v'', fb_bankAccountVersionId = ''b'',
     fb_status = BANK_VERIFIED\<rparr>"


end
