(* ===== verification/Clamav.thy ===== *)
theory Clamav
  imports Encoding "HOL-Library.Word"
begin

text \<open>
  \<open>apps/worker/src/clamav.ts\<close>: the stream of length-prefixed chunks the worker sends to ClamAV, the
  lengths as 32-bit words in network order, and how it reads the answer.  A byte is a character; the daemon
  is the argument \<open>clamd\<close>, from the bytes sent to a socket error or the bytes it answers.  A thrown error is
  its name, as \<open>iw_scan\<close> of the pipeline wants it.
\<close>

section \<open>The stream\<close>

text \<open>\<open>Buffer.writeUInt32BE\<close> throws beyond 32 bits.\<close>

definition word_bytes :: "32 word \<Rightarrow> string" where
  "word_bytes w =
     map (\<lambda>k. char_of (unat (ucast (drop_bit k w) :: 8 word))) [24, 16, 8, 0]"

definition writeUInt32BE :: "nat \<Rightarrow> string + string" where
  "writeUInt32BE n = (if n < 2 ^ 32 then Inr (word_bytes (of_nat n)) else Inl ''RangeError'')"

definition zero_length :: string where
  "zero_length = replicate 4 (char_of (0 :: nat))"

fun write_chunks :: "string list \<Rightarrow> string + string" where
  "write_chunks [] = Inr zero_length"
| "write_chunks (chunk # cs) =
     (case writeUInt32BE (length chunk) of
        Inl err \<Rightarrow> Inl err
      | Inr n \<Rightarrow> (case write_chunks cs of Inl err \<Rightarrow> Inl err | Inr s \<Rightarrow> Inr (n @ chunk @ s)))"

definition instream_command :: string where
  "instream_command = ''zINSTREAM'' @ [char_of (0 :: nat)]"

section \<open>The answer\<close>

definition strip_null :: "string \<Rightarrow> string" where
  "strip_null s = (if s \<noteq> [] \<and> last s = char_of (0 :: nat) then butlast s else s)"

text \<open>True for a clean file, False for malware.\<close>

definition read_verdict :: "string \<Rightarrow> string + bool" where
  "read_verdict response =
     (let detail = js_trim (strip_null (utf8_decode response)) in
      if ends_with detail ''OK'' then Inr True
      else if contains detail ''FOUND'' then Inr False
      else Inl ''Error'')"

definition scanChunks :: "(string \<Rightarrow> string + string) \<Rightarrow> string list \<Rightarrow> string + bool" where
  "scanChunks clamd chunks =
     (case write_chunks chunks of
        Inl err \<Rightarrow> Inl err
      | Inr s \<Rightarrow>
          (case clamd (instream_command @ s) of Inl err \<Rightarrow> Inl err | Inr response \<Rightarrow> read_verdict response))"

text \<open>A read stream of a file delivers chunks of at most \<open>highWaterMark\<close> bytes and no empty one.\<close>

function read_stream :: "nat \<Rightarrow> string \<Rightarrow> string list" where
  "read_stream n s = (if s = [] \<or> n = 0 then [] else take n s # read_stream n (drop n s))"
  by pat_completeness auto
termination by (relation "measure (\<lambda>(n, s). length s)") auto

declare read_stream.simps [simp del]

definition scanFile :: "(string \<Rightarrow> string + string) \<Rightarrow> string \<Rightarrow> string + bool" where
  "scanFile clamd bytes = scanChunks clamd (read_stream (64 * 1024) bytes)"

definition scanBytes :: "(string \<Rightarrow> string + string) \<Rightarrow> string \<Rightarrow> string + bool" where
  "scanBytes clamd bytes = scanChunks clamd [bytes]"

end
