(* ===== verification/Clamav_Properties.thy ===== *)
theory Clamav_Properties
  imports Clamav
begin

text \<open>
  The daemon's side of the stream, as its manual describes it: lengths of four bytes in network order, each followed by
  as many bytes, until a length of zero.  What the worker writes is read back as the document.
\<close>

definition read_word :: "string \<Rightarrow> nat" where
  "read_word s = foldl (\<lambda>n c. 256 * n + of_char c) 0 s"

function read_instream :: "string \<Rightarrow> string option" where
  "read_instream s =
     (if length s < 4 then None
      else
        let n = read_word (take 4 s); rest = drop 4 s in
        if n = 0 then (if rest = [] then Some [] else None)
        else if length rest < n then None
        else map_option ((@) (take n rest)) (read_instream (drop n rest)))"
  by pat_completeness auto
termination by (relation "measure length") auto

declare read_instream.simps [simp del]

lemma read_word_bytes: "read_word (word_bytes w) = unat w"
proof -
  have "unat w < 2 ^ 32" using unsigned_less [of w, where 'a = nat] by simp
  have b: "unat (ucast (drop_bit k w) :: 8 word) = unat w div 2 ^ k mod 256" for k
  proof -
    have "unat (drop_bit k w) = unat w div 2 ^ k" by (subst unat_drop_bit_eq) (simp add: drop_bit_eq_div)
    then show ?thesis by (simp add: unsigned_ucast_eq take_bit_eq_mod)
  qed
  have top: "unat w div 16777216 mod 256 = unat w div 16777216"
    using \<open>unat w < 2 ^ 32\<close> by (simp add: less_mult_imp_div_less)
  have "unat w = 256 * (256 * (256 * (unat w div 2 ^ 24) + unat w div 2 ^ 16 mod 256) + unat w div 2 ^ 8 mod 256) + unat w mod 256"
  proof -
    have d: "m = 256 * (m div 256) + m mod 256" for m :: nat by simp
    have q: "m div 256 div 256 = m div 65536" "m div 65536 div 256 = m div 16777216" for m :: nat
      by (simp_all add: div_mult2_eq [symmetric])
    from d [of "unat w"] d [of "unat w div 256"] d [of "unat w div 65536"] show ?thesis
      by (simp add: q top del: mult_div_mod_eq)
  qed
  then show ?thesis using b [of 0] by (simp add: read_word_def word_bytes_def b top)
qed

lemma word_bytes_length [simp]: "length (word_bytes w) = 4"
  by (simp add: word_bytes_def)

lemma read_instream_written:
  assumes "list_all (\<lambda>c. c \<noteq> [] \<and> length c < 2 ^ 32) cs"
  shows "\<exists>s. write_chunks cs = Inr s \<and> read_instream s = Some (concat cs)"
  using assms
proof (induction cs)
  case Nil
  have four: "replicate 4 x = [x, x, x, x]" for x :: char by (simp add: numeral_eq_Suc)
  have "read_word zero_length = 0" by (simp add: read_word_def zero_length_def four)
  moreover have "length zero_length = 4" by (simp add: zero_length_def)
  ultimately have "read_instream zero_length = Some []" by (simp add: read_instream.simps [of zero_length])
  then show ?case by simp
next
  case (Cons c cs)
  then obtain s where s: "write_chunks cs = Inr s" "read_instream s = Some (concat cs)" by auto
  have c: "c \<noteq> []" "length c < 2 ^ 32" using Cons.prems by simp_all
  let ?n = "word_bytes (of_nat (length c))"
  have n: "read_word ?n = length c"
    using c(2) by (simp add: read_word_bytes unat_of_nat)
  have "read_instream (?n @ c @ s) = Some (c @ concat cs)"
    using c(1) s(2) n by (subst read_instream.simps) simp
  with s(1) c(2) show ?case by (simp add: writeUInt32BE_def)
qed

lemma read_stream_concat: "0 < n \<Longrightarrow> concat (read_stream n s) = s"
  by (induction n s rule: read_stream.induct) (subst read_stream.simps, simp)

lemma read_stream_sizes: "list_all (\<lambda>c. c \<noteq> [] \<and> length c \<le> n) (read_stream n s)"
  by (induction n s rule: read_stream.induct) (subst read_stream.simps, simp)

section \<open>The answer\<close>

lemma contains_append: "contains (a @ p @ b) p"
proof (induction a)
  case Nil
  have "is_prefix p (p @ b)" by (simp add: is_prefix_def)
  then show ?case by (cases "p @ b") auto
qed simp

lemma verdict_of_text:
  assumes "detail = CHR ''s'' # t" and "\<not> js_space (last detail)"
  shows "read_verdict (utf8_encode (detail @ [char_of (0 :: nat)])) =
     (if ends_with detail ''OK'' then Inr True else if contains detail ''FOUND'' then Inr False else Inl ''Error'')"
proof -
  have "js_trim detail = detail"
    using js_trim_no_space [of "CHR ''s''" t] assms by (simp add: js_space_def)
  then show ?thesis by (simp add: read_verdict_def strip_null_def)
qed

text \<open>
  C27: ClamAV scans the document and its answer is understood.  For every file the worker sends one command and a
  stream that a daemon following the protocol reads back as exactly the bytes of the file, however long it is, and
  the verdict is what the daemon answers: an answer OK makes the document clean and an answer naming any malware makes it infected.
\<close>

theorem daemon_scans_the_document:
  "(\<exists>s. read_instream s = Some bytes \<and>
      (\<forall>clamd. scanFile clamd bytes =
         (case clamd (instream_command @ s) of Inl err \<Rightarrow> Inl err | Inr response \<Rightarrow> read_verdict response))) \<and>
   read_verdict (utf8_encode (''stream: OK'' @ [char_of (0 :: nat)])) = Inr True \<and>
   read_verdict (utf8_encode ((''stream: '' @ malware @ '' FOUND'') @ [char_of (0 :: nat)])) = Inr False"
proof (intro conjI)
  have "list_all (\<lambda>c. c \<noteq> [] \<and> length c < 2 ^ 32) (read_stream (64 * 1024) bytes)"
    using read_stream_sizes [of "64 * 1024" bytes] by (auto simp: list_all_iff)
  then obtain s where "write_chunks (read_stream (64 * 1024) bytes) = Inr s" "read_instream s = Some bytes"
    using read_instream_written [of "read_stream (64 * 1024) bytes"] read_stream_concat [of "64 * 1024" bytes] by auto
  then show "\<exists>s. read_instream s = Some bytes \<and> (\<forall>clamd. scanFile clamd bytes =
      (case clamd (instream_command @ s) of Inl err \<Rightarrow> Inl err | Inr response \<Rightarrow> read_verdict response))"
    by (auto simp: scanFile_def scanChunks_def)
  show "read_verdict (utf8_encode (''stream: OK'' @ [char_of (0 :: nat)])) = Inr True"
    using verdict_of_text [of "''stream: OK''"] by (simp add: ends_with_def is_prefix_def js_space_def)
  show "read_verdict (utf8_encode ((''stream: '' @ malware @ '' FOUND'') @ [char_of (0 :: nat)])) = Inr False"
    using verdict_of_text [of "''stream: '' @ malware @ '' FOUND''"] contains_append [of "''stream: '' @ malware @ '' ''" "''FOUND''" "[]"]
    by (simp add: ends_with_def is_prefix_def js_space_def)
qed

end
