(* ===== verification/Ocr.thy ===== *)
theory Ocr
  imports Crm_Common Encoding
begin

text \<open>
  \<open>apps/worker/src/ocr.ts\<close>: the fields that \<open>parseSuggestions\<close> finds in the text of a scan, with the
  backtracking matchers of \<open>Crm_Common\<close>, and the commands that produce the text.  \<open>pdftoppm\<close> and
  \<open>tesseract\<close> are the argument \<open>command\<close>, from a program and its arguments to an error or an exit code and the chunks of output.
\<close>

section \<open>Groups\<close>

text \<open>
  The value of a named group: at the first position where the expression matches, the text between the
  first way through what precedes the grp and the first way through the group from there.
\<close>

definition group_at :: "matcher \<Rightarrow> matcher \<Rightarrow> position \<Rightarrow> string option" where
  "group_at before grp pos =
     (case concat (map (\<lambda>q. map (\<lambda>r. take (length (snd q) - length (snd r)) (snd q)) (grp q)) (before pos)) of
        [] \<Rightarrow> None
      | v # _ \<Rightarrow> Some v)"

fun find_group :: "matcher \<Rightarrow> matcher \<Rightarrow> position \<Rightarrow> string option" where
  "find_group before grp (p, []) = group_at before grp (p, [])"
| "find_group before grp (p, c # s) =
     (case group_at before grp (p, c # s) of
        Some v \<Rightarrow> Some v
      | None \<Rightarrow> find_group before grp (Some c, s))"

definition star :: "(char \<Rightarrow> bool) \<Rightarrow> matcher" where
  "star P pos = up_to (length (snd pos)) (one P) pos"

definition either :: "matcher list \<Rightarrow> matcher" where
  "either ms pos = concat (map (\<lambda>m. m pos) ms)"

fun literal :: "string \<Rightarrow> matcher" where
  "literal [] pos = [pos]"
| "literal (c # w) pos = concat (map (literal w) (one (\<lambda>x. x = c) pos))"

text \<open>With the flag \<open>i\<close>: letters in either case.\<close>

fun literal_ci :: "string \<Rightarrow> matcher" where
  "literal_ci [] pos = [pos]"
| "literal_ci (c # w) pos = concat (map (literal_ci w) (one (\<lambda>x. to_lower x = c) pos))"

section \<open>\<open>parseSuggestions\<close>\<close>

definition number_group :: "string \<Rightarrow> string option" where
  "number_group text =
     find_group
       (seq (either [literal_ci ''invoice'', literal_ci ''inv''])
         (star (\<lambda>c. js_space c \<or> c \<in> {CHR ''#'', CHR '':'', CHR ''.'', CHR ''-''})))
       (seq (one alnum) (seq (exactly 2 (one (\<lambda>c. alnum c \<or> c = CHR ''/'' \<or> c = CHR ''-'')))
         (up_to 38 (one (\<lambda>c. alnum c \<or> c = CHR ''/'' \<or> c = CHR ''-'')))))
       (None, text)"

definition total_group :: "string \<Rightarrow> string option" where
  "total_group text =
     find_group
       (seq (either [literal_ci ''total'', literal_ci ''amount due'']) (up_to 20 (one (\<lambda>c. \<not> is_digit c))))
       (seq (one is_digit) (seq (star (\<lambda>c. is_digit c \<or> c = CHR '' '' \<or> c = CHR '','' \<or> c = CHR ''.''))
         (seq (one (\<lambda>c. c = CHR ''.'' \<or> c = CHR '','')) (exactly 2 (one is_digit)))))
       (None, text)"

definition currencies :: "string list" where
  "currencies = [''EUR'', ''USD'', ''GBP'', ''MDL'', ''RON'']"

definition currency_group :: "string \<Rightarrow> string option" where
  "currency_group text =
     find_group at_boundary (seq (either (map literal currencies)) at_boundary) (None, text)"

definition date_separator :: "char \<Rightarrow> bool" where
  "date_separator c \<longleftrightarrow> c = CHR ''-'' \<or> c = CHR ''/'' \<or> c = CHR ''.''"

definition date_group :: "string \<Rightarrow> string option" where
  "date_group text =
     find_group at_boundary
       (seq (exactly 4 (one is_digit)) (seq (one date_separator) (seq (exactly 2 (one is_digit))
         (seq (one date_separator) (seq (exactly 2 (one is_digit)) at_boundary)))))
       (None, text)"

text \<open>A group that is missing (or empty) suggests nothing.\<close>

definition suggest :: "string \<Rightarrow> (string \<Rightarrow> string) \<Rightarrow> string option \<Rightarrow> (string \<times> string) list" where
  "suggest key f v = (if truthy v then [(key, f (the v))] else [])"

definition parseSuggestions :: "string \<Rightarrow> (string \<times> string) list" where
  "parseSuggestions text =
     suggest ''invoiceNumber'' id (number_group text) @
     suggest ''totalAmount'' (filter (\<lambda>c. \<not> js_space c)) (total_group text) @
     suggest ''currency'' js_upper (currency_group text) @
     suggest ''issueDate'' (map (\<lambda>c. if c = CHR ''/'' \<or> c = CHR ''.'' then CHR ''-'' else c)) (date_group text)"

section \<open>The commands\<close>

text \<open>
  What is kept of the output: chunks as long as they stay within two MiB; at the first that does not, the child
  is killed, and a killed child has no exit code.
\<close>

definition max_output :: nat where "max_output = 2 * 1024 * 1024"

fun kept_output :: "nat \<Rightarrow> string list \<Rightarrow> string" where
  "kept_output n [] = []"
| "kept_output n (c # cs) =
     (if n + length c \<le> max_output then c @ kept_output (n + length c) cs else kept_output (n + length c) cs)"

type_synonym command = "string \<Rightarrow> string list \<Rightarrow> string + nat option \<times> string list"

definition run_command :: "command \<Rightarrow> string \<Rightarrow> string list \<Rightarrow> string + string" where
  "run_command command program arguments =
     (case command program arguments of
        Inl err \<Rightarrow> Inl err
      | Inr (code, output) \<Rightarrow>
          if code = Some 0 then Inr (utf8_decode (kept_output 0 output)) else Inl ''Error'')"

definition extractSuggestions ::
  "command \<Rightarrow> string \<Rightarrow> string option \<Rightarrow> string \<Rightarrow> string \<Rightarrow>
     string + string \<times> (string \<times> string) list" where
  "extractSuggestions command work languages path mimeType =
     (let prefix = work @ ''/page'';
          rendered = (if mimeType = ''application/pdf''
            then map_sum id (\<lambda>_. prefix @ ''.png'')
              (run_command command ''pdftoppm'' [''-f'', ''1'', ''-singlefile'', ''-png'', path, prefix])
            else Inr path) in
      case rendered of
        Inl err \<Rightarrow> Inl err
      | Inr target \<Rightarrow>
          (case run_command command ''tesseract''
                  [target, ''stdout'', ''-l'', (case languages of None \<Rightarrow> ''eng'' | Some l \<Rightarrow> l)] of
             Inl err \<Rightarrow> Inl err
           | Inr text \<Rightarrow> Inr (''tesseract'', parseSuggestions text)))"

end
