(* ===== verification/Ocr_Properties.thy ===== *)
theory Ocr_Properties
  imports Ocr
begin

text \<open>
  What the suggestions look like: \<open>matches m L\<close> says that everything the matcher \<open>m\<close> runs over is in the language
  \<open>L\<close>; the combinators compose, and a group found in a text is in the language of its expression.
\<close>

definition matches :: "matcher \<Rightarrow> (string \<Rightarrow> bool) \<Rightarrow> bool" where
  "matches m L \<longleftrightarrow> (\<forall>pos r. r \<in> set (m pos) \<longrightarrow> (\<exists>v. snd pos = v @ snd r \<and> L v))"

lemma matchesI: "(\<And>pos r. r \<in> set (m pos) \<Longrightarrow> \<exists>v. snd pos = v @ snd r \<and> L v) \<Longrightarrow> matches m L"
  by (simp add: matches_def)

lemma matchesD: "matches m L \<Longrightarrow> r \<in> set (m pos) \<Longrightarrow> \<exists>v. snd pos = v @ snd r \<and> L v"
  unfolding matches_def by blast

lemma matches_mono: "matches m L \<Longrightarrow> (\<And>v. L v \<Longrightarrow> L' v) \<Longrightarrow> matches m L'"
  unfolding matches_def by blast

lemma matches_one: "matches (one P) (\<lambda>v. \<exists>c. v = [c] \<and> P c)"
  by (rule matchesI) (auto simp: one_def split: prod.splits list.splits if_splits)

lemma matches_boundary: "matches at_boundary (\<lambda>v. v = [])"
  by (rule matchesI) (auto simp: at_boundary_def split: prod.splits if_splits)

lemma matches_seq:
  assumes "matches m L" "matches n L'"
  shows "matches (seq m n) (\<lambda>v. \<exists>a b. v = a @ b \<and> L a \<and> L' b)"
proof (rule matchesI)
  fix pos r assume "r \<in> set (seq m n pos)"
  then obtain q where "q \<in> set (m pos)" "r \<in> set (n q)" by (auto simp: seq_def)
  with matchesD [OF assms(1)] matchesD [OF assms(2)] show "\<exists>v. snd pos = v @ snd r \<and> (\<exists>a b. v = a @ b \<and> L a \<and> L' b)"
    by (metis append.assoc)
qed

lemma matches_exactly: "matches (exactly n (one P)) (\<lambda>v. length v = n \<and> list_all P v)"
proof (induction n)
  case (Suc n)
  show ?case
  proof (rule matchesI)
    fix pos r assume "r \<in> set (exactly (Suc n) (one P) pos)"
    then obtain q where q: "q \<in> set (one P pos)" "r \<in> set (exactly n (one P) q)" by auto
    with matchesD [OF Suc.IH q(2)] matchesD [OF matches_one q(1)]
    show "\<exists>v. snd pos = v @ snd r \<and> length v = Suc n \<and> list_all P v" by force
  qed
qed (auto simp: matches_def)

lemma matches_up_to: "matches (up_to n (one P)) (\<lambda>v. length v \<le> n \<and> list_all P v)"
proof (induction n)
  case (Suc n)
  show ?case
  proof (rule matchesI)
    fix pos r assume "r \<in> set (up_to (Suc n) (one P) pos)"
    then consider "r = pos" | q where "q \<in> set (one P pos)" "r \<in> set (up_to n (one P) q)" by auto
    then show "\<exists>v. snd pos = v @ snd r \<and> length v \<le> Suc n \<and> list_all P v"
    proof cases
      case 2
      with matchesD [OF Suc.IH 2(2)] matchesD [OF matches_one 2(1)] show ?thesis by force
    qed simp
  qed
qed (auto simp: matches_def)

lemma matches_star: "matches (star P) (list_all P)"
proof (rule matchesI)
  fix pos r assume "r \<in> set (star P pos)"
  then show "\<exists>v. snd pos = v @ snd r \<and> list_all P v"
    unfolding star_def using matchesD [OF matches_up_to] by blast
qed

lemma matches_literal: "matches (literal w) (\<lambda>v. v = w)"
proof (induction w)
  case (Cons c w)
  show ?case
  proof (rule matchesI)
    fix pos r assume "r \<in> set (literal (c # w) pos)"
    then obtain q where q: "q \<in> set (one (\<lambda>x. x = c) pos)" "r \<in> set (literal w q)" by auto
    with matchesD [OF Cons.IH q(2)] matchesD [OF matches_one q(1)]
    show "\<exists>v. snd pos = v @ snd r \<and> v = c # w" by force
  qed
qed (auto simp: matches_def)

lemma matches_either: "(\<And>m. m \<in> set ms \<Longrightarrow> matches m L) \<Longrightarrow> matches (either ms) L"
  by (rule matchesI) (auto simp: either_def dest: matchesD)

text \<open>A group that is found is in the language of its expression.\<close>

lemma group_at_value:
  assumes "matches grp L" and "group_at before grp pos = Some v"
  shows "L v"
proof -
  have first: "(case xs of [] \<Rightarrow> None | x # _ \<Rightarrow> Some x) = Some y \<Longrightarrow> y \<in> set xs" for xs :: "string list" and y
    by (cases xs) auto
  obtain q r where "q \<in> set (before pos)" "r \<in> set (grp q)" "v = take (length (snd q) - length (snd r)) (snd q)"
    using first [OF assms(2) [unfolded group_at_def]] by auto
  with matchesD [OF assms(1)] show ?thesis by fastforce
qed

lemma find_group_value: "matches grp L \<Longrightarrow> find_group before grp pos = Some v \<Longrightarrow> L v"
  by (induction before grp pos rule: find_group.induct) (auto dest: group_at_value split: option.splits)

section \<open>The four suggestions\<close>

definition number_shape :: "string \<Rightarrow> bool" where
  "number_shape v \<longleftrightarrow> 3 \<le> length v \<and> length v \<le> 41 \<and> alnum (hd v) \<and>
     list_all (\<lambda>c. alnum c \<or> c = CHR ''/'' \<or> c = CHR ''-'') v"

definition amount_shape :: "string \<Rightarrow> bool" where
  "amount_shape v \<longleftrightarrow> (\<exists>w c x y. v = w @ [c, x, y] \<and> (c = CHR ''.'' \<or> c = CHR '','') \<and> is_digit x \<and> is_digit y \<and>
     is_digit (hd w) \<and> list_all (\<lambda>c. is_digit c \<or> c = CHR ''.'' \<or> c = CHR '','') w)"

definition date_shape :: "string \<Rightarrow> bool" where
  "date_shape v \<longleftrightarrow> (\<exists>y m d. v = y @ ''-'' @ m @ ''-'' @ d \<and> length y = 4 \<and> length m = 2 \<and> length d = 2 \<and>
     list_all is_digit (y @ m @ d))"

lemma digit_not_space: "is_digit c \<Longrightarrow> \<not> js_space c"
  by (auto simp: is_digit_def js_space_def)

lemma number_found: "number_group text = Some v \<Longrightarrow> number_shape v"
  unfolding number_group_def
  by (drule find_group_value [OF matches_mono [OF matches_seq [OF matches_one matches_seq [OF matches_exactly matches_up_to]],
        where L' = number_shape], rotated]) (auto simp: number_shape_def)

lemma total_found:
  assumes "total_group text = Some v"
  shows "amount_shape (filter (\<lambda>c. \<not> js_space c) v)"
proof -
  let ?A = "\<lambda>c. is_digit c \<or> c = CHR '' '' \<or> c = CHR '','' \<or> c = CHR ''.''"
  let ?S = "\<lambda>c. c = CHR ''.'' \<or> c = CHR '',''"
  define A S where "A = ?A" and "S = ?S"
  from find_group_value [OF matches_seq [OF matches_one matches_seq [OF matches_star matches_seq [OF matches_one matches_exactly]]]
      assms [unfolded total_group_def A_def [symmetric] S_def [symmetric]]]
  obtain c w s d where v: "v = c # w @ s # d" "is_digit c" "S s" "length d = 2" "list_all is_digit d" "list_all A w"
    by auto
  then obtain x y where d: "d = [x, y]" "is_digit x" "is_digit y"
    by (auto simp: length_Suc_conv numeral_2_eq_2)
  let ?w = "c # filter (\<lambda>c. \<not> js_space c) w"
  have "\<not> js_space s" using v(3) by (auto simp: js_space_def S_def)
  then have "filter (\<lambda>c. \<not> js_space c) v = ?w @ [s, x, y]"
    by (simp add: v(1) d(1) digit_not_space [OF v(2)] digit_not_space [OF d(2)] digit_not_space [OF d(3)])
  moreover have "list_all (\<lambda>c. is_digit c \<or> c = CHR ''.'' \<or> c = CHR '','') ?w"
  proof -
    have "A c \<Longrightarrow> \<not> js_space c \<Longrightarrow> is_digit c \<or> c = CHR ''.'' \<or> c = CHR '',''" for c
      by (auto simp: A_def js_space_def)
    then show ?thesis using v(2,6) by (auto simp: list_all_iff)
  qed
  ultimately show ?thesis
    unfolding amount_shape_def using v(2) v(3) [unfolded S_def] d(2,3) by (intro exI [of _ ?w] exI [of _ s] exI [of _ x] exI [of _ y]) simp
qed

lemma currency_found: "currency_group text = Some v \<Longrightarrow> v \<in> set currencies"
proof -
  assume a: "currency_group text = Some v"
  have "matches (either (map literal currencies)) (\<lambda>v. v \<in> set currencies)"
    by (rule matches_either) (auto intro: matches_mono [OF matches_literal])
  from find_group_value [OF matches_seq [OF this matches_boundary] a [unfolded currency_group_def]]
  show "v \<in> set currencies" by auto
qed

lemma currency_upper: "v \<in> set currencies \<Longrightarrow> js_upper v = v"
  by (auto simp: currencies_def js_upper_def js_upper_char_def is_lower_def)

lemma date_found:
  assumes "date_group text = Some v"
  shows "date_shape (map (\<lambda>c. if c = CHR ''/'' \<or> c = CHR ''.'' then CHR ''-'' else c) v)"
proof -
  let ?f = "\<lambda>c. if c = CHR ''/'' \<or> c = CHR ''.'' then CHR ''-'' else c"
  have dig: "map ?f s = s" if "list_all is_digit s" for s
    using that by (induction s) (auto simp: is_digit_def)
  from find_group_value [OF matches_seq [OF matches_exactly matches_seq [OF matches_one matches_seq [OF matches_exactly
      matches_seq [OF matches_one matches_seq [OF matches_exactly matches_boundary]]]]] assms [unfolded date_group_def]]
  obtain y p m q d where "v = y @ p # m @ q # d" "length y = 4" "length m = 2" "length d = 2"
    "list_all is_digit y" "list_all is_digit m" "list_all is_digit d" "date_separator p" "date_separator q" by auto
  then show ?thesis
    unfolding date_shape_def by (intro exI [of _ y] exI [of _ m] exI [of _ d]) (auto simp: dig date_separator_def)
qed

text \<open>
  C40: The suggestions of the OCR have their documented shapes, whatever the scan says.  Each field is
  suggested at most once; an invoice number has 3 to 41 letters, digits, slashes and hyphens and begins
  with a letter or digit; a total begins with a digit and ends in a separator and two decimals, without blanks; a currency
  is one of the five the source lists; a date is four, two and two digits with hyphens between them.
\<close>

theorem suggestions_are_well_formed:
  "distinct (map fst (parseSuggestions text)) \<and>
   list_all (\<lambda>(field, v).
     field = ''invoiceNumber'' \<and> number_shape v \<or> field = ''totalAmount'' \<and> amount_shape v \<or>
     field = ''currency'' \<and> v \<in> {''EUR'', ''USD'', ''GBP'', ''MDL'', ''RON''} \<or>
     field = ''issueDate'' \<and> date_shape v) (parseSuggestions text)"
proof -
  have "v \<in> set currencies \<Longrightarrow> v \<in> {''EUR'', ''USD'', ''GBP'', ''MDL'', ''RON''}" for v by (simp add: currencies_def)
  then show ?thesis
    using number_found total_found currency_found date_found
    by (auto simp: parseSuggestions_def suggest_def truthy_def currency_upper split: option.splits)
qed

end
