(* ===== verification/Object_Storage.thy ===== *)
theory Object_Storage
  imports Http "HOL-Library.List_Lexorder"
begin

text \<open>
  The S3 client, \<open>apps/api/src/invoices/object-storage.service.ts\<close>, and its copy in the worker,
  \<open>apps/worker/src/object-storage.ts\<close>: the signed request (AWS Signature Version 4) and what its
  answer means.  The server is the argument \<open>serve_object\<close>, from a request and its state to a connection
  error or a status with a body, and the new state; \<open>hmac\<close> is the raw HMAC-SHA-256 from key and text to bytes, \<open>sha\<close> the
  digest in hexadecimal.
\<close>

record storage_config =
  stc_host :: string
  stc_accessKey :: string
  stc_secretKey :: string
  stc_region :: string

definition storageConfig :: "string \<Rightarrow> string option \<Rightarrow> string option \<Rightarrow> string option \<Rightarrow> storage_config" where
  "storageConfig host accessKey secretKey region =
     \<lparr>stc_host = host,
      stc_accessKey = (case accessKey of None \<Rightarrow> ''bloctrust-local'' | Some v \<Rightarrow> v),
      stc_secretKey = (case secretKey of None \<Rightarrow> ''bloctrust-local-secret'' | Some v \<Rightarrow> v),
      stc_region = (case region of None \<Rightarrow> ''us-east-1'' | Some v \<Rightarrow> v)\<rparr>"

record signed_request =
  sr_method :: string
  sr_path :: string
  sr_headers :: "(string \<times> string) list"
  sr_body :: "string option"

section \<open>Texts\<close>

text \<open>\<open>encodeURIComponent\<close>: the unreserved characters stay, every byte of the UTF-8 of the others is escaped.\<close>

definition unreserved :: "char \<Rightarrow> bool" where
  "unreserved c \<longleftrightarrow> is_upper c \<or> is_lower c \<or> is_digit c \<or>
     c \<in> {CHR ''-'', CHR ''_'', CHR ''.'', CHR ''!'', CHR ''~'', CHR ''*'', CHR 0x27, CHR ''('', CHR '')''}"

definition percent :: "char \<Rightarrow> string" where
  "percent c = [CHR ''%'', ''0123456789ABCDEF'' ! (of_char c div 16), ''0123456789ABCDEF'' ! (of_char c mod 16)]"

definition encodeURIComponent :: "string \<Rightarrow> string" where
  "encodeURIComponent s = concat (map (\<lambda>c. if unreserved c then [c] else concat (map percent (utf8_encode [c]))) s)"

definition hex :: "string \<Rightarrow> string" where
  "hex s = concat (map (\<lambda>c. [hex_digit (of_char c div 16), hex_digit (of_char c mod 16)]) s)"

text \<open>\<open>replace(/[:-]|\.\d{3}/gu, '')\<close> on the text of a date.\<close>

fun compact_date :: "string \<Rightarrow> string" where
  "compact_date [] = []"
| "compact_date (c # s) =
     (if c = CHR '':'' \<or> c = CHR ''-'' then compact_date s
      else if c = CHR ''.'' \<and> 3 \<le> length s \<and> list_all is_digit (take 3 s) then compact_date (drop 3 s)
      else c # compact_date s)"

definition newline :: string where "newline = [CHR 0x0A]"

definition object_path :: "string \<Rightarrow> string \<Rightarrow> string" where
  "object_path bucket key =
     ''/'' @ encodeURIComponent bucket @ ''/'' @ join ''/'' (map encodeURIComponent (split_on (CHR ''/'') key))"

section \<open>The signature\<close>

definition signingKey :: "(string \<Rightarrow> string \<Rightarrow> string) \<Rightarrow> string \<Rightarrow> string \<Rightarrow> string \<Rightarrow> string" where
  "signingKey hmac secret date region =
     (let dateKey = hmac (''AWS4'' @ secret) date; regionKey = hmac dateKey region; serviceKey = hmac regionKey ''s3''
      in hmac serviceKey ''aws4_request'')"

definition request_headers :: "string \<Rightarrow> string \<Rightarrow> string \<Rightarrow> nat option \<Rightarrow> (string \<times> string) list" where
  "request_headers host payloadHash amzDate contentLength =
     [(''host'', host), (''x-amz-content-sha256'', payloadHash), (''x-amz-date'', amzDate)] @
     (case contentLength of None \<Rightarrow> [] | Some n \<Rightarrow> [(''content-length'', show_nat n)])"

definition header_names :: "(string \<times> string) list \<Rightarrow> string list" where
  "header_names headers = sort_key (map (of_char :: char \<Rightarrow> nat)) (map fst headers)"

definition canonical_headers :: "(string \<times> string) list \<Rightarrow> string" where
  "canonical_headers headers =
     concat (map (\<lambda>name. name @ '':'' @ the (map_of headers name) @ newline) (header_names headers))"

definition signed_object_request ::
  "storage_config \<Rightarrow> (string \<Rightarrow> string \<Rightarrow> string) \<Rightarrow> (string \<Rightarrow> string) \<Rightarrow> time \<Rightarrow> string \<Rightarrow> string \<Rightarrow> string \<Rightarrow> string \<Rightarrow>
     string option \<Rightarrow> nat option \<Rightarrow> signed_request" where
  "signed_object_request conf hmac sha now m bucket key payloadHash body contentLength =
     (let amzDate = compact_date (toISOString now);
          date = take 8 amzDate;
          pathname = object_path bucket key;
          headers = request_headers (stc_host conf) payloadHash amzDate contentLength;
          signedHeaders = join '';'' (header_names headers);
          canonicalRequest = join newline [m, pathname, [], canonical_headers headers, signedHeaders, payloadHash];
          scope = date @ ''/'' @ stc_region conf @ ''/s3/aws4_request'';
          stringToSign = join newline [''AWS4-HMAC-SHA256'', amzDate, scope, sha canonicalRequest];
          signature = hex (hmac (signingKey hmac (stc_secretKey conf) date (stc_region conf)) stringToSign)
      in \<lparr>sr_method = m, sr_path = pathname,
          sr_headers = headers @ [(''authorization'', ''AWS4-HMAC-SHA256 Credential='' @ stc_accessKey conf @ ''/'' @ scope @
            '', SignedHeaders='' @ signedHeaders @ '', Signature='' @ signature)],
          sr_body = body\<rparr>)"

section \<open>The operations\<close>

type_synonym 's object_server = "signed_request \<Rightarrow> 's \<Rightarrow> (string + nat option \<times> string) \<times> 's"

text \<open>A bucket that exists already (409) is as good as a new one.\<close>

definition status_ok :: "string \<Rightarrow> string \<Rightarrow> nat option \<Rightarrow> bool" where
  "status_ok m key status \<longleftrightarrow>
     (let code = (case status of None \<Rightarrow> 500 | Some n \<Rightarrow> n) in
      200 \<le> code \<and> code < 300 \<or> m = ''PUT'' \<and> key = [] \<and> status = Some 409)"

definition send ::
  "storage_config \<Rightarrow> (string \<Rightarrow> string \<Rightarrow> string) \<Rightarrow> (string \<Rightarrow> string) \<Rightarrow> 's object_server \<Rightarrow> time \<Rightarrow> string \<Rightarrow> string \<Rightarrow> string \<Rightarrow>
     string \<Rightarrow> string option \<Rightarrow> nat option \<Rightarrow> 's \<Rightarrow> (failure + string) \<times> 's" where
  "send conf hmac sha serve_object now m bucket key payloadHash body contentLength st =
     (case serve_object (signed_object_request conf hmac sha now m bucket key payloadHash body contentLength) st of
        (Inl err, st') \<Rightarrow> (Inl (ExternalError err), st')
      | (Inr (status, content), st') \<Rightarrow>
          if status_ok m key status then (Inr content, st')
          else (Inl (ExternalError (''Object storage request failed with status '' @
                 show_nat (case status of None \<Rightarrow> 500 | Some n \<Rightarrow> n) @ ''.'')), st'))"

definition emptyHash :: "(string \<Rightarrow> string) \<Rightarrow> string" where
  "emptyHash sha = sha []"

definition ensureBucket ::
  "storage_config \<Rightarrow> (string \<Rightarrow> string \<Rightarrow> string) \<Rightarrow> (string \<Rightarrow> string) \<Rightarrow> 's object_server \<Rightarrow> time \<Rightarrow> string \<Rightarrow> 's \<Rightarrow>
     (failure + string) \<times> 's" where
  "ensureBucket conf hmac sha serve_object now bucket st =
     send conf hmac sha serve_object now ''PUT'' bucket [] (emptyHash sha) None (Some 0) st"

text \<open>The bucket first, then the object: two requests at two readings of the clock.\<close>

definition putFile ::
  "storage_config \<Rightarrow> (string \<Rightarrow> string \<Rightarrow> string) \<Rightarrow> (string \<Rightarrow> string) \<Rightarrow> 's object_server \<Rightarrow> (nat \<Rightarrow> time) \<Rightarrow>
     string \<Rightarrow> string \<Rightarrow> string \<Rightarrow> string \<Rightarrow> nat \<Rightarrow> 's \<Rightarrow> (failure + unit) \<times> 's" where
  "putFile conf hmac sha serve_object now bucket key content digest bytes st =
     (case ensureBucket conf hmac sha serve_object (now 0) bucket st of
        (Inl err, st1) \<Rightarrow> (Inl err, st1)
      | (Inr _, st1) \<Rightarrow>
      case send conf hmac sha serve_object (now 1) ''PUT'' bucket key digest (Some content) (Some bytes) st1 of
        (Inl err, st2) \<Rightarrow> (Inl err, st2)
      | (Inr _, st2) \<Rightarrow> (Inr (), st2))"

definition getObject ::
  "storage_config \<Rightarrow> (string \<Rightarrow> string \<Rightarrow> string) \<Rightarrow> (string \<Rightarrow> string) \<Rightarrow> 's object_server \<Rightarrow> time \<Rightarrow> string \<Rightarrow> string \<Rightarrow> 's \<Rightarrow>
     (failure + string) \<times> 's" where
  "getObject conf hmac sha serve_object now bucket key st =
     send conf hmac sha serve_object now ''GET'' bucket key (emptyHash sha) None None st"

definition deleteObject ::
  "storage_config \<Rightarrow> (string \<Rightarrow> string \<Rightarrow> string) \<Rightarrow> (string \<Rightarrow> string) \<Rightarrow> 's object_server \<Rightarrow> time \<Rightarrow> string \<Rightarrow> string \<Rightarrow> 's \<Rightarrow>
     (failure + string) \<times> 's" where
  "deleteObject conf hmac sha serve_object now bucket key st =
     send conf hmac sha serve_object now ''DELETE'' bucket key (emptyHash sha) None None st"

section \<open>The copy of the worker\<close>

definition worker_request ::
  "storage_config \<Rightarrow> (string \<Rightarrow> string \<Rightarrow> string) \<Rightarrow> (string \<Rightarrow> string) \<Rightarrow> time \<Rightarrow> string \<Rightarrow> string \<Rightarrow> string \<Rightarrow> string \<Rightarrow>
     string option \<Rightarrow> nat option \<Rightarrow> signed_request" where
  "worker_request conf hmac sha now m bucket key payloadHash source bytes =
     (let amzDate = compact_date (toISOString now);
          date = take 8 amzDate;
          pathname = ''/'' @ encodeURIComponent bucket @ ''/'' @ join ''/'' (map encodeURIComponent (split_on (CHR ''/'') key));
          headers = [(''host'', stc_host conf), (''x-amz-content-sha256'', payloadHash), (''x-amz-date'', amzDate)] @
            (case bytes of None \<Rightarrow> [] | Some n \<Rightarrow> [(''content-length'', show_nat n)]);
          names = sort_key (map (of_char :: char \<Rightarrow> nat)) (map fst headers);
          canonicalHeaders = concat (map (\<lambda>name. name @ '':'' @ the (map_of headers name) @ newline) names);
          scope = date @ ''/'' @ stc_region conf @ ''/s3/aws4_request'';
          canonical = join newline [m, pathname, [], canonicalHeaders, join '';'' names, payloadHash];
          stringToSign = join newline [''AWS4-HMAC-SHA256'', amzDate, scope, sha canonical];
          dateKey = hmac (''AWS4'' @ stc_secretKey conf) date;
          regionKey = hmac dateKey (stc_region conf);
          serviceKey = hmac regionKey ''s3'';
          signature = hex (hmac (hmac serviceKey ''aws4_request'') stringToSign)
      in \<lparr>sr_method = m, sr_path = pathname,
          sr_headers = headers @ [(''authorization'', ''AWS4-HMAC-SHA256 Credential='' @ stc_accessKey conf @ ''/'' @ scope @
            '', SignedHeaders='' @ join '';'' names @ '', Signature='' @ signature)],
          sr_body = source\<rparr>)"

definition worker_send ::
  "storage_config \<Rightarrow> (string \<Rightarrow> string \<Rightarrow> string) \<Rightarrow> (string \<Rightarrow> string) \<Rightarrow> 's object_server \<Rightarrow> time \<Rightarrow> string \<Rightarrow> string \<Rightarrow> string \<Rightarrow>
     string \<Rightarrow> string option \<Rightarrow> nat option \<Rightarrow> 's \<Rightarrow> (failure + string) \<times> 's" where
  "worker_send conf hmac sha serve_object now m bucket key payloadHash source bytes st =
     (case serve_object (worker_request conf hmac sha now m bucket key payloadHash source bytes) st of
        (Inl err, st') \<Rightarrow> (Inl (ExternalError err), st')
      | (Inr (status, content), st') \<Rightarrow>
          if status_ok m key status then (Inr content, st')
          else (Inl (ExternalError (''Object storage status '' @
                 show_nat (case status of None \<Rightarrow> 500 | Some n \<Rightarrow> n) @ ''.'')), st'))"

definition worker_download ::
  "storage_config \<Rightarrow> (string \<Rightarrow> string \<Rightarrow> string) \<Rightarrow> (string \<Rightarrow> string) \<Rightarrow> 's object_server \<Rightarrow> time \<Rightarrow> string \<Rightarrow> string \<Rightarrow> 's \<Rightarrow>
     (failure + string) \<times> 's" where
  "worker_download conf hmac sha serve_object now bucket key st =
     worker_send conf hmac sha serve_object now ''GET'' bucket key (sha []) None None st"

definition worker_put ::
  "storage_config \<Rightarrow> (string \<Rightarrow> string \<Rightarrow> string) \<Rightarrow> (string \<Rightarrow> string) \<Rightarrow> 's object_server \<Rightarrow> (nat \<Rightarrow> time) \<Rightarrow>
     string \<Rightarrow> string \<Rightarrow> string \<Rightarrow> string \<Rightarrow> nat \<Rightarrow> 's \<Rightarrow> (failure + unit) \<times> 's" where
  "worker_put conf hmac sha serve_object now bucket key source digest bytes st =
     (case worker_send conf hmac sha serve_object (now 0) ''PUT'' bucket [] (sha []) None (Some 0) st of
        (Inl err, st1) \<Rightarrow> (Inl err, st1)
      | (Inr _, st1) \<Rightarrow>
      case worker_send conf hmac sha serve_object (now 1) ''PUT'' bucket key digest (Some source) (Some bytes) st1 of
        (Inl err, st2) \<Rightarrow> (Inl err, st2)
      | (Inr _, st2) \<Rightarrow> (Inr (), st2))"

definition worker_delete ::
  "storage_config \<Rightarrow> (string \<Rightarrow> string \<Rightarrow> string) \<Rightarrow> (string \<Rightarrow> string) \<Rightarrow> 's object_server \<Rightarrow> time \<Rightarrow> string \<Rightarrow> string \<Rightarrow> 's \<Rightarrow>
     (failure + string) \<times> 's" where
  "worker_delete conf hmac sha serve_object now bucket key st =
     worker_send conf hmac sha serve_object now ''DELETE'' bucket key (sha []) None None st"

lemma both_copies_sign_alike: "worker_request = signed_object_request"
  by (intro ext) (simp add: worker_request_def signed_object_request_def object_path_def request_headers_def
      header_names_def canonical_headers_def signingKey_def Let_def)

end
