(* ===== verification/Storage_Properties.thy ===== *)
theory Storage_Properties
  imports Object_Storage
begin

text \<open>
  The path of a stored object: the server that splits and decodes it finds the bucket and the key.
\<close>

lemma hex_value_upper: "d < 16 \<Longrightarrow> hex_value (''0123456789ABCDEF'' ! d) = Some d"
proof -
  assume "d < 16"
  then have "d = 0 \<or> d = 1 \<or> d = 2 \<or> d = 3 \<or> d = 4 \<or> d = 5 \<or> d = 6 \<or> d = 7 \<or> d = 8 \<or> d = 9 \<or> d = 10 \<or>
      d = 11 \<or> d = 12 \<or> d = 13 \<or> d = 14 \<or> d = 15" by presburger
  then show ?thesis by (elim disjE) (simp_all add: hex_value_def is_digit_def)
qed

lemma escaped_percent: "escaped_byte (''0123456789ABCDEF'' ! (of_char c div 16)) (''0123456789ABCDEF'' ! (of_char c mod 16)) = Some (of_char c)"
proof -
  have "(of_char c :: nat) < 16 * 16" by simp
  then have "(of_char c :: nat) div 16 < 16" by (rule less_mult_imp_div_less)
  then show ?thesis by (simp add: escaped_byte_def hex_value_upper)
qed

lemma unreserved_not_percent: "unreserved c \<Longrightarrow> c \<noteq> CHR ''%'' \<and> c \<noteq> CHR ''/''"
  by (auto simp: unreserved_def is_upper_def is_lower_def is_digit_def)

lemma decode_two_bytes:
  assumes "escaped_byte a b = Some n" "n = 194 \<or> n = 195" "escaped_byte x y = Some k" "128 \<le> k" "k < 192"
  shows "decodeURIComponent (CHR ''%'' # a # b # CHR ''%'' # x # y # r) =
     map_option ((#) (char_of ((n - 192) * 64 + (k - 128)))) (decodeURIComponent r)"
  using assms by auto

lemma decode_escaped:
  assumes "\<not> unreserved c"
  shows "decodeURIComponent (concat (map percent (utf8_encode [c])) @ s) = map_option ((#) c) (decodeURIComponent s)"
proof (cases "of_char c < (128 :: nat)")
  case True
  then show ?thesis by (simp add: percent_def escaped_percent)
next
  case False
  let ?n = "of_char c :: nat"
  have n: "128 \<le> ?n" "?n < 256" using False by simp_all
  let ?hi = "char_of (192 + ?n div 64 :: nat)" and ?lo = "char_of (128 + ?n mod 64 :: nat)"
  have hi: "of_char ?hi = 192 + ?n div 64" and lo: "of_char ?lo = 128 + ?n mod 64"
  proof -
    have "?n div 64 < 4" using n(2) by (intro less_mult_imp_div_less) simp
    then show "of_char ?hi = 192 + ?n div 64" by simp
    have "?n mod 64 < 64" by simp
    then show "of_char ?lo = 128 + ?n mod 64" by simp
  qed
  have "?n div 64 < 4" using n(2) by (intro less_mult_imp_div_less) simp
  moreover have "2 \<le> ?n div 64" using n(1) by (simp add: less_eq_div_iff_mult_less_eq)
  ultimately have two: "192 + ?n div 64 = 194 \<or> 192 + ?n div 64 = 195" by linarith
  have same: "char_of ((192 + ?n div 64 - 192) * 64 + (128 + ?n mod 64 - 128)) = c"
    by (simp add: mult.commute)
  have "concat (map percent (utf8_encode [c])) @ s = percent ?hi @ percent ?lo @ s"
    using False by simp
  moreover have "decodeURIComponent (percent ?hi @ percent ?lo @ s) =
      map_option ((#) (char_of ((192 + ?n div 64 - 192) * 64 + (128 + ?n mod 64 - 128)))) (decodeURIComponent s)"
    using decode_two_bytes [OF escaped_percent [of ?hi, unfolded hi] two escaped_percent [of ?lo, unfolded lo]]
    unfolding percent_def hi lo by (simp only: append.simps)
  ultimately show ?thesis unfolding same by simp
qed

lemma decode_encoded: "decodeURIComponent (encodeURIComponent s) = Some s"
proof (induction s)
  case (Cons c s)
  have "encodeURIComponent (c # s) = (if unreserved c then [c] else concat (map percent (utf8_encode [c]))) @ encodeURIComponent s"
    by (simp add: encodeURIComponent_def)
  with Cons show ?case using decode_escaped unreserved_not_percent by auto
qed (simp add: encodeURIComponent_def)

lemma encoded_no_slash: "CHR ''/'' \<notin> set (encodeURIComponent s)"
proof -
  have "CHR ''/'' \<notin> set (percent c)" for c
  proof -
    have "(of_char c :: nat) < 16 * 16" by simp
    then have "(of_char c :: nat) div 16 < 16" by (rule less_mult_imp_div_less)
    moreover have "''0123456789ABCDEF'' ! d \<noteq> CHR ''/''" if "d < 16" for d
      using hex_value_upper [OF that] by (auto simp: hex_value_def is_digit_def)
    ultimately show ?thesis by (simp add: percent_def) (metis mod_less_divisor zero_less_numeral)
  qed
  then show ?thesis using unreserved_not_percent by (auto simp: encodeURIComponent_def)
qed

lemma split_join:
  "xs \<noteq> [] \<Longrightarrow> (\<And>x. x \<in> set xs \<Longrightarrow> c \<notin> set x) \<Longrightarrow> split_on c (join [c] xs) = xs"
proof (induction "[c]" xs rule: join.induct)
  case (3 x y xs)
  then have "split_on c (x @ c # join [c] (y # xs)) = x # split_on c (join [c] (y # xs))"
    by (intro split_on_append) simp
  with 3 show ?case by simp
qed (simp_all add: split_on_single)

lemma join_split: "join [c] (split_on c s) = s"
proof (induction s)
  case (Cons a s)
  obtain w ws where "split_on c s = w # ws" by (cases "split_on c s") auto
  with Cons show ?case by (cases ws) auto
qed simp

lemma path_parts:
  "split_on (CHR ''/'') (object_path bucket key) =
     [] # encodeURIComponent bucket # map encodeURIComponent (split_on (CHR ''/'') key)"
proof -
  have "split_on (CHR ''/'') (join ''/'' (map encodeURIComponent (split_on (CHR ''/'') key))) =
      map encodeURIComponent (split_on (CHR ''/'') key)"
    by (rule split_join) (auto simp: encoded_no_slash)
  then show ?thesis
    using split_on_append [OF encoded_no_slash] by (simp add: object_path_def)
qed

text \<open>
  A stored object is found under the path it was stored under.  Splitting the path of a request at its
  slashes and decoding every part gives back the bucket and the segments of the key, whatever characters they
  contain; so two requests have the same path only for the same bucket and key, and API and worker, whose copies of the client
  sign alike, name the same object by the same path.
\<close>

theorem object_path_round_trip:
  "map decodeURIComponent (tl (split_on (CHR ''/'') (object_path bucket key))) = map Some (bucket # split_on (CHR ''/'') key) \<and>
   (object_path bucket key = object_path bucket' key' \<longleftrightarrow> bucket = bucket' \<and> key = key') \<and>
   sr_path (worker_request conf hmac sha now m bucket key payloadHash source bytes) =
     sr_path (signed_object_request conf hmac sha now' m' bucket key payloadHash' body contentLength)"
proof -
  have parts: "map decodeURIComponent (tl (split_on (CHR ''/'') (object_path b k))) = map Some (b # split_on (CHR ''/'') k)" for b k
    by (simp add: path_parts decode_encoded)
  have "bucket = bucket' \<and> key = key'" if "object_path bucket key = object_path bucket' key'"
  proof -
    have "map Some (bucket # split_on (CHR ''/'') key) = map Some (bucket' # split_on (CHR ''/'') key')"
      unfolding parts [symmetric] that ..
    then have "bucket = bucket' \<and> split_on (CHR ''/'') key = split_on (CHR ''/'') key'"
      by (simp add: inj_map_eq_map)
    then show ?thesis using join_split by metis
  qed
  then have iff: "object_path bucket key = object_path bucket' key' \<longleftrightarrow> bucket = bucket' \<and> key = key'" by blast
  have path: "sr_path (signed_object_request conf hmac sha n m b k h x l) = object_path b k" for n m b k h x l
    by (simp add: signed_object_request_def Let_def)
  show ?thesis unfolding both_copies_sign_alike path by (intro conjI parts iff refl)
qed

end
