(* ===== verification/Web_Program.thy ===== *)
theory Web_Program
  imports Http Invoices
begin

text \<open>
  The asynchronous functions of the web application (\<open>apps/web/app\<close>) as interaction programs: a program
  returns, throws, or asks its surroundings for something and goes on with the answer.  What an
  \<open>await\<close> waits for is a node of the program, so programs can be interleaved (\<open>Web_Concurrency\<close>).
  And \<open>lib/api.ts\<close>: the request of a page with its CSRF token, its one refresh and its one repetition.
\<close>

section \<open>Values\<close>

text \<open>A JavaScript value without functions; an object is the list of its properties in the order of their creation.\<close>

datatype js =
    Undefined
  | Null
  | Boolean bool
  | Number rat
  | NaN
  | Text string
  | Array "js list"
  | Object "(string \<times> js) list"

text \<open>What is thrown: an \<open>Error\<close> with its message, or something else.\<close>

datatype thrown = Js_Error string | Not_An_Error

definition read_of :: "string \<Rightarrow> string \<Rightarrow> thrown" where
  "read_of v k = Js_Error (''Cannot read properties of '' @ v @ '' (reading '' @ [CHR 0x27] @ k @ [CHR 0x27] @ '')'')"

text \<open>\<open>v.k\<close> and \<open>v?.k\<close>; the properties of a prototype are not asked for.\<close>

fun get_prop :: "string \<Rightarrow> js \<Rightarrow> thrown + js" where
  "get_prop k Undefined = Inl (read_of ''undefined'' k)"
| "get_prop k Null = Inl (read_of ''null'' k)"
| "get_prop k (Object es) = Inr (case map_of es k of None \<Rightarrow> Undefined | Some v \<Rightarrow> v)"
| "get_prop k _ = Inr Undefined"

fun nullish :: "js \<Rightarrow> bool" where
  "nullish Undefined = True"
| "nullish Null = True"
| "nullish _ = False"

text \<open>\<open>v?.k1.k2\<close>: a nullish \<open>v\<close> ends the whole chain.\<close>

fun path_of :: "string list \<Rightarrow> js \<Rightarrow> thrown + js" where
  "path_of [] v = Inr v"
| "path_of (k # ks) v = (case get_prop k v of Inl e \<Rightarrow> Inl e | Inr w \<Rightarrow> path_of ks w)"

definition optional_path :: "string list \<Rightarrow> js \<Rightarrow> thrown + js" where
  "optional_path ks v = (if nullish v then Inr Undefined else path_of ks v)"

text \<open>\<open>String(v)\<close>; the decimals of a number that is not whole are not asked for.\<close>

fun js_string :: "js \<Rightarrow> string" where
  "js_string Undefined = ''undefined''"
| "js_string Null = ''null''"
| "js_string (Boolean b) = (if b then ''true'' else ''false'')"
| "js_string (Number q) = (case quotient_of q of (n, d) \<Rightarrow> if d = 1 then show_int n else show_int n @ ''/'' @ show_int d)"
| "js_string NaN = ''NaN''"
| "js_string (Text s) = s"
| "js_string (Array vs) = join '','' (map (\<lambda>v. if nullish v then [] else js_string v) vs)"
| "js_string (Object es) = ''[object Object]''"

text \<open>A string or number as a React child; \<open>null\<close>, \<open>undefined\<close> and booleans show nothing.\<close>

fun shown :: "js \<Rightarrow> string" where
  "shown (Boolean b) = []"
| "shown v = (if nullish v then [] else js_string v)"

fun js_truthy :: "js \<Rightarrow> bool" where
  "js_truthy Undefined = False"
| "js_truthy Null = False"
| "js_truthy (Boolean b) = b"
| "js_truthy (Number q) = (q \<noteq> 0)"
| "js_truthy NaN = False"
| "js_truthy (Text s) = (s \<noteq> [])"
| "js_truthy (Array vs) = True"
| "js_truthy (Object es) = True"

text \<open>An object literal that goes through \<open>JSON.stringify\<close>: properties that are \<open>undefined\<close> are left out, \<open>NaN\<close> becomes \<open>null\<close>.\<close>

definition json_body :: "(string \<times> js) list \<Rightarrow> js" where
  "json_body es = Object (map (\<lambda>(k, v). (k, if v = NaN then Null else v)) (filter (\<lambda>(k, v). v \<noteq> Undefined) es))"

text \<open>\<open>xs[0]\<close>.\<close>

definition first_of :: "'a list \<Rightarrow> 'a option" where
  "first_of xs = (case xs of [] \<Rightarrow> None | x # _ \<Rightarrow> Some x)"

section \<open>Forms\<close>

datatype form_value = Form_Text string | Form_File uploaded_file

type_synonym form = "(string \<times> form_value) list"

text \<open>\<open>FormData.get\<close> and, for fields of text, \<open>data.get(name)\<close> as a value of a body.\<close>

definition form_get :: "string \<Rightarrow> form \<Rightarrow> js" where
  "form_get name form =
     (case map_of form name of
        None \<Rightarrow> Null
      | Some (Form_Text s) \<Rightarrow> Text s
      | Some (Form_File f) \<Rightarrow> Object [])"

section \<open>Requests and programs\<close>

datatype web_body = No_Body | Json_Body js | Form_Body form

record web_init =
  in_method :: "string option"
  in_headers :: "(string \<times> string) list"
  in_body :: web_body

record web_request =
  wr_url :: string
  wr_method :: string
  wr_headers :: "(string \<times> string) list"
  wr_body :: web_body

text \<open>A response has a status and, when its body is JSON, a value.\<close>

record web_response =
  ws_status :: nat
  ws_json :: "js option"

text \<open>
  What a program asks for: a fetch with the credentials of the browser, a passkey ceremony of
  \<open>@simplewebauthn/browser\<close>, the cookies a script can see, a random identifier; and what it does to
  the page: setting state, going to another page, resetting the form of its event.
\<close>

datatype ceremony = Start_Registration | Start_Authentication

datatype ('p, 'a) program =
    Return 'a
  | Throw thrown
  | Fetch web_request "thrown + web_response \<Rightarrow> ('p, 'a) program"
  | Passkey ceremony js "thrown + js \<Rightarrow> ('p, 'a) program"
  | Read_Cookies "string option \<Rightarrow> ('p, 'a) program"
  | Random_UUID "string \<Rightarrow> ('p, 'a) program"
  | Set_State "'p \<Rightarrow> 'p" "('p, 'a) program"
  | Go_To string "('p, 'a) program"
  | Reset_Form "('p, 'a) program"

primrec and_then :: "('p, 'a) program \<Rightarrow> ('a \<Rightarrow> ('p, 'b) program) \<Rightarrow> ('p, 'b) program" where
  "and_then (Return x) f = f x"
| "and_then (Throw e) f = Throw e"
| "and_then (Fetch rq k) f = Fetch rq (\<lambda>r. and_then (k r) f)"
| "and_then (Passkey c v k) f = Passkey c v (\<lambda>r. and_then (k r) f)"
| "and_then (Read_Cookies k) f = Read_Cookies (\<lambda>r. and_then (k r) f)"
| "and_then (Random_UUID k) f = Random_UUID (\<lambda>r. and_then (k r) f)"
| "and_then (Set_State g m) f = Set_State g (and_then m f)"
| "and_then (Go_To url m) f = Go_To url (and_then m f)"
| "and_then (Reset_Form m) f = Reset_Form (and_then m f)"

text \<open>The outcome of a program as a value, and \<open>try\<close> with \<open>catch\<close> and \<open>finally\<close>.\<close>

primrec attempt :: "('p, 'a) program \<Rightarrow> ('p, thrown + 'a) program" where
  "attempt (Return x) = Return (Inr x)"
| "attempt (Throw e) = Return (Inl e)"
| "attempt (Fetch rq k) = Fetch rq (\<lambda>r. attempt (k r))"
| "attempt (Passkey c v k) = Passkey c v (\<lambda>r. attempt (k r))"
| "attempt (Read_Cookies k) = Read_Cookies (\<lambda>r. attempt (k r))"
| "attempt (Random_UUID k) = Random_UUID (\<lambda>r. attempt (k r))"
| "attempt (Set_State g m) = Set_State g (attempt m)"
| "attempt (Go_To url m) = Go_To url (attempt m)"
| "attempt (Reset_Form m) = Reset_Form (attempt m)"

definition lift_outcome :: "thrown + 'a \<Rightarrow> ('p, 'a) program" where
  "lift_outcome r = (case r of Inl e \<Rightarrow> Throw e | Inr x \<Rightarrow> Return x)"

definition catch :: "('p, 'a) program \<Rightarrow> (thrown \<Rightarrow> ('p, 'a) program) \<Rightarrow> ('p, 'a) program" where
  "catch m h = and_then (attempt m) (\<lambda>r. case r of Inl e \<Rightarrow> h e | Inr x \<Rightarrow> Return x)"

definition finally_do :: "('p, 'a) program \<Rightarrow> ('p, unit) program \<Rightarrow> ('p, 'a) program" where
  "finally_do m g = and_then (attempt m) (\<lambda>r. and_then g (\<lambda>_. lift_outcome r))"

text \<open>\<open>reason instanceof Error ? reason.message : fallback\<close>.\<close>

fun message_of :: "string \<Rightarrow> thrown \<Rightarrow> string" where
  "message_of fallback (Js_Error m) = m"
| "message_of fallback Not_An_Error = fallback"

text \<open>
  A handler that touches \<open>event.currentTarget\<close> after an \<open>await\<close>.  While an event is dispatched the
  property is the form; what it is afterwards is a matter of DOM and React, who set it to null:
  \<open>kept\<close> says whether it is still the form.
\<close>

definition reset_current_target :: "bool \<Rightarrow> ('p, unit) program" where
  "reset_current_target kept =
     (if kept then Reset_Form (Return ()) else Throw (read_of ''null'' ''reset''))"

section \<open>\<open>lib/api.ts\<close>\<close>

record web_config =
  wc_apiUrl :: "string option"

definition API_URL :: "web_config \<Rightarrow> string" where
  "API_URL conf = (case wc_apiUrl conf of None \<Rightarrow> ''http://localhost:3001/api/v1'' | Some u \<Rightarrow> u)"

definition apiUrl :: "web_config \<Rightarrow> string \<Rightarrow> string" where
  "apiUrl conf path = API_URL conf @ path"

text \<open>
  The first cookie with one of the names, in the order of \<open>document.cookie\<close>; \<open>split\<close> at the equals
  signs and \<open>join\<close> of the rest keep everything behind the first one.  A malformed escape throws.
\<close>

fun first_cookie :: "string list \<Rightarrow> string list \<Rightarrow> thrown + string option" where
  "first_cookie names [] = Inr None"
| "first_cookie names (part # parts) =
     (let item = js_trim part; name = takeWhile (\<lambda>c. c \<noteq> CHR ''='') item in
      if name \<noteq> [] \<and> name \<in> set names then
        (case decodeURIComponent (drop (length name + 1) item) of
           None \<Rightarrow> Inl (Js_Error ''URI malformed'')
         | Some v \<Rightarrow> Inr (Some v))
      else first_cookie names parts)"

definition readCookie :: "string list \<Rightarrow> string option \<Rightarrow> thrown + string option" where
  "readCookie names cookies =
     (case cookies of None \<Rightarrow> Inr None | Some s \<Rightarrow> first_cookie names (split_on (CHR '';'') s))"

text \<open>The names of headers do not distinguish case; \<open>set\<close> replaces.\<close>

definition has_header :: "string \<Rightarrow> (string \<times> string) list \<Rightarrow> bool" where
  "has_header name hs \<longleftrightarrow> list_ex (\<lambda>(n, _). js_lower n = js_lower name) hs"

definition set_header :: "string \<Rightarrow> string \<Rightarrow> (string \<times> string) list \<Rightarrow> (string \<times> string) list" where
  "set_header name v hs = filter (\<lambda>(n, _). js_lower n \<noteq> js_lower name) hs @ [(name, v)]"

fun sends_json :: "web_body \<Rightarrow> bool" where
  "sends_json (Json_Body _) = True"
| "sends_json _ = False"

definition api_call_of :: "web_config \<Rightarrow> string \<Rightarrow> web_init \<Rightarrow> string option \<Rightarrow> web_request" where
  "api_call_of conf path init csrfToken =
     (let verb = js_upper (case in_method init of None \<Rightarrow> ''GET'' | Some m \<Rightarrow> m);
          headers = in_headers init;
          headers = (if sends_json (in_body init) \<and> \<not> has_header ''Content-Type'' headers
                     then set_header ''Content-Type'' ''application/json'' headers else headers);
          headers = (if verb \<notin> set [''GET'', ''HEAD'', ''OPTIONS''] \<and> truthy csrfToken
                     then set_header ''X-CSRF-Token'' (the csrfToken) headers else headers)
      in \<lparr>wr_url = apiUrl conf path, wr_method = (case in_method init of None \<Rightarrow> ''GET'' | Some m \<Rightarrow> m),
          wr_headers = headers, wr_body = in_body init\<rparr>)"

text \<open>\<open>problem.title ?? problem.message ?? ...\<close>; a body that is not JSON counts as an empty problem.\<close>

definition problem_message :: "web_response \<Rightarrow> thrown" where
  "problem_message response =
     (let problem = (case ws_json response of None \<Rightarrow> Object [] | Some v \<Rightarrow> v) in
      case get_prop ''title'' problem of
        Inl e \<Rightarrow> e
      | Inr title \<Rightarrow>
      if \<not> nullish title then Js_Error (js_string title) else
      case get_prop ''message'' problem of
        Inl e \<Rightarrow> e
      | Inr message \<Rightarrow>
      if \<not> nullish message then Js_Error (js_string message)
      else Js_Error (''Request failed ('' @ show_nat (ws_status response) @ '')''))"

definition response_ok :: "web_response \<Rightarrow> bool" where
  "response_ok response \<longleftrightarrow> 200 \<le> ws_status response \<and> ws_status response \<le> 299"

definition read_response :: "web_response \<Rightarrow> ('p, js) program" where
  "read_response response =
     (if \<not> response_ok response then Throw (problem_message response)
      else case ws_json response of
             None \<Rightarrow> Throw (Js_Error ''Unexpected token in JSON'')
           | Some v \<Rightarrow> Return v)"

definition post :: web_init where
  "post = \<lparr>in_method = Some ''POST'', in_headers = [], in_body = No_Body\<rparr>"

text \<open>
  The repetition after a refresh is returned without \<open>await\<close>: when it throws, the \<open>catch\<close> around it
  does not see it.
\<close>

function apiRequest :: "web_config \<Rightarrow> string \<Rightarrow> web_init \<Rightarrow> bool \<Rightarrow> ('p, js) program" where
  "apiRequest conf path init allowRefresh =
     Read_Cookies (\<lambda>cookies.
       case readCookie [''bt_csrf'', ''__Host-bt_csrf''] cookies of
         Inl e \<Rightarrow> Throw e
       | Inr csrfToken \<Rightarrow>
       Fetch (api_call_of conf path init csrfToken) (\<lambda>outcome.
         case outcome of
           Inl e \<Rightarrow> Throw e
         | Inr response \<Rightarrow>
             if ws_status response = 401 \<and> allowRefresh \<and> path \<noteq> ''/auth/refresh'' then
               and_then (attempt (apiRequest conf ''/auth/refresh'' post False)) (\<lambda>refreshed.
                 case refreshed of
                   Inr _ \<Rightarrow> apiRequest conf path init False
                 | Inl _ \<Rightarrow> read_response response)
             else read_response response))"
  by pat_completeness auto
termination
  by (relation "measure (\<lambda>(conf, path, init, allowRefresh). if allowRefresh then 1 else 0)") auto

declare apiRequest.simps [simp del]

end
