(* ===== verification/Web_Requests.thy ===== *)
theory Web_Requests
  imports Web_Program
begin

text \<open>
  What a program of the web application does.  \<open>execute\<close> runs it against surroundings and logs every
  request with its answer; \<open>requests_of\<close> is the set of all requests it could send, whatever the answers.
\<close>

section \<open>Execution\<close>

text \<open>Surroundings with a state of their own: the network, the authenticator, the cookies, the random source.\<close>

record 'w surroundings =
  do_fetch :: "web_request \<Rightarrow> 'w \<Rightarrow> (thrown + web_response) \<times> 'w"
  do_passkey :: "ceremony \<Rightarrow> js \<Rightarrow> 'w \<Rightarrow> (thrown + js) \<times> 'w"
  do_cookies :: "'w \<Rightarrow> string option"
  do_uuid :: "'w \<Rightarrow> string \<times> 'w"

type_synonym log = "(web_request \<times> (thrown + web_response)) list"

record ('p, 'w) situation =
  at_page :: 'p
  at_world :: 'w
  at_log :: log
  at_urls :: "string list"
  at_resets :: nat

primrec execute ::
  "'w surroundings \<Rightarrow> ('p, 'a) program \<Rightarrow> ('p, 'w) situation \<Rightarrow> (thrown + 'a) \<times> ('p, 'w) situation" where
  "execute ops (Return x) s = (Inr x, s)"
| "execute ops (Throw e) s = (Inl e, s)"
| "execute ops (Fetch rq k) s =
     (let (r, w) = do_fetch ops rq (at_world s)
      in execute ops (k r) (s\<lparr>at_world := w, at_log := at_log s @ [(rq, r)]\<rparr>))"
| "execute ops (Passkey c v k) s =
     (let (r, w) = do_passkey ops c v (at_world s) in execute ops (k r) (s\<lparr>at_world := w\<rparr>))"
| "execute ops (Read_Cookies k) s = execute ops (k (do_cookies ops (at_world s))) s"
| "execute ops (Random_UUID k) s =
     (let (u, w) = do_uuid ops (at_world s) in execute ops (k u) (s\<lparr>at_world := w\<rparr>))"
| "execute ops (Set_State f m) s = execute ops m (s\<lparr>at_page := f (at_page s)\<rparr>)"
| "execute ops (Go_To url m) s = execute ops m (s\<lparr>at_urls := at_urls s @ [url]\<rparr>)"
| "execute ops (Reset_Form m) s = execute ops m (s\<lparr>at_resets := at_resets s + 1\<rparr>)"

text \<open>Running a composition is running its parts, and an attempt never throws.\<close>

lemma execute_and_then [simp]:
  "execute ops (and_then m f) s =
     (case execute ops m s of (Inl e, s') \<Rightarrow> (Inl e, s') | (Inr x, s') \<Rightarrow> execute ops (f x) s')"
  by (induction m arbitrary: s) (auto simp: Let_def split: prod.splits)

lemma execute_attempt [simp]:
  "execute ops (attempt m) s = (case execute ops m s of (r, s') \<Rightarrow> (Inr r, s'))"
  by (induction m arbitrary: s) (auto simp: Let_def split: prod.splits)

lemma execute_lift_outcome [simp]: "execute ops (lift_outcome r) s = (r, s)"
  by (auto simp: lift_outcome_def split: sum.split)

lemma execute_catch [simp]:
  "execute ops (catch m h) s =
     (case execute ops m s of (Inl e, s') \<Rightarrow> execute ops (h e) s' | (Inr x, s') \<Rightarrow> (Inr x, s'))"
  by (auto simp: catch_def split: prod.split sum.split)

lemma execute_finally_do [simp]:
  "execute ops (finally_do m g) s =
     (case execute ops m s of (r, s') \<Rightarrow>
       (case execute ops g s' of (Inl e, s'') \<Rightarrow> (Inl e, s'') | (Inr u, s'') \<Rightarrow> (r, s'')))"
  by (auto simp: finally_do_def split: prod.split sum.split)

lemma execute_read_response [simp]:
  "execute ops (read_response response) s =
     (if response_ok response then
        (case ws_json response of None \<Rightarrow> (Inl (Js_Error ''Unexpected token in JSON''), s) | Some v \<Rightarrow> (Inr v, s))
      else (Inl (problem_message response), s))"
  by (auto simp: read_response_def split: option.split)

section \<open>Every request a program could send\<close>

primrec requests_of :: "('p, 'a) program \<Rightarrow> web_request set" where
  "requests_of (Return x) = {}"
| "requests_of (Throw e) = {}"
| "requests_of (Fetch rq k) = insert rq (\<Union>r. requests_of (k r))"
| "requests_of (Passkey c v k) = (\<Union>r. requests_of (k r))"
| "requests_of (Read_Cookies k) = (\<Union>r. requests_of (k r))"
| "requests_of (Random_UUID k) = (\<Union>r. requests_of (k r))"
| "requests_of (Set_State f m) = requests_of m"
| "requests_of (Go_To url m) = requests_of m"
| "requests_of (Reset_Form m) = requests_of m"

text \<open>A property of all requests of a program follows its composition.\<close>

definition sends_only :: "(web_request \<Rightarrow> bool) \<Rightarrow> ('p, 'a) program \<Rightarrow> bool" where
  "sends_only P m \<longleftrightarrow> (\<forall>rq \<in> requests_of m. P rq)"

named_theorems sends \<open>what programs send\<close>

lemma sends_only_simps [simp]:
  "sends_only P (Return x)" "sends_only P (Throw e)"
  "sends_only P (Fetch rq k) \<longleftrightarrow> P rq \<and> (\<forall>r. sends_only P (k r))"
  "sends_only P (Passkey c v k') \<longleftrightarrow> (\<forall>r. sends_only P (k' r))"
  "sends_only P (Read_Cookies l) \<longleftrightarrow> (\<forall>r. sends_only P (l r))"
  "sends_only P (Random_UUID l') \<longleftrightarrow> (\<forall>r. sends_only P (l' r))"
  "sends_only P (Set_State f m) \<longleftrightarrow> sends_only P m"
  "sends_only P (Go_To url m) \<longleftrightarrow> sends_only P m"
  "sends_only P (Reset_Form m) \<longleftrightarrow> sends_only P m"
  by (auto simp: sends_only_def)

lemma sends_and_then [sends]:
  "sends_only P m \<Longrightarrow> (\<And>x. sends_only P (f x)) \<Longrightarrow> sends_only P (and_then m f)"
  by (induction m) auto

lemma sends_attempt [simp]: "sends_only P (attempt m) \<longleftrightarrow> sends_only P m"
  by (induction m) auto

lemma sends_lift_outcome [simp]: "sends_only P (lift_outcome r)"
  by (simp add: lift_outcome_def split: sum.split)

lemma sends_catch [sends]:
  "sends_only P m \<Longrightarrow> (\<And>e. sends_only P (h e)) \<Longrightarrow> sends_only P (catch m h)"
  unfolding catch_def by (rule sends_and_then) (auto split: sum.split)

lemma sends_finally_do [sends]:
  "sends_only P m \<Longrightarrow> sends_only P g \<Longrightarrow> sends_only P (finally_do m g)"
  unfolding finally_do_def by (intro sends_and_then) auto

lemma sends_read_response [simp]: "sends_only P (read_response r)"
  by (simp add: read_response_def split: option.split)

lemma sends_reset [simp]: "sends_only P (reset_current_target kept)"
  by (simp add: reset_current_target_def)

text \<open>A call of the API sends its request and refreshes, nothing else.\<close>

definition refresh_call :: "web_config \<Rightarrow> string option \<Rightarrow> web_request" where
  "refresh_call conf csrf = api_call_of conf ''/auth/refresh'' post csrf"

lemma sends_apiRequest [sends]:
  assumes "\<And>csrf. P (api_call_of conf path init csrf)" and "\<And>csrf. P (refresh_call conf csrf)"
  shows "sends_only P (apiRequest conf path init allow)"
proof -
  have once: "sends_only P (apiRequest conf p i False)" if "\<And>csrf. P (api_call_of conf p i csrf)" for p i
    by (subst apiRequest.simps) (auto simp: that split: sum.split)
  show ?thesis
    using once [OF assms(1)] once [of "''/auth/refresh''" post, OF assms(2) [unfolded refresh_call_def]]
    by (subst apiRequest.simps) (auto intro!: sends_and_then simp: assms(1) split: sum.split)
qed

section \<open>What \<open>apiRequest\<close> logs\<close>

text \<open>One exchange, or the same after a refresh that succeeded.\<close>

definition asks_once :: "web_config \<Rightarrow> string \<Rightarrow> web_init \<Rightarrow> log \<Rightarrow> bool" where
  "asks_once conf path init l \<longleftrightarrow> l = [] \<or> (\<exists>csrf r. l = [(api_call_of conf path init csrf, r)])"

lemma execute_once:
  assumes "execute ops (apiRequest conf path init False) s = (r, s')"
  shows "\<exists>l. at_log s' = at_log s @ l \<and> asks_once conf path init l \<and>
     (\<forall>x. r = Inr x \<longrightarrow> (\<exists>csrf response. l = [(api_call_of conf path init csrf, Inr response)] \<and> response_ok response))"
  using assms
  by (subst (asm) apiRequest.simps)
    (auto simp: asks_once_def Let_def split: sum.splits prod.splits if_splits option.splits)

end
