(* ===== verification/Web_Server.thy ===== *)
theory Web_Server
  imports Web_Program Gateway Browser
begin

text \<open>
  Between the programs of the browser and \<open>serve\<close>: the router, made of the paths in the decorators of
  the controllers; the request as the guards see it, with the cookies of the browser; the response, and
  the cookies it leaves behind.  How the framework reads a body or a query into a data transfer object,
  and writes a reply as JSON, are the fields of \<open>codec\<close>; the reply of \<open>/auth/me\<close> is written out.
\<close>

section \<open>Codecs of the framework\<close>

record codec =
  rd_onboard :: "js \<Rightarrow> onboard_dto option"
  rd_login :: "js \<Rightarrow> login_dto option"
  rd_registration :: "js \<Rightarrow> (assertion \<times> string option) option"
  rd_assertion :: "js \<Rightarrow> assertion option"
  rd_draft :: "js \<Rightarrow> update_invoice_dto option"
  rd_version :: "js \<Rightarrow> nat option"
  rd_decision :: "js \<Rightarrow> approval_decision_dto option"
  rd_policy :: "js \<Rightarrow> update_policy_dto option"
  rd_building :: "js \<Rightarrow> create_building_dto option"
  rd_edit_building :: "js \<Rightarrow> update_building_dto option"
  rd_apartment :: "js \<Rightarrow> (string \<times> string option) option"
  rd_access :: "js \<Rightarrow> (uuid \<times> time option) option"
  rd_occupancy :: "js \<Rightarrow> (uuid \<times> time \<times> time option) option"
  rd_vendor :: "js \<Rightarrow> create_vendor_dto option"
  rd_edit_vendor :: "js \<Rightarrow> update_vendor_dto option"
  rd_contact :: "js \<Rightarrow> contact_dto option"
  rd_bank :: "js \<Rightarrow> (string \<times> plain_account) option"
  rd_verification :: "js \<Rightarrow> (bank_status \<times> string option \<times> string option) option"
  rd_reveal :: "js \<Rightarrow> string option"
  rd_contract :: "js \<Rightarrow> create_contract_dto option"
  rd_edit_contract :: "js \<Rightarrow> update_contract_dto option"
  rd_webhook :: "js \<Rightarrow> fake_bank_payload option"
  rd_page :: "string \<Rightarrow> page_query option"
  rd_vendors :: "string \<Rightarrow> vendor_query option"
  rd_contracts :: "string \<Rightarrow> contract_query option"
  rd_audit :: "string \<Rightarrow> audit_query option"
  rd_token :: "string \<Rightarrow> string option"
  wr_reply :: "api_reply \<Rightarrow> js"
  wr_problem :: "failure \<Rightarrow> js"

section \<open>The router\<close>

text \<open>The body of a request as JSON; a request without one has the empty object.\<close>

definition body_of :: "web_request \<Rightarrow> js" where
  "body_of rq = (case wr_body rq of Json_Body v \<Rightarrow> v | _ \<Rightarrow> Object [])"

definition header_of :: "string \<Rightarrow> web_request \<Rightarrow> string option" where
  "header_of name rq = map_option snd (find (\<lambda>(n, _). js_lower n = js_lower name) (wr_headers rq))"

definition form_text :: "string \<Rightarrow> web_request \<Rightarrow> string option" where
  "form_text name rq =
     (case wr_body rq of
        Form_Body filled \<Rightarrow> (case map_of filled name of Some (Form_Text s) \<Rightarrow> Some s | _ \<Rightarrow> None)
      | _ \<Rightarrow> None)"

definition form_file :: "string \<Rightarrow> web_request \<Rightarrow> uploaded_file option" where
  "form_file name rq =
     (case wr_body rq of
        Form_Body filled \<Rightarrow> (case map_of filled name of Some (Form_File f) \<Rightarrow> Some f | _ \<Rightarrow> None)
      | _ \<Rightarrow> None)"

definition query_of :: "web_request \<Rightarrow> string" where
  "query_of rq = drop 1 (dropWhile (\<lambda>c. c \<noteq> CHR ''?'') (wr_url rq))"

text \<open>The segments of the path behind the prefix \<open>api/v1\<close> of \<open>main.ts\<close>.\<close>

definition segments_of :: "web_config \<Rightarrow> web_request \<Rightarrow> string list" where
  "segments_of conf rq =
     split_on (CHR ''/'') (takeWhile (\<lambda>c. c \<noteq> CHR ''?'') (drop (length (API_URL conf) + 1) (wr_url rq)))"

text \<open>A segment of a template that begins with a colon takes any segment and is a parameter.\<close>

fun match_path :: "string list \<Rightarrow> string list \<Rightarrow> string list option" where
  "match_path [] [] = Some []"
| "match_path (t # ts) (s # ss) =
     (if t \<noteq> [] \<and> hd t = CHR '':'' then (if s = [] then None else map_option ((#) s) (match_path ts ss))
      else if t = s then match_path ts ss else None)"
| "match_path _ _ = None"

type_synonym endpoint = "string \<times> string \<times> (string list \<Rightarrow> api_call option)"

definition auth_endpoints :: "codec \<Rightarrow> web_request \<Rightarrow> endpoint list" where
  "auth_endpoints cd rq = map (\<lambda>(verb, path, f). (verb, ''auth'' @ path, \<lambda>_. map_option Auth_Call f))
     [(''POST'', ''/onboard'', map_option Onboard (rd_onboard cd (body_of rq))),
      (''POST'', ''/login'', map_option Login (rd_login cd (body_of rq))),
      (''POST'', ''/refresh'', Some Refresh),
      (''POST'', ''/logout'', Some Logout),
      (''POST'', ''/logout-all'', Some Logout_All),
      (''GET'', ''/me'', Some Me),
      (''POST'', ''/passkeys/registration/options'', Some Registration_Options),
      (''POST'', ''/passkeys/registration/verify'',
         map_option (\<lambda>(x, name). Verify_Registration x name) (rd_registration cd (body_of rq))),
      (''POST'', ''/step-up/options'', Some Step_Up_Options),
      (''POST'', ''/step-up/verify'', map_option Verify_Step_Up (rd_assertion cd (body_of rq)))]"

definition organizations_endpoints :: "endpoint list" where
  "organizations_endpoints =
     [(''GET'', ''organizations/:organizationId'', \<lambda>_. Some (Organizations_Call Get_Organization)),
      (''GET'', ''organizations/:organizationId/members'', \<lambda>_. Some (Organizations_Call List_Members))]"

definition approvals_endpoints :: "codec \<Rightarrow> web_request \<Rightarrow> endpoint list" where
  "approvals_endpoints cd rq =
     map (\<lambda>(verb, path, f). (verb, ''organizations/:organizationId'' @ path, \<lambda>ps. map_option Approvals_Call (f ps)))
     [(''GET'', ''/approval-requests'', \<lambda>_. Some List_Requests),
      (''GET'', ''/approval-requests/:requestId'', \<lambda>ps. Some (Get_Request (ps ! 1))),
      (''POST'', ''/approval-requests/:requestId/decisions'',
         \<lambda>ps. map_option (Decide (ps ! 1) (header_of ''idempotency-key'' rq)) (rd_decision cd (body_of rq))),
      (''GET'', ''/risk-policy'', \<lambda>_. Some Get_Policy),
      (''PATCH'', ''/risk-policy'', \<lambda>_. map_option Update_Policy (rd_policy cd (body_of rq)))]"

definition invoices_endpoints :: "codec \<Rightarrow> web_request \<Rightarrow> endpoint list" where
  "invoices_endpoints cd rq =
     map (\<lambda>(verb, path, f). (verb, ''organizations/:organizationId/invoices'' @ path, \<lambda>ps. map_option Invoices_Call (f ps)))
     [(''GET'', '''', \<lambda>_. Some List_Invoices),
      (''GET'', ''/:invoiceId'', \<lambda>ps. Some (Get_Invoice (ps ! 1))),
      (''POST'', ''/uploads'', \<lambda>_. Some (Upload (form_text ''vendorId'' rq) (form_text ''contractId'' rq)
         (form_file ''document'' rq))),
      (''PATCH'', ''/:invoiceId/draft'', \<lambda>ps. map_option (Update_Draft (ps ! 1)) (rd_draft cd (body_of rq))),
      (''POST'', ''/:invoiceId/submit'',
         \<lambda>ps. map_option (Submit (ps ! 1) (header_of ''idempotency-key'' rq)) (rd_version cd (body_of rq))),
      (''POST'', ''/documents/:documentId/download-authorizations'', \<lambda>ps. Some (Issue_Download (ps ! 1))),
      (''GET'', ''/documents/:documentId/content'', \<lambda>ps. Some (Download (ps ! 1) (rd_token cd (query_of rq))))]"

definition buildings_endpoints :: "codec \<Rightarrow> web_request \<Rightarrow> endpoint list" where
  "buildings_endpoints cd rq =
     map (\<lambda>(verb, path, f). (verb, ''organizations/:organizationId/crm'' @ path, \<lambda>ps. map_option Buildings_Call (f ps)))
     [(''GET'', ''/buildings'', \<lambda>_. map_option List_Buildings (rd_page cd (query_of rq))),
      (''GET'', ''/residents'', \<lambda>_. Some List_Residents),
      (''GET'', ''/buildings/:buildingId'', \<lambda>ps. Some (Get_Building (ps ! 1))),
      (''POST'', ''/buildings'', \<lambda>_. map_option Create_Building (rd_building cd (body_of rq))),
      (''PATCH'', ''/buildings/:buildingId'',
         \<lambda>ps. map_option (Update_Building (ps ! 1) (header_of ''if-match'' rq)) (rd_edit_building cd (body_of rq))),
      (''POST'', ''/buildings/:buildingId/apartments'',
         \<lambda>ps. map_option (\<lambda>(unit, flr). Add_Apartment (ps ! 1) unit flr) (rd_apartment cd (body_of rq))),
      (''POST'', ''/buildings/:buildingId/access'',
         \<lambda>ps. map_option (\<lambda>(mid, until). Grant_Access (ps ! 1) mid until) (rd_access cd (body_of rq))),
      (''POST'', ''/apartments/:apartmentId/occupancies'',
         \<lambda>ps. map_option (\<lambda>(mid, starts, ends). Add_Occupancy (ps ! 1) mid starts ends) (rd_occupancy cd (body_of rq)))]"

definition vendors_endpoints :: "codec \<Rightarrow> web_request \<Rightarrow> endpoint list" where
  "vendors_endpoints cd rq =
     map (\<lambda>(verb, path, f). (verb, ''organizations/:organizationId/crm/vendors'' @ path, \<lambda>ps. map_option Vendors_Call (f ps)))
     [(''GET'', '''', \<lambda>_. map_option List_Vendors (rd_vendors cd (query_of rq))),
      (''GET'', ''/:vendorId'', \<lambda>ps. Some (Get_Vendor (ps ! 1))),
      (''POST'', '''', \<lambda>_. map_option Create_Vendor (rd_vendor cd (body_of rq))),
      (''PATCH'', ''/:vendorId'',
         \<lambda>ps. map_option (Update_Vendor (ps ! 1) (header_of ''if-match'' rq)) (rd_edit_vendor cd (body_of rq))),
      (''POST'', ''/:vendorId/contacts'', \<lambda>ps. map_option (Add_Contact (ps ! 1)) (rd_contact cd (body_of rq))),
      (''GET'', ''/:vendorId/bank-accounts'', \<lambda>ps. Some (Bank_History (ps ! 1))),
      (''POST'', ''/:vendorId/bank-accounts'',
         \<lambda>ps. map_option (\<lambda>(country, acc). Add_Bank_Version (ps ! 1) country acc) (rd_bank cd (body_of rq))),
      (''POST'', ''/:vendorId/bank-accounts/:bankVersionId/verifications'',
         \<lambda>ps. map_option (\<lambda>(st, ev, rs). Verify_Bank_Version (ps ! 1) (ps ! 2) st ev rs) (rd_verification cd (body_of rq))),
      (''POST'', ''/:vendorId/bank-accounts/:bankVersionId/reveal'',
         \<lambda>ps. map_option (Reveal_Bank_Version (ps ! 1) (ps ! 2)) (rd_reveal cd (body_of rq)))]"

definition contracts_endpoints :: "codec \<Rightarrow> web_request \<Rightarrow> endpoint list" where
  "contracts_endpoints cd rq =
     map (\<lambda>(verb, path, f). (verb, ''organizations/:organizationId/crm/contracts'' @ path, \<lambda>ps. map_option Contracts_Call (f ps)))
     [(''GET'', '''', \<lambda>_. map_option List_Contracts (rd_contracts cd (query_of rq))),
      (''GET'', ''/:contractId'', \<lambda>ps. Some (Get_Contract (ps ! 1))),
      (''POST'', '''', \<lambda>_. map_option Create_Contract (rd_contract cd (body_of rq))),
      (''PATCH'', ''/:contractId'',
         \<lambda>ps. map_option (Update_Contract (ps ! 1) (header_of ''if-match'' rq)) (rd_edit_contract cd (body_of rq)))]"

definition dashboard_endpoints :: "codec \<Rightarrow> web_request \<Rightarrow> endpoint list" where
  "dashboard_endpoints cd rq =
     [(''GET'', ''organizations/:organizationId/crm/dashboard'', \<lambda>_. Some (Dashboard_Call Get_Dashboard)),
      (''GET'', ''organizations/:organizationId/crm/audit-events'',
         \<lambda>_. map_option (\<lambda>q. Dashboard_Call (Audit_Events q)) (rd_audit cd (query_of rq)))]"

definition public_endpoints :: "codec \<Rightarrow> web_request \<Rightarrow> endpoint list" where
  "public_endpoints cd rq =
     [(''POST'', ''integrations/fake-bank/webhooks'',
         \<lambda>_. map_option (\<lambda>p. Public_Call (Webhook p (header_of ''x-fake-bank-timestamp'' rq)
           (header_of ''x-fake-bank-signature'' rq))) (rd_webhook cd (body_of rq))),
      (''GET'', ''health/live'', \<lambda>_. Some (Public_Call Live)),
      (''GET'', ''health/ready'', \<lambda>_. Some (Public_Call Ready)),
      (''GET'', ''version'', \<lambda>_. Some (Public_Call Version))]"

definition endpoints :: "codec \<Rightarrow> web_request \<Rightarrow> endpoint list" where
  "endpoints cd rq =
     auth_endpoints cd rq @ organizations_endpoints @ approvals_endpoints cd rq @ invoices_endpoints cd rq @
     buildings_endpoints cd rq @ vendors_endpoints cd rq @ contracts_endpoints cd rq @ dashboard_endpoints cd rq @
     public_endpoints cd rq"

text \<open>The first endpoint with the verb whose template matches; its parameters and its call.\<close>

fun first_match :: "string \<Rightarrow> string list \<Rightarrow> endpoint list \<Rightarrow> (string list \<times> api_call option) option" where
  "first_match verb segs [] = None"
| "first_match verb segs ((v, path, f) # es) =
     (case (if v = verb then match_path (split_on (CHR ''/'') path) segs else None) of
        None \<Rightarrow> first_match verb segs es
      | Some ps \<Rightarrow> Some (ps, f ps))"

definition routed :: "web_config \<Rightarrow> codec \<Rightarrow> web_request \<Rightarrow> (string list \<times> api_call option) option" where
  "routed conf cd rq = first_match (wr_method rq) (segments_of conf rq) (endpoints cd rq)"

section \<open>The browser's side of a request\<close>

record browser =
  br_origin :: "string option"
  br_userAgent :: "string option"
  br_ip :: "string option"

text \<open>
  The cookies a browser keeps are the last call for each name, in the order in which they were set; an
  expired one is gone.  A script sees those that are not \<open>HttpOnly\<close>.
\<close>

type_synonym jar = "cookie_call list"

fun live_cookie :: "time \<Rightarrow> cookie_call \<Rightarrow> bool" where
  "live_cookie now (Cookie n v expires h s) \<longleftrightarrow> now < expires"
| "live_cookie now (ClearCookie n h s) \<longleftrightarrow> False"

definition keep_cookies :: "cookie_call list \<Rightarrow> jar \<Rightarrow> jar" where
  "keep_cookies cs jar = filter (\<lambda>c. ck_name c \<notin> ck_name ` set cs) jar @ cs"

definition sent_cookies :: "time \<Rightarrow> jar \<Rightarrow> string option" where
  "sent_cookies now jar =
     (let cs = filter (live_cookie now) jar in if cs = [] then None else Some (cookie_header cs))"

definition document_cookie :: "time \<Rightarrow> jar \<Rightarrow> string" where
  "document_cookie now jar = cookie_header (filter (\<lambda>c. live_cookie now c \<and> \<not> ck_httpOnly c) jar)"

definition seen_request :: "browser \<Rightarrow> time \<Rightarrow> jar \<Rightarrow> web_request \<Rightarrow> string option \<Rightarrow> http_request" where
  "seen_request b now jar rq org =
     \<lparr>rq_method = wr_method rq, rq_cookie = sent_cookies now jar, rq_origin = br_origin b,
      rq_csrfToken = (case header_of ''x-csrf-token'' rq of None \<Rightarrow> Missing | Some t \<Rightarrow> Single t),
      rq_userAgent = br_userAgent b, rq_ip = br_ip b, rq_organizationId = org\<rparr>"

section \<open>The response\<close>

fun status_code :: "http_status \<Rightarrow> nat" where
  "status_code BadRequest = 400"
| "status_code Unauthorized = 401"
| "status_code Forbidden = 403"
| "status_code NotFound = 404"
| "status_code Conflict = 409"
| "status_code PayloadTooLarge = 413"
| "status_code UnprocessableEntity = 422"
| "status_code PreconditionRequired = 428"
| "status_code InternalServerError = 500"
| "status_code ServiceUnavailable = 503"

fun failure_code :: "failure \<Rightarrow> nat" where
  "failure_code (Http st code) = status_code st"
| "failure_code _ = 500"

text \<open>The object \<open>AuthService.me\<close> returns, with its keys.\<close>

definition role_name :: "membership_role \<Rightarrow> string" where
  "role_name r =
     (case r of OWNER \<Rightarrow> ''OWNER'' | ADMINISTRATOR \<Rightarrow> ''ADMINISTRATOR'' | ACCOUNTANT \<Rightarrow> ''ACCOUNTANT''
      | RESIDENT \<Rightarrow> ''RESIDENT'' | AUDITOR \<Rightarrow> ''AUDITOR'')"

definition me_json :: "me_view \<Rightarrow> js" where
  "me_json m =
     Object
       [(''user'', Object
           [(''id'', Text (user_id (me_user m))), (''email'', Text (user_email (me_user m))),
            (''displayName'', Text (user_displayName (me_user m)))]),
        (''organization'', Object
           [(''id'', Text (org_id (me_organization m))), (''slug'', Text (org_slug (me_organization m))),
            (''name'', Text (org_name (me_organization m))), (''role'', Text (role_name (me_role m)))]),
        (''session'', Object
           [(''id'', Text (me_sessionId m)),
            (''stepUpVerifiedAt'', case me_stepUp m of None \<Rightarrow> Null | Some t \<Rightarrow> Text t)]),
        (''passkeyCount'', Number (of_nat (me_passkeyCount m)))]"

definition reply_json :: "codec \<Rightarrow> api_reply \<Rightarrow> js" where
  "reply_json cd r = (case r of Auth_Reply (Myself m) \<Rightarrow> me_json m | _ \<Rightarrow> wr_reply cd r)"

fun reply_cookies :: "api_reply \<Rightarrow> cookie_call list" where
  "reply_cookies (Auth_Reply (Signed_In resp cs)) = cs"
| "reply_cookies (Auth_Reply (Refreshed csrf a r cs)) = cs"
| "reply_cookies (Auth_Reply (Logged_Out cs)) = cs"
| "reply_cookies _ = []"

definition response_of :: "codec \<Rightarrow> string \<Rightarrow> failure + api_reply \<Rightarrow> web_response" where
  "response_of cd verb r =
     (case r of
        Inl err \<Rightarrow> \<lparr>ws_status = failure_code err, ws_json = Some (wr_problem cd err)\<rparr>
      | Inr x \<Rightarrow> \<lparr>ws_status = (if verb = ''POST'' then 201 else 200), ws_json = Some (reply_json cd x)\<rparr>)"

definition not_found :: failure where
  "not_found = Http NotFound ''Not Found''"

text \<open>One exchange: the response, the cookies it sets, and the database after it.\<close>

definition exchange ::
  "web_config \<Rightarrow> codec \<Rightarrow> api \<Rightarrow> browser \<Rightarrow> time \<Rightarrow> jar \<Rightarrow> env \<Rightarrow> db \<Rightarrow> env \<Rightarrow> web_request \<Rightarrow> db \<Rightarrow>
     web_response \<times> cookie_call list \<times> db" where
  "exchange conf cd s b now jar ge d0 e rq d =
     (case routed conf cd rq of
        None \<Rightarrow> (response_of cd (wr_method rq) (Inl not_found), [], d)
      | Some (ps, None) \<Rightarrow> (response_of cd (wr_method rq) (Inl bad_request), [], d)
      | Some (ps, Some c) \<Rightarrow>
          (let r = serve s ge d0 e (seen_request b now jar rq (first_of ps)) c d
           in (response_of cd (wr_method rq) (fst r), (case fst r of Inl _ \<Rightarrow> [] | Inr x \<Rightarrow> reply_cookies x), snd r)))"

end
