(* ===== verification/Web_Request_Properties.thy ===== *)
theory Web_Request_Properties
  imports Web_Requests Web_Server Gateway_Properties
begin

text \<open>What one call of \<open>apiRequest\<close> sends, whatever the network answers.\<close>

definition other_headers :: "web_request \<Rightarrow> (string \<times> string) list" where
  "other_headers rq = filter (\<lambda>(n, _). js_lower n \<noteq> js_lower ''X-CSRF-Token'') (wr_headers rq)"

definition same_request :: "web_request \<Rightarrow> web_request \<Rightarrow> bool" where
  "same_request a b \<longleftrightarrow> wr_url a = wr_url b \<and> wr_method a = wr_method b \<and> wr_body a = wr_body b \<and>
     other_headers a = other_headers b"

lemma other_headers_set [simp]:
  "filter (\<lambda>(n, _). js_lower n \<noteq> js_lower name) (set_header name v hs) =
     filter (\<lambda>(n, _). js_lower n \<noteq> js_lower name) hs"
  by (simp add: set_header_def)

lemma api_call_same: "same_request (api_call_of conf path call csrf) (api_call_of conf path call csrf')"
  by (simp add: same_request_def other_headers_def api_call_of_def Let_def)

lemma execute_apiRequest:
  "\<exists>l. at_log (snd (execute ops (apiRequest conf path call True) s)) = at_log s @ l \<and>
     (asks_once conf path call l \<or>
      (\<exists>csrf response more. l = (api_call_of conf path call csrf, Inr response) # more \<and> ws_status response = 401 \<and>
         (asks_once conf ''/auth/refresh'' post more \<or>
          (\<exists>csrf2 response2 again. more = (refresh_call conf csrf2, Inr response2) # again \<and>
             response_ok response2 \<and> asks_once conf path call again))))"
proof (cases "readCookie [''bt_csrf'', ''__Host-bt_csrf''] (do_cookies ops (at_world s))")
  case (Inl e)
  then show ?thesis by (subst apiRequest.simps) (simp add: asks_once_def)
next
  case (Inr csrf)
  let ?rq = "api_call_of conf path call csrf"
  obtain r w where f: "do_fetch ops ?rq (at_world s) = (r, w)" by fastforce
  define s1 where "s1 = s\<lparr>at_world := w, at_log := at_log s @ [(?rq, r)]\<rparr>"
  show ?thesis
  proof (cases "\<exists>response. r = Inr response \<and> ws_status response = 401 \<and> path \<noteq> ''/auth/refresh''")
    case False
    then have "at_log (snd (execute ops (apiRequest conf path call True) s)) = at_log s @ [(?rq, r)]"
      by (subst apiRequest.simps) (auto simp: Inr f Let_def split: sum.split option.split)
    then show ?thesis by (auto simp: asks_once_def)
  next
    case True
    then obtain response where r: "r = Inr response" "ws_status response = 401" "path \<noteq> ''/auth/refresh''" by blast
    obtain r2 s2 where refresh: "execute ops (apiRequest conf ''/auth/refresh'' post False) s1 = (r2, s2)" by fastforce
    have run: "execute ops (apiRequest conf path call True) s =
        (case r2 of Inr _ \<Rightarrow> execute ops (apiRequest conf path call False) s2
         | Inl _ \<Rightarrow> execute ops (read_response response) s2)"
      using refresh
      by (subst apiRequest.simps) (auto simp: Inr f r s1_def Let_def split: sum.split prod.split)
    from execute_once [OF refresh] obtain more where more: "at_log s2 = at_log s1 @ more"
      "asks_once conf ''/auth/refresh'' post more"
      "\<forall>x. r2 = Inr x \<longrightarrow> (\<exists>csrf response. more = [(api_call_of conf ''/auth/refresh'' post csrf, Inr response)] \<and>
         response_ok response)" by (elim exE conjE) (rule that)
    show ?thesis
    proof (cases r2)
      case (Inl e)
      then have "at_log (snd (execute ops (apiRequest conf path call True) s)) = at_log s2"
        using run by (auto split: option.split)
      with more(1,2) r show ?thesis by (auto simp: s1_def)
    next
      case i: (Inr x)
      obtain r3 s3 where again: "execute ops (apiRequest conf path call False) s2 = (r3, s3)" by fastforce
      from execute_once [OF again] obtain l3 where l3: "at_log s3 = at_log s2 @ l3" "asks_once conf path call l3"
        by (elim exE conjE) (rule that)
      from more(3) i obtain csrf2 response2 where m: "more = [(refresh_call conf csrf2, Inr response2)]" "response_ok response2"
        by (auto simp: refresh_call_def)
      have "at_log (snd (execute ops (apiRequest conf path call True) s)) =
          at_log s @ (?rq, Inr response) # (refresh_call conf csrf2, Inr response2) # l3"
        using run i again l3(1) more(1) m(1) r(1) by (simp add: s1_def)
      with r(2) m(2) l3(2) show ?thesis by blast
    qed
  qed
qed

text \<open>
  C19: A request is repeated only after a refusal, and unchanged.  Whatever the network answers, one call of apiRequest sends
  its request once; or, when the first answer is 401, once more after a refresh that succeeded, and then it is the same
  request, with the same Idempotency-Key and body, up to the CSRF token.  It sends nothing else, and it sends nothing
  again after a network error, so a decision or submission whose answer was lost is not repeated by itself.
\<close>

theorem request_repeated_only_after_refusal:
  "(\<exists>l. at_log (snd (execute ops (apiRequest conf path call True) s)) = at_log s @ l \<and>
     (asks_once conf path call l \<or>
      (\<exists>csrf response more. l = (api_call_of conf path call csrf, Inr response) # more \<and> ws_status response = 401 \<and>
         (asks_once conf ''/auth/refresh'' post more \<or>
          (\<exists>csrf2 response2 again. more = (refresh_call conf csrf2, Inr response2) # again \<and>
             response_ok response2 \<and> asks_once conf path call again))))) \<and>
   (\<forall>csrf csrf'. same_request (api_call_of conf path call csrf) (api_call_of conf path call csrf'))"
  by (intro conjI execute_apiRequest allI api_call_same)

section \<open>Two requests that find the access token expired\<close>

text \<open>The refresh goes to the handler of the controller, and what its guards decide depends on the request alone.\<close>

lemma refresh_routed: "routed conf cd (refresh_call conf csrf) = Some ([], Some (Auth_Call Refresh))"
proof -
  have "segments_of conf (refresh_call conf csrf) = [''auth'', ''refresh'']"
    by (simp add: segments_of_def refresh_call_def api_call_of_def apiUrl_def Let_def)
  moreover have "wr_method (refresh_call conf csrf) = ''POST''"
    by (simp add: refresh_call_def api_call_of_def post_def Let_def)
  ultimately show ?thesis by (simp add: routed_def endpoints_def auth_endpoints_def)
qed

lemma refresh_served:
  assumes "serve s ge d0 e rq (Auth_Call Refresh) d = (Inr x, d')"
  obtains tok b where "readCookies rq (refresh_cookie (api_config s)) = Some tok" "tok \<noteq> []"
    "rotate (api_hmac s) (api_sessionKey s) e tok (request_metadata rq) d = (Inr b, d')"
    "x = Auth_Reply (refreshed (api_config s) b)"
    "assertRequest (api_config s) (rq\<lparr>rq_method := ''POST''\<rparr>) = Inr ()"
  using assms
  by (auto simp: serve_def handle_def public_route_def answer_def enter_Inr truthy_def Let_def
      split: sum.splits if_splits prod.splits option.splits)

lemma public_entered:
  assumes "assertRequest conf rq = Inr ()"
  shows "\<exists>auth. enter conf hmac key ge (public_route m) rq d0 = Inr auth"
  using assms
  by (auto simp: enter_Inr sessionAuthGuard_def rolesGuard_def stepUpGuard_def organizationScopeGuard_def public_route_def
      Let_def split: sum.split)

lemma refresh_answer:
  assumes "assertRequest (api_config s) (rq\<lparr>rq_method := ''POST''\<rparr>) = Inr ()"
    and "readCookies rq (refresh_cookie (api_config s)) = Some tok" "tok \<noteq> []"
    and "rotate (api_hmac s) (api_sessionKey s) e tok (request_metadata rq) d = (Inl err, d')"
  shows "serve s ge d0 e rq (Auth_Call Refresh) d = (Inl err, d')"
proof -
  obtain auth where "enter (api_config s) (api_hmac s) (api_sessionKey s) ge (public_route ''POST'')
      (rq\<lparr>rq_method := ''POST''\<rparr>) d0 = Inr auth"
    using public_entered [OF assms(1)] by blast
  with assms(2-4) show ?thesis
    by (simp add: serve_def handle_def public_route_def answer_def truthy_def)
qed

text \<open>Once every session of the family is revoked, what the browser holds opens nothing.\<close>

lemma cookies_refused:
  assumes "readCookies rq (access_cookie (api_config s)) = Some token" "readCookies rq (refresh_cookie (api_config s)) = Some tok"
    and "\<exists>err. authenticateAccessToken (api_hmac s) (api_sessionKey s) ge token d0 = Inl err"
    and "\<And>md. \<exists>err d'. rotate (api_hmac s) (api_sessionKey s) e tok md d = (Inl err, d')"
    and "c = Auth_Call Refresh \<or> \<not> rt_public (route_of c)"
  shows "\<exists>err d'. serve s ge d0 e rq c d = (Inl err, d')"
proof (cases "fst (serve s ge d0 e rq c d)")
  case (Inl err)
  then show ?thesis by (metis prod.collapse)
next
  case (Inr x)
  then have x: "serve s ge d0 e rq c d = (Inr x, snd (serve s ge d0 e rq c d))" by (simp add: prod_eq_iff)
  have cookies: "readCookies (rq\<lparr>rq_method := m\<rparr>) = readCookies rq" for m by (rule ext) (simp add: readCookies_def)
  show ?thesis
  proof (cases "c = Auth_Call Refresh")
    case True
    with x obtain md b where "rotate (api_hmac s) (api_sessionKey s) e tok md d = (Inr b, snd (serve s ge d0 e rq c d))"
      using assms(2) refresh_served [of s ge d0 e rq d x] by (metis option.inject)
    with assms(4) [of md] show ?thesis by auto
  next
    case False
    with assms(5) have "\<not> rt_public (route_of c)" by simp
    moreover from x obtain auth where "enter (api_config s) (api_hmac s) (api_sessionKey s) ge (route_of c)
        (rq\<lparr>rq_method := rt_method (route_of c)\<rparr>) d0 = Inr auth"
      by (auto simp: serve_def split: sum.splits)
    ultimately obtain a where "authenticateAccessToken (api_hmac s) (api_sessionKey s) ge token d0 = Inr a"
      using assms(1) by (elim entered_private) (auto simp: cookies)
    with assms(3) show ?thesis by auto
  qed
qed

lemma parallel_refresh:
  assumes "url_digest (api_hmac s)" and "token_text (random_token e 0)" "token_text (random_token e 1)"
    and "sha256 e2 = sha256 e" "sha256 e3 = sha256 e"
    and "serve s ge d0 e rq (Auth_Call Refresh) d = (Inr x, d1)"
  shows "\<exists>d2. serve s ge2 d02 e2 rq (Auth_Call Refresh) d1 = (Inl refresh_reused, d2) \<and>
     (\<forall>rq3 c ge3. rq_cookie rq3 = Some (cookie_header (reply_cookies x)) \<and> (c = Auth_Call Refresh \<or> \<not> rt_public (route_of c)) \<longrightarrow>
        (\<exists>err d3. serve s ge3 d2 e3 rq3 c d2 = (Inl err, d3)))"
  using assms(6)
proof (rule refresh_served)
  let ?hmac = "api_hmac s" and ?key = "api_sessionKey s"
  fix tok b
  assume tok: "readCookies rq (refresh_cookie (api_config s)) = Some tok" "tok \<noteq> []"
    and b: "rotate ?hmac ?key e tok (request_metadata rq) d = (Inr b, d1)" and x: "x = Auth_Reply (refreshed (api_config s) b)"
    and csrf: "assertRequest (api_config s) (rq\<lparr>rq_method := ''POST''\<rparr>) = Inr ()"
  obtain d2 where reused: "rotate ?hmac ?key e2 tok (request_metadata rq) d1 = (Inl refresh_reused, d2)"
    and again: "\<exists>err d3. rotate ?hmac ?key e3 (sb_refreshToken b) md d2 = (Inl err, d3)"
    and dead: "verifyAccessToken ?hmac ?key (clock ge3 0) token = Inr p \<Longrightarrow> pl_sessionId p = sb_sessionId b \<Longrightarrow>
       authenticateAccessToken ?hmac ?key ge3 token d2 = Inl invalid_access_session" for md ge3 token p
  proof -
    have clock: "clock (ge3\<lparr>sha256 := f\<rparr>) = clock ge3" for ge3 f by simp
    have env: "authenticateAccessToken ?hmac ?key (ge3\<lparr>sha256 := f\<rparr>) token dd = authenticateAccessToken ?hmac ?key ge3 token dd"
      for ge3 f token dd by (simp only: authenticateAccessToken_def clock)
    note reuse = reuse_revokes [OF b assms(4), of _ "request_metadata rq"]
    obtain d2 where d2: "rotate ?hmac ?key e2 tok (request_metadata rq) d1 = (Inl refresh_reused, d2)"
      using reuse [OF refl] by blast
    show thesis
    proof (rule that [OF d2])
      show "\<exists>err d3. rotate ?hmac ?key e3 (sb_refreshToken b) md d2 = (Inl err, d3)" for md
        using reuse [OF assms(5), of md] d2 by auto
      show "authenticateAccessToken ?hmac ?key ge3 token d2 = Inl invalid_access_session"
        if "verifyAccessToken ?hmac ?key (clock ge3 0) token = Inr p" "pl_sessionId p = sb_sessionId b" for ge3 token p
        using reuse [of "ge3\<lparr>sha256 := sha256 e\<rparr>"] d2 that by (fastforce simp: env)
    qed
  qed
  obtain ses where ses: "b = bundle_of ?hmac ?key e ses" using rotated_bundle [OF b] by blast
  then have texts: "token_text (sb_accessToken b)" "token_text (sb_refreshToken b)" "token_text (sb_csrfToken b)"
    using access_token_text [OF assms(1)] assms(2,3) by (simp_all add: bundle_of_def Let_def)
  let ?p = "\<lparr>pl_sessionId = ses_id ses, pl_userId = ses_userId ses, pl_organizationId = ses_org ses,
      pl_expiresAt = clock e 1 + accessTtl e\<rparr>"
  have signed: "sb_accessToken b = signAccessToken ?hmac ?key ?p" "sb_sessionId b = pl_sessionId ?p"
    by (simp_all add: ses bundle_of_def Let_def)
  have locked: "\<exists>err. authenticateAccessToken ?hmac ?key ge3 (sb_accessToken b) d2 = Inl err" for ge3
  proof (cases "clock ge3 0 < pl_expiresAt ?p")
    case True
    then show ?thesis
      using dead [of ge3 "sb_accessToken b" ?p] by (simp add: signed access_verified [OF url_digest_ok [OF assms(1)]])
  next
    case False
    then show ?thesis
      by (simp add: signed authenticateAccessToken_def access_verified [OF url_digest_ok [OF assms(1)]])
  qed
  have "\<exists>err d3. serve s ge3 d2 e3 rq3 c d2 = (Inl err, d3)"
    if "rq_cookie rq3 = Some (cookie_header (reply_cookies x))" "c = Auth_Call Refresh \<or> \<not> rt_public (route_of c)" for rq3 c ge3
  proof -
    have "rq_cookie rq3 = Some (cookie_header (setSessionCookies (api_config s) b))"
      using that(1) by (simp add: x refreshed_def)
    note read = session_cookies_read [OF texts this]
    show ?thesis by (rule cookies_refused [OF read(1,2) locked again that(2)])
  qed
  with refresh_answer [OF csrf tok reused] show ?thesis by blast
qed

lemma failed_not_ok [simp]: "\<not> response_ok (response_of cd verb (Inl err))"
proof (cases err)
  case (Http st code)
  then show ?thesis by (cases st) (simp_all add: response_of_def response_ok_def)
qed (simp_all add: response_of_def response_ok_def)

text \<open>
  C16: Two requests of the web application that find the access token expired at the same time end the session.  Each of them
  refreshes with the cookies the browser then holds.  When the first refresh was answered, the second one is refused with 401 and sets no
  cookie, and from then on nothing that the browser sends with the cookies of the first answer gets through: not another
  refresh and no call that needs a session, although nobody stole or reused a token.
\<close>

theorem parallel_refreshes_sign_out:
  assumes "url_digest (api_hmac s)" and "token_text (random_token e 0)" "token_text (random_token e 1)"
    and "sha256 e2 = sha256 e" "sha256 e3 = sha256 e"
    and "exchange conf cd s b now jar ge d0 e (refresh_call conf csrf) d = (r1, cookies, d1)" "response_ok r1"
    and "exchange conf cd s b now jar ge2 d02 e2 (refresh_call conf csrf) d1 = (r2, cookies2, d2)"
  shows "ws_status r2 = 401 \<and> cookies2 = [] \<and>
     (\<forall>rq c ge3. rq_cookie rq = Some (cookie_header cookies) \<and> (c = Auth_Call Refresh \<or> \<not> rt_public (route_of c)) \<longrightarrow>
        (\<exists>err d3. serve s ge3 d2 e3 rq c d2 = (Inl err, d3)))"
proof -
  let ?rq = "seen_request b now jar (refresh_call conf csrf) (first_of [])"
  have first: "exchange conf cd s b now jar g dd f (refresh_call conf csrf) ddd =
      (let r = serve s g dd f ?rq (Auth_Call Refresh) ddd
       in (response_of cd (wr_method (refresh_call conf csrf)) (fst r),
           case fst r of Inl _ \<Rightarrow> [] | Inr x \<Rightarrow> reply_cookies x, snd r))" for g dd f ddd
    by (simp add: exchange_def refresh_routed)
  from assms(6,7) obtain x where x: "serve s ge d0 e ?rq (Auth_Call Refresh) d = (Inr x, d1)" "cookies = reply_cookies x"
    by (cases "serve s ge d0 e ?rq (Auth_Call Refresh) d") (auto simp: first Let_def split: sum.splits)
  note parallel = parallel_refresh [OF assms(1-5) x(1), of ge2 d02, folded x(2)]
  then have "serve s ge2 d02 e2 ?rq (Auth_Call Refresh) d1 = (Inl refresh_reused, d2)"
    using assms(8) by (auto simp: first Let_def)
  with parallel assms(8) show ?thesis
    by (auto simp: first Let_def response_of_def refresh_reused_def)
qed

text \<open>The owner's browser refreshes twice.\<close>

definition expired_bundle :: session_bundle where
  "expired_bundle = demo_bundle\<lparr>sb_refreshToken := ''ct''\<rparr>"

definition blank_codec :: codec where
  "blank_codec = \<lparr>rd_onboard = (\<lambda>_. None), rd_login = (\<lambda>_. None), rd_registration = (\<lambda>_. None), rd_assertion = (\<lambda>_. None),
     rd_draft = (\<lambda>_. None),
     rd_version = (\<lambda>_. None), rd_decision = (\<lambda>_. None), rd_policy = (\<lambda>_. None), rd_building = (\<lambda>_. None),
     rd_edit_building = (\<lambda>_. None), rd_apartment = (\<lambda>_. None), rd_access = (\<lambda>_. None), rd_occupancy = (\<lambda>_. None),
     rd_vendor = (\<lambda>_. None), rd_edit_vendor = (\<lambda>_. None), rd_contact = (\<lambda>_. None), rd_bank = (\<lambda>_. None),
     rd_verification = (\<lambda>_. None), rd_reveal = (\<lambda>_. None), rd_contract = (\<lambda>_. None), rd_edit_contract = (\<lambda>_. None),
     rd_webhook = (\<lambda>_. None), rd_page = (\<lambda>_. None), rd_vendors = (\<lambda>_. None), rd_contracts = (\<lambda>_. None),
     rd_audit = (\<lambda>_. None), rd_token = (\<lambda>_. None), wr_reply = (\<lambda>_. Null), wr_problem = (\<lambda>_. Null)\<rparr>"

definition local_browser :: browser where
  "local_browser = \<lparr>br_origin = Some ''http://localhost:3000'', br_userAgent = None, br_ip = Some ''127.0.0.1''\<rparr>"

definition local_conf :: web_config where
  "local_conf = \<lparr>wc_apiUrl = None\<rparr>"

abbreviation expired_jar :: jar where
  "expired_jar \<equiv> setSessionCookies (api_config demo_api) expired_bundle"

abbreviation expired_request :: http_request where
  "expired_request \<equiv> seen_request local_browser 0 expired_jar (refresh_call local_conf (Some ''c'')) None"

lemma demo_refresh_seen:
  "rq_cookie expired_request = Some (cookie_header expired_jar)" "rq_csrfToken expired_request = Single ''c''"
  "rq_origin expired_request = Some ''http://localhost:3000''"
  "request_metadata expired_request = demo_metadata"
proof -
  have "header_of ''x-csrf-token'' (refresh_call local_conf (Some ''c'')) = Some ''c''"
    by (simp add: refresh_call_def api_call_of_def post_def truthy_def Let_def header_of_def set_header_def js_lower_def
        js_lower_char_def is_upper_def js_upper_def js_upper_char_def is_lower_def char_of_eq_iff)
  moreover have "sent_cookies 0 expired_jar = Some (cookie_header expired_jar)"
    by (simp add: sent_cookies_def setSessionCookies_def expired_bundle_def demo_bundle_def Let_def)
  ultimately show "rq_cookie expired_request = Some (cookie_header expired_jar)" "rq_csrfToken expired_request = Single ''c''"
    "rq_origin expired_request = Some ''http://localhost:3000''" "request_metadata expired_request = demo_metadata"
    by (simp_all add: seen_request_def local_browser_def request_metadata_def metadataFrom_def demo_metadata_def is_prefix_def)
qed

lemma demo_refresh_served:
  "\<exists>x d1. serve demo_api ge d0 (demo_env ''r'') expired_request (Auth_Call Refresh) demo_login = (Inr x, d1)"
proof -
  have b: "sb_accessToken expired_bundle = demo_token" "sb_refreshToken expired_bundle = ''ct''" "sb_csrfToken expired_bundle = ''c''"
    by (simp_all add: expired_bundle_def demo_bundle_def)
  have "token_text ''ct''" by (simp add: token_char_def base64_letter_def is_lower_def)
  note read = session_cookies_read [of expired_bundle, unfolded b, OF demo_token_letters(3) this demo_token_letters(2) demo_refresh_seen(1)]
  have cookies: "readCookies (rq\<lparr>rq_method := m\<rparr>) = readCookies rq" for rq m by (rule ext) (simp add: readCookies_def)
  have "assertTrustedOrigin (api_config demo_api) rq = Inr ()" if "rq_origin rq = Some ''http://localhost:3000''" for rq
    using that by (simp add: assertTrustedOrigin_def demo_api_def trustedOrigins_def js_trim_def js_space_def strip_slash_def)
  from this [of "expired_request\<lparr>rq_method := ''POST''\<rparr>"]
  have "assertTrustedOrigin (api_config demo_api) (expired_request\<lparr>rq_method := ''POST''\<rparr>) = Inr ()"
    by (simp add: demo_refresh_seen)
  then have "assertRequest (api_config demo_api) (expired_request\<lparr>rq_method := ''POST''\<rparr>) = Inr ()"
    by (simp add: assertRequest_def cookies read header_value_def demo_refresh_seen)
  then obtain auth where "enter (api_config demo_api) (api_hmac demo_api) (api_sessionKey demo_api) ge (public_route ''POST'')
      (expired_request\<lparr>rq_method := ''POST''\<rparr>) d0 = Inr auth"
    using public_entered by blast
  moreover obtain b1 d1 where "rotate (api_hmac demo_api) (api_sessionKey demo_api) (demo_env ''r'') ''ct'' demo_metadata demo_login =
      (Inr b1, d1)"
    using demo_rotates by (auto simp: demo_api_def)
  ultimately show ?thesis
    by (simp add: serve_def handle_def answer_def public_route_def read demo_refresh_seen truthy_def)
qed

theorem parallel_refreshes_sign_out_witness:
  "\<exists>r1 cookies d1 r2 d2. exchange local_conf blank_codec demo_api local_browser 0 expired_jar (demo_env ''x'') demo_login
        (demo_env ''r'') (refresh_call local_conf (Some ''c'')) demo_login = (r1, cookies, d1) \<and> response_ok r1 \<and>
     exchange local_conf blank_codec demo_api local_browser 0 expired_jar (demo_env ''y'') demo_login
        (demo_env ''q'') (refresh_call local_conf (Some ''c'')) d1 = (r2, [], d2) \<and> ws_status r2 = 401"
proof -
  let ?ex = "exchange local_conf blank_codec demo_api local_browser 0 expired_jar"
  obtain x d1 where x: "serve demo_api (demo_env ''x'') demo_login (demo_env ''r'') expired_request (Auth_Call Refresh) demo_login = (Inr x, d1)"
    using demo_refresh_served by blast
  have none: "first_of [] = None" by (simp add: first_of_def)
  obtain r1 cookies where one: "?ex (demo_env ''x'') demo_login (demo_env ''r'') (refresh_call local_conf (Some ''c'')) demo_login =
      (r1, cookies, d1)" "response_ok r1"
    using x by (simp add: exchange_def refresh_routed none response_of_def response_ok_def)
  obtain r2 cookies2 d2 where two: "?ex (demo_env ''y'') demo_login (demo_env ''q'') (refresh_call local_conf (Some ''c'')) d1 =
      (r2, cookies2, d2)"
    by (metis prod.exhaust)
  have "url_digest (api_hmac demo_api)" by (simp add: demo_url_digest demo_api_def)
  moreover have "token_text (random_token (demo_env ''r'') 0)" "token_text (random_token (demo_env ''r'') 1)"
    by (simp_all add: token_char_def base64_letter_def is_lower_def)
  ultimately have "ws_status r2 = 401 \<and> cookies2 = []"
    using parallel_refreshes_sign_out [OF _ _ _ _ _ one two, of "demo_env ''z''"] by simp
  with one two show ?thesis by blast
qed

end
