(* ===== verification/Web_View.thy ===== *)
theory Web_View
  imports Web_Program
begin

text \<open>
  What a page shows: the tree its component returns, and what a user can do with it.  An attribute is
  a text, a flag or a listener; a listener is named by an event of the page, which the page's
  \<open>dispatch\<close> turns into a program.  Characters outside Latin-1 are written as their bytes in UTF-8.
\<close>

datatype 'e attribute =
    Attr string string
  | Flag string bool
  | On string 'e
  | On_Value "string \<Rightarrow> 'e"

datatype 'e node =
    Element string "'e attribute list" "'e node list"
  | Words string

section \<open>Writing trees\<close>

abbreviation box :: "string \<Rightarrow> string \<Rightarrow> 'e node list \<Rightarrow> 'e node" where
  "box tag cls kids \<equiv> Element tag [Attr ''className'' cls] kids"

abbreviation plain :: "string \<Rightarrow> 'e node list \<Rightarrow> 'e node" where
  "plain tag kids \<equiv> Element tag [] kids"

abbreviation says :: "string \<Rightarrow> string \<Rightarrow> 'e node" where
  "says tag s \<equiv> Element tag [] [Words s]"

abbreviation link :: "string \<Rightarrow> string \<Rightarrow> 'e node" where
  "link href s \<equiv> Element ''a'' [Attr ''href'' href] [Words s]"

abbreviation class_link :: "string \<Rightarrow> string \<Rightarrow> string \<Rightarrow> 'e node" where
  "class_link cls href s \<equiv> Element ''a'' [Attr ''className'' cls, Attr ''href'' href] [Words s]"

abbreviation input :: "string \<Rightarrow> 'e attribute list \<Rightarrow> 'e node" where
  "input name attrs \<equiv> Element ''input'' (Attr ''name'' name # attrs) []"

text \<open>\<open>{condition \<and>\<and> x}\<close>, and an optional notice.\<close>

abbreviation only_if :: "bool \<Rightarrow> 'e node \<Rightarrow> 'e node list" where
  "only_if c x \<equiv> (if c then [x] else [])"

definition notice :: "string \<Rightarrow> string option \<Rightarrow> 'e node list" where
  "notice cls m = (if truthy m then [box ''p'' cls [Words (the m)]] else [])"

definition middle_dot :: string where
  "middle_dot = [CHR '' '', CHR 0xB7, CHR '' '']"

definition em_dash :: string where
  "em_dash = [CHR 0xE2, CHR 0x80, CHR 0x94]"

definition ellipsis :: string where
  "ellipsis = [CHR 0xE2, CHR 0x80, CHR 0xA6]"

section \<open>What a user can do\<close>

definition disabled :: "'e attribute list \<Rightarrow> bool" where
  "disabled attrs \<longleftrightarrow> list_ex (\<lambda>a. case a of Flag n b \<Rightarrow> n = ''disabled'' \<and> b | _ \<Rightarrow> False) attrs"

definition attr_of :: "string \<Rightarrow> 'e attribute list \<Rightarrow> string list" where
  "attr_of n attrs = concat (map (\<lambda>a. case a of Attr m v \<Rightarrow> (if m = n then [v] else []) | _ \<Rightarrow> []) attrs)"

definition listeners :: "string \<Rightarrow> 'e attribute list \<Rightarrow> 'e list" where
  "listeners n attrs = concat (map (\<lambda>a. case a of On m e \<Rightarrow> (if m = n then [e] else []) | _ \<Rightarrow> []) attrs)"

text \<open>The listeners of a click, on everything that is not disabled.\<close>

fun clicks :: "'e node \<Rightarrow> 'e list" where
  "clicks (Words s) = []"
| "clicks (Element tag attrs kids) =
     (if disabled attrs then [] else listeners ''onClick'' attrs) @ concat (map clicks kids)"

text \<open>The names a form sends, and whether it has a button that submits it.\<close>

fun field_names :: "'e node \<Rightarrow> string list" where
  "field_names (Words s) = []"
| "field_names (Element tag attrs kids) =
     (if tag \<in> {''input'', ''select'', ''textarea''} then attr_of ''name'' attrs else []) @ concat (map field_names kids)"

fun has_submit :: "'e node \<Rightarrow> bool" where
  "has_submit (Words s) = False"
| "has_submit (Element tag attrs kids) \<longleftrightarrow>
     tag = ''button'' \<and> \<not> disabled attrs \<and> ''button'' \<notin> set (attr_of ''type'' attrs) \<or> list_ex has_submit kids"

fun form_submits :: "'e node \<Rightarrow> ('e \<times> string list) list" where
  "form_submits (Words s) = []"
| "form_submits (Element tag attrs kids) =
     (if tag = ''form'' \<and> list_ex has_submit kids
      then map (\<lambda>e. (e, concat (map field_names kids))) (listeners ''onSubmit'' attrs) else []) @
     concat (map form_submits kids)"

text \<open>The values a user may choose or type where a listener follows the value.\<close>

fun value_events :: "'e node \<Rightarrow> (string \<Rightarrow> 'e) list" where
  "value_events (Words s) = []"
| "value_events (Element tag attrs kids) =
     concat (map (\<lambda>a. case a of On_Value f \<Rightarrow> [f] | _ \<Rightarrow> []) attrs) @ concat (map value_events kids)"

definition user_can :: "'e node \<Rightarrow> 'e \<Rightarrow> form \<Rightarrow> bool" where
  "user_can t e filled \<longleftrightarrow>
     e \<in> set (clicks t) \<and> filled = [] \<or>
     (\<exists>names. (e, names) \<in> set (form_submits t) \<and> map fst filled = names) \<or>
     (\<exists>f v. f \<in> set (value_events t) \<and> e = f v \<and> filled = [])"

text \<open>Every text a page shows, in order.\<close>

fun all_words :: "'e node \<Rightarrow> string list" where
  "all_words (Words s) = [s]"
| "all_words (Element tag attrs kids) = concat (map all_words kids)"

text \<open>The trees of the pages are taken apart by these facts, without unfolding the abbreviations one by one.\<close>

lemmas view_simps = disabled_def attr_of_def listeners_def notice_def

lemma clicks_notice [simp]: "concat (map clicks (notice cls m)) = []"
  by (simp add: notice_def view_simps)

lemma form_submits_notice [simp]: "concat (map form_submits (notice cls m)) = []"
  by (simp add: notice_def view_simps)

lemma value_events_notice [simp]: "concat (map value_events (notice cls m)) = []"
  by (simp add: notice_def view_simps)

end
