(* ===== verification/Web_Approvals.thy ===== *)
theory Web_Approvals
  imports Web_View
begin

text \<open>
  \<open>apps/web/app/approvals/page.tsx\<close>: the page on which members decide.  Its state is the record of the
  \<open>useState\<close> hooks.  The profile is kept as the value the API answered; TypeScript erases the types, so
  how the page sees the list of requests is the parameter \<open>cast\<close>.
\<close>

section \<open>What the page keeps\<close>

record w_contribution =
  wk_rule :: string
  wk_score :: int
  wk_explanation :: string
  wk_evidence :: string

record w_decision =
  wd_id :: string
  wd_outcome :: string
  wd_reason :: string
  wd_stepUpVerifiedAt :: string
  wd_decidedBy :: string

record w_approver =
  we_id :: string
  we_role :: string
  we_displayName :: string

record w_approval =
  wa_id :: string
  wa_version :: nat
  wa_status :: string
  wa_requiredDecisions :: nat
  wa_invalidatedReason :: "string option"
  wa_invoiceId :: string
  wa_invoiceNumber :: "string option"
  wa_totalAmount :: "string option"
  wa_currency :: "string option"
  wa_invoiceStatus :: string
  wa_ruleVersion :: nat
  wa_totalScore :: int
  wa_level :: string
  wa_evidenceHash :: string
  wa_contributions :: "w_contribution list"
  wa_initiatedBy :: string
  wa_decisions :: "w_decision list"
  wa_eligibleApprovers :: "w_approver list"

record approvals_page =
  ap_profile :: js
  ap_requests :: "w_approval list"
  ap_selectedId :: "string option"
  ap_message :: "string option"
  ap_error :: "string option"
  ap_pending :: bool

definition approvals_start :: approvals_page where
  "approvals_start = \<lparr>ap_profile = Undefined, ap_requests = [], ap_selectedId = None, ap_message = None,
     ap_error = None, ap_pending = False\<rparr>"

definition or_else :: "'a option \<Rightarrow> 'a option \<Rightarrow> 'a option" where
  "or_else a b = (case a of None \<Rightarrow> b | Some x \<Rightarrow> Some x)"

definition selected_request :: "approvals_page \<Rightarrow> w_approval option" where
  "selected_request p =
     or_else (find (\<lambda>r. Some (wa_id r) = ap_selectedId p) (ap_requests p)) (first_of (ap_requests p))"

definition get_init :: web_init where
  "get_init = \<lparr>in_method = None, in_headers = [], in_body = No_Body\<rparr>"

text \<open>\<open>/organizations/${v.organization.id}\<close> followed by the rest of a path.\<close>

definition organization_path :: "js \<Rightarrow> string \<Rightarrow> thrown + string" where
  "organization_path v rest =
     (case path_of [''organization'', ''id''] v of
        Inl e \<Rightarrow> Inl e
      | Inr org \<Rightarrow> Inr (''/organizations/'' @ js_string org @ rest))"

section \<open>Its programs\<close>

definition load_approvals ::
  "web_config \<Rightarrow> (js \<Rightarrow> w_approval list) \<Rightarrow> (approvals_page, unit) program" where
  "load_approvals conf cast =
     catch
       (and_then (apiRequest conf ''/auth/me'' get_init True) (\<lambda>current.
        and_then (lift_outcome (organization_path current ''/approval-requests'')) (\<lambda>path.
        and_then (apiRequest conf path get_init True) (\<lambda>answer.
          let data = cast answer in
          Set_State (\<lambda>p. p\<lparr>ap_profile := current\<rparr>)
          (Set_State (\<lambda>p. p\<lparr>ap_requests := data\<rparr>)
          (Set_State (\<lambda>p. p\<lparr>ap_selectedId := or_else (ap_selectedId p) (map_option wa_id (first_of data))\<rparr>)
            (Return ())))))))
       (\<lambda>_. Go_To ''/login'' (Return ()))"

definition json_post :: "(string \<times> string) list \<Rightarrow> js \<Rightarrow> web_init" where
  "json_post headers body = \<lparr>in_method = Some ''POST'', in_headers = headers, in_body = Json_Body body\<rparr>"

text \<open>\<open>kept\<close>: whether \<open>event.currentTarget\<close> is still the form after the request.\<close>

definition decide_request ::
  "web_config \<Rightarrow> (js \<Rightarrow> w_approval list) \<Rightarrow> bool \<Rightarrow> approvals_page \<Rightarrow> form \<Rightarrow> (approvals_page, unit) program" where
  "decide_request conf cast kept page filled =
     (case selected_request page of
        None \<Rightarrow> Return ()
      | Some selected \<Rightarrow>
          Set_State (\<lambda>p. p\<lparr>ap_pending := True\<rparr>) (Set_State (\<lambda>p. p\<lparr>ap_error := None\<rparr>)
          (finally_do
            (catch
              (and_then (lift_outcome (organization_path (ap_profile page)
                 (''/approval-requests/'' @ wa_id selected @ ''/decisions''))) (\<lambda>path.
               Random_UUID (\<lambda>key.
               and_then (apiRequest conf path
                 (json_post [(''Idempotency-Key'', key)]
                   (json_body [(''approvalVersion'', Number (of_nat (wa_version selected))),
                      (''outcome'', form_get ''outcome'' filled), (''reason'', form_get ''reason'' filled)])) True) (\<lambda>_.
               Set_State (\<lambda>p. p\<lparr>ap_message := Some ''Passkey-backed decision recorded as immutable evidence.''\<rparr>)
               (and_then (reset_current_target kept) (\<lambda>_. load_approvals conf cast))))))
              (\<lambda>e. Set_State (\<lambda>p. p\<lparr>ap_error := Some (message_of ''Decision failed'' e)\<rparr>) (Return ())))
            (Set_State (\<lambda>p. p\<lparr>ap_pending := False\<rparr>) (Return ())))))"

datatype approvals_event = Select_Request string | Decide_Submitted

fun approvals_dispatch ::
  "web_config \<Rightarrow> (js \<Rightarrow> w_approval list) \<Rightarrow> bool \<Rightarrow> approvals_page \<Rightarrow> approvals_event \<Rightarrow> form \<Rightarrow>
     (approvals_page, unit) program" where
  "approvals_dispatch conf cast kept page (Select_Request rid) filled =
     Set_State (\<lambda>p. p\<lparr>ap_selectedId := Some rid\<rparr>) (Return ())"
| "approvals_dispatch conf cast kept page Decide_Submitted filled = decide_request conf cast kept page filled"

section \<open>What it shows\<close>

definition approval_entry :: "w_approval option \<Rightarrow> w_approval \<Rightarrow> approvals_event node" where
  "approval_entry selected request =
     Element ''button''
       [Attr ''className'' (if Some (wa_id request) = map_option wa_id selected then ''selected'' else []),
        On ''onClick'' (Select_Request (wa_id request))]
       [says ''strong'' (case wa_invoiceNumber request of None \<Rightarrow> ''Draft invoice'' | Some n \<Rightarrow> n),
        says ''span'' (wa_level request @ middle_dot @ wa_status request)]"

definition evidence_entry :: "w_contribution \<Rightarrow> 'e node" where
  "evidence_entry item =
     plain ''div''
       [says ''strong'' (''+'' @ show_int (wk_score item) @ middle_dot @ wk_rule item),
        says ''p'' (wk_explanation item),
        says ''code'' (wk_evidence item)]"

definition decision_entry :: "w_decision \<Rightarrow> 'e node" where
  "decision_entry d =
     plain ''p''
       [says ''strong'' (wd_outcome d), Words ('' by ''), Words (wd_decidedBy d), says ''span'' (wd_reason d)]"

definition decision_form :: "bool \<Rightarrow> js \<Rightarrow> approvals_event node" where
  "decision_form pending stepUp =
     Element ''form'' [Attr ''className'' ''decision-form'', On ''onSubmit'' Decide_Submitted]
       [plain ''label'' [Words ''Decision'',
          Element ''select'' [Attr ''name'' ''outcome'', Attr ''defaultValue'' ''APPROVE'']
            [Element ''option'' [Attr ''value'' ''APPROVE''] [Words ''Approve''],
             Element ''option'' [Attr ''value'' ''REJECT''] [Words ''Reject'']]],
        plain ''label'' [Words ''Evidence-based reason'',
          Element ''textarea'' [Attr ''name'' ''reason'', Attr ''minLength'' ''10'', Attr ''maxLength'' ''500'',
            Flag ''required'' True] []],
        Element ''button'' [Flag ''disabled'' pending] [Words ''Record passkey-backed decision''],
        plain ''small'' [Words ''Step-up status: '',
          Words (if js_truthy stepUp then ''recently verified'' else ''verification required'')]]"

text \<open>The article of a request, \<open>None\<close> standing for the form that is not shown.\<close>

definition approval_evidence :: "w_approval \<Rightarrow> approvals_event node list \<Rightarrow> approvals_event node" where
  "approval_evidence selected decision =
     box ''article'' ''approval-evidence''
       ([box ''div'' (''risk-score '' @ js_lower (wa_level selected))
           [says ''span'' (wa_level selected), says ''strong'' (show_int (wa_totalScore selected)),
            says ''small'' (''rule set v'' @ show_nat (wa_ruleVersion selected))],
         plain ''div''
           [says ''h2'' (case wa_invoiceNumber selected of None \<Rightarrow> ''Invoice awaiting review'' | Some n \<Rightarrow> n),
            says ''p'' ((case wa_totalAmount selected of None \<Rightarrow> em_dash | Some t \<Rightarrow> t) @ '' '' @
              (case wa_currency selected of None \<Rightarrow> [] | Some c \<Rightarrow> c)),
            says ''p'' (''Initiated by '' @ wa_initiatedBy selected),
            says ''p'' (show_nat (length (wa_decisions selected)) @ ''/'' @
              show_nat (wa_requiredDecisions selected) @ '' decisions recorded'')],
         box ''section'' ''evidence-list''
           ([says ''h3'' ''Triggered facts''] @
            only_if (wa_contributions selected = []) (says ''p'' ''No risk rules triggered.'') @
            map evidence_entry (wa_contributions selected) @
            [says ''small'' (''Evidence hash: '' @ wa_evidenceHash selected)]),
         box ''section'' ''decision-history''
           (says ''h3'' ''Immutable decisions'' # map decision_entry (wa_decisions selected))] @
        (if truthy (wa_invalidatedReason selected)
         then [box ''p'' ''notice error'' [Words (''Invalidated: '' @ the (wa_invalidatedReason selected))]] else []) @
        decision)"

text \<open>Rendering throws when it reads a property of \<open>undefined\<close>, and then the page shows nothing.\<close>

definition render_approvals :: "approvals_page \<Rightarrow> thrown + approvals_event node" where
  "render_approvals p =
     (case optional_path [''organization'', ''name''] (ap_profile p) of
        Inl e \<Rightarrow> Inl e
      | Inr name \<Rightarrow>
      let selected = selected_request p;
          article =
            (case selected of
               None \<Rightarrow> Inr (says ''p'' ''No approval requests yet. Submit a reviewed invoice first.'')
             | Some request \<Rightarrow>
                 if wa_status request \<noteq> ''PENDING'' then Inr (approval_evidence request [])
                 else
                   (case optional_path [''security'', ''stepUpVerifiedAt''] (ap_profile p) of
                      Inl e \<Rightarrow> Inl e
                    | Inr stepUp \<Rightarrow> Inr (approval_evidence request [decision_form (ap_pending p) stepUp])))
      in case article of
           Inl e \<Rightarrow> Inl e
         | Inr evidence \<Rightarrow> Inr
             (box ''main'' ''approval-shell''
               ([plain ''nav''
                   [class_link ''brand'' ''/'' ''BLOCTRUST'',
                    says ''span'' ((if nullish name then ''Dual approval'' else shown name) @ middle_dot @ ''0.5.0''),
                    link ''/invoices'' ''Invoices'', link ''/security'' ''Passkey step-up''],
                 box ''header'' ''approval-header''
                   [box ''p'' ''eyebrow'' [Words ''SEPARATION OF DUTIES''],
                    says ''h1'' ''Risk evidence before financial approval.'',
                    says ''p'' ''High-risk invoices require two distinct eligible members with recent passkey verification.'']] @
                notice ''notice success'' (ap_message p) @
                notice ''notice error'' (ap_error p) @
                [box ''section'' ''approval-workspace''
                   [box ''aside'' ''approval-list''
                      (says ''h2'' ''Requests'' # map (approval_entry selected) (ap_requests p)),
                    evidence]])))"

end
