(* ===== verification/Web_Account.thy ===== *)
theory Web_Account
  imports Web_Approvals
begin

text \<open>
  The pages around the session: \<open>apps/web/app/login/page.tsx\<close>, \<open>onboarding/page.tsx\<close>, \<open>security/page.tsx\<close> and
  the start page \<open>page.tsx\<close>.
\<close>

section \<open>Login and onboarding\<close>

text \<open>The two forms have the same state and the same handler but for the request.\<close>

record form_page =
  fp_error :: "string option"
  fp_pending :: bool

definition submit_account ::
  "web_config \<Rightarrow> string \<Rightarrow> (string \<times> js) list \<Rightarrow> string \<Rightarrow> (form_page, unit) program" where
  "submit_account conf path body fallback =
     Set_State (\<lambda>p. p\<lparr>fp_pending := True\<rparr>) (Set_State (\<lambda>p. p\<lparr>fp_error := None\<rparr>)
     (finally_do
       (catch
         (and_then (apiRequest conf path (json_post [] (json_body body)) True)
           (\<lambda>_. Go_To ''/security'' (Return ())))
         (\<lambda>e. Set_State (\<lambda>p. p\<lparr>fp_error := Some (message_of fallback e)\<rparr>) (Return ())))
       (Set_State (\<lambda>p. p\<lparr>fp_pending := False\<rparr>) (Return ()))))"

definition submit_login :: "web_config \<Rightarrow> form \<Rightarrow> (form_page, unit) program" where
  "submit_login conf filled =
     submit_account conf ''/auth/login''
       [(''email'', form_get ''email'' filled),
        (''organizationSlug'', form_get ''organizationSlug'' filled),
        (''password'', form_get ''password'' filled)] ''Sign-in failed.''"

definition submit_onboarding :: "web_config \<Rightarrow> form \<Rightarrow> (form_page, unit) program" where
  "submit_onboarding conf filled =
     submit_account conf ''/auth/onboard''
       [(''organizationName'', form_get ''organizationName'' filled),
        (''organizationSlug'', form_get ''organizationSlug'' filled),
        (''displayName'', form_get ''displayName'' filled),
        (''email'', form_get ''email'' filled),
        (''password'', form_get ''password'' filled)] ''Onboarding failed.''"

definition labelled :: "string \<Rightarrow> string \<Rightarrow> 'e attribute list \<Rightarrow> 'e node" where
  "labelled label name attrs = plain ''label'' [Words label, input name attrs]"

definition login_form :: "form_page \<Rightarrow> unit node" where
  "login_form p =
     Element ''form'' [On ''onSubmit'' ()]
       ([labelled ''Organization slug'' ''organizationSlug''
           [Attr ''autoComplete'' ''organization'', Attr ''minLength'' ''3'', Flag ''required'' True],
         labelled ''Email'' ''email'' [Attr ''type'' ''email'', Attr ''autoComplete'' ''email'', Flag ''required'' True],
         labelled ''Password'' ''password''
           [Attr ''type'' ''password'', Attr ''autoComplete'' ''current-password'', Flag ''required'' True]] @
        notice ''form-error'' (fp_error p) @
        [Element ''button'' [Attr ''type'' ''submit'', Flag ''disabled'' (fp_pending p)]
           [Words (if fp_pending p then ''Verifying'' @ ellipsis else ''Sign in'')]])"

definition render_login :: "form_page \<Rightarrow> unit node" where
  "render_login p =
     box ''main'' ''auth-shell''
       [Element ''section'' [Attr ''className'' ''auth-card'', Attr ''aria-labelledby'' ''login-heading'']
         [box ''p'' ''eyebrow'' [Words (''COOKIE SESSION'' @ middle_dot @ ''SERVER-SIDE ROLE'')],
          Element ''h1'' [Attr ''id'' ''login-heading''] [Words ''Enter the correct tenant.''],
          login_form p,
          box ''p'' ''form-footnote'' [Words ''New association? '', link ''/onboarding'' ''Create it securely'']]]"

definition onboarding_form :: "form_page \<Rightarrow> unit node" where
  "onboarding_form p =
     Element ''form'' [On ''onSubmit'' ()]
       ([labelled ''Association name'' ''organizationName''
           [Attr ''minLength'' ''2'', Attr ''maxLength'' ''160'', Flag ''required'' True],
         labelled ''URL slug'' ''organizationSlug''
           [Attr ''pattern'' ''[a-z0-9]+(?:-[a-z0-9]+)*'', Attr ''placeholder'' ''strada-independentei-12'',
            Attr ''minLength'' ''3'', Attr ''maxLength'' ''80'', Flag ''required'' True],
         labelled ''Your name'' ''displayName''
           [Attr ''minLength'' ''2'', Attr ''maxLength'' ''120'', Attr ''autoComplete'' ''name'', Flag ''required'' True],
         labelled ''Email'' ''email''
           [Attr ''type'' ''email'', Attr ''autoComplete'' ''email'', Attr ''maxLength'' ''320'', Flag ''required'' True],
         labelled ''Password'' ''password''
           [Attr ''type'' ''password'', Attr ''autoComplete'' ''new-password'', Attr ''minLength'' ''12'',
            Attr ''maxLength'' ''128'', Flag ''required'' True]] @
        notice ''form-error'' (fp_error p) @
        [Element ''button'' [Attr ''type'' ''submit'', Flag ''disabled'' (fp_pending p)]
           [Words (if fp_pending p then ''Creating secure boundary'' @ ellipsis else ''Create organization'')]])"

definition render_onboarding :: "form_page \<Rightarrow> unit node" where
  "render_onboarding p =
     box ''main'' ''auth-shell''
       [Element ''section'' [Attr ''className'' ''auth-card'', Attr ''aria-labelledby'' ''onboarding-heading'']
         [box ''p'' ''eyebrow'' [Words (''MILESTONE 0.2'' @ middle_dot @ ''SECURE ONBOARDING'')],
          Element ''h1'' [Attr ''id'' ''onboarding-heading''] [Words ''Create your association boundary.''],
          box ''p'' ''lede''
            [Words ''The first account becomes the owner. Passwords are screened privately and stored with Argon2id.''],
          onboarding_form p,
          box ''p'' ''form-footnote'' [Words ''Already onboarded? '', link ''/login'' ''Sign in'']]]"

section \<open>The security page\<close>

record security_page =
  sp_profile :: js
  sp_message :: "string option"
  sp_error :: "string option"
  sp_pending :: bool

definition loadProfile :: "web_config \<Rightarrow> (security_page, unit) program" where
  "loadProfile conf =
     catch
       (and_then (apiRequest conf ''/auth/me'' get_init True)
         (\<lambda>current. Set_State (\<lambda>p. p\<lparr>sp_profile := current\<rparr>) (Return ())))
       (\<lambda>_. Go_To ''/login'' (Return ()))"

definition perform_security :: "web_config \<Rightarrow> (security_page, string) program \<Rightarrow> (security_page, unit) program" where
  "perform_security conf action =
     Set_State (\<lambda>p. p\<lparr>sp_pending := True\<rparr>) (Set_State (\<lambda>p. p\<lparr>sp_error := None\<rparr>)
     (Set_State (\<lambda>p. p\<lparr>sp_message := None\<rparr>)
     (finally_do
       (catch
         (and_then action (\<lambda>m. Set_State (\<lambda>p. p\<lparr>sp_message := Some m\<rparr>) (loadProfile conf)))
         (\<lambda>e. Set_State (\<lambda>p. p\<lparr>sp_error := Some (message_of ''Security action failed.'' e)\<rparr>) (Return ())))
       (Set_State (\<lambda>p. p\<lparr>sp_pending := False\<rparr>) (Return ())))))"

text \<open>Options from the API, the ceremony of the browser, the answer to the API.\<close>

definition passkey_round ::
  "web_config \<Rightarrow> string \<Rightarrow> ceremony \<Rightarrow> string \<Rightarrow> (js \<Rightarrow> (string \<times> js) list) \<Rightarrow> string \<Rightarrow> ('p, string) program" where
  "passkey_round conf options_path c verify_path body done =
     and_then (apiRequest conf options_path post True) (\<lambda>options.
     Passkey c options (\<lambda>outcome.
       and_then (lift_outcome outcome) (\<lambda>response.
       and_then (apiRequest conf verify_path (json_post [] (json_body (body response))) True) (\<lambda>_.
       Return done))))"

definition registerPasskey :: "web_config \<Rightarrow> ('p, string) program" where
  "registerPasskey conf =
     passkey_round conf ''/auth/passkeys/registration/options'' Start_Registration ''/auth/passkeys/registration/verify''
       (\<lambda>response. [(''response'', response), (''deviceName'', Text ''Primary passkey'')])
       ''Passkey registered. You can now perform recent step-up verification.''"

definition stepUp :: "web_config \<Rightarrow> ('p, string) program" where
  "stepUp conf =
     passkey_round conf ''/auth/step-up/options'' Start_Authentication ''/auth/step-up/verify''
       (\<lambda>response. [(''response'', response)])
       ''Identity verified with a passkey for the next five minutes.''"

definition logout :: "web_config \<Rightarrow> bool \<Rightarrow> ('p, unit) program" where
  "logout conf all =
     and_then (apiRequest conf (if all then ''/auth/logout-all'' else ''/auth/logout'') post True)
       (\<lambda>_. Go_To ''/login'' (Return ()))"

datatype security_event = Register_Clicked | Step_Up_Clicked | Log_Out_Clicked bool

fun security_dispatch :: "web_config \<Rightarrow> security_event \<Rightarrow> (security_page, unit) program" where
  "security_dispatch conf Register_Clicked = perform_security conf (registerPasskey conf)"
| "security_dispatch conf Step_Up_Clicked = perform_security conf (stepUp conf)"
| "security_dispatch conf (Log_Out_Clicked all) = logout conf all"

text \<open>The texts that depend on the profile; a profile without its parts makes the rendering throw.\<close>

record security_texts =
  st_name :: string
  st_line :: string
  st_passkeys :: string
  st_stepUp :: string

definition security_texts_of :: "js \<Rightarrow> thrown + security_texts" where
  "security_texts_of profile =
     (if nullish profile then
        Inr \<lparr>st_name = ''Loading secure context'' @ ellipsis,
          st_line = ''Validating the server-side session and membership.'', st_passkeys = em_dash, st_stepUp = ''Not verified''\<rparr>
      else
      case path_of [''organization'', ''name''] profile of Inl e \<Rightarrow> Inl e | Inr name \<Rightarrow>
      case path_of [''user'', ''displayName''] profile of Inl e \<Rightarrow> Inl e | Inr user \<Rightarrow>
      case path_of [''organization'', ''role''] profile of Inl e \<Rightarrow> Inl e | Inr rol \<Rightarrow>
      case path_of [''organization'', ''slug''] profile of Inl e \<Rightarrow> Inl e | Inr slug \<Rightarrow>
      case path_of [''passkeyCount''] profile of Inl e \<Rightarrow> Inl e | Inr passkeys \<Rightarrow>
      case path_of [''session'', ''stepUpVerifiedAt''] profile of Inl e \<Rightarrow> Inl e | Inr verified \<Rightarrow>
        Inr \<lparr>st_name = (if nullish name then ''Loading secure context'' @ ellipsis else shown name),
          st_line = js_string user @ middle_dot @ js_string rol @ middle_dot @ js_string slug,
          st_passkeys = (if nullish passkeys then em_dash else shown passkeys),
          st_stepUp = (if nullish verified then ''Not verified'' else shown verified)\<rparr>)"

definition security_button :: "bool \<Rightarrow> string \<Rightarrow> security_event \<Rightarrow> string \<Rightarrow> security_event node" where
  "security_button pending cls e s =
     Element ''button'' ([Flag ''disabled'' pending] @ (if cls = [] then [] else [Attr ''className'' cls]) @
       [On ''onClick'' e]) [Words s]"

definition render_security :: "security_page \<Rightarrow> thrown + security_event node" where
  "render_security p =
     (case security_texts_of (sp_profile p) of
        Inl e \<Rightarrow> Inl e
      | Inr t \<Rightarrow> Inr
          (box ''main'' ''security-shell''
            [Element ''nav'' [Attr ''aria-label'' ''Security navigation'']
               [box ''span'' ''brand'' [Words ''BLOCTRUST''],
                box ''span'' ''milestone'' [Words (''Security center'' @ middle_dot @ ''0.5.0'')]],
             box ''section'' ''security-grid''
               [plain ''div''
                  [box ''p'' ''eyebrow'' [Words ''ACTIVE TENANT CONTEXT''], says ''h1'' (st_name t),
                   box ''p'' ''lede'' [Words (st_line t)]],
                box ''div'' ''security-panel''
                  ([plain ''p'' [says ''strong'' ''Registered passkeys'', says ''span'' (st_passkeys t)],
                    plain ''p'' [says ''strong'' ''Recent step-up'', says ''span'' (st_stepUp t)]] @
                   notice ''form-success'' (sp_message p) @
                   notice ''form-error'' (sp_error p) @
                   [box ''div'' ''button-row''
                      [class_link ''button-link'' ''/crm'' ''Open CRM'',
                       security_button (sp_pending p) [] Register_Clicked ''Register passkey'',
                       security_button (sp_pending p) ''secondary'' Step_Up_Clicked ''Verify step-up'',
                       security_button (sp_pending p) ''quiet'' (Log_Out_Clicked False) ''Log out'',
                       security_button (sp_pending p) ''quiet'' (Log_Out_Clicked True) ''Log out everywhere'']])]]))"

section \<open>The layout and the start page\<close>

definition root_layout :: "'e node list \<Rightarrow> 'e node" where
  "root_layout children = Element ''html'' [Attr ''lang'' ''en''] [plain ''body'' children]"

definition foundations :: "string list" where
  "foundations =
     [''Argon2id with private breach screening'',
      ''Rotated cookie sessions with replay detection'',
      ''Passkey registration and recent step-up'',
      ''Server-side roles plus PostgreSQL RLS'',
      ''Encrypted Vendor Trust Passports with immutable bank history'',
      ''Quarantine, malware scanning, duplicate detection, and reviewer-controlled OCR'']"

definition render_home :: "unit node" where
  "render_home =
     plain ''main''
       [Element ''nav'' [Attr ''aria-label'' ''Primary navigation'']
          [box ''span'' ''brand'' [Words ''BLOCTRUST''],
           box ''span'' ''milestone'' [Words ''Explainable risk and dual approval 0.5.0'']],
        Element ''section'' [Attr ''className'' ''hero'', Attr ''aria-labelledby'' ''hero-heading'']
          [box ''p'' ''eyebrow'' [Words ''SECURITY-FIRST OPERATIONS CRM''],
           Element ''h1'' [Attr ''id'' ''hero-heading''] [Words ''Trust financial actions only when the evidence agrees.''],
           box ''p'' ''lede''
             [Words ''BlocTrust connects residents, vendors, contracts, invoices, and decisions while making risky administrative actions visible and independently verifiable.''],
           box ''div'' ''hero-actions''
             [class_link ''button-link'' ''/onboarding'' ''Create organization'', class_link ''text-link'' ''/login'' ''Sign in'',
              class_link ''text-link'' ''/crm'' ''Open CRM'', class_link ''text-link'' ''/invoices'' ''Review invoices'']],
        Element ''section'' [Attr ''className'' ''foundation'', Attr ''aria-labelledby'' ''foundation-heading'']
          [plain ''div''
             [box ''p'' ''eyebrow'' [Words ''MILESTONE 0.4 SECURE INVOICES''],
              Element ''h2'' [Attr ''id'' ''foundation-heading''] [Words ''Documents become suggestions, never decisions.'']],
           plain ''ol''
             (map (\<lambda>(index, item). plain ''li''
                [Element ''span'' [Attr ''aria-hidden'' ''true''] [Words (CHR ''0'' # show_nat index)], Words item])
               (enumerate 1 foundations))]]"

end
