(* ===== verification/Web_Crm.thy ===== *)
theory Web_Crm
  imports Web_Approvals Object_Storage
begin

text \<open>
  \<open>apps/web/app/crm/page.tsx\<close>: buildings and residents, vendors with their bank accounts, contracts, and the
  dashboard.  The casts are how the page sees the answers under their declared types.
\<close>

section \<open>What the page keeps\<close>

record w_apartment =
  wu_id :: string
  wu_unitNumber :: string
  wu_floor :: "string option"
  wu_occupants :: "string list"

record w_building =
  wb_id :: string
  wb_name :: string
  wb_addressLine1 :: string
  wb_city :: string
  wb_version :: nat
  wb_apartmentCount :: nat
  wb_vendorCount :: nat
  wb_contractCount :: nat

record w_building_detail = w_building +
  wb_apartments :: "w_apartment list"

record w_bank_version =
  wv_id :: string
  wv_versionNumber :: nat
  wv_maskedAccount :: string
  wv_maskedAccountHolder :: string
  wv_createdAt :: string
  wv_verifications :: "(string \<times> string) list"

record w_vendor =
  wo_id :: string
  wo_legalName :: string
  wo_tradingName :: "string option"
  wo_status :: string
  wo_tags :: "string list"
  wo_version :: nat
  wo_contacts :: "(string \<times> bool) list"
  wo_buildings :: "(string \<times> string) list"
  wo_bankAccountVersions :: "w_bank_version list"

record w_contract =
  wt_id :: string
  wt_reference :: string
  wt_title :: string
  wt_serviceCategory :: string
  wt_status :: string
  wt_endsOn :: "string option"
  wt_version :: nat
  wt_vendorName :: string

record w_resident =
  wr_id :: string
  wr_userId :: string
  wr_displayName :: string
  wr_email :: string

record w_dashboard =
  wh_generatedAt :: string
  wh_expiringContracts :: "(string \<times> string \<times> string \<times> string) list"
  wh_incompleteVendors :: "(string \<times> string \<times> string list) list"

record crm_page =
  cp_profile :: js
  cp_buildings :: "w_building list"
  cp_vendors :: "w_vendor list"
  cp_contracts :: "w_contract list"
  cp_residents :: "w_resident list"
  cp_dashboard :: "w_dashboard option"
  cp_buildingDetail :: "w_building_detail option"
  cp_vendorDetail :: "w_vendor option"
  cp_selectedBuildingId :: string
  cp_selectedVendorId :: string
  cp_query :: string
  cp_message :: "string option"
  cp_error :: "string option"
  cp_pending :: bool

record crm_casts =
  building_data :: "js \<Rightarrow> w_building list"
  vendor_data :: "js \<Rightarrow> w_vendor list"
  contract_data :: "js \<Rightarrow> w_contract list"
  dashboard_data :: "js \<Rightarrow> w_dashboard"
  resident_data :: "js \<Rightarrow> w_resident list"
  building_detail :: "js \<Rightarrow> w_building_detail"
  vendor_detail :: "js \<Rightarrow> w_vendor"

definition crm_start :: crm_page where
  "crm_start = \<lparr>cp_profile = Undefined, cp_buildings = [], cp_vendors = [], cp_contracts = [], cp_residents = [],
     cp_dashboard = None, cp_buildingDetail = None, cp_vendorDetail = None, cp_selectedBuildingId = [],
     cp_selectedVendorId = [], cp_query = [], cp_message = None, cp_error = None, cp_pending = False\<rparr>"

definition formText :: "form \<Rightarrow> string \<Rightarrow> string" where
  "formText filled name = (case map_of filled name of Some (Form_Text s) \<Rightarrow> s | _ \<Rightarrow> [])"

section \<open>Loading\<close>

text \<open>
  \<open>Promise.all\<close>: every part is started, whatever becomes of the others; the first rejection is that of
  the whole.  Here the parts are answered in the order in which they were started.
\<close>

fun settle_all :: "('p, 'a) program list \<Rightarrow> ('p, (thrown + 'a) list) program" where
  "settle_all [] = Return []"
| "settle_all (m # ms) = and_then (attempt m) (\<lambda>r. and_then (settle_all ms) (\<lambda>rs. Return (r # rs)))"

fun all_values :: "(thrown + 'a) list \<Rightarrow> thrown + 'a list" where
  "all_values [] = Inr []"
| "all_values (Inl e # rs) = Inl e"
| "all_values (Inr x # rs) = (case all_values rs of Inl e \<Rightarrow> Inl e | Inr xs \<Rightarrow> Inr (x # xs))"

definition promise_all :: "('p, 'a) program list \<Rightarrow> ('p, 'a list) program" where
  "promise_all ms = and_then (settle_all ms) (\<lambda>rs. lift_outcome (all_values rs))"

definition keep_or_first :: "('a \<Rightarrow> string) \<Rightarrow> 'a list \<Rightarrow> string \<Rightarrow> string" where
  "keep_or_first ident data selected =
     (if selected \<noteq> [] then selected else case first_of data of None \<Rightarrow> [] | Some x \<Rightarrow> ident x)"

definition crm_loaded :: "crm_casts \<Rightarrow> js \<Rightarrow> js list \<Rightarrow> crm_page \<Rightarrow> crm_page" where
  "crm_loaded cast current parts p =
     (let data = building_data cast (parts ! 0); sellers = vendor_data cast (parts ! 1) in
      p\<lparr>cp_profile := current, cp_buildings := data, cp_vendors := sellers,
        cp_contracts := contract_data cast (parts ! 2), cp_dashboard := Some (dashboard_data cast (parts ! 3)),
        cp_residents := resident_data cast (parts ! 4),
        cp_selectedBuildingId := keep_or_first wb_id data (cp_selectedBuildingId p),
        cp_selectedVendorId := keep_or_first wo_id sellers (cp_selectedVendorId p)\<rparr>)"

definition load_crm :: "web_config \<Rightarrow> crm_casts \<Rightarrow> string \<Rightarrow> (crm_page, unit) program" where
  "load_crm conf cast search =
     catch
       (and_then (apiRequest conf ''/auth/me'' get_init True) (\<lambda>current.
        and_then (lift_outcome (organization_path current ''/crm'')) (\<lambda>path.
        let suffix = (if search \<noteq> [] then ''?q='' @ encodeURIComponent search else []);
            ask = (\<lambda>rest. apiRequest conf (path @ rest) get_init True)
        in and_then
             (promise_all
               [ask (''/buildings'' @ suffix), ask (''/vendors'' @ suffix), ask (''/contracts'' @ suffix),
                ask ''/dashboard'', catch (ask ''/residents'') (\<lambda>_. Return (Array []))]) (\<lambda>parts.
           Set_State (crm_loaded cast current parts) (Return ())))))
       (\<lambda>_. Go_To ''/login'' (Return ()))"

text \<open>The two effects that follow the selection.\<close>

definition detail_effect ::
  "web_config \<Rightarrow> js \<Rightarrow> string \<Rightarrow> string \<Rightarrow> (js option \<Rightarrow> crm_page \<Rightarrow> crm_page) \<Rightarrow> (crm_page, unit) program" where
  "detail_effect conf profile kind selected put =
     (if nullish profile \<or> selected = [] then Set_State (put None) (Return ())
      else
        and_then (lift_outcome (organization_path profile (''/crm/'' @ kind @ ''/'' @ selected))) (\<lambda>path.
        catch (and_then (apiRequest conf path get_init True) (\<lambda>v. Set_State (put (Some v)) (Return ())))
          (\<lambda>_. Set_State (put None) (Return ()))))"

definition building_effect :: "web_config \<Rightarrow> crm_casts \<Rightarrow> crm_page \<Rightarrow> (crm_page, unit) program" where
  "building_effect conf cast page =
     detail_effect conf (cp_profile page) ''buildings'' (cp_selectedBuildingId page)
       (\<lambda>v p. p\<lparr>cp_buildingDetail := map_option (building_detail cast) v\<rparr>)"

definition vendor_effect :: "web_config \<Rightarrow> crm_casts \<Rightarrow> crm_page \<Rightarrow> (crm_page, unit) program" where
  "vendor_effect conf cast page =
     detail_effect conf (cp_profile page) ''vendors'' (cp_selectedVendorId page)
       (\<lambda>v p. p\<lparr>cp_vendorDetail := map_option (vendor_detail cast) v\<rparr>)"

section \<open>Actions\<close>

definition perform ::
  "web_config \<Rightarrow> crm_casts \<Rightarrow> crm_page \<Rightarrow> (crm_page, string) program \<Rightarrow> (crm_page, unit) program" where
  "perform conf cast page action =
     Set_State (\<lambda>p. p\<lparr>cp_pending := True\<rparr>) (Set_State (\<lambda>p. p\<lparr>cp_message := None\<rparr>)
     (Set_State (\<lambda>p. p\<lparr>cp_error := None\<rparr>)
     (finally_do
       (catch
         (and_then action (\<lambda>m. Set_State (\<lambda>p. p\<lparr>cp_message := Some m\<rparr>) (load_crm conf cast (cp_query page))))
         (\<lambda>e. Set_State (\<lambda>p. p\<lparr>cp_error := Some (message_of ''The CRM action failed.'' e)\<rparr>) (Return ())))
       (Set_State (\<lambda>p. p\<lparr>cp_pending := False\<rparr>) (Return ())))))"

definition crm_path :: "crm_page \<Rightarrow> string \<Rightarrow> thrown + string" where
  "crm_path page suffix =
     (if nullish (cp_profile page) then Inl (Js_Error ''Organization context is still loading.'')
      else organization_path (cp_profile page) (''/crm'' @ suffix))"

definition or_undefined :: "js \<Rightarrow> js" where
  "or_undefined v = (if js_truthy v then v else Undefined)"

text \<open>The request of an action: the form is taken before it and reset after it.\<close>

definition create_at ::
  "web_config \<Rightarrow> crm_page \<Rightarrow> string \<Rightarrow> (string \<times> js) list \<Rightarrow> (js \<Rightarrow> (crm_page, string) program) \<Rightarrow>
     (crm_page, string) program" where
  "create_at conf page suffix body done =
     and_then (lift_outcome (crm_path page suffix)) (\<lambda>path.
     and_then (apiRequest conf path (json_post [] (json_body body)) True) (\<lambda>created.
     Reset_Form (done created)))"

definition createBuilding :: "web_config \<Rightarrow> crm_page \<Rightarrow> form \<Rightarrow> (crm_page, string) program" where
  "createBuilding conf page filled =
     create_at conf page ''/buildings''
       (map (\<lambda>k. (k, form_get k filled)) [''name'', ''addressLine1'', ''city'', ''postalCode'', ''countryCode''])
       (\<lambda>created.
        and_then (lift_outcome (get_prop ''id'' created)) (\<lambda>bid.
        Set_State (\<lambda>p. p\<lparr>cp_selectedBuildingId := shown bid\<rparr>)
        (and_then (lift_outcome (get_prop ''name'' created)) (\<lambda>name.
         Return (''Building '' @ [CHR 0xE2, CHR 0x80, CHR 0x9C] @ js_string name @ [CHR 0xE2, CHR 0x80, CHR 0x9D] @
           '' created.'')))))"

definition createApartment :: "web_config \<Rightarrow> crm_page \<Rightarrow> form \<Rightarrow> (crm_page, string) program" where
  "createApartment conf page filled =
     (if cp_selectedBuildingId page = [] then Throw (Js_Error ''Select a building first.'')
      else
        create_at conf page (''/buildings/'' @ cp_selectedBuildingId page @ ''/apartments'')
          [(''unitNumber'', form_get ''unitNumber'' filled), (''floor'', or_undefined (form_get ''floor'' filled))]
          (\<lambda>apartment.
           and_then (lift_outcome (get_prop ''unitNumber'' apartment)) (\<lambda>unit.
           Return (''Apartment '' @ js_string unit @ '' created. Select it below to link a resident.''))))"

definition createOccupancy :: "web_config \<Rightarrow> crm_page \<Rightarrow> form \<Rightarrow> (crm_page, string) program" where
  "createOccupancy conf page filled =
     create_at conf page (''/apartments/'' @ formText filled ''apartmentId'' @ ''/occupancies'')
       [(''membershipId'', form_get ''membershipId'' filled), (''startsOn'', form_get ''startsOn'' filled),
        (''endsOn'', or_undefined (form_get ''endsOn'' filled))]
       (\<lambda>_. Return ''Resident occupancy linked to the authorized building.'')"

definition createVendor :: "web_config \<Rightarrow> crm_page \<Rightarrow> form \<Rightarrow> (crm_page, string) program" where
  "createVendor conf page filled =
     (let buildingId = formText filled ''buildingId'' in
      create_at conf page ''/vendors''
        [(''legalName'', form_get ''legalName'' filled),
         (''registrationNumber'', or_undefined (form_get ''registrationNumber'' filled)),
         (''email'', or_undefined (form_get ''email'' filled)),
         (''phone'', or_undefined (form_get ''phone'' filled)),
         (''status'', Text ''ACTIVE''),
         (''tags'', Array (map Text (filter (\<lambda>t. t \<noteq> []) (map js_trim (split_on (CHR '','') (formText filled ''tags'')))))),
         (''buildingIds'', Array (if buildingId \<noteq> [] then [Text buildingId] else []))]
        (\<lambda>created.
         and_then (lift_outcome (get_prop ''id'' created)) (\<lambda>vid.
         Set_State (\<lambda>p. p\<lparr>cp_selectedVendorId := shown vid\<rparr>)
         (and_then (lift_outcome (get_prop ''legalName'' created)) (\<lambda>name.
          Return (''Vendor Trust Passport created for '' @ js_string name @ ''.''))))))"

definition web_addBankVersion :: "web_config \<Rightarrow> crm_page \<Rightarrow> form \<Rightarrow> (crm_page, string) program" where
  "web_addBankVersion conf page filled =
     (if cp_selectedVendorId page = [] then Throw (Js_Error ''Select a vendor first.'')
      else
        create_at conf page (''/vendors/'' @ cp_selectedVendorId page @ ''/bank-accounts'')
          [(''accountHolder'', form_get ''accountHolder'' filled),
           (''bankName'', or_undefined (form_get ''bankName'' filled)),
           (''countryCode'', form_get ''bankCountryCode'' filled),
           (''accountNumber'', form_get ''accountNumber'' filled)]
          (\<lambda>created.
           and_then (lift_outcome (get_prop ''versionNumber'' created)) (\<lambda>v.
           and_then (lift_outcome (get_prop ''maskedAccount'' created)) (\<lambda>mask.
           Return (''Encrypted bank version '' @ js_string v @ '' added as '' @ js_string mask @ ''.'')))))"

definition createContract :: "web_config \<Rightarrow> crm_page \<Rightarrow> form \<Rightarrow> (crm_page, string) program" where
  "createContract conf page filled =
     (let valueLimit = formText filled ''valueLimit'' in
      create_at conf page ''/contracts''
        [(''vendorId'', form_get ''vendorId'' filled), (''reference'', form_get ''reference'' filled),
         (''title'', form_get ''title'' filled), (''serviceCategory'', form_get ''serviceCategory'' filled),
         (''valueLimit'', or_undefined (Text valueLimit)),
         (''currency'', if valueLimit \<noteq> [] then form_get ''currency'' filled else Undefined),
         (''startsOn'', form_get ''startsOn'' filled), (''endsOn'', or_undefined (form_get ''endsOn'' filled)),
         (''status'', Text ''ACTIVE''),
         (''documentReference'', or_undefined (form_get ''documentReference'' filled)),
         (''buildingIds'', Array [form_get ''buildingId'' filled])]
        (\<lambda>created.
         and_then (lift_outcome (get_prop ''reference'' created)) (\<lambda>reference.
         Return (''Contract '' @ js_string reference @ '' created.''))))"

datatype crm_event =
    Search_Submitted
  | Query_Typed string
  | Choose_Building string
  | Choose_Vendor string
  | Create_Building_Submitted
  | Create_Apartment_Submitted
  | Create_Occupancy_Submitted
  | Create_Vendor_Submitted
  | Add_Bank_Version_Submitted
  | Create_Contract_Submitted

fun crm_dispatch :: "web_config \<Rightarrow> crm_casts \<Rightarrow> crm_page \<Rightarrow> crm_event \<Rightarrow> form \<Rightarrow> (crm_page, unit) program" where
  "crm_dispatch conf cast page Search_Submitted filled = load_crm conf cast (cp_query page)"
| "crm_dispatch conf cast page (Query_Typed q) filled = Set_State (\<lambda>p. p\<lparr>cp_query := q\<rparr>) (Return ())"
| "crm_dispatch conf cast page (Choose_Building b) filled = Set_State (\<lambda>p. p\<lparr>cp_selectedBuildingId := b\<rparr>) (Return ())"
| "crm_dispatch conf cast page (Choose_Vendor v) filled = Set_State (\<lambda>p. p\<lparr>cp_selectedVendorId := v\<rparr>) (Return ())"
| "crm_dispatch conf cast page Create_Building_Submitted filled = perform conf cast page (createBuilding conf page filled)"
| "crm_dispatch conf cast page Create_Apartment_Submitted filled = perform conf cast page (createApartment conf page filled)"
| "crm_dispatch conf cast page Create_Occupancy_Submitted filled = perform conf cast page (createOccupancy conf page filled)"
| "crm_dispatch conf cast page Create_Vendor_Submitted filled = perform conf cast page (createVendor conf page filled)"
| "crm_dispatch conf cast page Add_Bank_Version_Submitted filled = perform conf cast page (web_addBankVersion conf page filled)"
| "crm_dispatch conf cast page Create_Contract_Submitted filled = perform conf cast page (createContract conf page filled)"

end
