(* ===== verification/Web_Crm_View.thy ===== *)
theory Web_Crm_View
  imports Web_Crm
begin

text \<open>
  What \<open>apps/web/app/crm/page.tsx\<close> shows.  The date format of the browser, \<open>toLocaleDateString\<close>, is a parameter.
\<close>

definition action_form :: "crm_event \<Rightarrow> string \<Rightarrow> crm_event node list \<Rightarrow> crm_event node" where
  "action_form e title kids =
     Element ''form'' [Attr ''className'' ''compact-form'', On ''onSubmit'' e] (says ''h3'' title # kids)"

definition text_input :: "string \<Rightarrow> string \<Rightarrow> 'e attribute list \<Rightarrow> 'e node" where
  "text_input name placeholder attrs = input name (Attr ''placeholder'' placeholder # attrs)"

abbreviation required :: "'e attribute" where
  "required \<equiv> Flag ''required'' True"

definition choice :: "string \<Rightarrow> string \<Rightarrow> (string \<times> string) list \<Rightarrow> 'e node" where
  "choice name blank options =
     Element ''select'' [Attr ''name'' name, required]
       (map (\<lambda>(v, s). Element ''option'' [Attr ''value'' v] [Words s]) (([], blank) # options))"

definition selector :: "string \<Rightarrow> (string \<Rightarrow> 'e) \<Rightarrow> string \<Rightarrow> (string \<times> string) list \<Rightarrow> 'e node" where
  "selector selected e blank options =
     Element ''select'' [Attr ''value'' selected, On_Value e]
       (map (\<lambda>(v, s). Element ''option'' [Attr ''value'' v] [Words s]) (([], blank) # options))"

definition submit_button :: "bool \<Rightarrow> string \<Rightarrow> 'e node" where
  "submit_button off s = Element ''button'' [Flag ''disabled'' off] [Words s]"

section \<open>Head and figures\<close>

definition crm_head :: "crm_page \<Rightarrow> thrown + crm_event node list" where
  "crm_head p =
     (case (if nullish (cp_profile p) then Inr (''Loading tenant'' @ ellipsis)
            else
              case path_of [''organization'', ''name''] (cp_profile p) of Inl e \<Rightarrow> Inl e | Inr name \<Rightarrow>
              case path_of [''organization'', ''role''] (cp_profile p) of Inl e \<Rightarrow> Inl e | Inr rol \<Rightarrow>
                Inr (js_string name @ middle_dot @ js_string rol)) of
        Inl e \<Rightarrow> Inl e
      | Inr tenant \<Rightarrow> Inr
          [Element ''nav'' [Attr ''aria-label'' ''CRM navigation'']
             [class_link ''brand'' ''/'' ''BLOCTRUST'',
              box ''div'' ''nav-links'' [says ''span'' tenant, link ''/security'' ''Security'']],
           box ''header'' ''crm-header''
             [plain ''div''
                [box ''p'' ''eyebrow'' [Words (''CRM CORE'' @ middle_dot @ ''0.3.0'')],
                 says ''h1'' ''Operational trust, building by building.''],
              Element ''form'' [Attr ''className'' ''search-form'', On ''onSubmit'' Search_Submitted]
                [plain ''label''
                   [Words ''Tenant-scoped search'',
                    Element ''input'' [Attr ''value'' (cp_query p), On_Value Query_Typed,
                      Attr ''placeholder'' (''Vendor, contract, building'' @ ellipsis)] []],
                 Element ''button'' [Attr ''type'' ''submit''] [Words ''Search'']]]])"

definition metric :: "string \<Rightarrow> string \<Rightarrow> nat \<Rightarrow> string \<Rightarrow> 'e node" where
  "metric cls title n remark =
     box ''article'' cls [says ''span'' title, says ''strong'' (show_nat n), says ''small'' remark]"

definition metrics :: "crm_page \<Rightarrow> crm_event node" where
  "metrics p =
     Element ''section'' [Attr ''className'' ''metric-grid'', Attr ''aria-label'' ''CRM dashboard'']
       [metric ''metric-card signal'' ''Buildings'' (length (cp_buildings p)) ''visible in this tenant context'',
        metric ''metric-card'' ''Vendor passports'' (length (cp_vendors p))
          (show_nat (case cp_dashboard p of None \<Rightarrow> 0 | Some h \<Rightarrow> length (wh_incompleteVendors h)) @ '' need evidence''),
        metric ''metric-card'' ''Contracts'' (length (cp_contracts p))
          (show_nat (case cp_dashboard p of None \<Rightarrow> 0 | Some h \<Rightarrow> length (wh_expiringContracts h)) @
            '' expire within 60 days'')]"

section \<open>Buildings\<close>

definition apartments_shown :: "crm_page \<Rightarrow> w_apartment list" where
  "apartments_shown p = (case cp_buildingDetail p of None \<Rightarrow> [] | Some b \<Rightarrow> wb_apartments b)"

definition buildings_list :: "crm_page \<Rightarrow> crm_event node" where
  "buildings_list p =
     box ''div'' ''record-list''
       (map (\<lambda>b. Element ''button'' [Attr ''className'' ''record-row'', On ''onClick'' (Choose_Building (wb_id b))]
          [plain ''span'' [says ''strong'' (wb_name b),
             says ''small'' (wb_addressLine1 b @ middle_dot @ wb_city b)],
           says ''span'' (show_nat (wb_apartmentCount b) @ '' units'')]) (cp_buildings p) @
        map (\<lambda>u. box ''div'' ''subrecord''
          [says ''strong'' (''Unit '' @ wu_unitNumber u),
           says ''span'' (case first_of (wu_occupants u) of None \<Rightarrow> ''Unoccupied'' | Some n \<Rightarrow> n)]) (apartments_shown p))"

definition building_forms :: "crm_page \<Rightarrow> crm_event node" where
  "building_forms p =
     box ''div'' ''form-stack''
       [action_form Create_Building_Submitted ''Create building''
          [text_input ''name'' ''Building name'' [required], text_input ''addressLine1'' ''Street address'' [required],
           box ''div'' ''field-pair''
             [text_input ''city'' ''City'' [required], text_input ''postalCode'' ''Postal code'' [required]],
           input ''countryCode'' [Attr ''defaultValue'' ''MD'', Attr ''minLength'' ''2'', Attr ''maxLength'' ''2'', required],
           submit_button (cp_pending p) ''Create building''],
        action_form Create_Apartment_Submitted ''Add apartment''
          [box ''div'' ''field-pair''
             [text_input ''unitNumber'' ''Unit'' [required], text_input ''floor'' ''Floor'' []],
           submit_button (cp_pending p \<or> cp_selectedBuildingId p = []) ''Add to selected building''],
        action_form Create_Occupancy_Submitted ''Link resident occupancy''
          [choice ''apartmentId'' ''Apartment''
             (map (\<lambda>u. (wu_id u, ''Unit '' @ wu_unitNumber u)) (apartments_shown p)),
           choice ''membershipId'' ''Resident'' (map (\<lambda>r. (wr_id r, wr_displayName r)) (cp_residents p)),
           box ''div'' ''field-pair''
             [input ''startsOn'' [Attr ''type'' ''date'', required], input ''endsOn'' [Attr ''type'' ''date'']],
           submit_button (cp_pending p) ''Link resident'']]"

definition buildings_section :: "crm_page \<Rightarrow> crm_event node" where
  "buildings_section p =
     Element ''section'' [Attr ''className'' ''crm-section'', Attr ''aria-labelledby'' ''buildings-title'']
       [box ''div'' ''section-heading''
          [plain ''div''
             [box ''p'' ''eyebrow'' [Words (''01'' @ middle_dot @ ''BUILDINGS & RESIDENTS'')],
              Element ''h2'' [Attr ''id'' ''buildings-title''] [Words ''Authorized relationships'']],
           selector (cp_selectedBuildingId p) Choose_Building ''Select building''
             (map (\<lambda>b. (wb_id b, wb_name b)) (cp_buildings p))],
        box ''div'' ''work-grid'' [buildings_list p, building_forms p]]"

section \<open>Vendors\<close>

definition history_card :: "w_vendor option \<Rightarrow> 'e node" where
  "history_card v =
     box ''div'' ''history-card''
       (says ''h3'' ''Masked bank-account history'' #
        (case v of
           None \<Rightarrow> [says ''p'' ''Select a vendor.'']
         | Some x \<Rightarrow>
             map (\<lambda>b. box ''div'' ''history-row''
               [says ''span'' (''v'' @ show_nat (wv_versionNumber b) @ middle_dot @ wv_maskedAccountHolder b),
                says ''strong'' (wv_maskedAccount b),
                says ''small'' (case first_of (wv_verifications b) of None \<Rightarrow> ''PENDING'' | Some (st, _) \<Rightarrow> st)])
               (wo_bankAccountVersions x)))"

definition vendors_list :: "crm_page \<Rightarrow> crm_event node" where
  "vendors_list p =
     box ''div'' ''record-list''
       (map (\<lambda>v. Element ''button'' [Attr ''className'' ''record-row'', On ''onClick'' (Choose_Vendor (wo_id v))]
          [plain ''span'' [says ''strong'' (wo_legalName v),
             says ''small'' (let tags = join middle_dot (wo_tags v) in if tags = [] then ''No tags'' else tags)],
           box ''span'' (''status '' @ js_lower (wo_status v)) [Words (wo_status v)]]) (cp_vendors p) @
        [history_card (cp_vendorDetail p)])"

definition vendor_forms :: "crm_page \<Rightarrow> crm_event node" where
  "vendor_forms p =
     box ''div'' ''form-stack''
       [action_form Create_Vendor_Submitted ''Create passport''
          [text_input ''legalName'' ''Legal name'' [required],
           text_input ''registrationNumber'' ''Registration number'' [],
           box ''div'' ''field-pair''
             [input ''email'' [Attr ''type'' ''email'', Attr ''placeholder'' ''Email''], text_input ''phone'' ''Phone'' []],
           text_input ''tags'' ''Tags, comma separated'' [],
           choice ''buildingId'' ''Authorized building'' (map (\<lambda>b. (wb_id b, wb_name b)) (cp_buildings p)),
           submit_button (cp_pending p) ''Create vendor passport''],
        action_form Add_Bank_Version_Submitted ''Add encrypted bank version''
          [text_input ''accountHolder'' ''Account holder'' [required], text_input ''bankName'' ''Bank name'' [],
           text_input ''accountNumber'' ''IBAN / account number'' [required],
           input ''bankCountryCode'' [Attr ''defaultValue'' ''MD'', Attr ''minLength'' ''2'', Attr ''maxLength'' ''2'', required],
           submit_button (cp_pending p \<or> cp_selectedVendorId p = []) ''Add after passkey step-up'',
           says ''small'' ''Full data is authenticated-encrypted. Lists show masks only.'']]"

definition vendors_section :: "crm_page \<Rightarrow> crm_event node" where
  "vendors_section p =
     Element ''section'' [Attr ''className'' ''crm-section dark'', Attr ''aria-labelledby'' ''vendors-title'']
       [box ''div'' ''section-heading''
          [plain ''div''
             [box ''p'' ''eyebrow'' [Words (''02'' @ middle_dot @ ''VENDOR TRUST PASSPORT'')],
              Element ''h2'' [Attr ''id'' ''vendors-title''] [Words ''Evidence before action'']],
           selector (cp_selectedVendorId p) Choose_Vendor ''Select vendor''
             (map (\<lambda>v. (wo_id v, wo_legalName v)) (cp_vendors p))],
        box ''div'' ''work-grid'' [vendors_list p, vendor_forms p]]"

section \<open>Contracts\<close>

definition contracts_list :: "(string \<Rightarrow> string) \<Rightarrow> crm_page \<Rightarrow> crm_event node" where
  "contracts_list local_date p =
     box ''div'' ''record-list''
       (map (\<lambda>c. box ''div'' ''record-row static''
          [plain ''span'' [says ''strong'' (wt_reference c @ middle_dot @ wt_title c),
             says ''small'' (wt_vendorName c @ middle_dot @ wt_serviceCategory c)],
           says ''span'' (if truthy (wt_endsOn c) then local_date (the (wt_endsOn c)) else ''Open ended'')])
        (cp_contracts p))"

definition contract_form :: "crm_page \<Rightarrow> crm_event node" where
  "contract_form p =
     action_form Create_Contract_Submitted ''Create contract''
       [box ''div'' ''field-pair''
          [text_input ''reference'' ''Reference'' [required], text_input ''title'' ''Title'' [required]],
        text_input ''serviceCategory'' ''Service category'' [required],
        choice ''vendorId'' ''Vendor'' (map (\<lambda>v. (wo_id v, wo_legalName v)) (cp_vendors p)),
        choice ''buildingId'' ''Building'' (map (\<lambda>b. (wb_id b, wb_name b)) (cp_buildings p)),
        box ''div'' ''field-pair''
          [input ''valueLimit'' [Attr ''inputMode'' ''decimal'', Attr ''placeholder'' ''Value limit''],
           input ''currency'' [Attr ''defaultValue'' ''MDL'', Attr ''maxLength'' ''3'']],
        box ''div'' ''field-pair''
          [input ''startsOn'' [Attr ''type'' ''date'', required], input ''endsOn'' [Attr ''type'' ''date'']],
        text_input ''documentReference'' ''Document reference (upload arrives in 0.4)'' [],
        submit_button (cp_pending p) ''Create contract'']"

definition contracts_section :: "(string \<Rightarrow> string) \<Rightarrow> crm_page \<Rightarrow> crm_event node" where
  "contracts_section local_date p =
     Element ''section'' [Attr ''className'' ''crm-section'', Attr ''aria-labelledby'' ''contracts-title'']
       [box ''div'' ''section-heading''
          [plain ''div''
             [box ''p'' ''eyebrow'' [Words (''03'' @ middle_dot @ ''CONTRACTS'')],
              Element ''h2'' [Attr ''id'' ''contracts-title''] [Words ''Scope, value and expiry'']]],
        box ''div'' ''work-grid'' [contracts_list local_date p, contract_form p]]"

definition render_crm :: "(string \<Rightarrow> string) \<Rightarrow> crm_page \<Rightarrow> thrown + crm_event node" where
  "render_crm local_date p =
     (case crm_head p of
        Inl e \<Rightarrow> Inl e
      | Inr heading \<Rightarrow> Inr
          (box ''main'' ''crm-shell''
            (heading @ notice ''notice success'' (cp_message p) @ notice ''notice error'' (cp_error p) @
             [metrics p, buildings_section p, vendors_section p, contracts_section local_date p])))"

end
