(* ===== verification/Web_Invoices.thy ===== *)
theory Web_Invoices
  imports Web_Approvals Js_Number Object_Storage
begin

text \<open>
  \<open>apps/web/app/invoices/page.tsx\<close>: upload, review and submission.  \<open>as_invoices\<close> and \<open>as_invoice\<close> are how the
  page sees the answers of the API under their declared types.
\<close>

section \<open>What the page keeps\<close>

record w_processing =
  wx_state :: string
  wx_progress :: nat
  wx_scanResult :: string
  wx_suggestions :: "(string \<times> string) list option"
  wx_errorCode :: "string option"

record w_document =
  wf_id :: string
  wf_originalFilename :: string
  wf_storageState :: string
  wf_duplicateOfDocumentId :: "string option"
  wf_processing :: w_processing

record w_line =
  wn_description :: string
  wn_quantity :: string
  wn_unitPrice :: string
  wn_amount :: string

record w_request =
  wq_id :: string
  wq_version :: nat
  wq_status :: string
  wq_requiredDecisions :: nat
  wq_decisions :: "(string \<times> string \<times> string) list"
  wq_level :: string
  wq_totalScore :: int
  wq_evidenceHash :: string
  wq_contributions :: "w_contribution list"

record w_invoice =
  wi_id :: string
  wi_invoiceNumber :: "string option"
  wi_issueDate :: "string option"
  wi_currency :: "string option"
  wi_totalAmount :: "string option"
  wi_status :: string
  wi_version :: nat
  wi_lines :: "w_line list"
  wi_documents :: "w_document list"
  wi_approvalRequests :: "w_request list"

record invoices_page =
  ip_profile :: js
  ip_invoices :: "w_invoice list"
  ip_selected :: "w_invoice option"
  ip_selectedId :: "string option"
  ip_documentUrl :: "string option"
  ip_message :: "string option"
  ip_error :: "string option"
  ip_pending :: bool

definition invoices_start :: invoices_page where
  "invoices_start = \<lparr>ip_profile = Undefined, ip_invoices = [], ip_selected = None, ip_selectedId = None,
     ip_documentUrl = None, ip_message = None, ip_error = None, ip_pending = False\<rparr>"

record invoice_casts =
  as_invoices :: "js \<Rightarrow> w_invoice list"
  as_invoice :: "js \<Rightarrow> w_invoice"

definition shown_document :: "invoices_page \<Rightarrow> w_document option" where
  "shown_document p = Option.bind (ip_selected p) (\<lambda>i. first_of (wi_documents i))"

section \<open>Its programs\<close>

definition load_invoices :: "web_config \<Rightarrow> invoice_casts \<Rightarrow> invoices_page \<Rightarrow> (invoices_page, unit) program" where
  "load_invoices conf cast page =
     catch
       (and_then (apiRequest conf ''/auth/me'' get_init True) (\<lambda>current.
        and_then (lift_outcome (organization_path current ''/invoices'')) (\<lambda>path.
        and_then (apiRequest conf path get_init True) (\<lambda>answer.
          let data = as_invoices cast answer in
          Set_State (\<lambda>p. p\<lparr>ip_profile := current\<rparr>)
          (Set_State (\<lambda>p. p\<lparr>ip_invoices := data\<rparr>)
          (let targetId = or_else (ip_selectedId page) (map_option wi_id (first_of data)) in
           if \<not> truthy targetId then Return ()
           else
             Set_State (\<lambda>p. p\<lparr>ip_selectedId := targetId\<rparr>)
             (and_then (lift_outcome (organization_path current (''/invoices/'' @ the targetId))) (\<lambda>path.
              and_then (apiRequest conf path get_init True) (\<lambda>detail.
              Set_State (\<lambda>p. p\<lparr>ip_selected := Some (as_invoice cast detail)\<rparr>) (Return ())))))))))
          )
       (\<lambda>_. Go_To ''/login'' (Return ()))"

text \<open>The second effect: while the selected invoice is being processed, every two seconds the page loads again.\<close>

definition polls :: "invoices_page \<Rightarrow> bool" where
  "polls p \<longleftrightarrow> (case ip_selected p of None \<Rightarrow> False | Some i \<Rightarrow> wi_status i = ''PROCESSING'')"

text \<open>A handler that reports its error and is pending while it runs.\<close>

definition guarded :: "string \<Rightarrow> (invoices_page, unit) program \<Rightarrow> (invoices_page, unit) program" where
  "guarded fallback work =
     Set_State (\<lambda>p. p\<lparr>ip_pending := True\<rparr>) (Set_State (\<lambda>p. p\<lparr>ip_error := None\<rparr>)
     (finally_do
       (catch work (\<lambda>e. Set_State (\<lambda>p. p\<lparr>ip_error := Some (message_of fallback e)\<rparr>) (Return ())))
       (Set_State (\<lambda>p. p\<lparr>ip_pending := False\<rparr>) (Return ()))))"

definition web_upload ::
  "web_config \<Rightarrow> invoice_casts \<Rightarrow> bool \<Rightarrow> invoices_page \<Rightarrow> form \<Rightarrow> (invoices_page, unit) program" where
  "web_upload conf cast kept page filled =
     guarded ''Upload failed''
       (and_then (lift_outcome (organization_path (ip_profile page) ''/invoices/uploads'')) (\<lambda>path.
        and_then (apiRequest conf path
          \<lparr>in_method = Some ''POST'', in_headers = [], in_body = Form_Body filled\<rparr> True) (\<lambda>_.
        Set_State (\<lambda>p. p\<lparr>ip_message := Some ''Upload is quarantined and queued for inspection.''\<rparr>)
        (and_then (reset_current_target kept) (\<lambda>_. load_invoices conf cast page)))))"

definition selectInvoice ::
  "web_config \<Rightarrow> invoice_casts \<Rightarrow> invoices_page \<Rightarrow> string \<Rightarrow> (invoices_page, unit) program" where
  "selectInvoice conf cast page iid =
     Set_State (\<lambda>p. p\<lparr>ip_selectedId := Some iid\<rparr>)
       (and_then (lift_outcome (organization_path (ip_profile page) (''/invoices/'' @ iid))) (\<lambda>path.
        and_then (apiRequest conf path get_init True) (\<lambda>detail.
        Set_State (\<lambda>p. p\<lparr>ip_selected := Some (as_invoice cast detail)\<rparr>)
        (Set_State (\<lambda>p. p\<lparr>ip_documentUrl := None\<rparr>) (Return ())))))"

definition previewDocument ::
  "web_config \<Rightarrow> invoices_page \<Rightarrow> string \<Rightarrow> (invoices_page, unit) program" where
  "previewDocument conf page documentId =
     and_then (lift_outcome (organization_path (ip_profile page)
       (''/invoices/documents/'' @ documentId @ ''/download-authorizations''))) (\<lambda>path.
     and_then (apiRequest conf path post True) (\<lambda>authorization.
     and_then (lift_outcome (organization_path (ip_profile page)
       (''/invoices/documents/'' @ documentId @ ''/content?token=''))) (\<lambda>content.
     and_then (lift_outcome (get_prop ''token'' authorization)) (\<lambda>token.
     Set_State (\<lambda>p. p\<lparr>ip_documentUrl := Some (apiUrl conf (content @ encodeURIComponent (js_string token)))\<rparr>)
       (Return ())))))"

text \<open>\<open>value(name)\<close>: the trimmed text of a field, or \<open>undefined\<close> when that is empty.\<close>

definition field_value :: "form \<Rightarrow> string \<Rightarrow> js" where
  "field_value filled name =
     (case map_of filled name of
        Some (Form_Text s) \<Rightarrow> (if js_trim s = [] then Undefined else Text (js_trim s))
      | _ \<Rightarrow> Undefined)"

definition number_value :: "js \<Rightarrow> js" where
  "number_value v =
     (case v of Text s \<Rightarrow> (case js_number s of None \<Rightarrow> NaN | Some q \<Rightarrow> Number q) | _ \<Rightarrow> Undefined)"

definition draft_body :: "w_invoice \<Rightarrow> form \<Rightarrow> js" where
  "draft_body selected filled =
     json_body
       [(''version'', Number (of_nat (wi_version selected))),
        (''invoiceNumber'', field_value filled ''invoiceNumber''),
        (''issueDate'', field_value filled ''issueDate''),
        (''currency'', field_value filled ''currency''),
        (''totalAmount'', number_value (field_value filled ''totalAmount''))]"

definition read_selected :: "w_invoice option \<Rightarrow> string \<Rightarrow> thrown + w_invoice" where
  "read_selected i k = (case i of None \<Rightarrow> Inl (read_of ''undefined'' k) | Some x \<Rightarrow> Inr x)"

definition web_save ::
  "web_config \<Rightarrow> invoice_casts \<Rightarrow> invoices_page \<Rightarrow> form \<Rightarrow> (invoices_page, unit) program" where
  "web_save conf cast page filled =
     guarded ''Save failed''
       (and_then (lift_outcome (organization_path (ip_profile page) ''/invoices/'')) (\<lambda>path.
        and_then (lift_outcome (read_selected (ip_selected page) ''id'')) (\<lambda>selected.
        and_then (apiRequest conf (path @ wi_id selected @ ''/draft'')
          \<lparr>in_method = Some ''PATCH'', in_headers = [], in_body = Json_Body (draft_body selected filled)\<rparr> True) (\<lambda>_.
        Set_State (\<lambda>p. p\<lparr>ip_message := Some ''Draft saved. OCR suggestions remain unchanged as evidence.''\<rparr>)
        (load_invoices conf cast page)))))"

definition submitForApproval ::
  "web_config \<Rightarrow> invoice_casts \<Rightarrow> invoices_page \<Rightarrow> (invoices_page, unit) program" where
  "submitForApproval conf cast page =
     (case ip_selected page of
        None \<Rightarrow> Return ()
      | Some selected \<Rightarrow>
          guarded ''Submission failed''
            (and_then (lift_outcome (organization_path (ip_profile page)
               (''/invoices/'' @ wi_id selected @ ''/submit''))) (\<lambda>path.
             Random_UUID (\<lambda>key.
             and_then (apiRequest conf path
               (json_post [(''Idempotency-Key'', key)]
                 (json_body [(''version'', Number (of_nat (wi_version selected)))])) True) (\<lambda>_.
             Set_State (\<lambda>p. p\<lparr>ip_message :=
               Some ''Risk evidence stored. The approval request is now frozen to this version.''\<rparr>)
             (load_invoices conf cast page))))))"

datatype invoices_event =
    Upload_Submitted
  | Select_Invoice string
  | Preview string
  | Save_Submitted
  | Submit_Clicked

fun invoices_dispatch ::
  "web_config \<Rightarrow> invoice_casts \<Rightarrow> bool \<Rightarrow> invoices_page \<Rightarrow> invoices_event \<Rightarrow> form \<Rightarrow> (invoices_page, unit) program" where
  "invoices_dispatch conf cast kept page Upload_Submitted filled = web_upload conf cast kept page filled"
| "invoices_dispatch conf cast kept page (Select_Invoice iid) filled = selectInvoice conf cast page iid"
| "invoices_dispatch conf cast kept page (Preview did) filled = previewDocument conf page did"
| "invoices_dispatch conf cast kept page Save_Submitted filled = web_save conf cast page filled"
| "invoices_dispatch conf cast kept page Submit_Clicked filled = submitForApproval conf cast page"

section \<open>What it shows\<close>

definition upload_card :: "bool \<Rightarrow> invoices_event node" where
  "upload_card pending =
     Element ''form'' [Attr ''className'' ''upload-card'', On ''onSubmit'' Upload_Submitted]
       [plain ''label'' [Words ''PDF, PNG, or JPEG'',
          input ''document'' [Attr ''type'' ''file'', Attr ''accept'' ''application/pdf,image/png,image/jpeg'',
            Flag ''required'' True]],
        Element ''button'' [Flag ''disabled'' pending] [Words ''Upload invoice'']]"

definition inbox_entry :: "w_invoice option \<Rightarrow> w_invoice \<Rightarrow> invoices_event node" where
  "inbox_entry selected i =
     Element ''button''
       [Attr ''className'' (if map_option wi_id selected = Some (wi_id i) then ''selected'' else []),
        On ''onClick'' (Select_Invoice (wi_id i))]
       [says ''strong'' (case wi_invoiceNumber i of None \<Rightarrow> ''Unreviewed invoice'' | Some n \<Rightarrow> n),
        says ''span'' (wi_status i @ middle_dot @
          show_nat (case first_of (wi_documents i) of None \<Rightarrow> 0 | Some x \<Rightarrow> wx_progress (wf_processing x)) @ ''%'')]"

definition document_panel :: "string option \<Rightarrow> w_document option \<Rightarrow> invoices_event node" where
  "document_panel documentUrl x =
     box ''div'' ''document-panel''
       [if truthy documentUrl
        then Element ''iframe'' [Attr ''title'' ''Invoice source document'', Attr ''src'' (the documentUrl)] []
        else
          (let stored = (case x of None \<Rightarrow> False | Some f \<Rightarrow> wf_storageState f = ''APPROVED'') in
           box ''div'' ''document-placeholder''
             ([says ''strong'' (case x of None \<Rightarrow> ''Select an invoice'' | Some f \<Rightarrow> wf_originalFilename f),
               says ''span'' (if stored then ''Malware scan passed'' else ''Preview locked during quarantine'')] @
              (if stored then [Element ''button'' [On ''onClick'' (Preview (wf_id (the x)))]
                 [Words ''Authorize 60-second preview'']] else [])))]"

definition suggestion :: "w_document option \<Rightarrow> string \<Rightarrow> string" where
  "suggestion x k =
     (case Option.bind x (\<lambda>f. wx_suggestions (wf_processing f)) of
        None \<Rightarrow> em_dash
      | Some s \<Rightarrow> (case map_of s k of None \<Rightarrow> em_dash | Some v \<Rightarrow> v))"

definition review_field ::
  "w_document option \<Rightarrow> string \<Rightarrow> string \<Rightarrow> 'e attribute list \<Rightarrow> string option \<Rightarrow> 'e node" where
  "review_field x label name attrs initial =
     plain ''label'' [Words label, says ''small'' (''OCR: '' @ suggestion x name),
       input name (attrs @ [Attr ''defaultValue'' (case initial of None \<Rightarrow> [] | Some v \<Rightarrow> v)])]"

definition can_save :: "w_invoice option \<Rightarrow> w_document option \<Rightarrow> bool" where
  "can_save selected x \<longleftrightarrow>
     (case selected of
        None \<Rightarrow> False
      | Some i \<Rightarrow>
          wi_status i = ''NEEDS_REVIEW'' \<or> wi_status i = ''AWAITING_APPROVAL'' \<or>
          wi_status i = ''MANUAL_REVIEW'' \<and>
            (case x of
               None \<Rightarrow> False
             | Some f \<Rightarrow> wf_storageState f = ''APPROVED'' \<and> wx_scanResult (wf_processing f) = ''CLEAN''))"

definition risk_card :: "w_request \<Rightarrow> 'e node" where
  "risk_card r =
     box ''section'' (''risk-card '' @ js_lower (wq_level r))
       ([box ''p'' ''eyebrow'' [Words ''EXPLAINABLE RISK''],
         says ''h3'' (wq_level r @ middle_dot @ show_int (wq_totalScore r) @ '' points'')] @
        map (\<lambda>item. plain ''p''
          [says ''strong'' (''+'' @ show_int (wk_score item) @ '' '' @ wk_rule item), says ''span'' (wk_explanation item)])
          (wq_contributions r) @
        [says ''small'' (''Evidence '' @ take 16 (wq_evidenceHash r) @ ellipsis),
         link ''/approvals'' ''Review approval evidence''])"

definition review_panel :: "bool \<Rightarrow> w_invoice option \<Rightarrow> w_document option \<Rightarrow> invoices_event node" where
  "review_panel pending selected x =
     Element ''form'' [Attr ''className'' ''review-panel'', On ''onSubmit'' Save_Submitted]
       ([says ''h2'' ''Reviewer draft'',
         says ''p'' ''Suggestions never write these fields automatically.'',
         review_field x ''Invoice number'' ''invoiceNumber'' [] (Option.bind selected wi_invoiceNumber),
         review_field x ''Issue date'' ''issueDate'' [Attr ''type'' ''date'']
           (map_option (take 10) (Option.bind selected wi_issueDate)),
         review_field x ''Currency'' ''currency'' [Attr ''maxLength'' ''3''] (Option.bind selected wi_currency),
         review_field x ''Total'' ''totalAmount'' [Attr ''type'' ''number'', Attr ''min'' ''0'', Attr ''step'' ''0.01'']
           (Option.bind selected wi_totalAmount)] @
        only_if (truthy (Option.bind x wf_duplicateOfDocumentId))
          (box ''p'' ''notice error'' [Words ''Exact duplicate detected.'']) @
        only_if (map_option wi_status selected = Some ''AWAITING_APPROVAL'')
          (box ''p'' ''notice error''
            [Words ''Saving changes invalidates the current decisions and requires a new risk version.'']) @
        [Element ''button'' [Flag ''disabled'' (pending \<or> \<not> can_save selected x)] [Words ''Save reviewer draft'']] @
        only_if (map_option wi_status selected = Some ''NEEDS_REVIEW'')
          (Element ''button'' [Attr ''type'' ''button'', Flag ''disabled'' pending, On ''onClick'' Submit_Clicked]
            [Words ''Score risk and request approval'']) @
        (case Option.bind selected (\<lambda>i. first_of (wi_approvalRequests i)) of
           None \<Rightarrow> [] | Some r \<Rightarrow> [risk_card r]))"

definition render_invoices :: "invoices_page \<Rightarrow> thrown + invoices_event node" where
  "render_invoices p =
     (case optional_path [''organization'', ''name''] (ip_profile p) of
        Inl e \<Rightarrow> Inl e
      | Inr name \<Rightarrow> Inr
          (box ''main'' ''invoice-shell''
            ([plain ''nav''
                [class_link ''brand'' ''/'' ''BLOCTRUST'',
                 says ''span'' ((if nullish name then ''Secure invoice pipeline'' else shown name) @ middle_dot @ ''0.5.0''),
                 link ''/crm'' ''CRM'', link ''/approvals'' ''Approvals''],
              box ''header'' ''invoice-header''
                [plain ''div''
                   [box ''p'' ''eyebrow'' [Words ''SECURE INVOICE VERTICAL SLICE''],
                    says ''h1'' ''Quarantine first. Review second.''],
                 upload_card (ip_pending p)]] @
             notice ''notice success'' (ip_message p) @
             notice ''notice error'' (ip_error p) @
             [box ''section'' ''invoice-workspace''
                [box ''aside'' ''invoice-list''
                   (says ''h2'' ''Inbox'' # map (inbox_entry (ip_selected p)) (ip_invoices p)),
                 document_panel (ip_documentUrl p) (shown_document p),
                 review_panel (ip_pending p) (ip_selected p) (shown_document p)]])))"

end
