(* ===== verification/Web_Run.thy ===== *)
theory Web_Run
  imports Web_Server Web_Requests Web_Approvals Web_Account Web_Crm_View Web_Invoices
begin

text \<open>
  The pages and the API together.  \<open>page_sends\<close> is every request that some page sends, whatever its state, whatever the
  network answered before and whatever the user typed, as long as the page offers the action; \<open>web_step\<close> is one
  such request answered by the API, one attempt of the worker, a webhook of the bank, or a document the browser fetches.
\<close>

inductive page_sends :: "web_config \<Rightarrow> web_request \<Rightarrow> bool" for conf where
  login: "user_can (render_login lp) () filled \<Longrightarrow> rq \<in> requests_of (submit_login conf filled) \<Longrightarrow> page_sends conf rq"
| onboarding:
    "user_can (render_onboarding lp) () filled \<Longrightarrow> rq \<in> requests_of (submit_onboarding conf filled) \<Longrightarrow> page_sends conf rq"
| security_load: "rq \<in> requests_of (loadProfile conf) \<Longrightarrow> page_sends conf rq"
| security:
    "render_security sp = Inr st \<Longrightarrow> user_can st sev filled \<Longrightarrow> rq \<in> requests_of (security_dispatch conf sev) \<Longrightarrow>
     page_sends conf rq"
| approvals_load: "rq \<in> requests_of (load_approvals conf acast) \<Longrightarrow> page_sends conf rq"
| approvals:
    "render_approvals ap = Inr apt \<Longrightarrow> user_can apt aev filled \<Longrightarrow>
     rq \<in> requests_of (approvals_dispatch conf acast still ap aev filled) \<Longrightarrow> page_sends conf rq"
| invoices_load: "rq \<in> requests_of (load_invoices conf icast ip) \<Longrightarrow> page_sends conf rq"
| invoices:
    "render_invoices ip = Inr it \<Longrightarrow> user_can it iev filled \<Longrightarrow>
     rq \<in> requests_of (invoices_dispatch conf icast still ip iev filled) \<Longrightarrow> page_sends conf rq"
| crm_load: "rq \<in> requests_of (load_crm conf ccast search) \<Longrightarrow> page_sends conf rq"
| crm_building: "rq \<in> requests_of (building_effect conf ccast cp) \<Longrightarrow> page_sends conf rq"
| crm_vendor: "rq \<in> requests_of (vendor_effect conf ccast cp) \<Longrightarrow> page_sends conf rq"
| crm:
    "render_crm dateText cp = Inr ct \<Longrightarrow> user_can ct cev filled \<Longrightarrow>
     rq \<in> requests_of (crm_dispatch conf ccast cp cev filled) \<Longrightarrow> page_sends conf rq"

inductive web_step :: "web_config \<Rightarrow> codec \<Rightarrow> api \<Rightarrow> db \<Rightarrow> db \<Rightarrow> bool" for conf cd s where
  page: "page_sends conf rq \<Longrightarrow> exchange conf cd s b now jar ge d0 e rq d = (response, cookies, d') \<Longrightarrow> web_step conf cd s d d'"
| fetched: "wr_method rq = ''GET'' \<Longrightarrow> wr_body rq = No_Body \<Longrightarrow>
     exchange conf cd s b now jar ge d0 e rq d = (response, cookies, d') \<Longrightarrow> web_step conf cd s d d'"
| worker: "process_job e iw j final d = (err, d') \<Longrightarrow> web_step conf cd s d d'"
| bank: "serve s ge d0 e rq' (Public_Call (Webhook p ts sig)) d = (answered, d') \<Longrightarrow> web_step conf cd s d d'"

inductive web_run :: "web_config \<Rightarrow> codec \<Rightarrow> api \<Rightarrow> db \<Rightarrow> db \<Rightarrow> bool" for conf cd s where
  web_refl: "web_run conf cd s d d"
| web_next: "web_run conf cd s d d' \<Longrightarrow> web_step conf cd s d' d'' \<Longrightarrow> web_run conf cd s d d''"

section \<open>What the pages never send\<close>

text \<open>Only the draft form sends a PATCH, and no form of an upload and no draft carries a vendor.\<close>

definition harmless :: "web_request \<Rightarrow> bool" where
  "harmless rq \<longleftrightarrow>
     (wr_method rq = ''PATCH'' \<longrightarrow> (\<exists>kvs. wr_body rq = Json_Body (Object kvs) \<and> ''vendorId'' \<notin> fst ` set kvs)) \<and>
     (\<forall>filled. wr_body rq = Form_Body filled \<longrightarrow> ''vendorId'' \<notin> fst ` set filled)"

lemma harmless_call:
  assumes "in_body call = No_Body \<or> (\<exists>v. in_body call = Json_Body v)" and "in_method call \<in> {None, Some ''POST''}"
  shows "harmless (api_call_of conf path call csrf)"
  using assms by (auto simp: harmless_def api_call_of_def Let_def js_upper_def js_upper_char_def is_lower_def)

lemma harmless_calls [simp]:
  "harmless (api_call_of conf path get_init csrf)" "harmless (api_call_of conf path post csrf)"
  "harmless (api_call_of conf path (json_post hs body) csrf)" "harmless (refresh_call conf csrf)"
  by (auto intro!: harmless_call simp: get_init_def post_def json_post_def refresh_call_def)

lemma harmless_draft:
  "harmless (api_call_of conf path
     \<lparr>in_method = Some ''PATCH'', in_headers = [], in_body = Json_Body (draft_body selected filled)\<rparr> csrf)"
  by (auto simp: harmless_def api_call_of_def Let_def draft_body_def json_body_def)

lemma harmless_upload:
  "''vendorId'' \<notin> fst ` set filled \<Longrightarrow>
   harmless (api_call_of conf path \<lparr>in_method = Some ''POST'', in_headers = [], in_body = Form_Body filled\<rparr> csrf)"
  by (auto simp: harmless_def api_call_of_def Let_def js_upper_def js_upper_char_def is_lower_def)

lemma sends_harmless [sends]:
  "(\<And>csrf. harmless (api_call_of conf path call csrf)) \<Longrightarrow> sends_only harmless (apiRequest conf path call allow)"
  by (rule sends_apiRequest) simp_all

lemma loads_harmless:
  "sends_only harmless (loadProfile conf)" "sends_only harmless (load_approvals conf acast)"
  "sends_only harmless (load_invoices conf icast ip)"
  by (auto simp: loadProfile_def load_approvals_def load_invoices_def Let_def intro!: sends)

lemma settle_harmless: "(\<And>m. m \<in> set ms \<Longrightarrow> sends_only harmless m) \<Longrightarrow> sends_only harmless (promise_all ms)"
proof -
  assume "\<And>m. m \<in> set ms \<Longrightarrow> sends_only harmless m"
  then have "sends_only harmless (settle_all ms)"
    by (induction ms) (auto intro!: sends)
  then show ?thesis by (auto simp: promise_all_def intro!: sends)
qed

lemma crm_loads_harmless:
  "sends_only harmless (load_crm conf ccast search)" "sends_only harmless (building_effect conf ccast cp)"
  "sends_only harmless (vendor_effect conf ccast cp)"
  by (auto simp: load_crm_def building_effect_def vendor_effect_def detail_effect_def Let_def
      intro!: sends settle_harmless)

end
