(* ===== verification/Web_Approvals_Properties.thy ===== *)
theory Web_Approvals_Properties
  imports Web_Server Web_Requests Web_Approvals
begin

text \<open>
  The page on which members decide meets the API as it is: what \<open>/auth/me\<close> answers has no \<open>security\<close>, which the
  page reads when the selected request is pending.
\<close>

section \<open>The value of a call is an answer to it\<close>

lemma execute_once_answer:
  assumes "execute ops (apiRequest conf path call False) s = (Inr x, s')"
  shows "\<exists>csrf w response w'. do_fetch ops (api_call_of conf path call csrf) w = (Inr response, w') \<and>
     response_ok response \<and> ws_json response = Some x"
  using assms
  by (subst (asm) apiRequest.simps) (auto simp: Let_def split: sum.splits prod.splits if_splits option.splits)

lemma execute_answer:
  fixes s s' :: "('p, 'w) situation"
  assumes "execute ops (apiRequest conf path call True) s = (Inr x, s')"
  shows "\<exists>csrf w response w'. do_fetch ops (api_call_of conf path call csrf) w = (Inr response, w') \<and>
     response_ok response \<and> ws_json response = Some x"
proof (rule ccontr)
  assume none: "\<not> ?thesis"
  then have "execute ops (apiRequest conf path call False) t \<noteq> (Inr x, t')" for t t' :: "('p, 'w) situation"
    using execute_once_answer by metis
  with assms none show False
    by (subst (asm) apiRequest.simps) (auto simp: Let_def split: sum.splits prod.splits if_splits option.splits)
qed

text \<open>Surroundings in which a successful answer to \<open>/auth/me\<close> is what \<open>AuthService.me\<close> returns.\<close>

definition me_answered :: "web_config \<Rightarrow> 'w surroundings \<Rightarrow> bool" where
  "me_answered conf ops \<longleftrightarrow>
     (\<forall>rq w response w'. do_fetch ops rq w = (Inr response, w') \<and> wr_url rq = apiUrl conf ''/auth/me'' \<and>
        response_ok response \<longrightarrow> (\<exists>m. ws_json response = Some (me_json m)))"

lemma execute_me:
  assumes "me_answered conf ops" and "execute ops (apiRequest conf ''/auth/me'' get_init True) s = (Inr x, s')"
  shows "\<exists>m. x = me_json m"
proof -
  from execute_answer [OF assms(2)] obtain csrf w response w' where
    "do_fetch ops (api_call_of conf ''/auth/me'' get_init csrf) w = (Inr response, w')" "response_ok response"
    and x: "ws_json response = Some x" by blast
  moreover have "wr_url (api_call_of conf ''/auth/me'' get_init csrf) = apiUrl conf ''/auth/me''"
    by (simp add: api_call_of_def Let_def)
  ultimately obtain m where "ws_json response = Some (me_json m)"
    using assms(1) unfolding me_answered_def by blast
  with x show ?thesis by auto
qed

lemma me_json_parts [simp]:
  "get_prop ''organization'' (me_json m) = Inr (Object
     [(''id'', Text (org_id (me_organization m))), (''slug'', Text (org_slug (me_organization m))),
      (''name'', Text (org_name (me_organization m))), (''role'', Text (role_name (me_role m)))])"
  "get_prop ''security'' (me_json m) = Inr Undefined"
  "nullish (me_json m) = False"
  by (simp_all add: me_json_def)

section \<open>The page after loading\<close>

lemma apiRequest_page [simp]: "at_page (snd (execute ops (apiRequest conf path call allow) s)) = at_page s"
proof -
  have once: "at_page (snd (execute ops (apiRequest conf p call False) s)) = at_page s" for p call s
    by (subst apiRequest.simps) (simp add: Let_def split: sum.split prod.split option.split)
  have page: "at_page s' = at_page s" if "execute ops (apiRequest conf p call False) s = (r, s')" for p call s r s'
    using once [of p call s] that by simp
  show ?thesis
    by (cases allow; subst apiRequest.simps) (auto simp: Let_def once dest!: page split: sum.split prod.split option.split)
qed

lemma apiRequest_pageD: "execute ops (apiRequest conf path call allow) s = (r, s') \<Longrightarrow> at_page s' = at_page s"
  using apiRequest_page [of ops conf path call allow s] by simp

lemma loaded_page:
  assumes "me_answered conf ops" and "at_page s = approvals_start"
    and "execute ops (load_approvals conf cast) s = (r, s')"
  shows "at_page s' = approvals_start \<or> (\<exists>m. ap_profile (at_page s') = me_json m)"
proof -
  obtain r1 s1 where me: "execute ops (apiRequest conf ''/auth/me'' get_init True) s = (r1, s1)" by fastforce
  note p1 = apiRequest_pageD [OF me]
  show ?thesis
  proof (cases r1)
    case (Inl e)
    with me p1 assms(2,3) show ?thesis by (auto simp: load_approvals_def)
  next
    case (Inr x)
    with execute_me [OF assms(1)] me obtain m where "x = me_json m" by blast
    with Inr me have r1: "r1 = Inr (me_json m)" by simp
    obtain r2 s2 where l: "execute ops (apiRequest conf (''/organizations/'' @ org_id (me_organization m) @ ''/approval-requests'')
        get_init True) s1 = (r2, s2)" by fastforce
    note p2 = apiRequest_pageD [OF l]
    show ?thesis
      using assms(2,3) me l p1 p2
      by (auto simp: load_approvals_def r1 organization_path_def Let_def split: sum.splits)
  qed
qed

section \<open>What can be done on it\<close>

lemma evidence_events:
  "clicks (approval_evidence request ns) = concat (map clicks ns)"
  "form_submits (approval_evidence request ns) = concat (map form_submits ns)"
  "value_events (approval_evidence request ns) = concat (map value_events ns)"
  by (simp_all add: approval_evidence_def view_simps evidence_entry_def decision_entry_def comp_def)

lemma entry_events:
  "clicks (approval_entry selected request) = [Select_Request (wa_id request)]"
  "form_submits (approval_entry selected request) = []"
  "value_events (approval_entry selected request) = []"
  by (simp_all add: approval_entry_def view_simps)

text \<open>
  C17: On the page of the approvals no pending request can be decided.  When the page has loaded from an API that
  answers /auth/me as the service does, and whichever request is then selected: if the request is pending, rendering
  throws, because the page reads security.stepUpVerifiedAt of a profile that has no security, and nothing is
  shown; and no page that is shown lets a user send a decision.
\<close>

theorem approvals_page_cannot_decide:
  assumes "me_answered conf ops" and "at_page s = approvals_start"
    and "execute ops (load_approvals conf cast) s = (r, s')"
  shows "let p = (at_page s')\<lparr>ap_selectedId := chosen\<rparr> in
     (\<forall>request. selected_request p = Some request \<and> wa_status request = ''PENDING'' \<longrightarrow>
        render_approvals p = Inl (read_of ''undefined'' ''stepUpVerifiedAt'')) \<and>
     (\<forall>t filled. render_approvals p = Inr t \<longrightarrow> \<not> user_can t Decide_Submitted filled)"
proof -
  define p where "p = (at_page s')\<lparr>ap_selectedId := chosen\<rparr>"
  have p: "selected_request p = None \<or> (\<exists>m. ap_profile p = me_json m)"
    using loaded_page [OF assms]
    by (auto simp: p_def approvals_start_def selected_request_def first_of_def or_else_def)
  have crash: "render_approvals p = Inl (read_of ''undefined'' ''stepUpVerifiedAt'')"
    if "selected_request p = Some request" "wa_status request = ''PENDING''" for request
    using p that by (auto simp: render_approvals_def optional_path_def Let_def)
  moreover have "\<not> user_can t Decide_Submitted filled" if t: "render_approvals p = Inr t" for t filled
  proof -
    obtain nav article where t': "t = box ''main'' ''approval-shell'' ([nav, box ''header'' ''approval-header''
          [box ''p'' ''eyebrow'' [Words ''SEPARATION OF DUTIES''],
            says ''h1'' ''Risk evidence before financial approval.'',
            says ''p'' ''High-risk invoices require two distinct eligible members with recent passkey verification.'']] @
          notice ''notice success'' (ap_message p) @ notice ''notice error'' (ap_error p) @
          [box ''section'' ''approval-workspace''
            [box ''aside'' ''approval-list'' (says ''h2'' ''Requests'' # map (approval_entry (selected_request p)) (ap_requests p)),
             article]])"
      and quiet: "clicks nav = []" "form_submits nav = []" "value_events nav = []"
        "clicks article = []" "form_submits article = []" "value_events article = []"
    proof (cases "selected_request p")
      case None
      with t that show thesis
        by (auto simp: render_approvals_def Let_def view_simps split: sum.splits)
    next
      case (Some request)
      with t crash have "wa_status request \<noteq> ''PENDING''" by auto
      with Some t that show thesis
        by (auto simp: render_approvals_def Let_def evidence_events view_simps split: sum.splits)
    qed
    show ?thesis
      by (auto simp: t' user_can_def quiet entry_events view_simps)
  qed
  ultimately show ?thesis unfolding p_def [symmetric] Let_def by blast
qed

definition demo_me :: me_view where
  "demo_me = \<lparr>me_user = demo_user ''uo'', me_organization = demo_tenant, me_role = OWNER, me_sessionId = ''so'',
     me_stepUp = None, me_passkeyCount = 1\<rparr>"

definition demo_net :: "unit surroundings" where
  "demo_net = \<lparr>do_fetch = (\<lambda>rq w. (Inr \<lparr>ws_status = 200,
       ws_json = Some (if wr_url rq = apiUrl \<lparr>wc_apiUrl = None\<rparr> ''/auth/me'' then me_json demo_me else Array [])\<rparr>, w)),
     do_passkey = (\<lambda>c v w. (Inl Not_An_Error, w)), do_cookies = (\<lambda>w. None), do_uuid = (\<lambda>w. (''id'', w))\<rparr>"

definition demo_pending :: w_approval where
  "demo_pending = \<lparr>wa_id = ''r'', wa_version = 1, wa_status = ''PENDING'', wa_requiredDecisions = 1, wa_invalidatedReason = None,
     wa_invoiceId = ''i'', wa_invoiceNumber = None, wa_totalAmount = None, wa_currency = None,
     wa_invoiceStatus = ''AWAITING_APPROVAL'', wa_ruleVersion = 1, wa_totalScore = 0, wa_level = ''LOW'', wa_evidenceHash = [],
     wa_contributions = [], wa_initiatedBy = ''Ana'', wa_decisions = [], wa_eligibleApprovers = []\<rparr>"

abbreviation fresh_page :: "'p \<Rightarrow> ('p, unit) situation" where
  "fresh_page p \<equiv> \<lparr>at_page = p, at_world = (), at_log = [], at_urls = [], at_resets = 0\<rparr>"

lemma demo_call:
  "execute demo_net (apiRequest \<lparr>wc_apiUrl = None\<rparr> path call True) s =
     (Inr (if path = ''/auth/me'' then me_json demo_me else Array []),
      s\<lparr>at_log := at_log s @ [(api_call_of \<lparr>wc_apiUrl = None\<rparr> path call None, Inr \<lparr>ws_status = 200,
        ws_json = Some (if path = ''/auth/me'' then me_json demo_me else Array [])\<rparr>)]\<rparr>)"
  by (subst apiRequest.simps) (simp add: demo_net_def readCookie_def response_ok_def apiUrl_def api_call_of_def Let_def)

theorem approvals_page_cannot_decide_witness:
  "\<exists>s'. execute demo_net (load_approvals \<lparr>wc_apiUrl = None\<rparr> (\<lambda>_. [demo_pending])) (fresh_page approvals_start) = (Inr (), s') \<and>
     render_approvals (at_page s') = Inl (read_of ''undefined'' ''stepUpVerifiedAt'')"
proof -
  let ?conf = "\<lparr>wc_apiUrl = None\<rparr>" and ?s = "fresh_page approvals_start"
  have honest: "me_answered ?conf demo_net" by (auto simp: me_answered_def demo_net_def)
  have load: "\<exists>s'. execute demo_net (load_approvals ?conf (\<lambda>_. [demo_pending])) ?s = (Inr (), s') \<and>
      ap_selectedId (at_page s') = Some ''r'' \<and> ap_requests (at_page s') = [demo_pending]"
    by (simp add: load_approvals_def demo_call)
      (simp add: demo_call Let_def organization_path_def approvals_start_def or_else_def first_of_def
        demo_pending_def)
  then obtain s' where s': "execute demo_net (load_approvals ?conf (\<lambda>_. [demo_pending])) ?s = (Inr (), s')"
    and page: "ap_selectedId (at_page s') = Some ''r''" "ap_requests (at_page s') = [demo_pending]" by blast
  have "selected_request ((at_page s')\<lparr>ap_selectedId := Some ''r''\<rparr>) = Some demo_pending"
    by (simp add: selected_request_def page or_else_def demo_pending_def)
  moreover have "(at_page s')\<lparr>ap_selectedId := Some ''r''\<rparr> = at_page s'" using page(1) by simp
  ultimately show ?thesis
    using approvals_page_cannot_decide [OF honest _ s', of "Some ''r''"] s' by (auto simp: Let_def demo_pending_def)
qed

end
