(* ===== verification/Web_Invoices_Properties.thy ===== *)
theory Web_Invoices_Properties
  imports Web_Invoices Web_Approvals_Properties
begin

text \<open>The buttons of the invoice page against what the API admits.\<close>

section \<open>How the page sees an invoice\<close>

definition storage_name :: "storage_state \<Rightarrow> string" where
  "storage_name x = (case x of STORED_QUARANTINED \<Rightarrow> ''QUARANTINED'' | STORED_APPROVED \<Rightarrow> ''APPROVED'' | STORED_BLOCKED \<Rightarrow> ''BLOCKED'')"

definition scan_name :: "scan_result \<Rightarrow> string" where
  "scan_name x = (case x of SCAN_PENDING \<Rightarrow> ''PENDING'' | SCAN_CLEAN \<Rightarrow> ''CLEAN'' | SCAN_INFECTED \<Rightarrow> ''INFECTED'' | SCAN_ERROR \<Rightarrow> ''ERROR'')"

text \<open>The answer of the API, read under the declared types.\<close>

definition sees_document :: "document \<times> processing option \<Rightarrow> w_document \<Rightarrow> bool" where
  "sees_document xp f \<longleftrightarrow>
     wf_id f = doc_id (fst xp) \<and> wf_storageState f = storage_name (doc_storageState (fst xp)) \<and>
     (\<exists>pr. snd xp = Some pr \<and> wx_scanResult (wf_processing f) = scan_name (pr_scanResult pr))"

definition sees_invoice :: "invoice_view \<Rightarrow> w_invoice \<Rightarrow> bool" where
  "sees_invoice view w \<longleftrightarrow>
     wi_id w = inv_id (ivw_invoice view) \<and> wi_version w = inv_version (ivw_invoice view) \<and>
     wi_status w = invoice_status_name (inv_status (ivw_invoice view)) \<and>
     list_all2 sees_document (ivw_documents view) (wi_documents w)"

section \<open>What can be done on the page\<close>

lemma risk_card_events [simp]:
  "clicks (risk_card r) = []" "form_submits (risk_card r) = []" "has_submit (risk_card r) = False"
  "field_names (risk_card r) = []" "value_events (risk_card r) = []"
  by (auto simp: risk_card_def view_simps list_ex_iff)

lemma inbox_events [simp]:
  "clicks (inbox_entry selected i) = [Select_Invoice (wi_id i)]" "form_submits (inbox_entry selected i) = []"
  "value_events (inbox_entry selected i) = []"
  by (simp_all add: inbox_entry_def view_simps)

lemma document_panel_events [simp]:
  "form_submits (document_panel u x) = []" "value_events (document_panel u x) = []"
  "Save_Submitted \<notin> set (clicks (document_panel u x))"
  by (auto simp: document_panel_def view_simps Let_def)

lemma upload_card_events [simp]:
  "clicks (upload_card pending) = []" "value_events (upload_card pending) = []"
  "form_submits (upload_card pending) = (if pending then [] else [(Upload_Submitted, [''document''])])"
  by (simp_all add: upload_card_def view_simps)

lemma review_panel_events:
  "Save_Submitted \<notin> set (clicks (review_panel pending selected x))"
  "value_events (review_panel pending selected x) = []"
  "form_submits (review_panel pending selected x) =
     (if \<not> pending \<and> can_save selected x
      then [(Save_Submitted, [''invoiceNumber'', ''issueDate'', ''currency'', ''totalAmount''])] else [])"
  by (auto simp: review_panel_def review_field_def view_simps split: option.split)

lemma render_invoices_parts:
  assumes "render_invoices p = Inr t"
  shows "set (form_submits t) = set (form_submits (upload_card (ip_pending p))) \<union>
       set (form_submits (review_panel (ip_pending p) (ip_selected p) (shown_document p)))"
    "value_events t = []"
    "set (clicks t) = Select_Invoice ` wi_id ` set (ip_invoices p) \<union>
       set (clicks (document_panel (ip_documentUrl p) (shown_document p))) \<union>
       set (clicks (review_panel (ip_pending p) (ip_selected p) (shown_document p)))"
  using assms
  by (auto simp: render_invoices_def view_simps review_panel_events comp_def split: sum.splits)

lemma save_offered:
  assumes "render_invoices p = Inr t"
  shows "(\<exists>filled. user_can t Save_Submitted filled) \<longleftrightarrow>
     \<not> ip_pending p \<and> can_save (ip_selected p) (shown_document p)"
proof -
  let ?names = "[''invoiceNumber'', ''issueDate'', ''currency'', ''totalAmount'']"
  have "\<exists>filled :: form. map fst filled = ?names"
    by (rule exI [of _ "[(''invoiceNumber'', Form_Text []), (''issueDate'', Form_Text []), (''currency'', Form_Text []),
        (''totalAmount'', Form_Text [])]"]) simp
  note parts = render_invoices_parts [OF assms]
  have "Save_Submitted \<notin> set (clicks t)" using parts(3) review_panel_events(1) by auto
  moreover have "(Save_Submitted, names) \<in> set (form_submits t) \<longleftrightarrow>
      \<not> ip_pending p \<and> can_save (ip_selected p) (shown_document p) \<and> names = ?names" for names
    unfolding parts(1) by (simp add: review_panel_events(3)) blast
  ultimately have u: "user_can t Save_Submitted filled \<longleftrightarrow>
      \<not> ip_pending p \<and> can_save (ip_selected p) (shown_document p) \<and> map fst filled = ?names" for filled
    by (simp add: user_can_def parts(2))
  obtain g :: form where g: "map fst g = ?names" using \<open>\<exists>filled :: form. map fst filled = ?names\<close> ..
  show ?thesis unfolding u by (rule iffI, elim exE conjE, rule conjI, assumption+, rule exI [of _ g]) (simp add: g)
qed

section \<open>The save button\<close>

lemma name_inject:
  "invoice_status_name s = ''NEEDS_REVIEW'' \<longleftrightarrow> s = NEEDS_REVIEW"
  "invoice_status_name s = ''AWAITING_APPROVAL'' \<longleftrightarrow> s = AWAITING_APPROVAL"
  "invoice_status_name s = ''MANUAL_REVIEW'' \<longleftrightarrow> s = MANUAL_REVIEW"
  by (cases s; simp add: invoice_status_name_def)+

lemma document_name_inject:
  "storage_name x = ''APPROVED'' \<longleftrightarrow> x = STORED_APPROVED"
  "scan_name y = ''CLEAN'' \<longleftrightarrow> y = SCAN_CLEAN" "''CLEAN'' = scan_name y \<longleftrightarrow> y = SCAN_CLEAN"
  by (cases x; simp add: storage_name_def) (cases y; simp add: scan_name_def)+

abbreviation not_editable :: failure where
  "not_editable \<equiv> Http Conflict ''INVOICE_NOT_EDITABLE''"

lemma relationships_not_editable: "assertRelationships org v c d \<noteq> Inl not_editable"
  by (auto simp: assertRelationships_def invoice_not_found_def)

lemma write_draft_not_editable: "write_draft a iid dto b d \<noteq> Inl not_editable"
  by (auto simp: write_draft_def Let_def split: list.split)

lemma not_editable_iff:
  assumes "find (\<lambda>i. inv_id i = iid \<and> inv_org i = organizationId a) (invoices d) = Some i"
  shows "fst (update_invoice e a iid dto d) = Inl not_editable \<longleftrightarrow>
     \<not> canEditInvoiceDraft (inv_status i)
         (map (\<lambda>x. (doc_storageState x, scan_of d x)) (documents_of d (organizationId a) iid))" (is "_ \<longleftrightarrow> \<not> ?E")
proof (cases ?E)
  case True
  have "update_invoice_tx e a iid dto d \<noteq> Inl not_editable"
    unfolding update_invoice_tx_def
    using True relationships_not_editable write_draft_not_editable
    by (auto simp: assms Let_def split: sum.split option.split)
  with True show ?thesis by (auto simp: update_invoice_def run_def split: sum.split)
qed (simp add: update_invoice_def run_def update_invoice_tx_def assms Let_def)

lemma can_save_editable:
  assumes "sees_invoice view w" and "length (wi_documents w) \<le> 1"
    and "ivw_documents view = document_views d org iid"
  shows "can_save (Some w) (first_of (wi_documents w)) \<longleftrightarrow>
     canEditInvoiceDraft (inv_status (ivw_invoice view))
       (map (\<lambda>x. (doc_storageState x, scan_of d x)) (documents_of d org iid))"
proof -
  have docs: "list_all2 sees_document (document_views d org iid) (wi_documents w)"
    and st: "wi_status w = invoice_status_name (inv_status (ivw_invoice view))"
    using assms by (auto simp: sees_invoice_def)
  show ?thesis
  proof (cases "documents_of d org iid")
    case Nil
    with docs st show ?thesis
      by (auto simp: can_save_def first_of_def document_views_def canEditInvoiceDraft_def name_inject document_name_inject)
  next
    case (Cons x xs)
    with docs assms(2) obtain f where f: "wi_documents w = [f]" "xs = []"
      "sees_document (sanitize_document x, map_option sanitize_processing (processing_of d x)) f"
      by (auto simp: document_views_def list_all2_Cons1)
    then have "(wf_storageState f = ''APPROVED'') = (doc_storageState x = STORED_APPROVED)"
      "(wx_scanResult (wf_processing f) = ''CLEAN'') = (scan_of d x = Some SCAN_CLEAN)"
      by (auto simp: sees_document_def document_name_inject sanitize_document_def sanitize_processing_def scan_of_def
          processing_of_def split: option.splits)
    with f Cons st show ?thesis
      by (auto simp: can_save_def first_of_def canEditInvoiceDraft_def name_inject)
  qed
qed

text \<open>
  C21: The save button is offered exactly when the service takes the draft.  When the page shows an invoice as the API
  has just answered it, with at most one document as every upload makes it, and no request is under way, then
  the form of the reviewer can be sent exactly when update does not answer INVOICE_NOT_EDITABLE, whatever the draft
  says.
\<close>

theorem save_button_matches_the_service:
  assumes "get_invoice a iid d = (Inr view, d)" and "sees_invoice view w" and "length (wi_documents w) \<le> 1"
    and "ip_selected p = Some w" and "\<not> ip_pending p" and "render_invoices p = Inr t"
  shows "(\<exists>filled. user_can t Save_Submitted filled) \<longleftrightarrow>
     fst (update_invoice e a iid dto d) \<noteq> Inl (Http Conflict ''INVOICE_NOT_EDITABLE'')"
proof -
  from assms(1) obtain i where i: "find (\<lambda>i. inv_id i = iid \<and> inv_org i = organizationId a) (invoices d) = Some i"
    and view: "ivw_invoice view = i" "ivw_documents view = document_views d (organizationId a) iid"
    by (auto simp: get_invoice_def run_def get_invoice_tx_def Let_def split: option.splits)
  have "shown_document p = first_of (wi_documents w)" by (simp add: shown_document_def assms(4))
  then show ?thesis
    using save_offered [OF assms(6)] can_save_editable [OF assms(2,3) view(2)] not_editable_iff [OF i] view(1) assms(4,5)
    by simp
qed

definition demo_seen :: w_invoice where
  "demo_seen = \<lparr>wi_id = ''a1'', wi_invoiceNumber = None, wi_issueDate = None, wi_currency = None, wi_totalAmount = None,
     wi_status = ''NEEDS_REVIEW'', wi_version = 1, wi_lines = [],
     wi_documents = [\<lparr>wf_id = doc_id demo_approved_document, wf_originalFilename = [], wf_storageState = ''APPROVED'',
       wf_duplicateOfDocumentId = None, wf_processing = \<lparr>wx_state = ''NEEDS_REVIEW'', wx_progress = 100,
         wx_scanResult = ''CLEAN'', wx_suggestions = None, wx_errorCode = None\<rparr>\<rparr>], wi_approvalRequests = []\<rparr>"

theorem save_button_matches_the_service_witness:
  "\<exists>view t filled. get_invoice accountant ''a1'' demo2 = (Inr view, demo2) \<and>
     render_invoices (invoices_start\<lparr>ip_selected := Some demo_seen\<rparr>) = Inr t \<and> user_can t Save_Submitted filled"
proof -
  let ?p = "invoices_start\<lparr>ip_selected := Some demo_seen\<rparr>"
  obtain view where view: "get_invoice accountant ''a1'' demo2 = (Inr view, demo2)"
    "ivw_invoice view = demo_invoice NEEDS_REVIEW 1" "ivw_documents view = document_views demo2 ''org'' ''a1''"
    by (simp add: get_invoice_def run_def get_invoice_tx_def accountant_def Let_def)
  have "sees_invoice view demo_seen"
    by (simp add: sees_invoice_def view demo_seen_def invoice_status_name_def document_views_def documents_of_def
        processing_of_def sees_document_def sanitize_document_def sanitize_processing_def storage_name_def scan_name_def
        demo_approved_document_def demo_document_def new_document_def demo_read_def accountant_def)
  moreover obtain t where t: "render_invoices ?p = Inr t"
    by (simp add: render_invoices_def invoices_start_def optional_path_def)
  moreover have "fst (update_invoice (demo_env ''e'') accountant ''a1'' demo_draft demo2) \<noteq> Inl not_editable"
    by (subst not_editable_iff [where i = "demo_invoice NEEDS_REVIEW 1"]) (simp_all add: accountant_def canEditInvoiceDraft_def)
  moreover have "length (wi_documents demo_seen) \<le> 1" "ip_selected ?p = Some demo_seen" "\<not> ip_pending ?p"
    by (simp_all add: demo_seen_def invoices_start_def)
  ultimately show ?thesis
    using save_button_matches_the_service [OF view(1), where p = ?p] view(1) t by blast
qed

end
