(* ===== verification/Unassigned.thy ===== *)
theory Unassigned
  imports Gateway_Properties Lifecycle
begin

text \<open>
  Databases in which no invoice has a vendor.  A call that gives an invoice no vendor keeps them so: nothing can
  be submitted, so no approval request comes into being and no invoice gets beyond its review.
\<close>

definition unassigned :: "db \<Rightarrow> bool" where
  "unassigned d \<longleftrightarrow> requests d = [] \<and>
     (\<forall>i \<in> set (invoices d). inv_vendorId i = None \<and> \<not> past_review (inv_status i))"

text \<open>The calls that leave every invoice without a vendor.\<close>

fun names_vendor :: "invoices_call \<Rightarrow> bool" where
  "names_vendor (Upload vid cid file) \<longleftrightarrow> vid \<noteq> None"
| "names_vendor (Update_Draft iid dto) \<longleftrightarrow> (\<exists>v. uid_vendorId dto = Value v)"
| "names_vendor _ \<longleftrightarrow> False"

definition vendor_free :: "api_call \<Rightarrow> bool" where
  "vendor_free c \<longleftrightarrow> (\<forall>x. c = Invoices_Call x \<longrightarrow> \<not> names_vendor x)"

lemma init_unassigned: "init d \<Longrightarrow> unassigned d"
  by (simp add: init_def unassigned_def)

lemma unassigned_frame: "approval_frame d d' \<Longrightarrow> unassigned d \<Longrightarrow> unassigned d'"
  by (simp add: approval_frame_def unassigned_def)

lemma unassigned_same: "invoices d' = invoices d \<Longrightarrow> requests d' = requests d \<Longrightarrow> unassigned d' = unassigned d"
  by (simp add: unassigned_def)

lemma unassigned_rows:
  assumes "unassigned d" and "requests d' = requests d" and "invoices d' = update_rows Q f (invoices d)"
    and "\<And>i. inv_vendorId i = None \<Longrightarrow> inv_vendorId (f i) = None"
    and "\<And>i. \<not> past_review (inv_status i) \<Longrightarrow> \<not> past_review (inv_status (f i))"
  shows "unassigned d'"
  using assms by (auto simp: unassigned_def set_update_rows)

section \<open>Operations of the invoices\<close>

lemma upload_unassigned:
  assumes "unassigned d"
  shows "unassigned (snd (upload e w a None cid upl d))"
proof -
  have tx: "unassigned d1" if "run (upload_tx e a None cid upf v) d = (r, d1)" for upf v r d1
  proof -
    have "unassigned d2" if "upload_tx e a None cid upf v d = Inr (view, d2)" for view d2
      using that assms by (elim upload_txE) (auto simp: unassigned_def new_invoice_def)
    with that assms show ?thesis by (auto simp: run_def split: sum.splits)
  qed
  have mark: "unassigned d2" if "unassigned d1" "markManualReview e org did iid code d1 = (r, d2)" for d1 org did iid code r d2
  proof -
    have "unassigned d3" if "markManualReview_tx e org did iid code d1 = Inr (u, d3)" for u d3
      by (rule unassigned_rows [OF \<open>unassigned d1\<close>, where Q = "\<lambda>i. inv_id i = iid \<and> inv_org i = org"
            and f = "\<lambda>i. i\<lparr>inv_status := MANUAL_REVIEW\<rparr>"])
        (use that in \<open>auto simp: markManualReview_tx_def table_simps split: sum.splits\<close>)
    with that show ?thesis by (auto simp: markManualReview_def run_def split: sum.splits)
  qed
  show ?thesis
    unfolding upload_def using assms
    by (auto split: option.split sum.split prod.split dest: tx mark)
qed

lemma update_invoice_unassigned:
  assumes "unassigned d" and "\<not> (\<exists>v. uid_vendorId dto = Value v)"
  shows "unassigned (snd (update_invoice e a iid dto d))"
  unfolding update_invoice_def
proof (rule tx.preserves [where P = unassigned, OF _ assms(1)])
  fix view d' assume "update_invoice_tx e a iid dto d = Inr (view, d')"
  then obtain existing updated d2 where
    w: "write_draft a iid dto (inv_status existing = AWAITING_APPROVAL)
       (if inv_status existing = AWAITING_APPROVAL then withdraw_requests (organizationId a) iid d else d) = Inr d2"
    and d': "d' = draft_audits e a existing updated (inv_status existing = AWAITING_APPROVAL)
       (replace_lines (organizationId a) iid (uid_lines dto) d2)"
    by (rule update_invoice_txE)
  have "unassigned d2"
    unfolding write_draft_Inr [OF w]
    by (rule unassigned_rows [OF assms(1), where Q = "\<lambda>i. inv_id i = iid \<and> inv_org i = organizationId a \<and> inv_version i = uid_version dto"
          and f = "apply_invoice_dto dto (inv_status existing = AWAITING_APPROVAL)"])
      (use assms in \<open>auto simp: unassigned_def withdraw_requests_def apply_invoice_dto_def set_optional_def split: field.splits\<close>)
  moreover have "invoices d' = invoices d2" "requests d' = requests d2"
    by (simp_all add: d' draft_audits_def Let_def replace_lines_def split: option.split)
  ultimately show "unassigned d'" using unassigned_same [of d' d2] by simp
qed

text \<open>Without a vendor no submission passes, and without requests nothing can be decided.\<close>

lemma submit_refused:
  assumes "unassigned d"
  shows "\<exists>err. submit e a iid v key d = (Inl err, d)"
proof -
  have "\<not> (\<exists>view d'. submit_tx e a iid v kh d = Inr (view, d'))" for kh
  proof
    assume "\<exists>view d'. submit_tx e a iid v kh d = Inr (view, d')"
    then obtain view d' where tx: "submit_tx e a iid v kh d = Inr (view, d')" by blast
    from tx show False
    proof (cases rule: submit_txE)
      case (fresh i p d1 bank ev risk req eligible)
      then have "i \<in> set (invoices d)" "\<not> review_incomplete d i (documents_of d (organizationId a) iid)"
        by (auto simp: submits_def dest: find_SomeD)
      with assms show False by (auto simp: unassigned_def review_incomplete_def)
    qed (use assms in \<open>simp add: unassigned_def\<close>)
  qed
  then show ?thesis
    by (auto simp: submit_def run_def split: sum.split prod.split)
qed

lemma decide_refused:
  assumes "unassigned d"
  shows "snd (decide e a rid dto key d) = d"
proof -
  have "\<not> (\<exists>res d'. decide_tx e a rid dto kh d = Inr (res, d'))" for kh
  proof
    assume "\<exists>res d'. decide_tx e a rid dto kh d = Inr (res, d')"
    then obtain res d' where "decide_tx e a rid dto kh d = Inr (res, d')" by blast
    then show False
      by (cases rule: decide_txE) (use assms in \<open>auto simp: unassigned_def stale_request_def decides_def\<close>)
  qed
  then have "snd (run (decide_tx e a rid dto kh) d) = d" for kh
    by (auto simp: run_def split: sum.split)
  then show ?thesis by (simp add: decide_eq_run split: sum.split)
qed

section \<open>The other operations\<close>

text \<open>Reads of the approvals, and the policy.\<close>

lemma policy_unassigned: "policy e k org d = (p, d') \<Longrightarrow> unassigned d' = unassigned d"
  by (rule unassigned_same) (auto dest: policy_frame)

lemma eligible_requests: "eligibleApprovers e k org ini d = (el, d') \<Longrightarrow> requests d' = requests d"
  by (auto dest: eligible_frame)

lemma eligible_unassigned: "eligibleApprovers e k org ini d = (el, d') \<Longrightarrow> unassigned d' = unassigned d"
  by (rule unassigned_same) (auto dest: eligible_docs eligible_requests)

lemma list_views_unassigned: "list_views e org rs d = (vs, d') \<Longrightarrow> unassigned d' = unassigned d"
  by (induction rs arbitrary: vs d) (auto split: prod.splits dest: eligible_unassigned)

lemma policy_ops_unassigned:
  assumes "unassigned d"
  shows "unassigned (snd (list_requests e a d))" "unassigned (snd (get_request e a rid d))"
    "unassigned (snd (getPolicy e a d))" "unassigned (snd (updatePolicy e a dto d))"
proof -
  have "unassigned d'" if "updatePolicy_tx e a dto d = Inr (p, d')" for p d'
    using that assms unfolding updatePolicy_tx_def Let_def
    by (auto split: prod.splits if_splits dest!: policy_unassigned simp: unassigned_def)
  then show "unassigned (snd (updatePolicy e a dto d))"
    unfolding updatePolicy_def using assms by (auto simp: run_def split: sum.split)
  show "unassigned (snd (list_requests e a d))" "unassigned (snd (get_request e a rid d))"
    "unassigned (snd (getPolicy e a d))"
    using assms by (auto simp: list_requests_def get_request_def getPolicy_def run_def
        split: sum.split option.split prod.splits
        dest: list_views_unassigned eligible_unassigned policy_unassigned)
qed

text \<open>A new bank account finds nothing to withdraw.\<close>

lemma addBankVersion_unassigned:
  assumes "unassigned d"
  shows "unassigned (snd (addBankVersion c svc e a vid country acc d))"
  unfolding addBankVersion_def
proof (rule tx.preserves [where P = unassigned, OF _ assms])
  fix view d' assume "addBankVersion_tx c svc e a vid country acc d = Inr (view, d')"
  then obtain b d1 where d1: "d1 = d\<lparr>bank_versions := bank_versions d @ [b],
       bank_verifications := bank_verifications d @ [first_verification e a b]\<rparr>"
    and d': "invoices d' = invoices (if 1 < bank_number b then freeze_approvals (organizationId a) vid d1 else d1)"
      "requests d' = requests (if 1 < bank_number b then freeze_approvals (organizationId a) vid d1 else d1)"
    by (rule addBankVersion_tx_Inr) simp
  have "unassigned (freeze_approvals (organizationId a) vid d1)"
    by (rule unassigned_rows [OF assms, where Q = "\<lambda>i. inv_org i = organizationId a \<and> inv_vendorId i = Some vid \<and> inv_status i = AWAITING_APPROVAL"
          and f = "\<lambda>i. i\<lparr>inv_status := NEEDS_REVIEW, inv_bankVersionId := None, inv_version := inv_version i + 1\<rparr>"])
      (use assms in \<open>auto simp: freeze_approvals_def d1 unassigned_def update_rows_def\<close>)
  moreover have "unassigned d1" using assms by (simp add: d1 unassigned_def)
  ultimately show "unassigned d'" using d' by (auto simp: unassigned_def)
qed

text \<open>The worker moves invoices within their review.\<close>

lemma update_tables_unassigned:
  "update_documents j f d = Inr d' \<Longrightarrow> unassigned d' = unassigned d"
  "update_processings P g d = Inr d' \<Longrightarrow> unassigned d' = unassigned d"
  by (auto simp: update_documents_Inr update_processings_Inr unassigned_def)

lemma set_status_unassigned: "unassigned d \<Longrightarrow> \<not> past_review st \<Longrightarrow> unassigned (set_status j st d)"
  by (rule unassigned_rows [where Q = "job_invoice j" and f = "\<lambda>i. i\<lparr>inv_status := st\<rparr>"]) (simp_all add: set_status_def)

lemma worker_tx_unassigned:
  "progress now j s n b scan d = Inr d' \<Longrightarrow> unassigned d' = unassigned d"
  "promote now j key sha d = Inr (u, d') \<Longrightarrow> unassigned d' = unassigned d"
  "finish e now j eng sug d = Inr (u, d') \<Longrightarrow> unassigned d \<Longrightarrow> unassigned d'"
  "block e now j d = Inr (u, d') \<Longrightarrow> unassigned d \<Longrightarrow> unassigned d'"
proof -
  have audit: "unassigned (worker_audit e k j ac af d) = unassigned d" for k ac af d
    by (simp add: worker_audit_def unassigned_def)
  show "progress now j s n b scan d = Inr d' \<Longrightarrow> unassigned d' = unassigned d"
    by (simp add: progress_def update_tables_unassigned(2))
  show "promote now j key sha d = Inr (u, d') \<Longrightarrow> unassigned d' = unassigned d"
    by (auto simp: promote_def split: sum.splits dest!: update_tables_unassigned)
  show "finish e now j eng sug d = Inr (u, d') \<Longrightarrow> unassigned d \<Longrightarrow> unassigned d'"
    by (auto simp: finish_def audit set_status_unassigned split: sum.splits dest!: update_tables_unassigned)
  show "block e now j d = Inr (u, d') \<Longrightarrow> unassigned d \<Longrightarrow> unassigned d'"
    by (auto simp: block_def audit set_status_unassigned split: sum.splits dest!: update_tables_unassigned)
qed

lemma handle_error_unassigned:
  assumes "unassigned d"
  shows "unassigned (snd (handle_error e j final err d))"
proof -
  have "unassigned d'" if m: "manualReview now j err d = Inr d'" for now d'
    by (rule unassigned_rows [OF assms, where Q = "\<lambda>i. job_invoice j i \<and> inv_status i = PROCESSING"
          and f = "\<lambda>i. i\<lparr>inv_status := MANUAL_REVIEW\<rparr>"])
      (use m in \<open>auto simp: manualReview_def update_processings_Inr split: sum.splits\<close>)
  moreover have "unassigned d'" if "resetForRetry now j d = Inr d'" for now d'
    using that assms by (simp add: resetForRetry_def update_tables_unassigned(2))
  ultimately show ?thesis using assms by (auto simp: handle_error_def split: sum.split)
qed

lemma run_unassigned:
  "run w d = (r, d') \<Longrightarrow> unassigned d \<Longrightarrow> (\<And>u d'. w d = Inr (u, d') \<Longrightarrow> unassigned d \<Longrightarrow> unassigned d') \<Longrightarrow> unassigned d'"
  by (auto simp: run_def split: sum.splits)

lemma read_document_unassigned: "unassigned d \<Longrightarrow> unassigned (snd (read_document e w j d))"
  by (auto simp: read_document_def split: sum.split prod.split
      dest!: run_unassigned [OF _ _ worker_tx_unassigned(3)])

lemma scan_document_unassigned:
  assumes "unassigned d"
  shows "unassigned (snd (scan_document e w j d))"
proof (cases "progress (clock e 0) j PROC_SCANNING 25 True None d")
  case (Inr d1)
  with assms have d1: "unassigned d1" by (simp add: worker_tx_unassigned(1))
  have b: "unassigned d2" if "run (block e now j) d1 = (r, d2)" for now r d2
    by (rule run_unassigned [OF that d1 worker_tx_unassigned(4)])
  have p: "unassigned d2" if "run (promote now j key sha) d1 = (r, d2)" for now r d2 key sha
    by (rule run_unassigned [OF that d1]) (simp add: worker_tx_unassigned(2))
  show ?thesis
    using Inr d1 by (auto simp: scan_document_def split: option.split sum.split prod.split
        dest: b p intro!: read_document_unassigned)
qed (simp add: scan_document_def assms)

lemma reread_document_unassigned: "unassigned d \<Longrightarrow> unassigned (snd (reread_document e w j d))"
  by (auto simp: reread_document_def worker_tx_unassigned(1) split: option.split sum.split
      intro!: read_document_unassigned)

lemma process_job_unassigned:
  assumes "unassigned d"
  shows "unassigned (snd (process_job e w j final d))"
proof -
  have s: "unassigned d1" if "scan_document e w j d = (r, d1)" for r d1
    using scan_document_unassigned [OF assms, of e w j] that by simp
  have r: "unassigned d1" if "reread_document e w j d = (r, d1)" for r d1
    using reread_document_unassigned [OF assms, of e w j] that by simp
  show ?thesis
    using assms by (auto simp: process_job_def split: option.split prod.split
        dest: s r intro!: handle_error_unassigned)
qed

section \<open>Requests\<close>

lemmas unassigned_ops = framed_ops [THEN unassigned_frame] addBankVersion_unassigned policy_ops_unassigned
  upload_unassigned update_invoice_unassigned

lemma validated_unassigned:
  "(\<And>x. body = Inr x \<Longrightarrow> unassigned (snd (f x d))) \<Longrightarrow> unassigned d \<Longrightarrow> unassigned (snd (validated body f d))"
  by (auto simp: validated_def split: sum.split)

lemma versioned_unassigned:
  "(\<And>v. unassigned (snd (f v d))) \<Longrightarrow> unassigned d \<Longrightarrow> unassigned (snd (versioned h f d))"
  by (auto simp: versioned_def split: sum.split)

lemmas unassigned_rules = validated_unassigned versioned_unassigned unassigned_ops

lemma invoices_unassigned:
  assumes "unassigned d" and "\<not> names_vendor c"
  shows "unassigned (snd (invoices_handler s e a c d))"
proof (cases c)
  case (Submit iid key v)
  obtain err where "submit e a iid v key d = (Inl err, d)" using submit_refused [OF assms(1)] by blast
  with Submit assms(1) show ?thesis by (auto simp: accept_def intro!: validated_unassigned)
qed (use assms in \<open>auto simp: accept_Inr intro!: unassigned_rules\<close>)

lemma organization_handlers_unassigned:
  assumes "unassigned d"
  shows "unassigned (snd (approvals_handler e a c1 d))" "unassigned (snd (buildings_handler s e a c3 d))"
    "unassigned (snd (vendors_handler s e a c4 d))" "unassigned (snd (contracts_handler s e a c5 d))"
    "unassigned (snd (dashboard_handler s e a c6 d))" "unassigned (snd (organizations_handler rq c7 d))"
    "unassigned (snd (auth_handler s e a c8 d))" "unassigned (snd (public_auth_handler s e rq c8 d))"
    "unassigned (snd (public_handler s e c9 d))"
  subgoal by (cases c1) (auto intro!: unassigned_rules simp: assms decide_refused)
  subgoal by (cases c3) (auto intro!: unassigned_rules simp: assms)
  subgoal by (cases c4) (auto intro!: unassigned_rules simp: assms)
  subgoal by (cases c5) (auto intro!: unassigned_rules simp: assms)
  subgoal by (cases c6) (auto intro!: unassigned_rules simp: assms)
  subgoal by (cases c7) (auto simp: assms)
  subgoal by (cases c8) (auto intro!: unassigned_rules simp: assms)
  subgoal by (cases c8) (auto intro!: unassigned_rules simp: assms Let_def)
  subgoal by (cases c9) (auto intro!: unassigned_rules simp: assms)
  done

lemma serve_unassigned:
  assumes "unassigned d" and "vendor_free c"
  shows "unassigned (snd (serve s ge d0 e rq c d))"
proof -
  have "unassigned (snd (member_handler s e rq a c d))" for a
    by (cases c) (use assms in \<open>auto simp: vendor_free_def organization_handlers_unassigned invoices_unassigned\<close>)
  moreover have "unassigned (snd (guest_handler s e rq c d))"
    by (cases c) (use assms in \<open>auto simp: organization_handlers_unassigned\<close>)
  ultimately show ?thesis
    using assms(1) by (auto simp: serve_def handle_def split: sum.split option.split)
qed

end
