(* ===== verification/Web_Run_Properties.thy ===== *)
theory Web_Run_Properties
  imports Web_Run Web_Invoices_Properties Unassigned
begin

text \<open>What can happen to the invoices while people work with the pages of the web application.\<close>

section \<open>The pages send nothing but harmless requests\<close>

lemma upload_form:
  assumes "render_invoices p = Inr t" and "user_can t Upload_Submitted filled"
  shows "map fst filled = [''document'']"
proof -
  note parts = render_invoices_parts [OF assms(1)]
  have "Upload_Submitted \<notin> set (clicks t)"
    unfolding parts(3) by (auto simp: document_panel_def review_panel_def review_field_def view_simps Let_def split: option.split)
  with assms(2) obtain names where "(Upload_Submitted, names) \<in> set (form_submits t)" "map fst filled = names"
    by (auto simp: user_can_def parts(2))
  then show ?thesis unfolding parts(1) by (auto simp: review_panel_events(3) split: if_splits)
qed

lemma guarded_harmless: "sends_only harmless work \<Longrightarrow> sends_only harmless (guarded fallback work)"
  by (auto simp: guarded_def intro!: sends)

lemma invoices_harmless:
  assumes "render_invoices p = Inr t" and "user_can t ev filled"
  shows "sends_only harmless (invoices_dispatch conf icast still p ev filled)"
proof (cases ev)
  case Upload_Submitted
  then have "map fst filled = [''document'']" using upload_form assms by blast
  then have "fst ` set filled = {''document''}" by (simp flip: list.set_map)
  then have "harmless (api_call_of conf path \<lparr>in_method = Some ''POST'', in_headers = [], in_body = Form_Body filled\<rparr> csrf)" for path csrf
    by (intro harmless_upload) simp
  then show ?thesis
    by (auto simp: Upload_Submitted web_upload_def intro!: guarded_harmless sends loads_harmless)
next
  case Save_Submitted
  then show ?thesis
    by (auto simp: web_save_def intro!: guarded_harmless sends harmless_draft loads_harmless)
next
  case Submit_Clicked
  then show ?thesis
    by (auto simp: submitForApproval_def intro!: guarded_harmless sends loads_harmless split: option.split)
qed (auto simp: selectInvoice_def previewDocument_def intro!: sends)

lemma approvals_harmless: "sends_only harmless (approvals_dispatch conf acast still p ev filled)"
  by (cases ev) (auto simp: decide_request_def intro!: sends loads_harmless split: option.split)

lemma security_harmless: "sends_only harmless (security_dispatch conf ev)"
  by (cases ev) (auto simp: perform_security_def registerPasskey_def stepUp_def passkey_round_def logout_def
      intro!: sends loads_harmless)

lemma create_at_harmless:
  "(\<And>v. sends_only harmless (done v)) \<Longrightarrow> sends_only harmless (create_at conf p suffix body done)"
  by (auto simp: create_at_def intro!: sends)

lemma crm_harmless: "sends_only harmless (crm_dispatch conf ccast p ev filled)"
proof -
  have "sends_only harmless (perform conf ccast p action)" if "sends_only harmless action" for action
    using that by (auto simp: perform_def intro!: sends crm_loads_harmless)
  moreover have "sends_only harmless (createBuilding conf p filled)" "sends_only harmless (createApartment conf p filled)"
    "sends_only harmless (createOccupancy conf p filled)" "sends_only harmless (createVendor conf p filled)"
    "sends_only harmless (web_addBankVersion conf p filled)" "sends_only harmless (createContract conf p filled)"
    by (auto simp: createBuilding_def createApartment_def createOccupancy_def createVendor_def web_addBankVersion_def
        createContract_def Let_def intro!: create_at_harmless sends)
  ultimately show ?thesis by (cases ev) (auto intro!: crm_loads_harmless)
qed

lemma account_harmless:
  "sends_only harmless (submit_login conf filled)" "sends_only harmless (submit_onboarding conf filled)"
  by (auto simp: submit_login_def submit_onboarding_def submit_account_def intro!: sends)

lemma sends_onlyD: "rq \<in> requests_of m \<Longrightarrow> sends_only P m \<Longrightarrow> P rq"
  by (simp add: sends_only_def)

lemma page_sends_harmless: "page_sends conf rq \<Longrightarrow> harmless rq"
  by (induction rule: page_sends.induct)
    (erule sends_onlyD, rule account_harmless loads_harmless crm_loads_harmless approvals_harmless security_harmless
      crm_harmless invoices_harmless; assumption?)+

section \<open>The router\<close>

text \<open>The library that reads a body leaves a property out when the body has no such key.\<close>

definition reads_absent :: "codec \<Rightarrow> bool" where
  "reads_absent cd \<longleftrightarrow> (\<forall>kvs dto. rd_draft cd (Object kvs) = Some dto \<and> ''vendorId'' \<notin> fst ` set kvs \<longrightarrow>
     uid_vendorId dto = field.Undefined)"

lemma first_matchD:
  "first_match verb segs es = Some (ps, c) \<Longrightarrow> \<exists>x \<in> set es. fst x = verb \<and> c = snd (snd x) ps"
  by (induction es) (auto split: option.splits if_splits)

lemma vendor_free_calls [simp]:
  "vendor_free (Auth_Call x1)" "vendor_free (Organizations_Call x2)" "vendor_free (Approvals_Call x3)"
  "vendor_free (Buildings_Call x4)" "vendor_free (Vendors_Call x5)" "vendor_free (Contracts_Call x6)"
  "vendor_free (Dashboard_Call x7)" "vendor_free (Public_Call x8)"
  "vendor_free (Invoices_Call x) \<longleftrightarrow> \<not> names_vendor x"
  by (auto simp: vendor_free_def)

lemma other_endpoints:
  "(v, path, f) \<in> set (auth_endpoints cd rq @ organizations_endpoints @ approvals_endpoints cd rq) \<Longrightarrow>
     f ps = Some c \<Longrightarrow> vendor_free c"
  "(v, path, f) \<in> set (buildings_endpoints cd rq @ vendors_endpoints cd rq) \<Longrightarrow> f ps = Some c \<Longrightarrow> vendor_free c"
  "(v, path, f) \<in> set (contracts_endpoints cd rq @ dashboard_endpoints cd rq @ public_endpoints cd rq) \<Longrightarrow>
     f ps = Some c \<Longrightarrow> vendor_free c"
  unfolding auth_endpoints_def organizations_endpoints_def approvals_endpoints_def buildings_endpoints_def
    vendors_endpoints_def contracts_endpoints_def dashboard_endpoints_def public_endpoints_def
  by auto

lemma no_vendor_field:
  assumes "harmless rq"
  shows "form_text ''vendorId'' rq = None"
proof (cases "wr_body rq")
  case (Form_Body filled)
  with assms have "map_of filled ''vendorId'' = None" by (simp add: harmless_def map_of_eq_None_iff)
  with Form_Body show ?thesis by (simp add: form_text_def)
qed (simp_all add: form_text_def)

lemma invoices_endpoint:
  assumes "reads_absent cd" and "harmless rq"
    and "(wr_method rq, path, f) \<in> set (invoices_endpoints cd rq)" and "f ps = Some c"
  shows "vendor_free c"
proof (cases "wr_method rq = ''PATCH''")
  case True
  with assms(2) obtain kvs where "wr_body rq = Json_Body (Object kvs)" "''vendorId'' \<notin> fst ` set kvs"
    by (auto simp: harmless_def)
  moreover from this have "body_of rq = Object kvs" by (simp add: body_of_def)
  ultimately have "\<And>dto. rd_draft cd (body_of rq) = Some dto \<Longrightarrow> uid_vendorId dto = field.Undefined"
    using assms(1) by (simp add: reads_absent_def)
  then show ?thesis using assms(3,4) no_vendor_field [OF assms(2)] by (auto simp: invoices_endpoints_def)
next
  case False
  then show ?thesis using assms(3,4) no_vendor_field [OF assms(2)] by (auto simp: invoices_endpoints_def)
qed

lemma routed_vendor_free:
  assumes "reads_absent cd" and "harmless rq" and "routed conf cd rq = Some (ps, Some c)"
  shows "vendor_free c"
proof -
  from assms(3) obtain path f where m: "(wr_method rq, path, f) \<in> set (endpoints cd rq)" and "f ps = Some c"
    unfolding routed_def by (fastforce dest: first_matchD)
  from m consider
      "(wr_method rq, path, f) \<in> set (invoices_endpoints cd rq)"
    | "(wr_method rq, path, f) \<in> set (auth_endpoints cd rq @ organizations_endpoints @ approvals_endpoints cd rq)"
    | "(wr_method rq, path, f) \<in> set (buildings_endpoints cd rq @ vendors_endpoints cd rq)"
    | "(wr_method rq, path, f) \<in> set (contracts_endpoints cd rq @ dashboard_endpoints cd rq @ public_endpoints cd rq)"
    unfolding endpoints_def by (simp only: set_append) blast
  then show ?thesis
    using \<open>f ps = Some c\<close> by cases (blast intro: invoices_endpoint [OF assms(1,2)] other_endpoints)+
qed

lemma exchange_unassigned:
  assumes "reads_absent cd" and "harmless rq" and "unassigned d"
    and "exchange conf cd s b now jar ge d0 e rq d = (response, cookies, d')"
  shows "unassigned d'"
proof (cases "routed conf cd rq")
  case (Some x)
  then show ?thesis
    using assms serve_unassigned [OF assms(3) routed_vendor_free [OF assms(1,2)]]
    by (cases x) (auto simp: exchange_def Let_def split: option.splits)
qed (use assms in \<open>auto simp: exchange_def\<close>)

lemma web_step_unassigned: "web_step conf cd s d d' \<Longrightarrow> reads_absent cd \<Longrightarrow> unassigned d \<Longrightarrow> unassigned d'"
proof (induction rule: web_step.induct)
  case (page rq b now jar ge d0 e d response cookies d')
  then show ?case using exchange_unassigned page_sends_harmless by blast
next
  case (fetched rq b now jar ge d0 e d response cookies d')
  moreover from this have "harmless rq" by (simp add: harmless_def)
  ultimately show ?case using exchange_unassigned by blast
next
  case (worker e iw j final d err d')
  then show ?case using process_job_unassigned by (metis snd_conv)
next
  case (bank ge d0 e rq' p ts sig d answered d')
  then show ?case using serve_unassigned by (metis snd_conv vendor_free_calls(8))
qed

text \<open>
  C6: Work with the web application never gets an invoice beyond its review.  Starting from a database without
  invoices, whatever people do on the pages, whatever the network and the browsers do, whatever the worker and the bank
  contribute, and in whatever order: no invoice has a vendor, none is awaiting approval, approved or rejected, no
  approval request exists, and the service refuses to submit any invoice, because no page ever sends the vendor
  that the service demands.
\<close>

theorem web_invoices_stay_in_review:
  assumes "reads_absent cd" and "init d0" and "web_run conf cd s d0 d"
  shows "requests d = [] \<and>
     list_all (\<lambda>i. inv_vendorId i = None \<and> inv_status i \<notin> {AWAITING_APPROVAL, APPROVED, REJECTED}) (invoices d) \<and>
     (\<forall>e a iid v key. \<exists>err. submit e a iid v key d = (Inl err, d))"
proof -
  have "unassigned d"
    using assms(3,1,2) by induction (auto intro: init_unassigned web_step_unassigned)
  then show ?thesis
    using submit_refused by (auto simp: unassigned_def past_review_def list_all_iff)
qed

section \<open>A concrete upload\<close>

text \<open>The owner uploads a document on the page of the invoices.\<close>

definition demo_codec :: codec where
  "demo_codec = \<lparr>rd_onboard = (\<lambda>_. None), rd_login = (\<lambda>_. None), rd_registration = (\<lambda>_. None), rd_assertion = (\<lambda>_. None),
     rd_draft = (\<lambda>v. case v of Object kvs \<Rightarrow> Some (demo_draft\<lparr>uid_vendorId :=
       (case map_of kvs ''vendorId'' of Some (Text x) \<Rightarrow> Value x | Some Null \<Rightarrow> field.Null | _ \<Rightarrow> field.Undefined)\<rparr>) | _ \<Rightarrow> None),
     rd_version = (\<lambda>_. None), rd_decision = (\<lambda>_. None), rd_policy = (\<lambda>_. None), rd_building = (\<lambda>_. None),
     rd_edit_building = (\<lambda>_. None), rd_apartment = (\<lambda>_. None), rd_access = (\<lambda>_. None), rd_occupancy = (\<lambda>_. None),
     rd_vendor = (\<lambda>_. None), rd_edit_vendor = (\<lambda>_. None), rd_contact = (\<lambda>_. None), rd_bank = (\<lambda>_. None),
     rd_verification = (\<lambda>_. None), rd_reveal = (\<lambda>_. None), rd_contract = (\<lambda>_. None), rd_edit_contract = (\<lambda>_. None),
     rd_webhook = (\<lambda>_. None), rd_page = (\<lambda>_. None), rd_vendors = (\<lambda>_. None), rd_contracts = (\<lambda>_. None),
     rd_audit = (\<lambda>_. None), rd_token = (\<lambda>_. None), wr_reply = (\<lambda>_. Null), wr_problem = (\<lambda>_. Null)\<rparr>"

definition demo_conf :: web_config where
  "demo_conf = \<lparr>wc_apiUrl = None\<rparr>"

definition demo_form :: form where
  "demo_form = [(''document'', Form_File demo_file)]"

definition demo_upload :: web_request where
  "demo_upload = api_call_of demo_conf ''/organizations/org/invoices/uploads''
     \<lparr>in_method = Some ''POST'', in_headers = [], in_body = Form_Body demo_form\<rparr> (Some ''c'')"

lemma requests_and_then: "rq \<in> requests_of m \<Longrightarrow> rq \<in> requests_of (and_then m f)"
  by (induction m) auto

lemma requests_attempt: "requests_of (attempt m) = requests_of m"
  by (induction m) auto

lemma requests_apiRequest:
  assumes "readCookie [''bt_csrf'', ''__Host-bt_csrf''] cookies = Inr csrf"
  shows "api_call_of conf path call csrf \<in> requests_of (apiRequest conf path call allow)"
  by (subst apiRequest.simps) (auto simp: assms intro!: exI [of _ cookies])

lemma demo_reads_absent: "reads_absent demo_codec"
  unfolding reads_absent_def map_of_eq_None_iff [symmetric] by (auto simp: demo_codec_def)

lemma demo_upload_sent: "page_sends demo_conf demo_upload"
proof -
  define p where "p = invoices_start\<lparr>ip_profile := Object [(''organization'', Object [(''id'', Text ''org'')])]\<rparr>"
  have "\<exists>t. render_invoices p = Inr t"
    by (simp add: render_invoices_def p_def optional_path_def)
  then obtain t where t: "render_invoices p = Inr t" ..
  have "\<not> ip_pending p" by (simp add: p_def invoices_start_def)
  then have "(Upload_Submitted, [''document'']) \<in> set (form_submits t)"
    unfolding render_invoices_parts(1) [OF t] by simp
  then have "user_can t Upload_Submitted demo_form" by (auto simp: user_can_def demo_form_def)
  moreover have "readCookie [''bt_csrf'', ''__Host-bt_csrf''] (Some ''bt_csrf=c'') = Inr (Some ''c'')"
    by (simp add: readCookie_def js_trim_def js_space_def)
  then have "demo_upload \<in> requests_of (invoices_dispatch demo_conf icast still p Upload_Submitted demo_form)" for icast still
    unfolding demo_upload_def
    by (auto simp: web_upload_def guarded_def finally_do_def catch_def requests_attempt organization_path_def p_def
        lift_outcome_def intro!: requests_and_then requests_apiRequest)
  ultimately show ?thesis using page_sends.invoices [OF t] by blast
qed

text \<open>It is routed to \<open>upload\<close>, and the guards see the cookies of the owner.\<close>

lemma demo_upload_routed:
  "routed demo_conf demo_codec demo_upload = Some ([''org''], Some (Invoices_Call (Upload None None (Some demo_file))))"
proof -
  have "segments_of demo_conf demo_upload = [''organizations'', ''org'', ''invoices'', ''uploads'']"
    by (simp add: segments_of_def demo_upload_def demo_conf_def api_call_of_def apiUrl_def API_URL_def Let_def)
  moreover have "wr_method demo_upload = ''POST''"
    by (simp add: demo_upload_def api_call_of_def Let_def js_upper_def js_upper_char_def is_lower_def)
  moreover have "form_text k demo_upload = None" "form_file ''document'' demo_upload = Some demo_file" for k
    by (simp_all add: demo_upload_def api_call_of_def Let_def form_text_def form_file_def demo_form_def)
  ultimately show ?thesis
    unfolding routed_def endpoints_def
    by (simp add: auth_endpoints_def organizations_endpoints_def approvals_endpoints_def invoices_endpoints_def)
qed

definition demo_browser :: browser where
  "demo_browser = \<lparr>br_origin = Some ''http://localhost:3000'', br_userAgent = None, br_ip = None\<rparr>"

lemma demo_upload_seen:
  "seen_request demo_browser 0 (setSessionCookies (api_config demo_api) demo_bundle) demo_upload (Some ''org'') =
     demo_http (setSessionCookies (api_config demo_api) demo_bundle) ''c'' ''org''"
proof -
  have "wr_method demo_upload = ''POST''"
    by (simp add: demo_upload_def api_call_of_def Let_def js_upper_def js_upper_char_def is_lower_def)
  moreover have "header_of ''x-csrf-token'' demo_upload = Some ''c''"
    by (simp add: demo_upload_def api_call_of_def Let_def header_of_def set_header_def js_lower_def js_lower_char_def
        is_upper_def js_upper_def js_upper_char_def is_lower_def demo_form_def char_of_eq_iff)
  moreover have "sent_cookies 0 (setSessionCookies (api_config demo_api) demo_bundle) =
      Some (cookie_header (setSessionCookies (api_config demo_api) demo_bundle))"
    by (simp add: sent_cookies_def setSessionCookies_def demo_bundle_def Let_def)
  ultimately show ?thesis by (simp add: seen_request_def demo_http_def demo_browser_def)
qed

lemma demo_upload_served:
  "\<exists>response cookies d'. exchange demo_conf demo_codec demo_api demo_browser 0
       (setSessionCookies (api_config demo_api) demo_bundle) (demo_env ''x'') demo0 (demo_env ''a'') demo_upload demo0 =
       (response, cookies, d') \<and> invoices d' = [new_invoice (demo_env ''a'') owner None None]"
proof -
  let ?c = "Invoices_Call (Upload None None (Some demo_file))"
  let ?rq = "demo_http (setSessionCookies (api_config demo_api) demo_bundle) ''c'' ''org''"
  have "?rq\<lparr>rq_method := rt_method (route_of ?c)\<rparr> = ?rq" by (simp add: org_route_def demo_http_def)
  moreover have "api_hmac demo_api = demo_hmac" "api_sessionKey demo_api = ''k''"
    "api_upload demo_api = \<lparr>uw_put = None, uw_enqueue = None\<rparr>" by (simp_all add: demo_api_def)
  moreover have "valid_UploadInvoiceDto (api_checks demo_api) (None, None)"
    by (simp add: valid_UploadInvoiceDto_def if_given_def)
  moreover have "invoices (snd (upload (demo_env ''a'') \<lparr>uw_put = None, uw_enqueue = None\<rparr> owner None None (Some demo_file) demo0)) =
      [new_invoice (demo_env ''a'') owner None None]"
    by (simp add: upload_def upload_tx_def assertRelationships_def contract_vendor_ok_def truthy_def run_def
        create_unique_def new_invoice_def document_keys_def Let_def)
  ultimately have "invoices (snd (serve demo_api (demo_env ''x'') demo0 (demo_env ''a'') ?rq ?c demo0)) =
      [new_invoice (demo_env ''a'') owner None None]"
    using demo_entered [of "route_of ?c"]
    by (simp add: serve_def org_route_def handle_def validated_def accept_def finance_roles_def)
  then show ?thesis
    by (simp add: exchange_def demo_upload_routed first_of_def demo_upload_seen Let_def)
qed

theorem web_invoices_stay_in_review_witness:
  "\<exists>d. web_run demo_conf demo_codec demo_api demo0 d \<and> length (invoices d) = 1 \<and> requests d = [] \<and>
     (\<exists>err. submit (demo_env ''s'') accountant ''a1'' 1 (Some ''submit-0123456789'') d = (Inl err, d))"
proof -
  obtain response cookies d where d: "exchange demo_conf demo_codec demo_api demo_browser 0
       (setSessionCookies (api_config demo_api) demo_bundle) (demo_env ''x'') demo0 (demo_env ''a'') demo_upload demo0 =
       (response, cookies, d)" "invoices d = [new_invoice (demo_env ''a'') owner None None]"
    using demo_upload_served by blast
  have "web_run demo_conf demo_codec demo_api demo0 d"
    by (rule web_next [OF web_refl web_step.page [OF demo_upload_sent d(1)]])
  moreover have "init demo0" by (simp add: init_def)
  ultimately show ?thesis
    using web_invoices_stay_in_review [OF demo_reads_absent, of demo0 demo_conf demo_api d] d(2) by auto
qed

end
