(* ===== verification/Seed.thy ===== *)
theory Seed
  imports Auth Buildings Vendors Contracts
begin

text \<open>
  The demonstration tenant, \<open>prisma/seed.ts\<close>: upserts with fixed identifiers, one statement after the other without
  a common transaction, run by the owner of the database.  An \<open>upsert\<close> updates the rows its \<open>where\<close> finds and creates the
  row when there is none; a created row must have its unique keys free and what it refers to must exist in the same
  organization.  The identifiers of the two link tables are not kept.
\<close>

section \<open>Statements\<close>

definition foreign_key :: failure where
  "foreign_key = DatabaseError ''P2003''"

definition upsert ::
  "('r \<Rightarrow> 'k) list \<Rightarrow> ('r \<Rightarrow> bool) \<Rightarrow> ('r \<Rightarrow> 'r) \<Rightarrow> bool \<Rightarrow> 'r \<Rightarrow> 'r list \<Rightarrow> failure + 'r \<times> 'r list" where
  "upsert keys P f refs fresh t =
     (case find P t of
        Some x \<Rightarrow> (case update_unique keys P f t of Inl err \<Rightarrow> Inl err | Inr t' \<Rightarrow> Inr (f x, t'))
      | None \<Rightarrow>
          if \<not> refs then Inl foreign_key
          else (case create_unique keys fresh t of Inl err \<Rightarrow> Inl err | Inr t' \<Rightarrow> Inr (fresh, t')))"

text \<open>A statement writes its one table; a failed one writes nothing and ends the script.\<close>

definition on_table :: "(db \<Rightarrow> 't) \<Rightarrow> ('t \<Rightarrow> db \<Rightarrow> db) \<Rightarrow> (db \<Rightarrow> 't \<Rightarrow> failure + 'a \<times> 't) \<Rightarrow> db \<Rightarrow> (failure + 'a) \<times> db" where
  "on_table get put w = run (\<lambda>d. case w d (get d) of Inl err \<Rightarrow> Inl err | Inr (x, t) \<Rightarrow> Inr (x, put t d))"

definition then_do ::
  "(db \<Rightarrow> (failure + 'a) \<times> db) \<Rightarrow> ('a \<Rightarrow> db \<Rightarrow> (failure + 'b) \<times> db) \<Rightarrow> db \<Rightarrow> (failure + 'b) \<times> db" where
  "then_do w k d = (case w d of (Inl err, d') \<Rightarrow> (Inl err, d') | (Inr x, d') \<Rightarrow> k x d')"

section \<open>The rows\<close>

definition seed_id :: "string \<Rightarrow> uuid" where
  "seed_id n = ''00000000-0000-4000-8000-0000000000'' @ n"

definition seed_user :: "string \<Rightarrow> string \<Rightarrow> string \<Rightarrow> user" where
  "seed_user n email name =
     \<lparr>user_id = seed_id n, user_email = email, user_displayName = name, user_passwordHash = None, user_status = USER_ACTIVE\<rparr>"

definition seed_organization :: organization where
  "seed_organization = \<lparr>org_id = seed_id ''01'', org_slug = ''bloc-trust-demo'', org_name = ''BlocTrust Demo Association''\<rparr>"

definition seed_membership :: "string \<Rightarrow> uuid \<Rightarrow> uuid \<Rightarrow> membership_role \<Rightarrow> membership" where
  "seed_membership n org usr r =
     \<lparr>mem_id = seed_id n, mem_org = org, mem_userId = usr, mem_role = r, mem_status = MEMBER_ACTIVE, mem_validUntil = None\<rparr>"

definition seed_building :: "uuid \<Rightarrow> building" where
  "seed_building org =
     \<lparr>bld_id = seed_id ''06'', bld_org = org, bld_name = ''Stefan cel Mare 100'',
      bld_addressLine1 = ''Bd. Stefan cel Mare si Sfant 100'', bld_addressLine2 = None, bld_city = ''Chisinau'',
      bld_postalCode = ''MD-2001'', bld_countryCode = ''MD'', bld_version = 1\<rparr>"

definition seed_apartment :: "uuid \<Rightarrow> uuid \<Rightarrow> apartment" where
  "seed_apartment org bid =
     \<lparr>apt_id = seed_id ''07'', apt_org = org, apt_buildingId = bid, apt_unitNumber = ''18'', apt_floor = Some ''4''\<rparr>"

definition seed_occupancy :: "uuid \<Rightarrow> uuid \<Rightarrow> uuid \<Rightarrow> occupancy" where
  "seed_occupancy org aid mid =
     \<lparr>occ_id = seed_id ''08'', occ_org = org, occ_apartmentId = aid, occ_membershipId = mid, occ_startsOn = 1735689600000,
      occ_endsOn = None\<rparr>"

definition seed_vendor :: "uuid \<Rightarrow> vendor" where
  "seed_vendor org =
     \<lparr>ven_id = seed_id ''09'', ven_org = org, ven_legalName = ''Nord Lift Service SRL'', ven_tradingName = None,
      ven_registrationNumber = Some ''DEMO-101010'', ven_taxId = Some ''100000000001'',
      ven_email = Some ''operations@nord-lift.example'', ven_phone = Some ''+373 22 000 100'', ven_status = VENDOR_ACTIVE,
      ven_tags = [''elevator'', ''critical-service''],
      ven_internalNotes = Some ''Synthetic demonstration vendor. Never use these details for payment.'', ven_version = 1\<rparr>"

definition seed_contact :: "uuid \<Rightarrow> uuid \<Rightarrow> vendor_contact" where
  "seed_contact org vid =
     \<lparr>con_id = seed_id ''11'', con_org = org, con_vendorId = vid, con_name = ''Mihai Demo'',
      con_role = Some ''Service coordinator'', con_email = Some ''mihai@nord-lift.example'',
      con_phone = Some ''+373 69 000 100'', con_isVerified = True, con_verifiedAt = Some 1785578400000\<rparr>"

definition seed_account :: plain_account where
  "seed_account = \<lparr>acc_accountNumber = ''MD24AG000000000000000001'', acc_accountHolder = ''Nord Lift Service SRL'',
     acc_bankName = Some ''Synthetic Demo Bank''\<rparr>"

definition seed_bank_version :: "uuid \<Rightarrow> uuid \<Rightarrow> encrypted_account \<Rightarrow> bank_version" where
  "seed_bank_version org vid enc =
     \<lparr>bank_id = seed_id ''12'', bank_org = org, bank_vendorId = vid, bank_number = 1, bank_countryCode = ''MD'',
      bank_account = enc_account enc, bank_iv = enc_iv enc, bank_tag = enc_tag enc, bank_keyId = enc_keyId enc,
      bank_fingerprint = enc_fingerprint enc, bank_masked = enc_masked enc, bank_maskedHolder = enc_maskedHolder enc,
      bank_createdBy = seed_id ''03''\<rparr>"

definition seed_verification :: "env \<Rightarrow> uuid \<Rightarrow> bank_verification" where
  "seed_verification e org =
     \<lparr>bver_id = new_uuid e 0, bver_org = org, bver_bankVersionId = seed_id ''12'', bver_status = BANK_VERIFIED,
      bver_evidence = Some ''demo://independent-callback/2026-08-01'',
      bver_reason = Some ''Synthetic verification evidence for local demonstration only'', bver_verifiedBy = seed_id ''03''\<rparr>"

definition seed_contract :: "uuid \<Rightarrow> uuid \<Rightarrow> contract" where
  "seed_contract org vid =
     \<lparr>ctr_id = seed_id ''13'', ctr_org = org, ctr_vendorId = vid, ctr_reference = ''DEMO-LIFT-2026'',
      ctr_title = ''Elevator preventive maintenance'', ctr_serviceCategory = ''Elevator maintenance'',
      ctr_valueLimit = Some 2400000, ctr_currency = Some ''MDL'', ctr_startsOn = 1767225600000,
      ctr_endsOn = Some 1798675200000, ctr_status = CONTRACT_ACTIVE,
      ctr_documentReference = Some ''demo://contract/DEMO-LIFT-2026'', ctr_version = 1\<rparr>"

section \<open>The statements of \<open>main\<close>\<close>

definition upsert_user :: "string \<Rightarrow> string \<Rightarrow> string \<Rightarrow> db \<Rightarrow> (failure + user) \<times> db" where
  "upsert_user n email name =
     on_table users (\<lambda>t d. d\<lparr>users := t\<rparr>)
       (\<lambda>d. upsert user_keys (\<lambda>u. user_email u = email) (\<lambda>u. u\<lparr>user_displayName := name\<rparr>) True (seed_user n email name))"

definition upsert_organization :: "db \<Rightarrow> (failure + organization) \<times> db" where
  "upsert_organization =
     on_table organizations (\<lambda>t d. d\<lparr>organizations := t\<rparr>)
       (\<lambda>d. upsert organization_keys (\<lambda>x. org_slug x = ''bloc-trust-demo'')
          (\<lambda>x. x\<lparr>org_name := ''BlocTrust Demo Association''\<rparr>) True seed_organization)"

definition upsert_membership :: "string \<Rightarrow> uuid \<Rightarrow> uuid \<Rightarrow> membership_role \<Rightarrow> db \<Rightarrow> (failure + membership) \<times> db" where
  "upsert_membership n org usr r =
     on_table memberships (\<lambda>t d. d\<lparr>memberships := t\<rparr>)
       (\<lambda>d. upsert membership_keys (\<lambda>m. mem_org m = org \<and> mem_userId m = usr) (\<lambda>m. m\<lparr>mem_role := r\<rparr>) True
          (seed_membership n org usr r))"

definition upsert_building :: "uuid \<Rightarrow> db \<Rightarrow> (failure + building) \<times> db" where
  "upsert_building org =
     on_table buildings (\<lambda>t d. d\<lparr>buildings := t\<rparr>)
       (\<lambda>d. upsert building_keys (\<lambda>b. bld_id b = seed_id ''06'') (\<lambda>b. b\<lparr>bld_name := ''Stefan cel Mare 100''\<rparr>) True
          (seed_building org))"

definition has_building :: "uuid \<Rightarrow> uuid \<Rightarrow> db \<Rightarrow> bool" where
  "has_building org bid d \<longleftrightarrow> list_ex (\<lambda>b. bld_id b = bid \<and> bld_org b = org) (buildings d)"

definition has_member :: "uuid \<Rightarrow> uuid \<Rightarrow> db \<Rightarrow> bool" where
  "has_member org mid d \<longleftrightarrow> list_ex (\<lambda>m. mem_id m = mid \<and> mem_org m = org) (memberships d)"

definition has_vendor :: "uuid \<Rightarrow> uuid \<Rightarrow> db \<Rightarrow> bool" where
  "has_vendor org vid d \<longleftrightarrow> list_ex (\<lambda>v. ven_id v = vid \<and> ven_org v = org) (vendors d)"

definition upsert_apartment :: "uuid \<Rightarrow> uuid \<Rightarrow> db \<Rightarrow> (failure + apartment) \<times> db" where
  "upsert_apartment org bid =
     on_table apartments (\<lambda>t d. d\<lparr>apartments := t\<rparr>)
       (\<lambda>d. upsert apartment_keys (\<lambda>x. apt_id x = seed_id ''07'') (\<lambda>x. x\<lparr>apt_unitNumber := ''18''\<rparr>) (has_building org bid d)
          (seed_apartment org bid))"

definition upsert_occupancy :: "uuid \<Rightarrow> uuid \<Rightarrow> uuid \<Rightarrow> db \<Rightarrow> (failure + occupancy) \<times> db" where
  "upsert_occupancy org aid mid =
     on_table occupancies (\<lambda>t d. d\<lparr>occupancies := t\<rparr>)
       (\<lambda>d. upsert [occ_id] (\<lambda>x. occ_id x = seed_id ''08'') (\<lambda>x. x)
          (list_ex (\<lambda>x. apt_id x = aid \<and> apt_org x = org) (apartments d) \<and> has_member org mid d) (seed_occupancy org aid mid))"

definition upsert_vendor :: "uuid \<Rightarrow> db \<Rightarrow> (failure + vendor) \<times> db" where
  "upsert_vendor org =
     on_table vendors (\<lambda>t d. d\<lparr>vendors := t\<rparr>)
       (\<lambda>d. upsert [ven_id] (\<lambda>v. ven_id v = seed_id ''09'')
          (\<lambda>v. v\<lparr>ven_legalName := ''Nord Lift Service SRL'', ven_status := VENDOR_ACTIVE\<rparr>) True (seed_vendor org))"

definition upsert_vendor_building :: "uuid \<Rightarrow> uuid \<Rightarrow> uuid \<Rightarrow> db \<Rightarrow> (failure + vendor_building) \<times> db" where
  "upsert_vendor_building org vid bid =
     on_table vendor_buildings (\<lambda>t d. d\<lparr>vendor_buildings := t\<rparr>)
       (\<lambda>d. upsert [\<lambda>l. l] (\<lambda>l. l = \<lparr>vb_org = org, vb_vendorId = vid, vb_buildingId = bid\<rparr>) (\<lambda>l. l)
          (has_vendor org vid d \<and> has_building org bid d) \<lparr>vb_org = org, vb_vendorId = vid, vb_buildingId = bid\<rparr>)"

definition upsert_contact :: "uuid \<Rightarrow> uuid \<Rightarrow> db \<Rightarrow> (failure + vendor_contact) \<times> db" where
  "upsert_contact org vid =
     on_table contacts (\<lambda>t d. d\<lparr>contacts := t\<rparr>)
       (\<lambda>d. upsert [con_id] (\<lambda>x. con_id x = seed_id ''11'') (\<lambda>x. x\<lparr>con_isVerified := True\<rparr>) (has_vendor org vid d)
          (seed_contact org vid))"

text \<open>The bank account is created once, with its verification in the same statement.\<close>

definition seed_bank ::
  "crypto \<Rightarrow> failure + bank_service \<Rightarrow> env \<Rightarrow> uuid \<Rightarrow> uuid \<Rightarrow> db \<Rightarrow> (failure + unit) \<times> db" where
  "seed_bank c svc e org vid =
     run (\<lambda>d.
       case find (\<lambda>b. bank_org b = org \<and> bank_vendorId b = vid \<and> bank_number b = 1) (bank_versions d) of
         Some _ \<Rightarrow> Inr ((), d)
       | None \<Rightarrow>
       case svc of
         Inl err \<Rightarrow> Inl err
       | Inr service \<Rightarrow>
       if \<not> (has_vendor org vid d \<and> has_member org (seed_id ''03'') d) then Inl foreign_key
       else
       case create_unique bank_keys (seed_bank_version org vid (encrypt c service (random_token e 0) org vid seed_account))
           (bank_versions d) of
         Inl err \<Rightarrow> Inl err
       | Inr bs \<Rightarrow>
       case create_unique [bver_id] (seed_verification e org) (bank_verifications d) of
         Inl err \<Rightarrow> Inl err
       | Inr vs \<Rightarrow> Inr ((), d\<lparr>bank_versions := bs, bank_verifications := vs\<rparr>))"

definition upsert_contract :: "uuid \<Rightarrow> uuid \<Rightarrow> db \<Rightarrow> (failure + contract) \<times> db" where
  "upsert_contract org vid =
     on_table contracts (\<lambda>t d. d\<lparr>contracts := t\<rparr>)
       (\<lambda>d. upsert contract_keys (\<lambda>x. ctr_id x = seed_id ''13'') (\<lambda>x. x\<lparr>ctr_status := CONTRACT_ACTIVE\<rparr>) (has_vendor org vid d)
          (seed_contract org vid))"

text \<open>The trigger \<open>ContractBuilding_vendor_authorization\<close> checks a new link of a contract.\<close>

definition link_authorized :: "db \<Rightarrow> uuid \<Rightarrow> uuid \<Rightarrow> uuid \<Rightarrow> bool" where
  "link_authorized d org cid bid \<longleftrightarrow>
     list_ex (\<lambda>x. ctr_id x = cid \<and> ctr_org x = org \<and> bid \<in> set (links_of d org (ctr_vendorId x))) (contracts d)"

definition upsert_contract_building :: "uuid \<Rightarrow> uuid \<Rightarrow> uuid \<Rightarrow> db \<Rightarrow> (failure + contract_building) \<times> db" where
  "upsert_contract_building org cid bid =
     run (\<lambda>d.
       let l = \<lparr>cb_org = org, cb_contractId = cid, cb_buildingId = bid\<rparr> in
       if l \<in> set (contract_buildings d) then Inr (l, d)
       else if \<not> link_authorized d org cid bid
       then Inl (DatabaseError ''contract vendor is not authorized for building'')
       else if \<not> has_building org bid d then Inl foreign_key
       else Inr (l, d\<lparr>contract_buildings := contract_buildings d @ [l]\<rparr>))"

section \<open>\<open>main\<close>\<close>

definition seed_main :: "crypto \<Rightarrow> failure + bank_service \<Rightarrow> env \<Rightarrow> db \<Rightarrow> (failure + unit) \<times> db" where
  "seed_main c svc e =
     then_do (upsert_user ''02'' ''owner@demo.bloctrust.local'' ''Demo Owner'') (\<lambda>usr.
     then_do upsert_organization (\<lambda>x.
     then_do (upsert_membership ''03'' (org_id x) (user_id usr) OWNER) (\<lambda>_.
     then_do (upsert_user ''04'' ''resident@demo.bloctrust.local'' ''Elena Resident'') (\<lambda>resident.
     then_do (upsert_membership ''05'' (org_id x) (user_id resident) RESIDENT) (\<lambda>m.
     then_do (upsert_building (org_id x)) (\<lambda>b.
     then_do (upsert_apartment (org_id x) (bld_id b)) (\<lambda>flat.
     then_do (upsert_occupancy (org_id x) (apt_id flat) (mem_id m)) (\<lambda>_.
     then_do (upsert_vendor (org_id x)) (\<lambda>v.
     then_do (upsert_vendor_building (org_id x) (ven_id v) (bld_id b)) (\<lambda>_.
     then_do (upsert_contact (org_id x) (ven_id v)) (\<lambda>_.
     then_do (seed_bank c svc e (org_id x) (ven_id v)) (\<lambda>_.
     then_do (upsert_contract (org_id x) (ven_id v)) (\<lambda>k.
     then_do (upsert_contract_building (org_id x) (ctr_id k) (bld_id b)) (\<lambda>_ d. (Inr (), d)))))))))))))))"

definition seed :: "string option \<Rightarrow> crypto \<Rightarrow> failure + bank_service \<Rightarrow> env \<Rightarrow> db \<Rightarrow> (failure + unit) \<times> db" where
  "seed databaseUrl c svc e d =
     (if \<not> truthy databaseUrl then (Inl (ExternalError ''DATABASE_URL is required for seeding.''), d)
      else seed_main c svc e d)"

definition exitCode :: "failure + unit \<Rightarrow> nat" where
  "exitCode r = (case r of Inl _ \<Rightarrow> 1 | Inr _ \<Rightarrow> 0)"

end
