(* ===== verification/Seed_Properties.thy ===== *)
theory Seed_Properties
  imports Seed Bank_Properties
begin

text \<open>Running the seed again.\<close>

section \<open>Settled tables\<close>

text \<open>A table on which the upsert changes nothing, and the row it answers.\<close>

definition settled_on :: "('r \<Rightarrow> 'k) list \<Rightarrow> ('r \<Rightarrow> bool) \<Rightarrow> ('r \<Rightarrow> 'r) \<Rightarrow> 'r \<Rightarrow> 'r list \<Rightarrow> bool" where
  "settled_on keys P f x t \<longleftrightarrow> find P t = Some x \<and> (\<forall>r \<in> set t. P r \<longrightarrow> f r = r) \<and> (\<forall>k \<in> set keys. distinct (map k t))"

lemma settled_update: "settled_on keys P f x t \<Longrightarrow> update_rows P f t = t"
  unfolding settled_on_def update_rows_def by (intro map_idI) simp

lemma upsert_settled: "settled_on keys P f x t \<Longrightarrow> upsert keys P f refs fresh t = Inr (x, t)"
  using settled_update [of keys P f x t]
  by (auto simp: settled_on_def upsert_def update_unique_def dest: find_SomeD split: option.split)

text \<open>An upsert settles its table, if it writes what it looks for and the created row needs no update.\<close>

lemma upsert_settles:
  assumes "upsert keys P f refs fresh t = Inr (x, t')" and "\<forall>k \<in> set keys. distinct (map k t)"
    and "\<And>r. P (f r) = P r" "\<And>r. f (f r) = f r" and "P fresh" "f fresh = fresh"
  shows "settled_on keys P f x t'"
proof (cases "find P t")
  case None
  then have "\<forall>r \<in> set t. \<not> P r" by (auto simp: find_None_iff)
  moreover from None assms(1) have "x = fresh" "create_unique keys fresh t = Inr t'"
    by (auto simp: upsert_def split: if_splits sum.splits)
  moreover from this(2) have "\<forall>k \<in> set keys. distinct (map k t')" 
    using create_unique_distinct [of keys fresh t t'] assms(2) by simp
  ultimately show ?thesis
    using assms(5,6) None by (auto simp: settled_on_def create_unique_Inr find_append)
next
  case (Some r)
  with assms(1) have "x = f r" "t' = update_rows P f t" "\<forall>k \<in> set keys. distinct (map k t')"
    by (auto simp: upsert_def update_unique_Inr split: sum.splits)
  moreover have "find P (update_rows P f t) = Some (f r)"
    using Some find_SomeD [OF Some] by (simp add: find_update_rows assms(3))
  ultimately show ?thesis using assms(3,4) by (auto simp: settled_on_def set_update_rows)
qed

text \<open>An upsert of other rows leaves a settled table settled.\<close>

lemma settled_other:
  assumes "settled_on keys P f x t" and "upsert keys Q g refs fresh t = Inr (y, t')"
    and "\<And>r. r \<in> set t \<Longrightarrow> Q r \<Longrightarrow> \<not> P r" "\<And>r. P (g r) = P r" and "\<not> P fresh"
  shows "settled_on keys P f x t'"
proof (cases "find Q t")
  case None
  with assms(2) have "create_unique keys fresh t = Inr t'" by (auto simp: upsert_def split: if_splits sum.splits)
  moreover from this have "\<forall>k \<in> set keys. distinct (map k t')"
    using create_unique_distinct [of keys fresh t t'] assms(1) by (simp add: settled_on_def)
  ultimately show ?thesis using assms(1,5) by (auto simp: settled_on_def create_unique_Inr find_append)
next
  case (Some r)
  with assms(2) have t': "t' = update_rows Q g t" "\<forall>k \<in> set keys. distinct (map k t')"
    by (auto simp: upsert_def update_unique_Inr split: sum.splits)
  have "\<not> Q x" using assms(1,3) by (auto simp: settled_on_def dest: find_SomeD)
  then have "find P t' = Some x" using assms(1,4) by (simp add: t' find_update_rows settled_on_def)
  moreover have "f s = s" if "s \<in> set t'" "P s" for s
    using that assms(1,3,4) by (auto simp: t' set_update_rows settled_on_def)
  ultimately show ?thesis using t'(2) by (simp add: settled_on_def)
qed

section \<open>Statements that answer without a change\<close>

lemma on_table_Inr:
  "on_table get put w d = (Inr x, d') \<longleftrightarrow> (\<exists>t. w d (get d) = Inr (x, t) \<and> d' = put t d)"
  by (auto simp: on_table_def run_def split: sum.splits)

lemma then_do_Inr:
  "then_do w k d = (Inr y, d') \<longleftrightarrow> (\<exists>x d1. w d = (Inr x, d1) \<and> k x d1 = (Inr y, d'))"
  by (auto simp: then_do_def split: prod.splits sum.splits)

text \<open>An upsert that succeeded leaves its table so that it can be repeated, as long as nobody else writes that table.\<close>

lemma on_table_settles:
  assumes "on_table get put (\<lambda>d. upsert keys P f (refs d) fresh) d = (Inr x, d')"
    and "\<forall>k \<in> set keys. distinct (map k (get d))"
    and "\<And>r. P (f r) = P r" "\<And>r. f (f r) = f r" and "P fresh" "f fresh = fresh"
  shows "\<exists>t. d' = put t d \<and> settled_on keys P f x t"
  using assms(1) upsert_settles [OF _ assms(2-)] by (auto simp: on_table_Inr)

lemma on_table_settled:
  "settled_on keys P f x (get d) \<Longrightarrow> put (get d) d = d \<Longrightarrow>
     on_table get put (\<lambda>d. upsert keys P f (refs d) fresh) d = (Inr x, d)"
  by (simp add: on_table_Inr upsert_settled)

text \<open>The unique indexes of the tables that the seed updates.\<close>

definition seed_indexes :: "db \<Rightarrow> bool" where
  "seed_indexes d \<longleftrightarrow>
     list_all (\<lambda>k. distinct (map k (users d))) user_keys \<and> list_all (\<lambda>k. distinct (map k (organizations d))) organization_keys \<and>
     list_all (\<lambda>k. distinct (map k (memberships d))) membership_keys \<and> list_all (\<lambda>k. distinct (map k (buildings d))) building_keys \<and>
     list_all (\<lambda>k. distinct (map k (apartments d))) apartment_keys \<and> distinct (map occ_id (occupancies d)) \<and>
     distinct (map ven_id (vendors d)) \<and> distinct (vendor_buildings d) \<and> distinct (map con_id (contacts d)) \<and>
     list_all (\<lambda>k. distinct (map k (contracts d))) contract_keys"

lemma single_upserts:
  "upsert_organization d = (Inr x, d') \<Longrightarrow> seed_indexes d \<Longrightarrow>
     \<exists>t. d' = d\<lparr>organizations := t\<rparr> \<and> (\<forall>dd. organizations dd = t \<longrightarrow> upsert_organization dd = (Inr x, dd))"
  "upsert_building org d = (Inr b, d') \<Longrightarrow> list_all (\<lambda>k. distinct (map k (buildings d))) building_keys \<Longrightarrow>
     \<exists>t. d' = d\<lparr>buildings := t\<rparr> \<and> (\<forall>dd. buildings dd = t \<longrightarrow> upsert_building org dd = (Inr b, dd))"
  "upsert_apartment org bid d = (Inr a, d') \<Longrightarrow> list_all (\<lambda>k. distinct (map k (apartments d))) apartment_keys \<Longrightarrow>
     \<exists>t. d' = d\<lparr>apartments := t\<rparr> \<and> (\<forall>dd. apartments dd = t \<longrightarrow> upsert_apartment org bid dd = (Inr a, dd))"
  "upsert_occupancy org aid mid d = (Inr o1, d') \<Longrightarrow> distinct (map occ_id (occupancies d)) \<Longrightarrow>
     \<exists>t. d' = d\<lparr>occupancies := t\<rparr> \<and> (\<forall>dd. occupancies dd = t \<longrightarrow> upsert_occupancy org aid mid dd = (Inr o1, dd))"
  "upsert_vendor org d = (Inr v, d') \<Longrightarrow> distinct (map ven_id (vendors d)) \<Longrightarrow>
     \<exists>t. d' = d\<lparr>vendors := t\<rparr> \<and> (\<forall>dd. vendors dd = t \<longrightarrow> upsert_vendor org dd = (Inr v, dd))"
  "upsert_contact org vid d = (Inr c, d') \<Longrightarrow> distinct (map con_id (contacts d)) \<Longrightarrow>
     \<exists>t. d' = d\<lparr>contacts := t\<rparr> \<and> (\<forall>dd. contacts dd = t \<longrightarrow> upsert_contact org vid dd = (Inr c, dd))"
  "upsert_contract org vid d = (Inr k, d') \<Longrightarrow> list_all (\<lambda>k. distinct (map k (contracts d))) contract_keys \<Longrightarrow>
     \<exists>t. d' = d\<lparr>contracts := t\<rparr> \<and> (\<forall>dd. contracts dd = t \<longrightarrow> upsert_contract org vid dd = (Inr k, dd))"
  unfolding upsert_organization_def upsert_building_def upsert_apartment_def upsert_occupancy_def upsert_vendor_def
    upsert_contact_def upsert_contract_def
  by (drule on_table_settles;
      simp add: list_all_iff seed_indexes_def seed_organization_def seed_building_def seed_apartment_def seed_occupancy_def
        seed_vendor_def seed_contact_def seed_contract_def;
      elim exE conjE; intro exI conjI allI impI, assumption; intro on_table_settled; simp)+

lemma link_upsert:
  assumes "upsert_vendor_building org vid bid d = (Inr l, d')" and "distinct (vendor_buildings d)"
  shows "\<exists>t. d' = d\<lparr>vendor_buildings := t\<rparr> \<and> (\<forall>dd. vendor_buildings dd = t \<longrightarrow> upsert_vendor_building org vid bid dd = (Inr l, dd))"
proof -
  from on_table_settles [OF assms(1) [unfolded upsert_vendor_building_def]] assms(2) obtain t where
    "d' = d\<lparr>vendor_buildings := t\<rparr>"
    "settled_on [\<lambda>l. l] (\<lambda>l. l = \<lparr>vb_org = org, vb_vendorId = vid, vb_buildingId = bid\<rparr>) (\<lambda>l. l) l t" by auto
  moreover from this(2) have "upsert_vendor_building org vid bid dd = (Inr l, dd)" if "vendor_buildings dd = t" for dd
    unfolding upsert_vendor_building_def by (intro on_table_settled) (simp_all add: that)
  ultimately show ?thesis by blast
qed

text \<open>Users and memberships are written twice, for the owner and the resident.\<close>

abbreviation settled_user :: "string \<Rightarrow> string \<Rightarrow> user \<Rightarrow> db \<Rightarrow> bool" where
  "settled_user email name u d \<equiv>
     settled_on user_keys (\<lambda>u. user_email u = email) (\<lambda>u. u\<lparr>user_displayName := name\<rparr>) u (users d)"

abbreviation settled_member :: "uuid \<Rightarrow> uuid \<Rightarrow> membership_role \<Rightarrow> membership \<Rightarrow> db \<Rightarrow> bool" where
  "settled_member org usr r m d \<equiv>
     settled_on membership_keys (\<lambda>m. mem_org m = org \<and> mem_userId m = usr) (\<lambda>m. m\<lparr>mem_role := r\<rparr>) m (memberships d)"

lemma user_upsert:
  assumes "upsert_user n email name d = (Inr u, d')" and "\<forall>k \<in> set user_keys. distinct (map k (users d))"
  shows "(\<exists>t. d' = d\<lparr>users := t\<rparr>) \<and> settled_user email name u d'"
  using on_table_settles [OF assms(1) [unfolded upsert_user_def] assms(2)] by (auto simp: seed_user_def)

lemma user_repeats: "settled_user email name u d \<Longrightarrow> upsert_user n email name d = (Inr u, d)"
  unfolding upsert_user_def by (rule on_table_settled) simp_all

lemma user_other:
  assumes "settled_user email name u d" "upsert_user n email' name' d = (Inr u', d')" "email \<noteq> email'"
  shows "settled_user email name u d'"
proof -
  from assms(2) obtain t where "d' = d\<lparr>users := t\<rparr>"
    "upsert user_keys (\<lambda>u. user_email u = email') (\<lambda>u. u\<lparr>user_displayName := name'\<rparr>) True (seed_user n email' name') (users d) = Inr (u', t)"
    by (auto simp: upsert_user_def on_table_Inr)
  with settled_other [OF assms(1) this(2)] assms(3) show ?thesis by (auto simp: seed_user_def)
qed

lemma member_upsert:
  assumes "upsert_membership n org usr r d = (Inr m, d')" and "\<forall>k \<in> set membership_keys. distinct (map k (memberships d))"
  shows "(\<exists>t. d' = d\<lparr>memberships := t\<rparr>) \<and> settled_member org usr r m d'"
  using on_table_settles [OF assms(1) [unfolded upsert_membership_def] assms(2)] by (auto simp: seed_membership_def)

lemma member_repeats: "settled_member org usr r m d \<Longrightarrow> upsert_membership n org usr r d = (Inr m, d)"
  unfolding upsert_membership_def by (rule on_table_settled) simp_all

lemma member_other:
  assumes "settled_member org usr r m d" "upsert_membership n org usr' r' d = (Inr m', d')" "usr \<noteq> usr'"
  shows "settled_member org usr r m d'"
proof -
  from assms(2) obtain t where "d' = d\<lparr>memberships := t\<rparr>"
    "upsert membership_keys (\<lambda>m. mem_org m = org \<and> mem_userId m = usr') (\<lambda>m. m\<lparr>mem_role := r'\<rparr>) True
       (seed_membership n org usr' r') (memberships d) = Inr (m', t)"
    by (auto simp: upsert_membership_def on_table_Inr)
  with settled_other [OF assms(1) this(2)] assms(3) show ?thesis by (auto simp: seed_membership_def)
qed

text \<open>Two settled users with different addresses are different users.\<close>

lemma settled_users_differ:
  assumes "settled_user email name u d" "settled_user email' name' u' d" "email \<noteq> email'"
  shows "user_id u \<noteq> user_id u'"
proof
  assume same: "user_id u = user_id u'"
  have u: "u \<in> set (users d)" "user_email u = email" "u' \<in> set (users d)" "user_email u' = email'"
    using assms(1,2) by (auto simp: settled_on_def dest: find_SomeD)
  have "distinct (map (\<lambda>u. [user_id u]) (users d))" using assms(1) by (simp add: settled_on_def user_keys_def)
  from distinct_map_unique [OF this u(1,3)] same u(2,4) assms(3) show False by simp
qed

text \<open>The first half of the script, which writes users and memberships twice.\<close>

lemma people_settled:
  assumes "seed_indexes d"
    and "upsert_user ''02'' ''owner@demo.bloctrust.local'' ''Demo Owner'' d = (Inr boss, d1)"
    and "upsert_organization d1 = (Inr x, d2)"
    and "upsert_membership ''03'' (org_id x) (user_id boss) OWNER d2 = (Inr m1, d3)"
    and "upsert_user ''04'' ''resident@demo.bloctrust.local'' ''Elena Resident'' d3 = (Inr resident, d4)"
    and "upsert_membership ''05'' (org_id x) (user_id resident) RESIDENT d4 = (Inr m2, d5)"
  obtains us xs ms where "d5 = d\<lparr>users := us, organizations := xs, memberships := ms\<rparr>"
    and "\<And>dd. users dd = us \<Longrightarrow> upsert_user ''02'' ''owner@demo.bloctrust.local'' ''Demo Owner'' dd = (Inr boss, dd)"
    and "\<And>dd. users dd = us \<Longrightarrow> upsert_user ''04'' ''resident@demo.bloctrust.local'' ''Elena Resident'' dd = (Inr resident, dd)"
    and "\<And>dd. organizations dd = xs \<Longrightarrow> upsert_organization dd = (Inr x, dd)"
    and "\<And>dd. memberships dd = ms \<Longrightarrow> upsert_membership ''03'' (org_id x) (user_id boss) OWNER dd = (Inr m1, dd)"
    and "\<And>dd. memberships dd = ms \<Longrightarrow> upsert_membership ''05'' (org_id x) (user_id resident) RESIDENT dd = (Inr m2, dd)"
proof -
  obtain u1 where d1: "d1 = d\<lparr>users := u1\<rparr>" and s1: "settled_user ''owner@demo.bloctrust.local'' ''Demo Owner'' boss d1"
    using user_upsert [OF assms(2)] assms(1) by (auto simp: seed_indexes_def list_all_iff)
  have i1: "seed_indexes d1" using assms(1) s1 by (simp add: d1 seed_indexes_def settled_on_def list_all_iff)
  from single_upserts(1) [OF assms(3) i1] obtain xs where d2: "d2 = d1\<lparr>organizations := xs\<rparr>"
    and x: "\<And>dd. organizations dd = xs \<Longrightarrow> upsert_organization dd = (Inr x, dd)" by blast
  obtain m where d3: "d3 = d2\<lparr>memberships := m\<rparr>" and s3: "settled_member (org_id x) (user_id boss) OWNER m1 d3"
    using member_upsert [OF assms(4)] i1 by (auto simp: d2 seed_indexes_def list_all_iff)
  have s1': "settled_user ''owner@demo.bloctrust.local'' ''Demo Owner'' boss d3" using s1 by (simp add: d3 d2)
  obtain us where d4: "d4 = d3\<lparr>users := us\<rparr>"
    and s4: "settled_user ''resident@demo.bloctrust.local'' ''Elena Resident'' resident d4"
    using user_upsert [OF assms(5)] s1' by (auto simp: settled_on_def)
  have s1'': "settled_user ''owner@demo.bloctrust.local'' ''Demo Owner'' boss d4"
    by (rule user_other [OF s1' assms(5)]) simp
  have differ: "user_id boss \<noteq> user_id resident" by (rule settled_users_differ [OF s1'' s4]) simp
  have s3': "settled_member (org_id x) (user_id boss) OWNER m1 d4" using s3 by (simp add: d4)
  obtain ms where d5: "d5 = d4\<lparr>memberships := ms\<rparr>" and s5: "settled_member (org_id x) (user_id resident) RESIDENT m2 d5"
    using member_upsert [OF assms(6)] s3' by (auto simp: settled_on_def)
  have s3'': "settled_member (org_id x) (user_id boss) OWNER m1 d5" by (rule member_other [OF s3' assms(6) differ])
  show thesis
  proof (rule that)
    show "d5 = d\<lparr>users := us, organizations := xs, memberships := ms\<rparr>" by (simp add: d5 d4 d3 d2 d1)
  qed (use s1'' s4 s5 s3'' x in \<open>auto simp: d5 d4 intro!: user_repeats member_repeats\<close>)
qed

lemma bank_settled:
  assumes "seed_bank c svc e org vid d = (Inr u, d')"
  obtains bs vs where "d' = d\<lparr>bank_versions := bs, bank_verifications := vs\<rparr>"
    and "\<And>c' svc' e' dd. bank_versions dd = bs \<Longrightarrow> seed_bank c' svc' e' org vid dd = (Inr (), dd)"
proof (cases "find (\<lambda>b. bank_org b = org \<and> bank_vendorId b = vid \<and> bank_number b = 1) (bank_versions d)")
  case None
  with assms that show thesis
    by (auto simp: seed_bank_def run_def create_unique_Inr find_append seed_bank_version_def split: sum.splits if_splits)
next
  case (Some b)
  with assms that [of "bank_verifications d" "bank_versions d"] show thesis by (simp add: seed_bank_def run_def)
qed

lemma link_settled:
  assumes "upsert_contract_building org cid bid d = (Inr u, d')"
  obtains ls where "d' = d\<lparr>contract_buildings := ls\<rparr>"
    and "\<And>dd. contract_buildings dd = ls \<Longrightarrow> \<exists>u. upsert_contract_building org cid bid dd = (Inr u, dd)"
proof -
  have "\<exists>ls. d' = d\<lparr>contract_buildings := ls\<rparr> \<and> \<lparr>cb_org = org, cb_contractId = cid, cb_buildingId = bid\<rparr> \<in> set ls"
    using assms by (auto simp: upsert_contract_building_def run_def Let_def split: if_splits sum.splits
        intro: exI [of _ "contract_buildings d"])
  with that show thesis by (auto simp: upsert_contract_building_def run_def)
qed

text \<open>The statements in the middle, one table each.\<close>

lemma estate_settled:
  assumes "seed_indexes d0"
    and "buildings d = buildings d0" "apartments d = apartments d0" "occupancies d = occupancies d0"
      "vendors d = vendors d0" "vendor_buildings d = vendor_buildings d0" "contacts d = contacts d0"
    and "upsert_building org d = (Inr b, d1)"
    and "upsert_apartment org (bld_id b) d1 = (Inr flat, d2)"
    and "upsert_occupancy org (apt_id flat) mid d2 = (Inr o1, d3)"
    and "upsert_vendor org d3 = (Inr v, d4)"
    and "upsert_vendor_building org (ven_id v) (bld_id b) d4 = (Inr l, d5)"
    and "upsert_contact org (ven_id v) d5 = (Inr k, d6)"
  obtains bs fs os vs ls ks where "d6 = d\<lparr>buildings := bs, apartments := fs, occupancies := os, vendors := vs,
      vendor_buildings := ls, contacts := ks\<rparr>"
    and "\<And>dd. buildings dd = bs \<Longrightarrow> upsert_building org dd = (Inr b, dd)"
    and "\<And>dd. apartments dd = fs \<Longrightarrow> upsert_apartment org (bld_id b) dd = (Inr flat, dd)"
    and "\<And>dd. occupancies dd = os \<Longrightarrow> upsert_occupancy org (apt_id flat) mid dd = (Inr o1, dd)"
    and "\<And>dd. vendors dd = vs \<Longrightarrow> upsert_vendor org dd = (Inr v, dd)"
    and "\<And>dd. vendor_buildings dd = ls \<Longrightarrow> upsert_vendor_building org (ven_id v) (bld_id b) dd = (Inr l, dd)"
    and "\<And>dd. contacts dd = ks \<Longrightarrow> upsert_contact org (ven_id v) dd = (Inr k, dd)"
proof -
  note index = assms(1) [unfolded seed_indexes_def]
  from single_upserts(2) [OF assms(8)] index assms(2) obtain bs where d1: "d1 = d\<lparr>buildings := bs\<rparr>"
    and b: "\<forall>dd. buildings dd = bs \<longrightarrow> upsert_building org dd = (Inr b, dd)" by auto
  from single_upserts(3) [OF assms(9)] index assms(3) obtain fs where d2: "d2 = d1\<lparr>apartments := fs\<rparr>"
    and f: "\<forall>dd. apartments dd = fs \<longrightarrow> upsert_apartment org (bld_id b) dd = (Inr flat, dd)" by (auto simp: d1)
  from single_upserts(4) [OF assms(10)] index assms(4) obtain os where d3: "d3 = d2\<lparr>occupancies := os\<rparr>"
    and os: "\<forall>dd. occupancies dd = os \<longrightarrow> upsert_occupancy org (apt_id flat) mid dd = (Inr o1, dd)" by (auto simp: d2 d1)
  from single_upserts(5) [OF assms(11)] index assms(5) obtain vs where d4: "d4 = d3\<lparr>vendors := vs\<rparr>"
    and v: "\<forall>dd. vendors dd = vs \<longrightarrow> upsert_vendor org dd = (Inr v, dd)" by (auto simp: d3 d2 d1)
  from link_upsert [OF assms(12)] index assms(6) obtain ls where d5: "d5 = d4\<lparr>vendor_buildings := ls\<rparr>"
    and l: "\<forall>dd. vendor_buildings dd = ls \<longrightarrow> upsert_vendor_building org (ven_id v) (bld_id b) dd = (Inr l, dd)"
    by (auto simp: d4 d3 d2 d1)
  from single_upserts(6) [OF assms(13)] index assms(7) obtain ks where d6: "d6 = d5\<lparr>contacts := ks\<rparr>"
    and k: "\<forall>dd. contacts dd = ks \<longrightarrow> upsert_contact org (ven_id v) dd = (Inr k, dd)" by (auto simp: d5 d4 d3 d2 d1)
  show thesis
  proof (rule that)
    show "d6 = d\<lparr>buildings := bs, apartments := fs, occupancies := os, vendors := vs, vendor_buildings := ls, contacts := ks\<rparr>"
      by (simp add: d6 d5 d4 d3 d2 d1)
  qed (use b f os v l k in blast)+
qed

text \<open>On an empty database the script runs to its end.\<close>

lemma seed_fresh:
  "\<exists>d. seed (Some ''postgres'') c (Inr svc) e empty_db = (Inr (), d) \<and>
     users d = [seed_user ''02'' ''owner@demo.bloctrust.local'' ''Demo Owner'',
       seed_user ''04'' ''resident@demo.bloctrust.local'' ''Elena Resident'']"
  unfolding seed_def seed_main_def then_do_def empty_db_def
  by (simp add: truthy_def upsert_user_def upsert_organization_def upsert_membership_def upsert_building_def
      upsert_apartment_def upsert_occupancy_def upsert_vendor_def upsert_vendor_building_def upsert_contact_def
      upsert_contract_def upsert_contract_building_def seed_bank_def on_table_def run_def upsert_def create_unique_def
      update_unique_def update_rows_def has_building_def has_member_def has_vendor_def link_authorized_def links_of_def
      seed_user_def seed_organization_def seed_membership_def seed_building_def seed_apartment_def seed_occupancy_def
      seed_vendor_def seed_contact_def seed_contract_def seed_bank_version_def seed_verification_def seed_id_def
      user_keys_def membership_keys_def Let_def)



end
