(* ===== verification/Spec2Isabelle.thy ===== *)
theory Spec2Isabelle
  imports Staleness_Properties Version_Properties Evidence_Properties Ingest_Properties Listing_Properties
    Lifecycle_Properties Gateway_Properties Webhook_Properties Clamav_Properties Ocr_Properties Storage_Properties
    Web_Request_Properties Web_Run_Properties Seed_Properties
begin

text \<open>
  A verification development for BlocTrust CRM: a NestJS service (\<open>apps/api\<close>), a worker (\<open>apps/worker\<close>), a web
  application (\<open>apps/web\<close>) and a shared package (\<open>packages/domain\<close>) over one PostgreSQL database, for organizations that manage blocks of flats,
  their vendors and contracts, and the invoices that need one or two approvals before they are paid.

  \<^bold>\<open>The program.\<close>  A request passes the guards (session cookie, CSRF, role, recent passkey, organization of the path),
  its body is validated, and a controller calls one service.  A service runs one transaction on the rows of one
  organization.  An uploaded invoice document waits in quarantine; the worker scans it, promotes or blocks it, reads it by OCR and
  leaves the invoice for review; a reviewed invoice is scored by the risk engine and submitted, and the
  members decide.  Whatever the approval rested on (the draft, the vendor's bank account) may change meanwhile, and
  then the request is withdrawn.

  \<^bold>\<open>State.\<close>  \<open>Schema_Identity\<close>, \<open>Schema_Crm\<close> and \<open>Schema_Invoice\<close> are the tables of \<open>prisma/schema.prisma\<close> as records;
  \<open>Database\<close> is the record of all tables, the effects a request draws on (\<open>env\<close>: clock, identifiers, random tokens, SHA-256), the
  transaction \<open>run\<close> with rollback, and the audit writer.  A table is the list of its rows in the order of creation.
  Unique indexes, CHECK constraints and triggers are tests in the operations that meet them, with the name of the
  constraint as failure.  A handler is a function from the database to a failure or an answer, and the
  new database; errors are values of \<open>failure\<close>.  \<open>CRM_Prelude\<close> holds the failures, the JavaScript string functions, the
  operations of one table and the collections of hints; \<open>Json\<close>, \<open>Js_Number\<close> and \<open>Encoding\<close> are JSON texts, the
  conversions between numbers and texts, UTF-8, base64 and base64url.

  \<^bold>\<open>Components\<close> (theory: files under \<open>src\<close>).
  \<^item> \<open>Risk\<close>: \<open>risk/risk-engine.ts\<close>.  \<open>Approvals\<close>: \<open>approvals/approvals.service.ts\<close> and \<open>dto.ts\<close> with the
    triggers of its migration.
  \<^item> \<open>Crm_Common\<close>, \<open>Pagination\<close>, \<open>Buildings\<close>, \<open>Vendors\<close>, \<open>Contracts\<close>, \<open>Bank_Encryption\<close>, \<open>Dashboard\<close>: \<open>crm/\<close>.
  \<^item> \<open>Document_Validation\<close>, \<open>Invoices\<close>, \<open>Download_Tokens\<close>, \<open>Object_Storage\<close>: \<open>invoices/\<close>.
  \<^item> \<open>Pipeline\<close>, \<open>Clamav\<close>, \<open>Ocr\<close>, \<open>Object_Storage\<close>: \<open>apps/worker/src\<close>.  \<open>Work_Queue\<close>: \<open>invoices/invoice-queue.service.ts\<close> with
    \<open>apps/worker/src/main.ts\<close>, the job from its options to the last attempt and the console.
  \<^item> \<open>Sessions\<close>, \<open>Passkeys\<close>, \<open>Passwords\<close>, \<open>Auth\<close>: \<open>identity/\<close> and \<open>organizations/\<close>.  \<open>Fake_Bank\<close>: \<open>integrations/\<close>.
  \<^item> \<open>Domain\<close>: \<open>packages/domain\<close>.  The probes of \<open>health/\<close> are in \<open>Controllers\<close>.  \<open>Seed\<close>: \<open>prisma/seed.ts\<close>, one statement of the script after the other.
  \<^item> \<open>Http\<close>: cookies, CSRF and the guards.  \<open>Bodies\<close>: the validators of every request body.  \<open>Controllers\<close>,
    \<open>Crm_Controllers\<close>, \<open>Gateway\<close>: one datatype of calls per controller with the decorators (\<open>_route\<close>) and
    the handlers (\<open>_handler\<close>), and \<open>serve\<close>, the way of one request.
  \<^item> The web application, \<open>apps/web/app\<close>.  \<open>Web_Program\<close>: the JavaScript values that come from outside, programs that fetch, set
    the state of the page and throw, and \<open>lib/api.ts\<close>.  \<open>Web_View\<close>: trees of elements and what a user can do with them.
    \<open>Web_Approvals\<close>, \<open>Web_Invoices\<close>, \<open>Web_Crm\<close> with \<open>Web_Crm_View\<close>, and \<open>Web_Account\<close> (login, onboarding, security, home): of
    each page the record of its state, one program per event (\<open>_dispatch\<close>) and the rendering (\<open>render_\<close>).
    \<open>Web_Server\<close>: the routes of all controllers from a request of the browser to \<open>serve\<close>, the cookie jar and the response.
    \<open>Web_Requests\<close>: what a program sends and how it runs against a network.  \<open>Web_Run\<close>: any number of people at work with
    the pages, beside the worker and the bank, as a relation \<open>web_run\<close> between databases.

  \<^bold>\<open>Composition.\<close>  \<open>System\<close> makes one transition relation \<open>step\<close> of all operations, labelled with the organization an
  operation works for, and \<open>reachable\<close> databases.  The locale \<open>kept\<close> lifts what every step keeps to runs; it is interpreted on the
  invariant of the approvals (\<open>Approval_Invariant\<close>, \<open>Approval_Steps\<close>, \<open>Preservation\<close>), on the rows of the other organizations
  (\<open>Tenancy\<close>), on the link between documents and invoices (\<open>Ingest_Invariant\<close>) and on the transitions of the
  invoices (\<open>Lifecycle\<close>).  The other locales are \<open>transaction_runner\<close> (rollback and commit), interpreted on \<open>run\<close>, and \<open>listing\<close>
  (what a paged list promises a client that follows the cursors), interpreted on the lists of buildings, vendors,
  contracts and audit events.  \<open>Scenario\<close> is a concrete run, from an upload to an approval, that the witnesses use.

  \<^bold>\<open>What is shown.\<close>
  \<^item> Approvals (\<open>Approval_Properties\<close>, \<open>Submission_Properties\<close>, \<open>Staleness_Properties\<close>, \<open>Bank_Properties\<close>): in every reachable
    database an approved invoice has its quorum of distinct authorised members; a decision is made by an eligible member who is not the
    initiator and has just verified a passkey; what each call answers on every branch; idempotent replays; a changed draft or bank
    account withdraws the approval.
  \<^item> Risk (\<open>Risk_Properties\<close>, \<open>Evidence_Properties\<close>): the score equals a plain reference definition, it is monotone, the hashed evidence
    determines the facts, and (as a lemma) the canonical text does not depend on the order of the keys.
  \<^item> Documents (\<open>Ingest_Properties\<close>, \<open>Clamav_Properties\<close>, \<open>Ocr_Properties\<close>, \<open>Storage_Properties\<close>): an approval rests on a clean document, only clean
    documents are served, every job settles within its attempts, ClamAV is sent the very bytes of the document, suggestions have
    their shapes, and (as a lemma) an object is found under its path.
  \<^item> State machine (\<open>Lifecycle_Properties\<close>): the services refine the transition table of the shared package.
  \<^item> Access (\<open>Session_Properties\<close>, \<open>Auth_Properties\<close>, \<open>Gateway_Properties\<close>, \<open>Webhook_Properties\<close>, with \<open>Browser\<close> for the cookies): tokens round-trip and
    expire, a reused refresh token kills its family, a login carries over to the next request, and only members with
    the role and the fresh passkey the handler wants, the signed webhook or the onboarding change an organization.
  \<^item> CRM (\<open>Version_Properties\<close>, \<open>Listing_Properties\<close>, \<open>Bank_Properties\<close>): the second of two writers is refused, following the cursors lists
    everything once, bank accounts are sealed to their vendor and masked.

  \<^item> Web application (\<open>Web_Request_Properties\<close>, \<open>Web_Approvals_Properties\<close>, \<open>Web_Invoices_Properties\<close>): a request is repeated only after
    a refusal and unchanged, the save button is offered exactly when the service takes the draft, the page of the
    approvals breaks on what \<open>/auth/me\<close> answers, and two requests that refresh at the same time sign the user out.
  \<^item> The whole (\<open>Web_Run_Properties\<close>, with \<open>Unassigned\<close> for the databases whose invoices have no vendor): work with the pages alone never
    brings an invoice beyond its review.  \<open>Seed_Properties\<close>: the seed can be repeated and changes nothing.

  \<^bold>\<open>Conventions and bounds.\<close>  Strings are the Latin-1 fragment of JavaScript strings.  Money is an integer of hundredths.
  A double is computed exactly and rounded once (\<open>Js_Number\<close>).  Readings of the clock and fresh identifiers are numbered by the
  place that asks for them.  Lengths in the ClamAV stream are 32-bit words.  No definition runs on fuel except \<open>parse_entries\<close>
  of \<open>Encoding\<close> and the crawl of \<open>Pagination\<close>, where the length of the text and the number of rows are proved enough.
  Library code is an argument: HMAC, AES-GCM, HKDF, Argon2id, SHA-1, WebAuthn, the collation of the database, the
  breached-password service, the S3 server, ClamAV and the OCR commands.  What a theorem needs of one is a hypothesis
  by name (for instance \<open>digest_ok\<close>, \<open>seals\<close>, \<open>argon2_ok\<close>), and its witness instantiates it.
  Transactions are atomic; between the guards and the handler the database may change (\<open>serve\<close> takes both).

  \<^bold>\<open>Not modelled.\<close>  React's scheduling of renders and effects, the style sheet, and the unused badge of the shared user
  interface; scripts and tests; what the job queue does between adding and fetching a job, logging other than the worker's; dependency injection, helmet, CORS,
  the multipart parser and the matching of the router beyond templates of whole segments; the migrations beyond the constraints and triggers that the
  operations meet; the tables of invitations and recovery codes, which no service touches.
\<close>

end
